(* ===== verification/Prelude.thy ===== *)
theory Prelude
  imports Main "HOL-Library.AList"
begin

text \<open>
  Shared vocabulary of the development: the result of a Go call (a value, a returned error,
  a panic, or an exhausted goroutine stack), computations that thread a state through such
  calls, a small Hoare calculus for them, and Go maps as association lists.
\<close>

named_theorems run_simps \<open>equations that execute a state computation\<close>
named_theorems hoare_rules \<open>triples composed by the component proofs\<close>

section \<open>Results of Go calls\<close>

text \<open>
  A Go function that returns \<open>(T, error)\<close> yields \<open>Ok\<close> or \<open>Err\<close>. \<open>Panic\<close> carries the panic
  value, and \<open>Overflow\<close> is the fatal "stack overflow" of a goroutine whose recursion does
  not end.
\<close>

datatype ('e, 'a) result = Ok 'a | Err 'e | Panic string | Overflow

type_synonym ('e, 's, 'a) st = "'s \<Rightarrow> ('e, 'a) result \<times> 's"

definition ret :: "'a \<Rightarrow> ('e, 's, 'a) st" where
  [run_simps]: "ret a s = (Ok a, s)"

definition fail :: "'e \<Rightarrow> ('e, 's, 'a) st" where
  [run_simps]: "fail e s = (Err e, s)"

definition panicS :: "string \<Rightarrow> ('e, 's, 'a) st" where
  [run_simps]: "panicS p s = (Panic p, s)"

definition overflowS :: "('e, 's, 'a) st" where
  [run_simps]: "overflowS s = (Overflow, s)"

text \<open>
  \<open>catchS m f h\<close> is the Go idiom \<open>v, err := m; if err != nil { h err } else { f v }\<close>;
  \<open>bindS\<close> is its special case \<open>if err != nil { return err }\<close>.
\<close>

definition catchS ::
    "('e, 's, 'a) st \<Rightarrow> ('a \<Rightarrow> ('d, 's, 'b) st) \<Rightarrow> ('e \<Rightarrow> ('d, 's, 'b) st) \<Rightarrow> ('d, 's, 'b) st" where
  "catchS m f h s =
     (case m s of
        (Ok a, s') \<Rightarrow> f a s'
      | (Err e, s') \<Rightarrow> h e s'
      | (Panic p, s') \<Rightarrow> (Panic p, s')
      | (Overflow, s') \<Rightarrow> (Overflow, s'))"

definition bindS :: "('e, 's, 'a) st \<Rightarrow> ('a \<Rightarrow> ('e, 's, 'b) st) \<Rightarrow> ('e, 's, 'b) st" where
  "bindS m f = catchS m f fail"

definition liftR :: "('e, 'a) result \<Rightarrow> ('e, 's, 'a) st" where
  [run_simps]: "liftR r s = (r, s)"

text \<open>A \<open>for range\<close> loop that carries an accumulator and stops at the first error.\<close>

fun foldS :: "('x \<Rightarrow> 'a \<Rightarrow> ('e, 's, 'a) st) \<Rightarrow> 'x list \<Rightarrow> 'a \<Rightarrow> ('e, 's, 'a) st" where
  "foldS f [] a = ret a"
| "foldS f (x # xs) a = bindS (f x a) (foldS f xs)"

lemma catchS_simps [run_simps]:
  "m s = (Ok a, t) \<Longrightarrow> catchS m f h s = f a t"
  "m s = (Err e, t) \<Longrightarrow> catchS m f h s = h e t"
  "m s = (Panic p, t) \<Longrightarrow> catchS m f h s = (Panic p, t)"
  "m s = (Overflow, t) \<Longrightarrow> catchS m f h s = (Overflow, t)"
  by (simp_all add: catchS_def)

lemma bindS_simps [run_simps]:
  "m s = (Ok a, t) \<Longrightarrow> bindS m f s = f a t"
  "m s = (Err e, t) \<Longrightarrow> bindS m f s = (Err e, t)"
  "m s = (Panic p, t) \<Longrightarrow> bindS m f s = (Panic p, t)"
  "m s = (Overflow, t) \<Longrightarrow> bindS m f s = (Overflow, t)"
  by (simp_all add: bindS_def catchS_def fail_def)

lemma bindS_ret [simp]: "bindS (ret a) f = f a"
  by (rule ext) (simp add: run_simps)

lemma bindS_fail [simp]: "bindS (fail e) f = fail e"
  by (rule ext) (simp add: run_simps)

lemma catchS_ret [simp]: "catchS (ret a) f h = f a"
  by (rule ext) (simp add: run_simps)

lemma catchS_fail [simp]: "catchS (fail e) f h = h e"
  by (rule ext) (simp add: run_simps)

lemma bindS_Ok_iff:
  "bindS m f s = (Ok b, t) \<longleftrightarrow> (\<exists>a u. m s = (Ok a, u) \<and> f a u = (Ok b, t))"
  by (auto simp: bindS_def catchS_def fail_def split: prod.splits result.splits)

lemma bindS_Ok_E [elim!]:
  assumes "bindS m f s = (Ok b, t)"
  obtains a u where "m s = (Ok a, u)" and "f a u = (Ok b, t)"
  using assms by (auto simp: bindS_Ok_iff)

lemma bindS_assoc: "bindS (bindS m f) g = bindS m (\<lambda>a. bindS (f a) g)"
  by (rule ext)
    (auto simp: bindS_def catchS_def fail_def split: prod.splits result.splits)

section \<open>A Hoare calculus for state computations\<close>

definition hoare ::
    "('s \<Rightarrow> bool) \<Rightarrow> ('e, 's, 'a) st \<Rightarrow> (('e, 'a) result \<Rightarrow> 's \<Rightarrow> bool) \<Rightarrow> bool" where
  "hoare P m Q \<longleftrightarrow> (\<forall>s. P s \<longrightarrow> Q (fst (m s)) (snd (m s)))"

text \<open>\<open>keeps P m\<close>: the computation preserves \<open>P\<close>, whatever it returns.\<close>

abbreviation keeps :: "('s \<Rightarrow> bool) \<Rightarrow> ('e, 's, 'a) st \<Rightarrow> bool" where
  "keeps P m \<equiv> hoare P m (\<lambda>_. P)"

lemma hoareI: "(\<And>s. P s \<Longrightarrow> Q (fst (m s)) (snd (m s))) \<Longrightarrow> hoare P m Q"
  by (simp add: hoare_def)

lemma hoareD: "hoare P m Q \<Longrightarrow> P s \<Longrightarrow> m s = (r, t) \<Longrightarrow> Q r t"
  by (metis fst_conv hoare_def snd_conv)

lemma hoare_ret [hoare_rules]: "(\<And>s. P s \<Longrightarrow> Q (Ok a) s) \<Longrightarrow> hoare P (ret a) Q"
  by (simp add: hoare_def ret_def)

lemma hoare_fail [hoare_rules]: "(\<And>s. P s \<Longrightarrow> Q (Err e) s) \<Longrightarrow> hoare P (fail e) Q"
  by (simp add: hoare_def fail_def)

lemma hoare_liftR [hoare_rules]: "(\<And>s. P s \<Longrightarrow> Q r s) \<Longrightarrow> hoare P (liftR r) Q"
  by (simp add: hoare_def liftR_def)

lemma hoare_catchS:
  assumes m: "hoare P m R"
    and ok: "\<And>a. hoare (R (Ok a)) (f a) Q"
    and err: "\<And>e. hoare (R (Err e)) (h e) Q"
    and pan: "\<And>p s. R (Panic p) s \<Longrightarrow> Q (Panic p) s"
    and ovf: "\<And>s. R Overflow s \<Longrightarrow> Q Overflow s"
  shows "hoare P (catchS m f h) Q"
proof (rule hoareI)
  fix s
  assume "P s"
  obtain r t where rt: "m s = (r, t)"
    by (cases "m s")
  with m \<open>P s\<close> have "R r t"
    by (auto dest: hoareD)
  then show "Q (fst (catchS m f h s)) (snd (catchS m f h s))"
    using ok err pan ovf rt by (cases r) (auto simp: catchS_def hoare_def)
qed

lemma hoare_bindS:
  assumes "hoare P m R"
    and "\<And>a. hoare (R (Ok a)) (f a) Q"
    and "\<And>e s. R (Err e) s \<Longrightarrow> Q (Err e) s"
    and "\<And>p s. R (Panic p) s \<Longrightarrow> Q (Panic p) s"
    and "\<And>s. R Overflow s \<Longrightarrow> Q Overflow s"
  shows "hoare P (bindS m f) Q"
  unfolding bindS_def
  by (rule hoare_catchS [OF assms(1,2)]) (auto intro: hoare_fail assms(3-5))

lemma hoare_weaken: "hoare P' m Q' \<Longrightarrow> (\<And>s. P s \<Longrightarrow> P' s) \<Longrightarrow> (\<And>r s. Q' r s \<Longrightarrow> Q r s) \<Longrightarrow> hoare P m Q"
  by (simp add: hoare_def)

text \<open>A precondition that implies a fact not about the state.\<close>

lemma hoare_pure: "(\<And>s. P s \<Longrightarrow> C \<and> P' s) \<Longrightarrow> (C \<Longrightarrow> hoare P' m Q) \<Longrightarrow> hoare P m Q"
  unfolding hoare_def by blast

lemma keeps_bindS: "keeps P m \<Longrightarrow> (\<And>a. keeps P (f a)) \<Longrightarrow> keeps P (bindS m f)"
  by (rule hoare_bindS)

lemma keeps_catchS:
  "keeps P m \<Longrightarrow> (\<And>a. keeps P (f a)) \<Longrightarrow> (\<And>e. keeps P (h e)) \<Longrightarrow> keeps P (catchS m f h)"
  by (rule hoare_catchS)

lemma keeps_foldS: "(\<And>x a. keeps P (f x a)) \<Longrightarrow> keeps P (foldS f xs a)"
  by (induction xs arbitrary: a) (auto intro: keeps_bindS hoare_ret)

lemma keeps_if: "keeps P m \<Longrightarrow> keeps P n \<Longrightarrow> keeps P (if b then m else n)"
  by simp

text \<open>\<open>safe P m\<close>: it also never exhausts the stack.\<close>

abbreviation safe :: "('s \<Rightarrow> bool) \<Rightarrow> ('e, 's, 'a) st \<Rightarrow> bool" where
  "safe P m \<equiv> hoare P m (\<lambda>r s. P s \<and> r \<noteq> Overflow)"

lemma safe_bindS: "safe P m \<Longrightarrow> (\<And>a. safe P (f a)) \<Longrightarrow> safe P (bindS m f)"
  by (erule hoare_bindS) (auto simp: hoare_def)

lemma safe_catchS: "safe P m \<Longrightarrow> (\<And>a. safe P (f a)) \<Longrightarrow> (\<And>e. safe P (h e)) \<Longrightarrow> safe P (catchS m f h)"
  by (erule hoare_catchS) (auto simp: hoare_def)

lemma safe_ret: "safe P (ret a)"
  by (auto intro: hoare_ret)

lemma safe_fail: "safe P (fail e)"
  by (auto intro: hoare_fail)

lemma safe_liftR: "r \<noteq> Overflow \<Longrightarrow> safe P (liftR r)"
  by (auto intro: hoare_liftR)

lemma safe_if: "(b \<Longrightarrow> safe P m) \<Longrightarrow> (\<not> b \<Longrightarrow> safe P n) \<Longrightarrow> safe P (if b then m else n)"
  by simp

lemma safe_foldS: "(\<And>x a. x \<in> set xs \<Longrightarrow> safe P (f x a)) \<Longrightarrow> safe P (foldS f xs a)"
  by (induction xs arbitrary: a) (auto intro: safe_bindS safe_ret)

lemma hoare_bindS_safe:
  assumes "safe P m" and "\<And>a. hoare P (f a) Q" and "\<And>e s. P s \<Longrightarrow> Q (Err e) s"
    and "\<And>p s. P s \<Longrightarrow> Q (Panic p) s"
  shows "hoare P (bindS m f) Q"
  by (rule hoare_bindS [OF assms(1)]) (use assms(2-) in \<open>auto simp: hoare_def\<close>)

lemma safe_keeps: "safe P m \<Longrightarrow> keeps P m"
  by (simp add: hoare_def)

lemmas safe_intros = safe_bindS safe_catchS safe_foldS safe_if safe_ret safe_fail safe_liftR

lemmas keeps_intros = keeps_bindS keeps_catchS keeps_foldS keeps_if hoare_ret hoare_fail hoare_liftR

section \<open>Go maps\<close>

text \<open>
  A Go map with string keys is an association list (the order is the one a \<open>range\<close> loop
  visits), and \<open>None\<close> is the nil map, which reads as empty.
\<close>

type_synonym 'v gomap = "(string \<times> 'v) list option"

definition entries :: "'v gomap \<Rightarrow> (string \<times> 'v) list" where
  "entries m = (case m of None \<Rightarrow> [] | Some kvs \<Rightarrow> kvs)"

lemma entries_simps [simp]: "entries None = []" "entries (Some kvs) = kvs"
  by (simp_all add: entries_def)

definition lookup :: "'v gomap \<Rightarrow> string \<Rightarrow> 'v option" where
  "lookup m k = map_of (entries m) k"

text \<open>\<open>m[k]\<close> on a map of strings: the zero value when the key is absent.\<close>

definition get_str :: "string gomap \<Rightarrow> string \<Rightarrow> string" where
  "get_str m k = (case lookup m k of None \<Rightarrow> [] | Some v \<Rightarrow> v)"

definition put :: "string \<Rightarrow> 'v \<Rightarrow> (string \<times> 'v) list \<Rightarrow> (string \<times> 'v) list" where
  "put = AList.update"

text \<open>A range loop that copies every pair into the target.\<close>

definition put_all :: "(string \<times> 'v) list \<Rightarrow> (string \<times> 'v) list \<Rightarrow> (string \<times> 'v) list" where
  "put_all kvs m = fold (\<lambda>(k, v). put k v) kvs m"

definition wf_map :: "'v gomap \<Rightarrow> bool" where
  "wf_map m \<longleftrightarrow> distinct (map fst (entries m))"

lemma map_of_put [simp]: "map_of (put k v m) = (map_of m)(k \<mapsto> v)"
  by (simp add: put_def update_conv')

lemma distinct_put [simp]: "distinct (map fst m) \<Longrightarrow> distinct (map fst (put k v m))"
  by (simp add: put_def distinct_update)

lemma put_all_Nil [simp]: "put_all [] m = m"
  by (simp add: put_all_def)

lemma put_all_Cons [simp]: "put_all ((k, v) # kvs) m = put_all kvs (put k v m)"
  by (simp add: put_all_def)

lemma distinct_put_all [simp]: "distinct (map fst m) \<Longrightarrow> distinct (map fst (put_all kvs m))"
  by (induction kvs arbitrary: m) auto

text \<open>With distinct keys the copy overrides the target and keeps its other keys.\<close>

lemma map_of_put_all:
  "distinct (map fst kvs) \<Longrightarrow> map_of (put_all kvs m) = map_of m ++ map_of kvs"
proof (induction kvs arbitrary: m)
  case Nil
  then show ?case by simp
next
  case (Cons kv kvs)
  obtain k v where kv: "kv = (k, v)" by fastforce
  with Cons.prems have "k \<notin> dom (map_of kvs)"
    by (auto simp: dom_map_of_conv_image_fst)
  with Cons kv show ?case
    by (auto simp: map_add_def fun_eq_iff split: option.splits)
qed

lemma map_of_filter_distinct:
  "distinct (map fst m) \<Longrightarrow>
     map_of (filter P m) k = (case map_of m k of None \<Rightarrow> None | Some v \<Rightarrow> if P (k, v) then Some v else None)"
proof (induction m)
  case Nil
  then show ?case by simp
next
  case (Cons kv m)
  obtain k' v' where "kv = (k', v')" by fastforce
  moreover have "map_of m k' = None"
    using Cons.prems \<open>kv = (k', v')\<close> by (auto simp: map_of_eq_None_iff)
  ultimately show ?case
    using Cons by (auto split: option.splits)
qed

section \<open>Finding list elements\<close>

lemma find_Some_unique:
  assumes "distinct (map f xs)" and "x \<in> set xs"
  shows "find (\<lambda>y. f y = f x) xs = Some x"
  using assms by (induction xs) auto

lemma find_Some_mem: "find P xs = Some x \<Longrightarrow> x \<in> set xs \<and> P x"
  by (induction xs) (auto split: if_splits)

lemma find_append: "find P (xs @ ys) = (case find P xs of Some x \<Rightarrow> Some x | None \<Rightarrow> find P ys)"
  by (induction xs) auto

end
