(* ===== verification/Go_Strings.thy ===== *)
theory Go_Strings
  imports Prelude
begin

text \<open>
  The part of Go's \<open>strings\<close>, \<open>strconv\<close>, \<open>fmt\<close> and \<open>regexp\<close> packages the program calls, on
  strings as byte lists: character classes, \<open>TrimSpace\<close>, \<open>TrimPrefix\<close>, \<open>TrimSuffix\<close>,
  \<open>HasPrefix\<close>, \<open>Split\<close>, \<open>Join\<close>, \<open>ToLower\<close>, decimal printing and \<open>Atoi\<close>. \<open>ToLower\<close> maps ASCII
  letters; bytes above 127 are kept.
\<close>

section \<open>Characters\<close>

abbreviation code :: "char \<Rightarrow> nat" where
  "code \<equiv> of_char"

definition is_digit :: "char \<Rightarrow> bool" where
  "is_digit c \<longleftrightarrow> 48 \<le> code c \<and> code c \<le> 57"

definition is_alpha :: "char \<Rightarrow> bool" where
  "is_alpha c \<longleftrightarrow> (65 \<le> code c \<and> code c \<le> 90) \<or> (97 \<le> code c \<and> code c \<le> 122)"

text \<open>The class \<open>[A-Za-z0-9_-]\<close>.\<close>

definition is_name_char :: "char \<Rightarrow> bool" where
  "is_name_char c \<longleftrightarrow> is_alpha c \<or> is_digit c \<or> c = CHR ''_'' \<or> c = CHR ''-''"

definition lower_char :: "char \<Rightarrow> char" where
  "lower_char c = (if 65 \<le> code c \<and> code c \<le> 90 then char_of (code c + 32) else c)"

definition ToLower :: "string \<Rightarrow> string" where
  "ToLower s = map lower_char s"

text \<open>A value printed between single quotes, as in the format \<open>'%s'\<close>.\<close>

definition sq :: "string \<Rightarrow> string" where
  "sq s = CHR 0x27 # s @ [CHR 0x27]"

lemma lower_char_idem: "lower_char (lower_char c) = lower_char c"
  by (auto simp: lower_char_def)

lemma ToLower_idem [simp]: "ToLower (ToLower s) = ToLower s"
  by (simp add: ToLower_def lower_char_idem)

lemma ToLower_eq_Nil [simp]: "ToLower s = [] \<longleftrightarrow> s = []"
  by (simp add: ToLower_def)

section \<open>Prefixes and suffixes\<close>

fun strip_pre :: "'a list \<Rightarrow> 'a list \<Rightarrow> 'a list option" where
  "strip_pre [] s = Some s"
| "strip_pre (p # ps) [] = None"
| "strip_pre (p # ps) (c # cs) = (if p = c then strip_pre ps cs else None)"

lemma strip_pre_Some_iff: "strip_pre p s = Some t \<longleftrightarrow> s = p @ t"
  by (induction p s rule: strip_pre.induct) auto

lemma strip_pre_None_iff: "strip_pre p s = None \<longleftrightarrow> (\<forall>t. s \<noteq> p @ t)"
  using strip_pre_Some_iff by (metis option.distinct(1) option.exhaust)

definition HasPrefix :: "string \<Rightarrow> string \<Rightarrow> bool" where
  "HasPrefix s p \<longleftrightarrow> strip_pre p s \<noteq> None"

definition TrimPrefix :: "string \<Rightarrow> string \<Rightarrow> string" where
  "TrimPrefix s p = (case strip_pre p s of None \<Rightarrow> s | Some t \<Rightarrow> t)"

definition TrimSuffix :: "string \<Rightarrow> string \<Rightarrow> string" where
  "TrimSuffix s p = (case strip_pre (rev p) (rev s) of None \<Rightarrow> s | Some t \<Rightarrow> rev t)"

lemma TrimSuffix_append [simp]: "TrimSuffix (s @ p) p = s"
  by (simp add: TrimSuffix_def strip_pre_Some_iff [of "rev p" "rev p @ rev s" "rev s", THEN iffD2])

lemma length_TrimSuffix: "length (TrimSuffix s p) \<le> length s"
proof (cases "strip_pre (rev p) (rev s)")
  case None
  then show ?thesis by (simp add: TrimSuffix_def)
next
  case (Some t)
  then have "length (rev s) = length p + length t"
    by (simp add: strip_pre_Some_iff)
  with Some show ?thesis by (simp add: TrimSuffix_def)
qed

section \<open>TrimSpace\<close>

text \<open>The UTF-8 encodings of the code points \<open>unicode.IsSpace\<close> accepts.\<close>

definition go_spaces :: "string list" where
  "go_spaces =
     [[CHR 0x09], [CHR 0x0A], [CHR 0x0B], [CHR 0x0C], [CHR 0x0D], [CHR 0x20],
      [CHR 0xC2, CHR 0x85], [CHR 0xC2, CHR 0xA0], [CHR 0xE1, CHR 0x9A, CHR 0x80],
      [CHR 0xE2, CHR 0x80, CHR 0x80], [CHR 0xE2, CHR 0x80, CHR 0x81],
      [CHR 0xE2, CHR 0x80, CHR 0x82], [CHR 0xE2, CHR 0x80, CHR 0x83],
      [CHR 0xE2, CHR 0x80, CHR 0x84], [CHR 0xE2, CHR 0x80, CHR 0x85],
      [CHR 0xE2, CHR 0x80, CHR 0x86], [CHR 0xE2, CHR 0x80, CHR 0x87],
      [CHR 0xE2, CHR 0x80, CHR 0x88], [CHR 0xE2, CHR 0x80, CHR 0x89],
      [CHR 0xE2, CHR 0x80, CHR 0x8A], [CHR 0xE2, CHR 0x80, CHR 0xA8],
      [CHR 0xE2, CHR 0x80, CHR 0xA9], [CHR 0xE2, CHR 0x80, CHR 0xAF],
      [CHR 0xE2, CHR 0x81, CHR 0x9F], [CHR 0xE3, CHR 0x80, CHR 0x80]]"

fun lead_space :: "'a list list \<Rightarrow> 'a list \<Rightarrow> 'a list option" where
  "lead_space [] s = None"
| "lead_space (p # ps) s =
     (case strip_pre p s of
        Some t \<Rightarrow> if p = [] then lead_space ps s else Some t
      | None \<Rightarrow> lead_space ps s)"

lemma lead_space_Some_D: "lead_space ps s = Some t \<Longrightarrow> \<exists>p \<in> set ps. p \<noteq> [] \<and> s = p @ t"
  by (induction ps) (auto split: option.splits if_splits simp: strip_pre_Some_iff)

lemma lead_space_None_D: "lead_space ps s = None \<Longrightarrow> p \<in> set ps \<Longrightarrow> p \<noteq> [] \<Longrightarrow> s \<noteq> p @ t"
  by (induction ps) (auto split: option.splits if_splits simp: strip_pre_None_iff)

lemma lead_space_NoneI: "(\<And>p t. p \<in> set ps \<Longrightarrow> p \<noteq> [] \<Longrightarrow> s \<noteq> p @ t) \<Longrightarrow> lead_space ps s = None"
  by (metis lead_space_Some_D not_None_eq)

function trim_with :: "'a list list \<Rightarrow> 'a list \<Rightarrow> 'a list" where
  "trim_with ps s = (case lead_space ps s of None \<Rightarrow> s | Some t \<Rightarrow> trim_with ps t)"
  by pat_completeness auto
termination
  by (relation "measure (\<lambda>(ps, s). length s)") (auto dest: lead_space_Some_D)

declare trim_with.simps [simp del]

definition TrimSpace :: "string \<Rightarrow> string" where
  "TrimSpace s = rev (trim_with (map rev go_spaces) (rev (trim_with go_spaces s)))"

lemma trim_with_lead: "lead_space ps (trim_with ps s) = None"
  by (induction ps s rule: trim_with.induct) (subst trim_with.simps, auto split: option.splits)

lemma trim_with_fix: "lead_space ps s = None \<Longrightarrow> trim_with ps s = s"
  by (subst trim_with.simps) simp

lemma trim_with_suffix: "\<exists>p. s = p @ trim_with ps s"
proof (induction ps s rule: trim_with.induct)
  case (1 ps s)
  show ?case
  proof (cases "lead_space ps s")
    case None
    then show ?thesis by (simp add: trim_with_fix)
  next
    case (Some t)
    from "1" [OF this] obtain q where "t = q @ trim_with ps t" by blast
    moreover from Some obtain p where "s = p @ t" by (blast dest: lead_space_Some_D)
    ultimately have "s = (p @ q) @ trim_with ps s"
      using Some by (subst trim_with.simps) auto
    then show ?thesis by blast
  qed
qed

lemma TrimSpace_idem [simp]: "TrimSpace (TrimSpace s) = TrimSpace s"
proof -
  let ?u = "trim_with go_spaces s" and ?r = "map rev go_spaces"
  let ?v = "trim_with ?r (rev ?u)"
  obtain p where p: "rev ?u = p @ ?v"
    using trim_with_suffix by blast
  then have u: "?u = rev ?v @ rev p"
    by (metis rev_append rev_rev_ident)
  have "lead_space go_spaces (rev ?v) = None"
  proof (rule lead_space_NoneI, rule notI)
    fix q t assume q: "q \<in> set go_spaces" "q \<noteq> []" "rev ?v = q @ t"
    with u have "?u = q @ (t @ rev p)" by simp
    with q lead_space_None_D [OF trim_with_lead] show False by blast
  qed
  then have "trim_with go_spaces (rev ?v) = rev ?v"
    by (rule trim_with_fix)
  moreover have "trim_with ?r ?v = ?v"
    by (rule trim_with_fix) (rule trim_with_lead)
  ultimately show ?thesis
    by (simp add: TrimSpace_def)
qed

lemma length_TrimSpace: "length (TrimSpace s) \<le> length s"
proof -
  have le: "length (trim_with ps u) \<le> length u" for ps :: "'a list list" and u
    using trim_with_suffix [of u ps] by (metis le_add2 length_append)
  show ?thesis
    unfolding TrimSpace_def using le [of go_spaces s] le [of "map rev go_spaces" "rev (trim_with go_spaces s)"]
    by simp
qed

section \<open>Split and Join\<close>

fun split_on :: "char \<Rightarrow> string \<Rightarrow> string list" where
  "split_on c [] = [[]]"
| "split_on c (x # xs) =
     (if x = c then [] # split_on c xs
      else case split_on c xs of [] \<Rightarrow> [[x]] | y # ys \<Rightarrow> (x # y) # ys)"

fun join :: "string \<Rightarrow> string list \<Rightarrow> string" where
  "join sep [] = []"
| "join sep [x] = x"
| "join sep (x # y # ys) = x @ sep @ join sep (y # ys)"

lemma split_on_nonempty [simp]: "split_on c s \<noteq> []"
  by (induction s) (auto split: list.splits)

lemma split_on_fresh: "c \<notin> set s \<Longrightarrow> split_on c s = [s]"
  by (induction s) auto

lemma split_on_append: "c \<notin> set x \<Longrightarrow> split_on c (x @ c # s) = x # split_on c s"
  by (induction x) auto

lemma split_on_join:
  "xs \<noteq> [] \<Longrightarrow> \<forall>x \<in> set xs. c \<notin> set x \<Longrightarrow> split_on c (join [c] xs) = xs"
  by (induction "[c]" xs rule: join.induct) (auto simp: split_on_fresh split_on_append)

lemma join_split_on: "join [c] (split_on c s) = s"
proof (induction s)
  case Nil
  then show ?case by simp
next
  case (Cons x s)
  obtain y ys where "split_on c s = y # ys"
    using split_on_nonempty by (metis list.exhaust)
  with Cons show ?case by (cases ys) auto
qed

text \<open>Joining parts that do not hold the separator is injective.\<close>

lemma join_inject:
  assumes "join [c] xs = join [c] ys" and "xs \<noteq> []" and "ys \<noteq> []"
    and "\<forall>x \<in> set xs \<union> set ys. c \<notin> set x"
  shows "xs = ys"
proof -
  have "split_on c (join [c] xs) = xs"
    using assms(2,4) by (intro split_on_join) auto
  moreover have "split_on c (join [c] ys) = ys"
    using assms(3,4) by (intro split_on_join) auto
  ultimately show ?thesis using assms(1) by metis
qed

text \<open>\<open>strings.SplitN(s, sep, 2)\<close>: one part when the separator is absent, else two.\<close>

fun split2 :: "char \<Rightarrow> string \<Rightarrow> string list" where
  "split2 c [] = [[]]"
| "split2 c (x # xs) =
     (if x = c then [[], xs]
      else case split2 c xs of [] \<Rightarrow> [[x]] | y # ys \<Rightarrow> (x # y) # ys)"

lemma split2_append: "c \<notin> set k \<Longrightarrow> split2 c (k @ c # v) = [k, v]"
  by (induction k) auto

lemma split2_fresh: "c \<notin> set s \<Longrightarrow> split2 c s = [s]"
  by (induction s) auto

section \<open>Decimal numbers\<close>

definition digit :: "nat \<Rightarrow> char" where
  "digit n = char_of (48 + n)"

fun show_nat :: "nat \<Rightarrow> string" where
  "show_nat n = (if n < 10 then [digit n] else show_nat (n div 10) @ [digit (n mod 10)])"

declare show_nat.simps [simp del]

definition show_int :: "int \<Rightarrow> string" where
  "show_int i = (if i < 0 then CHR ''-'' # show_nat (nat (- i)) else show_nat (nat i))"

fun read_digits :: "nat \<Rightarrow> string \<Rightarrow> nat option" where
  "read_digits acc [] = Some acc"
| "read_digits acc (c # cs) = (if is_digit c then read_digits (acc * 10 + (code c - 48)) cs else None)"

definition read_nat :: "string \<Rightarrow> nat option" where
  "read_nat s = (if s = [] then None else read_digits 0 s)"

definition int64_max :: int where
  "int64_max = 9223372036854775807"

text \<open>
  \<open>strconv.Atoi\<close>: an optional sign, then decimal digits; \<open>None\<close> for a syntax error or a value
  out of the 64-bit range.
\<close>

definition Atoi :: "string \<Rightarrow> int option" where
  "Atoi s =
     (let (neg, ds) = (case s of [] \<Rightarrow> (False, []) | c # cs \<Rightarrow>
          if c = CHR ''-'' then (True, cs) else if c = CHR ''+'' then (False, cs) else (False, s))
      in case read_nat ds of
           None \<Rightarrow> None
         | Some n \<Rightarrow>
             (let i = (if neg then - int n else int n)
              in if - int64_max - 1 \<le> i \<and> i \<le> int64_max then Some i else None))"

lemma code_digit: "n < 10 \<Longrightarrow> code (digit n) = 48 + n"
  by (simp add: digit_def)

lemma is_digit_digit [simp]: "n < 10 \<Longrightarrow> is_digit (digit n)"
  by (simp add: is_digit_def code_digit)

lemma show_nat_nonempty [simp]: "show_nat n \<noteq> []"
  by (subst show_nat.simps) simp

lemma show_nat_digits: "list_all is_digit (show_nat n)"
proof (induction n rule: show_nat.induct)
  case (1 n)
  then show ?case by (subst show_nat.simps) auto
qed

lemma read_digits_append:
  "read_digits acc (xs @ [c]) =
     (case read_digits acc xs of None \<Rightarrow> None
      | Some n \<Rightarrow> if is_digit c then Some (n * 10 + (code c - 48)) else None)"
  by (induction xs arbitrary: acc) auto

lemma read_digits_show_nat: "read_digits 0 (show_nat n) = Some n"
proof (induction n rule: show_nat.induct)
  case (1 n)
  show ?case
  proof (cases "n < 10")
    case True
    then show ?thesis by (subst show_nat.simps) (simp add: code_digit)
  next
    case False
    with "1" have "read_digits 0 (show_nat (n div 10)) = Some (n div 10)" by simp
    with False show ?thesis
      by (subst show_nat.simps) (simp add: read_digits_append code_digit)
  qed
qed

lemma read_nat_show_nat [simp]: "read_nat (show_nat n) = Some n"
  by (simp add: read_nat_def read_digits_show_nat)

lemma show_nat_inject [simp]: "show_nat m = show_nat n \<longleftrightarrow> m = n"
  by (metis option.inject read_nat_show_nat)

end
