(* ===== verification/Errors.thy ===== *)
theory Errors
  imports Go_Strings
begin

text \<open>
  \<open>pkg/errors/errors.go\<close>: the \<open>Error\<close> struct with its categories, \<open>WithMsgf\<close>, \<open>WithCausef\<close>,
  \<open>Is\<close>, \<open>Error\<close>, \<open>Errorf\<close>, \<open>OneOf\<close> and \<open>E\<close>, together with the other error values that flow
  through the program (database, context, worker and plain errors) and Go's
  \<open>errors.Is\<close> / \<open>errors.As\<close> over their chains.
\<close>

section \<open>Error values\<close>

record Error =
  err_Code :: string
  err_Cause :: string
  err_Message :: string

text \<open>
  \<open>PqErr name text\<close> is a \<open>*pq.Error\<close> with the condition name of its code; \<open>RetryErr\<close> is a
  \<open>*worker.RetryableError\<close> with its cause and delay; \<open>WrapErr\<close> is \<open>fmt.Errorf("%w...", err)\<close>
  with the text that follows the wrapped error; \<open>PlainErr\<close> is any other error value.
\<close>

datatype gerror =
    EErr Error
  | ErrNoRows
  | CtxCanceled
  | CtxDeadline
  | PqErr string string
  | RetryErr gerror int
  | WrapErr gerror string
  | PlainErr string

type_synonym 'a outcome = "(gerror, 'a) result"
type_synonym ('s, 'a) go = "(gerror, 's, 'a) st"

definition codeInternal :: string where
  "codeInternal = ''internal_error''"

definition ErrInvalid :: Error where
  "ErrInvalid = \<lparr>err_Code = ''bad_request'', err_Cause = [], err_Message = ''request is not valid''\<rparr>"

definition ErrNotFound :: Error where
  "ErrNotFound = \<lparr>err_Code = ''not_found'', err_Cause = [], err_Message = ''requested entity not found''\<rparr>"

definition ErrConflict :: Error where
  "ErrConflict =
     \<lparr>err_Code = ''conflict'', err_Cause = [], err_Message = ''an entity with conflicting identifier exists''\<rparr>"

definition ErrInternal :: Error where
  "ErrInternal = \<lparr>err_Code = codeInternal, err_Cause = [], err_Message = ''some unexpected error occurred''\<rparr>"

definition ErrUnsupported :: Error where
  "ErrUnsupported =
     \<lparr>err_Code = ''unsupported'', err_Cause = [], err_Message = ''requested feature is not supported''\<rparr>"

definition WithCausef :: "Error \<Rightarrow> string \<Rightarrow> Error" where
  "WithCausef e cause = e\<lparr>err_Cause := cause\<rparr>"

definition WithMsgf :: "Error \<Rightarrow> string \<Rightarrow> Error" where
  "WithMsgf e msg = e\<lparr>err_Message := msg\<rparr>"

definition Error_Error :: "Error \<Rightarrow> string" where
  "Error_Error e =
     err_Code e
     @ (if err_Message e \<noteq> [] then '': '' @ err_Message e else [])
     @ (if err_Cause e \<noteq> [] then '': '' @ err_Cause e else [])"

fun error_text :: "gerror \<Rightarrow> string" where
  "error_text (EErr e) = Error_Error e"
| "error_text ErrNoRows = ''sql: no rows in result set''"
| "error_text CtxCanceled = ''context canceled''"
| "error_text CtxDeadline = ''context deadline exceeded''"
| "error_text (PqErr name txt) = ''pq: '' @ txt"
| "error_text (RetryErr cause after) = ''retryable-error: '' @ error_text cause"
| "error_text (WrapErr e txt) = error_text e @ txt"
| "error_text (PlainErr txt) = txt"

section \<open>Is and As\<close>

text \<open>The method \<open>Error.Is\<close>: an internal error is considered equal to every foreign target.\<close>

definition Error_Is :: "Error \<Rightarrow> gerror \<Rightarrow> bool" where
  "Error_Is e other =
     (case other of EErr oe \<Rightarrow> err_Code oe = err_Code e | _ \<Rightarrow> err_Code e = err_Code ErrInternal)"

text \<open>\<open>errors.Is\<close>: equal to the target, or accepted by its \<open>Is\<close> method, or so for a wrapped error.\<close>

fun errors_Is :: "gerror \<Rightarrow> gerror \<Rightarrow> bool" where
  "errors_Is (EErr e) t = (EErr e = t \<or> Error_Is e t)"
| "errors_Is (WrapErr e txt) t = (WrapErr e txt = t \<or> errors_Is e t)"
| "errors_Is e t = (e = t)"

fun As_Error :: "gerror \<Rightarrow> Error option" where
  "As_Error (EErr e) = Some e"
| "As_Error (WrapErr e _) = As_Error e"
| "As_Error _ = None"

fun As_Retryable :: "gerror \<Rightarrow> (gerror \<times> int) option" where
  "As_Retryable (RetryErr c d) = Some (c, d)"
| "As_Retryable (WrapErr e _) = As_Retryable e"
| "As_Retryable _ = None"

fun As_pq :: "gerror \<Rightarrow> string option" where
  "As_pq (PqErr name _) = Some name"
| "As_pq (WrapErr e _) = As_pq e"
| "As_pq _ = None"

definition Errorf :: "string \<Rightarrow> gerror" where
  "Errorf msg = EErr (WithMsgf ErrInternal msg)"

fun OneOf :: "gerror \<Rightarrow> gerror list \<Rightarrow> bool" where
  "OneOf err [] = False"
| "OneOf err (other # others) = (if errors_Is err other then True else OneOf err others)"

definition E :: "gerror \<Rightarrow> Error" where
  "E err = (case As_Error err of Some e \<Rightarrow> e | None \<Rightarrow> WithCausef ErrInternal (error_text err))"

section \<open>Abbreviations for the categories\<close>

abbreviation invalid :: "string \<Rightarrow> gerror" where
  "invalid msg \<equiv> EErr (WithMsgf ErrInvalid msg)"

abbreviation internal_cause :: "gerror \<Rightarrow> gerror" where
  "internal_cause e \<equiv> EErr (WithCausef ErrInternal (error_text e))"

abbreviation isInvalid :: "gerror \<Rightarrow> bool" where
  "isInvalid e \<equiv> errors_Is e (EErr ErrInvalid)"

abbreviation isNotFound :: "gerror \<Rightarrow> bool" where
  "isNotFound e \<equiv> errors_Is e (EErr ErrNotFound)"

abbreviation isConflict :: "gerror \<Rightarrow> bool" where
  "isConflict e \<equiv> errors_Is e (EErr ErrConflict)"

abbreviation isUnsupported :: "gerror \<Rightarrow> bool" where
  "isUnsupported e \<equiv> errors_Is e (EErr ErrUnsupported)"

section \<open>Facts\<close>

lemmas category_defs = ErrInvalid_def ErrNotFound_def ErrConflict_def ErrInternal_def ErrUnsupported_def
  codeInternal_def

lemma With_code [simp]:
  "err_Code (WithMsgf e m) = err_Code e"
  "err_Code (WithCausef e c) = err_Code e"
  by (simp_all add: WithMsgf_def WithCausef_def)

lemma category_codes [simp]:
  "err_Code ErrInvalid = ''bad_request''"
  "err_Code ErrNotFound = ''not_found''"
  "err_Code ErrConflict = ''conflict''"
  "err_Code ErrInternal = ''internal_error''"
  "err_Code ErrUnsupported = ''unsupported''"
  by (simp_all add: category_defs)

lemma errors_Is_EErr [simp]: "errors_Is (EErr e) (EErr t) \<longleftrightarrow> err_Code t = err_Code e"
  by (auto simp: Error_Is_def)

declare errors_Is.simps(1) [simp del]

lemma errors_Is_EErr_foreign:
  "(\<And>e'. t \<noteq> EErr e') \<Longrightarrow> errors_Is (EErr e) t \<longleftrightarrow> err_Code e = ''internal_error''"
  by (cases t) (auto simp: errors_Is.simps(1) Error_Is_def)

lemma errors_Is_refl [simp]: "errors_Is e e"
  by (cases e) auto

text \<open>
  The category predicates of an error chain are decided by the \<open>Error\<close> that \<open>errors.As\<close> finds in
  it, so \<open>E\<close> preserves them; an error with none in its chain becomes internal.
\<close>

lemma errors_Is_As: "As_Error err = Some e \<Longrightarrow> errors_Is err (EErr t) \<longleftrightarrow> err_Code t = err_Code e"
  by (induction err) auto

lemma errors_Is_foreign: "As_Error err = None \<Longrightarrow> \<not> errors_Is err (EErr t)"
  by (induction err) auto

lemma E_code:
  "err_Code (E err) = (case As_Error err of Some e \<Rightarrow> err_Code e | None \<Rightarrow> ''internal_error'')"
  by (simp add: E_def split: option.splits)

lemma OneOf_iff: "OneOf err others \<longleftrightarrow> (\<exists>t \<in> set others. errors_Is err t)"
  by (induction others) auto

end
