(* ===== verification/Json.thy ===== *)
theory Json
  imports Errors "HOL-Library.List_Lexorder" "HOL-Library.Char_ord"
begin

text \<open>
  What the program uses of Go's \<open>encoding/json\<close>. A \<open>json.RawMessage\<close> is nil or a byte slice;
  a byte slice that is a JSON text is represented by the document it spells, every other slice
  by its bytes. \<open>Unmarshal\<close> into a struct walks the object's
  members in order, finds the field by its tag (exactly, else ignoring case), skips unknown
  members, leaves the field alone on \<open>null\<close> and reports a type mismatch after the walk.
\<close>

section \<open>Documents and raw messages\<close>

datatype json =
    JNull
  | JBool bool
  | JInt int
  | JFloat string
  | JStr string
  | JArr "json list"
  | JObj "(string \<times> json) list"

datatype bytes = Doc json | Text string

type_synonym raw = "bytes option"

definition raw_empty :: "raw \<Rightarrow> bool" where
  "raw_empty r \<longleftrightarrow> r = None \<or> r = Some (Text [])"

definition bytes_Equal :: "raw \<Rightarrow> raw \<Rightarrow> bool" where
  "bytes_Equal a b \<longleftrightarrow> a = b \<or> (raw_empty a \<and> raw_empty b)"

definition raw_doc :: "json \<Rightarrow> raw" where
  "raw_doc j = Some (Doc j)"

definition json_parse :: "raw \<Rightarrow> json outcome" where
  "json_parse r =
     (case r of
        Some (Doc j) \<Rightarrow> Ok j
      | Some (Text []) \<Rightarrow> Err (PlainErr ''unexpected end of JSON input'')
      | Some (Text t) \<Rightarrow> Err (PlainErr ''invalid character in JSON input'')
      | None \<Rightarrow> Err (PlainErr ''unexpected end of JSON input''))"

section \<open>Decoding into structs\<close>

type_synonym 'r setter = "json \<Rightarrow> 'r \<Rightarrow> 'r option"

definition field_for :: "(string \<times> 'r setter) list \<Rightarrow> string \<Rightarrow> 'r setter option" where
  "field_for fs k =
     (case map_of fs k of
        Some f \<Rightarrow> Some f
      | None \<Rightarrow> map_option snd (find (\<lambda>(n, _). ToLower n = ToLower k) fs))"

definition set_member :: "(string \<times> 'r setter) list \<Rightarrow> string \<times> json \<Rightarrow> 'r \<times> bool \<Rightarrow> 'r \<times> bool" where
  "set_member fs kv st =
     (case field_for fs (fst kv) of
        None \<Rightarrow> st
      | Some f \<Rightarrow> (case f (snd kv) (fst st) of Some r' \<Rightarrow> (r', snd st) | None \<Rightarrow> (fst st, True)))"

definition unmarshal_type_error :: gerror where
  "unmarshal_type_error = PlainErr ''json: cannot unmarshal value into Go struct field''"

definition decode_obj :: "(string \<times> 'r setter) list \<Rightarrow> json \<Rightarrow> 'r \<Rightarrow> 'r outcome" where
  "decode_obj fs j r =
     (case j of
        JNull \<Rightarrow> Ok r
      | JObj kvs \<Rightarrow> (let (r', bad) = fold (set_member fs) kvs (r, False)
                    in if bad then Err unmarshal_type_error else Ok r')
      | _ \<Rightarrow> Err unmarshal_type_error)"

definition Unmarshal :: "(string \<times> 'r setter) list \<Rightarrow> raw \<Rightarrow> 'r \<Rightarrow> 'r outcome" where
  "Unmarshal fs raw r =
     (case json_parse raw of
        Ok j \<Rightarrow> decode_obj fs j r
      | Err e \<Rightarrow> Err e
      | Panic p \<Rightarrow> Panic p
      | Overflow \<Rightarrow> Overflow)"

text \<open>Setters for the field types; the argument is the record update of the field.\<close>

definition set_str :: "((string \<Rightarrow> string) \<Rightarrow> 'r \<Rightarrow> 'r) \<Rightarrow> 'r setter" where
  "set_str upd j r = (case j of JStr s \<Rightarrow> Some (upd (\<lambda>_. s) r) | JNull \<Rightarrow> Some r | _ \<Rightarrow> None)"

definition set_int :: "((int \<Rightarrow> int) \<Rightarrow> 'r \<Rightarrow> 'r) \<Rightarrow> 'r setter" where
  "set_int upd j r =
     (case j of
        JInt i \<Rightarrow> if - int64_max - 1 \<le> i \<and> i \<le> int64_max then Some (upd (\<lambda>_. i) r) else None
      | JNull \<Rightarrow> Some r
      | _ \<Rightarrow> None)"

definition set_bool :: "((bool \<Rightarrow> bool) \<Rightarrow> 'r \<Rightarrow> 'r) \<Rightarrow> 'r setter" where
  "set_bool upd j r = (case j of JBool b \<Rightarrow> Some (upd (\<lambda>_. b) r) | JNull \<Rightarrow> Some r | _ \<Rightarrow> None)"

fun json_strs :: "json list \<Rightarrow> string list option" where
  "json_strs [] = Some []"
| "json_strs (JStr s # js) = map_option ((#) s) (json_strs js)"
| "json_strs (JNull # js) = map_option ((#) []) (json_strs js)"
| "json_strs (_ # js) = None"

definition set_strs :: "((string list \<Rightarrow> string list) \<Rightarrow> 'r \<Rightarrow> 'r) \<Rightarrow> 'r setter" where
  "set_strs upd j r =
     (case j of
        JArr js \<Rightarrow> map_option (\<lambda>ss. upd (\<lambda>_. ss) r) (json_strs js)
      | JNull \<Rightarrow> Some (upd (\<lambda>_. []) r)
      | _ \<Rightarrow> None)"

fun json_strmap :: "(string \<times> json) list \<Rightarrow> (string \<times> string) list option" where
  "json_strmap [] = Some []"
| "json_strmap ((k, JStr s) # js) = map_option ((#) (k, s)) (json_strmap js)"
| "json_strmap ((k, JNull) # js) = map_option ((#) (k, [])) (json_strmap js)"
| "json_strmap ((k, _) # js) = None"

definition set_strmap :: "((string gomap \<Rightarrow> string gomap) \<Rightarrow> 'r \<Rightarrow> 'r) \<Rightarrow> 'r setter" where
  "set_strmap upd j r =
     (case j of
        JObj kvs \<Rightarrow>
          (case json_strmap kvs of
             Some m \<Rightarrow> Some (upd (\<lambda>old. Some (put_all m (entries old))) r)
           | None \<Rightarrow> None)
      | JNull \<Rightarrow> Some (upd (\<lambda>_. None) r)
      | _ \<Rightarrow> None)"

text \<open>
  A nested struct is decoded into its current value. A JSON array is decoded element by element
  into the slice: an existing element is updated in place, a new one starts from the zero value,
  and the slice is cut to the length of the array.
\<close>

definition set_obj :: "(string \<times> 'b setter) list \<Rightarrow> ('r \<Rightarrow> 'b) \<Rightarrow> (('b \<Rightarrow> 'b) \<Rightarrow> 'r \<Rightarrow> 'r) \<Rightarrow> 'r setter" where
  "set_obj fs get upd j r = (case decode_obj fs j (get r) of Ok b \<Rightarrow> Some (upd (\<lambda>_. b) r) | _ \<Rightarrow> None)"

fun decode_objs :: "(string \<times> 'b setter) list \<Rightarrow> 'b \<Rightarrow> json list \<Rightarrow> 'b list \<Rightarrow> 'b list option" where
  "decode_objs fs zero [] old = Some []"
| "decode_objs fs zero (j # js) old =
     (case decode_obj fs j (case old of [] \<Rightarrow> zero | b # _ \<Rightarrow> b) of
        Ok b \<Rightarrow> map_option ((#) b) (decode_objs fs zero js (case old of [] \<Rightarrow> [] | _ # bs \<Rightarrow> bs))
      | _ \<Rightarrow> None)"

definition set_objs ::
    "(string \<times> 'b setter) list \<Rightarrow> 'b \<Rightarrow> ('r \<Rightarrow> 'b list) \<Rightarrow> (('b list \<Rightarrow> 'b list) \<Rightarrow> 'r \<Rightarrow> 'r) \<Rightarrow> 'r setter" where
  "set_objs fs zero get upd j r =
     (case j of
        JArr js \<Rightarrow> map_option (\<lambda>bs. upd (\<lambda>_. bs) r) (decode_objs fs zero js (get r))
      | JNull \<Rightarrow> Some (upd (\<lambda>_. []) r)
      | _ \<Rightarrow> None)"

text \<open>A \<open>json.RawMessage\<close> field takes the member's text as it is, \<open>null\<close> included.\<close>

definition set_raw :: "((raw \<Rightarrow> raw) \<Rightarrow> 'r \<Rightarrow> 'r) \<Rightarrow> 'r setter" where
  "set_raw upd j r = Some (upd (\<lambda>_. raw_doc j) r)"

section \<open>Encoding helpers\<close>

text \<open>\<open>json.Marshal\<close> prints the keys of a map in sorted order, a nil map and a nil slice as \<open>null\<close>.\<close>

definition enc_strmap :: "string gomap \<Rightarrow> json" where
  "enc_strmap m =
     (case m of None \<Rightarrow> JNull | Some kvs \<Rightarrow> JObj (map (\<lambda>(k, v). (k, JStr v)) (sort_key fst kvs)))"

definition omit_empty_str :: "string \<Rightarrow> string \<Rightarrow> (string \<times> json) list" where
  "omit_empty_str k v = (if v = [] then [] else [(k, JStr v)])"

lemma bytes_Equal_refl [simp]: "bytes_Equal r r"
  by (simp add: bytes_Equal_def)

lemma raw_doc_not_empty [simp]: "\<not> raw_empty (raw_doc j)"
  by (simp add: raw_doc_def raw_empty_def)

lemma json_parse_raw_doc [simp]: "json_parse (raw_doc j) = Ok j"
  by (simp add: raw_doc_def json_parse_def)

lemma json_strs_map_JStr [simp]: "json_strs (map JStr ss) = Some ss"
  by (induction ss) auto

lemma json_strmap_map_JStr [simp]: "json_strmap (map (\<lambda>(k, v). (k, JStr v)) kvs) = Some kvs"
  by (induction kvs) auto

lemma field_for_exact: "map_of fs k = Some f \<Longrightarrow> field_for fs k = Some f"
  by (simp add: field_for_def)

end
