(* ===== verification/Resource.thy ===== *)
theory Resource
  imports Json "HOL-Library.Word"
begin

text \<open>
  \<open>core/resource\<close>: the resource, its spec and state, revisions, filters, the naming rules
  that \<open>Validate\<close> enforces and the URN they make unambiguous. Times are nanoseconds since Go's
  zero time and durations nanoseconds.
\<close>

section \<open>Data\<close>

type_synonym time = int
type_synonym labels = "string gomap"

definition StatusUnspecified :: string where "StatusUnspecified = ''STATUS_UNSPECIFIED''"
definition StatusPending :: string where "StatusPending = ''STATUS_PENDING''"
definition StatusError :: string where "StatusError = ''STATUS_ERROR''"
definition StatusDeleted :: string where "StatusDeleted = ''STATUS_DELETED''"
definition StatusCompleted :: string where "StatusCompleted = ''STATUS_COMPLETED''"

lemmas status_defs = StatusUnspecified_def StatusPending_def StatusError_def StatusDeleted_def
  StatusCompleted_def

record SyncResult =
  sr_Retries :: int
  sr_LastError :: string

record State =
  st_Status :: string
  st_Output :: raw
  st_ModuleData :: raw
  st_NextSyncAt :: "time option"
  st_SyncResult :: SyncResult

record Spec =
  sp_Configs :: raw
  sp_Dependencies :: "string gomap"

record Resource =
  res_URN :: string
  res_Kind :: string
  res_Name :: string
  res_Project :: string
  res_Labels :: labels
  res_CreatedAt :: time
  res_UpdatedAt :: time
  res_UpdatedBy :: string
  res_CreatedBy :: string
  res_Spec :: Spec
  res_State :: State

record PagedResource =
  pr_Count :: "32 word"
  pr_Resources :: "Resource list"

record Filter =
  fl_Kind :: string
  fl_Project :: string
  fl_Labels :: labels
  fl_PageSize :: "32 word"
  fl_PageNum :: "32 word"

record UpdateRequest =
  ur_Spec :: Spec
  ur_Labels :: labels
  ur_UserID :: string

record Revision =
  rev_ID :: int
  rev_URN :: string
  rev_Reason :: string
  rev_Labels :: labels
  rev_CreatedAt :: time
  rev_CreatedBy :: string
  rev_Spec :: Spec

text \<open>The zero values of the structs.\<close>

definition zero_SyncResult :: SyncResult where
  "zero_SyncResult = \<lparr>sr_Retries = 0, sr_LastError = []\<rparr>"

definition zero_State :: State where
  "zero_State =
     \<lparr>st_Status = [], st_Output = None, st_ModuleData = None, st_NextSyncAt = None,
      st_SyncResult = zero_SyncResult\<rparr>"

definition zero_Spec :: Spec where
  "zero_Spec = \<lparr>sp_Configs = None, sp_Dependencies = None\<rparr>"

definition zero_Resource :: Resource where
  "zero_Resource =
     \<lparr>res_URN = [], res_Kind = [], res_Name = [], res_Project = [], res_Labels = None,
      res_CreatedAt = 0, res_UpdatedAt = 0, res_UpdatedBy = [], res_CreatedBy = [],
      res_Spec = zero_Spec, res_State = zero_State\<rparr>"

lemmas zero_defs = zero_SyncResult_def zero_State_def zero_Spec_def zero_Resource_def

section \<open>State\<close>

definition IsTerminal :: "State \<Rightarrow> bool" where
  "IsTerminal s \<longleftrightarrow> st_Status s = StatusCompleted \<or> st_Status s = StatusError"

definition InDeletion :: "State \<Rightarrow> bool" where
  "InDeletion s \<longleftrightarrow> st_Status s = StatusDeleted"

text \<open>A copy into a slice of the same length: nil becomes an empty slice.\<close>

definition copy_raw :: "raw \<Rightarrow> raw" where
  "copy_raw r = (case r of None \<Rightarrow> Some (Text []) | Some b \<Rightarrow> Some b)"

definition Clone :: "State \<Rightarrow> State" where
  "Clone s =
     \<lparr>st_Status = st_Status s, st_Output = copy_raw (st_Output s),
      st_ModuleData = copy_raw (st_ModuleData s), st_NextSyncAt = None,
      st_SyncResult = zero_SyncResult\<rparr>"

section \<open>Naming rules and URNs\<close>

text \<open>\<open>^[A-Za-z][A-Za-z0-9_-]+$\<close>\<close>

definition namingPattern :: "string \<Rightarrow> bool" where
  "namingPattern s =
     (case s of c # d # ds \<Rightarrow> is_alpha c \<and> list_all is_name_char (d # ds) | _ \<Rightarrow> False)"

text \<open>\<open>^[0-9]*[A-Za-z0-9_-]+$\<close>: some split into a run of digits and a non-empty run of name characters.\<close>

definition namingPatternStartingWithDigits :: "string \<Rightarrow> bool" where
  "namingPatternStartingWithDigits s =
     list_ex (\<lambda>i. list_all is_digit (take i s) \<and> list_all is_name_char (drop i s)) [0..<length s]"

definition namingPattern_text :: string where
  "namingPattern_text = ''^[A-Za-z][A-Za-z0-9_-]+$''"

definition namingPatternStartingWithDigits_text :: string where
  "namingPatternStartingWithDigits_text = ''^'' @ [CHR 0x5C] @ ''d*[A-Za-z0-9_-]+$''"

definition GenerateURN :: "string \<Rightarrow> string \<Rightarrow> string \<Rightarrow> string" where
  "GenerateURN kind project name = join '':'' [''orn'', ''entropy'', kind, project, name]"

text \<open>\<open>Validate\<close> mutates the receiver, so it is a computation on the resource.\<close>

definition Validate :: "bool \<Rightarrow> (Resource, unit) go" where
  "Validate isCreate res0 =
     (let res = res0\<lparr>res_Kind := TrimSpace (res_Kind res0), res_Name := TrimSpace (res_Name res0),
                    res_Project := TrimSpace (res_Project res0)\<rparr>
      in if \<not> namingPattern (res_Kind res) then
           (Err (invalid (''kind must match pattern '' @ sq namingPattern_text)), res)
         else if \<not> namingPatternStartingWithDigits (res_Name res) then
           (Err (invalid (''name must match pattern '' @ sq namingPatternStartingWithDigits_text)), res)
         else if \<not> namingPattern (res_Project res) then
           (Err (invalid (''project must match pattern '' @ sq namingPattern_text)), res)
         else
           let res = (if st_Status (res_State res) = []
                      then res\<lparr>res_State := (res_State res)\<lparr>st_Status := StatusUnspecified\<rparr>\<rparr> else res);
               res = (if isCreate
                      then res\<lparr>res_URN := GenerateURN (res_Kind res) (res_Project res) (res_Name res)\<rparr>
                      else res)
           in (Ok (), res))"

section \<open>Filters\<close>

definition isMatch :: "Filter \<Rightarrow> Resource \<Rightarrow> bool" where
  "isMatch f r =
     (let kindMatch = fl_Kind f = [] \<or> fl_Kind f = res_Kind r;
          projectMatch = fl_Project f = [] \<or> fl_Project f = res_Project r
      in if \<not> kindMatch \<or> \<not> projectMatch then False
         else list_all (\<lambda>(k, v). get_str (res_Labels r) k = v) (entries (fl_Labels f)))"

fun Apply :: "Filter \<Rightarrow> Resource list \<Rightarrow> Resource list" where
  "Apply f [] = []"
| "Apply f (r # rs) = (if isMatch f r then r # Apply f rs else Apply f rs)"

section \<open>Lemmas\<close>

lemma Apply_filter: "Apply f rs = filter (isMatch f) rs"
  by (induction rs) auto

lemma namingPattern_iff:
  "namingPattern s \<longleftrightarrow> 2 \<le> length s \<and> is_alpha (hd s) \<and> list_all is_name_char s"
  by (auto simp: namingPattern_def is_name_char_def split: list.splits)

lemma is_digit_name_char: "list_all is_digit s \<Longrightarrow> list_all is_name_char s"
  by (auto simp: list_all_iff is_name_char_def)

text \<open>The digit prefix of the second pattern is absorbed by its class.\<close>

lemma namingPatternStartingWithDigits_iff:
  "namingPatternStartingWithDigits s \<longleftrightarrow> s \<noteq> [] \<and> list_all is_name_char s"
proof
  assume "namingPatternStartingWithDigits s"
  then obtain i where "i < length s" "list_all is_digit (take i s)" "list_all is_name_char (drop i s)"
    by (auto simp: namingPatternStartingWithDigits_def list_ex_iff)
  then show "s \<noteq> [] \<and> list_all is_name_char s"
    using is_digit_name_char [of "take i s"] by (metis append_take_drop_id list_all_append list.size(3) not_less_zero)
next
  assume "s \<noteq> [] \<and> list_all is_name_char s"
  then have "0 \<in> set [0..<length s] \<and> list_all is_digit (take 0 s) \<and> list_all is_name_char (drop 0 s)"
    by simp
  then show "namingPatternStartingWithDigits s"
    unfolding namingPatternStartingWithDigits_def list_ex_iff by blast
qed

lemma name_char_no_colon: "list_all is_name_char s \<Longrightarrow> CHR '':'' \<notin> set s"
  by (auto simp: list_all_iff is_name_char_def is_alpha_def is_digit_def)

lemma naming_no_colon:
  "namingPattern s \<Longrightarrow> CHR '':'' \<notin> set s"
  "namingPatternStartingWithDigits s \<Longrightarrow> CHR '':'' \<notin> set s"
  by (simp_all add: namingPattern_iff namingPatternStartingWithDigits_iff name_char_no_colon)

lemma GenerateURN_inject:
  assumes "GenerateURN k p n = GenerateURN k' p' n'"
    and "CHR '':'' \<notin> set k \<union> set p \<union> set n \<union> set k' \<union> set p' \<union> set n'"
  shows "k = k' \<and> p = p' \<and> n = n'"
  using join_inject [OF assms(1) [unfolded GenerateURN_def]] assms(2) by auto

lemma Validate_Ok:
  assumes "Validate ic r = (Ok (), r')"
  shows "namingPattern (res_Kind r')" "namingPatternStartingWithDigits (res_Name r')"
    "namingPattern (res_Project r')"
    "res_Kind r' = TrimSpace (res_Kind r)" "res_Name r' = TrimSpace (res_Name r)"
    "res_Project r' = TrimSpace (res_Project r)"
    "st_Status (res_State r') \<noteq> []"
    "res_URN r' = (if ic then GenerateURN (res_Kind r') (res_Project r') (res_Name r') else res_URN r)"
    "res_Spec r' = res_Spec r" "res_Labels r' = res_Labels r"
  using assms by (auto simp: Validate_def Let_def StatusUnspecified_def split: if_splits)

lemma Validate_result:
  "(\<exists>r'. Validate ic r = (Ok (), r')) \<or> (\<exists>e r'. Validate ic r = (Err e, r') \<and> isInvalid e)"
  by (simp add: Validate_def Let_def)

section \<open>Properties\<close>

text \<open>\<open>Validate\<close> accepts exactly the resources whose trimmed kind and project start with a letter
  and continue with at least one name character and whose trimmed name is a non-empty run of
  name characters; every rejection is an \<open>ErrInvalid\<close>, and validating the result again changes
  nothing.\<close>

theorem Validate_correct:
  "(fst (Validate ic r) = Ok () \<longleftrightarrow>
      namingPattern (TrimSpace (res_Kind r)) \<and> namingPattern (TrimSpace (res_Project r)) \<and>
      TrimSpace (res_Name r) \<noteq> [] \<and> list_all is_name_char (TrimSpace (res_Name r)))
   \<and> (case fst (Validate ic r) of
        Ok _ \<Rightarrow> Validate ic (snd (Validate ic r)) = (Ok (), snd (Validate ic r))
      | Err e \<Rightarrow> isInvalid e
      | _ \<Rightarrow> False)"
  by (simp add: Validate_def Let_def namingPatternStartingWithDigits_iff StatusUnspecified_def)

text \<open>URNs identify resources: two resources that pass validation for creation and get the
  same URN have the same kind, project and name.\<close>

theorem Validate_URN_unique:
  assumes "Validate True r1 = (Ok (), r1')" and "Validate True r2 = (Ok (), r2')"
    and "res_URN r1' = res_URN r2'"
  shows "res_Kind r1' = res_Kind r2' \<and> res_Project r1' = res_Project r2' \<and> res_Name r1' = res_Name r2'"
proof -
  note v1 = Validate_Ok [OF assms(1)] and v2 = Validate_Ok [OF assms(2)]
  from assms(3) v1(8) v2(8)
  have "GenerateURN (res_Kind r1') (res_Project r1') (res_Name r1') =
        GenerateURN (res_Kind r2') (res_Project r2') (res_Name r2')" by simp
  then show ?thesis
    by (rule GenerateURN_inject) (use v1(1-3) v2(1-3) naming_no_colon in auto)
qed

end
