(* ===== verification/Module_Types.thy ===== *)
theory Module_Types
  imports Resource
begin

text \<open>
  \<open>core/module\<close> (\<open>action.go\<close>, \<open>driver.go\<close>, \<open>module.go\<close>): action requests and descriptors,
  the driver interface, modules and module descriptors, and the checks a descriptor makes of
  an action request. A compiled JSON schema is the function that gojsonschema's \<open>Validate\<close>
  computes: the list of violations of a parameter document, or an error.
\<close>

section \<open>Actions\<close>

definition CreateAction :: string where "CreateAction = ''create''"
definition UpdateAction :: string where "UpdateAction = ''update''"
definition DeleteAction :: string where "DeleteAction = ''delete''"

lemmas action_defs = CreateAction_def UpdateAction_def DeleteAction_def

text \<open>
  A Go map is a reference. \<open>act_LabelsShared\<close> says that the label map of the request is the very map
  of the resource the action is planned on, as in the request \<open>CreateResource\<close> builds; a write to
  one of them is then a write to both.
\<close>

record ActionRequest =
  act_Name :: string
  act_Params :: raw
  act_Labels :: labels
  act_UserID :: string
  act_LabelsShared :: bool

type_synonym schema = "raw \<Rightarrow> string list outcome"

record ActionDesc =
  ad_Name :: string
  ad_Description :: string
  ad_ParamSchema :: string
  ad_schema :: "schema option"

text \<open>An action with a name only, as most modules declare them.\<close>

definition plain_action :: "string \<Rightarrow> ActionDesc" where
  "plain_action n = \<lparr>ad_Name = n, ad_Description = [], ad_ParamSchema = [], ad_schema = None\<rparr>"

text \<open>\<open>Sanitise\<close> compiles the schema with \<open>newSchema\<close>, the library's \<open>gojsonschema.NewSchema\<close>.\<close>

definition Sanitise :: "(string \<Rightarrow> schema outcome) \<Rightarrow> (ActionDesc, unit) go" where
  "Sanitise newSchema ad =
     (if ad_ParamSchema ad = [] then (Ok (), ad)
      else case newSchema (ad_ParamSchema ad) of
             Ok sch \<Rightarrow> (Ok (), ad\<lparr>ad_schema := Some sch\<rparr>)
           | Err e \<Rightarrow>
               (Err (EErr (WithCausef
                  (WithMsgf ErrInvalid (''parameter schema for action '' @ sq (ad_Name ad) @ '' is not valid''))
                  (error_text e))), ad\<lparr>ad_schema := None\<rparr>)
           | Panic p \<Rightarrow> (Panic p, ad)
           | Overflow \<Rightarrow> (Overflow, ad))"

definition validateReq :: "ActionDesc \<Rightarrow> ActionRequest \<Rightarrow> unit outcome" where
  "validateReq ad req =
     (case ad_schema ad of
        None \<Rightarrow> Ok ()
      | Some sch \<Rightarrow>
          (case sch (act_Params req) of
             Err e \<Rightarrow> Err (internal_cause e)
           | Ok errorStrings \<Rightarrow>
               if errorStrings \<noteq> [] then Err (invalid (join [CHR 0x0A] errorStrings)) else Ok ()
           | Panic p \<Rightarrow> Panic p
           | Overflow \<Rightarrow> Overflow))"

section \<open>Drivers\<close>

record ResolvedDependency =
  rd_Kind :: string
  rd_Output :: raw

record ExpandedResource =
  er_Resource :: Resource
  er_Dependencies :: "ResolvedDependency gomap"

record LogChunk =
  lc_Data :: string
  lc_Labels :: labels

text \<open>
  What \<open>Plan\<close> leaves behind: the planned resource, and the label maps of the resource and of the
  request it was given as they are after the call. A driver that assigns to the labels of its
  arguments writes through these references, so its caller sees them changed.
\<close>

record Planned =
  pl_Resource :: Resource
  pl_ResLabels :: labels
  pl_ActLabels :: labels

definition labels_unwritten :: "ExpandedResource \<Rightarrow> ActionRequest \<Rightarrow> Resource \<Rightarrow> Planned" where
  "labels_unwritten exr act r =
     \<lparr>pl_Resource = r, pl_ResLabels = res_Labels (er_Resource exr), pl_ActLabels = act_Labels act\<rparr>"

text \<open>The map of the resource, or that of the request, after it was written to be \<open>ls\<close>.\<close>

definition res_labels_written :: "labels \<Rightarrow> ActionRequest \<Rightarrow> Resource \<Rightarrow> Planned" where
  "res_labels_written ls act r =
     \<lparr>pl_Resource = r, pl_ResLabels = ls, pl_ActLabels = (if act_LabelsShared act then ls else act_Labels act)\<rparr>"

definition act_labels_written :: "ExpandedResource \<Rightarrow> ActionRequest \<Rightarrow> labels \<Rightarrow> Resource \<Rightarrow> Planned" where
  "act_labels_written exr act ls r =
     \<lparr>pl_Resource = r, pl_ResLabels = (if act_LabelsShared act then ls else res_Labels (er_Resource exr)),
      pl_ActLabels = ls\<rparr>"

lemmas labels_written_defs = labels_unwritten_def res_labels_written_def act_labels_written_def

lemma pl_Resource_simps [simp]:
  "pl_Resource (labels_unwritten exr act r) = r" "pl_Resource (res_labels_written ls act r) = r"
  "pl_Resource (act_labels_written exr act ls r) = r"
  by (simp_all add: labels_written_defs)

text \<open>A driver whose \<open>Plan\<close> writes to no label map.\<close>

definition plan_only ::
    "(ExpandedResource \<Rightarrow> ActionRequest \<Rightarrow> ('s, Resource) go) \<Rightarrow> ExpandedResource \<Rightarrow> ActionRequest \<Rightarrow> ('s, Planned) go"
where
  "plan_only plan exr act = bindS (plan exr act) (\<lambda>r. ret (labels_unwritten exr act r))"

lemma plan_only_Ok:
  "plan_only plan exr act s = (Ok p, t) \<longleftrightarrow> (\<exists>r. plan exr act s = (Ok r, t) \<and> p = labels_unwritten exr act r)"
  by (auto simp: plan_only_def bindS_Ok_iff ret_def)

text \<open>
  A driver acts on the state \<open>'s\<close> of the world (its external system). \<open>dr_Log\<close> is \<open>None\<close> for a
  driver that does not implement \<open>Loggable\<close>; a channel of chunks is the list of them.
\<close>

record 's Driver =
  dr_Plan :: "ExpandedResource \<Rightarrow> ActionRequest \<Rightarrow> ('s, Planned) go"
  dr_Sync :: "ExpandedResource \<Rightarrow> ('s, State) go"
  dr_Output :: "ExpandedResource \<Rightarrow> ('s, raw) go"
  dr_Log :: "(ExpandedResource \<Rightarrow> string gomap \<Rightarrow> ('s, LogChunk list) go) option"

section \<open>Modules\<close>

record Module =
  mod_URN :: string
  mod_Name :: string
  mod_Project :: string
  mod_Configs :: raw
  mod_CreatedAt :: time
  mod_UpdatedAt :: time

record 's Descriptor =
  desc_Kind :: string
  desc_Actions :: "ActionDesc list"
  desc_Dependencies :: "string gomap"
  desc_DriverFactory :: "raw \<Rightarrow> 's Driver outcome"

definition module_URN :: "string \<Rightarrow> string \<Rightarrow> string" where
  "module_URN name project = ''orn:entropy:module:'' @ project @ '':'' @ name"

definition sanitise :: "time \<Rightarrow> bool \<Rightarrow> (Module, unit) go" where
  "sanitise now isCreate m =
     (if mod_Name m = [] then (Err (invalid ''name must be set''), m)
      else if mod_Project m = [] then (Err (invalid ''project must be set''), m)
      else
        let m = (if isCreate
                   then m\<lparr>mod_URN := module_URN (mod_Name m) (mod_Project m),
                            mod_CreatedAt := now, mod_UpdatedAt := now\<rparr>
                   else m)
        in (Ok (), m\<lparr>mod_URN := TrimSpace (mod_URN m)\<rparr>))"

fun check_dependencies ::
    "string \<Rightarrow> (string \<times> string) list \<Rightarrow> ResolvedDependency gomap \<Rightarrow> unit outcome" where
  "check_dependencies kind [] deps = Ok ()"
| "check_dependencies kind ((key, wantKind) # rest) deps =
     (case lookup deps key of
        None \<Rightarrow>
          Err (invalid (''kind '' @ sq kind @ '' needs resource of kind '' @ sq wantKind @ '' at key '' @ sq key))
      | Some resolvedDep \<Rightarrow>
          if wantKind \<noteq> rd_Kind resolvedDep then
            Err (invalid (''value for '' @ sq key @ '' must be of kind '' @ sq wantKind @ '', not ''
                          @ sq (rd_Kind resolvedDep)))
          else check_dependencies kind rest deps)"

definition validateDependencies :: "'s Descriptor \<Rightarrow> ResolvedDependency gomap \<Rightarrow> unit outcome" where
  "validateDependencies desc deps =
     check_dependencies (desc_Kind desc) (entries (desc_Dependencies desc)) deps"

definition findAction :: "'s Descriptor \<Rightarrow> string \<Rightarrow> ActionDesc option" where
  "findAction desc name = find (\<lambda>action. ad_Name action = name) (desc_Actions desc)"

definition validateActionReq ::
    "'s Descriptor \<Rightarrow> ExpandedResource \<Rightarrow> ActionRequest \<Rightarrow> unit outcome" where
  "validateActionReq desc res req =
     (case findAction desc (act_Name req) of
        None \<Rightarrow>
          Err (invalid (''action '' @ sq (act_Name req) @ '' is not valid on kind ''
                        @ sq (res_Kind (er_Resource res))))
      | Some actDesc \<Rightarrow> validateReq actDesc req)"

section \<open>Lemmas\<close>

lemma check_dependencies_Ok_iff:
  "check_dependencies kind ds deps = Ok () \<longleftrightarrow>
     (\<forall>(k, want) \<in> set ds. \<exists>d. lookup deps k = Some d \<and> rd_Kind d = want)"
  by (induction kind ds deps rule: check_dependencies.induct) (auto split: option.splits)

lemma check_dependencies_result:
  "check_dependencies kind ds deps = Ok () \<or> (\<exists>e. check_dependencies kind ds deps = Err e \<and> isInvalid e)"
  by (induction kind ds deps rule: check_dependencies.induct) (auto split: option.splits)

lemma validateDependencies_Ok_iff:
  "validateDependencies desc deps = Ok () \<longleftrightarrow>
     (\<forall>(k, want) \<in> set (entries (desc_Dependencies desc)). \<exists>d. lookup deps k = Some d \<and> rd_Kind d = want)"
  unfolding validateDependencies_def by (rule check_dependencies_Ok_iff)

lemma validateActionReq_Ok_iff:
  "validateActionReq desc res req = Ok () \<longleftrightarrow>
     (\<exists>ad. findAction desc (act_Name req) = Some ad \<and>
           (\<forall>sch. ad_schema ad = Some sch \<longrightarrow> sch (act_Params req) = Ok []))"
  by (auto simp: validateActionReq_def validateReq_def split: option.splits result.splits if_splits)

lemma findAction_Some: "findAction desc name = Some ad \<Longrightarrow> ad \<in> set (desc_Actions desc) \<and> ad_Name ad = name"
  unfolding findAction_def by (drule find_Some_mem) simp

lemma sanitise_Ok:
  assumes "sanitise now ic m = (Ok (), m')"
  shows "mod_Name m' = mod_Name m" "mod_Project m' = mod_Project m" "mod_Configs m' = mod_Configs m"
    "mod_Name m \<noteq> []" "mod_Project m \<noteq> []"
    "mod_URN m' = TrimSpace (if ic then module_URN (mod_Name m) (mod_Project m) else mod_URN m)"
  using assms by (auto simp: sanitise_def Let_def split: if_splits)

end
