(* ===== verification/Module_Service.thy ===== *)
theory Module_Service
  imports Module_Types
begin

text \<open>
  \<open>core/module/service.go\<close>: the module service over a store of modules and a registry of
  drivers. The record \<open>module_Service\<close> holds the interfaces \<open>Store\<close> and \<open>Registry\<close> the service
  is built from and the clock that \<open>time.Now\<close> reads.
\<close>

section \<open>The service\<close>

record 's module_Store =
  ms_GetModule :: "string \<Rightarrow> ('s, Module) go"
  ms_ListModules :: "string \<Rightarrow> ('s, Module list) go"
  ms_CreateModule :: "Module \<Rightarrow> ('s, unit) go"
  ms_UpdateModule :: "Module \<Rightarrow> ('s, unit) go"
  ms_DeleteModule :: "string \<Rightarrow> ('s, unit) go"

record 's module_Service =
  mr_store :: "'s module_Store"
  mr_GetDriver :: "Module \<Rightarrow> ('s Driver \<times> 's Descriptor) outcome"
  mr_Now :: "'s \<Rightarrow> time"

definition discoverModule :: "'s module_Service \<Rightarrow> string \<Rightarrow> string \<Rightarrow> ('s, Module) go" where
  "discoverModule mr kind project =
     (let urn = module_URN kind project in
      catchS (ms_GetModule (mr_store mr) urn) ret
        (\<lambda>err. if isNotFound err then
                 fail (EErr (WithCausef
                   (WithMsgf ErrInvalid (''kind '' @ sq kind @ '' is not valid in project '' @ sq project))
                   (''failed to find module with urn '' @ sq urn)))
               else fail err))"

text \<open>The error translation that \<open>initDriver\<close> and \<open>CreateModule\<close> apply to the registry's error.\<close>

definition driver_error :: "Module \<Rightarrow> gerror \<Rightarrow> gerror" where
  "driver_error m err =
     (if isNotFound err then invalid (''driver not found for kind '' @ sq (mod_Name m))
      else if isInvalid err then
        EErr (WithCausef (WithMsgf ErrInvalid ''failed to init driver with given configs'') (error_text err))
      else err)"

definition initDriver :: "'s module_Service \<Rightarrow> Module \<Rightarrow> ('s, 's Driver \<times> 's Descriptor) go" where
  "initDriver mr m = catchS (liftR (mr_GetDriver mr m)) ret (\<lambda>err. fail (driver_error m err))"

definition PlanAction ::
    "'s module_Service \<Rightarrow> ExpandedResource \<Rightarrow> ActionRequest \<Rightarrow> ('s, Planned) go" where
  "PlanAction mr res act =
     bindS (discoverModule mr (res_Kind (er_Resource res)) (res_Project (er_Resource res))) (\<lambda>m.
     bindS (initDriver mr m) (\<lambda>(driver, desc).
     bindS (liftR (validateDependencies desc (er_Dependencies res))) (\<lambda>_.
     bindS (liftR (validateActionReq desc res act)) (\<lambda>_.
     dr_Plan driver res act))))"

definition SyncState :: "'s module_Service \<Rightarrow> ExpandedResource \<Rightarrow> ('s, State) go" where
  "SyncState mr res =
     bindS (discoverModule mr (res_Kind (er_Resource res)) (res_Project (er_Resource res))) (\<lambda>m.
     bindS (initDriver mr m) (\<lambda>(driver, desc).
     bindS (liftR (validateDependencies desc (er_Dependencies res))) (\<lambda>_.
     dr_Sync driver res)))"

definition StreamLogs ::
    "'s module_Service \<Rightarrow> ExpandedResource \<Rightarrow> string gomap \<Rightarrow> ('s, LogChunk list) go" where
  "StreamLogs mr res filt =
     bindS (discoverModule mr (res_Kind (er_Resource res)) (res_Project (er_Resource res))) (\<lambda>m.
     bindS (initDriver mr m) (\<lambda>(driver, _).
     case dr_Log driver of
       None \<Rightarrow>
         fail (EErr (WithMsgf ErrUnsupported
           (''log streaming not supported for kind '' @ sq (res_Kind (er_Resource res)))))
     | Some lg \<Rightarrow> lg res filt))"

definition GetOutput :: "'s module_Service \<Rightarrow> ExpandedResource \<Rightarrow> ('s, raw) go" where
  "GetOutput mr res =
     bindS (discoverModule mr (res_Kind (er_Resource res)) (res_Project (er_Resource res))) (\<lambda>m.
     bindS (initDriver mr m) (\<lambda>(driver, _).
     dr_Output driver res))"

definition GetModule :: "'s module_Service \<Rightarrow> string \<Rightarrow> ('s, Module) go" where
  "GetModule mr urn = ms_GetModule (mr_store mr) urn"

definition ListModules :: "'s module_Service \<Rightarrow> string \<Rightarrow> ('s, Module list) go" where
  "ListModules mr project = ms_ListModules (mr_store mr) project"

definition CreateModule :: "'s module_Service \<Rightarrow> Module \<Rightarrow> ('s, Module) go" where
  "CreateModule mr m0 s =
     (case sanitise (mr_Now mr s) True m0 of
        (Ok _, m) \<Rightarrow>
          catchS (liftR (mr_GetDriver mr m))
            (\<lambda>_. catchS (ms_CreateModule (mr_store mr) m) (\<lambda>_. ret m)
                   (\<lambda>err. if isConflict err then
                            fail (EErr (WithCausef
                              (WithMsgf ErrConflict ''module with given name and project already exists'')
                              (error_text err)))
                          else fail err))
            (\<lambda>err. fail (driver_error m err)) s
      | (Err e, _) \<Rightarrow> (Err e, s)
      | (Panic p, _) \<Rightarrow> (Panic p, s)
      | (Overflow, _) \<Rightarrow> (Overflow, s))"

definition UpdateModule :: "'s module_Service \<Rightarrow> string \<Rightarrow> raw \<Rightarrow> ('s, Module) go" where
  "UpdateModule mr urn newConfigs =
     bindS (ms_GetModule (mr_store mr) urn) (\<lambda>m0 s.
       case sanitise (mr_Now mr s) False (m0\<lparr>mod_Configs := newConfigs\<rparr>) of
         (Ok _, m) \<Rightarrow> bindS (ms_UpdateModule (mr_store mr) m) (\<lambda>_. ret m) s
       | (Err e, _) \<Rightarrow> (Err e, s)
       | (Panic p, _) \<Rightarrow> (Panic p, s)
       | (Overflow, _) \<Rightarrow> (Overflow, s))"

definition DeleteModule :: "'s module_Service \<Rightarrow> string \<Rightarrow> ('s, unit) go" where
  "DeleteModule mr urn = ms_DeleteModule (mr_store mr) urn"

section \<open>Lemmas\<close>

lemma discoverModule_Ok:
  "discoverModule mr kind project s = (Ok m, t) \<Longrightarrow>
     ms_GetModule (mr_store mr) (module_URN kind project) s = (Ok m, t)"
  by (auto simp: discoverModule_def Let_def catchS_def ret_def fail_def
      split: prod.splits result.splits if_splits)

lemma initDriver_Ok:
  "initDriver mr m s = (Ok dd, t) \<longleftrightarrow> mr_GetDriver mr m = Ok dd \<and> t = s"
  by (auto simp: initDriver_def catchS_def liftR_def ret_def fail_def split: result.splits)

lemma liftR_Ok [simp]: "liftR r s = (Ok a, t) \<longleftrightarrow> r = Ok a \<and> t = s"
  by (auto simp: liftR_def)

lemma PlanAction_Ok_iff:
  "PlanAction mr res act s = (Ok r, t) \<longleftrightarrow>
     (\<exists>m u driver desc.
        discoverModule mr (res_Kind (er_Resource res)) (res_Project (er_Resource res)) s = (Ok m, u) \<and>
        mr_GetDriver mr m = Ok (driver, desc) \<and>
        validateDependencies desc (er_Dependencies res) = Ok () \<and>
        validateActionReq desc res act = Ok () \<and>
        dr_Plan driver res act u = (Ok r, t))"
  by (auto simp: PlanAction_def bindS_Ok_iff initDriver_Ok split: prod.splits)

text \<open>What an operation leaves unchanged when the store lookup and the driver's own call do.\<close>

lemma keeps_discoverModule [hoare_rules]:
  "keeps P (ms_GetModule (mr_store mr) (module_URN kind project)) \<Longrightarrow> keeps P (discoverModule mr kind project)"
  by (auto simp: discoverModule_def Let_def intro!: keeps_catchS hoare_ret hoare_fail)

lemma keeps_initDriver [hoare_rules]: "keeps P (initDriver mr m)"
  by (auto simp: initDriver_def intro!: keeps_catchS hoare_ret hoare_fail hoare_liftR)

end
