(* ===== verification/Core_Service.thy ===== *)
theory Core_Service
  imports Module_Service
begin

text \<open>
  \<open>core/core.go\<close>, \<open>read.go\<close>, \<open>write.go\<close>, \<open>sync.go\<close>: the resource service over a resource store
  and a module service. \<open>GetResource\<close> and \<open>generateModuleSpec\<close> call each other along the
  dependency graph; the model bounds that recursion by the depth of the goroutine stack, and
  running out of it is the value \<open>Overflow\<close>. The OpenTelemetry meter is a parameter: the
  outcome of creating a counter and the effect of adding one to it.
\<close>

section \<open>Interfaces and the service\<close>

text \<open>A \<open>MutationHook\<close> and a \<open>SyncFn\<close> over the state \<open>'s\<close>.\<close>

type_synonym 's hook = "('s, unit) go"
type_synonym 's syncfn = "Resource \<Rightarrow> ('s, Resource) go"
type_synonym scope = "string list gomap"

record 's resource_Store =
  rs_GetByURN :: "string \<Rightarrow> ('s, Resource) go"
  rs_List :: "Filter \<Rightarrow> bool \<Rightarrow> ('s, Resource list) go"
  rs_Create :: "Resource \<Rightarrow> 's hook list \<Rightarrow> ('s, unit) go"
  rs_Update :: "Resource \<Rightarrow> bool \<Rightarrow> string \<Rightarrow> 's hook list \<Rightarrow> ('s, unit) go"
  rs_Delete :: "string \<Rightarrow> 's hook list \<Rightarrow> ('s, unit) go"
  rs_Revisions :: "string \<Rightarrow> ('s, Revision list) go"
  rs_SyncOne :: "scope \<Rightarrow> 's syncfn \<Rightarrow> ('s, unit) go"

record 's ModuleService =
  msv_PlanAction :: "ExpandedResource \<Rightarrow> ActionRequest \<Rightarrow> ('s, Planned) go"
  msv_SyncState :: "ExpandedResource \<Rightarrow> ('s, State) go"
  msv_StreamLogs :: "ExpandedResource \<Rightarrow> string gomap \<Rightarrow> ('s, LogChunk list) go"
  msv_GetOutput :: "ExpandedResource \<Rightarrow> ('s, raw) go"

record 's Service =
  svc_clock :: "'s \<Rightarrow> time"
  svc_store :: "'s resource_Store"
  svc_moduleSvc :: "'s ModuleService"
  svc_syncBackoff :: int
  svc_maxSyncRetries :: int
  svc_serviceName :: string
  svc_Int64Counter :: "string \<Rightarrow> string \<Rightarrow> unit outcome"
  svc_counterAdd :: "string \<Rightarrow> string \<Rightarrow> 's \<Rightarrow> 's"

definition New ::
    "'s resource_Store \<Rightarrow> 's ModuleService \<Rightarrow> ('s \<Rightarrow> time) option \<Rightarrow> int \<Rightarrow> int \<Rightarrow> string \<Rightarrow> ('s \<Rightarrow> time) \<Rightarrow>
     (string \<Rightarrow> string \<Rightarrow> unit outcome) \<Rightarrow> (string \<Rightarrow> string \<Rightarrow> 's \<Rightarrow> 's) \<Rightarrow> 's Service" where
  "New repo moduleSvc clockFn syncBackoffInterval maxRetries serviceName time_Now int64Counter counterAdd =
     \<lparr>svc_clock = (case clockFn of None \<Rightarrow> time_Now | Some c \<Rightarrow> c), svc_store = repo,
      svc_moduleSvc = moduleSvc, svc_syncBackoff = syncBackoffInterval,
      svc_maxSyncRetries = maxRetries, svc_serviceName = serviceName,
      svc_Int64Counter = int64Counter, svc_counterAdd = counterAdd\<rparr>"

text \<open>\<open>setupCounter\<close> on the meter of the service's name, and \<open>Add\<close> on the counter it made.\<close>

definition counter_name :: "string \<Rightarrow> string" where
  "counter_name c = c @ ''_counter''"

definition setupCounter :: "'s Service \<Rightarrow> string \<Rightarrow> unit outcome" where
  "setupCounter svc c = svc_Int64Counter svc (svc_serviceName svc) (counter_name c)"

definition counter_Add :: "'s Service \<Rightarrow> string \<Rightarrow> string \<Rightarrow> ('s, unit) go" where
  "counter_Add svc c urn s = (Ok (), svc_counterAdd svc (counter_name c) urn s)"

section \<open>Reading\<close>

text \<open>The loop of \<open>generateModuleSpec\<close> over the declared dependencies, \<open>get\<close> being \<open>GetResource\<close>.\<close>

fun resolve_dependencies ::
    "(string \<Rightarrow> ('s, Resource) go) \<Rightarrow> Resource \<Rightarrow> (string \<times> string) list \<Rightarrow>
     (string \<times> ResolvedDependency) list \<Rightarrow> ('s, (string \<times> ResolvedDependency) list) go" where
  "resolve_dependencies get res [] acc = ret acc"
| "resolve_dependencies get res ((key, resURN) # rest) acc =
     catchS (get resURN)
       (\<lambda>d. if st_Status (res_State d) \<noteq> StatusCompleted then
              fail (invalid (''dependency '' @ sq resURN @ '' is in incomplete state (''
                             @ st_Status (res_State d) @ '')''))
            else if res_Project d \<noteq> res_Project res then
              fail (EErr (WithCausef (WithMsgf ErrInvalid (''dependency '' @ sq resURN @ '' not found''))
                            ''cross-project references not allowed''))
            else
              resolve_dependencies get res rest
                (put key \<lparr>rd_Kind = res_Kind d, rd_Output = st_Output (res_State d)\<rparr> acc))
       (\<lambda>err. if isNotFound err then fail (invalid (''dependency '' @ sq resURN @ '' not found''))
              else fail err)"

definition generateModuleSpec_with ::
    "(string \<Rightarrow> ('s, Resource) go) \<Rightarrow> Resource \<Rightarrow> ('s, ExpandedResource) go" where
  "generateModuleSpec_with get res =
     bindS (resolve_dependencies get res (entries (sp_Dependencies (res_Spec res))) [])
       (\<lambda>deps. ret \<lparr>er_Resource = res, er_Dependencies = Some deps\<rparr>)"

text \<open>\<open>GetResource\<close>, with at most \<open>n\<close> frames of it on the stack.\<close>

fun GetResource :: "nat \<Rightarrow> 's Service \<Rightarrow> string \<Rightarrow> ('s, Resource) go" where
  "GetResource 0 svc urn = overflowS"
| "GetResource (Suc n) svc urn =
     catchS (rs_GetByURN (svc_store svc) urn)
       (\<lambda>res.
          bindS (generateModuleSpec_with (GetResource n svc) res) (\<lambda>modSpec.
          bindS (msv_GetOutput (svc_moduleSvc svc) modSpec) (\<lambda>output.
          if \<not> bytes_Equal (st_Output (res_State res)) output then
            let res = res\<lparr>res_State := (res_State res)\<lparr>st_Output := output\<rparr>\<rparr>
            in bindS (rs_Update (svc_store svc) res False [] []) (\<lambda>_. ret res)
          else ret res)))
       (\<lambda>err. if isNotFound err then
                fail (EErr (WithMsgf ErrNotFound (''resource with urn '' @ sq urn @ '' not found'')))
              else fail (internal_cause err))"

definition generateModuleSpec :: "nat \<Rightarrow> 's Service \<Rightarrow> Resource \<Rightarrow> ('s, ExpandedResource) go" where
  "generateModuleSpec n svc res = generateModuleSpec_with (GetResource n svc) res"

definition ListResources :: "'s Service \<Rightarrow> Filter \<Rightarrow> bool \<Rightarrow> ('s, PagedResource) go" where
  "ListResources svc filt withSpecConfigs =
     catchS (rs_List (svc_store svc) filt withSpecConfigs)
       (\<lambda>resources.
          let resources = Apply filt resources
          in ret \<lparr>pr_Count = word_of_nat (length resources), pr_Resources = resources\<rparr>)
       (\<lambda>err. fail (internal_cause err))"

definition GetLog :: "nat \<Rightarrow> 's Service \<Rightarrow> string \<Rightarrow> string gomap \<Rightarrow> ('s, LogChunk list) go" where
  "GetLog n svc urn filt =
     bindS (GetResource n svc urn) (\<lambda>res.
     bindS (generateModuleSpec n svc res) (\<lambda>modSpec.
     catchS (msv_StreamLogs (svc_moduleSvc svc) modSpec filt) ret
       (\<lambda>err. if isUnsupported err then
                fail (EErr (WithMsgf ErrUnsupported
                  (''log streaming not supported for kind '' @ sq (res_Kind res))))
              else fail err)))"

definition GetRevisions :: "'s Service \<Rightarrow> string \<Rightarrow> ('s, Revision list) go" where
  "GetRevisions svc selector =
     catchS (rs_Revisions (svc_store svc) selector) ret (\<lambda>err. fail (internal_cause err))"

section \<open>Writing\<close>

record Options =
  opt_DryRun :: bool

definition WithDryRun :: "bool \<Rightarrow> Options" where
  "WithDryRun dryRun = \<lparr>opt_DryRun = dryRun\<rparr>"

text \<open>The loop over the options: the last one decides.\<close>

definition dry_run :: "Options list \<Rightarrow> bool" where
  "dry_run opts = fold (\<lambda>opt _. opt_DryRun opt) opts False"

definition isCreate :: "string \<Rightarrow> bool" where
  "isCreate actionName \<longleftrightarrow> actionName = CreateAction"

definition mergeLabels :: "labels \<Rightarrow> labels \<Rightarrow> labels" where
  "mergeLabels m1 m2 =
     (if m1 = None \<and> m2 = None then None
      else let res = put_all (entries m2) (put_all (entries m1) [])
           in Some (filter (\<lambda>(k, v). v \<noteq> []) res))"

text \<open>The labels of \<open>res\<close> and \<open>act\<close> are read after the driver planned, in the maps it may have written to.\<close>

definition planChange :: "nat \<Rightarrow> 's Service \<Rightarrow> Resource \<Rightarrow> ActionRequest \<Rightarrow> ('s, Resource) go" where
  "planChange n svc res act =
     bindS (generateModuleSpec n svc res) (\<lambda>modSpec.
     catchS (msv_PlanAction (svc_moduleSvc svc) modSpec act)
       (\<lambda>pl s.
          case Validate (isCreate (act_Name act))
                 ((pl_Resource pl)\<lparr>res_Labels := mergeLabels (pl_ResLabels pl) (pl_ActLabels pl)\<rparr>) of
            (Ok _, planned') \<Rightarrow> (Ok planned', s)
          | (Err e, _) \<Rightarrow> (Err e, s)
          | (Panic p, _) \<Rightarrow> (Panic p, s)
          | (Overflow, _) \<Rightarrow> (Overflow, s))
       (\<lambda>err. if isInvalid err then fail err
              else fail (EErr (WithCausef (WithMsgf ErrInternal ''plan() failed'') (error_text err)))))"

definition upsert :: "'s Service \<Rightarrow> Resource \<Rightarrow> bool \<Rightarrow> bool \<Rightarrow> string \<Rightarrow> ('s, unit) go" where
  "upsert svc res create saveRevision reason =
     catchS (if create then rs_Create (svc_store svc) res []
             else rs_Update (svc_store svc) res saveRevision reason [])
       (\<lambda>_. ret ())
       (\<lambda>err. if create \<and> isConflict err then
                fail (EErr (WithMsgf ErrConflict (''resource with urn '' @ sq (res_URN res) @ '' already exists'')))
              else if \<not> create \<and> isNotFound err then
                fail (EErr (WithMsgf ErrNotFound (''resource with urn '' @ sq (res_URN res) @ '' does not exist'')))
              else fail (internal_cause err))"

text \<open>The stamps \<open>execAction\<close> puts on the planned resource.\<close>

definition stamp :: "time \<Rightarrow> Resource \<Rightarrow> ActionRequest \<Rightarrow> Resource \<Rightarrow> Resource" where
  "stamp now res act planned =
     (if isCreate (act_Name act) then
        planned\<lparr>res_CreatedAt := now, res_UpdatedAt := now, res_CreatedBy := act_UserID act,
                res_UpdatedBy := act_UserID act\<rparr>
      else
        planned\<lparr>res_CreatedAt := res_CreatedAt res, res_UpdatedAt := now, res_UpdatedBy := act_UserID act\<rparr>)"

definition execAction ::
    "nat \<Rightarrow> 's Service \<Rightarrow> Resource \<Rightarrow> ActionRequest \<Rightarrow> bool \<Rightarrow> ('s, Resource) go" where
  "execAction n svc res act dryRun =
     bindS (planChange n svc res act) (\<lambda>planned0 s0.
       (let planned = stamp (svc_clock svc s0) res act planned0;
            reason = ''action:'' @ act_Name act
        in bindS (if dryRun then ret ()
                  else upsert svc planned (isCreate (act_Name act)) True reason) (\<lambda>_.
           bindS (liftR (setupCounter svc ''pending'')) (\<lambda>_.
           bindS (counter_Add svc ''pending'' (res_URN res)) (\<lambda>_.
           ret planned)))) s0)"

definition CreateResource :: "nat \<Rightarrow> 's Service \<Rightarrow> Resource \<Rightarrow> Options list \<Rightarrow> ('s, Resource) go" where
  "CreateResource n svc res0 opts =
     (case Validate True res0 of
        (Ok _, res) \<Rightarrow>
          let act = \<lparr>act_Name = CreateAction, act_Params = sp_Configs (res_Spec res),
                     act_Labels = res_Labels res, act_UserID = res_CreatedBy res,
                     act_LabelsShared = True\<rparr>;
              res = res\<lparr>res_Spec := (res_Spec res)\<lparr>sp_Configs := None\<rparr>\<rparr>
          in execAction n svc res act (dry_run opts)
      | (Err e, _) \<Rightarrow> fail e
      | (Panic p, _) \<Rightarrow> panicS p
      | (Overflow, _) \<Rightarrow> overflowS)"

definition ApplyAction ::
    "nat \<Rightarrow> 's Service \<Rightarrow> string \<Rightarrow> ActionRequest \<Rightarrow> Options list \<Rightarrow> ('s, Resource) go" where
  "ApplyAction n svc urn act opts =
     bindS (GetResource n svc urn) (\<lambda>res.
       if \<not> IsTerminal (res_State res) then
         fail (invalid (''cannot perform '' @ sq (act_Name act) @ '' on resource in ''
                        @ sq (st_Status (res_State res))))
       else execAction n svc res act (dry_run opts))"

definition UpdateResource ::
    "nat \<Rightarrow> 's Service \<Rightarrow> string \<Rightarrow> UpdateRequest \<Rightarrow> Options list \<Rightarrow> ('s, Resource) go" where
  "UpdateResource n svc urn req opts =
     (if entries (sp_Dependencies (ur_Spec req)) \<noteq> [] then
        fail (EErr (WithMsgf ErrUnsupported ''updating dependencies is not supported''))
      else if raw_empty (sp_Configs (ur_Spec req)) then
        fail (invalid ''no config is being updated, nothing to do'')
      else
        ApplyAction n svc urn
          \<lparr>act_Name = UpdateAction, act_Params = sp_Configs (ur_Spec req), act_Labels = ur_Labels req,
           act_UserID = ur_UserID req, act_LabelsShared = False\<rparr> opts)"

definition DeleteResource :: "nat \<Rightarrow> 's Service \<Rightarrow> string \<Rightarrow> ('s, unit) go" where
  "DeleteResource n svc urn =
     bindS (ApplyAction n svc urn
       \<lparr>act_Name = DeleteAction, act_Params = None, act_Labels = None, act_UserID = [], act_LabelsShared = False\<rparr>
       [WithDryRun False])
       (\<lambda>_. ret ())"

section \<open>Syncing\<close>

text \<open>The error branch of \<open>handleSync\<close>: give up on an invalid config or when the retries are used up, else back off.\<close>

definition sync_failed :: "'s Service \<Rightarrow> Resource \<Rightarrow> gerror \<Rightarrow> ('s, Resource) go" where
  "sync_failed svc res0 err =
     (let st = (res_State res0)\<lparr>st_SyncResult :=
                  \<lparr>sr_Retries = sr_Retries (st_SyncResult (res_State res0)) + 1,
                   sr_LastError = error_text err\<rparr>\<rparr>
      in bindS (counter_Add svc ''retry'' (res_URN res0)) (\<lambda>_.
         if isInvalid err then
           bindS (counter_Add svc ''error'' (res_URN res0)) (\<lambda>_.
             ret (res0\<lparr>res_State := st\<lparr>st_Status := StatusError, st_NextSyncAt := None\<rparr>\<rparr>))
         else if svc_maxSyncRetries svc > 0 \<and> sr_Retries (st_SyncResult st) \<ge> svc_maxSyncRetries svc then
           bindS (counter_Add svc ''error'' (res_URN res0)) (\<lambda>_.
             ret (res0\<lparr>res_State := st\<lparr>st_Status := StatusError, st_NextSyncAt := None\<rparr>\<rparr>))
         else (\<lambda>s.
           let tryAgainAt = svc_clock svc s + svc_syncBackoff svc
           in ret (res0\<lparr>res_State := st\<lparr>st_NextSyncAt := Some tryAgainAt\<rparr>\<rparr>) s)))"

definition sync_done :: "'s Service \<Rightarrow> Resource \<Rightarrow> State \<Rightarrow> ('s, Resource) go" where
  "sync_done svc res0 newState s0 =
     (let res = res0\<lparr>res_UpdatedAt := svc_clock svc s0, res_State := newState\<rparr>
      in bindS (counter_Add svc ''completed'' (res_URN res)) (\<lambda>_. ret res) s0)"

definition handleSync :: "nat \<Rightarrow> 's Service \<Rightarrow> Resource \<Rightarrow> ('s, Resource) go" where
  "handleSync n svc res =
     bindS (liftR (setupCounter svc ''retry'')) (\<lambda>_.
     bindS (liftR (setupCounter svc ''error'')) (\<lambda>_.
     bindS (liftR (setupCounter svc ''completed'')) (\<lambda>_.
     bindS (generateModuleSpec n svc res) (\<lambda>modSpec.
     catchS (msv_SyncState (svc_moduleSvc svc) modSpec) (sync_done svc res) (sync_failed svc res)))))"

text \<open>One tick of a \<open>RunSyncer\<close> worker: the error of \<open>SyncOne\<close> is logged and dropped.\<close>

definition syncer_tick :: "nat \<Rightarrow> 's Service \<Rightarrow> scope \<Rightarrow> ('s, unit) go" where
  "syncer_tick n svc scope =
     catchS (rs_SyncOne (svc_store svc) scope (handleSync n svc)) ret (\<lambda>err. ret ())"

end
