(* ===== verification/Pg_Base.thy ===== *)
theory Pg_Base
  imports Core_Service
begin

text \<open>
  \<open>internal/store/postgres\<close>, foundations: the tables of \<open>schema.sql\<close>, the connection with its
  faults, transactions (\<open>utils.go\<close>), tags (\<open>tags_model.go\<close>) and the row types.

  The database is a state: the tables, the two id sequences and a script of faults that is
  consumed one entry per statement (also per \<open>BEGIN\<close> and \<open>COMMIT\<close>): a statement may fail before
  it takes effect or lose its reply after it did. \<open>w_now\<close> is the clock and \<open>w_ext\<close> whatever the
  drivers act on. Sequences are not rolled back. Columns of type \<open>bytea\<close> hold a byte string, so
  a nil slice is stored as the empty one; \<open>timestamptz\<close> rounds to microseconds.
\<close>

section \<open>Tables\<close>

record resourceModel =
  rm_ID :: nat
  rm_URN :: string
  rm_Kind :: string
  rm_Name :: string
  rm_Project :: string
  rm_CreatedAt :: time
  rm_UpdatedAt :: time
  rm_CreatedBy :: string
  rm_UpdatedBy :: string
  rm_SpecConfigs :: raw
  rm_StateStatus :: string
  rm_StateOutput :: raw
  rm_StateModuleData :: raw
  rm_StateNextSync :: "time option"
  rm_StateSyncResult :: raw

record dependency_row =
  dep_resource_id :: nat
  dep_key :: string
  dep_depends_on :: nat

record tag_row =
  tag_owner :: nat
  tag_text :: string

record revisionModel =
  rvm_ID :: nat
  rvm_Reason :: string
  rvm_CreatedAt :: time
  rvm_CreatedBy :: string
  rvm_ResourceID :: nat
  rvm_SpecConfigs :: raw

record moduleModel =
  mm_URN :: string
  mm_Name :: string
  mm_Project :: string
  mm_CreatedAt :: time
  mm_UpdatedAt :: time
  mm_Configs :: raw

record tables =
  t_resources :: "resourceModel list"
  t_deps :: "dependency_row list"
  t_tags :: "tag_row list"
  t_revisions :: "revisionModel list"
  t_revision_tags :: "tag_row list"
  t_modules :: "moduleModel list"

datatype fault = Fine | Fails gerror | Lost gerror

record 'x world =
  w_tables :: tables
  w_res_seq :: nat
  w_rev_seq :: nat
  w_faults :: "fault list"
  w_now :: time
  w_ext :: 'x

type_synonym ('x, 'a) db = "('x world, 'a) go"

definition empty_tables :: tables where
  "empty_tables =
     \<lparr>t_resources = [], t_deps = [], t_tags = [], t_revisions = [], t_revision_tags = [], t_modules = []\<rparr>"

text \<open>The database after \<open>Migrate\<close> on an empty server: sequences start at 1.\<close>

definition migrated :: "fault list \<Rightarrow> time \<Rightarrow> 'x \<Rightarrow> 'x world" where
  "migrated faults now ext =
     \<lparr>w_tables = empty_tables, w_res_seq = 1, w_rev_seq = 1, w_faults = faults, w_now = now, w_ext = ext\<rparr>"

definition pg_time :: "time \<Rightarrow> time" where
  "pg_time t = ((t + 500) div 1000) * 1000"

record Store =
  pg_extendInterval :: int
  pg_refreshInterval :: int
  pg_PaginationSizeDefault :: "32 word"
  pg_PaginationPageDefault :: "32 word"
  pg_order :: "resourceModel list \<Rightarrow> resourceModel list"
  pg_scanTags :: "string option list \<Rightarrow> string list outcome"
  pg_heartbeats :: "string \<Rightarrow> nat"

text \<open>
  \<open>pg_order\<close> is the order in which the server returns the rows of a query without \<open>ORDER BY\<close>,
  \<open>pg_scanTags\<close> is \<open>pq.StringArray.Scan\<close>, and \<open>pg_heartbeats urn\<close> the number of heartbeat ticks
  that fire while the resource is being synced.
\<close>

definition Open ::
    "int \<Rightarrow> int \<Rightarrow> 32 word \<Rightarrow> 32 word \<Rightarrow> (resourceModel list \<Rightarrow> resourceModel list) \<Rightarrow>
     (string option list \<Rightarrow> string list outcome) \<Rightarrow> (string \<Rightarrow> nat) \<Rightarrow> Store outcome" where
  "Open refreshInterval extendInterval paginationSizeDefault paginationPageDefault order scan beats =
     (if refreshInterval \<ge> extendInterval then
        Err (PlainErr ''refreshInterval must be lower than extendInterval'')
      else Ok \<lparr>pg_extendInterval = extendInterval, pg_refreshInterval = refreshInterval,
               pg_PaginationSizeDefault = paginationSizeDefault,
               pg_PaginationPageDefault = paginationPageDefault, pg_order = order,
               pg_scanTags = scan, pg_heartbeats = beats\<rparr>)"

section \<open>Statements and transactions\<close>

text \<open>A statement consumes one entry of the fault script; a lost reply comes after its effect.\<close>

definition next_fault :: "'x world \<Rightarrow> fault" where
  "next_fault s = (case w_faults s of [] \<Rightarrow> Fine | f # _ \<Rightarrow> f)"

definition tick_fault :: "'x world \<Rightarrow> 'x world" where
  "tick_fault s = s\<lparr>w_faults := tl (w_faults s)\<rparr>"

definition stmt :: "('x, 'a) db \<Rightarrow> ('x, 'a) db" where
  "stmt body s =
     (case next_fault s of
        Fine \<Rightarrow> body (tick_fault s)
      | Fails e \<Rightarrow> (Err e, tick_fault s)
      | Lost e \<Rightarrow> (case body (tick_fault s) of (Ok _, t) \<Rightarrow> (Err e, t) | rt \<Rightarrow> rt))"

definition query :: "(tables \<Rightarrow> 'a) \<Rightarrow> ('x, 'a) db" where
  "query q = stmt (\<lambda>s. (Ok (q (w_tables s)), s))"

definition exec :: "(time \<Rightarrow> tables \<Rightarrow> tables) \<Rightarrow> ('x, unit) db" where
  "exec f = stmt (\<lambda>s. (Ok (), s\<lparr>w_tables := f (pg_time (w_now s)) (w_tables s)\<rparr>))"

text \<open>
  \<open>withinTx\<close> with one function: \<open>BEGIN\<close>, the function, then \<open>COMMIT\<close>, or a rollback when it fails.
  A panic or a crash leaves the transaction unfinished, which the server rolls back.
\<close>

definition rollback_to :: "'x world \<Rightarrow> 'x world \<Rightarrow> 'x world" where
  "rollback_to s0 s = s\<lparr>w_tables := w_tables s0\<rparr>"

definition withinTx :: "bool \<Rightarrow> ('x, 'a) db \<Rightarrow> ('x, 'a) db" where
  "withinTx readOnly fn s0 =
     (case stmt (\<lambda>s. (Ok (), s)) s0 of
        (Ok _, s) \<Rightarrow>
          (case fn s of
             (Ok a, t) \<Rightarrow>
               (case next_fault t of
                  Fine \<Rightarrow> (Ok a, tick_fault t)
                | Fails e \<Rightarrow> (Err e, rollback_to s0 (tick_fault t))
                | Lost e \<Rightarrow> (Err e, tick_fault t))
           | (r, t) \<Rightarrow> (r, rollback_to s0 t))
      | (Err e, s) \<Rightarrow> (Err e, s)
      | (Panic p, s) \<Rightarrow> (Panic p, s)
      | (Overflow, s) \<Rightarrow> (Overflow, s))"

definition translateErr :: "gerror \<Rightarrow> gerror" where
  "translateErr err =
     (if errors_Is err ErrNoRows then EErr (WithCausef ErrNotFound (error_text err))
      else case As_pq err of
             Some name \<Rightarrow>
               if name = ''unique_violation'' then EErr (WithCausef ErrConflict (error_text err))
               else EErr (WithCausef ErrInternal (error_text err))
           | None \<Rightarrow> err)"

text \<open>\<open>if err := m; err != nil { return translateErr(err) }\<close>\<close>

definition translated :: "('x, 'a) db \<Rightarrow> ('x, 'a) db" where
  "translated m = catchS m ret (\<lambda>e. fail (translateErr e))"

fun runAllHooks :: "'x world hook list \<Rightarrow> ('x, unit) db" where
  "runAllHooks [] = ret ()"
| "runAllHooks (hook # hooks) = bindS hook (\<lambda>_. runAllHooks hooks)"

definition unique_violation :: "string \<Rightarrow> gerror" where
  "unique_violation constraint =
     PqErr ''unique_violation'' (''duplicate key value violates unique constraint '' @ constraint)"

section \<open>Tags\<close>

text \<open>The two tag tables, as the table name the functions are given.\<close>

datatype tag_table = ResourceTags | RevisionTags

definition get_tags :: "tag_table \<Rightarrow> tables \<Rightarrow> tag_row list" where
  "get_tags tt t = (case tt of ResourceTags \<Rightarrow> t_tags t | RevisionTags \<Rightarrow> t_revision_tags t)"

definition map_tags :: "tag_table \<Rightarrow> (tag_row list \<Rightarrow> tag_row list) \<Rightarrow> tables \<Rightarrow> tables" where
  "map_tags tt f t =
     (case tt of
        ResourceTags \<Rightarrow> t\<lparr>t_tags := f (t_tags t)\<rparr>
      | RevisionTags \<Rightarrow> t\<lparr>t_revision_tags := f (t_revision_tags t)\<rparr>)"

definition tags_of :: "tag_table \<Rightarrow> nat \<Rightarrow> tables \<Rightarrow> string list" where
  "tags_of tt owner t = map tag_text (filter (\<lambda>r. tag_owner r = owner) (get_tags tt t))"

definition readTags :: "tag_table \<Rightarrow> nat \<Rightarrow> ('x, string list) db" where
  "readTags tt owner =
     catchS (query (tags_of tt owner)) ret
       (\<lambda>err. if errors_Is err ErrNoRows then ret [] else fail err)"

definition labelMapToTags :: "labels \<Rightarrow> string list" where
  "labelMapToTags labels = map (\<lambda>(k, v). k @ ''='' @ v) (entries labels)"

fun tagsToLabelMap_loop :: "string list \<Rightarrow> (string \<times> string) list \<Rightarrow> (gerror, (string \<times> string) list) result" where
  "tagsToLabelMap_loop [] acc = Ok acc"
| "tagsToLabelMap_loop (tag # tags) acc =
     (case split2 (CHR ''='') tag of
        key # val # _ \<Rightarrow> tagsToLabelMap_loop tags (put key val acc)
      | _ \<Rightarrow> Panic ''index out of range [1] with length 1'')"

definition tagsToLabelMap :: "string list \<Rightarrow> labels outcome" where
  "tagsToLabelMap tags =
     (case tagsToLabelMap_loop tags [] of
        Ok m \<Rightarrow> Ok (Some m) | Err e \<Rightarrow> Err e | Panic p \<Rightarrow> Panic p | Overflow \<Rightarrow> Overflow)"

text \<open>The multi-row insert of tags: the unique constraint covers owner and tag.\<close>

definition insert_tags :: "tag_table \<Rightarrow> nat \<Rightarrow> string list \<Rightarrow> ('x, unit) db" where
  "insert_tags tt owner tags =
     stmt (\<lambda>s.
       if distinct tags \<and> list_all (\<lambda>tag. tag \<notin> set (tags_of tt owner (w_tables s))) tags
       then (Ok (), s\<lparr>w_tables := map_tags tt (\<lambda>rs. rs @ map (\<lambda>tag. \<lparr>tag_owner = owner, tag_text = tag\<rparr>) tags)
                                    (w_tables s)\<rparr>)
       else (Err (unique_violation ''tags_key''), s))"

definition setTags :: "tag_table \<Rightarrow> nat \<Rightarrow> labels \<Rightarrow> ('x, unit) db" where
  "setTags tt owner labels =
     bindS (exec (\<lambda>_. map_tags tt (filter (\<lambda>r. tag_owner r \<noteq> owner)))) (\<lambda>_.
       if entries labels \<noteq> [] then insert_tags tt owner (labelMapToTags labels) else ret ())"

section \<open>The tags round trip\<close>

lemma split2_tag: "CHR ''='' \<notin> set k \<Longrightarrow> split2 (CHR ''='') (k @ ''='' @ v) = [k, v]"
  using split2_append [of "CHR ''=''" k v] by simp

lemma tagsToLabelMap_loop_tags:
  assumes "\<forall>(k, v) \<in> set kvs. CHR ''='' \<notin> set k" and "distinct (map fst (acc @ kvs))"
  shows "tagsToLabelMap_loop (map (\<lambda>(k, v). k @ ''='' @ v) kvs) acc = Ok (acc @ kvs)"
  using assms
proof (induction kvs arbitrary: acc)
  case Nil
  then show ?case by simp
next
  case (Cons kv kvs)
  obtain k v where kv: "kv = (k, v)" by fastforce
  with Cons.prems have "k \<notin> fst ` set acc" by auto
  then have p: "put k v acc = acc @ [(k, v)]"
    unfolding put_def by (induction acc) auto
  from Cons.IH [of "acc @ [(k, v)]"] Cons.prems kv
  have ih: "tagsToLabelMap_loop (map (\<lambda>(k, v). k @ ''='' @ v) kvs) (acc @ [(k, v)]) = Ok (acc @ (k, v) # kvs)"
    by simp
  have "split2 (CHR ''='') (k @ ''='' @ v) = [k, v]"
    using Cons.prems(1) kv by (intro split2_tag) auto
  then show ?case
    using kv p ih by simp
qed

lemma distinct_labelMapToTags:
  assumes "wf_map labels" and "\<forall>(k, v) \<in> set (entries labels). CHR ''='' \<notin> set k"
  shows "distinct (labelMapToTags labels)"
proof -
  have "inj_on (\<lambda>(k, v). k @ ''='' @ v) (set (entries labels))"
  proof (rule inj_onI, clarify)
    fix k v k' v'
    assume m: "(k, v) \<in> set (entries labels)" "(k', v') \<in> set (entries labels)"
      and e: "k @ ''='' @ v = k' @ ''='' @ v'"
    have "[k, v] = split2 (CHR ''='') (k @ ''='' @ v)" and "[k', v'] = split2 (CHR ''='') (k' @ ''='' @ v')"
      using m assms(2) split2_tag by fastforce+
    then show "k = k' \<and> v = v'" using e by (metis list.inject)
  qed
  moreover have "distinct (entries labels)"
    using assms(1) by (simp add: wf_map_def distinct_map)
  ultimately show ?thesis
    unfolding labelMapToTags_def by (simp add: distinct_map)
qed

text \<open>Labels survive their encoding as tags: for a label map whose keys contain no \<open>=\<close> the tags
  are distinct (so the insert respects the unique constraint) and decoding them gives back the
  same map.\<close>

theorem tags_roundtrip:
  assumes "wf_map labels" and "\<forall>(k, v) \<in> set (entries labels). CHR ''='' \<notin> set k"
  shows "distinct (labelMapToTags labels) \<and> tagsToLabelMap (labelMapToTags labels) = Ok (Some (entries labels))"
  using distinct_labelMapToTags [OF assms] tagsToLabelMap_loop_tags [of "entries labels" "[]"] assms
  by (simp add: tagsToLabelMap_def labelMapToTags_def wf_map_def)

end
