(* ===== verification/Pg_Resource.thy ===== *)
theory Pg_Resource
  imports Pg_Base
begin

text \<open>
  \<open>internal/store/postgres/resource_store.go\<close>, \<open>resource_model.go\<close> and \<open>revision_store.go\<close>: the
  resource store over the tables. Each SQL statement is one \<open>query\<close>, \<open>exec\<close> or \<open>stmt\<close>; unique
  constraints are checked where rows are inserted.
\<close>

section \<open>Rows\<close>

definition SyncResult_json :: "SyncResult \<Rightarrow> json" where
  "SyncResult_json sr = JObj [(''retries'', JInt (sr_Retries sr)), (''last_error'', JStr (sr_LastError sr))]"

definition syncResultAsJSON :: "SyncResult \<Rightarrow> raw" where
  "syncResultAsJSON syncRes = (if syncRes = zero_SyncResult then None else raw_doc (SyncResult_json syncRes))"

definition SyncResult_fields :: "(string \<times> SyncResult setter) list" where
  "SyncResult_fields =
     [(''retries'', set_int sr_Retries_update), (''last_error'', set_str sr_LastError_update)]"

definition row_by_urn :: "string \<Rightarrow> tables \<Rightarrow> resourceModel option" where
  "row_by_urn urn t = find (\<lambda>r. rm_URN r = urn) (t_resources t)"

definition row_by_id :: "nat \<Rightarrow> tables \<Rightarrow> resourceModel option" where
  "row_by_id rid t = find (\<lambda>r. rm_ID r = rid) (t_resources t)"

section \<open>Reading\<close>

definition readResourceRecord :: "string \<Rightarrow> ('x, resourceModel) db" where
  "readResourceRecord urn =
     catchS (bindS (query (row_by_urn urn)) (\<lambda>r. case r of None \<Rightarrow> fail ErrNoRows | Some rec \<Rightarrow> ret rec)) ret
       (\<lambda>err. if errors_Is err ErrNoRows then fail (EErr ErrNotFound) else fail err)"

definition readResourceTags :: "nat \<Rightarrow> ('x, string list) db" where
  "readResourceTags rid = readTags ResourceTags rid"

text \<open>The join of the dependency rows of a resource with the rows they point to.\<close>

definition deps_of :: "nat \<Rightarrow> tables \<Rightarrow> (string \<times> string) list" where
  "deps_of rid t =
     concat (map (\<lambda>d. map (\<lambda>r. (dep_key d, rm_URN r))
                        (filter (\<lambda>r. rm_ID r = dep_depends_on d) (t_resources t)))
                 (filter (\<lambda>d. dep_resource_id d = rid) (t_deps t)))"

definition readResourceDeps :: "nat \<Rightarrow> ('x, (string \<times> string) list) db" where
  "readResourceDeps rid =
     catchS (query (deps_of rid)) (\<lambda>rows. ret (put_all rows []))
       (\<lambda>err. if errors_Is err ErrNoRows then ret [] else fail err)"

definition translateURNToID :: "string \<Rightarrow> ('x, nat) db" where
  "translateURNToID urn =
     bindS (query (row_by_urn urn)) (\<lambda>r. case r of None \<Rightarrow> fail ErrNoRows | Some rec \<Rightarrow> ret (rm_ID rec))"

definition decode_SyncResult :: "raw \<Rightarrow> SyncResult outcome" where
  "decode_SyncResult r = (if raw_empty r then Ok zero_SyncResult else Unmarshal SyncResult_fields r zero_SyncResult)"

definition model_to_resource ::
    "resourceModel \<Rightarrow> labels \<Rightarrow> string gomap \<Rightarrow> SyncResult \<Rightarrow> Resource" where
  "model_to_resource rec labels deps syncResult =
     \<lparr>res_URN = rm_URN rec, res_Kind = rm_Kind rec, res_Name = rm_Name rec, res_Project = rm_Project rec,
      res_Labels = labels, res_CreatedAt = rm_CreatedAt rec, res_UpdatedAt = rm_UpdatedAt rec,
      res_UpdatedBy = rm_UpdatedBy rec, res_CreatedBy = rm_CreatedBy rec,
      res_Spec = \<lparr>sp_Configs = rm_SpecConfigs rec, sp_Dependencies = deps\<rparr>,
      res_State = \<lparr>st_Status = rm_StateStatus rec, st_Output = rm_StateOutput rec,
                   st_ModuleData = rm_StateModuleData rec, st_NextSyncAt = rm_StateNextSync rec,
                   st_SyncResult = syncResult\<rparr>\<rparr>"

definition readResourceParts ::
    "string \<Rightarrow> ('x, resourceModel \<times> string list \<times> (string \<times> string) list) db" where
  "readResourceParts urn =
     bindS (readResourceRecord urn) (\<lambda>rec.
     bindS (readResourceTags (rm_ID rec)) (\<lambda>tags.
     bindS (readResourceDeps (rm_ID rec)) (\<lambda>deps.
     ret (rec, tags, deps))))"

definition GetByURN :: "string \<Rightarrow> ('x, Resource) db" where
  "GetByURN urn =
     bindS (withinTx True (readResourceParts urn)) (\<lambda>(rec, tags, deps).
     catchS (liftR (decode_SyncResult (rm_StateSyncResult rec)))
       (\<lambda>syncResult.
          bindS (liftR (tagsToLabelMap tags)) (\<lambda>labels.
          ret (model_to_resource rec labels (Some deps) syncResult)))
       (\<lambda>err. fail (EErr (WithCausef (WithMsgf ErrInternal ''failed to json unmarshal state_sync_result'')
                             (error_text err)))))"

section \<open>Writing\<close>

definition resource_row :: "nat \<Rightarrow> Resource \<Rightarrow> resourceModel" where
  "resource_row rid r =
     \<lparr>rm_ID = rid, rm_URN = res_URN r, rm_Kind = res_Kind r, rm_Name = res_Name r, rm_Project = res_Project r,
      rm_CreatedAt = pg_time (res_CreatedAt r), rm_UpdatedAt = pg_time (res_UpdatedAt r),
      rm_CreatedBy = res_CreatedBy r, rm_UpdatedBy = res_UpdatedBy r,
      rm_SpecConfigs = copy_raw (sp_Configs (res_Spec r)),
      rm_StateStatus = st_Status (res_State r), rm_StateOutput = copy_raw (st_Output (res_State r)),
      rm_StateModuleData = copy_raw (st_ModuleData (res_State r)),
      rm_StateNextSync = map_option pg_time (st_NextSyncAt (res_State r)),
      rm_StateSyncResult = syncResultAsJSON (st_SyncResult (res_State r))\<rparr>"

text \<open>The id comes from the sequence also when the unique constraint on the URN fails.\<close>

definition insertResourceRecord :: "Resource \<Rightarrow> ('x, nat) db" where
  "insertResourceRecord r =
     stmt (\<lambda>s.
       let rid = w_res_seq s; s' = s\<lparr>w_res_seq := rid + 1\<rparr>
       in if list_ex (\<lambda>row. rm_URN row = res_URN r) (t_resources (w_tables s))
          then (Err (unique_violation ''resources_urn_key''), s')
          else (Ok rid, s'\<lparr>w_tables := (w_tables s)\<lparr>t_resources := t_resources (w_tables s) @ [resource_row rid r]\<rparr>\<rparr>))"

definition setResourceTags :: "nat \<Rightarrow> labels \<Rightarrow> ('x, unit) db" where
  "setResourceTags rid labels = setTags ResourceTags rid labels"

text \<open>The loop that looks up the id of every dependency.\<close>

fun dependency_rows :: "nat \<Rightarrow> (string \<times> string) list \<Rightarrow> ('x, dependency_row list) db" where
  "dependency_rows rid [] = ret []"
| "dependency_rows rid ((depKey, dependsOnURN) # rest) =
     bindS (translateURNToID dependsOnURN) (\<lambda>dependsOnID.
     bindS (dependency_rows rid rest) (\<lambda>rows.
     ret (\<lparr>dep_resource_id = rid, dep_key = depKey, dep_depends_on = dependsOnID\<rparr> # rows)))"

definition insert_dependencies :: "dependency_row list \<Rightarrow> ('x, unit) db" where
  "insert_dependencies rows =
     stmt (\<lambda>s.
       let key = (\<lambda>d. (dep_resource_id d, dep_key d)); old = t_deps (w_tables s)
       in if distinct (map key rows) \<and> list_all (\<lambda>d. key d \<notin> set (map key old)) rows
          then (Ok (), s\<lparr>w_tables := (w_tables s)\<lparr>t_deps := old @ rows\<rparr>\<rparr>)
          else (Err (unique_violation ''resource_dependencies_key''), s))"

definition setDependencies :: "nat \<Rightarrow> string gomap \<Rightarrow> ('x, unit) db" where
  "setDependencies rid deps =
     bindS (exec (\<lambda>_ t. t\<lparr>t_deps := filter (\<lambda>d. dep_resource_id d \<noteq> rid) (t_deps t)\<rparr>)) (\<lambda>_.
       if entries deps \<noteq> [] then
         bindS (dependency_rows rid (entries deps)) insert_dependencies
       else ret ())"

definition setRevisionTags :: "nat \<Rightarrow> labels \<Rightarrow> ('x, unit) db" where
  "setRevisionTags rid labels = setTags RevisionTags rid labels"

definition insert_revision_row :: "nat \<Rightarrow> Revision \<Rightarrow> ('x, nat) db" where
  "insert_revision_row resID r =
     stmt (\<lambda>s.
       let rid = w_rev_seq s
       in (Ok rid, s\<lparr>w_rev_seq := rid + 1,
                     w_tables := (w_tables s)\<lparr>t_revisions := t_revisions (w_tables s) @
                       [\<lparr>rvm_ID = rid, rvm_Reason = rev_Reason r, rvm_CreatedAt = pg_time (w_now s),
                         rvm_CreatedBy = rev_CreatedBy r, rvm_ResourceID = resID,
                         rvm_SpecConfigs = copy_raw (sp_Configs (rev_Spec r))\<rparr>]\<rparr>\<rparr>))"

definition insertRevision :: "nat \<Rightarrow> Revision \<Rightarrow> ('x, unit) db" where
  "insertRevision resID r =
     bindS (insert_revision_row resID r) (\<lambda>revisionID. setRevisionTags revisionID (rev_Labels r))"

text \<open>The revision that \<open>Create\<close> and \<open>Update\<close> record.\<close>

definition revision_of :: "Resource \<Rightarrow> string \<Rightarrow> Revision" where
  "revision_of r reason =
     \<lparr>rev_ID = 0, rev_URN = res_URN r, rev_Reason = reason, rev_Labels = res_Labels r, rev_CreatedAt = 0,
      rev_CreatedBy = res_UpdatedBy r, rev_Spec = res_Spec r\<rparr>"

definition insertResource :: "Resource \<Rightarrow> 'x world hook list \<Rightarrow> ('x, unit) db" where
  "insertResource r hooks =
     bindS (translated (insertResourceRecord r)) (\<lambda>rid.
     bindS (translated (setResourceTags rid (res_Labels r))) (\<lambda>_.
     bindS (translated (setDependencies rid (sp_Dependencies (res_Spec r)))) (\<lambda>_.
     bindS (translated (insertRevision rid (revision_of r ''action:create''))) (\<lambda>_.
     runAllHooks hooks))))"

definition Create :: "Resource \<Rightarrow> 'x world hook list \<Rightarrow> ('x, unit) db" where
  "Create r hooks = withinTx False (insertResource r hooks)"

definition update_row :: "time \<Rightarrow> Resource \<Rightarrow> resourceModel \<Rightarrow> resourceModel" where
  "update_row now r row =
     row\<lparr>rm_UpdatedAt := now, rm_UpdatedBy := res_UpdatedBy r,
         rm_SpecConfigs := copy_raw (sp_Configs (res_Spec r)),
         rm_StateStatus := st_Status (res_State r), rm_StateOutput := copy_raw (st_Output (res_State r)),
         rm_StateModuleData := copy_raw (st_ModuleData (res_State r)),
         rm_StateNextSync := map_option pg_time (st_NextSyncAt (res_State r)),
         rm_StateSyncResult := syncResultAsJSON (st_SyncResult (res_State r))\<rparr>"

definition map_rows :: "(resourceModel \<Rightarrow> bool) \<Rightarrow> (resourceModel \<Rightarrow> resourceModel) \<Rightarrow> tables \<Rightarrow> tables" where
  "map_rows P f t = t\<lparr>t_resources := map (\<lambda>row. if P row then f row else row) (t_resources t)\<rparr>"

definition updateResource :: "Resource \<Rightarrow> bool \<Rightarrow> string \<Rightarrow> 'x world hook list \<Rightarrow> ('x, unit) db" where
  "updateResource r saveRevision reason hooks =
     bindS (translateURNToID (res_URN r)) (\<lambda>rid.
     bindS (exec (\<lambda>now. map_rows (\<lambda>row. rm_ID row = rid) (update_row now r))) (\<lambda>_.
     bindS (setResourceTags rid (res_Labels r)) (\<lambda>_.
     bindS (setDependencies rid (sp_Dependencies (res_Spec r))) (\<lambda>_.
     bindS (if saveRevision then translated (insertRevision rid (revision_of r reason)) else ret ()) (\<lambda>_.
     runAllHooks hooks)))))"

definition Update :: "Resource \<Rightarrow> bool \<Rightarrow> string \<Rightarrow> 'x world hook list \<Rightarrow> ('x, unit) db" where
  "Update r saveRevision reason hooks = withinTx False (updateResource r saveRevision reason hooks)"

definition deleteFn :: "string \<Rightarrow> 'x world hook list \<Rightarrow> ('x, unit) db" where
  "deleteFn urn hooks =
     bindS (translateURNToID urn) (\<lambda>rid.
     bindS (exec (\<lambda>_ t. t\<lparr>t_deps := filter (\<lambda>d. dep_resource_id d \<noteq> rid) (t_deps t)\<rparr>)) (\<lambda>_.
     bindS (exec (\<lambda>_ t. t\<lparr>t_tags := filter (\<lambda>r. tag_owner r \<noteq> rid) (t_tags t)\<rparr>)) (\<lambda>_.
     runAllHooks hooks)))"

definition Delete :: "string \<Rightarrow> 'x world hook list \<Rightarrow> ('x, unit) db" where
  "Delete urn hooks = withinTx False (deleteFn urn hooks)"

section \<open>Revisions\<close>

text \<open>\<open>ORDER BY created_at DESC\<close>: a stable sort on the negated time.\<close>

definition revisions_of :: "nat \<Rightarrow> tables \<Rightarrow> revisionModel list" where
  "revisions_of rid t = sort_key (\<lambda>r. - rvm_CreatedAt r) (filter (\<lambda>r. rvm_ResourceID r = rid) (t_revisions t))"

definition readRevisionTags :: "nat \<Rightarrow> ('x, string list) db" where
  "readRevisionTags rid = readTags RevisionTags rid"

definition model_to_revision :: "string \<Rightarrow> (string \<times> string) list \<Rightarrow> revisionModel \<Rightarrow> Revision" where
  "model_to_revision urn deps rm =
     \<lparr>rev_ID = int (rvm_ID rm), rev_URN = urn, rev_Reason = rvm_Reason rm, rev_Labels = None,
      rev_CreatedAt = rvm_CreatedAt rm, rev_CreatedBy = rvm_CreatedBy rm,
      rev_Spec = \<lparr>sp_Configs = rvm_SpecConfigs rm, sp_Dependencies = Some deps\<rparr>\<rparr>"

fun label_revisions :: "Revision list \<Rightarrow> ('x, Revision list) db" where
  "label_revisions [] = ret []"
| "label_revisions (r # rs) =
     bindS (readRevisionTags (nat (rev_ID r))) (\<lambda>tags.
     bindS (liftR (tagsToLabelMap tags)) (\<lambda>labels.
     bindS (label_revisions rs) (\<lambda>rs'.
     ret (r\<lparr>rev_Labels := labels\<rparr> # rs'))))"

definition Revisions :: "string \<Rightarrow> ('x, Revision list) db" where
  "Revisions urn =
     catchS (withinTx True (
         bindS (translateURNToID urn) (\<lambda>resourceID.
         bindS (readResourceDeps resourceID) (\<lambda>deps.
         bindS (query (revisions_of resourceID)) (\<lambda>rows.
         label_revisions (map (model_to_revision urn deps) rows))))))
       ret
       (\<lambda>err. if errors_Is err ErrNoRows then ret [] else fail err)"

end
