(* ===== verification/Pg_Store.thy ===== *)
theory Pg_Store
  imports Pg_Resource
begin

text \<open>
  \<open>internal/store/postgres\<close>, the rest of the store: the paged listing (\<open>List\<close> and the two join
  queries of \<open>resource_model.go\<close>), the pick-up of a resource for syncing (\<open>SyncOne\<close> with its
  heartbeat), the module store (\<open>module_store.go\<close>, \<open>module_model.go\<close>), and the store as the
  interfaces \<open>resource.Store\<close> and \<open>module.Store\<close>.
\<close>

section \<open>Listing\<close>

record ListResourceByFilterRow =
  lr_row :: resourceModel
  lr_Tags :: "string list"
  lr_Dependencies :: raw

text \<open>The dependency rows of a resource with the URN they point to, as a left join gives them.\<close>

definition left_joined_deps :: "nat \<Rightarrow> tables \<Rightarrow> (string \<times> string option) list" where
  "left_joined_deps rid t =
     map (\<lambda>d. (dep_key d, map_option rm_URN (row_by_id (dep_depends_on d) t)))
       (filter (\<lambda>d. dep_resource_id d = rid) (t_deps t))"

text \<open>
  \<open>array_agg(rt.tag)\<close> over the joined rows: every tag once per dependency row, a single null tag per
  dependency row when the resource has no tags; \<open>{NULL}\<close> itself is replaced by the empty array.
\<close>

definition agg_tags :: "nat \<Rightarrow> tables \<Rightarrow> string option list" where
  "agg_tags rid t =
     (let ds = left_joined_deps rid t; ts = tags_of ResourceTags rid t;
          agg = concat (replicate (max 1 (length ds)) (if ts = [] then [None] else map Some ts))
      in if agg = [None] then [] else agg)"

definition agg_deps :: "nat \<Rightarrow> tables \<Rightarrow> json" where
  "agg_deps rid t =
     (let ds = left_joined_deps rid t;
          pairs = (if ds = [] then [([], JNull)]
                   else map (\<lambda>(k, u). (k, case u of Some urn \<Rightarrow> JStr urn | None \<Rightarrow> JNull)) ds)
      in JObj (put_all pairs []))"

definition matching_rows :: "Store \<Rightarrow> string \<Rightarrow> string \<Rightarrow> tables \<Rightarrow> resourceModel list" where
  "matching_rows st project kind t =
     pg_order st (filter (\<lambda>r. (project = [] \<or> rm_Project r = project) \<and> (kind = [] \<or> rm_Kind r = kind))
                    (t_resources t))"

text \<open>\<open>LIMIT $3 OFFSET $4\<close>, with a null limit for 0; the server rejects negative values.\<close>

definition page_of :: "32 word \<Rightarrow> 32 word \<Rightarrow> 'a list \<Rightarrow> 'a list outcome" where
  "page_of limit offset rows =
     (if sint offset < 0 then Err (PqErr ''invalid_row_count_in_result_offset_clause'' ''OFFSET must not be negative'')
      else if sint limit < 0 then Err (PqErr ''invalid_row_count_in_limit_clause'' ''LIMIT must not be negative'')
      else let rest = drop (nat (sint offset)) rows
           in Ok (if limit = 0 then rest else take (nat (sint limit)) rest))"

fun scan_rows ::
    "Store \<Rightarrow> bool \<Rightarrow> tables \<Rightarrow> resourceModel list \<Rightarrow> ListResourceByFilterRow list outcome" where
  "scan_rows st withSpecConfigs t [] = Ok []"
| "scan_rows st withSpecConfigs t (r # rs) =
     (case pg_scanTags st (agg_tags (rm_ID r) t) of
        Ok tags \<Rightarrow>
          (case scan_rows st withSpecConfigs t rs of
             Ok items \<Rightarrow>
               Ok (\<lparr>lr_row = (if withSpecConfigs then r else r\<lparr>rm_SpecConfigs := None\<rparr>), lr_Tags = tags,
                    lr_Dependencies = raw_doc (agg_deps (rm_ID r) t)\<rparr> # items)
           | Err e \<Rightarrow> Err e
           | Panic p \<Rightarrow> Panic p
           | Overflow \<Rightarrow> Overflow)
      | Err e \<Rightarrow> Err e
      | Panic p \<Rightarrow> Panic p
      | Overflow \<Rightarrow> Overflow)"

definition list_resources ::
    "Store \<Rightarrow> bool \<Rightarrow> string \<Rightarrow> string \<Rightarrow> 32 word \<Rightarrow> 32 word \<Rightarrow> ('x, ListResourceByFilterRow list) db" where
  "list_resources st withSpecConfigs project kind limit offset =
     stmt (\<lambda>s.
       (case page_of limit offset (matching_rows st project kind (w_tables s)) of
          Ok rows \<Rightarrow> scan_rows st withSpecConfigs (w_tables s) rows
        | Err e \<Rightarrow> Err e
        | Panic p \<Rightarrow> Panic p
        | Overflow \<Rightarrow> Overflow, s))"

definition listResourceWithSpecConfigsByFilter ::
    "Store \<Rightarrow> string \<Rightarrow> string \<Rightarrow> 32 word \<Rightarrow> 32 word \<Rightarrow> ('x, ListResourceByFilterRow list) db" where
  "listResourceWithSpecConfigsByFilter st = list_resources st True"

definition listResourceByFilter ::
    "Store \<Rightarrow> string \<Rightarrow> string \<Rightarrow> 32 word \<Rightarrow> 32 word \<Rightarrow> ('x, ListResourceByFilterRow list) db" where
  "listResourceByFilter st = list_resources st False"

text \<open>The loop that looks for the placeholder key of a resource without dependencies.\<close>

fun drop_placeholder :: "(string \<times> string) list \<Rightarrow> (string \<times> string) list \<Rightarrow> (string \<times> string) list" where
  "drop_placeholder [] deps = deps"
| "drop_placeholder ((k, v) # rest) deps = (if k \<noteq> [] then deps else drop_placeholder rest [])"

definition depsBytesToMap :: "raw \<Rightarrow> string gomap outcome" where
  "depsBytesToMap dependencies =
     (if raw_empty dependencies then Ok (Some [])
      else case json_parse dependencies of
             Ok (JObj kvs) \<Rightarrow>
               (case json_strmap kvs of
                  Some m \<Rightarrow> let deps = put_all m [] in Ok (Some (drop_placeholder deps deps))
                | None \<Rightarrow> Err unmarshal_type_error)
           | Ok JNull \<Rightarrow> Ok None
           | Ok _ \<Rightarrow> Err unmarshal_type_error
           | Err e \<Rightarrow> Err e
           | Panic p \<Rightarrow> Panic p
           | Overflow \<Rightarrow> Overflow)"

definition listed_resource :: "ListResourceByFilterRow \<Rightarrow> ('x, Resource) db" where
  "listed_resource res =
     bindS (liftR (decode_SyncResult (rm_StateSyncResult (lr_row res)))) (\<lambda>syncResult.
     bindS (liftR (depsBytesToMap (lr_Dependencies res))) (\<lambda>deps.
     bindS (liftR (tagsToLabelMap (lr_Tags res))) (\<lambda>labels.
       let row = lr_row res;
           nextSyncAt = (case rm_StateNextSync row of Some t \<Rightarrow> if t \<noteq> 0 then Some t else None | None \<Rightarrow> None)
       in ret (model_to_resource (row\<lparr>rm_StateNextSync := nextSyncAt\<rparr>) labels deps syncResult))))"

fun listed_resources :: "ListResourceByFilterRow list \<Rightarrow> ('x, Resource list) db" where
  "listed_resources [] = ret []"
| "listed_resources (res # rest) =
     bindS (listed_resource res) (\<lambda>r. bindS (listed_resources rest) (\<lambda>rs. ret (r # rs)))"

text \<open>The page size, page number and offset \<open>List\<close> computes, in 32-bit arithmetic.\<close>

definition page_size :: "Store \<Rightarrow> Filter \<Rightarrow> 32 word" where
  "page_size st f = (if sint (fl_PageSize f) < 1 then pg_PaginationSizeDefault st else fl_PageSize f)"

definition page_num :: "Store \<Rightarrow> Filter \<Rightarrow> 32 word" where
  "page_num st f = (if sint (fl_PageNum f) < 1 then pg_PaginationPageDefault st else fl_PageNum f)"

definition page_offset :: "Store \<Rightarrow> Filter \<Rightarrow> 32 word" where
  "page_offset st f = (page_num st f - 1) * page_size st f"

definition List :: "Store \<Rightarrow> Filter \<Rightarrow> bool \<Rightarrow> ('x, Resource list) db" where
  "List st f withSpecConfigs =
     bindS (if withSpecConfigs
            then listResourceWithSpecConfigsByFilter st (fl_Project f) (fl_Kind f) (page_size st f) (page_offset st f)
            else listResourceByFilter st (fl_Project f) (fl_Kind f) (page_size st f) (page_offset st f))
       listed_resources"

section \<open>Picking up a resource for sync\<close>

text \<open>The keys of a scope that are modelled are the columns of type text. Postgres would compare a column of
  another type (\<open>id\<close>, the times, the \<open>bytea\<close> columns) after converting the values; such a scope is not
  modelled, and is refused here like an unknown column.\<close>

definition text_column :: "string \<Rightarrow> (resourceModel \<Rightarrow> string) option" where
  "text_column c =
     map_of [(''urn'', rm_URN), (''kind'', rm_Kind), (''name'', rm_Name), (''project'', rm_Project),
             (''state_status'', rm_StateStatus), (''created_by'', rm_CreatedBy), (''updated_by'', rm_UpdatedBy)] c"

text \<open>\<open>WHERE key IN (values)\<close> for every entry of the scope; an empty list matches nothing.\<close>

definition in_scope :: "scope \<Rightarrow> resourceModel \<Rightarrow> bool" where
  "in_scope scope row =
     list_all (\<lambda>(key, values). values \<noteq> [] \<and>
        (case text_column key of Some col \<Rightarrow> col row \<in> set values | None \<Rightarrow> False)) (entries scope)"

definition scope_columns_ok :: "scope \<Rightarrow> bool" where
  "scope_columns_ok scope = list_all (\<lambda>(key, values). values = [] \<or> text_column key \<noteq> None) (entries scope)"

definition due :: "time \<Rightarrow> resourceModel \<Rightarrow> bool" where
  "due now row = (case rm_StateNextSync row of Some t \<Rightarrow> t \<le> now | None \<Rightarrow> False)"

definition select_due :: "Store \<Rightarrow> scope \<Rightarrow> ('x, string) db" where
  "select_due st scope =
     stmt (\<lambda>s.
       if \<not> scope_columns_ok scope then (Err (PqErr ''undefined_column'' ''column does not exist''), s)
       else case pg_order st (filter (\<lambda>r. due (pg_time (w_now s)) r \<and> in_scope scope r)
                                (t_resources (w_tables s))) of
              [] \<Rightarrow> (Err ErrNoRows, s)
            | r # _ \<Rightarrow> (Ok (rm_URN r), s))"

definition extendWaitTime :: "Store \<Rightarrow> string \<Rightarrow> ('x, unit) db" where
  "extendWaitTime st urn =
     exec (\<lambda>now. map_rows (\<lambda>r. rm_URN r = urn)
                   (\<lambda>r. r\<lparr>rm_StateNextSync := Some (pg_time (now + pg_extendInterval st))\<rparr>))"

definition fetchResourceForSync :: "Store \<Rightarrow> scope \<Rightarrow> ('x, string) db" where
  "fetchResourceForSync st scope =
     withinTx False (
       bindS (select_due st scope) (\<lambda>urn.
       bindS (extendWaitTime st urn) (\<lambda>_. ret urn)))"

text \<open>The heartbeat loop, for the ticks that fire before it is cancelled; it ends at its first error.\<close>

fun runHeartbeat :: "Store \<Rightarrow> nat \<Rightarrow> string \<Rightarrow> ('x, unit) db" where
  "runHeartbeat st 0 urn = ret ()"
| "runHeartbeat st (Suc k) urn = catchS (extendWaitTime st urn) (\<lambda>_. runHeartbeat st k urn) (\<lambda>_. ret ())"

definition handleDequeued :: "Store \<Rightarrow> Resource \<Rightarrow> 'x world syncfn \<Rightarrow> ('x, Resource) db" where
  "handleDequeued st res fn =
     bindS (runHeartbeat st (pg_heartbeats st (res_URN res)) (res_URN res)) (\<lambda>_. fn res)"

definition SyncOne :: "Store \<Rightarrow> scope \<Rightarrow> 'x world syncfn \<Rightarrow> ('x, unit) db" where
  "SyncOne st scope syncFn =
     catchS (fetchResourceForSync st scope)
       (\<lambda>urn.
          bindS (GetByURN urn) (\<lambda>cur.
          bindS (handleDequeued st cur syncFn) (\<lambda>synced.
          Update synced False ''sync'' [])))
       (\<lambda>err. if errors_Is err ErrNoRows then ret () else fail err)"

section \<open>Modules\<close>

definition toModule :: "moduleModel \<Rightarrow> Module" where
  "toModule mm =
     \<lparr>mod_URN = mm_URN mm, mod_Name = mm_Name mm, mod_Project = mm_Project mm, mod_Configs = mm_Configs mm,
      mod_CreatedAt = mm_CreatedAt mm, mod_UpdatedAt = mm_UpdatedAt mm\<rparr>"

definition module_by_urn :: "string \<Rightarrow> tables \<Rightarrow> moduleModel option" where
  "module_by_urn urn t = find (\<lambda>m. mm_URN m = urn) (t_modules t)"

definition readModuleRecord :: "string \<Rightarrow> ('x, moduleModel) db" where
  "readModuleRecord urn =
     catchS (bindS (query (module_by_urn urn)) (\<lambda>r. case r of None \<Rightarrow> fail ErrNoRows | Some rec \<Rightarrow> ret rec)) ret
       (\<lambda>err. if errors_Is err ErrNoRows then fail (EErr ErrNotFound) else fail err)"

definition module_row :: "Module \<Rightarrow> moduleModel" where
  "module_row m =
     \<lparr>mm_URN = mod_URN m, mm_Name = mod_Name m, mm_Project = mod_Project m,
      mm_CreatedAt = pg_time (mod_CreatedAt m), mm_UpdatedAt = pg_time (mod_UpdatedAt m),
      mm_Configs = copy_raw (mod_Configs m)\<rparr>"

definition insertModuleRecord :: "Module \<Rightarrow> ('x, unit) db" where
  "insertModuleRecord m =
     stmt (\<lambda>s.
       if list_ex (\<lambda>row. mm_URN row = mod_URN m) (t_modules (w_tables s))
       then (Err (unique_violation ''modules_pkey''), s)
       else (Ok (), s\<lparr>w_tables := (w_tables s)\<lparr>t_modules := t_modules (w_tables s) @ [module_row m]\<rparr>\<rparr>))"

definition Store_GetModule :: "string \<Rightarrow> ('x, Module) db" where
  "Store_GetModule urn = bindS (readModuleRecord urn) (\<lambda>rec. ret (toModule rec))"

fun read_modules :: "string list \<Rightarrow> ('x, Module list) db" where
  "read_modules [] = ret []"
| "read_modules (urn # urns) =
     bindS (readModuleRecord urn) (\<lambda>m. bindS (read_modules urns) (\<lambda>ms. ret (toModule m # ms)))"

definition Store_ListModules :: "string \<Rightarrow> ('x, Module list) db" where
  "Store_ListModules project =
     catchS (query (\<lambda>t. map mm_URN (filter (\<lambda>m. project = [] \<or> mm_Project m = project) (t_modules t))))
       read_modules
       (\<lambda>err. if errors_Is err ErrNoRows then ret [] else fail err)"

definition Store_CreateModule :: "Module \<Rightarrow> ('x, unit) db" where
  "Store_CreateModule m = translated (insertModuleRecord m)"

definition Store_UpdateModule :: "Module \<Rightarrow> ('x, unit) db" where
  "Store_UpdateModule m =
     translated (exec (\<lambda>now t. t\<lparr>t_modules :=
       map (\<lambda>row. if mm_URN row = mod_URN m
                  then row\<lparr>mm_Configs := copy_raw (mod_Configs m), mm_UpdatedAt := now\<rparr> else row) (t_modules t)\<rparr>))"

definition Store_DeleteModule :: "string \<Rightarrow> ('x, unit) db" where
  "Store_DeleteModule urn =
     translated (exec (\<lambda>_ t. t\<lparr>t_modules := filter (\<lambda>row. mm_URN row \<noteq> urn) (t_modules t)\<rparr>))"

section \<open>The store as interfaces\<close>

definition pg_resource_Store :: "Store \<Rightarrow> 'x world resource_Store" where
  "pg_resource_Store st =
     \<lparr>rs_GetByURN = GetByURN, rs_List = List st, rs_Create = Create, rs_Update = Update, rs_Delete = Delete,
      rs_Revisions = Revisions, rs_SyncOne = SyncOne st\<rparr>"

definition pg_module_Store :: "'x world module_Store" where
  "pg_module_Store =
     \<lparr>ms_GetModule = Store_GetModule, ms_ListModules = Store_ListModules, ms_CreateModule = Store_CreateModule,
      ms_UpdateModule = Store_UpdateModule, ms_DeleteModule = Store_DeleteModule\<rparr>"

end
