(* ===== verification/Pg_Rules.thy ===== *)
theory Pg_Rules
  imports Pg_Store
begin

text \<open>
  Proof rules for the store: statements and transactions under faults, what reads leave alone,
  and \<open>robust\<close> computations, whose successful runs do not depend on the fault script. They
  carry the invariant, atomicity and round-trip proofs.
\<close>

section \<open>Frames\<close>

text \<open>The world without its fault script.\<close>

definition nf :: "'x world \<Rightarrow> 'x world" where
  "nf s = s\<lparr>w_faults := []\<rparr>"

lemma nf_simps [simp]:
  "w_tables (nf s) = w_tables s" "w_res_seq (nf s) = w_res_seq s" "w_rev_seq (nf s) = w_rev_seq s"
  "w_now (nf s) = w_now s" "w_ext (nf s) = w_ext s" "w_faults (nf s) = []" "nf (nf s) = nf s"
  "nf (tick_fault s) = nf s"
  by (simp_all add: nf_def tick_fault_def)

lemma tick_fault_simps [simp]:
  "w_tables (tick_fault s) = w_tables s" "w_res_seq (tick_fault s) = w_res_seq s"
  "w_rev_seq (tick_fault s) = w_rev_seq s" "w_now (tick_fault s) = w_now s" "w_ext (tick_fault s) = w_ext s"
  by (simp_all add: tick_fault_def)

lemma nf_update [simp]:
  "nf (s\<lparr>w_tables := t\<rparr>) = (nf s)\<lparr>w_tables := t\<rparr>" "nf (s\<lparr>w_res_seq := i\<rparr>) = (nf s)\<lparr>w_res_seq := i\<rparr>"
  "nf (s\<lparr>w_rev_seq := j\<rparr>) = (nf s)\<lparr>w_rev_seq := j\<rparr>"
  by (simp_all add: nf_def)

lemma nf_faultless [simp]: "w_faults s = [] \<Longrightarrow> nf s = s"
  by (simp add: nf_def)

lemma next_fault_nf [simp]: "next_fault (nf s) = Fine"
  by (simp add: next_fault_def)

lemma tick_fault_nf [simp]: "tick_fault (nf s) = nf s"
  by (simp add: tick_fault_def nf_def)

section \<open>Rules for statements and transactions\<close>

lemma hoare_stmt:
  assumes "hoare P body Q" and "\<And>s. P s \<Longrightarrow> P (tick_fault s)"
    and "\<And>s e. P s \<Longrightarrow> Q (Err e) s" and "\<And>a s e. Q (Ok a) s \<Longrightarrow> Q (Err e) s"
  shows "hoare P (stmt body) Q"
proof (rule hoareI)
  fix s assume "P s"
  then have "P (tick_fault s)" by (rule assms(2))
  with assms(1) have "Q (fst (body (tick_fault s))) (snd (body (tick_fault s)))"
    by (simp add: hoare_def)
  with \<open>P (tick_fault s)\<close> show "Q (fst (stmt body s)) (snd (stmt body s))"
    using assms(3,4) by (auto simp: stmt_def split: fault.split prod.splits result.splits)
qed

lemma safe_stmt: "safe P body \<Longrightarrow> (\<And>s. P s \<Longrightarrow> P (tick_fault s)) \<Longrightarrow> safe P (stmt body)"
  by (erule hoare_stmt) auto

lemma hoare_withinTx:
  assumes "hoare P fn Q" and "\<And>s. P s \<Longrightarrow> P (tick_fault s)"
    and "\<And>a s. Q (Ok a) s \<Longrightarrow> Q (Ok a) (tick_fault s)"
    and "\<And>a s e. Q (Ok a) s \<Longrightarrow> Q (Err e) (tick_fault s)"
    and "\<And>s e. P s \<Longrightarrow> Q (Err e) s"
    and "\<And>s0 r s. P s0 \<Longrightarrow> Q r s \<Longrightarrow> (\<forall>a. r \<noteq> Ok a) \<Longrightarrow> Q r (rollback_to s0 s)"
    and "\<And>s0 a s e. P s0 \<Longrightarrow> Q (Ok a) s \<Longrightarrow> Q (Err e) (rollback_to s0 (tick_fault s))"
  shows "hoare P (withinTx readOnly fn) Q"
proof (rule hoareI)
  fix s0 assume P: "P s0"
  show "Q (fst (withinTx readOnly fn s0)) (snd (withinTx readOnly fn s0))"
  proof (cases "next_fault s0")
    case Fine
    have "Q (fst (fn (tick_fault s0))) (snd (fn (tick_fault s0)))"
      using assms(1) assms(2) [OF P] by (simp add: hoare_def)
    then show ?thesis
      using Fine P assms(3-7)
      by (cases "fn (tick_fault s0)"; cases "fst (fn (tick_fault s0))")
        (auto simp: withinTx_def stmt_def split: fault.split)
  qed (use P assms(2,5) in \<open>auto simp: withinTx_def stmt_def\<close>)
qed

text \<open>A read-only computation changes nothing but the fault script.\<close>

abbreviation reads :: "('x, 'a) db \<Rightarrow> bool" where
  "reads m \<equiv> \<forall>c. safe (\<lambda>s. nf s = c) m"

lemma readsI: "(\<And>c. safe (\<lambda>s. nf s = c) m) \<Longrightarrow> reads m"
  by simp

lemma reads_frame: "reads m \<Longrightarrow> m s = (r, t) \<Longrightarrow> nf t = nf s \<and> r \<noteq> Overflow"
  by (metis (mono_tags, lifting) hoareD)

lemma reads_safe:
  assumes "reads m" and "\<And>s t. nf s = nf t \<Longrightarrow> P s = P t"
  shows "safe P m"
proof (rule hoareI)
  fix s assume "P s"
  obtain r t where rt: "m s = (r, t)" by fastforce
  with reads_frame [OF assms(1) rt] assms(2) [of s t] \<open>P s\<close>
  show "P (snd (m s)) \<and> fst (m s) \<noteq> Overflow" by simp
qed

lemma reads_bindS: "reads m \<Longrightarrow> (\<And>a. reads (f a)) \<Longrightarrow> reads (bindS m f)"
  by (intro allI safe_bindS) auto

lemma reads_catchS: "reads m \<Longrightarrow> (\<And>a. reads (f a)) \<Longrightarrow> (\<And>e. reads (h e)) \<Longrightarrow> reads (catchS m f h)"
  by (intro allI safe_catchS) auto

lemma reads_ret: "reads (ret a)" and reads_fail: "reads (fail e)"
  by (auto intro: safe_ret safe_fail)

lemma reads_liftR: "r \<noteq> Overflow \<Longrightarrow> reads (liftR r)"
  by (auto intro: safe_liftR)

lemma reads_query: "reads (query q)"
  unfolding query_def by (intro allI safe_stmt) (auto simp: hoare_def)

lemma reads_stmt: "(\<And>s. \<exists>r. body s = (r, s) \<and> r \<noteq> Overflow) \<Longrightarrow> reads (stmt body)"
proof (intro allI safe_stmt)
  fix c assume *: "\<And>s. \<exists>r. body s = (r, s) \<and> r \<noteq> Overflow"
  show "safe (\<lambda>s. nf s = c) body"
  proof (rule hoareI)
    fix s assume "nf s = c"
    with * [of s] show "nf (snd (body s)) = c \<and> fst (body s) \<noteq> Overflow" by auto
  qed
qed simp

lemma reads_withinTx:
  assumes "reads fn"
  shows "reads (withinTx readOnly fn)"
proof (intro allI hoare_withinTx)
  fix c
  show "safe (\<lambda>s. nf s = c) fn" using assms by blast
  fix s0 r and s :: "'a world"
  assume a: "nf s0 = c" "nf s = c \<and> r \<noteq> Overflow"
  then have "w_tables s0 = w_tables s"
    by (metis nf_simps(1))
  then have "rollback_to s0 s = s"
    by (simp add: rollback_to_def)
  with a show "nf (rollback_to s0 s) = c \<and> r \<noteq> Overflow" by simp
next
  fix c s0 a e and s :: "'a world"
  assume a: "nf s0 = c" "nf s = c \<and> Ok a \<noteq> Overflow"
  then have "w_tables s0 = w_tables s"
    by (metis nf_simps(1))
  then have "rollback_to s0 (tick_fault s) = tick_fault s"
    by (simp add: rollback_to_def tick_fault_def)
  with a show "nf (rollback_to s0 (tick_fault s)) = c \<and> Err e \<noteq> Overflow" by simp
qed auto

lemmas reads_intros = reads_bindS reads_catchS reads_ret reads_fail reads_query

lemma reads_readTags: "reads (readTags tt owner)"
  unfolding readTags_def by (intro reads_catchS reads_query reads_ret) (simp add: reads_ret reads_fail)

lemma reads_readResourceRecord: "reads (readResourceRecord urn)"
  unfolding readResourceRecord_def
  by (intro reads_catchS reads_bindS reads_query reads_ret) (auto simp: reads_ret reads_fail split: option.split)

lemma reads_readResourceDeps: "reads (readResourceDeps rid)"
  unfolding readResourceDeps_def by (intro reads_catchS reads_query reads_ret) (simp add: reads_ret reads_fail)

lemma reads_translateURNToID: "reads (translateURNToID urn)"
  unfolding translateURNToID_def
  by (intro reads_bindS reads_query) (auto simp: reads_ret reads_fail split: option.split)

lemma tagsToLabelMap_loop_no_overflow: "tagsToLabelMap_loop tags acc \<noteq> Overflow"
  by (induction tags acc rule: tagsToLabelMap_loop.induct) (auto split: list.splits)

lemma tagsToLabelMap_no_overflow: "tagsToLabelMap tags \<noteq> Overflow"
  using tagsToLabelMap_loop_no_overflow [of tags "[]"]
  by (simp add: tagsToLabelMap_def split: result.split)

lemma decode_SyncResult_no_overflow: "decode_SyncResult r \<noteq> Overflow"
  by (auto simp: decode_SyncResult_def Unmarshal_def json_parse_def decode_obj_def
      split: option.split bytes.split json.split list.split prod.split)

lemma reads_GetByURN: "reads (GetByURN urn)"
  unfolding GetByURN_def readResourceParts_def readResourceTags_def case_prod_beta
  by (intro reads_bindS reads_withinTx reads_readResourceRecord reads_readTags reads_readResourceDeps
      reads_catchS reads_liftR reads_ret reads_fail tagsToLabelMap_no_overflow decode_SyncResult_no_overflow)

lemma reads_readModuleRecord: "reads (readModuleRecord urn)"
  unfolding readModuleRecord_def
  by (intro reads_catchS reads_bindS reads_query reads_ret) (auto simp: reads_ret reads_fail split: option.split)

lemma reads_GetModule: "reads (Store_GetModule urn)"
  unfolding Store_GetModule_def by (intro reads_bindS reads_readModuleRecord reads_ret)

section \<open>Robust computations\<close>

text \<open>A successful run met no fault, so the same run succeeds on a faultless connection.\<close>

definition robust :: "('x, 'a) db \<Rightarrow> bool" where
  "robust m \<longleftrightarrow> (\<forall>s a t. m s = (Ok a, t) \<longrightarrow> m (nf s) = (Ok a, nf t))"

lemma robustD: "robust m \<Longrightarrow> m s = (Ok a, t) \<Longrightarrow> m (nf s) = (Ok a, nf t)"
  by (simp add: robust_def)

lemma robust_ret: "robust (ret a)" and robust_fail: "robust (fail e)" and robust_liftR: "robust (liftR r)"
  by (auto simp: robust_def ret_def fail_def liftR_def)

lemma robust_bindS: "robust m \<Longrightarrow> (\<And>a. robust (f a)) \<Longrightarrow> robust (bindS m f)"
  unfolding robust_def bindS_Ok_iff by blast

lemma robust_translated: "robust m \<Longrightarrow> robust (translated m)"
  by (auto simp: robust_def translated_def catchS_def ret_def fail_def split: prod.splits result.splits)

lemma robust_stmt: "robust body \<Longrightarrow> robust (stmt body)"
  unfolding robust_def stmt_def
  by (auto split: fault.splits prod.splits result.splits) (metis nf_simps(8))

lemma robust_query: "robust (query q)"
  unfolding query_def by (rule robust_stmt) (auto simp: robust_def)

lemma robust_exec: "robust (exec f)"
  unfolding exec_def by (rule robust_stmt) (auto simp: robust_def)

lemma robust_withinTx:
  assumes "robust fn"
  shows "robust (withinTx readOnly fn)"
  unfolding robust_def
proof (intro allI impI)
  fix s a t assume "withinTx readOnly fn s = (Ok a, t)"
  then obtain u where "fn (tick_fault s) = (Ok a, u)" and t: "t = tick_fault u" "next_fault u = Fine"
    by (auto simp: withinTx_def stmt_def split: fault.splits prod.splits result.splits)
  then have "fn (nf s) = (Ok a, nf u)"
    using robustD [OF assms, of "tick_fault s" a u] by simp
  then show "withinTx readOnly fn (nf s) = (Ok a, nf t)"
    by (simp add: withinTx_def stmt_def t)
qed

text \<open>
  All or nothing: whatever faults occur, the tables are as before and the call reports a failure, or
  they are exactly what the call makes of them without faults.
\<close>

definition all_or_nothing :: "('x, 'a) db \<Rightarrow> bool" where
  "all_or_nothing m \<longleftrightarrow>
     (\<forall>s r t. m s = (r, t) \<longrightarrow>
        (w_tables t = w_tables s \<and> (\<forall>a. r \<noteq> Ok a)) \<or>
        (\<exists>a t'. m (nf s) = (Ok a, t') \<and> w_tables t' = w_tables t \<and> (r = Ok a \<or> (\<exists>e. r = Err e))))"

lemma withinTx_all_or_nothing:
  assumes "robust fn"
  shows "all_or_nothing (withinTx readOnly fn)"
  unfolding all_or_nothing_def
proof (intro allI impI)
  fix s r t assume run: "withinTx readOnly fn s = (r, t)"
  show "(w_tables t = w_tables s \<and> (\<forall>a. r \<noteq> Ok a)) \<or>
      (\<exists>a t'. withinTx readOnly fn (nf s) = (Ok a, t') \<and> w_tables t' = w_tables t \<and> (r = Ok a \<or> (\<exists>e. r = Err e)))"
  proof (cases "next_fault s")
    case Fine
    obtain q u where fn: "fn (tick_fault s) = (q, u)" by fastforce
    show ?thesis
    proof (cases q)
      case (Ok a)
      then have "fn (nf s) = (Ok a, nf u)"
        using robustD [OF assms, of "tick_fault s" a u] fn by simp
      then have "withinTx readOnly fn (nf s) = (Ok a, nf u)"
        by (simp add: withinTx_def stmt_def)
      then show ?thesis
        using run Fine fn Ok
        by (cases "next_fault u") (auto simp: withinTx_def stmt_def rollback_to_def)
    qed (use run Fine fn in \<open>auto simp: withinTx_def stmt_def rollback_to_def\<close>)
  qed (use run in \<open>auto simp: withinTx_def stmt_def\<close>)
qed

lemma robust_insert_tags: "robust (insert_tags tt owner tags)"
  unfolding insert_tags_def by (rule robust_stmt) (auto simp: robust_def)

lemma robust_setTags: "robust (setTags tt owner labels)"
  unfolding setTags_def by (intro robust_bindS robust_exec) (simp add: robust_ret robust_insert_tags)

lemma robust_translateURNToID: "robust (translateURNToID urn)"
  unfolding translateURNToID_def
  by (intro robust_bindS robust_query) (simp add: robust_ret robust_fail split: option.split)

lemma robust_dependency_rows: "robust (dependency_rows rid ds)"
  by (induction rid ds rule: dependency_rows.induct)
    (auto intro!: robust_bindS robust_ret robust_translateURNToID)

lemma robust_insert_dependencies: "robust (insert_dependencies rows)"
  unfolding insert_dependencies_def by (rule robust_stmt) (auto simp: robust_def Let_def)

lemma robust_setDependencies: "robust (setDependencies rid deps)"
  unfolding setDependencies_def
  by (intro robust_bindS robust_exec)
    (simp add: robust_ret robust_bindS robust_dependency_rows robust_insert_dependencies)

lemma robust_insert_revision_row: "robust (insert_revision_row rid r)"
  unfolding insert_revision_row_def by (rule robust_stmt) (auto simp: robust_def Let_def nf_def)

lemma robust_insertRevision: "robust (insertRevision rid r)"
  unfolding insertRevision_def setRevisionTags_def
  by (intro robust_bindS robust_setTags robust_insert_revision_row)

lemma robust_insertResourceRecord: "robust (insertResourceRecord r)"
  unfolding insertResourceRecord_def by (rule robust_stmt) (auto simp: robust_def Let_def nf_def)

lemmas robust_parts = robust_bindS robust_translated robust_insertResourceRecord robust_setTags
  robust_setDependencies robust_insertRevision robust_translateURNToID robust_exec robust_ret

section \<open>Properties\<close>

text \<open>C4: the store's writes are atomic under every script of connection faults (a statement, the
  begin or the commit may fail before or after taking effect): \<open>Create\<close>, \<open>Update\<close> and \<open>Delete\<close> either
  report a failure and leave every table exactly as it was, or leave exactly the tables that the
  same call produces on a faultless connection, where it succeeds.\<close>

theorem store_writes_atomic:
  "all_or_nothing (Create r []) \<and> all_or_nothing (Update r saveRevision reason []) \<and> all_or_nothing (Delete urn [])"
proof (intro conjI)
  show "all_or_nothing (Create r [])"
    unfolding Create_def insertResource_def setResourceTags_def runAllHooks.simps
    by (intro withinTx_all_or_nothing robust_parts)
  show "all_or_nothing (Update r saveRevision reason [])"
    unfolding Update_def updateResource_def setResourceTags_def runAllHooks.simps
    by (intro withinTx_all_or_nothing robust_parts) (simp add: robust_parts)
  show "all_or_nothing (Delete urn [])"
    unfolding Delete_def deleteFn_def runAllHooks.simps
    by (intro withinTx_all_or_nothing robust_parts)
qed

end
