(* ===== verification/Core_Laws.thy ===== *)
theory Core_Laws
  imports Core_Service
begin

text \<open>
  Correctness of the resource service: label merging, the dependency resolution of
  \<open>generateModuleSpec\<close>, what \<open>execAction\<close> persists and returns, the retry machine of
  \<open>handleSync\<close>, and, over the interface \<open>resource_graph\<close> of a store whose dependencies are
  acyclic, that the mutual recursion of \<open>GetResource\<close> ends.
\<close>

section \<open>Labels\<close>

lemma mergeLabels_wf: "wf_map (mergeLabels m1 m2)"
  by (auto simp: wf_map_def mergeLabels_def Let_def
      intro!: distinct_map_filter distinct_put_all)

text \<open>The merged labels of a resource: a key has the new value when the request gives one, else
  the old one, and a key whose resulting value is empty is removed; the result is again a map,
  and nil only when both inputs are.\<close>

theorem mergeLabels_correct:
  assumes "wf_map m1" and "wf_map m2"
  shows "wf_map (mergeLabels m1 m2) \<and>
    (mergeLabels m1 m2 = None \<longleftrightarrow> m1 = None \<and> m2 = None) \<and>
    (\<forall>k. lookup (mergeLabels m1 m2) k =
       (let v = (case lookup m2 k of Some v \<Rightarrow> v | None \<Rightarrow> get_str m1 k)
        in if v = [] then None else Some v))"
proof (intro conjI allI)
  show "wf_map (mergeLabels m1 m2)" by (rule mergeLabels_wf)
  show "mergeLabels m1 m2 = None \<longleftrightarrow> m1 = None \<and> m2 = None"
    by (auto simp: mergeLabels_def Let_def)
  fix k
  let ?res = "put_all (entries m2) (put_all (entries m1) [])"
  have d: "distinct (map fst ?res)" by (intro distinct_put_all) simp
  have l: "map_of ?res k = (case map_of (entries m2) k of Some v \<Rightarrow> Some v | None \<Rightarrow> map_of (entries m1) k)"
    using assms unfolding wf_map_def
    by (simp only: map_of_put_all map_of.simps map_add_def) (simp split: option.splits)
  have e: "map_of (entries (mergeLabels m1 m2)) k = map_of (filter (\<lambda>(k, v). v \<noteq> []) ?res) k"
    by (auto simp: mergeLabels_def Let_def)
  show "lookup (mergeLabels m1 m2) k =
       (let v = (case lookup m2 k of Some v \<Rightarrow> v | None \<Rightarrow> get_str m1 k)
        in if v = [] then None else Some v)"
    unfolding lookup_def get_str_def Let_def e map_of_filter_distinct [OF d] l
    by (simp split: option.splits)
qed

section \<open>Dependencies\<close>

text \<open>A dependency that \<open>resolve_dependencies\<close> accepted, as the getter returned it.\<close>

definition resolved_by ::
    "(string \<Rightarrow> ('s, Resource) go) \<Rightarrow> Resource \<Rightarrow> string \<Rightarrow> ResolvedDependency \<Rightarrow> bool" where
  "resolved_by get res urn rd \<longleftrightarrow>
     (\<exists>d s t. get urn s = (Ok d, t) \<and> st_Status (res_State d) = StatusCompleted \<and>
        res_Project d = res_Project res \<and>
        rd = \<lparr>rd_Kind = res_Kind d, rd_Output = st_Output (res_State d)\<rparr>)"

lemma resolve_dependencies_Ok:
  assumes "resolve_dependencies get res ds acc s = (Ok deps, t)" and "distinct (map fst ds)"
  shows "\<exists>rs. list_all2 (\<lambda>(k, urn) (k', rd). k' = k \<and> resolved_by get res urn rd) ds rs
              \<and> map_of deps = map_of acc ++ map_of rs"
  using assms
proof (induction get res ds acc arbitrary: s rule: resolve_dependencies.induct)
  case (1 get res acc)
  then show ?case by (auto simp: ret_def)
next
  case (2 get res key resURN rest acc)
  from "2.prems"(1) obtain d u where g: "get resURN s = (Ok d, u)"
    and c: "st_Status (res_State d) = StatusCompleted" "res_Project d = res_Project res"
    and r: "resolve_dependencies get res rest
              (put key \<lparr>rd_Kind = res_Kind d, rd_Output = st_Output (res_State d)\<rparr> acc) u = (Ok deps, t)"
    by (auto simp: catchS_def fail_def split: prod.splits result.splits if_splits)
  let ?rd = "\<lparr>rd_Kind = res_Kind d, rd_Output = st_Output (res_State d)\<rparr>"
  from "2.IH" [of d u] r c "2.prems"(2) obtain rs where
    rs: "list_all2 (\<lambda>(k, urn) (k', rd). k' = k \<and> resolved_by get res urn rd) rest rs"
    and m: "map_of deps = map_of (put key ?rd acc) ++ map_of rs"
    by (metis (no_types, lifting) distinct.simps(2) list.simps(9))
  from rs have "map fst rs = map fst rest"
    by (induction rule: list_all2_induct) auto
  with "2.prems"(2) have "key \<notin> dom (map_of rs)"
    by (simp add: dom_map_of_conv_image_fst flip: set_map)
  with m have "map_of deps = map_of acc ++ map_of ((key, ?rd) # rs)"
    by (auto simp: map_add_def fun_eq_iff split: option.splits)
  moreover have "resolved_by get res resURN ?rd"
    unfolding resolved_by_def using g c by blast
  ultimately show ?case
    using rs by (intro exI [of _ "(key, ?rd) # rs"] conjI) (simp, assumption)
qed

text \<open>C12: a module only ever sees completed dependencies of its own project: when
  \<open>generateModuleSpec\<close> succeeds, it returns the given resource, and every declared dependency
  key maps to the kind and output of a resource that \<open>GetResource\<close> returned for the declared
  URN, completed and in the same project; there are no other keys.\<close>

theorem generateModuleSpec_correct:
  assumes "generateModuleSpec n svc res s = (Ok spec, t)"
    and "wf_map (sp_Dependencies (res_Spec res))"
  shows "er_Resource spec = res \<and>
    (\<forall>k. case lookup (sp_Dependencies (res_Spec res)) k of
        None \<Rightarrow> lookup (er_Dependencies spec) k = None
      | Some urn \<Rightarrow> \<exists>rd. lookup (er_Dependencies spec) k = Some rd \<and>
                          resolved_by (GetResource n svc) res urn rd)"
proof -
  let ?ds = "entries (sp_Dependencies (res_Spec res))"
  from assms(1) obtain deps where
    r: "resolve_dependencies (GetResource n svc) res ?ds [] s = (Ok deps, t)"
    and spec: "spec = \<lparr>er_Resource = res, er_Dependencies = Some deps\<rparr>"
    by (auto simp: generateModuleSpec_def generateModuleSpec_with_def ret_def)
  from resolve_dependencies_Ok [OF r] assms(2) obtain rs where
    rs: "list_all2 (\<lambda>(k, urn) (k', rd). k' = k \<and> resolved_by (GetResource n svc) res urn rd) ?ds rs"
    and m: "map_of deps = map_of rs"
    unfolding wf_map_def by auto
  from rs have "case map_of ?ds k of None \<Rightarrow> map_of rs k = None
      | Some urn \<Rightarrow> \<exists>rd. map_of rs k = Some rd \<and> resolved_by (GetResource n svc) res urn rd" for k
  proof (induction rule: list_all2_induct)
    case (Cons x xs y ys)
    then show ?case by (cases x; cases y) (auto split: option.splits)
  qed simp
  moreover have el: "lookup (er_Dependencies spec) = map_of rs"
    by (rule ext) (simp add: spec lookup_def m)
  moreover have "er_Resource spec = res"
    by (simp add: spec)
  ultimately show ?thesis
    unfolding el lookup_def [of "sp_Dependencies (res_Spec res)"] by blast
qed

section \<open>Executing an action\<close>

lemma ret_Ok [simp]: "ret a s = (Ok b, t) \<longleftrightarrow> b = a \<and> t = s"
  by (auto simp: ret_def)

lemma fail_Ok [simp]: "fail e s \<noteq> (Ok b, t)"
  by (simp add: fail_def)

lemma counter_Add_Ok [simp]:
  "counter_Add svc c urn s = (Ok u, t) \<longleftrightarrow> t = svc_counterAdd svc (counter_name c) urn s"
  by (auto simp: counter_Add_def)

lemma upsert_Ok:
  "upsert svc res create saveRev reason s = (Ok (), t) \<longleftrightarrow>
     (if create then rs_Create (svc_store svc) res [] else rs_Update (svc_store svc) res saveRev reason []) s
       = (Ok (), t)"
  by (auto simp: upsert_def catchS_def ret_def fail_def split: prod.splits result.splits if_splits)

lemma planChange_Ok:
  assumes "planChange n svc res act s = (Ok planned, t)"
  obtains spec u p where "generateModuleSpec n svc res s = (Ok spec, u)"
    "msv_PlanAction (svc_moduleSvc svc) spec act u = (Ok p, t)"
    "Validate (isCreate (act_Name act)) ((pl_Resource p)\<lparr>res_Labels := mergeLabels (pl_ResLabels p) (pl_ActLabels p)\<rparr>)
       = (Ok (), planned)"
proof -
  from assms obtain spec u where g: "generateModuleSpec n svc res s = (Ok spec, u)"
    and c: "catchS (msv_PlanAction (svc_moduleSvc svc) spec act)
       (\<lambda>pl s.
          case Validate (isCreate (act_Name act))
                 ((pl_Resource pl)\<lparr>res_Labels := mergeLabels (pl_ResLabels pl) (pl_ActLabels pl)\<rparr>) of
            (Ok _, planned') \<Rightarrow> (Ok planned', s)
          | (Err e, _) \<Rightarrow> (Err e, s)
          | (Panic p, _) \<Rightarrow> (Panic p, s)
          | (Overflow, _) \<Rightarrow> (Overflow, s))
       (\<lambda>err. if isInvalid err then fail err
              else fail (EErr (WithCausef (WithMsgf ErrInternal ''plan() failed'') (error_text err)))) u
       = (Ok planned, t)"
    unfolding planChange_def by blast
  from c show thesis
    by (auto simp: catchS_def split: prod.splits result.splits if_splits intro: that [OF g])
qed

lemma execAction_Ok:
  assumes "execAction n svc res act dry s = (Ok r, t)"
  shows "\<exists>spec u p v planned w.
    generateModuleSpec n svc res s = (Ok spec, u) \<and>
    msv_PlanAction (svc_moduleSvc svc) spec act u = (Ok p, v) \<and>
    Validate (isCreate (act_Name act)) ((pl_Resource p)\<lparr>res_Labels := mergeLabels (pl_ResLabels p) (pl_ActLabels p)\<rparr>)
      = (Ok (), planned) \<and>
    r = (if isCreate (act_Name act)
         then planned\<lparr>res_CreatedAt := svc_clock svc v, res_UpdatedAt := svc_clock svc v,
                      res_CreatedBy := act_UserID act, res_UpdatedBy := act_UserID act\<rparr>
         else planned\<lparr>res_CreatedAt := res_CreatedAt res, res_UpdatedAt := svc_clock svc v,
                      res_UpdatedBy := act_UserID act\<rparr>) \<and>
    (if dry then w = v
     else if isCreate (act_Name act) then rs_Create (svc_store svc) r [] v = (Ok (), w)
     else rs_Update (svc_store svc) r True (''action:'' @ act_Name act) [] v = (Ok (), w)) \<and>
    t = svc_counterAdd svc ''pending_counter'' (res_URN res) w"
proof -
  from assms obtain planned v where p: "planChange n svc res act s = (Ok planned, v)"
    and e: "bindS (if dry then ret () else upsert svc (stamp (svc_clock svc v) res act planned)
                (isCreate (act_Name act)) True (''action:'' @ act_Name act)) (\<lambda>_.
           bindS (liftR (setupCounter svc ''pending'')) (\<lambda>_.
           bindS (counter_Add svc ''pending'' (res_URN res)) (\<lambda>_.
           ret (stamp (svc_clock svc v) res act planned)))) v = (Ok r, t)"
    unfolding execAction_def Let_def by (rule bindS_Ok_E) (rule that)
  from e obtain w where
    u: "(if dry then ret () else upsert svc (stamp (svc_clock svc v) res act planned)
           (isCreate (act_Name act)) True (''action:'' @ act_Name act)) v = (Ok (), w)"
    and r: "r = stamp (svc_clock svc v) res act planned"
    and t: "t = svc_counterAdd svc ''pending_counter'' (res_URN res) w"
    by (auto simp: bindS_Ok_iff counter_name_def)
  from planChange_Ok [OF p] obtain spec x y where
    "generateModuleSpec n svc res s = (Ok spec, x)"
    "msv_PlanAction (svc_moduleSvc svc) spec act x = (Ok y, v)"
    "Validate (isCreate (act_Name act)) ((pl_Resource y)\<lparr>res_Labels := mergeLabels (pl_ResLabels y) (pl_ActLabels y)\<rparr>)
       = (Ok (), planned)" .
  moreover have "if dry then w = v
     else if isCreate (act_Name act) then rs_Create (svc_store svc) r [] v = (Ok (), w)
     else rs_Update (svc_store svc) r True (''action:'' @ act_Name act) [] v = (Ok (), w)"
    using u r by (auto simp: upsert_Ok split: if_splits)
  ultimately show ?thesis
    using r t unfolding stamp_def by blast
qed

text \<open>C9: what \<open>execAction\<close> does on success. The driver planned the change on the resolved
  resource; the returned resource is that plan with the merged labels (of the resource and of the
  request, as the driver left these two maps), validated, stamped with
  the clock and the acting user (creation stamps for a create, the old creation time
  otherwise); and unless it is a dry run exactly this resource was written to the store
  (created, or updated with a revision of reason \<open>action:name\<close>) before the pending counter
  was incremented. A dry run makes no store write of its own.\<close>

theorem execAction_correct:
  assumes "execAction n svc res act dry s = (Ok r, t)"
  shows "\<exists>spec u p v planned w.
    generateModuleSpec n svc res s = (Ok spec, u) \<and>
    msv_PlanAction (svc_moduleSvc svc) spec act u = (Ok p, v) \<and>
    Validate (isCreate (act_Name act)) ((pl_Resource p)\<lparr>res_Labels := mergeLabels (pl_ResLabels p) (pl_ActLabels p)\<rparr>)
      = (Ok (), planned) \<and>
    r = (if isCreate (act_Name act)
         then planned\<lparr>res_CreatedAt := svc_clock svc v, res_UpdatedAt := svc_clock svc v,
                      res_CreatedBy := act_UserID act, res_UpdatedBy := act_UserID act\<rparr>
         else planned\<lparr>res_CreatedAt := res_CreatedAt res, res_UpdatedAt := svc_clock svc v,
                      res_UpdatedBy := act_UserID act\<rparr>) \<and>
    (if dry then w = v
     else if isCreate (act_Name act) then rs_Create (svc_store svc) r [] v = (Ok (), w)
     else rs_Update (svc_store svc) r True (''action:'' @ act_Name act) [] v = (Ok (), w)) \<and>
    t = svc_counterAdd svc ''pending_counter'' (res_URN res) w"
  using assms by (rule execAction_Ok)

section \<open>The retry machine\<close>

text \<open>What one failed sync leaves behind.\<close>

lemma sync_failed_result:
  "sync_failed svc res err s =
     (let k = sr_Retries (st_SyncResult (res_State res)) + 1;
          sr = \<lparr>sr_Retries = k, sr_LastError = error_text err\<rparr>;
          s1 = svc_counterAdd svc ''retry_counter'' (res_URN res) s;
          stop = (isInvalid err \<or> (0 < svc_maxSyncRetries svc \<and> svc_maxSyncRetries svc \<le> k))
      in if stop
         then (Ok (res\<lparr>res_State := (res_State res)\<lparr>st_SyncResult := sr, st_Status := StatusError,
                                                    st_NextSyncAt := None\<rparr>\<rparr>),
               svc_counterAdd svc ''error_counter'' (res_URN res) s1)
         else (Ok (res\<lparr>res_State := (res_State res)\<lparr>st_SyncResult := sr,
                        st_NextSyncAt := Some (svc_clock svc s1 + svc_syncBackoff svc)\<rparr>\<rparr>), s1))"
  by (simp add: sync_failed_def Let_def bindS_def catchS_def counter_Add_def ret_def counter_name_def)

lemma sync_done_result:
  "sync_done svc res st s =
     (Ok (res\<lparr>res_UpdatedAt := svc_clock svc s, res_State := st\<rparr>),
      svc_counterAdd svc ''completed_counter'' (res_URN res) s)"
  by (simp add: sync_done_def Let_def bindS_def catchS_def counter_Add_def ret_def counter_name_def)

text \<open>C10: \<open>handleSync\<close> on every outcome of the driver. When the counters and the module spec are
  available, a successful sync replaces the state by the driver's and stamps the update time;
  a failed one never fails the handler: it records the error text and one more retry, and
  moves the resource to \<open>STATUS_ERROR\<close> with no further sync when the error is an
  \<open>ErrInvalid\<close> or the retries reached a positive limit, and otherwise schedules the next sync
  after the backoff with the status unchanged.\<close>

theorem handleSync_correct:
  assumes "\<forall>c \<in> {''retry'', ''error'', ''completed''}. setupCounter svc c = Ok ()"
    and "generateModuleSpec n svc res s = (Ok spec, u)"
  shows "handleSync n svc res s =
    (case msv_SyncState (svc_moduleSvc svc) spec u of
       (Ok st, v) \<Rightarrow>
         (Ok (res\<lparr>res_UpdatedAt := svc_clock svc v, res_State := st\<rparr>),
          svc_counterAdd svc ''completed_counter'' (res_URN res) v)
     | (Err err, v) \<Rightarrow>
         (let k = sr_Retries (st_SyncResult (res_State res)) + 1;
              sr = \<lparr>sr_Retries = k, sr_LastError = error_text err\<rparr>;
              v1 = svc_counterAdd svc ''retry_counter'' (res_URN res) v
          in if isInvalid err \<or> (0 < svc_maxSyncRetries svc \<and> svc_maxSyncRetries svc \<le> k)
             then (Ok (res\<lparr>res_State := (res_State res)\<lparr>st_SyncResult := sr, st_Status := StatusError,
                                                        st_NextSyncAt := None\<rparr>\<rparr>),
                   svc_counterAdd svc ''error_counter'' (res_URN res) v1)
             else (Ok (res\<lparr>res_State := (res_State res)\<lparr>st_SyncResult := sr,
                            st_NextSyncAt := Some (svc_clock svc v1 + svc_syncBackoff svc)\<rparr>\<rparr>), v1))
     | (Panic p, v) \<Rightarrow> (Panic p, v)
     | (Overflow, v) \<Rightarrow> (Overflow, v))"
proof -
  have "handleSync n svc res s =
      catchS (msv_SyncState (svc_moduleSvc svc) spec) (sync_done svc res) (sync_failed svc res) u"
    using assms by (simp add: handleSync_def bindS_def catchS_def liftR_def)
  then show ?thesis
    by (simp add: catchS_def sync_done_result sync_failed_result Let_def split: prod.splits result.splits)
qed

text \<open>
  The syncs of one resource that fail, in states of the world that may differ arbitrarily from one sync to
  the next: one whose driver call fails leaves the resource that \<open>handleSync\<close> returns, and \<open>errs\<close> is the
  list of these errors; one that fails before the driver is called, because a counter or a dependency is
  not available, returns an error, so the store keeps the resource as it was.
\<close>

inductive syncs_fail :: "nat \<Rightarrow> 's Service \<Rightarrow> Resource \<Rightarrow> gerror list \<Rightarrow> Resource \<Rightarrow> bool" for n svc res where
  untried: "syncs_fail n svc res [] res"
| driver_fails: "syncs_fail n svc res errs r \<Longrightarrow> generateModuleSpec n svc r s = (Ok spec, u) \<Longrightarrow>
    msv_SyncState (svc_moduleSvc svc) spec u = (Err err, v) \<Longrightarrow> handleSync n svc r s = (Ok r', t) \<Longrightarrow>
    syncs_fail n svc res (errs @ [err]) r'"
| not_run: "syncs_fail n svc res errs r \<Longrightarrow> handleSync n svc r s = (Err err, t) \<Longrightarrow> syncs_fail n svc res errs r"

lemma handleSync_failed:
  assumes "generateModuleSpec n svc r s = (Ok spec, u)" and "msv_SyncState (svc_moduleSvc svc) spec u = (Err err, v)"
    and "handleSync n svc r s = (Ok r', t)"
  shows "sync_failed svc r err v = (Ok r', t)"
  using assms by (auto simp: handleSync_def bindS_def catchS_def liftR_def fail_def split: result.splits)

lemma syncs_fail_retries:
  assumes "syncs_fail n svc res errs r" and "sr_Retries (st_SyncResult (res_State res)) = 0"
  shows "sr_Retries (st_SyncResult (res_State r)) = int (length errs)"
  using assms
proof (induction rule: syncs_fail.induct)
  case (driver_fails errs r s spec u err v r' t)
  from handleSync_failed [OF driver_fails(2-4)] driver_fails show ?case
    by (auto simp: sync_failed_result Let_def split: if_splits)
qed simp_all

lemma syncs_fail_status:
  assumes "syncs_fail n svc res errs r" and "sr_Retries (st_SyncResult (res_State res)) = 0"
    and "list_all (\<lambda>e. \<not> isInvalid e) errs" and "0 < svc_maxSyncRetries svc \<Longrightarrow> int (length errs) \<le> svc_maxSyncRetries svc"
  shows "if errs \<noteq> [] \<and> 0 < svc_maxSyncRetries svc \<and> int (length errs) = svc_maxSyncRetries svc
     then st_Status (res_State r) = StatusError \<and> st_NextSyncAt (res_State r) = None
     else st_Status (res_State r) = st_Status (res_State res) \<and> (errs \<noteq> [] \<longrightarrow> st_NextSyncAt (res_State r) \<noteq> None)"
  using assms
proof (induction rule: syncs_fail.induct)
  case (driver_fails errs r s spec u err v r' t)
  note failed = handleSync_failed [OF driver_fails(2-4)] syncs_fail_retries [OF driver_fails(1,6)]
  have less: "int (length errs) < svc_maxSyncRetries svc" if "0 < svc_maxSyncRetries svc"
    using driver_fails(8) [OF that] by simp
  have ok: "list_all (\<lambda>e. \<not> isInvalid e) errs" using driver_fails(7) by simp
  have "st_Status (res_State r) = st_Status (res_State res)"
    using driver_fails(5) [OF driver_fails(6) ok less_imp_le [OF less]] less
    by (cases "0 < svc_maxSyncRetries svc") (auto split: if_splits)
  with failed driver_fails(7,8) show ?case
    by (auto simp: sync_failed_result Let_def split: if_splits)
qed simp_all

text \<open>C11: A driver that keeps failing is tried a bounded number of times, if there is a limit. Whatever else
  happens between the syncs, after syncs of a resource in which the driver failed \<open>j\<close> times, never with an
  \<open>ErrInvalid\<close>, and any number that did not get as far as the driver, the retry count of a resource that
  started without retries is \<open>j\<close>; when the limit is positive and \<open>j\<close> has reached it the resource is in
  \<open>STATUS_ERROR\<close> with no further sync, and otherwise, as always when the limit is not positive, its status
  is the original one and, after a failure of the driver, a next sync is scheduled. Syncs that fail before
  the driver is called are not counted, and nothing bounds them.\<close>

theorem sync_failures_bounded:
  assumes "syncs_fail n svc res errs r" and "sr_Retries (st_SyncResult (res_State res)) = 0"
    and "list_all (\<lambda>e. \<not> isInvalid e) errs" and "0 < svc_maxSyncRetries svc \<Longrightarrow> int (length errs) \<le> svc_maxSyncRetries svc"
  shows "sr_Retries (st_SyncResult (res_State r)) = int (length errs) \<and>
    (if errs \<noteq> [] \<and> 0 < svc_maxSyncRetries svc \<and> int (length errs) = svc_maxSyncRetries svc
     then st_Status (res_State r) = StatusError \<and> st_NextSyncAt (res_State r) = None
     else st_Status (res_State r) = st_Status (res_State res) \<and> (errs \<noteq> [] \<longrightarrow> st_NextSyncAt (res_State r) \<noteq> None))"
  using syncs_fail_retries [OF assms(1,2)] syncs_fail_status [OF assms] by blast

section \<open>The dependency graph\<close>

text \<open>
  What the service relies on for its recursion to end: an invariant \<open>I\<close> of the state and a rank
  of every URN such that a stored resource depends on URNs of smaller rank only. Reading,
  computing the output and writing back a resource whose dependencies are ranked keep both,
  and none of them exhausts the stack.
\<close>

abbreviation ranked :: "(string \<Rightarrow> nat) \<Rightarrow> Resource \<Rightarrow> bool" where
  "ranked \<rho> res \<equiv> \<forall>(k, v) \<in> set (entries (sp_Dependencies (res_Spec res))). \<rho> v < \<rho> (res_URN res)"

locale resource_graph =
  fixes svc :: "'s Service"
    and I :: "'s \<Rightarrow> bool"
    and rank :: "'s \<Rightarrow> string \<Rightarrow> nat"
  assumes get_ranked:
      "hoare (\<lambda>s. I s \<and> rank s = \<rho>) (rs_GetByURN (svc_store svc) u)
         (\<lambda>r s. (I s \<and> rank s = \<rho>) \<and> r \<noteq> Overflow \<and>
                (\<forall>res. r = Ok res \<longrightarrow> res_URN res = u \<and> ranked \<rho> res \<and> \<rho> u \<noteq> 0))"
    and output_safe: "safe (\<lambda>s. I s \<and> rank s = \<rho>) (msv_GetOutput (svc_moduleSvc svc) spec)"
    and update_safe:
      "ranked \<rho> res \<Longrightarrow> safe (\<lambda>s. I s \<and> rank s = \<rho>) (rs_Update (svc_store svc) res saveRevision reason [])"
begin

lemma resolve_dependencies_safe:
  assumes "\<And>k v. (k, v) \<in> set ds \<Longrightarrow> hoare P (get v) (\<lambda>r s. P s \<and> r \<noteq> Overflow \<and> (\<forall>d. r = Ok d \<longrightarrow> F v))"
  shows "hoare P (resolve_dependencies get res ds acc)
    (\<lambda>r s. P s \<and> r \<noteq> Overflow \<and> (\<forall>a. r = Ok a \<longrightarrow> (\<forall>(k, v) \<in> set ds. F v)))"
  using assms
proof (induction get res ds acc rule: resolve_dependencies.induct)
  case (1 get res acc)
  then show ?case by (simp add: hoare_ret)
next
  case (2 get res key resURN rest acc)
  have g: "hoare P (get resURN) (\<lambda>r s. P s \<and> r \<noteq> Overflow \<and> (\<forall>d. r = Ok d \<longrightarrow> F resURN))"
    by (rule "2.prems" [of key]) simp
  show ?case
    unfolding resolve_dependencies.simps
  proof (rule hoare_catchS [OF g])
    fix d :: Resource
    have ih: "hoare P (resolve_dependencies get res rest
          (put key \<lparr>rd_Kind = res_Kind d, rd_Output = st_Output (res_State d)\<rparr> acc))
        (\<lambda>r s. P s \<and> r \<noteq> Overflow \<and> (\<forall>a. r = Ok a \<longrightarrow> (\<forall>(k, v) \<in> set rest. F v)))"
      if "st_Status (res_State d) = StatusCompleted" "res_Project d = res_Project res"
      by (rule "2.IH") (use that in simp, use that in simp, rule "2.prems", rule list.set_intros(2))
    then show "hoare (\<lambda>s. P s \<and> Ok d \<noteq> Overflow \<and> (\<forall>d'. Ok d = Ok d' \<longrightarrow> F resURN))
       (if st_Status (res_State d) \<noteq> StatusCompleted then
              fail (invalid (''dependency '' @ sq resURN @ '' is in incomplete state (''
                             @ st_Status (res_State d) @ '')''))
            else if res_Project d \<noteq> res_Project res then
              fail (EErr (WithCausef (WithMsgf ErrInvalid (''dependency '' @ sq resURN @ '' not found''))
                            ''cross-project references not allowed''))
            else
              resolve_dependencies get res rest
                (put key \<lparr>rd_Kind = res_Kind d, rd_Output = st_Output (res_State d)\<rparr> acc))
       (\<lambda>r s. P s \<and> r \<noteq> Overflow \<and> (\<forall>a. r = Ok a \<longrightarrow> (\<forall>(k, v) \<in> set ((key, resURN) # rest). F v)))"
      by (auto simp: hoare_def fail_def)
  qed (auto simp: hoare_def fail_def)
qed

lemma generateModuleSpec_with_safe:
  assumes "\<And>k v. (k, v) \<in> set (entries (sp_Dependencies (res_Spec res))) \<Longrightarrow>
      hoare P (get v) (\<lambda>r s. P s \<and> r \<noteq> Overflow \<and> (\<forall>d. r = Ok d \<longrightarrow> F v))"
  shows "hoare P (generateModuleSpec_with get res)
    (\<lambda>r s. P s \<and> r \<noteq> Overflow \<and> (\<forall>spec. r = Ok spec \<longrightarrow>
        er_Resource spec = res \<and> (\<forall>(k, v) \<in> set (entries (sp_Dependencies (res_Spec res))). F v)))"
  unfolding generateModuleSpec_with_def
  by (rule hoare_bindS [OF resolve_dependencies_safe [where F = F]], erule assms)
    (auto simp: hoare_def ret_def)

text \<open>A stack of more frames than the rank of the URN is enough.\<close>

lemma GetResource_safe:
  "\<rho> u < n \<Longrightarrow>
     hoare (\<lambda>s. I s \<and> rank s = \<rho>) (GetResource n svc u)
       (\<lambda>r s. (I s \<and> rank s = \<rho>) \<and> r \<noteq> Overflow \<and>
              (\<forall>res. r = Ok res \<longrightarrow> res_URN res = u \<and> ranked \<rho> res \<and> \<rho> u \<noteq> 0))"
proof (induction n arbitrary: u)
  case 0
  then show ?case by simp
next
  case (Suc n)
  let ?P = "\<lambda>s. I s \<and> rank s = \<rho>"
  let ?G = "\<lambda>u r s. ?P s \<and> r \<noteq> Overflow \<and> (\<forall>res. r = Ok res \<longrightarrow> res_URN res = u \<and> ranked \<rho> res \<and> \<rho> u \<noteq> 0)"
  let ?rest = "\<lambda>res. bindS (generateModuleSpec_with (GetResource n svc) res) (\<lambda>modSpec.
          bindS (msv_GetOutput (svc_moduleSvc svc) modSpec) (\<lambda>out.
          if \<not> bytes_Equal (st_Output (res_State res)) out then
            let res = res\<lparr>res_State := (res_State res)\<lparr>st_Output := out\<rparr>\<rparr>
            in bindS (rs_Update (svc_store svc) res False [] []) (\<lambda>_. ret res)
          else ret res))"
  have ok: "hoare ?P (?rest res) (?G u)" if u: "res_URN res = u" "\<rho> u \<noteq> 0" and rk: "ranked \<rho> res" for res
  proof -
    have gm: "safe ?P (generateModuleSpec_with (GetResource n svc) res)"
      by (rule hoare_weaken [OF generateModuleSpec_with_safe [where F = "\<lambda>_. True" and P = ?P]],
          rule hoare_weaken [OF Suc.IH]) (use rk u Suc.prems in fastforce)+
    have fin: "hoare ?P (if \<not> bytes_Equal (st_Output (res_State res)) out then
            let res = res\<lparr>res_State := (res_State res)\<lparr>st_Output := out\<rparr>\<rparr>
            in bindS (rs_Update (svc_store svc) res False [] []) (\<lambda>_. ret res)
          else ret res) (?G u)" for out
    proof -
      have up: "safe ?P (rs_Update (svc_store svc) (res\<lparr>res_State := (res_State res)\<lparr>st_Output := out\<rparr>\<rparr>) False [] [])"
        using rk by (intro update_safe) auto
      show ?thesis
        using u rk by (auto simp: Let_def intro!: hoare_ret hoare_bindS [OF up])
    qed
    show ?thesis
      by (rule hoare_bindS_safe [OF gm hoare_bindS_safe [OF output_safe fin]]) auto
  qed
  show ?case
    unfolding GetResource.simps
  proof (rule hoare_catchS [OF get_ranked])
    fix res :: Resource
    show "hoare (\<lambda>s. ?G u (Ok res) s) (?rest res) (?G u)"
      by (rule hoare_pure [where C = "res_URN res = u \<and> ranked \<rho> res \<and> \<rho> u \<noteq> 0" and P' = ?P])
        (blast, use ok in blast)
  qed (auto simp: hoare_def fail_def)
qed

lemma generateModuleSpec_safe:
  assumes "\<And>k v. (k, v) \<in> set (entries (sp_Dependencies (res_Spec res))) \<Longrightarrow> \<rho> v < n"
  shows "hoare (\<lambda>s. I s \<and> rank s = \<rho>) (generateModuleSpec n svc res)
    (\<lambda>r s. (I s \<and> rank s = \<rho>) \<and> r \<noteq> Overflow \<and> (\<forall>spec. r = Ok spec \<longrightarrow>
        er_Resource spec = res \<and> (\<forall>(k, v) \<in> set (entries (sp_Dependencies (res_Spec res))). \<rho> v \<noteq> 0)))"
  unfolding generateModuleSpec_def
  by (rule generateModuleSpec_with_safe [where F = "\<lambda>v. \<rho> v \<noteq> 0"])
    (rule hoare_weaken [OF GetResource_safe], rule assms, auto)

end

section \<open>Operations over an acyclic store\<close>

text \<open>
  A planned resource has the identity of the resource it was planned for and declares no
  dependency of its own.
\<close>

definition same_identity :: "Resource \<Rightarrow> Resource \<Rightarrow> bool" where
  "same_identity p res \<longleftrightarrow>
     res_URN p = res_URN res \<and>
     set (entries (sp_Dependencies (res_Spec p))) \<subseteq> set (entries (sp_Dependencies (res_Spec res)))"

locale resource_service = resource_graph +
  assumes plan_safe:
      "hoare (\<lambda>s. I s \<and> rank s = \<rho>) (msv_PlanAction (svc_moduleSvc svc) spec act)
         (\<lambda>r s. (I s \<and> rank s = \<rho>) \<and> r \<noteq> Overflow \<and> (\<forall>p. r = Ok p \<longrightarrow> same_identity (pl_Resource p) (er_Resource spec)))"
    and state_safe: "safe (\<lambda>s. I s \<and> rank s = \<rho>) (msv_SyncState (svc_moduleSvc svc) spec)"
    and logs_safe: "safe (\<lambda>s. I s \<and> rank s = \<rho>) (msv_StreamLogs (svc_moduleSvc svc) spec filt)"
    and create_keeps:
      "(\<forall>(k, v) \<in> set (entries (sp_Dependencies (res_Spec res))). v \<noteq> res_URN res) \<or> \<rho> (res_URN res) \<noteq> 0 \<Longrightarrow>
       hoare (\<lambda>s. I s \<and> rank s = \<rho>) (rs_Create (svc_store svc) res []) (\<lambda>r s. I s \<and> r \<noteq> Overflow)"
    and counters: "setupCounter svc c \<noteq> Overflow"
      "I (svc_counterAdd svc c u s) = I s" "rank (svc_counterAdd svc c u s) = rank s"
    and sync_safe:
      "(\<And>res. ranked \<rho> res \<Longrightarrow> hoare (\<lambda>s. I s \<and> rank s = \<rho>) (fn res)
          (\<lambda>r s. (I s \<and> rank s = \<rho>) \<and> r \<noteq> Overflow \<and> (\<forall>res'. r = Ok res' \<longrightarrow> same_identity res' res))) \<Longrightarrow>
       safe (\<lambda>s. I s \<and> rank s = \<rho>) (rs_SyncOne (svc_store svc) scope fn)"
begin

lemma counter_Add_safe: "safe (\<lambda>s. I s \<and> rank s = \<rho>) (counter_Add svc c u)"
  by (simp add: hoare_def counter_Add_def counters)

lemma planChange_safe:
  assumes "\<And>u. \<rho> u < n"
  shows "hoare (\<lambda>s. I s \<and> rank s = \<rho>) (planChange n svc res act)
    (\<lambda>r s. (I s \<and> rank s = \<rho>) \<and> r \<noteq> Overflow \<and> (\<forall>p. r = Ok p \<longrightarrow>
       (\<forall>(k, v) \<in> set (entries (sp_Dependencies (res_Spec p))). \<rho> v \<noteq> 0) \<and>
       set (entries (sp_Dependencies (res_Spec p))) \<subseteq> set (entries (sp_Dependencies (res_Spec res))) \<and>
       (\<not> isCreate (act_Name act) \<longrightarrow> res_URN p = res_URN res)))"
proof (rule hoareI, goal_cases)
  case (1 s)
  obtain g u where g: "generateModuleSpec n svc res s = (g, u)" by fastforce
  from hoareD [OF generateModuleSpec_safe "1" g] assms
  have gs: "I u \<and> rank u = \<rho>" "g \<noteq> Overflow"
    "\<And>spec. g = Ok spec \<Longrightarrow> er_Resource spec = res \<and>
       (\<forall>(k, v) \<in> set (entries (sp_Dependencies (res_Spec res))). \<rho> v \<noteq> 0)" by auto
  show ?case
  proof (cases g)
    case (Ok spec)
    obtain r v where r: "msv_PlanAction (svc_moduleSvc svc) spec act u = (r, v)" by fastforce
    from hoareD [OF plan_safe gs(1) r]
    have rs: "I v \<and> rank v = \<rho>" "r \<noteq> Overflow" "\<And>p. r = Ok p \<Longrightarrow> same_identity (pl_Resource p) (er_Resource spec)" by auto
    show ?thesis
    proof (cases r)
      case rOk: (Ok p)
      let ?p = "(pl_Resource p)\<lparr>res_Labels := mergeLabels (pl_ResLabels p) (pl_ActLabels p)\<rparr>"
      note id = rs(3) [OF rOk] gs(3) [OF Ok]
      from Validate_result [of "isCreate (act_Name act)" ?p] show ?thesis
      proof (elim disjE exE conjE)
        fix q assume q: "Validate (isCreate (act_Name act)) ?p = (Ok (), q)"
        have "res_Spec q = res_Spec (pl_Resource p)" "\<not> isCreate (act_Name act) \<Longrightarrow> res_URN q = res_URN (pl_Resource p)"
          using Validate_Ok(8,9) [OF q] by auto
        then show ?thesis
          using g Ok r rOk q rs(1) id
          by (auto simp: planChange_def bindS_simps(1) catchS_def same_identity_def)
      next
        fix e q assume "Validate (isCreate (act_Name act)) ?p = (Err e, q)"
        then show ?thesis
          using g Ok r rOk rs(1) by (simp add: planChange_def bindS_simps(1) catchS_def)
      qed
    qed (use g Ok r rs in \<open>auto simp: planChange_def bindS_simps(1) catchS_def fail_def\<close>)
  qed (use g gs in \<open>auto simp: planChange_def bindS_simps\<close>)
qed

lemma upsert_keeps:
  assumes "(if create then (\<forall>(k, v) \<in> set (entries (sp_Dependencies (res_Spec res))). v \<noteq> res_URN res) \<or> \<rho> (res_URN res) \<noteq> 0
            else ranked \<rho> res)"
  shows "hoare (\<lambda>s. I s \<and> rank s = \<rho>) (upsert svc res create saveRevision reason) (\<lambda>r s. I s \<and> r \<noteq> Overflow)"
  unfolding upsert_def
proof (rule hoare_catchS [where R = "\<lambda>r s. I s \<and> r \<noteq> Overflow"])
  show "hoare (\<lambda>s. I s \<and> rank s = \<rho>)
     (if create then rs_Create (svc_store svc) res [] else rs_Update (svc_store svc) res saveRevision reason [])
     (\<lambda>r s. I s \<and> r \<noteq> Overflow)"
    using assms create_keeps [of res \<rho>] hoare_weaken [OF update_safe [of res \<rho> saveRevision reason]]
    by (cases create) auto
qed (auto simp: hoare_def ret_def fail_def)

lemma execAction_keeps:
  assumes n: "\<And>u. \<rho> u < n" and rk: "\<not> isCreate (act_Name act) \<Longrightarrow> ranked \<rho> res"
  shows "hoare (\<lambda>s. I s \<and> rank s = \<rho>) (execAction n svc res act dry) (\<lambda>r s. I s \<and> r \<noteq> Overflow)"
  unfolding execAction_def
proof (rule hoare_bindS [OF planChange_safe [OF n]])
  fix p :: Resource
  let ?stamped = "\<lambda>s. stamp (svc_clock svc s) res act p"
  have st: "res_URN (?stamped s) = res_URN p" "res_Spec (?stamped s) = res_Spec p" for s
    by (simp_all add: stamp_def)
  have tail: "hoare (\<lambda>s. I s) (bindS (liftR (setupCounter svc ''pending'')) (\<lambda>_.
           bindS (counter_Add svc ''pending'' (res_URN res)) (\<lambda>_. ret q))) (\<lambda>r s. I s \<and> r \<noteq> Overflow)" for q
    by (intro safe_bindS safe_liftR safe_ret) (auto simp: hoare_def counter_Add_def counters)
  show "hoare (\<lambda>s. (I s \<and> rank s = \<rho>) \<and> Ok p \<noteq> Overflow \<and> (\<forall>p'. Ok p = Ok p' \<longrightarrow>
       (\<forall>(k, v) \<in> set (entries (sp_Dependencies (res_Spec p'))). \<rho> v \<noteq> 0) \<and>
       set (entries (sp_Dependencies (res_Spec p'))) \<subseteq> set (entries (sp_Dependencies (res_Spec res))) \<and>
       (\<not> isCreate (act_Name act) \<longrightarrow> res_URN p' = res_URN res)))
     (\<lambda>s0. (let planned = ?stamped s0; reason = ''action:'' @ act_Name act
        in bindS (if dry then ret () else upsert svc planned (isCreate (act_Name act)) True reason) (\<lambda>_.
           bindS (liftR (setupCounter svc ''pending'')) (\<lambda>_.
           bindS (counter_Add svc ''pending'' (res_URN res)) (\<lambda>_.
           ret planned)))) s0) (\<lambda>r s. I s \<and> r \<noteq> Overflow)"
  proof (rule hoareI, goal_cases)
    case (1 s)
    then have pr: "(\<forall>(k, v) \<in> set (entries (sp_Dependencies (res_Spec p))). \<rho> v \<noteq> 0)"
      "set (entries (sp_Dependencies (res_Spec p))) \<subseteq> set (entries (sp_Dependencies (res_Spec res)))"
      "\<not> isCreate (act_Name act) \<Longrightarrow> res_URN p = res_URN res" by auto
    have "(if isCreate (act_Name act)
            then (\<forall>(k, v) \<in> set (entries (sp_Dependencies (res_Spec (?stamped s)))). v \<noteq> res_URN (?stamped s))
                 \<or> \<rho> (res_URN (?stamped s)) \<noteq> 0
            else ranked \<rho> (?stamped s))"
      unfolding st using pr rk by fastforce
    then have "hoare (\<lambda>s. I s \<and> rank s = \<rho>)
        (if dry then ret () else upsert svc (?stamped s) (isCreate (act_Name act)) True (''action:'' @ act_Name act))
        (\<lambda>r s. I s \<and> r \<noteq> Overflow)"
      using upsert_keeps by (cases dry) (auto intro: hoare_ret)
    then have "hoare (\<lambda>s. I s \<and> rank s = \<rho>)
       (bindS (if dry then ret () else upsert svc (?stamped s) (isCreate (act_Name act)) True (''action:'' @ act_Name act)) (\<lambda>_.
           bindS (liftR (setupCounter svc ''pending'')) (\<lambda>_.
           bindS (counter_Add svc ''pending'' (res_URN res)) (\<lambda>_. ret (?stamped s)))))
       (\<lambda>r s. I s \<and> r \<noteq> Overflow)"
      by (rule hoare_bindS) (auto intro: hoare_weaken [OF tail])
    moreover from "1" have "I s \<and> rank s = \<rho>" by blast
    ultimately show ?case unfolding hoare_def Let_def by blast
  qed
qed auto

text \<open>The operations of the service keep the invariant and return, given a stack deeper than every rank.\<close>

lemma GetResource_keeps:
  "(\<And>u. \<rho> u < n) \<Longrightarrow> safe (\<lambda>s. I s \<and> rank s = \<rho>) (GetResource n svc u)"
  by (rule hoare_weaken [OF GetResource_safe]) auto

lemma CreateResource_keeps:
  assumes "\<And>u. \<rho> u < n"
  shows "hoare (\<lambda>s. I s \<and> rank s = \<rho>) (CreateResource n svc res opts) (\<lambda>r s. I s \<and> r \<noteq> Overflow)"
  using Validate_result [of True res]
proof (elim disjE exE conjE)
  fix res' assume "Validate True res = (Ok (), res')"
  then show ?thesis
    unfolding CreateResource_def by (auto simp: Let_def isCreate_def intro!: execAction_keeps assms)
next
  fix e res' assume "Validate True res = (Err e, res')"
  then show ?thesis unfolding CreateResource_def by (auto intro: hoare_fail)
qed

lemma ApplyAction_keeps:
  assumes "\<And>u. \<rho> u < n"
  shows "hoare (\<lambda>s. I s \<and> rank s = \<rho>) (ApplyAction n svc urn act opts) (\<lambda>r s. I s \<and> r \<noteq> Overflow)"
  unfolding ApplyAction_def
proof (rule hoare_bindS [OF GetResource_safe [OF assms]])
  fix res :: Resource
  show "hoare (\<lambda>s. (I s \<and> rank s = \<rho>) \<and> Ok res \<noteq> Overflow \<and>
      (\<forall>res'. Ok res = Ok res' \<longrightarrow> res_URN res' = urn \<and> ranked \<rho> res' \<and> \<rho> urn \<noteq> 0))
     (if \<not> IsTerminal (res_State res) then
         fail (invalid (''cannot perform '' @ sq (act_Name act) @ '' on resource in ''
                        @ sq (st_Status (res_State res))))
       else execAction n svc res act (dry_run opts)) (\<lambda>r s. I s \<and> r \<noteq> Overflow)"
    by (rule hoare_pure [where C = "ranked \<rho> res" and P' = "\<lambda>s. I s \<and> rank s = \<rho>"])
      (blast, auto intro!: hoare_fail execAction_keeps assms)
qed auto

lemma DeleteResource_keeps:
  assumes "\<And>u. \<rho> u < n"
  shows "hoare (\<lambda>s. I s \<and> rank s = \<rho>) (DeleteResource n svc urn) (\<lambda>r s. I s \<and> r \<noteq> Overflow)"
  unfolding DeleteResource_def
  by (rule hoare_bindS [OF ApplyAction_keeps [OF assms]]) (auto intro: hoare_ret)

lemma UpdateResource_keeps:
  assumes "\<And>u. \<rho> u < n"
  shows "hoare (\<lambda>s. I s \<and> rank s = \<rho>) (UpdateResource n svc urn req opts) (\<lambda>r s. I s \<and> r \<noteq> Overflow)"
  unfolding UpdateResource_def by (auto intro!: hoare_fail ApplyAction_keeps assms)

lemma handleSync_safe:
  assumes "\<And>u. \<rho> u < n"
  shows "hoare (\<lambda>s. I s \<and> rank s = \<rho>) (handleSync n svc res)
    (\<lambda>r s. (I s \<and> rank s = \<rho>) \<and> r \<noteq> Overflow \<and> (\<forall>res'. r = Ok res' \<longrightarrow> same_identity res' res))"
proof -
  let ?P = "\<lambda>s. I s \<and> rank s = \<rho>"
  let ?Q = "\<lambda>r s. ?P s \<and> r \<noteq> Overflow \<and> (\<forall>res'. r = Ok res' \<longrightarrow> same_identity res' res)"
  have mk: "safe ?P (liftR (setupCounter svc c))" for c
    by (rule safe_liftR) (rule counters)
  have gm: "safe ?P (generateModuleSpec n svc res)"
    by (rule hoare_weaken [OF generateModuleSpec_safe]) (auto simp: assms)
  have ok: "hoare ?P (sync_done svc res st) ?Q" for st
    by (auto simp: hoare_def sync_done_result counters same_identity_def)
  have failed: "hoare ?P (sync_failed svc res e) ?Q" for e
    by (auto simp: hoare_def sync_failed_result Let_def counters same_identity_def)
  have "hoare ?P (catchS (msv_SyncState (svc_moduleSvc svc) spec) (sync_done svc res) (sync_failed svc res)) ?Q" for spec
    by (rule hoare_catchS [OF state_safe])
      (auto intro: hoare_weaken [OF ok] hoare_weaken [OF failed])
  then show ?thesis
    unfolding handleSync_def
    by (intro hoare_bindS_safe [OF mk] hoare_bindS_safe [OF gm]) auto
qed

lemma syncer_tick_safe:
  assumes "\<And>u. \<rho> u < n"
  shows "safe (\<lambda>s. I s \<and> rank s = \<rho>) (syncer_tick n svc scope)"
  unfolding syncer_tick_def
  by (intro safe_catchS safe_ret sync_safe) (rule handleSync_safe [OF assms])

end

end
