(* ===== verification/Pg_Inv.thy ===== *)
theory Pg_Inv
  imports Pg_Rules Core_Laws
begin

text \<open>
  The invariant of the resource tables: unique URNs and ids below the sequence, foreign keys of
  the dependency rows, and that every dependency row points to a smaller id, so the
  dependency graph is acyclic with the row id as its rank. Every store operation keeps it.
\<close>

section \<open>Invariant and rank\<close>

definition dep_rows_ok :: "tables \<Rightarrow> bool" where
  "dep_rows_ok t \<longleftrightarrow>
     (\<forall>d \<in> set (t_deps t).
        dep_resource_id d \<in> rm_ID ` set (t_resources t) \<and> dep_depends_on d \<in> rm_ID ` set (t_resources t) \<and>
        dep_depends_on d < dep_resource_id d) \<and>
     distinct (map (\<lambda>d. (dep_resource_id d, dep_key d)) (t_deps t))"

definition tables_ok :: "tables \<Rightarrow> nat \<Rightarrow> bool" where
  "tables_ok t seq \<longleftrightarrow>
     distinct (map rm_URN (t_resources t)) \<and> distinct (map rm_ID (t_resources t)) \<and>
     (\<forall>r \<in> set (t_resources t). 0 < rm_ID r \<and> rm_ID r < seq) \<and> dep_rows_ok t"

definition db_inv :: "'x world \<Rightarrow> bool" where
  "db_inv s \<longleftrightarrow> tables_ok (w_tables s) (w_res_seq s) \<and> 0 < w_res_seq s"

definition urn_id :: "tables \<Rightarrow> string \<Rightarrow> nat" where
  "urn_id t urn = (case row_by_urn urn t of Some r \<Rightarrow> rm_ID r | None \<Rightarrow> 0)"

definition db_rank :: "'x world \<Rightarrow> string \<Rightarrow> nat" where
  "db_rank s = urn_id (w_tables s)"

lemma row_by_urn_Some: "row_by_urn urn t = Some r \<Longrightarrow> r \<in> set (t_resources t) \<and> rm_URN r = urn"
  unfolding row_by_urn_def by (drule find_Some_mem) simp

lemma row_by_urn_mem:
  assumes "tables_ok t n" and "r \<in> set (t_resources t)"
  shows "row_by_urn (rm_URN r) t = Some r"
  unfolding row_by_urn_def using assms by (intro find_Some_unique) (simp_all add: tables_ok_def)

lemma urn_id_mem: "tables_ok t n \<Longrightarrow> r \<in> set (t_resources t) \<Longrightarrow> urn_id t (rm_URN r) = rm_ID r"
  by (simp add: urn_id_def row_by_urn_mem)

lemma urn_id_less: "tables_ok t n \<Longrightarrow> 0 < n \<Longrightarrow> urn_id t urn < n"
  by (auto simp: urn_id_def tables_ok_def split: option.split dest: row_by_urn_Some)

lemma urn_id_0: "tables_ok t n \<Longrightarrow> urn_id t urn = 0 \<longleftrightarrow> row_by_urn urn t = None"
  by (auto simp: urn_id_def tables_ok_def split: option.split dest: row_by_urn_Some)

lemma db_rank_less: "db_inv s \<Longrightarrow> db_rank s urn < w_res_seq s"
  by (simp add: db_inv_def db_rank_def urn_id_less)

lemma tables_ok_mono: "tables_ok t n \<Longrightarrow> n \<le> m \<Longrightarrow> tables_ok t m"
  by (fastforce simp: tables_ok_def)

text \<open>What a resource-preserving change of the tables keeps.\<close>

lemma urn_id_cong: "map (\<lambda>r. (rm_ID r, rm_URN r)) rs = map (\<lambda>r. (rm_ID r, rm_URN r)) rs' \<Longrightarrow>
    map_option rm_ID (find (\<lambda>r. rm_URN r = u) rs) = map_option rm_ID (find (\<lambda>r. rm_URN r = u) rs')"
proof (induction rs arbitrary: rs')
  case Nil
  then show ?case by simp
next
  case (Cons r rs)
  then show ?case by (cases rs') auto
qed

lemma map_rows_ok:
  assumes "\<And>r. rm_ID (f r) = rm_ID r \<and> rm_URN (f r) = rm_URN r"
  shows "tables_ok (map_rows P f t) n = tables_ok t n" and "urn_id (map_rows P f t) = urn_id t"
    and "t_deps (map_rows P f t) = t_deps t" and "t_tags (map_rows P f t) = t_tags t"
proof -
  let ?rs = "map (\<lambda>row. if P row then f row else row) (t_resources t)"
  have m: "map rm_ID ?rs = map rm_ID (t_resources t)" "map rm_URN ?rs = map rm_URN (t_resources t)"
    "map (\<lambda>r. (rm_ID r, rm_URN r)) ?rs = map (\<lambda>r. (rm_ID r, rm_URN r)) (t_resources t)"
    using assms by simp_all
  have i: "rm_ID ` set ?rs = rm_ID ` set (t_resources t)"
    using m(1) by (metis list.set_map)
  have b: "(\<forall>r \<in> set ?rs. 0 < rm_ID r \<and> rm_ID r < n) \<longleftrightarrow> (\<forall>r \<in> set (t_resources t). 0 < rm_ID r \<and> rm_ID r < n)"
    using i by (metis (no_types, lifting) imageE imageI)
  show "tables_ok (map_rows P f t) n = tables_ok t n"
    using m(1,2) i b by (simp add: tables_ok_def dep_rows_ok_def map_rows_def del: map_map)
  show "urn_id (map_rows P f t) = urn_id t"
  proof
    fix u
    have c: "(case x of Some r \<Rightarrow> rm_ID r | None \<Rightarrow> 0) = (case map_option rm_ID x of Some i \<Rightarrow> i | None \<Rightarrow> 0)" for x
      by (simp split: option.split)
    show "urn_id (map_rows P f t) u = urn_id t u"
      unfolding urn_id_def row_by_urn_def c using urn_id_cong [OF m(3), of u] by (simp add: map_rows_def)
  qed
qed (simp_all add: map_rows_def)

section \<open>Rules for the invariant\<close>

text \<open>
  The precondition of the rules: the invariant, a fixed rank and a lower bound of the sequence,
  which a rollback does not undo.
\<close>

definition ranked_inv :: "(string \<Rightarrow> nat) \<Rightarrow> nat \<Rightarrow> 'x world \<Rightarrow> bool" where
  "ranked_inv \<rho> n s \<longleftrightarrow> db_inv s \<and> db_rank s = \<rho> \<and> n \<le> w_res_seq s"

lemma ranked_inv_nf: "nf s = nf t \<Longrightarrow> ranked_inv \<rho> n s = ranked_inv \<rho> n t"
  by (metis db_inv_def db_rank_def nf_simps(1,2) ranked_inv_def)

lemma ranked_inv_tick [simp]: "ranked_inv \<rho> n (tick_fault s) = ranked_inv \<rho> n s"
  by (rule ranked_inv_nf) simp

lemma ranked_inv_rollback:
  "ranked_inv \<rho> n s0 \<Longrightarrow> w_res_seq s0 \<le> w_res_seq s \<Longrightarrow> ranked_inv \<rho> n (rollback_to s0 s)"
  by (auto simp: ranked_inv_def db_inv_def db_rank_def rollback_to_def intro: tables_ok_mono)

lemma safe_reads: "reads m \<Longrightarrow> safe (ranked_inv \<rho> n) m"
  by (erule reads_safe) (rule ranked_inv_nf)

text \<open>A transaction whose body keeps the invariant for every bound keeps it, also when it is rolled back.\<close>

lemma withinTx_split:
  assumes "withinTx readOnly fn s0 = (r, t)"
  obtains (nothing) "nf t = nf s0" "\<exists>e. r = Err e"
  | (committed) u q where "fn (tick_fault s0) = (q, u)" "t = tick_fault u" "\<exists>a. q = Ok a" "r = q \<or> (\<exists>e. r = Err e)"
  | (aborted) u q where "fn (tick_fault s0) = (q, u)" "nf t = nf (rollback_to s0 u)" "r = q \<or> (\<exists>e. r = Err e)"
      "\<forall>a. r \<noteq> Ok a"
proof (cases "next_fault s0")
  case Fine
  obtain q u where fn: "fn (tick_fault s0) = (q, u)" by fastforce
  show thesis
  proof (cases q)
    case (Ok a)
    show thesis
    proof (cases "next_fault u")
      case (Fails e)
      then show thesis using assms Fine fn Ok
        by (intro aborted [OF fn]) (auto simp: withinTx_def stmt_def rollback_to_def)
    qed (use assms Fine fn Ok in \<open>auto simp: withinTx_def stmt_def intro!: committed [OF fn]\<close>)
  next
    case (Err e)
    then show thesis using assms Fine fn by (intro aborted [OF fn]) (auto simp: withinTx_def stmt_def)
  next
    case (Panic p)
    then show thesis using assms Fine fn by (intro aborted [OF fn]) (auto simp: withinTx_def stmt_def)
  next
    case Overflow
    then show thesis using assms Fine fn by (intro aborted [OF fn]) (auto simp: withinTx_def stmt_def)
  qed
qed (use assms in \<open>auto simp: withinTx_def stmt_def intro: nothing\<close>)

lemma hoare_withinTx_inv:
  assumes fn: "\<And>n. hoare (ranked_inv \<rho> n) fn (\<lambda>r s. Q n s \<and> r \<noteq> Overflow)"
    and tick: "\<And>n s. Q n s \<Longrightarrow> Q n (tick_fault s)" and bound: "\<And>n s. Q n s \<Longrightarrow> n \<le> w_res_seq s"
    and mono: "\<And>n m s. Q m s \<Longrightarrow> n \<le> m \<Longrightarrow> Q n s" and start: "\<And>n s. ranked_inv \<rho> n s \<Longrightarrow> Q n s"
  shows "hoare (ranked_inv \<rho> n) (withinTx readOnly fn) (\<lambda>r s. Q n s \<and> r \<noteq> Overflow)"
proof (rule hoareI)
  fix s0 :: "'a world"
  assume I: "ranked_inv \<rho> n s0"
  obtain r t where run: "withinTx readOnly fn s0 = (r, t)" by fastforce
  let ?m = "max n (w_res_seq s0)"
  from I have I': "ranked_inv \<rho> ?m (tick_fault s0)" unfolding ranked_inv_tick by (simp add: ranked_inv_def)
  have u: "Q ?m u \<and> q \<noteq> Overflow" if "fn (tick_fault s0) = (q, u)" for q u
    using hoareD [OF fn I' that] .
  from run have "Q n t \<and> r \<noteq> Overflow"
  proof (cases rule: withinTx_split)
    case nothing
    then show ?thesis using I ranked_inv_nf [of t s0] start by auto
  next
    case (committed u q)
    then show ?thesis using u [OF committed(1)] tick mono [of ?m _ n] by auto
  next
    case (aborted u q)
    have "w_res_seq s0 \<le> w_res_seq u" using u [OF aborted(1)] bound by fastforce
    from ranked_inv_rollback [OF I this] ranked_inv_nf [OF aborted(2)] u [OF aborted(1)] aborted(3) start
    show ?thesis by auto
  qed
  then show "Q n (snd (withinTx readOnly fn s0)) \<and> fst (withinTx readOnly fn s0) \<noteq> Overflow"
    using run by simp
qed

lemma safe_withinTx:
  "(\<And>n. safe (ranked_inv \<rho> n) fn) \<Longrightarrow> safe (ranked_inv \<rho> n) (withinTx readOnly fn)"
  by (rule hoare_withinTx_inv) (auto simp: ranked_inv_def db_inv_def db_rank_def)

section \<open>The write statements\<close>

lemma ranked_inv_tables:
  assumes "ranked_inv \<rho> n s" and "tables_ok t (w_res_seq s)" and "urn_id t = urn_id (w_tables s)"
  shows "ranked_inv \<rho> n (s\<lparr>w_tables := t\<rparr>)"
  using assms by (simp add: ranked_inv_def db_inv_def db_rank_def)

text \<open>A statement that leaves the resource and dependency tables alone.\<close>

lemma ranked_inv_other_tables:
  assumes "ranked_inv \<rho> n s" and "t_resources t = t_resources (w_tables s)" and "t_deps t = t_deps (w_tables s)"
  shows "ranked_inv \<rho> n (s\<lparr>w_tables := t\<rparr>)"
proof (rule ranked_inv_tables [OF assms(1)])
  show "tables_ok t (w_res_seq s)"
    using assms by (simp add: ranked_inv_def db_inv_def tables_ok_def dep_rows_ok_def)
  show "urn_id t = urn_id (w_tables s)"
    using assms(2) by (simp add: urn_id_def row_by_urn_def fun_eq_iff)
qed

lemma safe_exec:
  assumes "\<And>(s :: 'x world) now. ranked_inv \<rho> n s \<Longrightarrow> ranked_inv \<rho> n (s\<lparr>w_tables := f now (w_tables s)\<rparr>)"
  shows "safe (ranked_inv \<rho> n) (exec f :: ('x, unit) db)"
  unfolding exec_def by (rule safe_stmt) (auto simp: hoare_def assms)

lemma map_tags_tables [simp]:
  "t_resources (map_tags tt f t) = t_resources t" "t_deps (map_tags tt f t) = t_deps t"
  by (cases tt; simp add: map_tags_def)+

lemma safe_insert_tags: "safe (ranked_inv \<rho> n) (insert_tags tt owner tags)"
  unfolding insert_tags_def by (rule safe_stmt) (auto simp: hoare_def intro: ranked_inv_other_tables)

lemma safe_setTags: "safe (ranked_inv \<rho> n) (setTags tt owner labels)"
  unfolding setTags_def
  by (intro safe_bindS safe_if safe_ret safe_exec safe_insert_tags) (auto intro: ranked_inv_other_tables)

lemma safe_insert_revision_row: "safe (ranked_inv \<rho> n) (insert_revision_row rid r)"
  unfolding insert_revision_row_def
proof (rule safe_stmt, rule hoareI, unfold Let_def fst_conv snd_conv, rule conjI)
  fix s :: "'a world"
  assume "ranked_inv \<rho> n s"
  then have "ranked_inv \<rho> n (s\<lparr>w_rev_seq := w_rev_seq s + 1\<rparr>)"
    by (simp add: ranked_inv_def db_inv_def db_rank_def)
  then show "ranked_inv \<rho> n (s\<lparr>w_rev_seq := w_rev_seq s + 1,
                     w_tables := (w_tables s)\<lparr>t_revisions := t_revisions (w_tables s) @
                       [\<lparr>rvm_ID = w_rev_seq s, rvm_Reason = rev_Reason r, rvm_CreatedAt = pg_time (w_now s),
                         rvm_CreatedBy = rev_CreatedBy r, rvm_ResourceID = rid,
                         rvm_SpecConfigs = copy_raw (sp_Configs (rev_Spec r))\<rparr>]\<rparr>\<rparr>)"
    by (rule ranked_inv_other_tables) simp_all
qed simp_all

lemma safe_insertRevision: "safe (ranked_inv \<rho> n) (insertRevision rid r)"
  unfolding insertRevision_def setRevisionTags_def by (intro safe_bindS safe_setTags safe_insert_revision_row)

lemma safe_translated: "safe P m \<Longrightarrow> safe P (translated m)"
  unfolding translated_def by (intro safe_catchS safe_ret safe_fail)

text \<open>Dependency rows that may be inserted: from an existing row to existing rows of smaller id.\<close>

definition dep_row_fits :: "nat \<Rightarrow> tables \<Rightarrow> dependency_row \<Rightarrow> bool" where
  "dep_row_fits rid t d \<longleftrightarrow>
     dep_resource_id d = rid \<and> dep_depends_on d < rid \<and>
     rid \<in> rm_ID ` set (t_resources t) \<and> dep_depends_on d \<in> rm_ID ` set (t_resources t)"

lemma translateURNToID_Ok:
  "translateURNToID urn s = (Ok i, t) \<Longrightarrow> \<exists>r. row_by_urn urn (w_tables s) = Some r \<and> i = rm_ID r \<and> nf t = nf s"
  by (auto simp: translateURNToID_def query_def stmt_def ret_def fail_def
      split: fault.splits prod.splits result.splits option.splits)

lemma dependency_rows_Ok:
  assumes "dependency_rows rid ds s = (Ok rows, t)"
  shows "nf t = nf s \<and>
    list_all2 (\<lambda>(k, u) d. dep_resource_id d = rid \<and> dep_key d = k \<and>
       (\<exists>r. row_by_urn u (w_tables s) = Some r \<and> dep_depends_on d = rm_ID r)) ds rows"
  using assms
proof (induction rid ds arbitrary: s rows rule: dependency_rows.induct)
  case (1 rid)
  then show ?case by (simp add: ret_def)
next
  case (2 rid k u rest)
  from "2.prems" obtain i s1 rows' where i: "translateURNToID u s = (Ok i, s1)"
    and rest: "dependency_rows rid rest s1 = (Ok rows', t)"
    and rows: "rows = \<lparr>dep_resource_id = rid, dep_key = k, dep_depends_on = i\<rparr> # rows'"
    by (auto simp: ret_def)
  from translateURNToID_Ok [OF i] have "w_tables s1 = w_tables s" by (metis nf_simps(1))
  with translateURNToID_Ok [OF i] "2.IH" [OF rest] rows show ?case by auto
qed

lemma reads_dependency_rows: "reads (dependency_rows rid ds)"
  by (induction rid ds rule: dependency_rows.induct)
    (simp_all only: dependency_rows.simps, rule reads_ret,
      intro reads_bindS reads_translateURNToID reads_ret)

lemma ranked_inv_insert_deps:
  assumes "ranked_inv \<rho> n s" and "list_all (dep_row_fits rid (w_tables s)) rows"
    and "distinct (map (\<lambda>d. (dep_resource_id d, dep_key d)) rows)"
    and "list_all (\<lambda>d. (dep_resource_id d, dep_key d)
            \<notin> set (map (\<lambda>d. (dep_resource_id d, dep_key d)) (t_deps (w_tables s)))) rows"
  shows "ranked_inv \<rho> n (s\<lparr>w_tables := (w_tables s)\<lparr>t_deps := t_deps (w_tables s) @ rows\<rparr>\<rparr>)"
proof (rule ranked_inv_tables [OF assms(1)])
  let ?t = "(w_tables s)\<lparr>t_deps := t_deps (w_tables s) @ rows\<rparr>"
  have "dep_rows_ok (w_tables s)"
    using assms(1) by (simp add: ranked_inv_def db_inv_def tables_ok_def)
  then have "dep_rows_ok ?t"
    using assms(2-4) by (fastforce simp: dep_rows_ok_def dep_row_fits_def list_all_iff)
  then show "tables_ok ?t (w_res_seq s)"
    using assms(1) by (simp add: ranked_inv_def db_inv_def tables_ok_def)
  show "urn_id ?t = urn_id (w_tables s)"
    by (simp add: urn_id_def row_by_urn_def fun_eq_iff)
qed

lemma ranked_inv_filter_deps:
  assumes "ranked_inv \<rho> n s"
  shows "ranked_inv \<rho> n (s\<lparr>w_tables := (w_tables s)\<lparr>t_deps := filter P (t_deps (w_tables s))\<rparr>\<rparr>)"
proof (rule ranked_inv_tables [OF assms])
  let ?t = "(w_tables s)\<lparr>t_deps := filter P (t_deps (w_tables s))\<rparr>"
  have "dep_rows_ok (w_tables s)"
    using assms by (simp add: ranked_inv_def db_inv_def tables_ok_def)
  then have "dep_rows_ok ?t"
    by (auto simp: dep_rows_ok_def distinct_map_filter)
  then show "tables_ok ?t (w_res_seq s)"
    using assms by (simp add: ranked_inv_def db_inv_def tables_ok_def)
  show "urn_id ?t = urn_id (w_tables s)"
    by (simp add: urn_id_def row_by_urn_def fun_eq_iff)
qed

text \<open>Setting the dependencies of a row keeps the invariant when their ids are smaller.\<close>

lemma hoare_insert_dependencies:
  "hoare (\<lambda>s. ranked_inv \<rho> n s \<and> list_all (dep_row_fits rid (w_tables s)) rows) (insert_dependencies rows)
      (\<lambda>r s. ranked_inv \<rho> n s \<and> r \<noteq> Overflow)"
  unfolding insert_dependencies_def
  by (rule hoare_stmt) (auto simp: hoare_def Let_def intro!: ranked_inv_insert_deps)

lemma dependency_rows_fit:
  assumes "\<forall>(k, v) \<in> set ds. \<rho> v < rid" and "\<rho> u = rid" and "0 < rid"
    and I: "ranked_inv \<rho> n s" and run: "dependency_rows rid ds s = (Ok rows, t)"
  shows "list_all (dep_row_fits rid (w_tables s)) rows"
proof -
  have ok': "tables_ok (w_tables s) (w_res_seq s)" and \<rho>: "\<rho> = urn_id (w_tables s)"
    using I by (auto simp: ranked_inv_def db_inv_def db_rank_def)
  from assms(2,3) \<rho> have "row_by_urn u (w_tables s) \<noteq> None"
    by (metis gr_implies_not0 ok' urn_id_0)
  then obtain y where y: "row_by_urn u (w_tables s) = Some y" by blast
  have rid: "rm_ID y = rid" using assms(2) \<rho> y by (simp add: urn_id_def)
  have fits: "dep_row_fits rid (w_tables s) d"
    if "(k, v) \<in> set ds" "dep_resource_id d = rid" "row_by_urn v (w_tables s) = Some x"
      "dep_depends_on d = rm_ID x" for k v d x
  proof -
    have "rm_ID x < rid" using assms(1) that \<rho> by (fastforce simp: urn_id_def)
    then show ?thesis
      using that rid row_by_urn_Some [OF y] row_by_urn_Some [OF that(3)]
      by (auto simp: dep_row_fits_def intro: rev_image_eqI)
  qed
  from dependency_rows_Ok [OF run] have
    "list_all2 (\<lambda>(k, u) d. dep_resource_id d = rid \<and> dep_key d = k \<and>
       (\<exists>r. row_by_urn u (w_tables s) = Some r \<and> dep_depends_on d = rm_ID r)) ds rows" by blast
  then have "\<forall>d \<in> set rows. \<exists>(k, v) \<in> set ds. dep_resource_id d = rid \<and>
      (\<exists>x. row_by_urn v (w_tables s) = Some x \<and> dep_depends_on d = rm_ID x)"
    by (induction rule: list_all2_induct) auto
  then show ?thesis unfolding list_all_iff using fits by blast
qed

lemma hoare_dependency_rows:
  assumes "\<forall>(k, v) \<in> set ds. \<rho> v < rid" and "\<rho> u = rid" and "0 < rid"
  shows "hoare (ranked_inv \<rho> n) (dependency_rows rid ds)
      (\<lambda>r s. ranked_inv \<rho> n s \<and> r \<noteq> Overflow \<and> (\<forall>rows. r = Ok rows \<longrightarrow> list_all (dep_row_fits rid (w_tables s)) rows))"
proof (rule hoareI)
  fix s :: "'a world"
  assume I: "ranked_inv \<rho> n s"
  obtain r t where run: "dependency_rows rid ds s = (r, t)" by fastforce
  from reads_frame [OF reads_dependency_rows run] have f: "nf t = nf s" "r \<noteq> Overflow" by auto
  have tab: "w_tables t = w_tables s" using f(1) by (metis nf_simps(1))
  show "ranked_inv \<rho> n (snd (dependency_rows rid ds s)) \<and> fst (dependency_rows rid ds s) \<noteq> Overflow \<and>
      (\<forall>rows. fst (dependency_rows rid ds s) = Ok rows \<longrightarrow>
         list_all (dep_row_fits rid (w_tables (snd (dependency_rows rid ds s)))) rows)"
    using f I ranked_inv_nf [OF f(1)] run dependency_rows_fit [OF assms I] by (simp add: tab)
qed

lemma safe_setDependencies:
  assumes "\<forall>(k, v) \<in> set (entries deps). \<rho> v < rid" and "\<rho> u = rid" and "0 < rid"
  shows "safe (ranked_inv \<rho> n) (setDependencies rid deps)"
  unfolding setDependencies_def
proof (rule safe_bindS, rule safe_exec, erule ranked_inv_filter_deps, rule safe_if)
  show "safe (ranked_inv \<rho> n) (bindS (dependency_rows rid (entries deps)) insert_dependencies)"
    by (rule hoare_bindS [OF hoare_dependency_rows [OF assms]])
      (auto intro: hoare_weaken [OF hoare_insert_dependencies])
qed (rule safe_ret)

section \<open>The operations\<close>

lemma safe_translateURNToID: "safe (ranked_inv \<rho> n) (translateURNToID urn)"
  by (rule safe_reads [OF reads_translateURNToID])

lemma update_row_ids [simp]: "rm_ID (update_row now r row) = rm_ID row" "rm_URN (update_row now r row) = rm_URN row"
  by (simp_all add: update_row_def)

lemma ranked_inv_map_rows:
  assumes "ranked_inv \<rho> n s" and "\<And>r. rm_ID (f r) = rm_ID r \<and> rm_URN (f r) = rm_URN r"
  shows "ranked_inv \<rho> n (s\<lparr>w_tables := map_rows P f (w_tables s)\<rparr>)"
  using assms(1) map_rows_ok [OF assms(2)] by (intro ranked_inv_tables) (auto simp: ranked_inv_def db_inv_def)

lemma hoare_translateURNToID:
  "hoare (ranked_inv \<rho> n) (translateURNToID urn)
      (\<lambda>r s. ranked_inv \<rho> n s \<and> r \<noteq> Overflow \<and> (\<forall>i. r = Ok i \<longrightarrow> \<rho> urn = i \<and> 0 < i))"
proof (rule hoareI)
  fix s :: "'a world"
  assume I: "ranked_inv \<rho> n s"
  obtain r t where run: "translateURNToID urn s = (r, t)" by fastforce
  from reads_frame [OF reads_translateURNToID run] have f: "nf t = nf s" "r \<noteq> Overflow" by auto
  have "\<rho> urn = i \<and> 0 < i" if "r = Ok i" for i
  proof -
    from translateURNToID_Ok [OF run [unfolded that]] obtain row where
      row: "row_by_urn urn (w_tables s) = Some row" "i = rm_ID row" by blast
    moreover have "0 < rm_ID row"
      using I row_by_urn_Some [OF row(1)] by (auto simp: ranked_inv_def db_inv_def tables_ok_def)
    ultimately show ?thesis using I by (auto simp: ranked_inv_def db_rank_def urn_id_def)
  qed
  then show "ranked_inv \<rho> n (snd (translateURNToID urn s)) \<and> fst (translateURNToID urn s) \<noteq> Overflow \<and>
      (\<forall>i. fst (translateURNToID urn s) = Ok i \<longrightarrow> \<rho> urn = i \<and> 0 < i)"
    using run f I ranked_inv_nf [OF f(1)] by simp
qed

lemma safe_update_parts:
  assumes "ranked \<rho> res" and "\<rho> (res_URN res) = rid" and "0 < rid"
  shows "safe (ranked_inv \<rho> n)
    (bindS (exec (\<lambda>now. map_rows (\<lambda>row. rm_ID row = rid) (update_row now res))) (\<lambda>_.
     bindS (setResourceTags rid (res_Labels res)) (\<lambda>_.
     bindS (setDependencies rid (sp_Dependencies (res_Spec res))) (\<lambda>_.
     bindS (if saveRevision then translated (insertRevision rid (revision_of res reason)) else ret ()) (\<lambda>_.
     runAllHooks [])))))"
  unfolding setResourceTags_def runAllHooks.simps
  by (intro safe_bindS safe_exec safe_setTags safe_if safe_translated
        safe_setDependencies [where \<rho> = \<rho> and u = "res_URN res" and rid = rid]
        safe_insertRevision safe_ret ranked_inv_map_rows) (use assms in auto)

lemma safe_updateResource:
  assumes "ranked \<rho> res"
  shows "safe (ranked_inv \<rho> n) (updateResource res saveRevision reason [])"
  unfolding updateResource_def
proof (rule hoare_bindS [OF hoare_translateURNToID])
  fix rid
  show "hoare (\<lambda>s. ranked_inv \<rho> n s \<and> Ok rid \<noteq> Overflow \<and> (\<forall>i. Ok rid = Ok i \<longrightarrow> \<rho> (res_URN res) = i \<and> 0 < i))
     (bindS (exec (\<lambda>now. map_rows (\<lambda>row. rm_ID row = rid) (update_row now res))) (\<lambda>_.
     bindS (setResourceTags rid (res_Labels res)) (\<lambda>_.
     bindS (setDependencies rid (sp_Dependencies (res_Spec res))) (\<lambda>_.
     bindS (if saveRevision then translated (insertRevision rid (revision_of res reason)) else ret ()) (\<lambda>_.
     runAllHooks []))))) (\<lambda>r s. ranked_inv \<rho> n s \<and> r \<noteq> Overflow)"
    using safe_update_parts [OF assms, of rid n saveRevision reason] by (auto simp: hoare_def)
qed auto

lemma safe_Update: "ranked \<rho> res \<Longrightarrow> safe (ranked_inv \<rho> n) (Update res saveRevision reason [])"
  unfolding Update_def by (intro safe_withinTx safe_updateResource)

text \<open>Inserting a resource gives its URN a rank above all others.\<close>

definition fresh_inv :: "nat \<Rightarrow> 'x world \<Rightarrow> bool" where
  "fresh_inv n s \<longleftrightarrow> db_inv s \<and> n \<le> w_res_seq s"

lemma ranked_inv_insert:
  assumes I: "ranked_inv \<rho> n s" and new: "\<not> list_ex (\<lambda>row. rm_URN row = res_URN r) (t_resources (w_tables s))"
  shows "ranked_inv (\<rho>(res_URN r := w_res_seq s)) n (s\<lparr>w_res_seq := w_res_seq s + 1,
    w_tables := (w_tables s)\<lparr>t_resources := t_resources (w_tables s) @ [resource_row (w_res_seq s) r]\<rparr>\<rparr>)"
proof -
  let ?t = "(w_tables s)\<lparr>t_resources := t_resources (w_tables s) @ [resource_row (w_res_seq s) r]\<rparr>"
  have ok: "tables_ok (w_tables s) (w_res_seq s)" "0 < w_res_seq s" and \<rho>: "\<rho> = urn_id (w_tables s)"
    and n: "n \<le> w_res_seq s"
    using I by (auto simp: ranked_inv_def db_inv_def db_rank_def)
  from new have urn: "res_URN r \<notin> rm_URN ` set (t_resources (w_tables s))"
    by (auto simp: list_ex_iff)
  have "tables_ok ?t (w_res_seq s + 1)"
    using ok urn by (fastforce simp: tables_ok_def dep_rows_ok_def resource_row_def)
  moreover have "urn_id ?t u = (\<rho>(res_URN r := w_res_seq s)) u" for u
  proof (cases "u = res_URN r")
    case True
    have "find (\<lambda>x. rm_URN x = res_URN r) (t_resources (w_tables s)) = None"
      unfolding find_None_iff using urn by (metis image_eqI)
    with True show ?thesis
      by (simp add: urn_id_def row_by_urn_def resource_row_def find_append split: option.split)
  next
    case False
    then show ?thesis
      by (simp add: \<rho> urn_id_def row_by_urn_def resource_row_def find_append split: option.split)
  qed
  ultimately show ?thesis
    using n by (simp add: ranked_inv_def db_inv_def db_rank_def fun_eq_iff)
qed

lemma hoare_insertResourceRecord:
  "hoare (ranked_inv \<rho> n) (insertResourceRecord r)
     (\<lambda>q s. q \<noteq> Overflow \<and> fresh_inv n s \<and>
        (\<forall>i. q = Ok i \<longrightarrow> ranked_inv (\<rho>(res_URN r := i)) n s \<and> \<rho> (res_URN r) = 0 \<and> 0 < i \<and> (\<forall>v. \<rho> v < i)))"
  unfolding insertResourceRecord_def
proof (rule hoare_stmt)
  show "hoare (ranked_inv \<rho> n)
     (\<lambda>s :: 'a world. let rid = w_res_seq s; s' = s\<lparr>w_res_seq := rid + 1\<rparr>
          in if list_ex (\<lambda>row. rm_URN row = res_URN r) (t_resources (w_tables s))
             then (Err (unique_violation ''resources_urn_key''), s')
             else (Ok rid, s'\<lparr>w_tables := (w_tables s)\<lparr>t_resources := t_resources (w_tables s) @ [resource_row rid r]\<rparr>\<rparr>))
     (\<lambda>q s. q \<noteq> Overflow \<and> fresh_inv n s \<and>
        (\<forall>i. q = Ok i \<longrightarrow> ranked_inv (\<rho>(res_URN r := i)) n s \<and> \<rho> (res_URN r) = 0 \<and> 0 < i \<and> (\<forall>v. \<rho> v < i)))"
  proof (rule hoareI)
    fix s :: "'a world"
    assume I: "ranked_inv \<rho> n s"
    have inc: "fresh_inv n (s\<lparr>w_res_seq := w_res_seq s + 1\<rparr>)"
      using I tables_ok_mono [of "w_tables s" "w_res_seq s" "Suc (w_res_seq s)"]
      by (simp add: fresh_inv_def ranked_inv_def db_inv_def)
    have ok: "tables_ok (w_tables s) (w_res_seq s)" "0 < w_res_seq s" "\<rho> = urn_id (w_tables s)"
      using I by (auto simp: ranked_inv_def db_inv_def db_rank_def)
    let ?b = "let rid = w_res_seq s; s' = s\<lparr>w_res_seq := rid + 1\<rparr>
          in if list_ex (\<lambda>row. rm_URN row = res_URN r) (t_resources (w_tables s))
             then (Err (unique_violation ''resources_urn_key''), s')
             else (Ok rid, s'\<lparr>w_tables := (w_tables s)\<lparr>t_resources := t_resources (w_tables s) @ [resource_row rid r]\<rparr>\<rparr>)"
    show "fst ?b \<noteq> Overflow \<and> fresh_inv n (snd ?b) \<and>
        (\<forall>i. fst ?b = Ok i \<longrightarrow> ranked_inv (\<rho>(res_URN r := i)) n (snd ?b) \<and> \<rho> (res_URN r) = 0 \<and> 0 < i \<and> (\<forall>v. \<rho> v < i))"
    proof (cases "list_ex (\<lambda>row. rm_URN row = res_URN r) (t_resources (w_tables s))")
      case True
      then show ?thesis using inc by (simp add: Let_def)
    next
      case False
      have "\<rho> (res_URN r) = 0"
        using False urn_id_0 [OF ok(1), of "res_URN r"] ok(3)
        by (auto simp: row_by_urn_def find_None_iff list_ex_iff)
      then show ?thesis
        using False ranked_inv_insert [OF I False] ok urn_id_less [OF ok(1,2)]
        by (simp add: Let_def fresh_inv_def ranked_inv_def)
    qed
  qed
qed (auto simp: fresh_inv_def ranked_inv_def db_inv_def db_rank_def)

text \<open>A new resource may depend on anything but itself; when the URN is taken nothing is written.\<close>

lemma hoare_insertResource:
  assumes "(\<forall>(k, v) \<in> set (entries (sp_Dependencies (res_Spec res))). v \<noteq> res_URN res) \<or> \<rho> (res_URN res) \<noteq> 0"
  shows "hoare (ranked_inv \<rho> n) (insertResource res []) (\<lambda>r s. fresh_inv n s \<and> r \<noteq> Overflow)"
proof -
  show ?thesis
    unfolding insertResource_def
  proof (rule hoare_bindS)
    show "hoare (ranked_inv \<rho> n) (translated (insertResourceRecord res))
       (\<lambda>q s. q \<noteq> Overflow \<and> fresh_inv n s \<and>
        (\<forall>i. q = Ok i \<longrightarrow> ranked_inv (\<rho>(res_URN res := i)) n s \<and> \<rho> (res_URN res) = 0 \<and> 0 < i \<and> (\<forall>v. \<rho> v < i)))"
      unfolding translated_def
      by (rule hoare_catchS [OF hoare_insertResourceRecord]) (auto simp: hoare_def ret_def fail_def)
    fix i
    show "hoare (\<lambda>s. Ok i \<noteq> Overflow \<and> fresh_inv n s \<and>
        (\<forall>j. Ok i = Ok j \<longrightarrow> ranked_inv (\<rho>(res_URN res := j)) n s \<and> \<rho> (res_URN res) = 0 \<and> 0 < j \<and> (\<forall>v. \<rho> v < j)))
       (bindS (translated (setResourceTags i (res_Labels res))) (\<lambda>_.
     bindS (translated (setDependencies i (sp_Dependencies (res_Spec res)))) (\<lambda>_.
     bindS (translated (insertRevision i (revision_of res ''action:create''))) (\<lambda>_.
     runAllHooks [])))) (\<lambda>r s. fresh_inv n s \<and> r \<noteq> Overflow)"
    proof (cases "\<rho> (res_URN res) = 0 \<and> 0 < i \<and> (\<forall>v. \<rho> v < i)")
      case True
      let ?\<rho>' = "\<rho>(res_URN res := i)"
      have d: "\<forall>(k, v) \<in> set (entries (sp_Dependencies (res_Spec res))). ?\<rho>' v < i"
        using assms True by fastforce
      have "safe (ranked_inv ?\<rho>' n) (bindS (translated (setResourceTags i (res_Labels res))) (\<lambda>_.
         bindS (translated (setDependencies i (sp_Dependencies (res_Spec res)))) (\<lambda>_.
         bindS (translated (insertRevision i (revision_of res ''action:create''))) (\<lambda>_.
         runAllHooks []))))"
        unfolding setResourceTags_def runAllHooks.simps
        by (intro safe_bindS safe_translated safe_setTags safe_insertRevision safe_ret
            safe_setDependencies [where \<rho> = ?\<rho>' and u = "res_URN res" and rid = i] d) (use True in auto)
      then show ?thesis
        by (rule hoare_weaken) (auto simp: fresh_inv_def ranked_inv_def)
    qed (auto simp: hoare_def)
  qed auto
qed

lemma hoare_Create:
  assumes "(\<forall>(k, v) \<in> set (entries (sp_Dependencies (res_Spec res))). v \<noteq> res_URN res) \<or> \<rho> (res_URN res) \<noteq> 0"
  shows "hoare (ranked_inv \<rho> n) (Create res []) (\<lambda>r s. fresh_inv n s \<and> r \<noteq> Overflow)"
  unfolding Create_def
  by (rule hoare_withinTx_inv [OF hoare_insertResource [of res \<rho>, OF assms]])
    (auto simp: fresh_inv_def ranked_inv_def db_inv_def)

lemma safe_Delete: "safe (ranked_inv \<rho> n) (Delete urn [])"
  unfolding Delete_def deleteFn_def runAllHooks.simps
  by (intro safe_withinTx safe_bindS safe_translateURNToID safe_exec safe_ret)
    (auto intro: ranked_inv_filter_deps ranked_inv_other_tables)

end
