(* ===== verification/Registry.thy ===== *)
theory Registry
  imports Module_Service
begin

text \<open>
  \<open>modules/registry.go\<close>: the registry of module descriptors. \<open>Register\<close> compiles the parameter
  schemas of a descriptor's actions and refuses a kind that is taken; \<open>GetDriver\<close> builds a
  driver from a module's configs. The lock makes each method one step.
\<close>

section \<open>Operations\<close>

record 's Registry =
  reg_modules :: "'s Descriptor gomap"

definition empty_Registry :: "'s Registry" where
  "empty_Registry = \<lparr>reg_modules = None\<rparr>"

definition GetDriver :: "'s Registry \<Rightarrow> Module \<Rightarrow> ('s Driver \<times> 's Descriptor) outcome" where
  "GetDriver reg m =
     (case lookup (reg_modules reg) (mod_Name m) of
        None \<Rightarrow> Err (EErr ErrNotFound)
      | Some desc \<Rightarrow>
          (case desc_DriverFactory desc (mod_Configs m) of
             Ok driver \<Rightarrow> Ok (driver, desc)
           | Err e \<Rightarrow> Err (EErr (WithCausef (WithMsgf ErrInvalid ''failed to initialise module'') (error_text e)))
           | Panic p \<Rightarrow> Panic p
           | Overflow \<Rightarrow> Overflow))"

text \<open>The loop of \<open>Register\<close> over the actions.\<close>

fun sanitise_actions :: "(string \<Rightarrow> schema outcome) \<Rightarrow> ActionDesc list \<Rightarrow> ActionDesc list outcome" where
  "sanitise_actions newSchema [] = Ok []"
| "sanitise_actions newSchema (action # rest) =
     (case Sanitise newSchema action of
        (Ok _, action') \<Rightarrow>
          (case sanitise_actions newSchema rest of
             Ok rest' \<Rightarrow> Ok (action' # rest')
           | Err e \<Rightarrow> Err e
           | Panic p \<Rightarrow> Panic p
           | Overflow \<Rightarrow> Overflow)
      | (Err e, _) \<Rightarrow> Err e
      | (Panic p, _) \<Rightarrow> Panic p
      | (Overflow, _) \<Rightarrow> Overflow)"

definition Register :: "(string \<Rightarrow> schema outcome) \<Rightarrow> 's Descriptor \<Rightarrow> ('s Registry, unit) go" where
  "Register newSchema desc reg0 =
     (let mods = entries (reg_modules reg0);
          reg = reg0\<lparr>reg_modules := Some mods\<rparr>
      in case map_of mods (desc_Kind desc) of
           Some v \<Rightarrow>
             (Err (EErr (WithMsgf ErrConflict
                (''module '' @ sq ''module.Descriptor'' @ '' is already registered for kind ''
                 @ sq (desc_Kind desc)))), reg)
         | None \<Rightarrow>
             (case sanitise_actions newSchema (desc_Actions desc) of
                Ok actions \<Rightarrow>
                  (Ok (), reg\<lparr>reg_modules := Some (put (desc_Kind desc) (desc\<lparr>desc_Actions := actions\<rparr>) mods)\<rparr>)
              | Err e \<Rightarrow> (Err e, reg)
              | Panic p \<Rightarrow> (Panic p, reg)
              | Overflow \<Rightarrow> (Overflow, reg)))"

section \<open>Registries built by Register\<close>

text \<open>The registries a program can build, and that each of their schemas is compiled.\<close>

inductive built :: "(string \<Rightarrow> schema outcome) \<Rightarrow> 's Registry \<Rightarrow> bool" for newSchema where
  built_empty: "built newSchema empty_Registry"
| built_Register: "built newSchema reg \<Longrightarrow> built newSchema (snd (Register newSchema desc reg))"

definition compiled :: "(string \<Rightarrow> schema outcome) \<Rightarrow> ActionDesc \<Rightarrow> bool" where
  "compiled newSchema ad \<longleftrightarrow>
     (ad_ParamSchema ad \<noteq> [] \<longrightarrow> (\<exists>sch. newSchema (ad_ParamSchema ad) = Ok sch \<and> ad_schema ad = Some sch))"

lemma Sanitise_compiled: "Sanitise newSchema ad = (Ok u, ad') \<Longrightarrow> compiled newSchema ad' \<and> ad_Name ad' = ad_Name ad"
  by (auto simp: Sanitise_def compiled_def split: if_splits result.splits)

lemma sanitise_actions_compiled:
  "sanitise_actions newSchema ads = Ok ads' \<Longrightarrow>
     list_all (compiled newSchema) ads' \<and> map ad_Name ads' = map ad_Name ads"
  by (induction ads arbitrary: ads')
    (auto split: prod.splits result.splits dest: Sanitise_compiled)

lemma lookup_Register:
  "lookup (reg_modules (snd (Register newSchema desc reg))) k =
     (if k = desc_Kind desc \<and> lookup (reg_modules reg) k = None then
        (case sanitise_actions newSchema (desc_Actions desc) of
           Ok actions \<Rightarrow> Some (desc\<lparr>desc_Actions := actions\<rparr>)
         | _ \<Rightarrow> None)
      else lookup (reg_modules reg) k)"
  by (auto simp: Register_def Let_def lookup_def split: option.splits result.splits)

lemma built_compiled:
  assumes "built newSchema reg" and "lookup (reg_modules reg) k = Some desc"
  shows "list_all (compiled newSchema) (desc_Actions desc) \<and> desc_Kind desc = k"
  using assms
  by (induction arbitrary: desc)
    (auto simp: empty_Registry_def lookup_def [of None] lookup_Register sanitise_actions_compiled
      split: if_splits result.splits)

lemma GetDriver_Ok:
  "GetDriver reg m = Ok (driver, desc) \<longleftrightarrow>
     lookup (reg_modules reg) (mod_Name m) = Some desc \<and> desc_DriverFactory desc (mod_Configs m) = Ok driver"
  by (auto simp: GetDriver_def split: option.splits result.splits)

section \<open>Properties\<close>

text \<open>\<open>Register\<close> and \<open>GetDriver\<close> agree: registering a descriptor of a new kind whose schemas compile
  makes its driver factory available under that kind and no other; a kind that is taken is
  refused with \<open>ErrConflict\<close> and a schema that does not compile with an error, and either way
  every lookup answers as before.\<close>

theorem Register_GetDriver:
  "case fst (Register newSchema desc reg) of
     Ok _ \<Rightarrow>
       lookup (reg_modules reg) (desc_Kind desc) = None \<and>
       (\<exists>actions. sanitise_actions newSchema (desc_Actions desc) = Ok actions \<and>
          (\<forall>m. GetDriver (snd (Register newSchema desc reg)) m =
             (if mod_Name m = desc_Kind desc then
                (case desc_DriverFactory desc (mod_Configs m) of
                   Ok driver \<Rightarrow> Ok (driver, desc\<lparr>desc_Actions := actions\<rparr>)
                 | Err e \<Rightarrow> Err (EErr (WithCausef (WithMsgf ErrInvalid ''failed to initialise module'') (error_text e)))
                 | Panic p \<Rightarrow> Panic p
                 | Overflow \<Rightarrow> Overflow)
              else GetDriver reg m)))
   | Err e \<Rightarrow>
       (lookup (reg_modules reg) (desc_Kind desc) \<noteq> None \<and> isConflict e \<or>
        sanitise_actions newSchema (desc_Actions desc) = Err e) \<and>
       GetDriver (snd (Register newSchema desc reg)) = GetDriver reg
   | _ \<Rightarrow> GetDriver (snd (Register newSchema desc reg)) = GetDriver reg"
proof (cases "lookup (reg_modules reg) (desc_Kind desc)")
  case None
  then show ?thesis
    by (cases "sanitise_actions newSchema (desc_Actions desc)")
      (auto simp: GetDriver_def fun_eq_iff Register_def Let_def lookup_def)
next
  case (Some d)
  then show ?thesis
    by (auto simp: GetDriver_def fun_eq_iff Register_def Let_def lookup_def)
qed


end
