(* ===== verification/Pg_Service.thy ===== *)
theory Pg_Service
  imports Pg_Inv Registry
begin

text \<open>
  The service as \<open>cli/serve.go\<close> and \<open>cli/worker.go\<close> assemble it: the resource service over the
  Postgres store and the module service over the same store and a registry of drivers. The
  store satisfies the laws of \<open>resource_graph\<close> and \<open>resource_service\<close> with the row id as rank.
\<close>

section \<open>Reading a resource\<close>

lemma query_Ok: "query q s = (Ok a, t) \<Longrightarrow> a = q (w_tables s) \<and> nf t = nf s"
  by (auto simp: query_def stmt_def split: fault.splits)

lemma readResourceRecord_Ok:
  "readResourceRecord urn s = (Ok rec, t) \<Longrightarrow> row_by_urn urn (w_tables s) = Some rec \<and> nf t = nf s"
  by (auto simp: readResourceRecord_def catchS_def bindS_def ret_def fail_def
      split: prod.splits result.splits option.splits if_splits dest: query_Ok)

lemma readResourceDeps_Ok:
  "readResourceDeps rid s = (Ok deps, t) \<Longrightarrow> (deps = put_all (deps_of rid (w_tables s)) [] \<or> deps = []) \<and> nf t = nf s"
  by (auto simp: readResourceDeps_def catchS_def ret_def fail_def
      split: prod.splits result.splits if_splits dest: query_Ok reads_frame [OF reads_query])

lemma withinTx_Ok:
  "withinTx ro fn s = (Ok a, t) \<Longrightarrow> \<exists>u. fn (tick_fault s) = (Ok a, u) \<and> nf t = nf u"
  by (auto simp: withinTx_def stmt_def split: fault.splits prod.splits result.splits)

lemma tables_nf: "nf s = nf t \<Longrightarrow> w_tables s = w_tables t"
  by (metis nf_simps(1))

lemma GetByURN_Ok:
  assumes "GetByURN urn s = (Ok res, t)"
  obtains rec deps sr labels where "row_by_urn urn (w_tables s) = Some rec"
    "deps = put_all (deps_of (rm_ID rec) (w_tables s)) [] \<or> deps = []"
    "res = model_to_resource rec labels (Some deps) sr"
proof -
  from assms obtain rec tags deps u where
    tx: "withinTx True (readResourceParts urn) s = (Ok (rec, tags, deps), u)"
    and c: "catchS (liftR (decode_SyncResult (rm_StateSyncResult rec)))
       (\<lambda>syncResult. bindS (liftR (tagsToLabelMap tags)) (\<lambda>labels.
          ret (model_to_resource rec labels (Some deps) syncResult)))
       (\<lambda>err. fail (EErr (WithCausef (WithMsgf ErrInternal ''failed to json unmarshal state_sync_result'')
                             (error_text err)))) u = (Ok res, t)"
    unfolding GetByURN_def by (auto elim!: bindS_Ok_E)
  from c obtain sr labels where r: "res = model_to_resource rec labels (Some deps) sr"
    by (auto simp: catchS_def fail_def liftR_def split: result.splits)
  from withinTx_Ok [OF tx] obtain v where "readResourceParts urn (tick_fault s) = (Ok (rec, tags, deps), v)"
    by blast
  then obtain s1 s2 where r1: "readResourceRecord urn (tick_fault s) = (Ok rec, s1)"
    and r2: "readResourceTags (rm_ID rec) s1 = (Ok tags, s2)"
    and r3: "readResourceDeps (rm_ID rec) s2 = (Ok deps, v)"
    by (auto simp: readResourceParts_def)
  have "nf s1 = nf s" using readResourceRecord_Ok [OF r1] by simp
  moreover have "nf s2 = nf s1"
    using reads_frame [OF reads_readTags r2 [unfolded readResourceTags_def]] by simp
  ultimately have "w_tables s2 = w_tables s" using tables_nf by metis
  then show thesis
    using readResourceRecord_Ok [OF r1] readResourceDeps_Ok [OF r3]
    by (intro that [of rec deps labels sr]) (simp_all add: r)
qed

lemma set_put_all_subset: "set (put_all kvs m) \<subseteq> set kvs \<union> set m"
proof (induction kvs arbitrary: m)
  case (Cons kv kvs)
  obtain k v where kv: "kv = (k, v)" by fastforce
  have "set (put k v m) \<subseteq> {(k, v)} \<union> set m"
    unfolding put_def by (induction m) auto
  with Cons.IH [of "put k v m"] kv show ?case by auto
qed simp

lemma deps_of_ranked:
  assumes ok: "tables_ok t n" and "(k, v) \<in> set (deps_of rid t)"
  shows "urn_id t v < rid"
proof -
  from assms(2) obtain d r where d: "d \<in> set (t_deps t)" "dep_resource_id d = rid"
    "r \<in> set (t_resources t)" "rm_ID r = dep_depends_on d" "v = rm_URN r"
    by (auto simp: deps_of_def)
  then have "dep_depends_on d < rid"
    using ok by (auto simp: tables_ok_def dep_rows_ok_def)
  with d urn_id_mem [OF ok d(3)] show ?thesis by simp
qed

lemma hoare_GetByURN:
  "hoare (ranked_inv \<rho> n) (GetByURN u)
     (\<lambda>r s. ranked_inv \<rho> n s \<and> r \<noteq> Overflow \<and>
        (\<forall>res. r = Ok res \<longrightarrow> res_URN res = u \<and> ranked \<rho> res \<and> \<rho> u \<noteq> 0))"
proof (rule hoareI, goal_cases)
  case (1 s)
  obtain r t where run: "GetByURN u s = (r, t)" by fastforce
  from reads_frame [OF reads_GetByURN run] have f: "nf t = nf s" "r \<noteq> Overflow" by auto
  have ok: "tables_ok (w_tables s) (w_res_seq s)" and \<rho>: "\<rho> = urn_id (w_tables s)"
    using "1" by (auto simp: ranked_inv_def db_inv_def db_rank_def)
  have "res_URN res = u \<and> ranked \<rho> res \<and> \<rho> u \<noteq> 0" if "r = Ok res" for res
  proof -
    from GetByURN_Ok [OF run [unfolded that]] obtain rec deps labels sr where
      rec: "row_by_urn u (w_tables s) = Some rec"
      and d: "deps = put_all (deps_of (rm_ID rec) (w_tables s)) [] \<or> deps = []"
      and r: "res = model_to_resource rec labels (Some deps) sr" by metis
    have urn: "\<rho> u = rm_ID rec" "rm_URN rec = u" "0 < rm_ID rec"
      using rec row_by_urn_Some [OF rec] ok by (auto simp: \<rho> urn_id_def tables_ok_def)
    have "set deps \<subseteq> set (deps_of (rm_ID rec) (w_tables s))"
      using d set_put_all_subset [of "deps_of (rm_ID rec) (w_tables s)" "[]"] by auto
    then have "\<forall>(k, v) \<in> set deps. \<rho> v < rm_ID rec"
      using deps_of_ranked [OF ok] \<rho> by fastforce
    with r urn show ?thesis by (simp add: model_to_resource_def)
  qed
  with f "1" ranked_inv_nf [OF f(1), of \<rho> n] show ?case by (auto simp: run)
qed

section \<open>Picking up\<close>

lemma reads_select_due: "reads (select_due st scope)"
  unfolding select_due_def by (rule reads_stmt) (auto split: list.split)

lemma safe_extendWaitTime: "safe (ranked_inv \<rho> n) (extendWaitTime st urn)"
  unfolding extendWaitTime_def by (intro safe_exec ranked_inv_map_rows) auto

lemma safe_fetchResourceForSync: "safe (ranked_inv \<rho> n) (fetchResourceForSync st scope)"
  unfolding fetchResourceForSync_def
  by (intro safe_withinTx safe_bindS safe_reads [OF reads_select_due] safe_extendWaitTime safe_ret)

lemma safe_runHeartbeat: "safe (ranked_inv \<rho> n) (runHeartbeat st k urn)"
  by (induction k) (auto simp: safe_ret intro!: safe_catchS safe_extendWaitTime)

lemma safe_SyncOne:
  assumes "\<And>res. ranked \<rho> res \<Longrightarrow> hoare (ranked_inv \<rho> n) (fn res)
      (\<lambda>r s. ranked_inv \<rho> n s \<and> r \<noteq> Overflow \<and> (\<forall>res'. r = Ok res' \<longrightarrow> same_identity res' res))"
  shows "safe (ranked_inv \<rho> n) (SyncOne st scope fn)"
proof -
  have upd: "safe (ranked_inv \<rho> n) (bindS (handleDequeued st cur fn) (\<lambda>synced. Update synced False ''sync'' []))"
    if cur: "ranked \<rho> cur" for cur
  proof (rule hoare_bindS)
    show "hoare (ranked_inv \<rho> n) (handleDequeued st cur fn)
        (\<lambda>r s. ranked_inv \<rho> n s \<and> r \<noteq> Overflow \<and> (\<forall>res'. r = Ok res' \<longrightarrow> same_identity res' cur))"
      unfolding handleDequeued_def
      by (rule hoare_bindS_safe [OF safe_runHeartbeat assms [OF cur]]) auto
    fix synced :: Resource
    show "hoare (\<lambda>s. ranked_inv \<rho> n s \<and> Ok synced \<noteq> Overflow \<and>
        (\<forall>res'. Ok synced = Ok res' \<longrightarrow> same_identity res' cur)) (Update synced False ''sync'' [])
        (\<lambda>r s. ranked_inv \<rho> n s \<and> r \<noteq> Overflow)"
      by (rule hoare_pure [where C = "same_identity synced cur" and P' = "ranked_inv \<rho> n"])
        (blast, rule safe_Update, use cur in \<open>auto simp: same_identity_def\<close>)
  qed auto
  have get: "safe (ranked_inv \<rho> n) (bindS (GetByURN urn) (\<lambda>cur.
          bindS (handleDequeued st cur fn) (\<lambda>synced. Update synced False ''sync'' [])))" for urn
  proof (rule hoare_bindS [OF hoare_GetByURN])
    fix cur :: Resource
    show "hoare (\<lambda>s. ranked_inv \<rho> n s \<and> Ok cur \<noteq> Overflow \<and>
        (\<forall>res. Ok cur = Ok res \<longrightarrow> res_URN res = urn \<and> ranked \<rho> res \<and> \<rho> urn \<noteq> 0))
        (bindS (handleDequeued st cur fn) (\<lambda>synced. Update synced False ''sync'' []))
        (\<lambda>r s. ranked_inv \<rho> n s \<and> r \<noteq> Overflow)"
      by (rule hoare_pure [where C = "ranked \<rho> cur" and P' = "ranked_inv \<rho> n"]) (blast, rule upd)
  qed auto
  show ?thesis
    unfolding SyncOne_def
    by (intro safe_catchS safe_fetchResourceForSync get safe_if safe_ret safe_fail)
qed

section \<open>The composed service\<close>

definition pg_module_Service :: "'x world Registry \<Rightarrow> 'x world module_Service" where
  "pg_module_Service reg = \<lparr>mr_store = pg_module_Store, mr_GetDriver = GetDriver reg, mr_Now = w_now\<rparr>"

definition module_api :: "'s module_Service \<Rightarrow> 's ModuleService" where
  "module_api mr =
     \<lparr>msv_PlanAction = PlanAction mr, msv_SyncState = SyncState mr, msv_StreamLogs = StreamLogs mr,
      msv_GetOutput = GetOutput mr\<rparr>"

text \<open>\<open>resourceService := core.New(store, moduleService, time.Now, ...)\<close>; counters act on the outside world.\<close>

definition entropy ::
    "Store \<Rightarrow> 'x world Registry \<Rightarrow> int \<Rightarrow> int \<Rightarrow> string \<Rightarrow> (string \<Rightarrow> string \<Rightarrow> unit outcome) \<Rightarrow>
     (string \<Rightarrow> string \<Rightarrow> 'x \<Rightarrow> 'x) \<Rightarrow> 'x world Service" where
  "entropy st reg backoff maxRetries name int64Counter add =
     New (pg_resource_Store st) (module_api (pg_module_Service reg)) (Some w_now) backoff maxRetries name w_now
       int64Counter (\<lambda>c urn s. s\<lparr>w_ext := add c urn (w_ext s)\<rparr>)"

section \<open>What is asked of drivers\<close>

text \<open>
  A driver acts on the outside world only, returns from every call, and plans, for the actions its
  descriptor declares, a resource with the identity it was given.
\<close>

abbreviation db_part :: "'x world \<Rightarrow> tables \<times> nat \<times> nat" where
  "db_part s \<equiv> (w_tables s, w_res_seq s, w_rev_seq s)"

definition outside_only :: "('x, 'a) db \<Rightarrow> bool" where
  "outside_only m \<longleftrightarrow> (\<forall>s r t. m s = (r, t) \<longrightarrow> db_part t = db_part s \<and> r \<noteq> Overflow)"

definition driver_ok :: "'x world Descriptor \<Rightarrow> 'x world Driver \<Rightarrow> bool" where
  "driver_ok desc d \<longleftrightarrow>
     (\<forall>res act. outside_only (dr_Plan d res act) \<and>
        (findAction desc (act_Name act) \<noteq> None \<longrightarrow>
          (\<forall>s p t. dr_Plan d res act s = (Ok p, t) \<longrightarrow> same_identity (pl_Resource p) (er_Resource res)))) \<and>
     (\<forall>res. outside_only (dr_Sync d res) \<and> outside_only (dr_Output d res)) \<and>
     (\<forall>lg res filt. dr_Log d = Some lg \<longrightarrow> outside_only (lg res filt))"

definition registry_ok :: "'x world Registry \<Rightarrow> bool" where
  "registry_ok reg \<longleftrightarrow>
     (\<forall>k desc conf. lookup (reg_modules reg) k = Some desc \<longrightarrow>
        desc_DriverFactory desc conf \<noteq> Overflow \<and>
        (\<forall>d. desc_DriverFactory desc conf = Ok d \<longrightarrow> driver_ok desc d) \<and>
        (\<forall>ad \<in> set (desc_Actions desc). \<forall>sch. ad_schema ad = Some sch \<longrightarrow> (\<forall>p. sch p \<noteq> Overflow)))"

lemma outside_only_safe: "outside_only m \<Longrightarrow> safe (ranked_inv \<rho> n) m"
proof (rule hoareI, goal_cases)
  case (1 s)
  obtain r t where rt: "m s = (r, t)" by fastforce
  from 1(1) rt have eq: "db_part t = db_part s" "r \<noteq> Overflow" unfolding outside_only_def by blast+
  then have "ranked_inv \<rho> n t = ranked_inv \<rho> n s"
    by (simp add: ranked_inv_def db_inv_def db_rank_def)
  with rt 1(2) eq(2) show ?case by simp
qed

lemma GetDriver_driver_ok:
  assumes "registry_ok reg" and "GetDriver reg m = Ok (driver, desc)"
  shows "driver_ok desc driver \<and> validateActionReq desc res act \<noteq> Overflow"
proof -
  from assms(2) have l: "lookup (reg_modules reg) (mod_Name m) = Some desc"
    "desc_DriverFactory desc (mod_Configs m) = Ok driver" by (simp_all add: GetDriver_Ok)
  have "validateActionReq desc res act \<noteq> Overflow"
    using assms(1) l(1) findAction_Some [of desc "act_Name act"]
    by (auto simp: validateActionReq_def validateReq_def registry_ok_def split: option.splits result.splits)
  then show ?thesis using assms(1) l by (auto simp: registry_ok_def)
qed

lemma GetDriver_no_overflow: "registry_ok reg \<Longrightarrow> GetDriver reg m \<noteq> Overflow"
  by (auto simp: GetDriver_def registry_ok_def split: option.splits result.splits)

lemma validateDependencies_no_overflow: "validateDependencies desc deps \<noteq> Overflow"
  using check_dependencies_result [of "desc_Kind desc" "entries (desc_Dependencies desc)" deps]
  by (auto simp: validateDependencies_def)

lemma safe_discoverModule:
  "safe (ranked_inv \<rho> n) (discoverModule (pg_module_Service reg) kind project)"
  unfolding discoverModule_def Let_def pg_module_Service_def pg_module_Store_def
  by (auto intro!: safe_catchS safe_ret safe_fail safe_reads [OF reads_GetModule])

text \<open>Finding the module and its driver: the driver is a good one.\<close>

lemma hoare_initDriver:
  assumes "registry_ok reg"
  shows "hoare (ranked_inv \<rho> n) (initDriver (pg_module_Service reg) m)
     (\<lambda>r s. ranked_inv \<rho> n s \<and> r \<noteq> Overflow \<and> (\<forall>dd. r = Ok dd \<longrightarrow> GetDriver reg m = Ok dd))"
  using GetDriver_no_overflow [OF assms, of m]
  by (auto simp: hoare_def initDriver_def pg_module_Service_def catchS_def liftR_def ret_def fail_def
      split: result.splits)

lemma hoare_with_driver:
  assumes reg: "registry_ok reg"
    and f: "\<And>m driver desc. GetDriver reg m = Ok (driver, desc) \<Longrightarrow> hoare (ranked_inv \<rho> n) (f (driver, desc)) Q"
    and Q: "\<And>e s. ranked_inv \<rho> n s \<Longrightarrow> Q (Err e) s" "\<And>p s. ranked_inv \<rho> n s \<Longrightarrow> Q (Panic p) s"
  shows "hoare (ranked_inv \<rho> n) (bindS (discoverModule (pg_module_Service reg) kind project) (\<lambda>m.
           bindS (initDriver (pg_module_Service reg) m) f)) Q"
proof (rule hoare_bindS_safe [OF safe_discoverModule])
  fix m
  show "hoare (ranked_inv \<rho> n) (bindS (initDriver (pg_module_Service reg) m) f) Q"
  proof (rule hoare_bindS [OF hoare_initDriver [OF reg]])
    fix dd :: "'a world Driver \<times> 'a world Descriptor"
    obtain driver desc where dd: "dd = (driver, desc)" by fastforce
    show "hoare (\<lambda>s. ranked_inv \<rho> n s \<and> Ok dd \<noteq> Overflow \<and> (\<forall>dd'. Ok dd = Ok dd' \<longrightarrow> GetDriver reg m = Ok dd')) (f dd) Q"
      by (rule hoare_pure [where C = "GetDriver reg m = Ok dd" and P' = "ranked_inv \<rho> n"]) (use f dd in auto)
  qed (use Q in auto)
qed (use Q in auto)

lemma hoare_PlanAction:
  assumes "registry_ok reg"
  shows "hoare (ranked_inv \<rho> n) (PlanAction (pg_module_Service reg) spec act)
    (\<lambda>r s. ranked_inv \<rho> n s \<and> r \<noteq> Overflow \<and> (\<forall>p. r = Ok p \<longrightarrow> same_identity (pl_Resource p) (er_Resource spec)))"
  unfolding PlanAction_def
proof (rule hoare_with_driver [OF assms])
  fix m driver desc
  assume g: "GetDriver reg m = Ok (driver, desc)"
  note ok = GetDriver_driver_ok [OF assms g, of spec act]
  let ?Q = "\<lambda>r s. ranked_inv \<rho> n s \<and> r \<noteq> Overflow \<and> (\<forall>p. r = Ok p \<longrightarrow> same_identity (pl_Resource p) (er_Resource spec))"
  have plan: "hoare (ranked_inv \<rho> n) (dr_Plan driver spec act) ?Q" if "validateActionReq desc spec act = Ok ()"
  proof (rule hoareI, goal_cases)
    case (1 s)
    obtain r t where rt: "dr_Plan driver spec act s = (r, t)" by fastforce
    have "outside_only (dr_Plan driver spec act)" using ok by (simp add: driver_ok_def)
    from hoareD [OF outside_only_safe [OF this] "1" rt]
    have "ranked_inv \<rho> n t \<and> r \<noteq> Overflow" .
    moreover have "findAction desc (act_Name act) \<noteq> None"
      using that by (auto simp: validateActionReq_Ok_iff)
    then have "same_identity (pl_Resource p) (er_Resource spec)" if "r = Ok p" for p
      using ok rt that unfolding driver_ok_def by blast
    ultimately show ?case by (simp add: rt)
  qed
  have check: "hoare (ranked_inv \<rho> n) (bindS (liftR (validateActionReq desc spec act)) (\<lambda>_. dr_Plan driver spec act)) ?Q"
  proof (cases "validateActionReq desc spec act")
    case (Ok a)
    then show ?thesis using plan by (simp add: hoare_def bindS_def catchS_def liftR_def)
  qed (use ok in \<open>auto simp: hoare_def bindS_def catchS_def liftR_def fail_def\<close>)
  show "hoare (ranked_inv \<rho> n) (case (driver, desc) of (driver, desc) \<Rightarrow>
      bindS (liftR (validateDependencies desc (er_Dependencies spec))) (\<lambda>_.
      bindS (liftR (validateActionReq desc spec act)) (\<lambda>_. dr_Plan driver spec act))) ?Q"
    unfolding prod.case
    by (rule hoare_bindS_safe [OF safe_liftR check]) (use validateDependencies_no_overflow in auto)
qed auto

lemma safe_SyncState:
  assumes "registry_ok reg"
  shows "safe (ranked_inv \<rho> n) (SyncState (pg_module_Service reg) spec)"
  unfolding SyncState_def
proof (rule hoare_with_driver [OF assms])
  fix m driver desc
  assume g: "GetDriver reg m = Ok (driver, desc)"
  then have "outside_only (dr_Sync driver spec)"
    using GetDriver_driver_ok [OF assms g] by (simp add: driver_ok_def)
  then show "safe (ranked_inv \<rho> n) (case (driver, desc) of (driver, desc) \<Rightarrow>
      bindS (liftR (validateDependencies desc (er_Dependencies spec))) (\<lambda>_. dr_Sync driver spec))"
    unfolding prod.case
    by (intro safe_bindS safe_liftR outside_only_safe validateDependencies_no_overflow)
qed auto

lemma safe_GetOutput:
  assumes "registry_ok reg"
  shows "safe (ranked_inv \<rho> n) (GetOutput (pg_module_Service reg) spec)"
  unfolding GetOutput_def
proof (rule hoare_with_driver [OF assms])
  fix m driver desc
  assume g: "GetDriver reg m = Ok (driver, desc)"
  then show "safe (ranked_inv \<rho> n) (case (driver, desc) of (driver, _) \<Rightarrow> dr_Output driver spec)"
    using GetDriver_driver_ok [OF assms g] by (auto simp: driver_ok_def intro: outside_only_safe)
qed auto

lemma safe_StreamLogs:
  assumes "registry_ok reg"
  shows "safe (ranked_inv \<rho> n) (StreamLogs (pg_module_Service reg) spec filt)"
  unfolding StreamLogs_def
proof (rule hoare_with_driver [OF assms])
  fix m driver desc
  assume g: "GetDriver reg m = Ok (driver, desc)"
  then show "safe (ranked_inv \<rho> n) (case (driver, desc) of (driver, _) \<Rightarrow> case dr_Log driver of
       None \<Rightarrow>
         fail (EErr (WithMsgf ErrUnsupported
           (''log streaming not supported for kind '' @ sq (res_Kind (er_Resource spec)))))
     | Some lg \<Rightarrow> lg spec filt)"
    using GetDriver_driver_ok [OF assms g]
    by (auto simp: driver_ok_def intro: outside_only_safe safe_fail split: option.split)
qed auto

section \<open>The laws hold\<close>

lemma ranked_inv_0: "ranked_inv \<rho> 0 = (\<lambda>s. db_inv s \<and> db_rank s = \<rho>)"
  by (simp add: ranked_inv_def fun_eq_iff)

text \<open>The service over Postgres with a registry of good drivers and a meter.\<close>

locale pg_service =
  fixes st :: Store and reg :: "'x world Registry" and backoff maxRetries :: int and name :: string
    and int64Counter :: "string \<Rightarrow> string \<Rightarrow> unit outcome" and add :: "string \<Rightarrow> string \<Rightarrow> 'x \<Rightarrow> 'x"
  assumes registry: "registry_ok reg"
    and meter: "int64Counter service c \<noteq> Overflow"

lemmas entropy_defs = entropy_def New_def pg_resource_Store_def module_api_def

sublocale pg_service \<subseteq> pg: resource_service "entropy st reg backoff maxRetries name int64Counter add" db_inv db_rank
proof (unfold_locales, goal_cases)
  case (1 \<rho> u)
  then show ?case using hoare_GetByURN [of \<rho> 0 u] by (simp add: entropy_defs ranked_inv_0)
next
  case (2 \<rho> spec)
  then show ?case using safe_GetOutput [OF registry, of \<rho> 0 spec] by (simp add: entropy_defs ranked_inv_0)
next
  case (3 \<rho> res saveRevision reason)
  then show ?case using safe_Update [of \<rho> res 0 saveRevision reason] by (simp add: entropy_defs ranked_inv_0)
next
  case (4 \<rho> spec act)
  then show ?case using hoare_PlanAction [OF registry, of \<rho> 0 spec act] by (simp add: entropy_defs ranked_inv_0)
next
  case (5 \<rho> spec)
  then show ?case using safe_SyncState [OF registry, of \<rho> 0 spec] by (simp add: entropy_defs ranked_inv_0)
next
  case (6 \<rho> spec filt)
  then show ?case using safe_StreamLogs [OF registry, of \<rho> 0 spec filt] by (simp add: entropy_defs ranked_inv_0)
next
  case (7 res \<rho>)
  then show ?case using hoare_weaken [OF hoare_Create [of res \<rho> 0]] by (auto simp: entropy_defs fresh_inv_def ranked_inv_0)
next
  case (8 c)
  then show ?case using meter by (simp add: entropy_defs setupCounter_def)
next
  case (9 c u s)
  then show ?case by (simp add: entropy_defs db_inv_def)
next
  case (10 c u s)
  then show ?case by (simp add: entropy_defs db_rank_def)
next
  case (11 \<rho> fn scope)
  then show ?case using safe_SyncOne [of \<rho> 0 fn st scope] by (simp add: entropy_defs ranked_inv_0)
qed

end
