(* ===== verification/Pg_Effects.thy ===== *)
theory Pg_Effects
  imports Pg_Service
begin

text \<open>
  What the successful runs of the store operations do to the tables, and what they return:
  create, update and read back, the frame for other resources, revisions, conflicts.
\<close>

section \<open>Effects of the statements\<close>

lemma nf_tablesD: "nf v = w\<lparr>w_tables := T\<rparr> \<Longrightarrow> w_tables v = T"
  by (drule arg_cong [of _ _ w_tables]) simp

lemma exec_Ok:
  "exec f s = (Ok u, t) \<Longrightarrow> nf t = (nf s)\<lparr>w_tables := f (pg_time (w_now s)) (w_tables s)\<rparr>"
  by (auto simp: exec_def stmt_def split: fault.splits)

lemma row_by_urn_None: "row_by_urn v t = None \<longleftrightarrow> v \<notin> rm_URN ` set (t_resources t)"
  by (auto simp: row_by_urn_def find_None_iff)

definition tag_rows :: "nat \<Rightarrow> labels \<Rightarrow> tag_row list" where
  "tag_rows owner labels = map (\<lambda>tag. \<lparr>tag_owner = owner, tag_text = tag\<rparr>) (labelMapToTags labels)"

definition set_tags :: "nat \<Rightarrow> labels \<Rightarrow> tag_row list \<Rightarrow> tag_row list" where
  "set_tags owner labels rows = filter (\<lambda>r. tag_owner r \<noteq> owner) rows @ tag_rows owner labels"

lemma insert_tags_Ok:
  "insert_tags tt owner tags s = (Ok u, t) \<Longrightarrow>
     nf t = (nf s)\<lparr>w_tables := map_tags tt (\<lambda>rs. rs @ map (\<lambda>tag. \<lparr>tag_owner = owner, tag_text = tag\<rparr>) tags) (w_tables s)\<rparr>"
  by (auto simp: insert_tags_def stmt_def split: fault.splits if_splits)

lemma map_tags_comp: "map_tags tt f (map_tags tt g t) = map_tags tt (\<lambda>rs. f (g rs)) t"
  by (cases tt) (simp_all add: map_tags_def)

lemma setTags_Ok:
  assumes "setTags tt owner labels s = (Ok u, t)"
  shows "nf t = (nf s)\<lparr>w_tables := map_tags tt (set_tags owner labels) (w_tables s)\<rparr>"
proof -
  from assms obtain v where d: "exec (\<lambda>_. map_tags tt (filter (\<lambda>r. tag_owner r \<noteq> owner))) s = (Ok (), v)"
    and i: "(if entries labels \<noteq> [] then insert_tags tt owner (labelMapToTags labels) else ret ()) v = (Ok u, t)"
    by (auto simp: setTags_def)
  have v: "nf v = (nf s)\<lparr>w_tables := map_tags tt (filter (\<lambda>r. tag_owner r \<noteq> owner)) (w_tables s)\<rparr>"
    using exec_Ok [OF d] .
  then have vt: "w_tables v = map_tags tt (filter (\<lambda>r. tag_owner r \<noteq> owner)) (w_tables s)"
    by (rule nf_tablesD)
  show ?thesis
  proof (cases "entries labels = []")
    case True
    then have "set_tags owner labels = filter (\<lambda>r. tag_owner r \<noteq> owner)"
      by (simp add: set_tags_def tag_rows_def labelMapToTags_def fun_eq_iff)
    with True i v show ?thesis by simp
  next
    case False
    with i have "insert_tags tt owner (labelMapToTags labels) v = (Ok u, t)" by simp
    from insert_tags_Ok [OF this] v vt show ?thesis
      by (simp add: map_tags_comp set_tags_def [abs_def] tag_rows_def)
  qed
qed

lemma insert_dependencies_Ok:
  "insert_dependencies rows s = (Ok u, t) \<Longrightarrow> nf t = (nf s)\<lparr>w_tables := (w_tables s)\<lparr>t_deps := t_deps (w_tables s) @ rows\<rparr>\<rparr>"
  by (auto simp: insert_dependencies_def stmt_def Let_def split: fault.splits if_splits)

text \<open>The dependency rows of a resource, in the order of its map.\<close>

definition dep_rows_for :: "nat \<Rightarrow> string gomap \<Rightarrow> tables \<Rightarrow> dependency_row list" where
  "dep_rows_for rid deps t =
     map (\<lambda>(k, u). \<lparr>dep_resource_id = rid, dep_key = k, dep_depends_on = urn_id t u\<rparr>) (entries deps)"

lemma setDependencies_Ok:
  assumes "setDependencies rid deps s = (Ok u, t)"
  shows "nf t = (nf s)\<lparr>w_tables := (w_tables s)\<lparr>t_deps :=
      filter (\<lambda>d. dep_resource_id d \<noteq> rid) (t_deps (w_tables s)) @ dep_rows_for rid deps (w_tables s)\<rparr>\<rparr>
    \<and> (\<forall>(k, v) \<in> set (entries deps). row_by_urn v (w_tables s) \<noteq> None)"
proof -
  let ?T = "(w_tables s)\<lparr>t_deps := filter (\<lambda>d. dep_resource_id d \<noteq> rid) (t_deps (w_tables s))\<rparr>"
  from assms obtain v where
    d: "exec (\<lambda>_ t. t\<lparr>t_deps := filter (\<lambda>d. dep_resource_id d \<noteq> rid) (t_deps t)\<rparr>) s = (Ok (), v)"
    and i: "(if entries deps \<noteq> [] then bindS (dependency_rows rid (entries deps)) insert_dependencies else ret ()) v = (Ok u, t)"
    by (auto simp: setDependencies_def)
  have v: "nf v = (nf s)\<lparr>w_tables := ?T\<rparr>" using exec_Ok [OF d] by simp
  then have vt: "w_tables v = ?T" by (rule nf_tablesD)
  show ?thesis
  proof (cases "entries deps = []")
    case True
    with i v show ?thesis by (simp add: dep_rows_for_def)
  next
    case False
    with i obtain rows w where rows: "dependency_rows rid (entries deps) v = (Ok rows, w)"
      and ins: "insert_dependencies rows w = (Ok u, t)" by auto
    from dependency_rows_Ok [OF rows] have w: "nf w = nf v"
      and l: "list_all2 (\<lambda>(k, u) d. dep_resource_id d = rid \<and> dep_key d = k \<and>
         (\<exists>r. row_by_urn u (w_tables v) = Some r \<and> dep_depends_on d = rm_ID r)) (entries deps) rows" by auto
    have urn: "row_by_urn u (w_tables v) = row_by_urn u (w_tables s)" for u
      by (simp add: vt row_by_urn_def)
    from l have "rows = dep_rows_for rid deps (w_tables s)
        \<and> (\<forall>(k, u) \<in> set (entries deps). row_by_urn u (w_tables s) \<noteq> None)"
      unfolding dep_rows_for_def urn by (induction rule: list_all2_induct) (auto simp: urn_id_def)
    moreover have "w_tables w = ?T" using w vt tables_nf by metis
    ultimately show ?thesis
      using insert_dependencies_Ok [OF ins] w v by simp
  qed
qed

lemma insertRevision_Ok:
  assumes "insertRevision rid r s = (Ok u, t)"
  shows "nf t = (nf s)\<lparr>w_rev_seq := w_rev_seq s + 1, w_tables := map_tags RevisionTags (set_tags (w_rev_seq s) (rev_Labels r))
     ((w_tables s)\<lparr>t_revisions := t_revisions (w_tables s) @
        [\<lparr>rvm_ID = w_rev_seq s, rvm_Reason = rev_Reason r, rvm_CreatedAt = pg_time (w_now s),
          rvm_CreatedBy = rev_CreatedBy r, rvm_ResourceID = rid,
          rvm_SpecConfigs = copy_raw (sp_Configs (rev_Spec r))\<rparr>]\<rparr>)\<rparr>"
proof -
  from assms obtain i v where i: "insert_revision_row rid r s = (Ok i, v)"
    and tg: "setTags RevisionTags i (rev_Labels r) v = (Ok u, t)"
    by (auto simp: insertRevision_def setRevisionTags_def)
  let ?T = "(w_tables s)\<lparr>t_revisions := t_revisions (w_tables s) @
        [\<lparr>rvm_ID = w_rev_seq s, rvm_Reason = rev_Reason r, rvm_CreatedAt = pg_time (w_now s),
          rvm_CreatedBy = rev_CreatedBy r, rvm_ResourceID = rid,
          rvm_SpecConfigs = copy_raw (sp_Configs (rev_Spec r))\<rparr>]\<rparr>"
  from i have v: "i = w_rev_seq s" "nf v = (nf s)\<lparr>w_rev_seq := w_rev_seq s + 1, w_tables := ?T\<rparr>"
    by (auto simp: insert_revision_row_def stmt_def Let_def nf_def tick_fault_def split: fault.splits)
  have "w_tables v = ?T" using v(2) by (rule nf_tablesD)
  with setTags_Ok [OF tg] v show ?thesis by simp
qed

lemma translated_Ok: "translated m s = (Ok a, t) \<longleftrightarrow> m s = (Ok a, t)"
  by (auto simp: translated_def catchS_def ret_def fail_def split: prod.splits result.splits)

section \<open>Create and Update\<close>

definition create_tables :: "nat \<Rightarrow> nat \<Rightarrow> time \<Rightarrow> Resource \<Rightarrow> tables \<Rightarrow> tables" where
  "create_tables rid vid now r t =
     \<lparr>t_resources = t_resources t @ [resource_row rid r],
      t_deps = filter (\<lambda>d. dep_resource_id d \<noteq> rid) (t_deps t) @
        dep_rows_for rid (sp_Dependencies (res_Spec r)) (t\<lparr>t_resources := t_resources t @ [resource_row rid r]\<rparr>),
      t_tags = set_tags rid (res_Labels r) (t_tags t),
      t_revisions = t_revisions t @
        [\<lparr>rvm_ID = vid, rvm_Reason = ''action:create'', rvm_CreatedAt = now, rvm_CreatedBy = res_UpdatedBy r,
          rvm_ResourceID = rid, rvm_SpecConfigs = copy_raw (sp_Configs (res_Spec r))\<rparr>],
      t_revision_tags = set_tags vid (res_Labels r) (t_revision_tags t),
      t_modules = t_modules t\<rparr>"

lemma insertResourceRecord_Ok:
  assumes "insertResourceRecord r s = (Ok i, t)"
  shows "i = w_res_seq s \<and> row_by_urn (res_URN r) (w_tables s) = None \<and>
    nf t = (nf s)\<lparr>w_res_seq := w_res_seq s + 1,
      w_tables := (w_tables s)\<lparr>t_resources := t_resources (w_tables s) @ [resource_row i r]\<rparr>\<rparr>"
  using assms
  by (auto simp: insertResourceRecord_def stmt_def Let_def nf_def tick_fault_def row_by_urn_def find_None_iff
      list_ex_iff split: fault.splits if_splits)

lemma insertResource_Ok:
  assumes "insertResource r [] s = (Ok u, t)"
  shows "row_by_urn (res_URN r) (w_tables s) = None \<and>
    nf t = (nf s)\<lparr>w_res_seq := w_res_seq s + 1, w_rev_seq := w_rev_seq s + 1,
      w_tables := create_tables (w_res_seq s) (w_rev_seq s) (pg_time (w_now s)) r (w_tables s)\<rparr> \<and>
    (\<forall>(k, v) \<in> set (entries (sp_Dependencies (res_Spec r))).
       row_by_urn v ((w_tables s)\<lparr>t_resources := t_resources (w_tables s) @ [resource_row (w_res_seq s) r]\<rparr>) \<noteq> None)"
proof -
  let ?i = "w_res_seq s"
  from assms obtain a b c i where s1: "insertResourceRecord r s = (Ok i, a)"
    and s2: "setTags ResourceTags i (res_Labels r) a = (Ok (), b)"
    and s3: "setDependencies i (sp_Dependencies (res_Spec r)) b = (Ok (), c)"
    and s4: "insertRevision i (revision_of r ''action:create'') c = (Ok (), t)"
    by (auto simp: insertResource_def translated_Ok setResourceTags_def ret_def)
  note r1 = insertResourceRecord_Ok [OF s1]
  then have a: "i = ?i" "nf a = (nf s)\<lparr>w_res_seq := ?i + 1,
      w_tables := (w_tables s)\<lparr>t_resources := t_resources (w_tables s) @ [resource_row ?i r]\<rparr>\<rparr>" by auto
  note ta = nf_tablesD [OF a(2)]
  note b = setTags_Ok [OF s2, unfolded a ta]
  note tb = nf_tablesD [OF b]
  note c = setDependencies_Ok [OF s3, unfolded b tb, THEN conjunct1]
  note tc = nf_tablesD [OF c]
  have w: "w_rev_seq c = w_rev_seq s" "w_now c = w_now s"
    using arg_cong [OF c, of w_rev_seq] arg_cong [OF c, of w_now] by simp_all
  note d = insertRevision_Ok [OF s4, unfolded c tc w a(1)]
  have dep: "dep_rows_for ?i ds (map_tags tt f X) = dep_rows_for ?i ds X" for ds tt f X
    by (cases tt) (simp_all add: dep_rows_for_def map_tags_def urn_id_def row_by_urn_def)
  have "nf t = (nf s)\<lparr>w_res_seq := ?i + 1, w_rev_seq := w_rev_seq s + 1,
      w_tables := create_tables ?i (w_rev_seq s) (pg_time (w_now s)) r (w_tables s)\<rparr>"
    unfolding d dep a(1) by (simp add: create_tables_def map_tags_def revision_of_def)
  moreover have "\<forall>(k, v) \<in> set (entries (sp_Dependencies (res_Spec r))).
       row_by_urn v ((w_tables s)\<lparr>t_resources := t_resources (w_tables s) @ [resource_row ?i r]\<rparr>) \<noteq> None"
    using setDependencies_Ok [OF s3, THEN conjunct2] tb by (simp add: row_by_urn_def map_tags_def a(1))
  ultimately show ?thesis using r1 by blast
qed

lemma Create_Ok:
  assumes "Create r [] s = (Ok u, t)"
  shows "row_by_urn (res_URN r) (w_tables s) = None \<and>
    nf t = (nf s)\<lparr>w_res_seq := w_res_seq s + 1, w_rev_seq := w_rev_seq s + 1,
      w_tables := create_tables (w_res_seq s) (w_rev_seq s) (pg_time (w_now s)) r (w_tables s)\<rparr> \<and>
    (\<forall>(k, v) \<in> set (entries (sp_Dependencies (res_Spec r))).
       row_by_urn v ((w_tables s)\<lparr>t_resources := t_resources (w_tables s) @ [resource_row (w_res_seq s) r]\<rparr>) \<noteq> None)"
proof -
  from withinTx_Ok [OF assms [unfolded Create_def]] obtain v where
    "insertResource r [] (tick_fault s) = (Ok u, v)" "nf t = nf v" by blast
  with insertResource_Ok [of r "tick_fault s" u v] show ?thesis by simp
qed

definition update_tables :: "nat \<Rightarrow> nat \<Rightarrow> time \<Rightarrow> Resource \<Rightarrow> bool \<Rightarrow> string \<Rightarrow> tables \<Rightarrow> tables" where
  "update_tables rid vid now r saveRevision reason t =
     \<lparr>t_resources = t_resources (map_rows (\<lambda>row. rm_ID row = rid) (update_row now r) t),
      t_deps = filter (\<lambda>d. dep_resource_id d \<noteq> rid) (t_deps t) @ dep_rows_for rid (sp_Dependencies (res_Spec r)) t,
      t_tags = set_tags rid (res_Labels r) (t_tags t),
      t_revisions = t_revisions t @ (if saveRevision then
        [\<lparr>rvm_ID = vid, rvm_Reason = reason, rvm_CreatedAt = now, rvm_CreatedBy = res_UpdatedBy r,
          rvm_ResourceID = rid, rvm_SpecConfigs = copy_raw (sp_Configs (res_Spec r))\<rparr>] else []),
      t_revision_tags = (if saveRevision then set_tags vid (res_Labels r) (t_revision_tags t) else t_revision_tags t),
      t_modules = t_modules t\<rparr>"

lemma updateResource_Ok:
  assumes "updateResource r saveRevision reason [] s = (Ok u, t)"
  shows "\<exists>row. row_by_urn (res_URN r) (w_tables s) = Some row \<and>
    nf t = (nf s)\<lparr>w_rev_seq := w_rev_seq s + (if saveRevision then 1 else 0),
      w_tables := update_tables (rm_ID row) (w_rev_seq s) (pg_time (w_now s)) r saveRevision reason (w_tables s)\<rparr> \<and>
    (\<forall>(k, v) \<in> set (entries (sp_Dependencies (res_Spec r))). row_by_urn v (w_tables s) \<noteq> None)"
proof -
  from assms obtain z a b c i where s0: "translateURNToID (res_URN r) s = (Ok i, z)"
    and s1: "exec (\<lambda>now. map_rows (\<lambda>row. rm_ID row = i) (update_row now r)) z = (Ok (), a)"
    and s2: "setTags ResourceTags i (res_Labels r) a = (Ok (), b)"
    and s3: "setDependencies i (sp_Dependencies (res_Spec r)) b = (Ok (), c)"
    and s4: "(if saveRevision then translated (insertRevision i (revision_of r reason)) else ret ()) c = (Ok (), t)"
    by (auto simp: updateResource_def setResourceTags_def ret_def)
  from translateURNToID_Ok [OF s0] obtain row where row: "row_by_urn (res_URN r) (w_tables s) = Some row"
    "i = rm_ID row" and z: "nf z = nf s" by blast
  have zt: "w_tables z = w_tables s" "w_now z = w_now s"
    using arg_cong [OF z, of w_tables] arg_cong [OF z, of w_now] by simp_all
  note a = exec_Ok [OF s1, unfolded z zt]
  note ta = nf_tablesD [OF a]
  note b = setTags_Ok [OF s2, unfolded a ta]
  note tb = nf_tablesD [OF b]
  note c = setDependencies_Ok [OF s3, unfolded b tb, THEN conjunct1]
  note tc = nf_tablesD [OF c]
  have w: "w_rev_seq c = w_rev_seq s" "w_now c = w_now s"
    using arg_cong [OF c, of w_rev_seq] arg_cong [OF c, of w_now] by simp_all
  have rows: "urn_id (map_rows P (update_row now r) X) = urn_id X" for P now X
    by (rule map_rows_ok) simp
  have dep: "dep_rows_for i ds (map_tags tt f X) = dep_rows_for i ds X"
      "dep_rows_for i ds (map_rows P (update_row now r) X) = dep_rows_for i ds X" for ds tt f X P now
    using rows by (cases tt; simp add: dep_rows_for_def map_tags_def urn_id_def row_by_urn_def)+
  have none: "row_by_urn v (map_rows P (update_row now r) X) = None \<longleftrightarrow> row_by_urn v X = None" for v P now X
  proof -
    have "map rm_URN (t_resources (map_rows P (update_row now r) X)) = map rm_URN (t_resources X)"
      by (simp add: map_rows_def)
    then show ?thesis unfolding row_by_urn_None by (metis list.set_map)
  qed
  have "nf t = (nf s)\<lparr>w_rev_seq := w_rev_seq s + (if saveRevision then 1 else 0),
      w_tables := update_tables i (w_rev_seq s) (pg_time (w_now s)) r saveRevision reason (w_tables s)\<rparr>"
  proof (cases saveRevision)
    case True
    with s4 have "insertRevision i (revision_of r reason) c = (Ok (), t)" by (simp add: translated_Ok)
    note d = insertRevision_Ok [OF this, unfolded c tc w]
    show ?thesis unfolding d dep
      using True by (simp add: update_tables_def map_tags_def map_rows_def revision_of_def)
  next
    case False
    with s4 have "nf t = nf c" by (simp add: ret_def)
    then show ?thesis unfolding c dep
      using False by (simp add: update_tables_def map_tags_def map_rows_def nf_def)
  qed
  moreover have "\<forall>(k, v) \<in> set (entries (sp_Dependencies (res_Spec r))). row_by_urn v (w_tables s) \<noteq> None"
    using setDependencies_Ok [OF s3, THEN conjunct2] unfolding tb
    by (simp add: none row_by_urn_def [of _ "map_tags tt f X" for tt f X] row_by_urn_def [of _ "map_rows P f X" for P f X, symmetric])
  ultimately show ?thesis using row by blast
qed

lemma Update_Ok:
  assumes "Update r saveRevision reason [] s = (Ok u, t)"
  shows "\<exists>row. row_by_urn (res_URN r) (w_tables s) = Some row \<and>
    nf t = (nf s)\<lparr>w_rev_seq := w_rev_seq s + (if saveRevision then 1 else 0),
      w_tables := update_tables (rm_ID row) (w_rev_seq s) (pg_time (w_now s)) r saveRevision reason (w_tables s)\<rparr> \<and>
    (\<forall>(k, v) \<in> set (entries (sp_Dependencies (res_Spec r))). row_by_urn v (w_tables s) \<noteq> None)"
proof -
  from withinTx_Ok [OF assms [unfolded Update_def]] obtain v where
    "updateResource r saveRevision reason [] (tick_fault s) = (Ok u, v)" "nf t = nf v" by blast
  with updateResource_Ok [of r saveRevision reason "tick_fault s" u v] show ?thesis by simp
qed

end
