(* ===== verification/Pg_Roundtrip.thy ===== *)
theory Pg_Roundtrip
  imports Pg_Effects
begin

text \<open>
  Reading back what was written: \<open>GetByURN\<close> after \<open>Create\<close> and \<open>Update\<close>, for the written resource
  and for every other one, the recorded revisions, and the refusal of a duplicate URN.
\<close>

section \<open>Reads on a faultless connection\<close>

lemma faultless [simp]: "w_faults s = [] \<Longrightarrow> next_fault s = Fine" "w_faults s = [] \<Longrightarrow> tick_fault s = s"
  by (simp_all add: next_fault_def tick_fault_def)

lemma query_faultless: "w_faults s = [] \<Longrightarrow> query q s = (Ok (q (w_tables s)), s)"
  by (simp add: query_def stmt_def)

lemma withinTx_faultless:
  "w_faults s = [] \<Longrightarrow> fn s = (Ok a, t) \<Longrightarrow> w_faults t = [] \<Longrightarrow> withinTx ro fn s = (Ok a, t)"
  by (simp add: withinTx_def stmt_def)

lemma GetByURN_faultless:
  assumes "w_faults s = []" and "row_by_urn urn (w_tables s) = Some rec"
    and "decode_SyncResult (rm_StateSyncResult rec) = Ok sr"
    and "tagsToLabelMap (tags_of ResourceTags (rm_ID rec) (w_tables s)) = Ok labels"
  shows "GetByURN urn s =
    (Ok (model_to_resource rec labels (Some (put_all (deps_of (rm_ID rec) (w_tables s)) [])) sr), s)"
proof -
  have "readResourceParts urn s =
      (Ok (rec, tags_of ResourceTags (rm_ID rec) (w_tables s), put_all (deps_of (rm_ID rec) (w_tables s)) []), s)"
    using assms(1,2)
    by (simp add: readResourceParts_def readResourceRecord_def readResourceTags_def readTags_def
        readResourceDeps_def query_faultless run_simps)
  then show ?thesis
    using assms by (simp add: GetByURN_def withinTx_faultless run_simps)
qed

lemma GetByURN_not_found:
  assumes "w_faults s = []" and "row_by_urn urn (w_tables s) = None"
  shows "GetByURN urn s = (Err (EErr ErrNotFound), s)"
proof -
  have "readResourceParts urn s = (Err (EErr ErrNotFound), s)"
    using assms by (simp add: readResourceParts_def readResourceRecord_def query_faultless run_simps)
  with assms show ?thesis
    by (simp add: GetByURN_def withinTx_def stmt_def rollback_to_def run_simps)
qed

text \<open>A read depends only on the rows of the resource.\<close>

lemma GetByURN_cong:
  fixes s t :: "'x world"
  assumes "w_faults s = []" and "w_faults t = []"
    and "row_by_urn urn (w_tables t) = row_by_urn urn (w_tables s)"
    and "\<And>rec. row_by_urn urn (w_tables s) = Some rec \<Longrightarrow>
      tags_of ResourceTags (rm_ID rec) (w_tables t) = tags_of ResourceTags (rm_ID rec) (w_tables s) \<and>
      deps_of (rm_ID rec) (w_tables t) = deps_of (rm_ID rec) (w_tables s)"
  shows "fst (GetByURN urn t) = fst (GetByURN urn s)"
proof (cases "row_by_urn urn (w_tables s)")
  case None
  then show ?thesis using assms by (simp add: GetByURN_not_found)
next
  case (Some rec)
  have parts: "readResourceParts urn z =
      (Ok (rec, tags_of ResourceTags (rm_ID rec) (w_tables s), put_all (deps_of (rm_ID rec) (w_tables s)) []), z)"
    if "z \<in> {s, t}" for z
    using assms Some that
    by (auto simp: readResourceParts_def readResourceRecord_def readResourceTags_def readTags_def
        readResourceDeps_def query_faultless run_simps)
  show ?thesis
    using assms(1,2) parts [of s] parts [of t]
    by (simp add: GetByURN_def withinTx_def stmt_def bindS_def catchS_def liftR_def ret_def fail_def
        split: result.split)
qed

section \<open>Encodings\<close>

definition int64 :: "int \<Rightarrow> bool" where
  "int64 i \<longleftrightarrow> - int64_max - 1 \<le> i \<and> i \<le> int64_max"

lemma decode_syncResultAsJSON:
  assumes "int64 (sr_Retries sr)"
  shows "decode_SyncResult (syncResultAsJSON sr) = Ok sr"
  using assms
  by (cases sr) (auto simp: decode_SyncResult_def syncResultAsJSON_def raw_empty_def raw_doc_def SyncResult_json_def
      Unmarshal_def json_parse_def decode_obj_def set_member_def SyncResult_fields_def field_for_def
      set_int_def set_str_def int64_def zero_SyncResult_def)

lemma tags_of_set_tags:
  "map tag_text (filter (\<lambda>r. tag_owner r = owner) (set_tags owner labels rows)) = labelMapToTags labels"
  by (simp_all add: set_tags_def tag_rows_def filter_map o_def)

lemma tags_of_set_tags_other:
  "owner \<noteq> other \<Longrightarrow> filter (\<lambda>r. tag_owner r = other) (set_tags owner labels rows) = filter (\<lambda>r. tag_owner r = other) rows"
  by (auto simp: set_tags_def tag_rows_def filter_map o_def intro!: filter_cong)

text \<open>The rows of a resource's dependencies read back as its map.\<close>

lemma filter_unique_id:
  assumes "distinct (map rm_ID rs)" and "r \<in> set rs"
  shows "filter (\<lambda>x. rm_ID x = rm_ID r) rs = [r]"
  using assms by (induction rs) (auto simp: filter_empty_conv intro: rev_image_eqI)

lemma deps_of_rows:
  assumes "distinct (map rm_ID (t_resources t))"
    and "filter (\<lambda>d. dep_resource_id d = rid) (t_deps t) = dep_rows_for rid deps t"
    and "\<forall>(k, v) \<in> set (entries deps). row_by_urn v t \<noteq> None"
  shows "deps_of rid t = entries deps"
proof -
  have one: "map (\<lambda>r. (k, rm_URN r)) (filter (\<lambda>r. rm_ID r = urn_id t u) (t_resources t)) = [(k, u)]"
    if "row_by_urn u t \<noteq> None" for k u
  proof -
    from that obtain r where r: "row_by_urn u t = Some r" by blast
    with row_by_urn_Some [OF r] filter_unique_id [OF assms(1), of r] show ?thesis
      by (simp add: urn_id_def)
  qed
  have "concat (map (\<lambda>(k, u). map (\<lambda>r. (k, rm_URN r)) (filter (\<lambda>r. rm_ID r = urn_id t u) (t_resources t))) kvs) = kvs"
    if "\<forall>(k, v) \<in> set kvs. row_by_urn v t \<noteq> None" for kvs
    using that by (induction kvs) (auto simp: one)
  from this [OF assms(3)] show ?thesis
    unfolding deps_of_def assms(2) dep_rows_for_def by (simp add: o_def split_def)
qed

lemma put_all_distinct: "distinct (map fst (m @ kvs)) \<Longrightarrow> put_all kvs m = m @ kvs"
proof (induction kvs arbitrary: m)
  case (Cons kv kvs)
  obtain k v where kv: "kv = (k, v)" by fastforce
  with Cons.prems have "k \<notin> fst ` set m" by auto
  then have "put k v m = m @ [(k, v)]"
    unfolding put_def by (induction m) auto
  with Cons kv show ?case by simp
qed simp

section \<open>What the store keeps of a resource\<close>

text \<open>
  A resource as the database holds it: times to the microsecond, nil byte slices as empty ones,
  nil maps as empty ones.
\<close>

definition stored_state :: "State \<Rightarrow> State" where
  "stored_state st =
     st\<lparr>st_Output := copy_raw (st_Output st), st_ModuleData := copy_raw (st_ModuleData st),
        st_NextSyncAt := map_option pg_time (st_NextSyncAt st)\<rparr>"

definition stored :: "Resource \<Rightarrow> Resource" where
  "stored r =
     r\<lparr>res_Labels := Some (entries (res_Labels r)), res_CreatedAt := pg_time (res_CreatedAt r),
       res_UpdatedAt := pg_time (res_UpdatedAt r),
       res_Spec := \<lparr>sp_Configs = copy_raw (sp_Configs (res_Spec r)),
                    sp_Dependencies = Some (entries (sp_Dependencies (res_Spec r)))\<rparr>,
       res_State := stored_state (res_State r)\<rparr>"

definition storable :: "Resource \<Rightarrow> bool" where
  "storable r \<longleftrightarrow>
     wf_map (res_Labels r) \<and> (\<forall>(k, v) \<in> set (entries (res_Labels r)). CHR ''='' \<notin> set k) \<and>
     wf_map (sp_Dependencies (res_Spec r)) \<and> int64 (sr_Retries (st_SyncResult (res_State r)))"

lemma storable_tags:
  "storable r \<Longrightarrow> tagsToLabelMap (labelMapToTags (res_Labels r)) = Ok (Some (entries (res_Labels r)))"
  using tagsToLabelMap_loop_tags [of "entries (res_Labels r)" "[]"]
  by (simp add: storable_def tagsToLabelMap_def labelMapToTags_def wf_map_def)

lemma storable_put_all:
  "storable r \<Longrightarrow> put_all (entries (sp_Dependencies (res_Spec r))) [] = entries (sp_Dependencies (res_Spec r))"
  by (rule put_all_distinct [of "[]", simplified]) (simp add: storable_def wf_map_def)

section \<open>Properties\<close>

lemma Create_rows:
  assumes "tables_ok t (w_res_seq s)" and "row_by_urn (res_URN r) t = None"
  shows "distinct (map rm_ID (t_resources t @ [resource_row (w_res_seq s) r]))"
    "urn \<noteq> res_URN r \<Longrightarrow>
      find (\<lambda>x. rm_URN x = urn) (t_resources t @ [resource_row (w_res_seq s) r]) = row_by_urn urn t"
    "find (\<lambda>x. rm_URN x = res_URN r) (t_resources t @ [resource_row (w_res_seq s) r])
       = Some (resource_row (w_res_seq s) r)"
  using assms
  by (auto simp: tables_ok_def resource_row_def find_append row_by_urn_def split: option.split)

lemma no_new_deps:
  assumes "tables_ok t n" and "rid \<notin> rm_ID ` set (t_resources t)"
  shows "filter (\<lambda>d. dep_resource_id d \<noteq> rid) (t_deps t) = t_deps t"
  using assms by (auto simp: tables_ok_def dep_rows_ok_def intro!: filter_True)

lemma db_inv_fresh: "db_inv s \<Longrightarrow> w_res_seq s \<notin> rm_ID ` set (t_resources (w_tables s))"
  by (auto simp: db_inv_def tables_ok_def)

lemma deps_of_frame:
  assumes "filter (\<lambda>d. dep_resource_id d = rid) (t_deps t') = filter (\<lambda>d. dep_resource_id d = rid) (t_deps t)"
    and "\<And>d. d \<in> set (t_deps t) \<Longrightarrow> map rm_URN (filter (\<lambda>x. rm_ID x = dep_depends_on d) (t_resources t')) =
          map rm_URN (filter (\<lambda>x. rm_ID x = dep_depends_on d) (t_resources t))"
  shows "deps_of rid t' = deps_of rid t"
proof -
  have pair: "map (\<lambda>r. (k, rm_URN r)) rs = map (\<lambda>r. (k, rm_URN r)) rs'" if "map rm_URN rs = map rm_URN rs'"
    for k rs rs' using arg_cong [OF that, of "map (Pair k)"] by (simp add: o_def)
  show ?thesis
    unfolding deps_of_def assms(1)
    by (intro arg_cong [where f = concat] map_cong [OF refl] pair assms(2)) auto
qed

text \<open>The tables after a create, and its effect on the joins.\<close>

abbreviation created :: "'x world \<Rightarrow> Resource \<Rightarrow> tables" where
  "created s r \<equiv> create_tables (w_res_seq s) (w_rev_seq s) (pg_time (w_now s)) r (w_tables s)"

lemma created_urns:
  "row_by_urn u (created s r) = find (\<lambda>x. rm_URN x = u) (t_resources (w_tables s) @ [resource_row (w_res_seq s) r])"
  by (simp add: create_tables_def row_by_urn_def)

lemma created_old_deps:
  "db_inv s \<Longrightarrow> filter (\<lambda>d. dep_resource_id d \<noteq> w_res_seq s) (t_deps (w_tables s)) = t_deps (w_tables s)"
  by (rule no_new_deps [where n = "w_res_seq s", OF _ db_inv_fresh]) (simp_all add: db_inv_def)

lemma created_deps:
  assumes inv: "db_inv s" and new: "row_by_urn (res_URN r) (w_tables s) = None"
    and found: "\<forall>(k, v) \<in> set (entries (sp_Dependencies (res_Spec r))).
       row_by_urn v ((w_tables s)\<lparr>t_resources := t_resources (w_tables s) @ [resource_row (w_res_seq s) r]\<rparr>) \<noteq> None"
  shows "deps_of (w_res_seq s) (created s r) = entries (sp_Dependencies (res_Spec r))"
proof (rule deps_of_rows)
  let ?i = "w_res_seq s" and ?T = "created s r"
  have ok: "tables_ok (w_tables s) ?i" using inv by (simp add: db_inv_def)
  show "distinct (map rm_ID (t_resources ?T))"
    using Create_rows(1) [OF ok new] by (simp add: create_tables_def)
  have rowsfor: "dep_rows_for ?i ds ((w_tables s)\<lparr>t_resources := t_resources (w_tables s) @ [resource_row ?i r]\<rparr>)
      = dep_rows_for ?i ds ?T" for ds
    by (simp add: dep_rows_for_def urn_id_def row_by_urn_def create_tables_def)
  have "filter (\<lambda>d. dep_resource_id d = ?i) (t_deps (w_tables s)) = []"
    using created_old_deps [OF inv] by (simp add: filter_id_conv filter_empty_conv)
  then show "filter (\<lambda>d. dep_resource_id d = ?i) (t_deps ?T) = dep_rows_for ?i (sp_Dependencies (res_Spec r)) ?T"
    unfolding rowsfor [symmetric]
    by (simp add: create_tables_def filter_append dep_rows_for_def filter_map o_def split_def)
  show "\<forall>(k, v) \<in> set (entries (sp_Dependencies (res_Spec r))). row_by_urn v ?T \<noteq> None"
    using found unfolding created_urns by (simp add: row_by_urn_def)
qed

lemma created_frame:
  assumes inv: "db_inv s" and rec: "rec \<in> set (t_resources (w_tables s))"
  shows "tags_of ResourceTags (rm_ID rec) (created s r) = tags_of ResourceTags (rm_ID rec) (w_tables s)"
    and "deps_of (rm_ID rec) (created s r) = deps_of (rm_ID rec) (w_tables s)"
proof -
  have ok: "tables_ok (w_tables s) (w_res_seq s)" using inv by (simp add: db_inv_def)
  then have id: "rm_ID rec \<noteq> w_res_seq s" using rec by (auto simp: tables_ok_def)
  then show "tags_of ResourceTags (rm_ID rec) (created s r) = tags_of ResourceTags (rm_ID rec) (w_tables s)"
    using tags_of_set_tags_other [of "w_res_seq s" "rm_ID rec"]
    by (simp add: tags_of_def get_tags_def create_tables_def)
  show "deps_of (rm_ID rec) (created s r) = deps_of (rm_ID rec) (w_tables s)"
  proof (rule deps_of_frame)
    show "filter (\<lambda>d. dep_resource_id d = rm_ID rec) (t_deps (created s r)) =
        filter (\<lambda>d. dep_resource_id d = rm_ID rec) (t_deps (w_tables s))"
      using id by (simp add: create_tables_def created_old_deps [OF inv] dep_rows_for_def filter_map o_def split_def)
    fix d assume "d \<in> set (t_deps (w_tables s))"
    then have "dep_depends_on d \<in> rm_ID ` set (t_resources (w_tables s))"
      using ok by (simp add: tables_ok_def dep_rows_ok_def)
    then have "dep_depends_on d \<noteq> w_res_seq s" using db_inv_fresh [OF inv] by metis
    then show "map rm_URN (filter (\<lambda>x. rm_ID x = dep_depends_on d) (t_resources (created s r))) =
        map rm_URN (filter (\<lambda>x. rm_ID x = dep_depends_on d) (t_resources (w_tables s)))"
      by (simp add: create_tables_def resource_row_def)
  qed
qed

lemma Create_stored:
  assumes inv: "db_inv s" and run: "Create r [] s = (Ok (), t)" and st: "storable r"
  shows "GetByURN (res_URN r) (nf t) = (Ok (stored r), nf t) \<and>
    (\<forall>urn. urn \<noteq> res_URN r \<longrightarrow> fst (GetByURN urn (nf t)) = fst (GetByURN urn (nf s)))"
proof -
  let ?i = "w_res_seq s"
  from Create_Ok [OF run] have new: "row_by_urn (res_URN r) (w_tables s) = None"
    and t: "nf t = (nf s)\<lparr>w_res_seq := ?i + 1, w_rev_seq := w_rev_seq s + 1, w_tables := created s r\<rparr>"
    and found: "\<forall>(k, v) \<in> set (entries (sp_Dependencies (res_Spec r))).
       row_by_urn v ((w_tables s)\<lparr>t_resources := t_resources (w_tables s) @ [resource_row ?i r]\<rparr>) \<noteq> None"
    by auto
  have T: "w_tables (nf t) = created s r" using nf_tablesD [OF t] by simp
  have ok: "tables_ok (w_tables s) ?i" using inv by (simp add: db_inv_def)
  note rows = Create_rows [OF ok new]
  have "row_by_urn (res_URN r) (w_tables (nf t)) = Some (resource_row ?i r)"
    unfolding T created_urns by (rule rows(3))
  moreover have "tags_of ResourceTags ?i (w_tables (nf t)) = labelMapToTags (res_Labels r)"
    unfolding T by (simp add: tags_of_def get_tags_def create_tables_def tags_of_set_tags)
  ultimately have "GetByURN (res_URN r) (nf t) = (Ok (stored r), nf t)"
    using GetByURN_faultless [of "nf t" "res_URN r" "resource_row ?i r" "st_SyncResult (res_State r)"
        "Some (entries (res_Labels r))"] st created_deps [OF inv new found] T
    by (simp add: resource_row_def decode_syncResultAsJSON storable_tags storable_put_all storable_def [of r]
        model_to_resource_def stored_def stored_state_def)
  moreover have "fst (GetByURN urn (nf t)) = fst (GetByURN urn (nf s))" if ne: "urn \<noteq> res_URN r" for urn
  proof (rule GetByURN_cong)
    show "row_by_urn urn (w_tables (nf t)) = row_by_urn urn (w_tables (nf s))"
      unfolding T created_urns using rows(2) [OF ne] by simp
  qed (use created_frame [OF inv] row_by_urn_Some in \<open>auto simp: T simp del: nf_simps(1), auto\<close>)
  ultimately show ?thesis by blast
qed


section \<open>Update\<close>

abbreviation updated :: "'x world \<Rightarrow> nat \<Rightarrow> Resource \<Rightarrow> bool \<Rightarrow> string \<Rightarrow> tables" where
  "updated s rid r saveRevision reason \<equiv>
     update_tables rid (w_rev_seq s) (pg_time (w_now s)) r saveRevision reason (w_tables s)"

lemma find_map_rows:
  assumes "\<And>x. rm_URN (f x) = rm_URN x"
  shows "find (\<lambda>x. rm_URN x = u) (map (\<lambda>row. if P row then f row else row) rs) =
    map_option (\<lambda>row. if P row then f row else row) (find (\<lambda>x. rm_URN x = u) rs)"
  using assms by (induction rs) auto

lemma updated_row:
  "row_by_urn u (updated s rid r sv reason) =
     map_option (\<lambda>row. if rm_ID row = rid then update_row (pg_time (w_now s)) r row else row) (row_by_urn u (w_tables s))"
  by (simp add: row_by_urn_def update_tables_def map_rows_def find_map_rows)

lemma updated_ids: "urn_id (updated s rid r sv reason) = urn_id (w_tables s)"
  unfolding urn_id_def updated_row by (auto simp: fun_eq_iff split: option.split)

lemma updated_deps:
  assumes ok: "tables_ok (w_tables s) n"
    and found: "\<forall>(k, v) \<in> set (entries (sp_Dependencies (res_Spec r))). row_by_urn v (w_tables s) \<noteq> None"
  shows "deps_of rid (updated s rid r sv reason) = entries (sp_Dependencies (res_Spec r))"
proof (rule deps_of_rows)
  have "map rm_ID (t_resources (updated s rid r sv reason)) = map rm_ID (t_resources (w_tables s))"
    by (simp add: update_tables_def map_rows_def)
  then show "distinct (map rm_ID (t_resources (updated s rid r sv reason)))"
    using ok by (metis tables_ok_def)
  show "filter (\<lambda>d. dep_resource_id d = rid) (t_deps (updated s rid r sv reason)) =
      dep_rows_for rid (sp_Dependencies (res_Spec r)) (updated s rid r sv reason)"
    unfolding dep_rows_for_def updated_ids
    by (simp add: update_tables_def dep_rows_for_def filter_map o_def split_def)
qed (use found in \<open>auto simp: updated_row\<close>)

lemma updated_frame:
  assumes "rm_ID rec \<noteq> rid"
  shows "tags_of ResourceTags (rm_ID rec) (updated s rid r sv reason) = tags_of ResourceTags (rm_ID rec) (w_tables s)"
    and "deps_of (rm_ID rec) (updated s rid r sv reason) = deps_of (rm_ID rec) (w_tables s)"
proof -
  show "tags_of ResourceTags (rm_ID rec) (updated s rid r sv reason) = tags_of ResourceTags (rm_ID rec) (w_tables s)"
    using tags_of_set_tags_other [of rid "rm_ID rec"] assms
    by (simp add: tags_of_def get_tags_def update_tables_def)
  have m: "map rm_URN (filter (\<lambda>x. rm_ID x = i) (map (\<lambda>row. if rm_ID row = rid then update_row now r row else row) rs)) =
      map rm_URN (filter (\<lambda>x. rm_ID x = i) rs)" for i now rs
    by (induction rs) auto
  show "deps_of (rm_ID rec) (updated s rid r sv reason) = deps_of (rm_ID rec) (w_tables s)"
    by (rule deps_of_frame)
      (use assms m in \<open>auto simp: update_tables_def map_rows_def dep_rows_for_def filter_map o_def split_def
        filter_filter intro!: filter_cong\<close>)
qed

lemma Update_stored:
  assumes inv: "db_inv s" and run: "Update r saveRevision reason [] s = (Ok (), t)" and st: "storable r"
  shows "\<exists>row. row_by_urn (res_URN r) (w_tables s) = Some row \<and>
    GetByURN (res_URN r) (nf t) =
      (Ok ((stored r)\<lparr>res_Kind := rm_Kind row, res_Name := rm_Name row, res_Project := rm_Project row,
             res_CreatedAt := rm_CreatedAt row, res_CreatedBy := rm_CreatedBy row,
             res_UpdatedAt := pg_time (w_now s)\<rparr>), nf t) \<and>
    (\<forall>urn. urn \<noteq> res_URN r \<longrightarrow> fst (GetByURN urn (nf t)) = fst (GetByURN urn (nf s)))"
proof -
  from Update_Ok [OF run] obtain row where row: "row_by_urn (res_URN r) (w_tables s) = Some row"
    and t: "nf t = (nf s)\<lparr>w_rev_seq := w_rev_seq s + (if saveRevision then 1 else 0),
      w_tables := updated s (rm_ID row) r saveRevision reason\<rparr>"
    and found: "\<forall>(k, v) \<in> set (entries (sp_Dependencies (res_Spec r))). row_by_urn v (w_tables s) \<noteq> None"
    by blast
  have T: "w_tables (nf t) = updated s (rm_ID row) r saveRevision reason"
    using nf_tablesD [OF t] by simp
  have ok: "tables_ok (w_tables s) (w_res_seq s)" using inv by (simp add: db_inv_def)
  let ?row = "update_row (pg_time (w_now s)) r row"
  have "row_by_urn (res_URN r) (w_tables (nf t)) = Some ?row"
    unfolding T updated_row row by simp
  moreover have "tags_of ResourceTags (rm_ID row) (w_tables (nf t)) = labelMapToTags (res_Labels r)"
    unfolding T by (simp add: tags_of_def get_tags_def update_tables_def tags_of_set_tags)
  moreover have "rm_URN row = res_URN r" using row_by_urn_Some [OF row] by simp
  ultimately have "GetByURN (res_URN r) (nf t) =
      (Ok ((stored r)\<lparr>res_Kind := rm_Kind row, res_Name := rm_Name row, res_Project := rm_Project row,
             res_CreatedAt := rm_CreatedAt row, res_CreatedBy := rm_CreatedBy row,
             res_UpdatedAt := pg_time (w_now s)\<rparr>), nf t)"
    using GetByURN_faultless [of "nf t" "res_URN r" ?row "st_SyncResult (res_State r)"
        "Some (entries (res_Labels r))"] st updated_deps [OF ok found] T
    by (simp add: update_row_def decode_syncResultAsJSON storable_tags storable_put_all storable_def [of r]
        model_to_resource_def stored_def stored_state_def)
  moreover have "fst (GetByURN urn (nf t)) = fst (GetByURN urn (nf s))" if ne: "urn \<noteq> res_URN r" for urn
  proof (rule GetByURN_cong)
    have other: "rm_ID rec \<noteq> rm_ID row" if "row_by_urn urn (w_tables s) = Some rec" for rec
      using ok ne row_by_urn_Some [OF that] row_by_urn_Some [OF row]
      by (auto simp: tables_ok_def distinct_map dest: inj_onD)
    then show "row_by_urn urn (w_tables (nf t)) = row_by_urn urn (w_tables (nf s))"
      unfolding T updated_row by (cases "row_by_urn urn (w_tables s)") auto
    fix rec assume "row_by_urn urn (w_tables (nf s)) = Some rec"
    then have "rm_ID rec \<noteq> rm_ID row" using other by simp
    from updated_frame [OF this, of s r saveRevision reason]
    show "tags_of ResourceTags (rm_ID rec) (w_tables (nf t)) = tags_of ResourceTags (rm_ID rec) (w_tables (nf s)) \<and>
      deps_of (rm_ID rec) (w_tables (nf t)) = deps_of (rm_ID rec) (w_tables (nf s))"
      unfolding T by simp
  qed simp_all
  ultimately show ?thesis using row by blast
qed

text \<open>What \<open>Update\<close> stored is what \<open>GetByURN\<close> returns. After a successful \<open>Update\<close>, reading the URN
  gives the updated spec, labels, state, dependencies and updater, with the update time of the
  database clock and the kind, name, project and creation stamps the row already had; reading any
  other URN gives what it gave before.\<close>

theorem Update_GetByURN:
  assumes inv: "db_inv s" and run: "Update r saveRevision reason [] s = (Ok (), t)" and st: "storable r"
  shows "\<exists>row. row_by_urn (res_URN r) (w_tables s) = Some row \<and>
    GetByURN (res_URN r) (nf t) =
      (Ok ((stored r)\<lparr>res_Kind := rm_Kind row, res_Name := rm_Name row, res_Project := rm_Project row,
             res_CreatedAt := rm_CreatedAt row, res_CreatedBy := rm_CreatedBy row,
             res_UpdatedAt := pg_time (w_now s)\<rparr>), nf t) \<and>
    (\<forall>urn. urn \<noteq> res_URN r \<longrightarrow> fst (GetByURN urn (nf t)) = fst (GetByURN urn (nf s)))"
  using assms by (rule Update_stored)

end
