(* ===== verification/Pg_Props.thy ===== *)
theory Pg_Props
  imports Pg_Roundtrip Pg_Service
begin

text \<open>
  Behaviour of the resource store seen through the service: duplicate and missing resources,
  deletion, the paging of listings, and the pick-up of resources for syncing, alone and by two
  workers at once.
\<close>

section \<open>Runs on a faultless connection\<close>

lemma withinTx_Err_faultless:
  "w_faults s = [] \<Longrightarrow> fn s = (Err e, t) \<Longrightarrow> withinTx ro fn s = (Err e, rollback_to s t)"
  by (simp add: withinTx_def stmt_def)

lemma translateURNToID_faultless:
  "w_faults s = [] \<Longrightarrow> translateURNToID urn s =
     (case row_by_urn urn (w_tables s) of None \<Rightarrow> (Err ErrNoRows, s) | Some rec \<Rightarrow> (Ok (rm_ID rec), s))"
  by (simp add: translateURNToID_def query_faultless run_simps split: option.split)

lemma stmt_faultless: "w_faults s = [] \<Longrightarrow> stmt body s = body s"
  by (simp add: stmt_def)

lemma exec_faultless: "w_faults s = [] \<Longrightarrow> exec f s = (Ok (), s\<lparr>w_tables := f (pg_time (w_now s)) (w_tables s)\<rparr>)"
  by (simp add: exec_def stmt_def)

lemma rollback_to_self: "w_tables (rollback_to s t) = w_tables s"
  by (simp add: rollback_to_def)

section \<open>Duplicates, missing resources and deletion\<close>

lemma Create_duplicate:
  assumes "w_faults s = []" and "row_by_urn (res_URN r) (w_tables s) \<noteq> None"
  shows "\<exists>e. Create r [] s = (Err e, s\<lparr>w_res_seq := w_res_seq s + 1\<rparr>) \<and> isConflict e"
proof -
  have "list_ex (\<lambda>row. rm_URN row = res_URN r) (t_resources (w_tables s))"
    using assms(2) by (auto simp: row_by_urn_def find_None_iff list_ex_iff)
  then have i: "insertResourceRecord r s =
      (Err (unique_violation ''resources_urn_key''), s\<lparr>w_res_seq := w_res_seq s + 1\<rparr>)"
    using assms(1) by (simp add: insertResourceRecord_def stmt_faultless)
  let ?e = "translateErr (unique_violation ''resources_urn_key'')"
  have "insertResource r [] s = (Err ?e, s\<lparr>w_res_seq := w_res_seq s + 1\<rparr>)"
    by (simp add: insertResource_def translated_def run_simps i)
  then have "Create r [] s = (Err ?e, s\<lparr>w_res_seq := w_res_seq s + 1\<rparr>)"
    using assms(1) by (simp add: Create_def withinTx_Err_faultless rollback_to_def)
  moreover have "isConflict ?e"
    by (simp add: translateErr_def unique_violation_def)
  ultimately show ?thesis by blast
qed

lemma Update_missing:
  assumes "w_faults s = []" and "row_by_urn (res_URN r) (w_tables s) = None"
  shows "Update r sv reason [] s = (Err ErrNoRows, s)"
proof -
  have "updateResource r sv reason [] s = (Err ErrNoRows, s)"
    using assms by (simp add: updateResource_def run_simps translateURNToID_faultless)
  then show ?thesis
    using assms(1) by (simp add: Update_def withinTx_Err_faultless rollback_to_def)
qed

lemma Delete_faultless:
  assumes "w_faults s = []" and "row_by_urn urn (w_tables s) = Some row"
  shows "Delete urn [] s = (Ok (), s\<lparr>w_tables := (w_tables s)
    \<lparr>t_deps := filter (\<lambda>d. dep_resource_id d \<noteq> rm_ID row) (t_deps (w_tables s)),
     t_tags := filter (\<lambda>r. tag_owner r \<noteq> rm_ID row) (t_tags (w_tables s))\<rparr>\<rparr>)"
proof -
  have "deleteFn urn [] s = (Ok (), s\<lparr>w_tables := (w_tables s)
    \<lparr>t_deps := filter (\<lambda>d. dep_resource_id d \<noteq> rm_ID row) (t_deps (w_tables s)),
     t_tags := filter (\<lambda>r. tag_owner r \<noteq> rm_ID row) (t_tags (w_tables s))\<rparr>\<rparr>)"
    using assms by (simp add: deleteFn_def run_simps translateURNToID_faultless exec_faultless)
  then show ?thesis
    using assms(1) by (simp add: Delete_def withinTx_faultless)
qed

section \<open>Picking up a resource\<close>

lemma select_due_Ok:
  assumes "select_due st scope s = (Ok urn, t)" and "\<And>rs. set (pg_order st rs) = set rs"
  shows "nf t = nf s \<and> (\<exists>row \<in> set (t_resources (w_tables s)).
    rm_URN row = urn \<and> due (pg_time (w_now s)) row \<and> in_scope scope row)"
proof -
  let ?rows = "filter (\<lambda>r. due (pg_time (w_now s)) r \<and> in_scope scope r) (t_resources (w_tables s))"
  obtain r rest where o: "pg_order st ?rows = r # rest" and "urn = rm_URN r" and t: "nf t = nf s"
    using assms(1)
    by (auto simp: select_due_def stmt_def split: fault.splits if_splits list.splits)
  moreover have "r \<in> set ?rows"
    using assms(2) [of ?rows] o by (metis list.set_intros(1))
  ultimately show ?thesis by auto
qed

lemma fetchResourceForSync_Ok:
  fixes s t :: "'x world"
  assumes "fetchResourceForSync st scope s = (Ok urn, t)" and "\<And>rs. set (pg_order st rs) = set rs"
  shows "(\<exists>row \<in> set (t_resources (w_tables s)). rm_URN row = urn \<and> due (pg_time (w_now s)) row \<and> in_scope scope row) \<and>
    nf t = (nf s)\<lparr>w_tables := map_rows (\<lambda>r. rm_URN r = urn)
      (\<lambda>r. r\<lparr>rm_StateNextSync := Some (pg_time (pg_time (w_now s) + pg_extendInterval st))\<rparr>) (w_tables s)\<rparr>"
proof -
  from withinTx_Ok [OF assms(1) [unfolded fetchResourceForSync_def]] obtain u v where
    sel: "select_due st scope (tick_fault s) = (Ok urn, v)" and ext: "extendWaitTime st urn v = (Ok (), u)"
    and t: "nf t = nf u"
    by (auto simp: bindS_Ok_iff ret_def)
  from select_due_Ok [OF sel assms(2)] have v: "nf v = nf s" by simp
  then have "w_tables v = w_tables s" "w_now v = w_now s"
    by (metis nf_simps(1), metis nf_simps(4))
  then show ?thesis
    using select_due_Ok [OF sel assms(2)] exec_Ok [OF ext [unfolded extendWaitTime_def]] t v by simp
qed

section \<open>The sync of one resource\<close>

lemma SyncOne_Ok:
  assumes "SyncOne st scope fn s = (Ok (), t)"
  shows "(\<exists>e u. fetchResourceForSync st scope s = (Err e, u) \<and> t = u) \<or>
    (\<exists>urn u v cur w w' synced.
       fetchResourceForSync st scope s = (Ok urn, u) \<and> GetByURN urn u = (Ok cur, v) \<and>
       runHeartbeat st (pg_heartbeats st (res_URN cur)) (res_URN cur) v = (Ok (), w) \<and>
       fn cur w = (Ok synced, w') \<and> Update synced False ''sync'' [] w' = (Ok (), t))"
proof (cases "fetchResourceForSync st scope s")
  case (Pair r u)
  then show ?thesis
    using assms
    by (cases r) (auto simp: SyncOne_def catchS_def handleDequeued_def bindS_Ok_iff ret_def fail_def split: if_splits)
qed

section \<open>Paging\<close>

text \<open>The page a filter asks for, in unbounded arithmetic.\<close>

definition asked_size :: "Store \<Rightarrow> Filter \<Rightarrow> int" where
  "asked_size st f = sint (page_size st f)"

definition asked_offset :: "Store \<Rightarrow> Filter \<Rightarrow> int" where
  "asked_offset st f = (sint (page_num st f) - 1) * sint (page_size st f)"

lemma sint_offset:
  assumes "1 \<le> sint (page_num st f)" and "0 \<le> sint (page_size st f)" and "asked_offset st f < 2 ^ 31"
  shows "sint (page_offset st f) = asked_offset st f"
proof -
  have nonneg: "0 \<le> asked_offset st f"
    using assms(1,2) by (simp add: asked_offset_def)
  have "page_offset st f = word_of_int (asked_offset st f)"
    by (simp add: page_offset_def asked_offset_def)
  then have "sint (page_offset st f) = signed_take_bit 31 (asked_offset st f)"
    by (simp add: sint_sbintrunc')
  also have "\<dots> = asked_offset st f"
    using nonneg assms(3) by (simp add: signed_take_bit_int_eq_self)
  finally show ?thesis .
qed

lemma page_of_asked:
  assumes "1 \<le> sint (page_num st f)" and "1 \<le> sint (page_size st f)" and "asked_offset st f < 2 ^ 31"
  shows "page_of (page_size st f) (page_offset st f) rows =
    Ok (take (nat (asked_size st f)) (drop (nat (asked_offset st f)) rows))"
proof -
  have off: "sint (page_offset st f) = asked_offset st f"
    using assms by (intro sint_offset) simp_all
  have "0 \<le> asked_offset st f"
    using assms(1,2) by (simp add: asked_offset_def)
  moreover have "page_size st f \<noteq> 0"
    using assms(2) by auto
  ultimately show ?thesis
    using assms(2) by (simp add: page_of_def off asked_size_def)
qed

lemma sint_word_of_nat: "p < 2 ^ 31 \<Longrightarrow> sint (word_of_nat p :: 32 word) = int p"
  using sint_sbintrunc' [of "int p", where ?'a = 32] by (simp add: signed_take_bit_int_eq_self)

text \<open>The rows of page \<open>p\<close>.\<close>

lemma page_rows:
  assumes n: "sint (page_size st f) = int n" "1 \<le> n" and p: "1 \<le> p" "p * n < 2 ^ 31"
    and f': "f' = f\<lparr>fl_PageNum := word_of_nat p\<rparr>"
  shows "page_of (page_size st f') (page_offset st f') rows = Ok (take n (drop ((p - 1) * n) rows))"
proof -
  have "p \<le> p * n" using n(2) by simp
  then have sp: "sint (word_of_nat p :: 32 word) = int p"
    by (intro sint_word_of_nat le_less_trans [OF _ p(2)])
  then have num: "sint (page_num st f') = int p"
    using p(1) by (simp add: page_num_def f')
  have size: "page_size st f' = page_size st f"
    by (simp add: page_size_def f')
  have off: "asked_offset st f' = int ((p - 1) * n)"
    using p(1) by (simp add: asked_offset_def num size n(1) of_nat_diff)
  have "(p - 1) * n \<le> p * n" by simp
  then have "(p - 1) * n < 2 ^ 31" using p(2) by (rule le_less_trans)
  then have "int ((p - 1) * n) < int (2 ^ 31)" by (simp only: of_nat_less_iff)
  then have "asked_offset st f' < 2 ^ 31" unfolding off by simp
  then have "page_of (page_size st f') (page_offset st f') rows =
      Ok (take (nat (asked_size st f')) (drop (nat (asked_offset st f')) rows))"
    by (intro page_of_asked) (use n p in \<open>simp_all add: num size\<close>)
  moreover have "nat (asked_size st f') = n" by (simp add: asked_size_def size n(1))
  ultimately show ?thesis unfolding off nat_int by simp
qed

text \<open>Reading rows and decoding them works row by row.\<close>

lemma scan_rows_Ok_iff:
  "scan_rows st w t rows = Ok items \<longleftrightarrow> list_all2 (\<lambda>r i. scan_rows st w t [r] = Ok [i]) rows items"
proof (induction rows arbitrary: items)
  case (Cons r rows)
  show ?case
  proof (cases items)
    case (Cons i tl)
    with Cons.IH [of tl] show ?thesis by (auto split: result.splits)
  qed (auto split: result.splits)
qed auto

lemma listed_resource_state: "listed_resource i s = (Ok x, t) \<Longrightarrow> t = s"
  by (auto simp: listed_resource_def bindS_def catchS_def liftR_def ret_def fail_def Let_def split: result.splits option.splits)

lemma listed_resources_Ok_iff:
  "listed_resources items s = (Ok all, t) \<longleftrightarrow> t = s \<and> list_all2 (\<lambda>i x. listed_resource i s = (Ok x, s)) items all"
proof (induction items arbitrary: all)
  case Nil
  then show ?case by (auto simp: ret_def)
next
  case (Cons i items)
  have "listed_resources (i # items) s = (Ok all, t) \<longleftrightarrow>
      (\<exists>x xs. all = x # xs \<and> listed_resource i s = (Ok x, s) \<and> listed_resources items s = (Ok xs, t))"
    using listed_resource_state [of i s] unfolding listed_resources.simps bindS_Ok_iff ret_def
    by (metis (no_types, lifting) Pair_inject result.inject(1))
  then show ?case by (simp only: Cons.IH list_all2_Cons1) blast
qed

lemma listed_page:
  assumes "scan_rows st w t rows = Ok items" and "listed_resources items s = (Ok all, s)"
  shows "bindS (liftR (scan_rows st w t (take n (drop m rows)))) listed_resources s = (Ok (take n (drop m all)), s)"
proof -
  from assms(1) have "scan_rows st w t (take n (drop m rows)) = Ok (take n (drop m items))"
    unfolding scan_rows_Ok_iff [of _ _ _ rows] scan_rows_Ok_iff [of _ _ _ "take n (drop m rows)"]
    by (intro list_all2_takeI list_all2_dropI)
  moreover from assms(2) have "listed_resources (take n (drop m items)) s = (Ok (take n (drop m all)), s)"
    unfolding listed_resources_Ok_iff by (auto intro: list_all2_takeI list_all2_dropI)
  ultimately show ?thesis by (simp add: bindS_def catchS_def liftR_def)
qed

lemma List_of_page:
  assumes "w_faults s = []"
    and "page_of (page_size st f) (page_offset st f) (matching_rows st (fl_Project f) (fl_Kind f) (w_tables s)) = Ok rows"
  shows "List st f w s = bindS (liftR (scan_rows st w (w_tables s) rows)) listed_resources s"
  using assms
  by (simp add: List_def listResourceWithSpecConfigsByFilter_def listResourceByFilter_def list_resources_def
      bindS_def catchS_def liftR_def stmt_faultless split: result.split)

section \<open>Properties\<close>

text \<open>C30: The pages of a listing partition it, if the database keeps to one order. The query of \<open>List\<close> has no
  \<open>ORDER BY\<close>, so the query of page \<open>p\<close> may arrange the rows in an order \<open>ord p\<close> of its own. When the
  queries of the pages 1 to \<open>k\<close> arrange the matching rows in the same way, the rows can be decoded, and
  page number times page size stays below 2^31, every page is served, and the pages are, one after the
  other, exactly the first \<open>k\<close> times the page size of the listed resources: none is skipped and none
  appears twice.\<close>

theorem pages_partition:
  assumes "w_faults s = []" and "sint (page_size st f) = int n" and "1 \<le> n" and "k * n < 2 ^ 31"
    and "\<forall>p \<in> {1..k}. matching_rows (st\<lparr>pg_order := ord p\<rparr>) (fl_Project f) (fl_Kind f) (w_tables s) = rows"
    and "scan_rows st withSpecConfigs (w_tables s) rows = Ok items" and "listed_resources items s = (Ok all, s)"
  shows "\<exists>pages. (\<forall>p \<in> {1..k}. List (st\<lparr>pg_order := ord p\<rparr>) (f\<lparr>fl_PageNum := word_of_nat p\<rparr>) withSpecConfigs s =
      (Ok (pages p), s)) \<and> concat (map pages [1..<Suc k]) = take (k * n) all"
proof (intro exI conjI ballI)
  let ?pages = "\<lambda>p. take n (drop ((p - 1) * n) all)"
  have scan: "scan_rows (st\<lparr>pg_order := o'\<rparr>) w t rs = scan_rows st w t rs" for o' w t rs
    by (induction rs) (simp_all cong: result.case_cong)
  show "List (st\<lparr>pg_order := ord p\<rparr>) (f\<lparr>fl_PageNum := word_of_nat p\<rparr>) withSpecConfigs s = (Ok (?pages p), s)"
    if p: "p \<in> {1..k}" for p
  proof -
    let ?st = "st\<lparr>pg_order := ord p\<rparr>" and ?f = "f\<lparr>fl_PageNum := word_of_nat p\<rparr>"
    have size: "page_size ?st f = page_size st f" by (simp add: page_size_def)
    have "p * n \<le> k * n" using p by simp
    then have "p * n < 2 ^ 31" using assms(4) by (rule le_less_trans)
    then have "page_of (page_size ?st ?f) (page_offset ?st ?f) rows = Ok (take n (drop ((p - 1) * n) rows))"
      using assms(2,3) p size by (intro page_rows [OF _ _ _ _ refl]) simp_all
    moreover have "matching_rows ?st (fl_Project ?f) (fl_Kind ?f) (w_tables s) = rows"
      using assms(5) p by simp
    ultimately show ?thesis
      using List_of_page [OF assms(1), of ?st ?f] listed_page [OF assms(6,7)] by (simp add: scan)
  qed
  show "concat (map ?pages [1..<Suc k]) = take (k * n) all"
  proof (induction k)
    case (Suc k)
    have "take (Suc k * n) all = take (k * n) all @ take n (drop (k * n) all)"
      by (simp add: take_add add.commute [of n])
    with Suc.IH show ?case by simp
  qed simp
qed

text \<open>Beyond 32 bits the offset wraps around. With a page size of \<open>2^30\<close>, page 3 has the offset
  \<open>2^31\<close>, which is negative as an \<open>int32\<close>: the listing fails with the server's error, whatever is
  stored.\<close>

theorem List_offset_wraps:
  assumes "w_faults s = []" and "fl_PageSize f = 2 ^ 30" and "fl_PageNum f = 3"
  shows "List st f withSpecConfigs s =
    (Err (PqErr ''invalid_row_count_in_result_offset_clause'' ''OFFSET must not be negative''), s)"
proof -
  have "sint (page_offset st f) < 0"
    using assms(2,3) by (simp add: page_offset_def page_num_def page_size_def)
  then show ?thesis
    using assms(1)
    by (simp add: List_def listResourceWithSpecConfigsByFilter_def listResourceByFilter_def list_resources_def
        bindS_def catchS_def fail_def stmt_faultless page_of_def)
qed



text \<open>\<open>Delete\<close> does not remove the resource. On a working connection it succeeds for a stored URN and
  takes away the labels and dependencies of the resource; the resource row stays, so the URN is
  still found and cannot be created again.\<close>

theorem Delete_keeps_resource:
  assumes "w_faults s = []" and "row_by_urn urn (w_tables s) = Some row"
    and "decode_SyncResult (rm_StateSyncResult row) = Ok sr"
  shows "\<exists>t. Delete urn [] s = (Ok (), t) \<and> t_resources (w_tables t) = t_resources (w_tables s) \<and>
    GetByURN urn t = (Ok (model_to_resource row (Some []) (Some []) sr), t) \<and>
    (\<forall>r. res_URN r = urn \<longrightarrow> (\<exists>e u. Create r [] t = (Err e, u) \<and> isConflict e))"
proof -
  let ?t = "s\<lparr>w_tables := (w_tables s)
    \<lparr>t_deps := filter (\<lambda>d. dep_resource_id d \<noteq> rm_ID row) (t_deps (w_tables s)),
     t_tags := filter (\<lambda>r. tag_owner r \<noteq> rm_ID row) (t_tags (w_tables s))\<rparr>\<rparr>"
  have d: "Delete urn [] s = (Ok (), ?t)"
    by (rule Delete_faultless [OF assms(1,2)])
  have row: "row_by_urn urn (w_tables ?t) = Some row"
    using assms(2) by (simp add: row_by_urn_def)
  have "tags_of ResourceTags (rm_ID row) (w_tables ?t) = []"
    by (simp add: tags_of_def get_tags_def filter_empty_conv)
  moreover have "deps_of (rm_ID row) (w_tables ?t) = []"
    by (simp add: deps_of_def filter_empty_conv)
  ultimately have "GetByURN urn ?t = (Ok (model_to_resource row (Some []) (Some []) sr), ?t)"
    using GetByURN_faultless [of ?t urn row sr "Some []"] assms(1,3) row
    by (simp add: tagsToLabelMap_def)
  moreover have "\<exists>e u. Create r [] ?t = (Err e, u) \<and> isConflict e" if "res_URN r = urn" for r
    using Create_duplicate [of ?t r] assms(1) row that by auto
  ultimately show ?thesis
    using d by (intro exI [of _ ?t]) simp
qed

text \<open>What a syncer picks up. Whatever the connection does, a successful \<open>fetchResourceForSync\<close> names a
  stored resource that is due and in the worker's scope, and its only effect is that this
  resource's next sync is the extension interval ahead.\<close>

theorem fetch_picks_due:
  fixes s t :: "'x world"
  assumes "\<And>rs. set (pg_order st rs) = set rs" and "fetchResourceForSync st scope s = (Ok urn, t)"
  shows "(\<exists>row \<in> set (t_resources (w_tables s)). rm_URN row = urn \<and> due (pg_time (w_now s)) row \<and> in_scope scope row) \<and>
    w_tables t = map_rows (\<lambda>r. rm_URN r = urn)
      (\<lambda>r. r\<lparr>rm_StateNextSync := Some (pg_time (pg_time (w_now s) + pg_extendInterval st))\<rparr>) (w_tables s)"
  using fetchResourceForSync_Ok [OF assms(2,1)] nf_tablesD by blast

end
