(* ===== verification/Pg_Reach.thy ===== *)
theory Pg_Reach
  imports Pg_Service
begin

text \<open>
  The states the program can reach: any sequence of calls of the resource and module services and
  of syncer ticks from the migrated database, with arbitrary connection faults, clock and outside world in between.
  The invariant holds in all of them, and every call returns.
\<close>

section \<open>Calls\<close>

datatype call =
    CallGet string
  | CallList Filter bool
  | CallLog string "string gomap"
  | CallRevisions string
  | CallCreate Resource "Options list"
  | CallUpdate string UpdateRequest "Options list"
  | CallAction string ActionRequest "Options list"
  | CallDelete string
  | CallTick scope
  | CallGetModule string
  | CallListModules string
  | CallCreateModule Module
  | CallUpdateModule string raw
  | CallDeleteModule string

definition discard :: "('s, 'a) go \<Rightarrow> ('s, unit) go" where
  "discard m = bindS m (\<lambda>_. ret ())"

fun run_call :: "nat \<Rightarrow> 's Service \<Rightarrow> 's module_Service \<Rightarrow> call \<Rightarrow> ('s, unit) go" where
  "run_call n svc mr (CallGet urn) = discard (GetResource n svc urn)"
| "run_call n svc mr (CallList f w) = discard (ListResources svc f w)"
| "run_call n svc mr (CallLog urn f) = discard (GetLog n svc urn f)"
| "run_call n svc mr (CallRevisions urn) = discard (GetRevisions svc urn)"
| "run_call n svc mr (CallCreate r opts) = discard (CreateResource n svc r opts)"
| "run_call n svc mr (CallUpdate urn req opts) = discard (UpdateResource n svc urn req opts)"
| "run_call n svc mr (CallAction urn act opts) = discard (ApplyAction n svc urn act opts)"
| "run_call n svc mr (CallDelete urn) = discard (DeleteResource n svc urn)"
| "run_call n svc mr (CallTick scope) = syncer_tick n svc scope"
| "run_call n svc mr (CallGetModule urn) = discard (GetModule mr urn)"
| "run_call n svc mr (CallListModules project) = discard (ListModules mr project)"
| "run_call n svc mr (CallCreateModule m) = discard (CreateModule mr m)"
| "run_call n svc mr (CallUpdateModule urn configs) = discard (UpdateModule mr urn configs)"
| "run_call n svc mr (CallDeleteModule urn) = discard (DeleteModule mr urn)"

text \<open>
  \<open>reachable svc mr n s\<close>: a state after calls of the two services, each with \<open>n\<close> stack frames available,
  as long as fewer than \<open>n\<close> resource ids were handed out. Between calls the clock, the fault script
  and the outside world change freely.
\<close>

inductive reachable :: "'x world Service \<Rightarrow> 'x world module_Service \<Rightarrow> nat \<Rightarrow> 'x world \<Rightarrow> bool" for svc mr n where
  start: "reachable svc mr n (migrated faults now ext)"
| step: "reachable svc mr n s \<Longrightarrow> w_res_seq s \<le> n \<Longrightarrow> reachable svc mr n (snd (run_call n svc mr c s))"
| outside: "reachable svc mr n s \<Longrightarrow> db_part t = db_part s \<Longrightarrow> reachable svc mr n t"

section \<open>Reading calls of the store\<close>

lemma scan_rows_no_overflow:
  assumes "\<And>ts. pg_scanTags st ts \<noteq> Overflow"
  shows "scan_rows st w t rs \<noteq> Overflow"
  by (induction rs; cases w) (use assms in \<open>auto split: result.splits\<close>)

lemma depsBytesToMap_no_overflow: "depsBytesToMap r \<noteq> Overflow"
  by (auto simp: depsBytesToMap_def json_parse_def Let_def
      split: option.split bytes.split json.split list.split)

lemma reads_listed_resources: "reads (listed_resources rows)"
proof (induction rows)
  case Nil
  show ?case unfolding listed_resources.simps by (rule reads_ret)
next
  case (Cons r rows)
  show ?case
    unfolding listed_resources.simps listed_resource_def Let_def
    by (intro reads_bindS reads_ret reads_liftR decode_SyncResult_no_overflow depsBytesToMap_no_overflow
        tagsToLabelMap_no_overflow Cons.IH)
qed

lemma page_of_no_overflow: "page_of l off rs \<noteq> Overflow"
  by (simp add: page_of_def Let_def)

lemma reads_list_resources:
  "(\<And>ts. pg_scanTags st ts \<noteq> Overflow) \<Longrightarrow> reads (list_resources st w p k l off)"
  unfolding list_resources_def
  by (rule reads_stmt) (auto split: result.split simp: page_of_no_overflow scan_rows_no_overflow)

lemma reads_List: "(\<And>ts. pg_scanTags st ts \<noteq> Overflow) \<Longrightarrow> reads (List st f w)"
  unfolding List_def listResourceByFilter_def listResourceWithSpecConfigsByFilter_def
  by (cases w) (simp_all only: if_True if_False, (intro reads_bindS reads_list_resources reads_listed_resources, assumption)+)

lemma reads_label_revisions: "reads (label_revisions rs)"
proof (induction rs)
  case Nil
  show ?case unfolding label_revisions.simps by (rule reads_ret)
next
  case (Cons r rs)
  show ?case
    unfolding label_revisions.simps readRevisionTags_def
    by (intro reads_bindS reads_ret reads_liftR tagsToLabelMap_no_overflow reads_readTags Cons.IH)
qed

lemma reads_Revisions: "reads (Revisions urn)"
proof -
  have h: "reads (if errors_Is err ErrNoRows then ret [] else fail err)" for err
    by (simp add: reads_ret reads_fail)
  show ?thesis
    unfolding Revisions_def
    by (intro reads_catchS reads_withinTx reads_bindS reads_translateURNToID reads_readResourceDeps
        reads_query reads_label_revisions reads_ret h)
qed

section \<open>Calls of the module service\<close>

lemma reads_ListModules: "reads (Store_ListModules project)"
proof -
  have "reads (read_modules urns)" for urns
  proof (induction urns)
    case (Cons urn urns)
    then show ?case
      unfolding read_modules.simps by (intro reads_bindS reads_ret reads_readModuleRecord)
  next
    case Nil
    show ?case unfolding read_modules.simps by (rule reads_ret)
  qed
  then show ?thesis
    unfolding Store_ListModules_def by (intro reads_catchS reads_query) (simp_all add: reads_ret reads_fail)
qed

lemma safe_CreateModule: "safe (ranked_inv \<rho> n) (Store_CreateModule m)"
  unfolding Store_CreateModule_def insertModuleRecord_def
  by (intro safe_translated safe_stmt) (auto simp: hoare_def intro: ranked_inv_other_tables)

lemma safe_UpdateModule: "safe (ranked_inv \<rho> n) (Store_UpdateModule m)"
  and safe_DeleteModule: "safe (ranked_inv \<rho> n) (Store_DeleteModule urn)"
  unfolding Store_UpdateModule_def Store_DeleteModule_def
  by (intro safe_translated safe_exec, simp add: ranked_inv_other_tables)+

lemma sanitise_result: "(\<exists>m'. sanitise now ic m = (Ok (), m')) \<or> (\<exists>e m'. sanitise now ic m = (Err e, m'))"
  by (simp add: sanitise_def Let_def)

lemma safe_module_create:
  fixes reg :: "'x world Registry"
  assumes "registry_ok reg"
  shows "safe (ranked_inv \<rho> n) (CreateModule (pg_module_Service reg) m)"
proof (rule hoareI)
  fix s :: "'x world"
  assume inv: "ranked_inv \<rho> n s"
  from sanitise_result [of "w_now s" True m]
  show "ranked_inv \<rho> n (snd (CreateModule (pg_module_Service reg) m s)) \<and>
      fst (CreateModule (pg_module_Service reg) m s) \<noteq> Overflow"
  proof (elim disjE exE)
    fix m' assume ok: "sanitise (w_now s) True m = (Ok (), m')"
    have "safe (ranked_inv \<rho> n :: 'x world \<Rightarrow> bool)
        (catchS (liftR (GetDriver reg m'))
          (\<lambda>_. catchS (Store_CreateModule m') (\<lambda>_. ret m')
             (\<lambda>err. if isConflict err then
                      fail (EErr (WithCausef
                        (WithMsgf ErrConflict ''module with given name and project already exists'')
                        (error_text err)))
                    else fail err))
          (\<lambda>err. fail (driver_error m' err)))"
      by (intro safe_catchS safe_liftR safe_CreateModule safe_ret safe_fail safe_if GetDriver_no_overflow assms)
    then show ?thesis
      using ok inv by (simp add: CreateModule_def pg_module_Service_def pg_module_Store_def hoare_def)
  qed (use inv in \<open>simp add: CreateModule_def pg_module_Service_def\<close>)
qed

lemma safe_module_update:
  fixes reg :: "'x world Registry"
  shows "safe (ranked_inv \<rho> n) (UpdateModule (pg_module_Service reg) urn configs)"
  unfolding UpdateModule_def
proof (rule safe_bindS)
  show "safe (ranked_inv \<rho> n) (ms_GetModule (mr_store (pg_module_Service reg)) urn)"
    by (simp add: pg_module_Service_def pg_module_Store_def safe_reads [OF reads_GetModule])
  fix m0 :: Module
  show "safe (ranked_inv \<rho> n) (\<lambda>s. case sanitise (mr_Now (pg_module_Service reg) s) False (m0\<lparr>mod_Configs := configs\<rparr>) of
       (Ok _, m) \<Rightarrow> bindS (ms_UpdateModule (mr_store (pg_module_Service reg)) m) (\<lambda>_. ret m) s
     | (Err e, _) \<Rightarrow> (Err e, s)
     | (Panic p, _) \<Rightarrow> (Panic p, s)
     | (Overflow, _) \<Rightarrow> (Overflow, s))"
  proof (rule hoareI, goal_cases)
    case (1 s)
    have "safe (ranked_inv \<rho> n :: 'x world \<Rightarrow> bool) (bindS (Store_UpdateModule m) (\<lambda>_. ret m))" for m
      by (intro safe_bindS safe_UpdateModule safe_ret)
    then show ?case
      using 1 sanitise_result [of "w_now s" False "m0\<lparr>mod_Configs := configs\<rparr>"]
      by (auto simp: pg_module_Service_def pg_module_Store_def hoare_def)
  qed
qed

section \<open>Every call keeps the invariant and returns\<close>

context pg_service
begin

abbreviation "svc \<equiv> entropy st reg backoff maxRetries name int64Counter add"

abbreviation "mr \<equiv> pg_module_Service reg"

lemma discard_keeps:
  "hoare P m (\<lambda>r s. db_inv s \<and> r \<noteq> Overflow) \<Longrightarrow> hoare P (discard m) (\<lambda>r s. db_inv s \<and> r \<noteq> Overflow)"
  unfolding discard_def by (erule hoare_bindS) (auto intro: hoare_ret)

lemma weaken_safe:
  "safe (\<lambda>s. db_inv s \<and> db_rank s = \<rho>) m \<Longrightarrow>
     hoare (\<lambda>s. db_inv s \<and> db_rank s = \<rho>) m (\<lambda>r s. db_inv s \<and> r \<noteq> Overflow)"
  by (erule hoare_weaken) auto

lemma reads_keeps: "reads m \<Longrightarrow> safe (\<lambda>s. db_inv s \<and> db_rank s = \<rho>) m"
  by (rule safe_reads [of _ \<rho> 0, unfolded ranked_inv_0])

lemma GetLog_safe:
  assumes "\<And>u. \<rho> u < n"
  shows "safe (\<lambda>s. db_inv s \<and> db_rank s = \<rho>) (GetLog n svc urn filt)"
  unfolding GetLog_def
  by (intro safe_bindS safe_catchS safe_ret safe_if safe_fail pg.GetResource_keeps pg.logs_safe assms
      hoare_weaken [OF pg.generateModuleSpec_safe]) (auto simp: assms)

lemma run_call_keeps:
  assumes n: "\<And>u. \<rho> u < n" and scan: "\<And>ts. pg_scanTags st ts \<noteq> Overflow"
  shows "hoare (\<lambda>s. db_inv s \<and> db_rank s = \<rho>) (run_call n svc mr c) (\<lambda>r s. db_inv s \<and> r \<noteq> Overflow)"
proof (cases c)
  case (CallList f w)
  have "rs_List (svc_store svc) f w = List st f w" by (simp add: entropy_defs)
  then show ?thesis
    unfolding CallList run_call.simps ListResources_def Let_def
    using reads_keeps [OF reads_List [OF scan], of \<rho> f w]
    by (intro discard_keeps weaken_safe safe_catchS safe_ret safe_fail) simp
next
  case (CallRevisions urn)
  have "rs_Revisions (svc_store svc) urn = Revisions urn" by (simp add: entropy_defs)
  then show ?thesis
    unfolding CallRevisions run_call.simps GetRevisions_def
    using reads_keeps [OF reads_Revisions, of \<rho> urn]
    by (intro discard_keeps weaken_safe safe_catchS safe_ret safe_fail) simp
next
  case (CallGetModule urn)
  have "GetModule mr urn = Store_GetModule urn"
    by (simp add: GetModule_def pg_module_Service_def pg_module_Store_def)
  then show ?thesis
    unfolding CallGetModule run_call.simps by (simp only:) (rule discard_keeps weaken_safe reads_keeps reads_GetModule)+
next
  case (CallListModules project)
  have "ListModules mr project = Store_ListModules project"
    by (simp add: ListModules_def pg_module_Service_def pg_module_Store_def)
  then show ?thesis
    unfolding CallListModules run_call.simps by (simp only:) (rule discard_keeps weaken_safe reads_keeps reads_ListModules)+
next
  case (CallDeleteModule urn)
  have "DeleteModule mr urn = Store_DeleteModule urn"
    by (simp add: DeleteModule_def pg_module_Service_def pg_module_Store_def)
  then show ?thesis
    unfolding CallDeleteModule run_call.simps
    by (simp only:) (rule discard_keeps weaken_safe safe_DeleteModule [of \<rho> 0 urn, unfolded ranked_inv_0])+
next
  case (CallCreateModule m)
  show ?thesis
    unfolding CallCreateModule run_call.simps
    by (rule discard_keeps weaken_safe safe_module_create [OF registry, of \<rho> 0 m, unfolded ranked_inv_0])+
next
  case (CallUpdateModule urn configs)
  show ?thesis
    unfolding CallUpdateModule run_call.simps
    by (rule discard_keeps weaken_safe safe_module_update [of \<rho> 0 reg urn configs, unfolded ranked_inv_0])+
qed (use n in \<open>auto simp only: run_call.simps intro!: discard_keeps weaken_safe [OF pg.syncer_tick_safe]
    weaken_safe [OF pg.GetResource_keeps] weaken_safe [OF GetLog_safe] pg.CreateResource_keeps
    pg.UpdateResource_keeps pg.ApplyAction_keeps pg.DeleteResource_keeps\<close>)

lemma run_call_inv:
  assumes "db_inv s" and "w_res_seq s \<le> n" and "\<And>ts. pg_scanTags st ts \<noteq> Overflow"
  shows "db_inv (snd (run_call n svc mr c s)) \<and> fst (run_call n svc mr c s) \<noteq> Overflow"
proof -
  have "db_rank s u < n" for u
    using db_rank_less [OF assms(1), of u] assms(2) by simp
  from run_call_keeps [of "db_rank s", OF this assms(3)] assms(1) show ?thesis
    unfolding hoare_def by blast
qed

lemma reachable_inv:
  assumes "reachable svc mr n s" and "\<And>ts. pg_scanTags st ts \<noteq> Overflow"
  shows "db_inv s"
  using assms(1)
proof induction
  case (start faults now ext)
  then show ?case by (simp add: migrated_def db_inv_def tables_ok_def dep_rows_ok_def empty_tables_def)
next
  case (step s c)
  then show ?case using run_call_inv assms(2) by blast
next
  case (outside s t)
  then show ?case by (simp add: db_inv_def)
qed

end

section \<open>Properties\<close>

text \<open>C1: the resource tables stay well-formed. In every state reachable by any calls of the resource
  and module services and the syncer, with any connection faults at any statement, URNs and ids are unique, ids
  are below the sequence, dependency rows point to existing rows, and every dependency has a
  smaller id than its dependant, so the dependency graph is acyclic. Drivers are assumed to act on
  the outside world only and to plan resources with their own identity.\<close>

theorem reachable_tables_ok:
  assumes "registry_ok reg" and "\<forall>service c. int64Counter service c \<noteq> Overflow"
    and "\<forall>ts. pg_scanTags st ts \<noteq> Overflow"
    and "reachable (entropy st reg backoff maxRetries name int64Counter add) (pg_module_Service reg) n s"
  shows "distinct (map rm_URN (t_resources (w_tables s))) \<and> distinct (map rm_ID (t_resources (w_tables s))) \<and>
    (\<forall>r \<in> set (t_resources (w_tables s)). 0 < rm_ID r \<and> rm_ID r < w_res_seq s) \<and>
    (\<forall>d \<in> set (t_deps (w_tables s)).
       dep_resource_id d \<in> rm_ID ` set (t_resources (w_tables s)) \<and>
       dep_depends_on d \<in> rm_ID ` set (t_resources (w_tables s)) \<and>
       dep_depends_on d < dep_resource_id d)"
proof -
  have "pg_service reg int64Counter"
    using assms(1,2) by (intro pg_service.intro) auto
  from pg_service.reachable_inv [OF this assms(4)] assms(3) have "db_inv s" by blast
  then show ?thesis by (simp add: db_inv_def tables_ok_def dep_rows_ok_def)
qed

text \<open>C2: every call returns. In every reachable state, the mutual recursion of \<open>GetResource\<close> and
  \<open>generateModuleSpec\<close> along the dependencies ends within as many stack frames as resource ids
  were handed out, so no service call and no syncer tick exhausts the stack.\<close>

theorem calls_terminate:
  assumes "registry_ok reg" and "\<forall>service c. int64Counter service c \<noteq> Overflow"
    and "\<forall>ts. pg_scanTags st ts \<noteq> Overflow"
    and "reachable (entropy st reg backoff maxRetries name int64Counter add) (pg_module_Service reg) n s" and "w_res_seq s \<le> n"
  shows "fst (run_call n (entropy st reg backoff maxRetries name int64Counter add) (pg_module_Service reg) c s) \<noteq> Overflow"
proof -
  have svc: "pg_service reg int64Counter"
    using assms(1,2) by (intro pg_service.intro) auto
  from pg_service.reachable_inv [OF svc assms(4)] assms(3) have "db_inv s" by blast
  from pg_service.run_call_inv [OF svc this assms(5)] assms(3) show ?thesis by blast
qed

end
