(* ===== verification/Entropy_Props.thy ===== *)
theory Entropy_Props
  imports Pg_Props Pg_Reach
begin

text \<open>
  End-to-end behaviour of the service over its Postgres store: what \<open>CreateResource\<close>,
  \<open>ApplyAction\<close> and a syncer tick leave in the database.
\<close>

section \<open>States between the steps of an operation\<close>

lemma fst_GetByURN_ext:
  fixes s t :: "'x world"
  assumes "w_tables t = w_tables s"
  shows "fst (GetByURN urn (nf t)) = fst (GetByURN urn (nf s))"
  by (rule GetByURN_cong) (simp_all add: assms)

context pg_service
begin

lemma spec_inv:
  assumes "db_inv s" and "w_res_seq s \<le> n" and "generateModuleSpec n svc res s = (Ok spec, u)"
  shows "db_inv u"
proof -
  have "db_rank s v < n" for v
    using db_rank_less [OF assms(1), of v] assms(2) by simp
  then have "hoare (\<lambda>t. db_inv t \<and> db_rank t = db_rank s) (generateModuleSpec n svc res)
      (\<lambda>r t. (db_inv t \<and> db_rank t = db_rank s) \<and> r \<noteq> Overflow \<and> (\<forall>spec. r = Ok spec \<longrightarrow> er_Resource spec = res \<and>
         (\<forall>(k, v) \<in> set (entries (sp_Dependencies (res_Spec res))). db_rank s v \<noteq> 0)))"
    by (intro pg.generateModuleSpec_safe)
  from hoareD [OF this _ assms(3)] assms(1) show ?thesis by blast
qed

lemma plan_inv:
  assumes "db_inv s" and "msv_PlanAction (svc_moduleSvc svc) spec act s = (Ok p, u)"
  shows "db_inv u"
  using hoareD [OF pg.plan_safe [of "db_rank s"] _ assms(2)] assms(1) by blast

lemma sync_inv:
  assumes "db_inv s" and "\<And>v. db_rank s v < n" and "handleSync n svc res s = (Ok res', u)"
  shows "db_inv u \<and> same_identity res' res"
  using hoareD [OF pg.handleSync_safe [of "db_rank s", OF assms(2)] _ assms(3)] assms(1) by blast

end

lemma store_of_entropy [simp]:
  "svc_store (entropy st reg backoff maxRetries name int64Counter add) = pg_resource_Store st"
  "svc_clock (entropy st reg backoff maxRetries name int64Counter add) = w_now"
  by (simp_all add: entropy_def New_def)

lemma counterAdd_entropy:
  "w_tables (svc_counterAdd (entropy st reg backoff maxRetries name int64Counter add) c u s) = w_tables s"
  by (simp add: entropy_def New_def)

section \<open>Properties\<close>

lemma CreateResource_stored:
  fixes s t :: "'x world"
  assumes "registry_ok reg" and "\<forall>service c. int64Counter service c \<noteq> Overflow"
    and "db_inv s" and "w_res_seq s \<le> n"
    and "CreateResource n (entropy st reg backoff maxRetries name int64Counter add) res opts s = (Ok p, t)"
    and "\<not> dry_run opts" and "storable p"
  shows "fst (GetByURN (res_URN p) (nf t)) = Ok (stored p)"
proof -
  let ?svc = "entropy st reg backoff maxRetries name int64Counter add"
  have svc: "pg_service reg int64Counter"
    using assms(1,2) by (intro pg_service.intro) auto
  from assms(5) obtain res' act where
    e: "execAction n ?svc res' act (dry_run opts) s = (Ok p, t)" and act: "act_Name act = CreateAction"
    by (auto simp: CreateResource_def Let_def fail_def panicS_def overflowS_def split: prod.splits result.splits)
  from execAction_Ok [OF e] act assms(6) obtain spec u q v w where
    g: "generateModuleSpec n ?svc res' s = (Ok spec, u)" and
    a: "msv_PlanAction (svc_moduleSvc ?svc) spec act u = (Ok q, v)" and
    c: "rs_Create (svc_store ?svc) p [] v = (Ok (), w)" and
    t: "t = svc_counterAdd ?svc ''pending_counter'' (res_URN res') w"
    unfolding isCreate_def by auto
  have "db_inv v"
    using pg_service.plan_inv [OF svc pg_service.spec_inv [OF svc assms(3,4) g] a] .
  moreover have "Create p [] v = (Ok (), w)"
    using c by (simp add: pg_resource_Store_def)
  ultimately have "GetByURN (res_URN p) (nf w) = (Ok (stored p), nf w)"
    using Create_stored assms(7) by blast
  then show ?thesis
    using fst_GetByURN_ext [of t w "res_URN p"] by (simp add: t counterAdd_entropy)
qed



end
