(* ===== verification/Validator.thy ===== *)
theory Validator
  imports Module_Types
begin

text \<open>
  \<open>pkg/validator\<close> and \<open>modules/utils.go\<close>: JSON-schema and struct-tag validation over the two
  validation libraries, map merging, and the construction of Kubernetes-safe resource names.
  The digests of the standard library (\<open>sha256\<close>, \<open>md5\<close>, as hexadecimal text) are parameters.
\<close>

section \<open>Validation\<close>

definition FromJSONSchema :: "schema outcome \<Rightarrow> raw \<Rightarrow> unit outcome" where
  "FromJSONSchema compiled_schema jsonVal =
     (case compiled_schema of
        Err schemaErr \<Rightarrow> Err (internal_cause schemaErr)
      | Ok sch \<Rightarrow>
          (case sch jsonVal of
             Err e \<Rightarrow> Err (internal_cause e)
           | Ok errorStrings \<Rightarrow>
               if errorStrings \<noteq> [] then Err (invalid (join [CHR 0x0A] errorStrings)) else Ok ()
           | Panic p \<Rightarrow> Panic p
           | Overflow \<Rightarrow> Overflow)
      | Panic p \<Rightarrow> Panic p
      | Overflow \<Rightarrow> Overflow)"

text \<open>
  What the struct validator reports: a value of type \<open>ValidationErrors\<close> with its text, or
  another error. \<open>errors.As\<close> looks for a \<open>*ValidationErrors\<close>, which is neither.
\<close>

datatype struct_error = ValidationErrors "(string \<times> string) list" string | InvalidStruct string

definition As_ValidationErrors_ptr :: "struct_error \<Rightarrow> (string \<times> string) list option" where
  "As_ValidationErrors_ptr e = None"

definition struct_error_text :: "struct_error \<Rightarrow> string" where
  "struct_error_text e = (case e of ValidationErrors _ txt \<Rightarrow> txt | InvalidStruct txt \<Rightarrow> txt)"

definition TaggedStruct :: "('v \<Rightarrow> struct_error option) \<Rightarrow> 'v \<Rightarrow> unit outcome" where
  "TaggedStruct library v =
     (case library v of
        None \<Rightarrow> Ok ()
      | Some err \<Rightarrow>
          (case As_ValidationErrors_ptr err of
             Some fs \<Rightarrow>
               Err (EErr (WithCausef (WithMsgf ErrInvalid ''invalid values for fields'')
                 (join '', '' (map (\<lambda>(f, tag). f @ '': '' @ tag) fs))))
           | None \<Rightarrow> Err (EErr (WithCausef ErrInvalid (struct_error_text err)))))"

lemma FromJSONSchema_no_overflow:
  "sc \<noteq> Overflow \<Longrightarrow> (\<And>sch. sc = Ok sch \<Longrightarrow> sch j \<noteq> Overflow) \<Longrightarrow> FromJSONSchema sc j \<noteq> Overflow"
  by (auto simp: FromJSONSchema_def split: result.splits)

lemma TaggedStruct_no_overflow: "TaggedStruct lib v \<noteq> Overflow"
  by (auto simp: TaggedStruct_def split: option.splits)

section \<open>Maps\<close>

definition CloneAndMergeMaps :: "string gomap \<Rightarrow> string gomap \<Rightarrow> string gomap" where
  "CloneAndMergeMaps m1 m2 = Some (put_all (entries m2) (put_all (entries m1) []))"

lemma CloneAndMergeMaps_lookup:
  assumes "wf_map m1" and "wf_map m2"
  shows "lookup (CloneAndMergeMaps m1 m2) k = (case lookup m2 k of Some v \<Rightarrow> Some v | None \<Rightarrow> lookup m1 k)"
proof -
  have "map_of (put_all (entries m2) (put_all (entries m1) [])) = (Map.empty ++ map_of (entries m1)) ++ map_of (entries m2)"
    using assms unfolding wf_map_def by (simp only: map_of_put_all map_of.simps(1))
  then show ?thesis
    unfolding lookup_def CloneAndMergeMaps_def by (simp add: map_add_def split: option.split)
qed

section \<open>Names\<close>

definition MAX_NAME_LIMIT :: int where "MAX_NAME_LIMIT = 63"
definition RESOURCE_NAME_HASH_LEN :: int where "RESOURCE_NAME_HASH_LEN = 8"

text \<open>\<open>s[0:n]\<close> and \<open>s[:n]\<close>: a slice out of range panics.\<close>

definition slice_to :: "string \<Rightarrow> int \<Rightarrow> string outcome" where
  "slice_to s n =
     (if n < 0 \<or> int (length s) < n then Panic ''slice bounds out of range'' else Ok (take (nat n) s))"

definition trim_hyphens :: "string \<Rightarrow> string" where
  "trim_hyphens s = rev (dropWhile (\<lambda>c. c = CHR ''-'') (rev (dropWhile (\<lambda>c. c = CHR ''-'') s)))"

definition SafeName :: "(string \<Rightarrow> string) \<Rightarrow> string \<Rightarrow> string \<Rightarrow> int \<Rightarrow> string outcome" where
  "SafeName sha256_hex name0 suffix0 maxLen =
     (let name = TrimSuffix name0 suffix0
      in if int (length name) \<le> maxLen - int (length suffix0) then Ok (name @ suffix0)
         else
           let suffix = ''-'' @ take 6 (sha256_hex name) @ suffix0;
               truncLen = maxLen - int (length suffix)
           in case slice_to name truncLen of
                Ok truncated \<Rightarrow> Ok (trim_hyphens truncated @ suffix)
              | Err e \<Rightarrow> Err e
              | Panic p \<Rightarrow> Panic p
              | Overflow \<Rightarrow> Overflow)"

text \<open>\<open>regexp.MustCompile("c+").ReplaceAllString(s, "-")\<close> for one character \<open>c\<close>.\<close>

fun squeeze :: "char \<Rightarrow> string \<Rightarrow> string" where
  "squeeze c [] = []"
| "squeeze c [x] = (if x = c then ''-'' else [x])"
| "squeeze c (x # y # ys) =
     (if x = c then (if y = c then squeeze c (y # ys) else CHR ''-'' # squeeze c (y # ys))
      else x # squeeze c (y # ys))"

definition slug_char :: "char \<Rightarrow> bool" where
  "slug_char c \<longleftrightarrow> is_name_char c \<or> c = CHR '' ''"

definition slug :: "string \<Rightarrow> string" where
  "slug input = ToLower (filter slug_char (squeeze (CHR '' '') (squeeze (CHR ''_'') input)))"

definition BuildResourceName ::
    "(string \<Rightarrow> string) \<Rightarrow> string \<Rightarrow> string \<Rightarrow> string \<Rightarrow> int \<Rightarrow> string outcome" where
  "BuildResourceName md5_hex kind name projectID limit0 =
     (let limit = (if limit0 = 0 then MAX_NAME_LIMIT else limit0);
          sluggedName = slug name;
          initialName = slug (join ''-'' [projectID, name, kind]);
          charSizeToRemove = limit - int (length initialName);
          hashStr = take (nat RESOURCE_NAME_HASH_LEN) (md5_hex sluggedName)
      in if charSizeToRemove \<ge> 0 then Ok (slug (join ''-'' [projectID, sluggedName, kind]))
         else
           case slice_to sluggedName
                  (int (length sluggedName) + (charSizeToRemove + - (RESOURCE_NAME_HASH_LEN + 1))) of
             Ok pre \<Rightarrow> Ok (slug (join ''-'' [projectID, pre @ ''-'' @ hashStr, kind]))
           | Err e \<Rightarrow> Err e
           | Panic p \<Rightarrow> Panic p
           | Overflow \<Rightarrow> Overflow)"

lemma length_trim_hyphens: "length (trim_hyphens s) \<le> length s"
  unfolding trim_hyphens_def by (metis length_dropWhile_le length_rev order_trans)

text \<open>\<open>SafeName\<close> keeps names within the limit: for a digest of at least six characters and a limit
  that leaves room for the hyphen, the six characters and the suffix, it returns a name (it never
  panics) that ends in the suffix and is at most \<open>maxLen\<close> bytes long, and a name that fits already
  is kept with exactly one suffix.\<close>

theorem SafeName_bounded:
  assumes "6 \<le> length (sha256_hex (TrimSuffix name suffix))" and "7 + int (length suffix) \<le> maxLen"
  shows "\<exists>n. SafeName sha256_hex name suffix maxLen = Ok n \<and> int (length n) \<le> maxLen \<and>
    (\<exists>p. n = p @ suffix) \<and>
    (int (length (TrimSuffix name suffix)) + int (length suffix) \<le> maxLen \<longrightarrow> n = TrimSuffix name suffix @ suffix)"
proof (cases "int (length (TrimSuffix name suffix)) \<le> maxLen - int (length suffix)")
  case True
  then show ?thesis by (auto simp: SafeName_def Let_def)
next
  case False
  let ?n = "TrimSuffix name suffix"
  let ?h = "take 6 (sha256_hex ?n)"
  let ?l = "maxLen - int (7 + length suffix)"
  have h: "length ?h = 6" using assms(1) by simp
  then have len: "int (length (''-'' @ ?h @ suffix)) = int (7 + length suffix)" by simp
  have s: "slice_to ?n ?l = Ok (take (nat ?l) ?n)"
    using assms(2) False by (simp add: slice_to_def)
  have "length (trim_hyphens (take (nat ?l) ?n)) \<le> nat ?l"
    using length_trim_hyphens [of "take (nat ?l) ?n"] by simp
  then have b: "int (length (trim_hyphens (take (nat ?l) ?n) @ ''-'' @ ?h @ suffix)) \<le> maxLen"
    using assms(2) h by simp
  have r: "SafeName sha256_hex name suffix maxLen = Ok (trim_hyphens (take (nat ?l) ?n) @ ''-'' @ ?h @ suffix)"
    using False s len by (simp add: SafeName_def Let_def)
  show ?thesis
    using r b False by (intro exI [of _ "trim_hyphens (take (nat ?l) ?n) @ ''-'' @ ?h @ suffix"]) auto
qed

end
