(* ===== verification/Json_More.thy ===== *)
theory Json_More
  imports Json
begin

text \<open>
  Decoding and encoding of the field types the Kubernetes-based modules use: bounded integers,
  numbers that are kept as written, maps with struct values, and members that are left out when empty.
\<close>

section \<open>Setters\<close>

text \<open>An \<open>int32\<close>, and a pointer to one.\<close>

definition int32_ok :: "int \<Rightarrow> bool" where
  "int32_ok i \<longleftrightarrow> - (2 ^ 31) \<le> i \<and> i < 2 ^ 31"

text \<open>The conversion \<open>int32(x)\<close>.\<close>

definition to_int32 :: "int \<Rightarrow> int" where
  "to_int32 i = (i + 2 ^ 31) mod 2 ^ 32 - 2 ^ 31"

definition set_int32 :: "((int \<Rightarrow> int) \<Rightarrow> 'r \<Rightarrow> 'r) \<Rightarrow> 'r setter" where
  "set_int32 upd j r =
     (case j of JInt i \<Rightarrow> if int32_ok i then Some (upd (\<lambda>_. i) r) else None | JNull \<Rightarrow> Some r | _ \<Rightarrow> None)"

definition set_int32_ptr :: "((int option \<Rightarrow> int option) \<Rightarrow> 'r \<Rightarrow> 'r) \<Rightarrow> 'r setter" where
  "set_int32_ptr upd j r =
     (case j of JInt i \<Rightarrow> if int32_ok i then Some (upd (\<lambda>_. Some i) r) else None
      | JNull \<Rightarrow> Some (upd (\<lambda>_. None) r) | _ \<Rightarrow> None)"

text \<open>A floating-point field, kept as the number it was written as.\<close>

definition set_num :: "((json \<Rightarrow> json) \<Rightarrow> 'r \<Rightarrow> 'r) \<Rightarrow> 'r setter" where
  "set_num upd j r =
     (case j of JInt i \<Rightarrow> Some (upd (\<lambda>_. j) r) | JFloat f \<Rightarrow> Some (upd (\<lambda>_. j) r) | JNull \<Rightarrow> Some r | _ \<Rightarrow> None)"

text \<open>A struct of a library, kept as the object it was decoded from.\<close>

definition set_object :: "((json \<Rightarrow> json) \<Rightarrow> 'r \<Rightarrow> 'r) \<Rightarrow> 'r setter" where
  "set_object upd j r =
     (case j of JObj kvs \<Rightarrow> Some (upd (\<lambda>_. j) r) | JNull \<Rightarrow> Some r | _ \<Rightarrow> None)"

text \<open>A map: every element is decoded into a fresh zero value.\<close>

fun json_map :: "(json \<Rightarrow> 'b option) \<Rightarrow> (string \<times> json) list \<Rightarrow> (string \<times> 'b) list option" where
  "json_map dec [] = Some []"
| "json_map dec ((k, j) # kvs) =
     (case dec j of Some b \<Rightarrow> map_option ((#) (k, b)) (json_map dec kvs) | None \<Rightarrow> None)"

definition set_map :: "(json \<Rightarrow> 'b option) \<Rightarrow> (('b gomap \<Rightarrow> 'b gomap) \<Rightarrow> 'r \<Rightarrow> 'r) \<Rightarrow> 'r setter" where
  "set_map dec upd j r =
     (case j of
        JObj kvs \<Rightarrow>
          (case json_map dec kvs of
             Some m \<Rightarrow> Some (upd (\<lambda>old. Some (put_all m (entries old))) r)
           | None \<Rightarrow> None)
      | JNull \<Rightarrow> Some (upd (\<lambda>_. None) r)
      | _ \<Rightarrow> None)"

definition dec_obj :: "(string \<times> 'b setter) list \<Rightarrow> 'b \<Rightarrow> json \<Rightarrow> 'b option" where
  "dec_obj fs zero j = (case decode_obj fs j zero of Ok b \<Rightarrow> Some b | _ \<Rightarrow> None)"

definition dec_objs :: "(string \<times> 'b setter) list \<Rightarrow> 'b \<Rightarrow> json \<Rightarrow> 'b list option" where
  "dec_objs fs zero j =
     (case j of JArr js \<Rightarrow> decode_objs fs zero js [] | JNull \<Rightarrow> Some [] | _ \<Rightarrow> None)"

section \<open>Encoders\<close>

text \<open>A nil slice prints as \<open>null\<close>; the slices encoded here are nil when they have no elements.\<close>

definition enc_list :: "('b \<Rightarrow> json) \<Rightarrow> 'b list \<Rightarrow> json" where
  "enc_list enc bs = (if bs = [] then JNull else JArr (map enc bs))"

definition enc_map :: "('b \<Rightarrow> json) \<Rightarrow> 'b gomap \<Rightarrow> json" where
  "enc_map enc m = (case m of None \<Rightarrow> JNull | Some kvs \<Rightarrow> JObj (map (\<lambda>(k, b). (k, enc b)) (sort_key fst kvs)))"

definition omit_empty_list :: "string \<Rightarrow> ('b \<Rightarrow> json) \<Rightarrow> 'b list \<Rightarrow> (string \<times> json) list" where
  "omit_empty_list k enc bs = (if bs = [] then [] else [(k, JArr (map enc bs))])"

definition omit_empty_map :: "string \<Rightarrow> string gomap \<Rightarrow> (string \<times> json) list" where
  "omit_empty_map k m = (if entries m = [] then [] else [(k, enc_strmap m)])"

section \<open>Lemmas\<close>

lemma Unmarshal_no_overflow: "Unmarshal fs r x \<noteq> Overflow" "Unmarshal fs r x \<noteq> Panic p"
  by (auto simp: Unmarshal_def json_parse_def decode_obj_def
      split: option.split bytes.split json.split list.split prod.split)

lemma decode_obj_Cons:
  assumes "field_for fs k = Some f" and "f j r = Some r'"
  shows "decode_obj fs (JObj ((k, j) # kvs)) r = decode_obj fs (JObj kvs) r'"
  using assms by (simp add: decode_obj_def set_member_def)

lemma decode_obj_omit:
  assumes "field_for fs k = Some (set_str upd)"
  shows "decode_obj fs (JObj (omit_empty_str k v @ kvs)) r =
    decode_obj fs (JObj kvs) (if v = [] then r else upd (\<lambda>_. v) r)"
  using assms by (simp add: omit_empty_str_def decode_obj_def set_member_def set_str_def)

lemma decode_obj_Nil [simp]: "decode_obj fs (JObj []) r = Ok r"
  by (simp add: decode_obj_def)

text \<open>Decoding what was encoded, member by member.\<close>

lemma decode_obj_str:
  "field_for fs k = Some (set_str upd) \<Longrightarrow>
     decode_obj fs (JObj ((k, JStr v) # kvs)) r = decode_obj fs (JObj kvs) (upd (\<lambda>_. v) r)"
  by (simp add: decode_obj_def set_member_def set_str_def)

lemma decode_obj_omit_strs:
  "field_for fs k = Some (set_strs upd) \<Longrightarrow>
     decode_obj fs (JObj (omit_empty_list k JStr ss @ kvs)) r =
     decode_obj fs (JObj kvs) (if ss = [] then r else upd (\<lambda>_. ss) r)"
  by (simp add: omit_empty_list_def decode_obj_def set_member_def set_strs_def)

lemma decode_objs_map:
  "(\<And>b x. b \<in> set bs \<Longrightarrow> decode_obj fs (enc b) x = Ok (dec b)) \<Longrightarrow> decode_objs fs zero (map enc bs) old = Some (map dec bs)"
  by (induction bs arbitrary: old) (auto split: list.split)

lemma decode_objs_fresh:
  "(\<And>b. b \<in> set bs \<Longrightarrow> decode_obj fs (enc b) zero = Ok (dec b)) \<Longrightarrow> decode_objs fs zero (map enc bs) [] = Some (map dec bs)"
  by (induction bs) auto

lemma decode_obj_omit_objs:
  assumes "field_for fs k = Some (set_objs gs zero get upd)" and "get r = []"
    and "\<And>b. b \<in> set bs \<Longrightarrow> decode_obj gs (enc b) zero = Ok (dec b)"
  shows "decode_obj fs (JObj (omit_empty_list k enc bs @ kvs)) r =
    decode_obj fs (JObj kvs) (if bs = [] then r else upd (\<lambda>_. map dec bs) r)"
  using assms decode_objs_fresh [of bs gs enc zero dec]
  by (simp add: omit_empty_list_def decode_obj_def set_member_def set_objs_def)

text \<open>The map an encoded map decodes to: sorted by key; an empty one is left out.\<close>

definition sorted_map :: "'b gomap \<Rightarrow> 'b gomap" where
  "sorted_map m = (if entries m = [] then None else Some (put_all (sort_key fst (entries m)) []))"

lemma decode_obj_omit_map:
  assumes "field_for fs k = Some (set_strmap upd)"
    and "\<And>f g. upd f (upd g r) = upd (f \<circ> g) r" and "upd (\<lambda>_. None) r = r"
  shows "decode_obj fs (JObj (omit_empty_map k m @ kvs)) r = decode_obj fs (JObj kvs) (upd (\<lambda>_. sorted_map m) r)"
proof (cases "entries m = []")
  case True
  then show ?thesis using assms(3) by (simp add: omit_empty_map_def sorted_map_def)
next
  case False
  then obtain kvs' where m: "m = Some kvs'" by (cases m) (auto simp: entries_def)
  have "upd (\<lambda>old. Some (put_all (sort_key fst kvs') (entries old))) r = upd (\<lambda>_. Some (put_all (sort_key fst kvs') [])) r"
    using assms(2) [of "\<lambda>old. Some (put_all (sort_key fst kvs') (entries old))" "\<lambda>_. None"] assms(3)
    by (simp add: o_def entries_def)
  then show ?thesis
    using False assms(1) m
    by (simp add: omit_empty_map_def enc_strmap_def sorted_map_def decode_obj_def set_member_def set_strmap_def
        entries_def)
qed

lemma sorted_map_lookup: "wf_map m \<Longrightarrow> lookup (sorted_map m) k = lookup m k"
proof -
  assume wf: "wf_map m"
  have "map_of (put_all (sort_key fst (entries m)) []) = map_of (sort_key fst (entries m))"
    using wf map_of_put_all [of "sort_key fst (entries m)" "[]"]
    by (simp add: wf_map_def distinct_map inj_on_def)
  moreover have "map_of (sort_key fst (entries m)) = map_of (entries m)"
    using wf by (intro map_of_inject_set [THEN iffD2]) (auto simp: wf_map_def distinct_map inj_on_def)
  ultimately show ?thesis
    by (simp add: sorted_map_def lookup_def entries_def)
qed

end
