(* ===== verification/Driver_Kafka.thy ===== *)
theory Driver_Kafka
  imports Validator Json_More
begin

text \<open>
  \<open>modules/kafka\<close>: the driver of Kafka resources. It acts on nothing outside: \<open>Plan\<close> merges the
  parameters into the stored config and completes the resource at once, \<open>Output\<close> recomputes the
  broker URL. The check of the embedded schema is the parameter \<open>validateConfig\<close>.
\<close>

section \<open>Configuration\<close>

record AdvertiseMode =
  am_Host :: string
  am_Address :: string

record Broker =
  bk_Name :: string
  bk_Host :: string
  bk_Address :: string

record kafka_Config =
  kc_Entity :: string
  kc_Environment :: string
  kc_Landscape :: string
  kc_Organization :: string
  kc_AdvertiseMode :: AdvertiseMode
  kc_Brokers :: "Broker list"
  kc_Type :: string

record kafka_driverConf =
  kd_Type :: string
  kd_Entity :: string
  kd_Organization :: string
  kd_Landscape :: string
  kd_Environment :: string

definition kafka_defaultDriverConf :: kafka_driverConf where
  "kafka_defaultDriverConf =
     \<lparr>kd_Type = ''source'', kd_Entity = [], kd_Organization = [], kd_Landscape = [], kd_Environment = []\<rparr>"

definition kafka_driverConf_fields :: "(string \<times> kafka_driverConf setter) list" where
  "kafka_driverConf_fields =
     [(''type'', set_str kd_Type_update), (''entity'', set_str kd_Entity_update),
      (''organization'', set_str kd_Organization_update), (''landscape'', set_str kd_Landscape_update),
      (''environment'', set_str kd_Environment_update)]"

definition AdvertiseMode_fields :: "(string \<times> AdvertiseMode setter) list" where
  "AdvertiseMode_fields = [(''host'', set_str am_Host_update), (''address'', set_str am_Address_update)]"

definition Broker_fields :: "(string \<times> Broker setter) list" where
  "Broker_fields =
     [(''name'', set_str bk_Name_update), (''host'', set_str bk_Host_update), (''address'', set_str bk_Address_update)]"

definition zero_Broker :: Broker where
  "zero_Broker = \<lparr>bk_Name = [], bk_Host = [], bk_Address = []\<rparr>"

definition kafka_Config_fields :: "(string \<times> kafka_Config setter) list" where
  "kafka_Config_fields =
     [(''entity'', set_str kc_Entity_update), (''environment'', set_str kc_Environment_update),
      (''landscape'', set_str kc_Landscape_update), (''organization'', set_str kc_Organization_update),
      (''advertise_mode'', set_obj AdvertiseMode_fields kc_AdvertiseMode kc_AdvertiseMode_update),
      (''brokers'', set_objs Broker_fields zero_Broker kc_Brokers kc_Brokers_update),
      (''type'', set_str kc_Type_update)]"

definition AdvertiseMode_json :: "AdvertiseMode \<Rightarrow> json" where
  "AdvertiseMode_json m = JObj [(''host'', JStr (am_Host m)), (''address'', JStr (am_Address m))]"

definition Broker_json :: "Broker \<Rightarrow> json" where
  "Broker_json b =
     JObj [(''name'', JStr (bk_Name b)), (''host'', JStr (bk_Host b)), (''address'', JStr (bk_Address b))]"

definition kafka_Config_json :: "kafka_Config \<Rightarrow> json" where
  "kafka_Config_json cfg =
     JObj (omit_empty_str ''entity'' (kc_Entity cfg) @ omit_empty_str ''environment'' (kc_Environment cfg) @
           omit_empty_str ''landscape'' (kc_Landscape cfg) @ omit_empty_str ''organization'' (kc_Organization cfg) @
           [(''advertise_mode'', AdvertiseMode_json (kc_AdvertiseMode cfg))] @
           (if kc_Brokers cfg = [] then [] else [(''brokers'', JArr (map Broker_json (kc_Brokers cfg)))]) @
           [(''type'', JStr (kc_Type cfg))])"

definition unmarshal_failed :: "gerror \<Rightarrow> gerror" where
  "unmarshal_failed err = EErr (WithCausef (WithMsgf ErrInvalid ''failed to unmarshal'') (error_text err))"

definition kafka_readConfig ::
    "(raw \<Rightarrow> unit outcome) \<Rightarrow> Resource \<Rightarrow> raw \<Rightarrow> kafka_driverConf \<Rightarrow> kafka_Config outcome" where
  "kafka_readConfig validateConfig res confJSON dc =
     (let cfg0 = \<lparr>kc_Entity = kd_Entity dc, kc_Environment = kd_Environment dc, kc_Landscape = kd_Landscape dc,
                  kc_Organization = kd_Organization dc, kc_AdvertiseMode = \<lparr>am_Host = [], am_Address = []\<rparr>,
                  kc_Brokers = [], kc_Type = kd_Type dc\<rparr>;
          r1 = (if sp_Configs (res_Spec res) \<noteq> None
                then Unmarshal kafka_Config_fields (sp_Configs (res_Spec res)) cfg0 else Ok cfg0)
      in case r1 of
           Ok cfg1 \<Rightarrow>
             (case Unmarshal kafka_Config_fields confJSON cfg1 of
                Ok cfg \<Rightarrow>
                  (case validateConfig (raw_doc (kafka_Config_json cfg)) of
                     Ok _ \<Rightarrow> Ok cfg | Err e \<Rightarrow> Err e | Panic p \<Rightarrow> Panic p | Overflow \<Rightarrow> Overflow)
              | Err e \<Rightarrow> Err (unmarshal_failed e)
              | Panic p \<Rightarrow> Panic p
              | Overflow \<Rightarrow> Overflow)
         | Err e \<Rightarrow> Err (unmarshal_failed e)
         | Panic p \<Rightarrow> Panic p
         | Overflow \<Rightarrow> Overflow)"

section \<open>Driver\<close>

definition mapUrl :: "kafka_Config \<Rightarrow> string" where
  "mapUrl cfg =
     (let (mode, port) = (if am_Address (kc_AdvertiseMode cfg) \<noteq> []
                          then (''address'', am_Address (kc_AdvertiseMode cfg))
                          else (''host'', am_Host (kc_AdvertiseMode cfg)));
          urls = map (\<lambda>broker. (if mode = ''address'' then bk_Address broker else bk_Host broker) @ '':'' @ port)
                   (kc_Brokers cfg)
      in join '','' urls)"

definition kafka_Output_json :: "kafka_Config \<Rightarrow> raw" where
  "kafka_Output_json cfg = raw_doc (JObj [(''url'', JStr (mapUrl cfg))])"

definition kafka_Plan ::
    "(raw \<Rightarrow> unit outcome) \<Rightarrow> kafka_driverConf \<Rightarrow> ExpandedResource \<Rightarrow> ActionRequest \<Rightarrow> ('s, Resource) go" where
  "kafka_Plan validateConfig conf res act =
     bindS (liftR (kafka_readConfig validateConfig (er_Resource res) (act_Params act) conf)) (\<lambda>cfg.
       ret ((er_Resource res)
         \<lparr>res_Spec := \<lparr>sp_Configs = raw_doc (kafka_Config_json cfg), sp_Dependencies = None\<rparr>,
          res_State := zero_State\<lparr>st_Status := StatusCompleted, st_Output := kafka_Output_json cfg\<rparr>\<rparr>))"

definition kafka_Sync :: "ExpandedResource \<Rightarrow> ('s, State) go" where
  "kafka_Sync res =
     ret (zero_State\<lparr>st_Status := StatusCompleted, st_Output := st_Output (res_State (er_Resource res))\<rparr>)"

definition kafka_Output ::
    "(raw \<Rightarrow> unit outcome) \<Rightarrow> kafka_driverConf \<Rightarrow> ExpandedResource \<Rightarrow> ('s, raw) go" where
  "kafka_Output validateConfig conf res =
     bindS (liftR (kafka_readConfig validateConfig (er_Resource res) (sp_Configs (res_Spec (er_Resource res))) conf))
       (\<lambda>cfg. ret (kafka_Output_json cfg))"

definition kafka_driver :: "(raw \<Rightarrow> unit outcome) \<Rightarrow> kafka_driverConf \<Rightarrow> 's Driver" where
  "kafka_driver validateConfig conf =
     \<lparr>dr_Plan = plan_only (kafka_Plan validateConfig conf), dr_Sync = kafka_Sync, dr_Output = kafka_Output validateConfig conf,
      dr_Log = None\<rparr>"

definition kafka_Module :: "(raw \<Rightarrow> unit outcome) \<Rightarrow> 's Descriptor" where
  "kafka_Module validateConfig =
     \<lparr>desc_Kind = ''kafka'', desc_Actions = [plain_action CreateAction, plain_action UpdateAction],
      desc_Dependencies = None,
      desc_DriverFactory = (\<lambda>confJSON.
        case Unmarshal kafka_driverConf_fields confJSON kafka_defaultDriverConf of
          Ok conf \<Rightarrow> Ok (kafka_driver validateConfig conf)
        | Err e \<Rightarrow> Err e
        | Panic p \<Rightarrow> Panic p
        | Overflow \<Rightarrow> Overflow)\<rparr>"

section \<open>Lemmas\<close>

lemma kafka_readConfig_no_overflow:
  assumes "\<And>j. v j \<noteq> Overflow"
  shows "kafka_readConfig v res j dc \<noteq> Overflow"
  using assms by (auto simp: kafka_readConfig_def Let_def Unmarshal_no_overflow split: result.splits)

text \<open>Decoding the encoding of a config over another one gives its URL-relevant parts.\<close>

lemma decode_Broker [simp]: "decode_obj Broker_fields (Broker_json b) x = Ok b"
  by (cases b) (simp add: decode_obj_def Broker_json_def set_member_def field_for_def Broker_fields_def set_str_def)

lemma decode_Brokers: "decode_objs Broker_fields zero_Broker (map Broker_json bs) old = Some bs"
  by (induction bs arbitrary: old) (auto split: list.split)

lemma decode_AdvertiseMode [simp]: "decode_obj AdvertiseMode_fields (AdvertiseMode_json m) x = Ok m"
  by (cases m) (simp add: decode_obj_def AdvertiseMode_json_def set_member_def field_for_def AdvertiseMode_fields_def
      set_str_def)

lemma kafka_fields [simp]:
  "field_for kafka_Config_fields ''entity'' = Some (set_str kc_Entity_update)"
  "field_for kafka_Config_fields ''environment'' = Some (set_str kc_Environment_update)"
  "field_for kafka_Config_fields ''landscape'' = Some (set_str kc_Landscape_update)"
  "field_for kafka_Config_fields ''organization'' = Some (set_str kc_Organization_update)"
  "field_for kafka_Config_fields ''advertise_mode'' =
     Some (set_obj AdvertiseMode_fields kc_AdvertiseMode kc_AdvertiseMode_update)"
  "field_for kafka_Config_fields ''brokers'' = Some (set_objs Broker_fields zero_Broker kc_Brokers kc_Brokers_update)"
  "field_for kafka_Config_fields ''type'' = Some (set_str kc_Type_update)"
  by (simp_all add: field_for_def kafka_Config_fields_def)

lemma decode_kafka_Config:
  "\<exists>cfg'. Unmarshal kafka_Config_fields (raw_doc (kafka_Config_json cfg)) x = Ok cfg' \<and>
     kc_AdvertiseMode cfg' = kc_AdvertiseMode cfg \<and>
     kc_Brokers cfg' = (if kc_Brokers cfg = [] then kc_Brokers x else kc_Brokers cfg)"
  unfolding Unmarshal_def kafka_Config_json_def
  by (simp add: decode_obj_omit decode_obj_Cons [where f = "set_obj f g u" for f g u] set_obj_def
      decode_obj_Cons [where f = "set_objs f z g u" for f z g u] set_objs_def decode_Brokers)
    (simp add: decode_obj_def set_member_def set_obj_def set_objs_def set_str_def decode_Brokers)

section \<open>Properties\<close>

text \<open>The output of a Kafka resource is stable. Whatever \<open>Plan\<close> returned, \<open>Output\<close> on the planned
  resource either rejects the config or recomputes exactly the output that \<open>Plan\<close> stored, so
  reading the resource does not rewrite it; and the planned resource is completed and declares no
  dependencies.\<close>

theorem kafka_Output_stable:
  assumes "kafka_Plan v conf res act s = (Ok p, t)"
  shows "st_Status (res_State p) = StatusCompleted \<and> entries (sp_Dependencies (res_Spec p)) = [] \<and>
    (case fst (kafka_Output v conf \<lparr>er_Resource = p, er_Dependencies = deps\<rparr> u) of
       Ok out \<Rightarrow> out = st_Output (res_State p)
     | _ \<Rightarrow> True)"
proof -
  from assms obtain cfg where
    p: "p = (er_Resource res)
         \<lparr>res_Spec := \<lparr>sp_Configs = raw_doc (kafka_Config_json cfg), sp_Dependencies = None\<rparr>,
          res_State := zero_State\<lparr>st_Status := StatusCompleted, st_Output := kafka_Output_json cfg\<rparr>\<rparr>"
    by (auto simp: kafka_Plan_def bindS_Ok_iff ret_def)
  have "kc_AdvertiseMode c = kc_AdvertiseMode cfg \<and> kc_Brokers c = kc_Brokers cfg"
    if c: "kafka_readConfig v p (raw_doc (kafka_Config_json cfg)) conf = Ok c" for c
  proof -
    let ?x = "\<lparr>kc_Entity = kd_Entity conf, kc_Environment = kd_Environment conf, kc_Landscape = kd_Landscape conf,
                  kc_Organization = kd_Organization conf, kc_AdvertiseMode = \<lparr>am_Host = [], am_Address = []\<rparr>,
                  kc_Brokers = [], kc_Type = kd_Type conf\<rparr>"
    obtain c1 where c1: "Unmarshal kafka_Config_fields (raw_doc (kafka_Config_json cfg)) ?x = Ok c1"
      "kc_Brokers c1 = kc_Brokers cfg"
      using decode_kafka_Config [of cfg ?x] by auto
    obtain c2 where c2: "Unmarshal kafka_Config_fields (raw_doc (kafka_Config_json cfg)) c1 = Ok c2"
      "kc_AdvertiseMode c2 = kc_AdvertiseMode cfg" "kc_Brokers c2 = kc_Brokers cfg"
      using decode_kafka_Config [of cfg c1] c1(2) by auto
    have "sp_Configs (res_Spec p) = raw_doc (kafka_Config_json cfg)" "raw_doc (kafka_Config_json cfg) \<noteq> None"
      by (simp_all add: p raw_doc_def)
    with c c1 c2 show ?thesis
      by (auto simp: kafka_readConfig_def Let_def split: result.splits)
  qed
  then have url: "kafka_Output_json c = kafka_Output_json cfg"
    if "kafka_readConfig v p (raw_doc (kafka_Config_json cfg)) conf = Ok c" for c
    using that by (simp add: kafka_Output_json_def mapUrl_def)
  have conf: "sp_Configs (res_Spec p) = raw_doc (kafka_Config_json cfg)"
    and st: "st_Status (res_State p) = StatusCompleted" "st_Output (res_State p) = kafka_Output_json cfg"
      "sp_Dependencies (res_Spec p) = None"
    by (simp_all add: p)
  show ?thesis
    by (cases "kafka_readConfig v p (raw_doc (kafka_Config_json cfg)) conf")
      (simp_all add: st kafka_Output_def conf bindS_def catchS_def liftR_def ret_def fail_def url)
qed

end
