(* ===== verification/Serve.thy ===== *)
theory Serve
  imports Entropy_Props Driver_Kafka
begin

text \<open>
  \<open>cli/serve.go\<close> and \<open>cli/worker.go\<close>: how the program is put together. \<open>setupRegistry\<close> registers the
  supported modules, \<open>setupStorage\<close> opens the store, and the service over both is \<open>entropy\<close> of
  \<open>Pg_Service\<close>. A fatal log line ends the process, which is a panic here. The registry of good
  module descriptors satisfies the laws of \<open>pg_service\<close>.
\<close>

section \<open>Assembly\<close>

text \<open>The loop of \<open>setupRegistry\<close>.\<close>

fun register_all :: "(string \<Rightarrow> schema outcome) \<Rightarrow> 's Descriptor list \<Rightarrow> ('s Registry, unit) go" where
  "register_all newSchema [] = ret ()"
| "register_all newSchema (desc # supported) =
     catchS (Register newSchema desc) (\<lambda>_. register_all newSchema supported)
       (\<lambda>err. panicS ''failed to register module'')"

definition setupRegistry :: "(string \<Rightarrow> schema outcome) \<Rightarrow> 's Descriptor list \<Rightarrow> 's Registry outcome" where
  "setupRegistry newSchema supported =
     (case register_all newSchema supported empty_Registry of
        (Ok _, registry) \<Rightarrow> Ok registry
      | (Err e, _) \<Rightarrow> Err e
      | (Panic p, _) \<Rightarrow> Panic p
      | (Overflow, _) \<Rightarrow> Overflow)"

definition setupStorage ::
    "int \<Rightarrow> int \<Rightarrow> 32 word \<Rightarrow> 32 word \<Rightarrow> (resourceModel list \<Rightarrow> resourceModel list) \<Rightarrow>
     (string option list \<Rightarrow> string list outcome) \<Rightarrow> (string \<Rightarrow> nat) \<Rightarrow> Store outcome" where
  "setupStorage refresh extendBy pageSize page order scan beats =
     (case Open refresh extendBy pageSize page order scan beats of
        Err e \<Rightarrow> Panic ''failed to connect to Postgres database''
      | r \<Rightarrow> r)"

section \<open>Good descriptors make a good registry\<close>

definition descriptor_ok :: "'x world Descriptor \<Rightarrow> bool" where
  "descriptor_ok desc \<longleftrightarrow>
     (\<forall>conf. desc_DriverFactory desc conf \<noteq> Overflow \<and>
        (\<forall>d. desc_DriverFactory desc conf = Ok d \<longrightarrow> driver_ok desc d)) \<and>
     (\<forall>ad \<in> set (desc_Actions desc). ad_schema ad = None)"

text \<open>Compiling the schemas of a descriptor keeps its action names.\<close>

lemma find_names:
  "map ad_Name as = map ad_Name bs \<Longrightarrow>
     (find (\<lambda>a. ad_Name a = n) as \<noteq> None) = (find (\<lambda>a. ad_Name a = n) bs \<noteq> None)"
  by (simp add: find_None_iff) (metis (no_types, lifting) image_iff list.set_map)

lemma driver_ok_actions:
  assumes "driver_ok desc d" and "map ad_Name actions = map ad_Name (desc_Actions desc)"
  shows "driver_ok (desc\<lparr>desc_Actions := actions\<rparr>) d"
  using assms(1) find_names [OF assms(2)] unfolding driver_ok_def findAction_def by simp

lemma sanitise_actions_schema:
  assumes "sanitise_actions newSchema ads = Ok ads'" and "\<forall>ad \<in> set ads. ad_schema ad = None"
    and "ad' \<in> set ads'" and "ad_schema ad' = Some sch"
  shows "\<exists>txt. newSchema txt = Ok sch"
  using assms
  by (induction ads arbitrary: ads')
    (auto 0 0 simp: Sanitise_def split: prod.splits result.splits if_splits, blast+)

lemma registry_ok_Register:
  assumes "registry_ok reg" and "descriptor_ok desc"
    and "\<And>txt sch p. newSchema txt = Ok sch \<Longrightarrow> sch p \<noteq> Overflow"
  shows "registry_ok (snd (Register newSchema desc reg))"
  unfolding registry_ok_def
proof (intro allI impI)
  fix k desc' conf
  assume l: "lookup (reg_modules (snd (Register newSchema desc reg))) k = Some desc'"
  show "desc_DriverFactory desc' conf \<noteq> Overflow \<and>
      (\<forall>d. desc_DriverFactory desc' conf = Ok d \<longrightarrow> driver_ok desc' d) \<and>
      (\<forall>ad \<in> set (desc_Actions desc'). \<forall>sch. ad_schema ad = Some sch \<longrightarrow> (\<forall>p. sch p \<noteq> Overflow))"
  proof (cases "k = desc_Kind desc \<and> lookup (reg_modules reg) k = None")
    case False
    then have "lookup (reg_modules reg) k = Some desc'"
      using l by (auto simp: lookup_Register split: if_splits)
    then show ?thesis using assms(1) unfolding registry_ok_def by blast
  next
    case True
    then obtain actions where a: "sanitise_actions newSchema (desc_Actions desc) = Ok actions"
      and d: "desc' = desc\<lparr>desc_Actions := actions\<rparr>"
      using l by (auto simp: lookup_Register split: result.splits)
    have "map ad_Name actions = map ad_Name (desc_Actions desc)"
      using sanitise_actions_compiled [OF a] by simp
    then show ?thesis
      using assms(2) sanitise_actions_schema [OF a] assms(3) unfolding descriptor_ok_def d
      by (auto intro: driver_ok_actions) metis
  qed
qed

lemma registry_ok_register_all:
  assumes "\<And>txt sch p. newSchema txt = Ok sch \<Longrightarrow> sch p \<noteq> Overflow" and "list_all descriptor_ok supported"
    and "registry_ok reg"
  shows "registry_ok (snd (register_all newSchema supported reg))"
  using assms(2,3)
proof (induction supported arbitrary: reg)
  case Nil
  then show ?case by (simp add: ret_def)
next
  case (Cons desc supported)
  have "registry_ok (snd (Register newSchema desc reg))"
    by (rule registry_ok_Register) (use Cons.prems assms(1) in auto)
  then show ?case
    using Cons.IH [of "snd (Register newSchema desc reg)"] Cons.prems(1)
    by (cases "Register newSchema desc reg", rename_tac r u, case_tac r)
      (auto simp: catchS_def panicS_def)
qed

lemma setupRegistry_ok:
  assumes "\<And>txt sch p. newSchema txt = Ok sch \<Longrightarrow> sch p \<noteq> Overflow" and "list_all descriptor_ok supported"
    and "setupRegistry newSchema supported = Ok reg"
  shows "registry_ok reg"
proof -
  have "registry_ok (empty_Registry :: 'a world Registry)"
    by (simp add: registry_ok_def empty_Registry_def lookup_def)
  from registry_ok_register_all [OF _ assms(2) this, of newSchema] assms(1,3) show ?thesis
    by (auto simp: setupRegistry_def split: prod.splits result.splits)
qed

section \<open>Good drivers\<close>

lemma driver_okI:
  assumes "\<And>res act. outside_only (dr_Plan d res act)" and "\<And>res. outside_only (dr_Sync d res)"
    and "\<And>res. outside_only (dr_Output d res)"
    and "\<And>lg res filt. dr_Log d = Some lg \<Longrightarrow> outside_only (lg res filt)"
    and "\<And>res act s p t. findAction desc (act_Name act) \<noteq> None \<Longrightarrow> dr_Plan d res act s = (Ok p, t) \<Longrightarrow>
           same_identity (pl_Resource p) (er_Resource res)"
  shows "driver_ok desc d"
  using assms unfolding driver_ok_def by blast

lemma outside_ret: "outside_only (ret a)" and outside_fail: "outside_only (fail e)"
  by (auto simp: outside_only_def ret_def fail_def)

lemma outside_liftR: "r \<noteq> Overflow \<Longrightarrow> outside_only (liftR r)"
  by (auto simp: outside_only_def liftR_def)

lemma outside_catchS:
  assumes "outside_only m" and "\<And>a. outside_only (f a)" and "\<And>e. outside_only (h e)"
  shows "outside_only (catchS m f h)"
  unfolding outside_only_def
proof (intro allI impI)
  fix s r t
  assume run: "catchS m f h s = (r, t)"
  obtain q u where m: "m s = (q, u)" by fastforce
  then have u: "db_part u = db_part s" "q \<noteq> Overflow" using assms(1) unfolding outside_only_def by blast+
  show "db_part t = db_part s \<and> r \<noteq> Overflow"
  proof (cases q)
    case (Ok a)
    then have "f a u = (r, t)" using run m by (simp add: catchS_def)
    then show ?thesis using assms(2) [of a] u unfolding outside_only_def by metis
  next
    case (Err e)
    then have "h e u = (r, t)" using run m by (simp add: catchS_def)
    then show ?thesis using assms(3) [of e] u unfolding outside_only_def by metis
  qed (use run m u in \<open>auto simp: catchS_def\<close>)
qed

lemma outside_bindS: "outside_only m \<Longrightarrow> (\<And>a. outside_only (f a)) \<Longrightarrow> outside_only (bindS m f)"
  unfolding bindS_def by (intro outside_catchS outside_fail)

lemma outside_plan_only: "outside_only (plan exr act) \<Longrightarrow> outside_only (plan_only plan exr act)"
  unfolding plan_only_def by (intro outside_bindS outside_ret)

lemmas outside_intros = outside_ret outside_fail outside_liftR outside_catchS outside_bindS

section \<open>The Kafka module\<close>

lemma kafka_driver_ok:
  assumes "\<And>j. v j \<noteq> Overflow"
  shows "driver_ok desc (kafka_driver v conf)"
proof (rule driver_okI)
  fix res act s p t
  show "same_identity (pl_Resource p) (er_Resource res)" if "dr_Plan (kafka_driver v conf) res act s = (Ok p, t)"
    using that by (auto simp: kafka_driver_def plan_only_Ok kafka_Plan_def bindS_Ok_iff same_identity_def)
qed (auto simp: kafka_driver_def kafka_Plan_def kafka_Sync_def kafka_Output_def
    intro!: outside_intros outside_plan_only kafka_readConfig_no_overflow assms)

lemma kafka_Module_ok: "(\<And>j. v j \<noteq> Overflow) \<Longrightarrow> descriptor_ok (kafka_Module v)"
  by (auto simp: descriptor_ok_def kafka_Module_def plain_action_def Unmarshal_no_overflow
      intro: kafka_driver_ok split: result.splits)

end
