(* ===== verification/Scenario.thy ===== *)
theory Scenario
  imports Serve
begin

text \<open>
  A small installation, on which the hypotheses of the properties are seen to hold: a registry
  with the Kafka module, a store, and a database in which that module and one resource were created
  through the services.
\<close>

section \<open>The installation\<close>

definition any_schema :: "string \<Rightarrow> schema outcome" where
  "any_schema txt = Ok (\<lambda>_. Ok [])"

definition kafka_registry :: "unit world Registry" where
  "kafka_registry = (case setupRegistry any_schema [kafka_Module (\<lambda>_. Ok ())] of Ok reg \<Rightarrow> reg)"

definition scan_tags :: "string option list \<Rightarrow> string list outcome" where
  "scan_tags ts =
     (if list_ex (\<lambda>t. t = None) ts then Err (PlainErr ''pq: parsing array element: cannot convert nil to string'')
      else Ok (map the ts))"

definition demo_store :: Store where
  "demo_store =
     (case Open (20 * 1000000000) (30 * 1000000000) 20 1 (\<lambda>rs. rs) scan_tags (\<lambda>_. 1) of Ok st \<Rightarrow> st)"

definition demo_counter :: "string \<Rightarrow> string \<Rightarrow> unit outcome" where
  "demo_counter service counter = Ok ()"

definition demo :: "unit world Service" where
  "demo = entropy demo_store kafka_registry 5000000000 3 ''entropy'' demo_counter (\<lambda>_ _ x. x)"

definition demo_module :: Module where
  "demo_module =
     \<lparr>mod_URN = [], mod_Name = ''kafka'', mod_Project = ''proj'', mod_Configs = raw_doc (JObj []),
      mod_CreatedAt = 0, mod_UpdatedAt = 0\<rparr>"

definition demo_params :: raw where
  "demo_params =
     raw_doc (JObj [(''entity'', JStr ''e''),
                    (''advertise_mode'', JObj [(''address'', JStr ''9092'')]),
                    (''brokers'', JArr [JObj [(''name'', JStr ''b1''), (''address'', JStr ''10.0.0.1'')]])])"

definition demo_resource :: Resource where
  "demo_resource = zero_Resource
     \<lparr>res_Kind := ''kafka'', res_Name := ''events'', res_Project := ''proj'',
      res_Labels := Some [(''team'', ''core'')], res_CreatedBy := ''alice'',
      res_Spec := \<lparr>sp_Configs = demo_params, sp_Dependencies = None\<rparr>\<rparr>"

definition demo_configs :: raw where
  "demo_configs =
     raw_doc (JObj [(''entity'', JStr ''e''),
                    (''advertise_mode'', JObj [(''host'', JStr []), (''address'', JStr ''9092'')]),
                    (''brokers'', JArr [JObj [(''name'', JStr ''b1''), (''host'', JStr []),
                                              (''address'', JStr ''10.0.0.1'')]]),
                    (''type'', JStr ''source'')])"

definition demo_output :: raw where
  "demo_output = raw_doc (JObj [(''url'', JStr ''10.0.0.1:9092'')])"

definition demo_urn :: string where
  "demo_urn = ''orn:entropy:kafka:proj:events''"

definition t0 :: time where "t0 = 1700000000000000000"

definition world0 :: "unit world" where
  "world0 = migrated [] t0 ()"

definition module_row0 :: moduleModel where
  "module_row0 =
     \<lparr>mm_URN = ''orn:entropy:module:proj:kafka'', mm_Name = ''kafka'', mm_Project = ''proj'',
      mm_CreatedAt = t0, mm_UpdatedAt = t0, mm_Configs = raw_doc (JObj [])\<rparr>"

definition world1 :: "unit world" where
  "world1 = world0\<lparr>w_tables := empty_tables\<lparr>t_modules := [module_row0]\<rparr>\<rparr>"

definition demo_planned :: Resource where
  "demo_planned = demo_resource
     \<lparr>res_URN := demo_urn, res_CreatedAt := t0, res_UpdatedAt := t0, res_UpdatedBy := ''alice'',
      res_Spec := \<lparr>sp_Configs = demo_configs, sp_Dependencies = None\<rparr>,
      res_State := zero_State\<lparr>st_Status := StatusCompleted, st_Output := demo_output\<rparr>\<rparr>"

definition row1 :: resourceModel where
  "row1 =
     \<lparr>rm_ID = 1, rm_URN = demo_urn, rm_Kind = ''kafka'', rm_Name = ''events'', rm_Project = ''proj'',
      rm_CreatedAt = t0, rm_UpdatedAt = t0, rm_CreatedBy = ''alice'', rm_UpdatedBy = ''alice'',
      rm_SpecConfigs = demo_configs, rm_StateStatus = StatusCompleted, rm_StateOutput = demo_output,
      rm_StateModuleData = Some (Text []), rm_StateNextSync = None, rm_StateSyncResult = None\<rparr>"

definition revision1 :: revisionModel where
  "revision1 =
     \<lparr>rvm_ID = 1, rvm_Reason = ''action:create'', rvm_CreatedAt = t0, rvm_CreatedBy = ''alice'',
      rvm_ResourceID = 1, rvm_SpecConfigs = demo_configs\<rparr>"

definition world2 :: "unit world" where
  "world2 = world1\<lparr>w_tables :=
       \<lparr>t_resources = [row1], t_deps = [], t_tags = [\<lparr>tag_owner = 1, tag_text = ''team=core''\<rparr>],
        t_revisions = [revision1], t_revision_tags = [\<lparr>tag_owner = 1, tag_text = ''team=core''\<rparr>],
        t_modules = [module_row0]\<rparr>,
     w_res_seq := 2, w_rev_seq := 2\<rparr>"

text \<open>The same database with the resource due for a sync.\<close>

definition world3 :: "unit world" where
  "world3 = world2\<lparr>w_tables := (w_tables world2)\<lparr>t_resources := [row1\<lparr>rm_StateNextSync := Some t0\<rparr>]\<rparr>\<rparr>"

section \<open>How it came about\<close>

lemma world1_created:
  "snd (CreateModule (pg_module_Service kafka_registry) demo_module world0) = world1"
  by code_simp

lemma world2_created: "CreateResource 5 demo demo_resource [] world1 = (Ok demo_planned, world2)"
  by code_simp

lemma kafka_registry_setup: "setupRegistry any_schema [kafka_Module (\<lambda>_. Ok ())] = Ok kafka_registry"
  by (simp add: kafka_registry_def setupRegistry_def Register_def empty_Registry_def run_simps Let_def
      kafka_Module_def plain_action_def Sanitise_def)

lemma kafka_registry_ok: "registry_ok kafka_registry"
  by (rule setupRegistry_ok [OF _ _ kafka_registry_setup])
    (auto simp: any_schema_def intro: kafka_Module_ok)

interpretation demo: pg_service demo_store kafka_registry 5000000000 3 "''entropy''" demo_counter "\<lambda>_ _ x. x"
  by unfold_locales (simp_all add: kafka_registry_ok demo_counter_def)

lemma demo_store_order: "set (pg_order demo_store rs) = set rs"
  by (simp add: demo_store_def Open_def)

lemma demo_meter: "\<forall>service c. demo_counter service c \<noteq> Overflow"
  by (simp add: demo_counter_def)

lemma demo_scan: "\<forall>ts. pg_scanTags demo_store ts \<noteq> Overflow"
  by (simp add: demo_store_def Open_def scan_tags_def)

lemma world_inv: "db_inv world1" "db_inv world2" "db_inv world3"
  by (simp_all add: db_inv_def tables_ok_def dep_rows_ok_def world1_def world2_def world3_def world0_def
      migrated_def empty_tables_def row1_def)

lemma world_faults [simp]: "w_faults world1 = []" "w_faults world2 = []" "w_faults world3 = []"
  by (simp_all add: world1_def world2_def world3_def world0_def migrated_def)

lemma row_found: "row_by_urn demo_urn (w_tables world2) = Some row1"
  by (simp add: row_by_urn_def world2_def row1_def)

end
