(* ===== verification/Witnesses_Core.thy ===== *)
theory Witnesses_Core
  imports Scenario
begin

text \<open>
  The properties of resources, the registry and the resource service, applied at concrete inputs
  of the installation of \<open>Scenario\<close> where their hypotheses hold.
\<close>

theorem Validate_URN_unique_witness:
  "\<exists>r1' r2'. Validate True demo_resource = (Ok (), r1') \<and>
     Validate True (demo_resource\<lparr>res_Name := '' events ''\<rparr>) = (Ok (), r2') \<and>
     res_Kind r1' = res_Kind r2' \<and> res_Project r1' = res_Project r2' \<and> res_Name r1' = res_Name r2'"
proof -
  have "\<exists>r1' r2'. Validate True demo_resource = (Ok (), r1') \<and>
     Validate True (demo_resource\<lparr>res_Name := '' events ''\<rparr>) = (Ok (), r2') \<and> res_URN r1' = res_URN r2'"
    by (rule exI [of _ "snd (Validate True demo_resource)"],
        rule exI [of _ "snd (Validate True (demo_resource\<lparr>res_Name := '' events ''\<rparr>))"]) code_simp
  then show ?thesis using Validate_URN_unique by blast
qed

theorem mergeLabels_correct_witness:
  "lookup (mergeLabels (Some [(''a'', ''1''), (''b'', ''2'')]) (Some [(''b'', []), (''c'', ''3'')])) ''b'' = None"
  using mergeLabels_correct [of "Some [(''a'', ''1''), (''b'', ''2'')]" "Some [(''b'', []), (''c'', ''3'')]"]
  by (simp add: wf_map_def lookup_def)

theorem tags_roundtrip_witness:
  "tagsToLabelMap (labelMapToTags (Some [(''team'', ''core=1''), (''env'', [])])) =
     Ok (Some [(''team'', ''core=1''), (''env'', [])])"
  using tags_roundtrip [of "Some [(''team'', ''core=1''), (''env'', [])]"] by (simp add: wf_map_def)

text \<open>A resource of the installation that depends on the stored one.\<close>

definition dependant :: Resource where
  "dependant = demo_resource
     \<lparr>res_URN := ''orn:entropy:kafka:proj:other'', res_Name := ''other'',
      res_Spec := \<lparr>sp_Configs = demo_params, sp_Dependencies = Some [(''stream'', demo_urn)]\<rparr>\<rparr>"

definition dependant_spec :: ExpandedResource where
  "dependant_spec =
     \<lparr>er_Resource = dependant,
      er_Dependencies = Some [(''stream'', \<lparr>rd_Kind = ''kafka'', rd_Output = demo_output\<rparr>)]\<rparr>"

lemma dependant_resolved: "generateModuleSpec 3 demo dependant world2 = (Ok dependant_spec, world2)"
  by code_simp

theorem generateModuleSpec_correct_witness:
  "\<exists>rd. lookup (er_Dependencies dependant_spec) ''stream'' = Some rd \<and>
     resolved_by (GetResource 3 demo) dependant demo_urn rd"
proof -
  have wf: "wf_map (sp_Dependencies (res_Spec dependant))"
    by (simp add: wf_map_def dependant_def)
  have l: "lookup (sp_Dependencies (res_Spec dependant)) ''stream'' = Some demo_urn"
    by (simp add: lookup_def dependant_def)
  from generateModuleSpec_correct [OF dependant_resolved wf, THEN conjunct2, rule_format, of "''stream''"]
  show ?thesis unfolding l by simp
qed

text \<open>The request \<open>CreateResource\<close> makes of \<open>execAction\<close>.\<close>

definition create_request :: ActionRequest where
  "create_request =
     \<lparr>act_Name = CreateAction, act_Params = demo_params, act_Labels = Some [(''team'', ''core'')], act_UserID = ''alice'',
      act_LabelsShared = True\<rparr>"

definition validated :: Resource where
  "validated = (snd (Validate True demo_resource))\<lparr>res_Spec := zero_Spec\<rparr>"

lemma demo_created: "execAction 5 demo validated create_request False world1 = (Ok demo_planned, world2)"
  by code_simp

theorem execAction_correct_witness:
  "\<exists>v w. rs_Create (svc_store demo) demo_planned [] v = (Ok (), w)"
proof -
  have c: "isCreate (act_Name create_request)"
    by (simp add: create_request_def isCreate_def)
  show ?thesis
    using execAction_correct [OF demo_created] unfolding if_P [OF c] by auto
qed

lemma demo_counters: "\<forall>c \<in> {''retry'', ''error'', ''completed''}. setupCounter demo c = Ok ()"
  by (simp add: setupCounter_def demo_def entropy_def New_def demo_counter_def)

definition synced_state :: State where
  "synced_state = zero_State\<lparr>st_Status := StatusCompleted\<rparr>"

lemma dependant_synced: "msv_SyncState (svc_moduleSvc demo) dependant_spec world2 = (Ok synced_state, world2)"
  by code_simp

theorem handleSync_correct_witness:
  "\<exists>r t. handleSync 3 demo dependant world2 = (Ok r, t) \<and> st_Status (res_State r) = StatusCompleted"
  unfolding handleSync_correct [OF demo_counters dependant_resolved] dependant_synced
  by (simp add: synced_state_def)

text \<open>A driver that fails, and a sync in a state without the dependency, which is not counted.\<close>

definition flaky :: "unit world Service" where
  "flaky = demo\<lparr>svc_moduleSvc := (svc_moduleSvc demo)\<lparr>msv_SyncState := (\<lambda>spec. fail (PlainErr ''timeout''))\<rparr>\<rparr>"

lemma flaky_resolved:
  "generateModuleSpec 3 flaky (dependant\<lparr>res_State := st\<rparr>) world2 =
     (Ok (dependant_spec\<lparr>er_Resource := dependant\<lparr>res_State := st\<rparr>\<rparr>), world2)"
  by code_simp

lemma flaky_unresolved: "\<exists>e. handleSync 3 flaky (dependant\<lparr>res_State := st\<rparr>) world1 = (Err e, world1)"
  by (rule exI) code_simp

lemma flaky_fails:
  assumes "syncs_fail 3 flaky dependant errs (dependant\<lparr>res_State := st\<rparr>)"
  shows "\<exists>st'. syncs_fail 3 flaky dependant (errs @ [PlainErr ''timeout'']) (dependant\<lparr>res_State := st'\<rparr>)"
proof -
  have c: "\<forall>c \<in> {''retry'', ''error'', ''completed''}. setupCounter flaky c = Ok ()"
    using demo_counters by (simp add: setupCounter_def flaky_def)
  have f: "msv_SyncState (svc_moduleSvc flaky) spec u = (Err (PlainErr ''timeout''), u)" for spec u
    by (simp add: flaky_def fail_def)
  have "\<exists>st' t. handleSync 3 flaky (dependant\<lparr>res_State := st\<rparr>) world2 = (Ok (dependant\<lparr>res_State := st'\<rparr>), t)"
    using handleSync_correct [OF c flaky_resolved] by (simp add: f Let_def) blast
  then show ?thesis
    using syncs_fail.driver_fails [OF assms flaky_resolved f] by blast
qed

theorem sync_failures_bounded_witness:
  "\<exists>r. syncs_fail 3 flaky dependant [PlainErr ''timeout'', PlainErr ''timeout'', PlainErr ''timeout''] r \<and>
     st_Status (res_State r) = StatusError \<and> st_NextSyncAt (res_State r) = None"
proof -
  have m: "svc_maxSyncRetries flaky = 3" by (simp add: flaky_def demo_def entropy_def New_def)
  have z: "sr_Retries (st_SyncResult (res_State dependant)) = 0"
    by (simp add: dependant_def demo_resource_def zero_Resource_def zero_State_def zero_SyncResult_def)
  have e: "list_all (\<lambda>e. \<not> isInvalid e) [PlainErr ''timeout'', PlainErr ''timeout'', PlainErr ''timeout'']" by simp
  have "syncs_fail 3 flaky dependant [] (dependant\<lparr>res_State := res_State dependant\<rparr>)"
    using syncs_fail.untried [of 3 flaky dependant] by simp
  from flaky_fails [OF this] obtain st where one: "syncs_fail 3 flaky dependant [PlainErr ''timeout''] (dependant\<lparr>res_State := st\<rparr>)"
    by auto
  obtain err where "handleSync 3 flaky (dependant\<lparr>res_State := st\<rparr>) world1 = (Err err, world1)"
    using flaky_unresolved by blast
  from flaky_fails [OF syncs_fail.not_run [OF one this]] obtain st where
    "syncs_fail 3 flaky dependant [PlainErr ''timeout'', PlainErr ''timeout''] (dependant\<lparr>res_State := st\<rparr>)" by auto
  from flaky_fails [OF this] obtain st where
    three: "syncs_fail 3 flaky dependant [PlainErr ''timeout'', PlainErr ''timeout'', PlainErr ''timeout''] (dependant\<lparr>res_State := st\<rparr>)"
    by auto
  from sync_failures_bounded [OF three z e] three show ?thesis
    by (auto simp: m)
qed

lemma kafka_registry_built: "built any_schema kafka_registry"
proof -
  have "kafka_registry = snd (Register any_schema (kafka_Module (\<lambda>_. Ok ())) empty_Registry)"
    by (simp add: kafka_registry_def setupRegistry_def Register_def empty_Registry_def run_simps Let_def
        kafka_Module_def plain_action_def Sanitise_def)
  moreover have "built any_schema (snd (Register any_schema (kafka_Module (\<lambda>_. Ok ())) empty_Registry))"
    by (intro built_Register built_empty)
  ultimately show ?thesis by (rule ssubst)
qed

text \<open>What the Kafka driver plans for the dependant.\<close>

definition dependant_planned :: Resource where
  "dependant_planned = dependant
     \<lparr>res_Spec := \<lparr>sp_Configs = demo_configs, sp_Dependencies = None\<rparr>,
      res_State := zero_State\<lparr>st_Status := StatusCompleted, st_Output := demo_output\<rparr>\<rparr>"

lemma planned: "PlanAction (pg_module_Service kafka_registry) dependant_spec create_request world2 =
    (Ok (labels_unwritten dependant_spec create_request dependant_planned), world2)"
  by code_simp


theorem kafka_Output_stable_witness:
  "st_Status (res_State dependant_planned) = StatusCompleted \<and>
   (\<exists>t. kafka_Plan (\<lambda>_. Ok ()) kafka_defaultDriverConf dependant_spec create_request () = (Ok dependant_planned, t))"
proof -
  have p: "kafka_Plan (\<lambda>_. Ok ()) kafka_defaultDriverConf dependant_spec create_request () = (Ok dependant_planned, ())"
    by code_simp
  from kafka_Output_stable [OF p, of None "()"] p show ?thesis by blast
qed

theorem SafeName_bounded_witness:
  "\<exists>n. SafeName (\<lambda>_. ''0123456789abcdef'') ''a-very-long-release-name'' ''-firehose'' 20 = Ok n \<and> length n \<le> 20"
  using SafeName_bounded [of "\<lambda>_. ''0123456789abcdef''" "''a-very-long-release-name''" "''-firehose''" 20]
  by auto

end
