(* ===== verification/Witnesses_Pg.thy ===== *)
theory Witnesses_Pg
  imports Scenario
begin

text \<open>
  The properties of the Postgres store and of the service over it, applied to the databases of
  \<open>Scenario\<close>, where their hypotheses hold.
\<close>

section \<open>Reading back\<close>

lemma demo_create: "Create demo_planned [] world1 = (Ok (), world2)"
  by code_simp

lemma storable_planned: "storable demo_planned"
  unfolding storable_def by code_simp


definition demo_changed :: Resource where
  "demo_changed = demo_planned\<lparr>res_Labels := Some [(''team'', ''infra'')], res_UpdatedBy := ''bob''\<rparr>"

definition world4 :: "unit world" where
  "world4 = snd (Update demo_changed True ''action:update'' [] world2)"

lemma demo_update: "Update demo_changed True ''action:update'' [] world2 = (Ok (), world4)"
  by code_simp

theorem Update_GetByURN_witness:
  "\<exists>r. fst (GetByURN demo_urn (nf world4)) = Ok r \<and> res_Labels r = Some [(''team'', ''infra'')] \<and> res_Kind r = ''kafka''"
proof -
  have s: "storable demo_changed" unfolding storable_def by code_simp
  have u: "res_URN demo_changed = demo_urn"
    by (simp add: demo_changed_def demo_planned_def)
  show ?thesis
    using Update_GetByURN [OF world_inv(2) demo_update s, unfolded u row_found]
    by (auto simp: stored_def demo_changed_def row1_def)
qed

section \<open>Reachable states\<close>

lemma world2_reachable: "reachable demo (pg_module_Service kafka_registry) 5 world2"
proof -
  have w0: "reachable demo (pg_module_Service kafka_registry) 5 world0"
    unfolding world0_def by (rule reachable.start)
  have m: "snd (run_call 5 demo (pg_module_Service kafka_registry) (CallCreateModule demo_module) world0) = world1"
    by code_simp
  have c: "snd (run_call 5 demo (pg_module_Service kafka_registry) (CallCreate demo_resource []) world1) = world2"
    by code_simp
  have n: "w_res_seq world0 \<le> 5" "w_res_seq world1 \<le> 5"
    by (simp_all add: world1_def world0_def migrated_def)
  have w1: "reachable demo (pg_module_Service kafka_registry) 5 world1"
    using reachable.step [OF w0 n(1), of "CallCreateModule demo_module"] unfolding m .
  show ?thesis
    using reachable.step [OF w1 n(2), of "CallCreate demo_resource []"] unfolding c .
qed

theorem reachable_tables_ok_witness:
  "distinct (map rm_URN (t_resources (w_tables world2))) \<and> 0 < rm_ID row1 \<and> rm_ID row1 < w_res_seq world2"
proof -
  have "row1 \<in> set (t_resources (w_tables world2))" by (simp add: world2_def)
  then show ?thesis
    using reachable_tables_ok [OF kafka_registry_ok demo_meter demo_scan world2_reachable [unfolded demo_def]] by blast
qed

theorem calls_terminate_witness:
  "fst (run_call 5 demo (pg_module_Service kafka_registry) (CallGet demo_urn) world2) \<noteq> Overflow"
proof -
  have "w_res_seq world2 \<le> 5" by (simp add: world2_def)
  from calls_terminate [OF kafka_registry_ok demo_meter demo_scan world2_reachable [unfolded demo_def] this]
  show ?thesis unfolding demo_def .
qed

section \<open>The service over the store\<close>

lemma demo_runs: "CreateResource 5 demo demo_resource [] world1 = (Ok demo_planned, world2)"
  by (rule world2_created)



definition not_stored :: Resource where
  "not_stored = demo_planned\<lparr>res_URN := ''orn:entropy:kafka:proj:none''\<rparr>"


theorem Delete_keeps_resource_witness:
  "\<exists>t. Delete demo_urn [] world2 = (Ok (), t) \<and> t_resources (w_tables t) = [row1]"
proof -
  have d: "decode_SyncResult (rm_StateSyncResult row1) = Ok zero_SyncResult"
    by (simp add: row1_def decode_SyncResult_def raw_empty_def)
  have r: "t_resources (w_tables world2) = [row1]"
    by (simp add: world2_def)
  from Delete_keeps_resource [OF world_faults(2) row_found d] show ?thesis
    unfolding r by blast
qed

text \<open>The sync of the due resource of \<open>world3\<close>.\<close>

definition fetched :: "unit world" where
  "fetched = snd (fetchResourceForSync demo_store None world3)"

lemma demo_fetch: "fetchResourceForSync demo_store None world3 = (Ok demo_urn, fetched)"
  by code_simp

theorem fetch_picks_due_witness:
  "\<exists>row \<in> set (t_resources (w_tables world3)). rm_URN row = demo_urn \<and> due (pg_time (w_now world3)) row"
  using fetch_picks_due [OF demo_store_order demo_fetch] by blast

definition world5 :: "unit world" where
  "world5 = snd (SyncOne demo_store None (handleSync 5 demo) world3)"

lemma demo_sync: "SyncOne demo_store None (handleSync 5 demo) world3 = (Ok (), world5)"
  by code_simp


section \<open>Paging\<close>

definition any_filter :: Filter where
  "any_filter = \<lparr>fl_Kind = [], fl_Project = [], fl_Labels = None, fl_PageSize = 2, fl_PageNum = 1\<rparr>"

definition listing :: "Resource list" where
  "listing = (case fst (List demo_store any_filter True world2) of Ok rs \<Rightarrow> rs | _ \<Rightarrow> [])"

definition listing_rows :: "resourceModel list" where
  "listing_rows = matching_rows demo_store [] [] (w_tables world2)"

definition listing_items :: "ListResourceByFilterRow list" where
  "listing_items = (case scan_rows demo_store True (w_tables world2) listing_rows of Ok is' \<Rightarrow> is' | _ \<Rightarrow> [])"

lemma listing_read:
  "scan_rows demo_store True (w_tables world2) listing_rows = Ok listing_items"
  "listed_resources listing_items world2 = (Ok listing, world2)"
  by code_simp+

theorem pages_partition_witness:
  "\<exists>pages. List demo_store (any_filter\<lparr>fl_PageNum := word_of_nat 1\<rparr>) True world2 = (Ok (pages 1), world2) \<and>
     List demo_store (any_filter\<lparr>fl_PageNum := word_of_nat 2\<rparr>) True world2 = (Ok (pages 2), world2) \<and>
     concat (map pages [1..<Suc 2]) = listing \<and> listing \<noteq> []"
proof -
  have n: "sint (page_size demo_store any_filter) = int 2" "(1 :: nat) \<le> 2" "2 * 2 < (2 :: nat) ^ 31"
    by (simp_all add: page_size_def any_filter_def)
  have same: "demo_store\<lparr>pg_order := pg_order demo_store\<rparr> = demo_store" by simp
  have rows: "\<forall>p \<in> {1..2 :: nat}. matching_rows (demo_store\<lparr>pg_order := pg_order demo_store\<rparr>) (fl_Project any_filter)
      (fl_Kind any_filter) (w_tables world2) = listing_rows"
    by (simp add: same listing_rows_def any_filter_def)
  have all: "take (2 * 2) listing = listing" "listing \<noteq> []"
    by code_simp+
  from pages_partition [where k = 2, OF world_faults(2) n rows listing_read]
  obtain pages where p: "\<forall>p \<in> {1..2}. List demo_store (any_filter\<lparr>fl_PageNum := word_of_nat p\<rparr>) True world2 = (Ok (pages p), world2)"
    "concat (map pages [1..<Suc 2]) = listing"
    unfolding same all(1) by blast
  have "1 \<in> {1..2 :: nat}" "2 \<in> {1..2 :: nat}" by simp_all
  with p all(2) show ?thesis by blast
qed

theorem List_offset_wraps_witness:
  "\<exists>e. List demo_store (any_filter\<lparr>fl_PageSize := 2 ^ 30, fl_PageNum := 3\<rparr>) True world2 = (Err e, world2)"
  using List_offset_wraps [OF world_faults(2), of "any_filter\<lparr>fl_PageSize := 2 ^ 30, fl_PageNum := 3\<rparr>"] by simp

end
