(* ===== verification/Worker.thy ===== *)
theory Worker
  imports Json
begin

text \<open>
  \<open>pkg/worker\<close>: jobs, their sanitisation and attempts, and the worker that enqueues jobs and
  handles dequeued ones. A job function acts on a state \<open>'s\<close> and may return, fail or panic;
  \<open>Attempt\<close> recovers the panic. The job queue is an interface.
\<close>

section \<open>Jobs\<close>

type_synonym jtime = int

definition minRetryBackoff :: int where "minRetryBackoff = 5 * 1000000000"

definition StatusDone :: string where "StatusDone = ''DONE''"
definition StatusPanic :: string where "StatusPanic = ''PANIC''"
definition StatusFailed :: string where "StatusFailed = ''FAILED''"
definition JobPending :: string where "JobPending = ''PENDING''"

lemmas job_status_defs = StatusDone_def StatusPanic_def StatusFailed_def JobPending_def

definition ErrJobExists :: gerror where "ErrJobExists = PlainErr ''job with id exists''"
definition ErrInvalidJob :: gerror where "ErrInvalidJob = PlainErr ''job is not valid''"
definition ErrKindExists :: gerror where "ErrKindExists = PlainErr ''handler for given kind exists''"
definition ErrUnknownKind :: gerror where "ErrUnknownKind = PlainErr ''job kind is invalid''"

record Job =
  job_ID :: string
  job_Kind :: string
  job_RunAt :: jtime
  job_Payload :: raw
  job_Status :: string
  job_CreatedAt :: jtime
  job_UpdatedAt :: jtime
  job_Result :: raw
  job_AttemptsDone :: int
  job_LastAttemptAt :: jtime
  job_LastError :: string

text \<open>A context is its \<open>ctx.Err()\<close>: \<open>None\<close> while it is live.\<close>

type_synonym ctx = "gerror option"
type_synonym 's JobFn = "Job \<Rightarrow> ('s, raw) go"
type_synonym 's DequeueFn = "ctx \<Rightarrow> Job \<Rightarrow> ('s, Job) go"

definition job_Sanitise :: "jtime \<Rightarrow> (Job, unit) go" where
  "job_Sanitise now j0 =
     (let j = j0\<lparr>job_ID := TrimSpace (job_ID j0), job_Kind := TrimSpace (ToLower (job_Kind j0))\<rparr>
      in if job_ID j = [] then (Err (WrapErr ErrInvalidJob '': job id must be set''), j)
         else if job_Kind j = [] then (Err (WrapErr ErrInvalidJob '': job kind must be set''), j)
         else
           let j = j\<lparr>job_Status := JobPending, job_CreatedAt := now, job_UpdatedAt := now\<rparr>;
               j = (if job_RunAt j = 0 then j\<lparr>job_RunAt := now\<rparr> else j)
           in (Ok (), j\<lparr>job_AttemptsDone := 0, job_LastAttemptAt := 0, job_LastError := []\<rparr>))"

text \<open>The delay of a \<open>RetryableError\<close>.\<close>

definition backoff :: "int \<Rightarrow> int" where
  "backoff retryAfter = (if retryAfter \<le> minRetryBackoff then minRetryBackoff else retryAfter)"

definition WithCause :: "gerror \<Rightarrow> int \<Rightarrow> gerror" where
  "WithCause err retryAfter = RetryErr err retryAfter"

text \<open>The deferred part of \<open>Attempt\<close>.\<close>

definition attempt_done :: "jtime \<Rightarrow> Job \<Rightarrow> Job" where
  "attempt_done now j =
     j\<lparr>job_AttemptsDone := job_AttemptsDone j + 1, job_LastAttemptAt := now, job_UpdatedAt := now\<rparr>"

definition Attempt :: "ctx \<Rightarrow> jtime \<Rightarrow> 's JobFn \<Rightarrow> Job \<Rightarrow> ('s, Job) go" where
  "Attempt ctxErr now fn j s =
     (case ctxErr of
        Some e \<Rightarrow>
          (Ok (attempt_done now (j\<lparr>job_Status := JobPending, job_RunAt := now + minRetryBackoff,
                                   job_LastError := ''cancelled: '' @ error_text e\<rparr>)), s)
      | None \<Rightarrow>
          (case fn j s of
             (Ok res, t) \<Rightarrow> (Ok (attempt_done now (j\<lparr>job_Result := res, job_Status := StatusDone\<rparr>)), t)
           | (Err err, t) \<Rightarrow>
               (case As_Retryable err of
                  Some (cause, retryAfter) \<Rightarrow>
                    (Ok (attempt_done now (j\<lparr>job_RunAt := now + backoff retryAfter,
                                             job_LastError := ''retryable-error: '' @ error_text cause,
                                             job_Status := JobPending\<rparr>)), t)
                | None \<Rightarrow>
                    (Ok (attempt_done now (j\<lparr>job_LastError := error_text err, job_Status := StatusFailed\<rparr>)), t))
           | (Panic p, t) \<Rightarrow>
               (Ok (attempt_done now (j\<lparr>job_LastError := ''panic: '' @ p, job_Status := StatusPanic\<rparr>)), t)
           | (Overflow, t) \<Rightarrow> (Overflow, t)))"

section \<open>The worker\<close>

record 's JobQueue =
  jq_Enqueue :: "ctx \<Rightarrow> Job list \<Rightarrow> ('s, unit) go"
  jq_Dequeue :: "ctx \<Rightarrow> string list \<Rightarrow> 's DequeueFn \<Rightarrow> ('s, unit) go"

record 's Worker =
  wk_workers :: int
  wk_pollInt :: int
  wk_queue :: "'s JobQueue"
  wk_handlers :: "'s JobFn gomap"

type_synonym 's Option = "('s Worker, unit) go"

definition worker_Register :: "string \<Rightarrow> 's JobFn \<Rightarrow> ('s Worker, unit) go" where
  "worker_Register kind h w0 =
     (let hs = entries (wk_handlers w0); w = w0\<lparr>wk_handlers := Some hs\<rparr>
      in case map_of hs kind of
           Some _ \<Rightarrow> (Err (WrapErr ErrKindExists ('': kind '' @ sq kind)), w)
         | None \<Rightarrow> (Ok (), w\<lparr>wk_handlers := Some (put kind h hs)\<rparr>))"

definition WithJobKind :: "string \<Rightarrow> 's JobFn \<Rightarrow> 's Option" where
  "WithJobKind kind fn = worker_Register kind fn"

definition minPollInterval :: int where "minPollInterval = 100 * 1000000"

definition WithRunConfig :: "int \<Rightarrow> int \<Rightarrow> 's Option" where
  "WithRunConfig workers pollInterval w =
     (Ok (), w\<lparr>wk_pollInt := (if pollInterval < minPollInterval then minPollInterval else pollInterval),
               wk_workers := (if workers = 0 then 1 else workers)\<rparr>)"

definition withDefaults :: "'s Option list \<Rightarrow> 's Option list" where
  "withDefaults opts = WithRunConfig 1 1000000000 # opts"

fun apply_options :: "'s Option list \<Rightarrow> ('s Worker, unit) go" where
  "apply_options [] = ret ()"
| "apply_options (opt # opts) = bindS opt (\<lambda>_. apply_options opts)"

definition worker_New :: "'s JobQueue \<Rightarrow> 's Option list \<Rightarrow> 's Worker outcome" where
  "worker_New queue opts =
     (case apply_options (withDefaults opts)
             \<lparr>wk_workers = 0, wk_pollInt = 0, wk_queue = queue, wk_handlers = None\<rparr> of
        (Ok _, w) \<Rightarrow> Ok w | (Err e, _) \<Rightarrow> Err e | (Panic p, _) \<Rightarrow> Panic p | (Overflow, _) \<Rightarrow> Overflow)"

text \<open>The loop of \<open>Enqueue\<close>: every job is sanitised and of a known kind before any is queued.\<close>

fun check_jobs :: "'s Worker \<Rightarrow> jtime \<Rightarrow> Job list \<Rightarrow> Job list outcome" where
  "check_jobs w now [] = Ok []"
| "check_jobs w now (job # jobs) =
     (case job_Sanitise now job of
        (Ok _, job') \<Rightarrow>
          if lookup (wk_handlers w) (job_Kind job') = None
          then Err (WrapErr ErrUnknownKind ('': kind '' @ sq (job_Kind job')))
          else (case check_jobs w now jobs of
                  Ok jobs' \<Rightarrow> Ok (job' # jobs') | Err e \<Rightarrow> Err e | Panic p \<Rightarrow> Panic p | Overflow \<Rightarrow> Overflow)
      | (Err e, _) \<Rightarrow> Err e
      | (Panic p, _) \<Rightarrow> Panic p
      | (Overflow, _) \<Rightarrow> Overflow)"

definition worker_Enqueue :: "'s Worker \<Rightarrow> ('s \<Rightarrow> jtime) \<Rightarrow> ctx \<Rightarrow> Job list \<Rightarrow> ('s, unit) go" where
  "worker_Enqueue w clock ctx jobs s =
     (case check_jobs w (clock s) jobs of
        Ok jobs' \<Rightarrow> jq_Enqueue (wk_queue w) ctx jobs' s
      | Err e \<Rightarrow> (Err e, s)
      | Panic p \<Rightarrow> (Panic p, s)
      | Overflow \<Rightarrow> (Overflow, s))"

definition getKinds :: "'s Worker \<Rightarrow> string list" where
  "getKinds w = map fst (entries (wk_handlers w))"

definition invalidKindBackoff :: int where "invalidKindBackoff = 5 * 60 * 1000000000"

definition handleJob :: "'s Worker \<Rightarrow> ('s \<Rightarrow> jtime) \<Rightarrow> 's DequeueFn" where
  "handleJob w clock ctx job s =
     (case lookup (wk_handlers w) (job_Kind job) of
        None \<Rightarrow> (Err (RetryErr (PlainErr ''job kind is invalid'') invalidKindBackoff), s)
      | Some fn \<Rightarrow> Attempt ctx (clock s) fn job s)"

text \<open>
  The loop of \<open>runWorker\<close>, for the timer ticks before the context is done; a failed dequeue is
  logged and dropped.
\<close>

fun runWorker :: "'s Worker \<Rightarrow> ('s \<Rightarrow> jtime) \<Rightarrow> nat \<Rightarrow> ('s, unit) go" where
  "runWorker w clock 0 = ret ()"
| "runWorker w clock (Suc ticks) =
     (if getKinds w = [] then runWorker w clock ticks
      else catchS (jq_Dequeue (wk_queue w) None (getKinds w) (handleJob w clock))
             (\<lambda>_. runWorker w clock ticks) (\<lambda>_. runWorker w clock ticks))"

definition cleanupCtxErr :: "gerror option \<Rightarrow> gerror option" where
  "cleanupCtxErr err =
     (case err of
        None \<Rightarrow> None
      | Some e \<Rightarrow> if errors_Is e CtxCanceled \<or> errors_Is e CtxDeadline then None else Some e)"

section \<open>Lemmas\<close>

lemma backoff_min: "minRetryBackoff \<le> backoff d"
  by (simp add: backoff_def)

lemma check_jobs_Ok_mem:
  "check_jobs w now jobs = Ok jobs' \<Longrightarrow> j \<in> set jobs' \<Longrightarrow>
     job_Status j = JobPending \<and> lookup (wk_handlers w) (job_Kind j) \<noteq> None \<and> job_ID j \<noteq> []"
  by (induction jobs arbitrary: jobs')
    (auto simp: job_Sanitise_def Let_def split: prod.splits result.splits if_splits)

section \<open>The job queue interface\<close>

text \<open>
  What the worker relies on, over an abstract view of the queue (kind, status and result of each
  job id): enqueueing is all-or-nothing, and dequeueing adds no job, never changes a kind and leaves
  finished jobs as they are, provided the handler itself leaves the queue alone.
\<close>

type_synonym job_view = "string \<Rightarrow> (string \<times> string \<times> raw) option"

definition new_jobs :: "Job list \<Rightarrow> job_view" where
  "new_jobs jobs = map_of (map (\<lambda>j. (job_ID j, job_Kind j, job_Status j, None)) jobs)"

definition leaves_alone :: "('s \<Rightarrow> job_view) \<Rightarrow> ('s \<Rightarrow> bool) \<Rightarrow> ('s, 'a) go \<Rightarrow> bool" where
  "leaves_alone view good m \<longleftrightarrow> (\<forall>s. good s \<longrightarrow> good (snd (m s)) \<and> view (snd (m s)) = view s)"

definition progresses :: "job_view \<Rightarrow> job_view \<Rightarrow> bool" where
  "progresses v v' \<longleftrightarrow> dom v' = dom v \<and>
     (\<forall>jid k st res. v jid = Some (k, st, res) \<longrightarrow>
        (\<exists>st' res'. v' jid = Some (k, st', res') \<and> (st \<noteq> JobPending \<longrightarrow> st' = st \<and> res' = res)))"

lemma progresses_refl [simp]: "progresses v v"
  by (simp add: progresses_def)

lemma progresses_trans: "progresses u v \<Longrightarrow> progresses v w \<Longrightarrow> progresses u w"
  unfolding progresses_def by (metis (no_types, lifting))

lemma leaves_alone_handleJob:
  assumes "\<And>kind fn j. lookup (wk_handlers w) kind = Some fn \<Longrightarrow> leaves_alone view good (fn j)"
  shows "leaves_alone view good (handleJob w clock ctx j)"
  unfolding leaves_alone_def
proof (intro allI impI)
  fix s
  assume "good s"
  show "good (snd (handleJob w clock ctx j s)) \<and> view (snd (handleJob w clock ctx j s)) = view s"
  proof (cases "lookup (wk_handlers w) (job_Kind j)")
    case None
    then show ?thesis using \<open>good s\<close> by (simp add: handleJob_def)
  next
    case (Some fn)
    have "good (snd (fn j s)) \<and> view (snd (fn j s)) = view s"
      using assms [OF Some, of j] \<open>good s\<close> by (simp add: leaves_alone_def)
    then show ?thesis
      using Some \<open>good s\<close>
      by (auto simp: handleJob_def Attempt_def split: option.splits prod.splits result.splits)
  qed
qed

locale job_queue =
  fixes queue :: "'s JobQueue" and view :: "'s \<Rightarrow> job_view" and good :: "'s \<Rightarrow> bool"
  assumes enqueue_good: "good s \<Longrightarrow> good (snd (jq_Enqueue queue ctx jobs s))"
    and enqueue_all_or_nothing:
      "good s \<Longrightarrow> view (snd (jq_Enqueue queue ctx jobs s)) \<in> {view s, view s ++ new_jobs jobs}"
    and enqueue_Ok:
      "good s \<Longrightarrow> jq_Enqueue queue ctx jobs s = (Ok (), t) \<Longrightarrow>
         distinct (map job_ID jobs) \<and> (\<forall>j \<in> set jobs. view s (job_ID j) = None) \<and> view t = view s ++ new_jobs jobs"
    and dequeue_progresses:
      "good s \<Longrightarrow> (\<And>ctx' j. leaves_alone view good (fn ctx' j)) \<Longrightarrow>
         good (snd (jq_Dequeue queue ctx kinds fn s)) \<and> progresses (view s) (view (snd (jq_Dequeue queue ctx kinds fn s)))"
begin

text \<open>A successful \<open>Enqueue\<close> of the worker makes every job pending, under a kind it handles.\<close>

lemma enqueued_pending:
  assumes "good s" and "wk_queue w = queue" and "worker_Enqueue w clock ctx jobs s = (Ok (), t)"
  shows "\<exists>jobs'. check_jobs w (clock s) jobs = Ok jobs' \<and>
    (\<forall>j \<in> set jobs'. view s (job_ID j) = None \<and> view t (job_ID j) = Some (job_Kind j, JobPending, None) \<and>
       lookup (wk_handlers w) (job_Kind j) \<noteq> None)"
proof (cases "check_jobs w (clock s) jobs")
  case (Ok jobs')
  then have "jq_Enqueue queue ctx jobs' s = (Ok (), t)"
    using assms by (simp add: worker_Enqueue_def)
  from enqueue_Ok [OF assms(1) this]
  have d: "distinct (map job_ID jobs')" and new: "\<forall>j \<in> set jobs'. view s (job_ID j) = None"
    and vt: "view t = view s ++ new_jobs jobs'" by auto
  have "view t (job_ID j) = Some (job_Kind j, job_Status j, None)" if "j \<in> set jobs'" for j
    unfolding vt new_jobs_def
    by (rule map_add_find_right) (use d that in \<open>auto intro!: map_of_is_SomeI simp: distinct_map o_def\<close>)
  then show ?thesis
    using Ok new check_jobs_Ok_mem [OF Ok] by fastforce
qed (use assms in \<open>auto simp: worker_Enqueue_def\<close>)

text \<open>However long a worker runs, jobs are never lost, renamed, or changed once finished.\<close>

lemma runWorker_progresses:
  assumes "wk_queue w = queue" and "good s"
    and "\<And>kind fn j. lookup (wk_handlers w) kind = Some fn \<Longrightarrow> leaves_alone view good (fn j)"
  shows "good (snd (runWorker w clock ticks s)) \<and> progresses (view s) (view (snd (runWorker w clock ticks s)))"
  using \<open>good s\<close>
proof (induction ticks arbitrary: s)
  case 0
  then show ?case by (simp add: ret_def)
next
  case (Suc ticks)
  define fn where "fn = handleJob w clock"
  obtain r t where rt: "jq_Dequeue queue None (getKinds w) fn s = (r, t)" by fastforce
  have "leaves_alone view good (fn ctx' j)" for ctx' j
    unfolding fn_def by (rule leaves_alone_handleJob) (rule assms(3))
  from dequeue_progresses [of s fn None "getKinds w", OF Suc.prems this] rt
  have t: "good t" "progresses (view s) (view t)" by auto
  show ?case
    using Suc.IH [OF t(1)] Suc.IH [OF Suc.prems] t rt assms(1) unfolding fn_def
    by (cases r) (auto simp: catchS_def intro: progresses_trans)
qed

end

section \<open>Properties\<close>

text \<open>An attempt always ends in exactly one of the four statuses. Whatever the context and the job
  function do (short of exhausting the stack) \<open>Attempt\<close> returns the job with one more attempt and
  both times set; it is done with the function's result, failed with the error text, panicked with
  the panic, or pending again with a run time at least the minimum backoff ahead, the latter exactly
  for a done context or a retryable error; id, kind and payload never change.\<close>

theorem Attempt_correct:
  assumes "fst (fn j s) \<noteq> Overflow"
  shows "\<exists>j' t. Attempt ctxErr now fn j s = (Ok j', t) \<and>
    job_AttemptsDone j' = job_AttemptsDone j + 1 \<and> job_LastAttemptAt j' = now \<and> job_UpdatedAt j' = now \<and>
    job_ID j' = job_ID j \<and> job_Kind j' = job_Kind j \<and> job_Payload j' = job_Payload j \<and>
    (case ctxErr of
       Some e \<Rightarrow> job_Status j' = JobPending \<and> job_RunAt j' = now + minRetryBackoff \<and> t = s
     | None \<Rightarrow>
         t = snd (fn j s) \<and>
         (case fst (fn j s) of
            Ok res \<Rightarrow> job_Status j' = StatusDone \<and> job_Result j' = res \<and> job_RunAt j' = job_RunAt j
          | Err err \<Rightarrow>
              (case As_Retryable err of
                 Some (cause, d) \<Rightarrow> job_Status j' = JobPending \<and> now + minRetryBackoff \<le> job_RunAt j' \<and>
                   now + d \<le> job_RunAt j' \<and> job_LastError j' = error_text (RetryErr cause d)
               | None \<Rightarrow> job_Status j' = StatusFailed \<and> job_LastError j' = error_text err)
          | Panic p \<Rightarrow> job_Status j' = StatusPanic \<and> job_LastError j' = ''panic: '' @ p
          | Overflow \<Rightarrow> False))"
proof (cases ctxErr)
  case (Some e)
  then show ?thesis by (simp add: Attempt_def attempt_done_def)
next
  case None
  obtain r t where rt: "fn j s = (r, t)" by fastforce
  show ?thesis
  proof (cases r)
    case (Err err)
    then show ?thesis
      using None rt backoff_min
      by (cases "As_Retryable err") (auto simp: Attempt_def attempt_done_def backoff_def)
  qed (use None rt assms in \<open>auto simp: Attempt_def attempt_done_def\<close>)
qed

end
