(* ===== verification/Pgq.thy ===== *)
theory Pgq
  imports Worker Pg_Base
begin

text \<open>
  \<open>pkg/worker/pgq\<close>: the job queue on a PostgreSQL table. The state holds the rows of the queue's
  table, a script of connection faults consumed one entry per statement as in \<open>Pg_Base\<close>, the clock,
  and whatever the job functions act on. A statement on a context that is done fails with the
  context's error. Timestamps round to microseconds and the session's time zone is UTC.
\<close>

section \<open>State\<close>

record job_row =
  jr_id :: string
  jr_kind :: string
  jr_status :: string
  jr_run_at :: jtime
  jr_payload :: raw
  jr_created_at :: jtime
  jr_updated_at :: jtime
  jr_result :: raw
  jr_attempts_done :: int
  jr_last_attempt_at :: "jtime option"
  jr_last_error :: "string option"

record 'x qworld =
  q_jobs :: "job_row list"
  q_faults :: "fault list"
  q_now :: jtime
  q_ext :: 'x

type_synonym ('x, 'a) qdb = "('x qworld, 'a) go"

text \<open>
  \<open>q_order\<close> is the order in which the server returns the rows of a query without \<open>ORDER BY\<close>.
\<close>

record Queue =
  q_queueName :: string
  q_tableName :: string
  q_extendInterval :: int
  q_refreshInterval :: int
  q_order :: "job_row list \<Rightarrow> job_row list"

definition extendInterval :: int where "extendInterval = 30 * 1000000000"
definition refreshInterval :: int where "refreshInterval = 20 * 1000000000"

text \<open>\<open>^[A-Za-z][A-Za-z0-9_]*$\<close>\<close>

definition name_start :: "char \<Rightarrow> bool" where
  "name_start c = (c \<in> set ''ABCDEFGHIJKLMNOPQRSTUVWXYZabcdefghijklmnopqrstuvwxyz'')"

definition name_char :: "char \<Rightarrow> bool" where
  "name_char c = (name_start c \<or> c \<in> set ''0123456789_'')"

definition queueNamePattern :: "string \<Rightarrow> bool" where
  "queueNamePattern s = (case s of [] \<Rightarrow> False | c # cs \<Rightarrow> name_start c \<and> list_all name_char cs)"

definition errInvalidQueueName :: gerror where
  "errInvalidQueueName = PlainErr (''queue name must match pattern '' @ sq ''^[A-Za-z][A-Za-z0-9_]*$'')"

text \<open>
  \<open>pgq.Open\<close>: \<open>prepared\<close> is the outcome of connecting and running the schema, which creates the
  table when it does not exist.
\<close>

definition pgq_Open ::
    "unit outcome \<Rightarrow> string \<Rightarrow> (job_row list \<Rightarrow> job_row list) \<Rightarrow> Queue outcome" where
  "pgq_Open prepared queueName order =
     (if \<not> queueNamePattern queueName then Err errInvalidQueueName
      else case prepared of
             Ok _ \<Rightarrow> Ok \<lparr>q_queueName = queueName, q_tableName = ''pgq_'' @ queueName,
                         q_extendInterval = extendInterval, q_refreshInterval = refreshInterval,
                         q_order = order\<rparr>
           | Err e \<Rightarrow> Err e
           | Panic p \<Rightarrow> Panic p
           | Overflow \<Rightarrow> Overflow)"

section \<open>Statements\<close>

definition q_next :: "'x qworld \<Rightarrow> fault" where
  "q_next s = (case q_faults s of [] \<Rightarrow> Fine | f # _ \<Rightarrow> f)"

definition q_tick :: "'x qworld \<Rightarrow> 'x qworld" where
  "q_tick s = s\<lparr>q_faults := tl (q_faults s)\<rparr>"

definition qstmt :: "ctx \<Rightarrow> ('x, 'a) qdb \<Rightarrow> ('x, 'a) qdb" where
  "qstmt ctx body s =
     (case ctx of
        Some e \<Rightarrow> (Err e, s)
      | None \<Rightarrow>
          (case q_next s of
             Fine \<Rightarrow> body (q_tick s)
           | Fails e \<Rightarrow> (Err e, q_tick s)
           | Lost e \<Rightarrow> (case body (q_tick s) of (Ok _, t) \<Rightarrow> (Err e, t) | rt \<Rightarrow> rt)))"

definition q_exec :: "ctx \<Rightarrow> (jtime \<Rightarrow> job_row list \<Rightarrow> job_row list) \<Rightarrow> ('x, unit) qdb" where
  "q_exec ctx f = qstmt ctx (\<lambda>s. (Ok (), s\<lparr>q_jobs := f (pg_time (q_now s)) (q_jobs s)\<rparr>))"

definition q_rollback :: "'x qworld \<Rightarrow> 'x qworld \<Rightarrow> 'x qworld" where
  "q_rollback s0 s = s\<lparr>q_jobs := q_jobs s0\<rparr>"

text \<open>\<open>withTx\<close>: \<open>BEGIN\<close>, the function, \<open>COMMIT\<close>, or a rollback when the function fails.\<close>

definition withTx :: "ctx \<Rightarrow> bool \<Rightarrow> ('x, 'a) qdb \<Rightarrow> ('x, 'a) qdb" where
  "withTx ctx readOnly fn s0 =
     (case qstmt ctx (\<lambda>s. (Ok (), s)) s0 of
        (Ok _, s) \<Rightarrow>
          (case fn s of
             (Ok a, t) \<Rightarrow>
               (case q_next t of
                  Fine \<Rightarrow> (Ok a, q_tick t)
                | Fails e \<Rightarrow> (Err e, q_rollback s0 (q_tick t))
                | Lost e \<Rightarrow> (Err e, q_tick t))
           | (r, t) \<Rightarrow> (r, q_rollback s0 t))
      | (Err e, s) \<Rightarrow> (Err e, s)
      | (Panic p, s) \<Rightarrow> (Panic p, s)
      | (Overflow, s) \<Rightarrow> (Overflow, s))"

section \<open>Operations\<close>

definition job_into_row :: "Job \<Rightarrow> job_row" where
  "job_into_row job =
     \<lparr>jr_id = job_ID job, jr_kind = job_Kind job, jr_status = job_Status job,
      jr_run_at = pg_time (job_RunAt job), jr_payload = copy_raw (job_Payload job),
      jr_created_at = pg_time (job_CreatedAt job), jr_updated_at = pg_time (job_UpdatedAt job),
      jr_result = None, jr_attempts_done = 0, jr_last_attempt_at = None, jr_last_error = None\<rparr>"

text \<open>The multi-row insert: the primary key is the id.\<close>

definition insert_jobs :: "ctx \<Rightarrow> Job list \<Rightarrow> ('x, unit) qdb" where
  "insert_jobs ctx jobs =
     (if jobs = [] then fail (PlainErr ''insert statements must have at least one set of values or select clause'')
      else qstmt ctx (\<lambda>s.
        if distinct (map jr_id (q_jobs s @ map job_into_row jobs))
        then (Ok (), s\<lparr>q_jobs := q_jobs s @ map job_into_row jobs\<rparr>)
        else (Err (unique_violation ''pkey''), s)))"

definition Enqueue :: "ctx \<Rightarrow> Job list \<Rightarrow> ('x, unit) qdb" where
  "Enqueue ctx jobs =
     catchS (insert_jobs ctx jobs) ret
       (\<lambda>err. if As_pq err = Some ''unique_violation'' then fail ErrJobExists else fail err)"

definition rowIntoJob :: "job_row \<Rightarrow> Job" where
  "rowIntoJob row =
     \<lparr>job_ID = jr_id row, job_Kind = jr_kind row, job_RunAt = jr_run_at row, job_Payload = jr_payload row,
      job_Status = jr_status row, job_CreatedAt = jr_created_at row, job_UpdatedAt = jr_updated_at row,
      job_Result = jr_result row, job_AttemptsDone = jr_attempts_done row,
      job_LastAttemptAt = (case jr_last_attempt_at row of Some t \<Rightarrow> t | None \<Rightarrow> 0),
      job_LastError = (case jr_last_error row of Some e \<Rightarrow> e | None \<Rightarrow> [])\<rparr>"

definition ready :: "string list \<Rightarrow> jtime \<Rightarrow> job_row \<Rightarrow> bool" where
  "ready kinds now row = (jr_kind row \<in> set kinds \<and> jr_status row = JobPending \<and> jr_run_at row < now)"

definition fetchReadyJob :: "Queue \<Rightarrow> ctx \<Rightarrow> string list \<Rightarrow> ('x, Job) qdb" where
  "fetchReadyJob q ctx kinds =
     qstmt ctx (\<lambda>s.
       case q_order q (filter (ready kinds (pg_time (q_now s))) (q_jobs s)) of
         [] \<Rightarrow> (Err ErrNoRows, s)
       | row # _ \<Rightarrow> (Ok (rowIntoJob row), s))"

definition set_rows :: "(job_row \<Rightarrow> bool) \<Rightarrow> (job_row \<Rightarrow> job_row) \<Rightarrow> job_row list \<Rightarrow> job_row list" where
  "set_rows P f = map (\<lambda>row. if P row then f row else row)"

definition q_extendWaitTime :: "Queue \<Rightarrow> ctx \<Rightarrow> string \<Rightarrow> ('x, unit) qdb" where
  "q_extendWaitTime q ctx jid =
     q_exec ctx (\<lambda>now. set_rows (\<lambda>row. jr_id row = jid)
                         (\<lambda>row. row\<lparr>jr_run_at := now + q_extendInterval q\<rparr>))"

definition pickupJob :: "Queue \<Rightarrow> ctx \<Rightarrow> string list \<Rightarrow> ('x, Job) qdb" where
  "pickupJob q ctx kinds =
     withTx ctx False (
       bindS (fetchReadyJob q ctx kinds) (\<lambda>j.
       bindS (q_extendWaitTime q ctx (job_ID j)) (\<lambda>_. ret j)))"

text \<open>
  The ticks of \<open>time.NewTicker d\<close> between two times, for a receiver that is always ready, and the
  heartbeat: a beat at the time of each tick, until one fails.
\<close>

definition ticker :: "int \<Rightarrow> jtime \<Rightarrow> jtime \<Rightarrow> jtime list" where
  "ticker d t0 t1 = map (\<lambda>k. t0 + int k * d) [1..<Suc (nat ((t1 - t0) div d))]"

definition q_at :: "jtime \<Rightarrow> ('x, 'a) qdb \<Rightarrow> ('x, 'a) qdb" where
  "q_at time m s = m (s\<lparr>q_now := time\<rparr>)"

fun q_runHeartbeat :: "Queue \<Rightarrow> ctx \<Rightarrow> jtime list \<Rightarrow> string \<Rightarrow> ('x, unit) qdb" where
  "q_runHeartbeat q ctx [] jid = ret ()"
| "q_runHeartbeat q ctx (tick # ticks) jid =
     catchS (q_at tick (q_extendWaitTime q ctx jid)) (\<lambda>_. q_runHeartbeat q ctx ticks jid) (\<lambda>_. ret ())"

text \<open>
  The job function runs from the time of its call to the time it leaves behind, and the heartbeat runs
  beside it, with the ticks between these times. The beats write the run time of the job's row, which the
  function has no part in, so they are applied to the state it leaves, each with the clock of its tick. A
  beat that fails cancels the context of the job: the worker has looked at the context before the first
  tick, and what the job function does about it is part of that function, a parameter of the model.
\<close>

definition q_handleDequeued :: "Queue \<Rightarrow> ctx \<Rightarrow> Job \<Rightarrow> 'x qworld DequeueFn \<Rightarrow> ('x, Job) qdb" where
  "q_handleDequeued q ctx job fn s =
     (let (r, t) = fn ctx job s;
          ticks = ticker (q_refreshInterval q) (q_now s) (q_now t);
          (_, u) = q_runHeartbeat q ctx ticks (job_ID job) t
      in (r, u\<lparr>q_now := q_now t\<rparr>))"

definition saveJobResult :: "ctx \<Rightarrow> Job \<Rightarrow> ('x, unit) qdb" where
  "saveJobResult ctx job =
     q_exec ctx (\<lambda>_. set_rows (\<lambda>row. jr_id row = job_ID job \<and> jr_status row = JobPending)
       (\<lambda>row. row\<lparr>jr_updated_at := pg_time (job_UpdatedAt job), jr_status := job_Status job,
                 jr_result := copy_raw (job_Result job), jr_attempts_done := jr_attempts_done row + 1,
                 jr_last_error := Some (job_LastError job),
                 jr_last_attempt_at := Some (pg_time (job_LastAttemptAt job))\<rparr>))"

definition Dequeue :: "Queue \<Rightarrow> ctx \<Rightarrow> string list \<Rightarrow> 'x qworld DequeueFn \<Rightarrow> ('x, unit) qdb" where
  "Dequeue q ctx kinds fn =
     catchS (pickupJob q ctx kinds)
       (\<lambda>job.
          bindS (q_handleDequeued q ctx job fn) (\<lambda>resultJob.
          saveJobResult ctx resultJob))
       (\<lambda>err. if errors_Is err ErrNoRows then ret () else fail err)"

definition pgq_JobQueue :: "Queue \<Rightarrow> 'x qworld JobQueue" where
  "pgq_JobQueue q = \<lparr>jq_Enqueue = Enqueue, jq_Dequeue = Dequeue q\<rparr>"

end
