(* ===== verification/Pgq_Laws.thy ===== *)
theory Pgq_Laws
  imports Pgq
begin

text \<open>
  Laws of the queue of \<open>pkg/worker/pgq\<close>: it provides the worker's job queue interface under every
  script of connection faults, a picked-up job is leased, and finished jobs are final.
\<close>

section \<open>Effect of each statement on the rows\<close>

definition q_view :: "'x qworld \<Rightarrow> job_view" where
  "q_view s = map_of (map (\<lambda>r. (jr_id r, jr_kind r, jr_status r, jr_result r)) (q_jobs s))"

definition q_good :: "'x qworld \<Rightarrow> bool" where
  "q_good s \<longleftrightarrow> distinct (map jr_id (q_jobs s))"

text \<open>\<open>touches R m\<close>: the computation changes the rows only as \<open>R\<close> allows.\<close>

definition touches :: "(job_row list \<Rightarrow> job_row list \<Rightarrow> bool) \<Rightarrow> ('x, 'a) qdb \<Rightarrow> bool" where
  "touches R m \<longleftrightarrow> (\<forall>s. R (q_jobs s) (q_jobs (snd (m s))))"

lemma q_tick_simps [simp]:
  "q_jobs (q_tick s) = q_jobs s" "q_now (q_tick s) = q_now s" "q_ext (q_tick s) = q_ext s"
  by (simp_all add: q_tick_def)

lemma q_rollback_jobs [simp]: "q_jobs (q_rollback s0 s) = q_jobs s0"
  by (simp add: q_rollback_def)

lemma touches_qstmt:
  assumes "reflp R" and "touches R m"
  shows "touches R (qstmt ctx m)"
  unfolding touches_def
proof
  fix s
  have "R (q_jobs s) (q_jobs (snd (m (q_tick s))))"
    using assms(2) unfolding touches_def by (metis q_tick_simps(1))
  then show "R (q_jobs s) (q_jobs (snd (qstmt ctx m s)))"
    using reflpD [OF assms(1)]
    by (auto simp: qstmt_def split: option.splits fault.splits prod.splits result.splits)
qed

lemma touches_exec: "reflp R \<Longrightarrow> (\<And>now rows. R rows (f now rows)) \<Longrightarrow> touches R (q_exec ctx f)"
  unfolding q_exec_def by (rule touches_qstmt) (simp_all add: touches_def)

lemma touches_catchS:
  assumes "transp R" and "touches R m" and "\<And>a. touches R (f a)" and "\<And>e. touches R (h e)"
  shows "touches R (catchS m f h)"
  unfolding touches_def
proof
  fix s
  obtain r t where rt: "m s = (r, t)" by fastforce
  then have m: "R (q_jobs s) (q_jobs t)"
    using assms(2) unfolding touches_def by (metis snd_conv)
  moreover have "R (q_jobs t) (q_jobs (snd (f a t)))" "R (q_jobs t) (q_jobs (snd (h e t)))" for a e
    using assms(3,4) unfolding touches_def by blast+
  ultimately show "R (q_jobs s) (q_jobs (snd (catchS m f h s)))"
    using rt transpD [OF assms(1) m] by (cases r) (auto simp: catchS_def)
qed

lemma touches_pure: "reflp R \<Longrightarrow> touches R (ret a)" "reflp R \<Longrightarrow> touches R (fail e)"
  by (auto simp: touches_def ret_def fail_def dest: reflpD)

lemma touches_bindS:
  "reflp R \<Longrightarrow> transp R \<Longrightarrow> touches R m \<Longrightarrow> (\<And>a. touches R (f a)) \<Longrightarrow> touches R (bindS m f)"
  unfolding bindS_def by (rule touches_catchS) (auto intro: touches_pure)

text \<open>A transaction leaves the rows as they were or as its body leaves them.\<close>

lemma withTx_cases:
  assumes "withTx ctx ro fn s0 = (r, t)"
  obtains (rolled_back) "q_jobs t = q_jobs s0" "\<And>a. r \<noteq> Ok a"
  | (committed) s a u where "q_jobs s = q_jobs s0" "q_now s = q_now s0" "fn s = (Ok a, u)" "q_jobs t = q_jobs u"
      "\<And>b. r = Ok b \<Longrightarrow> b = a"
proof -
  obtain r1 s where b: "qstmt ctx (\<lambda>s. (Ok (), s)) s0 = (r1, s)" by fastforce
  then have s: "q_jobs s = q_jobs s0" "q_now s = q_now s0"
    by (auto simp: qstmt_def split: option.splits fault.splits)
  obtain r2 u where f: "fn s = (r2, u)" by fastforce
  show ?thesis
  proof (cases "\<exists>a. r1 = Ok () \<and> r2 = Ok a \<and> (\<forall>e. q_next u \<noteq> Fails e)")
    case True
    then obtain a where "r1 = Ok ()" "r2 = Ok a" "\<forall>e. q_next u \<noteq> Fails e" by blast
    then show ?thesis
      using assms b f s committed [of s a u] by (cases "q_next u") (auto simp: withTx_def)
  next
    case False
    then have "q_jobs t = q_jobs s0 \<and> (\<forall>a. r \<noteq> Ok a)"
      using assms b f s by (cases r1; cases r2; cases "q_next u") (auto simp: withTx_def)
    then show ?thesis using rolled_back by blast
  qed
qed

lemma touches_withTx:
  assumes "reflp R" and "touches R fn"
  shows "touches R (withTx ctx ro fn)"
  unfolding touches_def
proof
  fix s :: "'a qworld"
  obtain r t where rt: "withTx ctx ro fn s = (r, t)" by fastforce
  then show "R (q_jobs s) (q_jobs (snd (withTx ctx ro fn s)))"
  proof (cases rule: withTx_cases)
    case rolled_back
    then show ?thesis using rt reflpD [OF assms(1)] by simp
  next
    case (committed s' a u)
    then have "R (q_jobs s') (q_jobs u)"
      using assms(2) unfolding touches_def by (metis snd_conv)
    then show ?thesis using rt committed by simp
  qed
qed

section \<open>Progress of jobs\<close>

text \<open>Row by row: same id and kind, and a finished job keeps its status and result.\<close>

definition row_progress :: "job_row \<Rightarrow> job_row \<Rightarrow> bool" where
  "row_progress r r' \<longleftrightarrow> jr_id r' = jr_id r \<and> jr_kind r' = jr_kind r \<and> jr_payload r' = jr_payload r \<and>
     (jr_status r \<noteq> JobPending \<longrightarrow> jr_status r' = jr_status r \<and> jr_result r' = jr_result r \<and>
        jr_attempts_done r' = jr_attempts_done r \<and> jr_last_error r' = jr_last_error r)"

definition rows_progress :: "job_row list \<Rightarrow> job_row list \<Rightarrow> bool" where
  "rows_progress = list_all2 row_progress"

lemma rows_progress_refl: "reflp rows_progress"
  unfolding rows_progress_def by (intro reflpI list_all2_refl) (simp add: row_progress_def)

lemma rows_progress_trans: "transp rows_progress"
  unfolding rows_progress_def
  by (intro transpI) (rule list_all2_trans [of row_progress], auto simp: row_progress_def)

lemma rows_progress_set_rows:
  "(\<And>r. P r \<Longrightarrow> row_progress r (f r)) \<Longrightarrow> rows_progress rows (set_rows P f rows)"
  unfolding rows_progress_def set_rows_def
  by (induction rows) (auto simp: row_progress_def)

lemmas progress_rel = rows_progress_refl rows_progress_trans

lemma touches_extend: "touches rows_progress (q_extendWaitTime q ctx jid)"
  unfolding q_extendWaitTime_def
  by (intro touches_exec rows_progress_refl rows_progress_set_rows) (simp add: row_progress_def)

lemma touches_save: "touches rows_progress (saveJobResult ctx job)"
  unfolding saveJobResult_def
  by (intro touches_exec rows_progress_refl rows_progress_set_rows) (simp add: row_progress_def)

lemma touches_fetch: "touches rows_progress (fetchReadyJob q ctx kinds)"
  unfolding fetchReadyJob_def
  by (intro touches_qstmt rows_progress_refl)
    (auto simp: touches_def reflpD [OF rows_progress_refl] split: list.splits)

lemma touches_pickup: "touches rows_progress (pickupJob q ctx kinds)"
  unfolding pickupJob_def
  by (intro touches_withTx touches_bindS progress_rel touches_fetch touches_extend touches_pure)

lemma touches_at: "touches R m \<Longrightarrow> touches R (q_at time m)"
  unfolding touches_def q_at_def by (metis qworld.select_convs(1) qworld.surjective qworld.update_convs(3))

lemma touches_heartbeat: "touches rows_progress (q_runHeartbeat q ctx ticks jid)"
  by (induction ticks) (auto intro!: touches_catchS progress_rel touches_at touches_extend touches_pure)

lemma touches_mono: "touches R m \<Longrightarrow> R \<le> R' \<Longrightarrow> touches R' m"
  by (auto simp: touches_def)

text \<open>The handler may change the rows too, as long as its changes and progress compose.\<close>

lemma touches_Dequeue:
  assumes R: "reflp R" "transp R" "rows_progress \<le> R"
    and fn: "\<And>ctx' j. touches R (fn ctx' j)"
  shows "touches R (Dequeue q ctx kinds fn)"
proof -
  have "touches R (q_handleDequeued q ctx job fn)" for job
    unfolding touches_def
  proof
    fix s
    obtain r t where f: "fn ctx job s = (r, t)" by fastforce
    obtain r' u where h: "q_runHeartbeat q ctx (ticker (q_refreshInterval q) (q_now s) (q_now t)) (job_ID job) t = (r', u)"
      by fastforce
    have "R (q_jobs s) (q_jobs t)" using fn [of ctx job] f unfolding touches_def by (metis snd_conv)
    moreover have "R (q_jobs t) (q_jobs u)"
      using touches_mono [OF touches_heartbeat R(3)] h unfolding touches_def by (metis snd_conv)
    ultimately show "R (q_jobs s) (q_jobs (snd (q_handleDequeued q ctx job fn s)))"
      using transpD [OF R(2)] f h by (simp add: q_handleDequeued_def Let_def)
  qed
  then show ?thesis
    unfolding Dequeue_def
    by (intro touches_catchS touches_bindS R touches_mono [OF touches_pickup] touches_mono [OF touches_save])
      (auto intro: touches_pure R)
qed

section \<open>The queue provides the job queue interface\<close>

definition rows_view :: "job_row list \<Rightarrow> job_view" where
  "rows_view rows = map_of (map (\<lambda>r. (jr_id r, jr_kind r, jr_status r, jr_result r)) rows)"

definition view_progress :: "job_row list \<Rightarrow> job_row list \<Rightarrow> bool" where
  "view_progress rows rows' \<longleftrightarrow> (distinct (map jr_id rows) \<longrightarrow>
     distinct (map jr_id rows') \<and> progresses (rows_view rows) (rows_view rows'))"

lemma q_view_rows: "q_view s = rows_view (q_jobs s)"
  by (simp add: q_view_def rows_view_def)

lemma rows_view_Nil [simp]: "rows_view [] = Map.empty"
  by (simp add: rows_view_def)

lemma rows_view_Cons [simp]: "rows_view (r # rs) = (rows_view rs)(jr_id r \<mapsto> (jr_kind r, jr_status r, jr_result r))"
  by (simp add: rows_view_def)

lemma rows_progress_ids: "rows_progress rows rows' \<Longrightarrow> map jr_id rows' = map jr_id rows"
  unfolding rows_progress_def by (induction rule: list_all2_induct) (auto simp: row_progress_def)

lemma dom_rows_view: "dom (rows_view rows) = set (map jr_id rows)"
  by (simp add: rows_view_def dom_map_of_conv_image_fst image_image)

lemma rows_progress_lookup:
  "rows_progress rows rows' \<Longrightarrow> rows_view rows jid = Some (k, st, res) \<Longrightarrow>
     \<exists>st' res'. rows_view rows' jid = Some (k, st', res') \<and> (st \<noteq> JobPending \<longrightarrow> st' = st \<and> res' = res)"
  unfolding rows_progress_def
  by (induction rule: list_all2_induct) (auto simp: row_progress_def split: if_splits)

lemma rows_progress_view: "rows_progress rows rows' \<Longrightarrow> progresses (rows_view rows) (rows_view rows')"
  unfolding progresses_def dom_rows_view
  by (intro conjI allI impI) (simp add: rows_progress_ids, rule rows_progress_lookup)

lemma view_progress_rel: "reflp view_progress" "transp view_progress" "rows_progress \<le> view_progress"
  by (auto intro!: reflpI transpI simp: view_progress_def rows_progress_ids rows_progress_view
      intro: progresses_trans)

lemma leaves_alone_touches: "leaves_alone q_view q_good m \<Longrightarrow> touches view_progress m"
  by (auto simp: leaves_alone_def touches_def view_progress_def q_good_def q_view_rows)

text \<open>The insert adds all rows or none.\<close>

lemma Enqueue_effect:
  assumes "Enqueue ctx jobs s = (r, t)"
  shows "(q_jobs t = q_jobs s \<and> r \<noteq> Ok ()) \<or>
    (q_jobs t = q_jobs s @ map job_into_row jobs \<and> distinct (map jr_id (q_jobs t)) \<and> jobs \<noteq> [])"
  using assms
  by (auto simp: Enqueue_def insert_jobs_def qstmt_def catchS_def fail_def ret_def Let_def
      split: if_splits option.splits fault.splits prod.splits result.splits)

lemma rows_view_append: "rows_view (xs @ ys) = rows_view ys ++ rows_view xs"
  by (simp add: rows_view_def)

lemma rows_view_jobs: "rows_view (map job_into_row jobs) = new_jobs jobs"
  by (simp add: rows_view_def new_jobs_def job_into_row_def o_def)

lemma view_enqueued:
  assumes "distinct (map jr_id (rows @ map job_into_row jobs))"
  shows "rows_view (rows @ map job_into_row jobs) = rows_view rows ++ new_jobs jobs"
    and "distinct (map job_ID jobs)"
    and "\<forall>j \<in> set jobs. rows_view rows (job_ID j) = None"
proof -
  have ids: "map jr_id (map job_into_row jobs) = map job_ID jobs"
    by (simp add: job_into_row_def)
  have disj: "dom (rows_view rows) \<inter> dom (rows_view (map job_into_row jobs)) = {}"
    using assms unfolding dom_rows_view by (simp only: map_append distinct_append)
  then show "rows_view (rows @ map job_into_row jobs) = rows_view rows ++ new_jobs jobs"
    unfolding rows_view_append rows_view_jobs [symmetric] by (rule map_add_comm [symmetric])
  show "distinct (map job_ID jobs)"
    using assms unfolding map_append ids by simp
  show "\<forall>j \<in> set jobs. rows_view rows (job_ID j) = None"
  proof
    fix j
    assume "j \<in> set jobs"
    then have "job_ID j \<in> set (map jr_id (map job_into_row jobs))" unfolding ids by simp
    then have "job_ID j \<notin> dom (rows_view rows)" using disj unfolding dom_rows_view by blast
    then show "rows_view rows (job_ID j) = None" by blast
  qed
qed

interpretation pgq: job_queue "pgq_JobQueue q" q_view q_good for q :: Queue
proof
  fix s t :: "'a qworld" and ctx jobs
  show "q_good (snd (jq_Enqueue (pgq_JobQueue q) ctx jobs s))" if "q_good s"
    using that Enqueue_effect [of ctx jobs s "fst (Enqueue ctx jobs s)" "snd (Enqueue ctx jobs s)"]
    by (auto simp: pgq_JobQueue_def q_good_def)
  show "q_view (snd (jq_Enqueue (pgq_JobQueue q) ctx jobs s)) \<in> {q_view s, q_view s ++ new_jobs jobs}" if "q_good s"
    using Enqueue_effect [of ctx jobs s "fst (Enqueue ctx jobs s)" "snd (Enqueue ctx jobs s)"]
    by (auto simp: pgq_JobQueue_def q_view_rows view_enqueued(1))
  show "distinct (map job_ID jobs) \<and> (\<forall>j \<in> set jobs. q_view s (job_ID j) = None) \<and> q_view t = q_view s ++ new_jobs jobs"
    if "q_good s" and "jq_Enqueue (pgq_JobQueue q) ctx jobs s = (Ok (), t)"
    using that(2) Enqueue_effect [of ctx jobs s "Ok ()" t] view_enqueued [of "q_jobs s" jobs]
    by (auto simp: pgq_JobQueue_def q_view_rows)
next
  fix s :: "'a qworld" and fn :: "'a qworld DequeueFn" and ctx kinds
  assume "q_good s" and fn: "\<And>ctx' j. leaves_alone q_view q_good (fn ctx' j)"
  have "touches view_progress (Dequeue q ctx kinds fn)"
    by (intro touches_Dequeue view_progress_rel leaves_alone_touches fn)
  then show "q_good (snd (jq_Dequeue (pgq_JobQueue q) ctx kinds fn s)) \<and>
      progresses (q_view s) (q_view (snd (jq_Dequeue (pgq_JobQueue q) ctx kinds fn s)))"
    using \<open>q_good s\<close> by (simp add: touches_def view_progress_def q_good_def q_view_rows pgq_JobQueue_def)
qed

section \<open>The lease of a picked-up job\<close>

text \<open>The rows after the lease of a job is set to end at \<open>until\<close>.\<close>

definition leased :: "string \<Rightarrow> jtime \<Rightarrow> job_row list \<Rightarrow> job_row list" where
  "leased jid until = set_rows (\<lambda>row. jr_id row = jid) (\<lambda>row. row\<lparr>jr_run_at := until\<rparr>)"

lemma leased_idem [simp]: "leased jid u (leased jid v rows) = leased jid u rows"
  by (simp add: leased_def set_rows_def)

lemma job_ID_rowIntoJob [simp]: "job_ID (rowIntoJob row) = jr_id row"
  by (simp add: rowIntoJob_def)

lemma fetchReadyJob_Ok:
  assumes "fetchReadyJob q ctx kinds s = (Ok j, t)" and "\<And>rs. set (q_order q rs) = set rs"
  shows "q_jobs t = q_jobs s \<and> q_now t = q_now s \<and>
    (\<exists>row \<in> set (q_jobs s). ready kinds (pg_time (q_now s)) row \<and> j = rowIntoJob row)"
proof -
  let ?rows = "filter (ready kinds (pg_time (q_now s))) (q_jobs s)"
  have m: "set (q_order q ?rows) = set ?rows"
    by (rule assms(2))
  obtain row rest where "q_order q ?rows = row # rest" and j: "j = rowIntoJob row"
    and t: "q_jobs t = q_jobs s \<and> q_now t = q_now s"
    using assms(1)
    by (auto simp: fetchReadyJob_def qstmt_def split: option.splits fault.splits list.splits)
  then have "row \<in> set ?rows" using m by (metis list.set_intros(1))
  then show ?thesis using j t by auto
qed

lemma q_extendWaitTime_Ok:
  assumes "q_extendWaitTime q ctx jid s = (Ok (), t)"
  shows "q_jobs t = leased jid (pg_time (q_now s) + q_extendInterval q) (q_jobs s)"
  using assms
  by (auto simp: q_extendWaitTime_def q_exec_def qstmt_def leased_def split: option.splits fault.splits)

lemma not_ready_leased:
  assumes "row \<in> set (leased jid until rows)" and "jr_id row = jid" and "now \<le> until"
  shows "\<not> ready kinds now row"
proof -
  obtain r where "row = (if jr_id r = jid then r\<lparr>jr_run_at := until\<rparr> else r)"
    using assms(1) unfolding leased_def set_rows_def list.set_map by (rule imageE)
  then have "jr_run_at row = until"
    using assms(2) by (cases "jr_id r = jid") simp_all
  then show ?thesis
    using assms(3) by (simp add: ready_def)
qed

section \<open>A dequeue without faults\<close>

lemma q_fault_free: "q_faults s = [] \<Longrightarrow> q_next s = Fine \<and> q_tick s = s"
  by (simp add: q_next_def q_tick_def)

lemma q_extendWaitTime_fault_free:
  "q_faults s = [] \<Longrightarrow> q_extendWaitTime q None jid s =
     (Ok (), s\<lparr>q_jobs := leased jid (pg_time (q_now s) + q_extendInterval q) (q_jobs s)\<rparr>)"
  by (simp add: q_extendWaitTime_def q_exec_def qstmt_def q_fault_free leased_def)

lemma q_runHeartbeat_fault_free:
  assumes "q_faults s = []"
  shows "q_runHeartbeat q None ticks jid s =
    (Ok (), if ticks = [] then s
            else s\<lparr>q_jobs := leased jid (pg_time (last ticks) + q_extendInterval q) (q_jobs s), q_now := last ticks\<rparr>)"
  using assms
proof (induction ticks arbitrary: s)
  case (Cons tick ticks)
  have "q_at tick (q_extendWaitTime q None jid) s =
      (Ok (), s\<lparr>q_now := tick, q_jobs := leased jid (pg_time tick + q_extendInterval q) (q_jobs s)\<rparr>)"
    using Cons.prems by (simp add: q_at_def q_extendWaitTime_fault_free)
  then show ?case
    using Cons by (simp add: catchS_simps(1))
qed (simp add: ret_def)

text \<open>The last beat before \<open>t1\<close>, or the pick-up at \<open>t0\<close>.\<close>

definition last_beat :: "int \<Rightarrow> jtime \<Rightarrow> jtime \<Rightarrow> jtime" where
  "last_beat d t0 t1 = t0 + (t1 - t0) div d * d"

lemma last_ticker:
  assumes "0 < d" and "t0 \<le> t1"
  shows "if ticker d t0 t1 = [] then last_beat d t0 t1 = t0 else last (ticker d t0 t1) = last_beat d t0 t1"
proof -
  have "0 \<le> (t1 - t0) div d" using assms by (simp add: pos_imp_zdiv_nonneg_iff)
  then show ?thesis
    by (cases "nat ((t1 - t0) div d)") (auto simp: ticker_def last_beat_def last_map)
qed

lemma last_beat_bounds:
  assumes "0 < d" and "t0 \<le> t1"
  shows "t0 \<le> last_beat d t0 t1 \<and> last_beat d t0 t1 \<le> t1 \<and> t1 < last_beat d t0 t1 + d"
proof -
  have "(t1 - t0) div d * d + (t1 - t0) mod d = t1 - t0" by simp
  moreover have "0 \<le> (t1 - t0) mod d" "(t1 - t0) mod d < d" using assms(1) by simp_all
  moreover have "0 \<le> (t1 - t0) div d * d" using assms by (simp add: pos_imp_zdiv_nonneg_iff)
  ultimately show ?thesis unfolding last_beat_def by linarith
qed

lemma pickupJob_fault_free:
  assumes "q_faults s = []"
    and "q_order q (filter (ready kinds (pg_time (q_now s))) (q_jobs s)) = row # rest"
  shows "pickupJob q None kinds s =
    (Ok (rowIntoJob row), s\<lparr>q_jobs := leased (jr_id row) (pg_time (q_now s) + q_extendInterval q) (q_jobs s)\<rparr>)"
proof -
  have "fetchReadyJob q None kinds s = (Ok (rowIntoJob row), s)"
    using assms by (simp add: fetchReadyJob_def qstmt_def q_fault_free)
  moreover have "job_ID (rowIntoJob row) = jr_id row"
    by (simp add: rowIntoJob_def)
  ultimately show ?thesis
    using assms(1)
    by (simp add: pickupJob_def withTx_def qstmt_def q_fault_free run_simps q_extendWaitTime_fault_free)
qed

text \<open>The columns \<open>saveJobResult\<close> sets.\<close>

definition saved :: "Job \<Rightarrow> job_row \<Rightarrow> job_row" where
  "saved job row =
     row\<lparr>jr_updated_at := pg_time (job_UpdatedAt job), jr_status := job_Status job,
         jr_result := copy_raw (job_Result job), jr_attempts_done := jr_attempts_done row + 1,
         jr_last_error := Some (job_LastError job), jr_last_attempt_at := Some (pg_time (job_LastAttemptAt job))\<rparr>"

lemma saveJobResult_fault_free:
  "q_faults s = [] \<Longrightarrow> saveJobResult None job s =
     (Ok (), s\<lparr>q_jobs := set_rows (\<lambda>row. jr_id row = job_ID job \<and> jr_status row = JobPending) (saved job) (q_jobs s)\<rparr>)"
  by (simp add: saveJobResult_def q_exec_def qstmt_def q_fault_free saved_def [abs_def])

lemma save_leased:
  assumes "distinct (map jr_id rows)" and "row \<in> set rows" and "jr_status row = JobPending"
  shows "set_rows (\<lambda>r. jr_id r = jr_id row \<and> jr_status r = JobPending) f (leased (jr_id row) u rows) =
    set_rows (\<lambda>r. jr_id r = jr_id row) (\<lambda>_. f (row\<lparr>jr_run_at := u\<rparr>)) rows"
proof -
  have "r = row" if "r \<in> set rows" "jr_id r = jr_id row" for r
    using assms(1,2) that by (meson distinct_map inj_onD)
  then show ?thesis
    using assms(3) by (auto simp: leased_def set_rows_def)
qed

text \<open>A handler that leaves the queue alone, with the beats of its heartbeat.\<close>

lemma handled_fault_free:
  assumes "q_faults s = []" and "q_refreshInterval q = d"
    and "fn None (rowIntoJob row) (s\<lparr>q_jobs := leased (jr_id row) (pg_time (q_now s) + q_extendInterval q) (q_jobs s)\<rparr>) =
           (Ok job, s\<lparr>q_jobs := leased (jr_id row) (pg_time (q_now s) + q_extendInterval q) (q_jobs s),
                      q_now := now, q_ext := x\<rparr>)"
    and "q_now s \<le> now" and "0 < d"
  shows "q_handleDequeued q None (rowIntoJob row) fn
      (s\<lparr>q_jobs := leased (jr_id row) (pg_time (q_now s) + q_extendInterval q) (q_jobs s)\<rparr>) =
    (Ok job, s\<lparr>q_jobs := leased (jr_id row) (pg_time (last_beat d (q_now s) now) + q_extendInterval q) (q_jobs s),
               q_now := now, q_ext := x\<rparr>)"
proof -
  let ?t = "s\<lparr>q_jobs := leased (jr_id row) (pg_time (q_now s) + q_extendInterval q) (q_jobs s), q_now := now, q_ext := x\<rparr>"
  let ?ticks = "ticker d (q_now s) now"
  have "q_faults ?t = []" using assms(1) by simp
  note beats = q_runHeartbeat_fault_free [OF this, of q ?ticks "jr_id row"]
  show ?thesis
  proof (cases "?ticks = []")
    case True
    with last_ticker [OF assms(5,4)] beats show ?thesis
      by (simp add: q_handleDequeued_def assms(2,3))
  next
    case False
    with last_ticker [OF assms(5,4)] beats show ?thesis
      by (simp add: q_handleDequeued_def assms(2,3))
  qed
qed

section \<open>Properties\<close>


text \<open>What the worker enqueues is pending in the queue. When \<open>Worker.Enqueue\<close> on the PostgreSQL queue
  succeeds, every given job was new, is now in the table with status \<open>PENDING\<close> and no result, and
  is of a kind this worker has a handler for.\<close>

theorem worker_Enqueue_pending:
  assumes "q_good s" and "wk_queue w = pgq_JobQueue q" and "worker_Enqueue w clock ctx jobs s = (Ok (), t)"
  shows "\<exists>jobs'. check_jobs w (clock s) jobs = Ok jobs' \<and>
    (\<forall>j \<in> set jobs'. q_view s (job_ID j) = None \<and> q_view t (job_ID j) = Some (job_Kind j, JobPending, None) \<and>
       lookup (wk_handlers w) (job_Kind j) \<noteq> None)"
  using assms by (rule pgq.enqueued_pending)

text \<open>C27: however long a worker polls the PostgreSQL queue and whatever faults its connection has, no job
  disappears or appears, none changes its kind, and a job that is done, failed or panicked keeps its
  status and result, provided the job functions themselves do not write the queue's table.\<close>

theorem finished_jobs_final:
  assumes "wk_queue w = pgq_JobQueue q" and "q_good s"
    and "\<And>kind fn j. lookup (wk_handlers w) kind = Some fn \<Longrightarrow> leaves_alone q_view q_good (fn j)"
  shows "q_good (snd (runWorker w clock ticks s)) \<and> progresses (q_view s) (q_view (snd (runWorker w clock ticks s)))"
  using assms by (rule pgq.runWorker_progresses)

text \<open>A picked-up job is leased. \<open>pickupJob\<close> returns a job that was pending, of a wanted kind and due;
  the only change to the table is that this job's run time is the extension interval ahead, so no
  query for ready jobs returns it before then.\<close>

theorem pickup_leases:
  assumes "\<And>rs. set (q_order q rs) = set rs" and "pickupJob q ctx kinds s = (Ok j, t)"
  shows "\<exists>row \<in> set (q_jobs s). ready kinds (pg_time (q_now s)) row \<and> j = rowIntoJob row \<and>
    q_jobs t = leased (jr_id row) (pg_time (q_now s) + q_extendInterval q) (q_jobs s) \<and>
    (\<forall>now kinds'. now \<le> pg_time (q_now s) + q_extendInterval q \<longrightarrow>
       job_ID j \<notin> jr_id ` set (filter (ready kinds' now) (q_jobs t)))"
  using assms(2) unfolding pickupJob_def
proof (cases rule: withTx_cases)
  case (committed s' a u)
  from committed(3) obtain v where f: "fetchReadyJob q ctx kinds s' = (Ok a, v)"
    and x: "q_extendWaitTime q ctx (job_ID a) v = (Ok (), u)"
    by (auto simp: bindS_Ok_iff ret_def)
  have j: "j = a"
    using committed(5) by blast
  from fetchReadyJob_Ok [OF f assms(1)] obtain row where row: "row \<in> set (q_jobs s)"
      "ready kinds (pg_time (q_now s)) row" "a = rowIntoJob row" and v: "q_jobs v = q_jobs s" "q_now v = q_now s"
    using committed by auto
  have t: "q_jobs t = leased (jr_id row) (pg_time (q_now s) + q_extendInterval q) (q_jobs s)"
    using q_extendWaitTime_Ok [OF x] committed v row by (simp add: rowIntoJob_def)
  show ?thesis
  proof (intro bexI [of _ row] conjI allI impI)
    fix now kinds'
    assume "now \<le> pg_time (q_now s) + q_extendInterval q"
    then show "job_ID j \<notin> jr_id ` set (filter (ready kinds' now) (q_jobs t))"
      using not_ready_leased row(3) j unfolding t by (fastforce simp: rowIntoJob_def)
  qed (use row t j in simp_all)
qed blast

text \<open>C28: The whole dequeue of one job. On a working connection, with a handler that returns the job and
  leaves the queue alone, \<open>Dequeue\<close> changes exactly the picked row: status, result, error, attempt
  count and times are those of the returned job. The run time is 30 seconds after the last heartbeat, of
  which there is one every 20 seconds while the handler runs (or after the pick-up when there was none):
  more than 10 and at most 30 seconds after the handler has returned, whatever \<open>RunAt\<close> it returned, so a
  requested retry delay has no effect.\<close>

theorem Dequeue_outcome:
  assumes "q_faults s = []" and "q_good s" and "\<And>rs. set (q_order q rs) = set rs"
    and "q_extendInterval q = extendInterval" and "q_refreshInterval q = refreshInterval"
    and "q_order q (filter (ready kinds (pg_time (q_now s))) (q_jobs s)) = row # rest"
    and "fn None (rowIntoJob row) (s\<lparr>q_jobs := leased (jr_id row) (pg_time (q_now s) + q_extendInterval q) (q_jobs s)\<rparr>) =
           (Ok job, s\<lparr>q_jobs := leased (jr_id row) (pg_time (q_now s) + q_extendInterval q) (q_jobs s),
                      q_now := now, q_ext := x\<rparr>)"
    and "job_ID job = jr_id row" and "q_now s \<le> now"
  shows "\<exists>beat. q_now s \<le> beat \<and> beat \<le> now \<and> now < beat + 20 * 1000000000 \<and>
    (beat - q_now s) mod (20 * 1000000000) = 0 \<and>
    Dequeue q None kinds fn s =
      (Ok (), s\<lparr>q_jobs := set_rows (\<lambda>r. jr_id r = jr_id row)
                  (\<lambda>_. saved job (row\<lparr>jr_run_at := pg_time beat + 30 * 1000000000\<rparr>)) (q_jobs s),
                q_now := now, q_ext := x\<rparr>)"
proof -
  let ?leased = "\<lambda>u. leased (jr_id row) (pg_time u + q_extendInterval q) (q_jobs s)"
  let ?s = "s\<lparr>q_jobs := ?leased (q_now s)\<rparr>"
  let ?beat = "last_beat refreshInterval (q_now s) now"
  have d: "0 < refreshInterval" by (simp add: refreshInterval_def)
  have "set (q_order q (filter (ready kinds (pg_time (q_now s))) (q_jobs s))) =
      set (filter (ready kinds (pg_time (q_now s))) (q_jobs s))"
    by (rule assms(3))
  then have row: "row \<in> set (q_jobs s)" "jr_status row = JobPending"
    using assms(6) by (auto simp: ready_def)
  have "q_handleDequeued q None (rowIntoJob row) fn ?s = (Ok job, s\<lparr>q_jobs := ?leased ?beat, q_now := now, q_ext := x\<rparr>)"
    by (rule handled_fault_free) (fact assms d)+
  note handled = this
  have picked: "pickupJob q None kinds s = (Ok (rowIntoJob row), ?s)"
    by (rule pickupJob_fault_free [OF assms(1,6)])
  have "saveJobResult None job (s\<lparr>q_jobs := ?leased ?beat, q_now := now, q_ext := x\<rparr>) =
      (Ok (), s\<lparr>q_jobs := set_rows (\<lambda>r. jr_id r = jr_id row)
                  (\<lambda>_. saved job (row\<lparr>jr_run_at := pg_time ?beat + extendInterval\<rparr>)) (q_jobs s),
                q_now := now, q_ext := x\<rparr>)"
    using assms(2) row by (simp add: saveJobResult_fault_free assms(1,4,8) save_leased q_good_def)
  then have "Dequeue q None kinds fn s =
      (Ok (), s\<lparr>q_jobs := set_rows (\<lambda>r. jr_id r = jr_id row)
                  (\<lambda>_. saved job (row\<lparr>jr_run_at := pg_time ?beat + extendInterval\<rparr>)) (q_jobs s),
                q_now := now, q_ext := x\<rparr>)"
    unfolding Dequeue_def catchS_simps(1) [where m = "pickupJob q None kinds" and s = s, OF picked]
      bindS_simps(1) [where m = "q_handleDequeued q None (rowIntoJob row) fn" and s = ?s, OF handled] .
  moreover have "(?beat - q_now s) mod refreshInterval = 0" by (simp add: last_beat_def)
  ultimately show ?thesis
    using last_beat_bounds [OF d assms(9)] unfolding refreshInterval_def extendInterval_def
    by (intro exI [of _ "last_beat (20 * 1000000000) (q_now s) now"] conjI) simp_all
qed

end
