(* ===== verification/Lease.thy ===== *)
theory Lease
  imports Pgq_Laws
begin

text \<open>
  Several workers on one job queue. A step of the fleet is one atomic action of one worker (the
  pick-up transaction, whose \<open>FOR UPDATE SKIP LOCKED\<close> makes it atomic, one heartbeat, the save of a
  result, giving up), an enqueue, or the passing of time. Any statement may fail or lose its reply,
  as the fault script of the queue's state says. Time passes only as far as every handler that is
  still running had its last successful heartbeat within the extension interval: the heartbeat
  period of 20 seconds is shorter than the extension of 30, and a failed heartbeat cancels the
  handler.
\<close>

section \<open>The fleet\<close>

text \<open>\<open>fl_running w\<close>: the job worker \<open>w\<close> handles and the time of its last successful lease.\<close>

record 'x fleet =
  fl_queue :: "'x qworld"
  fl_running :: "nat \<Rightarrow> (string \<times> jtime) option"

definition fleet_now :: "'x fleet \<Rightarrow> jtime" where
  "fleet_now f = pg_time (q_now (fl_queue f))"

inductive fleet_step :: "Queue \<Rightarrow> 'x fleet \<Rightarrow> 'x fleet \<Rightarrow> bool" for q where
  pickup: "fl_running f w = None \<Longrightarrow> pickupJob q None kinds (fl_queue f) = (Ok j, s) \<Longrightarrow>
    fleet_step q f (f\<lparr>fl_queue := s, fl_running := (fl_running f)(w \<mapsto> (job_ID j, fleet_now f))\<rparr>)"
| pickup_failed: "pickupJob q None kinds (fl_queue f) = (Err e, s) \<Longrightarrow> fleet_step q f (f\<lparr>fl_queue := s\<rparr>)"
| beat: "fl_running f w = Some (jid, b) \<Longrightarrow> q_extendWaitTime q None jid (fl_queue f) = (Ok (), s) \<Longrightarrow>
    fleet_step q f (f\<lparr>fl_queue := s, fl_running := (fl_running f)(w \<mapsto> (jid, fleet_now f))\<rparr>)"
| beat_failed: "fl_running f w = Some (jid, b) \<Longrightarrow> q_extendWaitTime q None jid (fl_queue f) = (Err e, s) \<Longrightarrow>
    fleet_step q f (f\<lparr>fl_queue := s\<rparr>)"
| save: "fl_running f w = Some (jid, b) \<Longrightarrow> job_ID job = jid \<Longrightarrow>
    fleet_step q f (f\<lparr>fl_queue := snd (saveJobResult None job (fl_queue f)), fl_running := (fl_running f)(w := None)\<rparr>)"
| give_up: "fleet_step q f (f\<lparr>fl_running := (fl_running f)(w := None)\<rparr>)"
| enqueue: "fleet_step q f (f\<lparr>fl_queue := snd (Enqueue None jobs (fl_queue f))\<rparr>)"
| pass: "q_now (fl_queue f) \<le> now \<Longrightarrow>
    \<forall>w jid b. fl_running f w = Some (jid, b) \<longrightarrow> pg_time now \<le> b + q_extendInterval q \<Longrightarrow>
    fleet_step q f (f\<lparr>fl_queue := (fl_queue f)\<lparr>q_now := now\<rparr>\<rparr>)"

definition fleet_start :: "'x qworld \<Rightarrow> 'x fleet" where
  "fleet_start s = \<lparr>fl_queue = s, fl_running = (\<lambda>_. None)\<rparr>"

section \<open>The lease invariant\<close>

text \<open>A job being handled is in the table and its run time covers the whole lease.\<close>

definition held :: "Queue \<Rightarrow> job_row list \<Rightarrow> jtime \<Rightarrow> string \<Rightarrow> jtime \<Rightarrow> bool" where
  "held q rows now jid b \<longleftrightarrow> b \<le> now \<and> now \<le> b + q_extendInterval q \<and> jid \<in> jr_id ` set rows \<and>
     (\<forall>row \<in> set rows. jr_id row = jid \<longrightarrow> b + q_extendInterval q \<le> jr_run_at row)"

definition lease_inv :: "Queue \<Rightarrow> 'x fleet \<Rightarrow> bool" where
  "lease_inv q f \<longleftrightarrow> q_good (fl_queue f) \<and>
     (\<forall>w jid b. fl_running f w = Some (jid, b) \<longrightarrow> held q (q_jobs (fl_queue f)) (fleet_now f) jid b) \<and>
     (\<forall>w w' jid b b'. fl_running f w = Some (jid, b) \<longrightarrow> fl_running f w' = Some (jid, b') \<longrightarrow> w = w')"

lemma pg_time_mono: "s \<le> t \<Longrightarrow> pg_time s \<le> pg_time t"
  by (simp add: pg_time_def zdiv_mono1)

text \<open>The statements do not move the clock.\<close>

definition timeless :: "('x, 'a) qdb \<Rightarrow> bool" where
  "timeless m \<longleftrightarrow> (\<forall>s. q_now (snd (m s)) = q_now s)"

lemma timeless_qstmt: "timeless m \<Longrightarrow> timeless (qstmt ctx m)"
  unfolding timeless_def qstmt_def
  by (auto split: option.splits fault.splits prod.splits result.splits) (metis q_tick_simps(2) snd_conv)+

lemma timeless_bindS: "timeless m \<Longrightarrow> (\<And>a. timeless (f a)) \<Longrightarrow> timeless (bindS m f)"
  unfolding timeless_def bindS_def catchS_def fail_def
  by (auto split: prod.splits result.splits) (metis snd_conv)+

lemma timeless_exec: "timeless (q_exec ctx f)"
  unfolding q_exec_def by (rule timeless_qstmt) (simp add: timeless_def)

lemma timeless_fetch: "timeless (fetchReadyJob q ctx kinds)"
  unfolding fetchReadyJob_def by (rule timeless_qstmt) (simp add: timeless_def split: list.splits)

lemma timeless_Enqueue: "q_now (snd (Enqueue ctx jobs s)) = q_now s"
  by (auto simp: Enqueue_def insert_jobs_def qstmt_def catchS_def fail_def ret_def
      split: if_splits option.splits fault.splits prod.splits result.splits)

lemma timeless_ret: "timeless (ret a)"
  by (simp add: timeless_def ret_def)

lemma timeless_withTx:
  assumes "timeless m"
  shows "timeless (withTx ctx ro m)"
  unfolding timeless_def
proof
  fix s :: "'a qworld"
  obtain r t where b: "qstmt ctx (\<lambda>s. (Ok (), s)) s = (r, t)" by fastforce
  have t: "q_now t = q_now s"
    using b by (auto simp: qstmt_def split: option.splits fault.splits)
  obtain r' u where f: "m t = (r', u)" by fastforce
  then have u: "q_now u = q_now t"
    using assms unfolding timeless_def by (metis snd_conv)
  show "q_now (snd (withTx ctx ro m s)) = q_now s"
    using b f t u by (cases r; cases r'; cases "q_next u") (simp_all add: withTx_def q_rollback_def)
qed

lemma timeless_pickup: "timeless (pickupJob q ctx kinds)"
  unfolding pickupJob_def q_extendWaitTime_def
  by (intro timeless_withTx timeless_bindS timeless_fetch timeless_exec timeless_ret)

section \<open>Preservation\<close>

text \<open>What a pick-up does to the rows, whatever it returns: nothing, or the lease of a ready job.\<close>

lemma pickupJob_rows:
  assumes order: "\<And>rs. set (q_order q rs) = set rs" and p: "pickupJob q ctx kinds s = (r, t)"
  shows "q_jobs t = q_jobs s \<and> (\<forall>j. r \<noteq> Ok j) \<or>
    (\<exists>row \<in> set (q_jobs s). ready kinds (pg_time (q_now s)) row \<and> (\<forall>j. r = Ok j \<longrightarrow> j = rowIntoJob row) \<and>
       q_jobs t = leased (jr_id row) (pg_time (q_now s) + q_extendInterval q) (q_jobs s))"
  using p unfolding pickupJob_def
proof (cases rule: withTx_cases)
  case rolled_back
  then show ?thesis by blast
next
  case (committed s' a u)
  from committed(3) obtain v where f: "fetchReadyJob q ctx kinds s' = (Ok a, v)"
    and x: "q_extendWaitTime q ctx (job_ID a) v = (Ok (), u)"
    by (auto simp: bindS_Ok_iff ret_def)
  from fetchReadyJob_Ok [OF f order] obtain row where row: "row \<in> set (q_jobs s)"
      "ready kinds (pg_time (q_now s)) row" "a = rowIntoJob row" and v: "q_jobs v = q_jobs s" "q_now v = q_now s"
    using committed(1,2) by auto
  have "q_jobs t = leased (jr_id row) (pg_time (q_now s) + q_extendInterval q) (q_jobs s)"
    using q_extendWaitTime_Ok [OF x] committed(4) v row(3) by (simp add: rowIntoJob_def)
  then show ?thesis
    using row committed(5) by blast
qed

lemma q_extendWaitTime_rows:
  assumes "q_extendWaitTime q ctx jid s = (r, t)"
  shows "q_jobs t = q_jobs s \<and> r \<noteq> Ok () \<or> q_jobs t = leased jid (pg_time (q_now s) + q_extendInterval q) (q_jobs s)"
  using assms
  by (auto simp: q_extendWaitTime_def q_exec_def qstmt_def leased_def split: option.splits fault.splits)

lemma leased_ids [simp]: "map jr_id (leased jid u rows) = map jr_id rows"
  by (simp add: leased_def set_rows_def)

lemma leased_id_set [simp]: "jr_id ` set (leased jid u rows) = jr_id ` set rows"
  by (metis leased_ids list.set_map)

lemma held_leased:
  assumes "held q rows now jid b" and "jid' \<noteq> jid \<or> now + q_extendInterval q \<le> u"
  shows "held q (leased jid' u rows) now jid b"
  using assms unfolding held_def leased_id_set by (auto simp: leased_def set_rows_def)

lemma held_extend:
  "held q rows now jid b \<Longrightarrow> held q (leased jid' (now + q_extendInterval q) rows) now jid b"
  by (erule held_leased) simp

lemma held_new:
  assumes "0 \<le> q_extendInterval q" and "jid \<in> jr_id ` set rows"
  shows "held q (leased jid (now + q_extendInterval q) rows) now jid now"
  using assms unfolding held_def leased_id_set by (auto simp: leased_def set_rows_def)

lemma held_not_ready:
  assumes "held q rows now (jr_id row) b" and "row \<in> set rows"
  shows "\<not> ready kinds now row"
  using assms by (auto simp: held_def ready_def)

lemma held_append:
  assumes "held q rows now jid b" and "distinct (map jr_id (rows @ rows'))"
  shows "held q (rows @ rows') now jid b"
proof -
  have "\<forall>row \<in> set rows'. jr_id row \<noteq> jid"
    using assms unfolding held_def by auto
  then show ?thesis
    using assms(1) unfolding held_def by (simp add: ball_Un image_Un)
qed

lemma held_save:
  assumes "held q (q_jobs s) now jid b"
  shows "held q (q_jobs (snd (saveJobResult ctx job s))) now jid b"
proof -
  have "q_jobs (snd (saveJobResult ctx job s)) = q_jobs s \<or>
      q_jobs (snd (saveJobResult ctx job s)) =
        set_rows (\<lambda>row. jr_id row = job_ID job \<and> jr_status row = JobPending) (saved job) (q_jobs s)"
    by (auto simp: saveJobResult_def q_exec_def qstmt_def saved_def [abs_def] split: option.splits fault.splits)
  moreover have "map jr_id (set_rows P (saved job) rows) = map jr_id rows" for P rows
    by (simp add: set_rows_def saved_def)
  then have "jr_id ` set (set_rows P (saved job) rows) = jr_id ` set rows" for P rows
    by (metis list.set_map)
  ultimately show ?thesis
    using assms by (auto simp: held_def) (auto simp: set_rows_def saved_def)
qed

text \<open>Changing the rows under a lease keeps the invariant when no handled job loses its lease.\<close>

lemma lease_inv_rows:
  assumes "lease_inv q f" and "q_good s" and "q_now s = q_now (fl_queue f)"
    and "\<And>w jid b. fl_running f w = Some (jid, b) \<Longrightarrow> held q (q_jobs s) (fleet_now f) jid b"
  shows "lease_inv q (f\<lparr>fl_queue := s\<rparr>)"
  using assms by (simp add: lease_inv_def fleet_now_def)

lemma lease_inv_set:
  assumes "lease_inv q f" and "held q (q_jobs (fl_queue f)) (fleet_now f) jid b"
    and "\<And>w' b'. fl_running f w' = Some (jid, b') \<Longrightarrow> w' = w"
  shows "lease_inv q (f\<lparr>fl_running := (fl_running f)(w \<mapsto> (jid, b))\<rparr>)"
  using assms unfolding lease_inv_def fleet_now_def by (simp split: if_splits) blast

lemma lease_inv_clear: "lease_inv q f \<Longrightarrow> lease_inv q (f\<lparr>fl_running := (fl_running f)(w := None)\<rparr>)"
  unfolding lease_inv_def fleet_now_def by (simp split: if_splits)

lemma q_good_progress: "touches rows_progress m \<Longrightarrow> q_good s \<Longrightarrow> q_good (snd (m s))"
  unfolding touches_def q_good_def by (metis rows_progress_ids)

lemma fleet_now_queue:
  assumes "timeless m" and "m (fl_queue f) = (r, s)"
  shows "fleet_now (f\<lparr>fl_queue := s\<rparr>) = fleet_now f"
proof -
  have "q_now s = q_now (fl_queue f)"
    using assms unfolding timeless_def by (metis snd_conv)
  then show ?thesis by (simp add: fleet_now_def)
qed

lemma lease_inv_pickup:
  assumes inv: "lease_inv q f" and order: "\<And>rs. set (q_order q rs) = set rs"
    and p: "pickupJob q None kinds (fl_queue f) = (r, s)"
  shows "lease_inv q (f\<lparr>fl_queue := s\<rparr>)"
    and "r = Ok j \<Longrightarrow> fl_running f w \<noteq> Some (job_ID j, b)"
    and "r = Ok j \<Longrightarrow> 0 \<le> q_extendInterval q \<Longrightarrow> held q (q_jobs s) (fleet_now f) (job_ID j) (fleet_now f)"
proof -
  have good: "q_good s"
    using q_good_progress [OF touches_pickup, of "fl_queue f" q None kinds] inv p by (simp add: lease_inv_def)
  have now: "q_now s = q_now (fl_queue f)"
    using timeless_pickup p unfolding timeless_def by (metis snd_conv)
  have heldf: "held q (q_jobs (fl_queue f)) (fleet_now f) jid b" if "fl_running f w = Some (jid, b)" for w jid b
    using inv that by (simp add: lease_inv_def)
  have not_held: "jr_id row \<noteq> jid"
    if "fl_running f w = Some (jid, b)" "row \<in> set (q_jobs (fl_queue f))" "ready kinds (fleet_now f) row" for w jid b row
    using held_not_ready heldf [OF that(1)] that by blast
  note rows = pickupJob_rows [OF order p, folded fleet_now_def]
  show "lease_inv q (f\<lparr>fl_queue := s\<rparr>)"
    by (rule lease_inv_rows [OF inv good now]) (use rows heldf not_held in \<open>auto intro!: held_extend\<close>)
  show "fl_running f w \<noteq> Some (job_ID j, b)" if "r = Ok j"
  proof
    assume w: "fl_running f w = Some (job_ID j, b)"
    from rows that obtain row where "row \<in> set (q_jobs (fl_queue f))" "ready kinds (fleet_now f) row"
        "j = rowIntoJob row" by blast
    with not_held [OF w, of row] show False by simp
  qed
  show "held q (q_jobs s) (fleet_now f) (job_ID j) (fleet_now f)" if "r = Ok j" "0 \<le> q_extendInterval q"
    using rows that by (auto intro!: held_new)
qed

lemma lease_inv_extend:
  assumes inv: "lease_inv q f" and run: "fl_running f w = Some (jid, b)"
    and p: "q_extendWaitTime q None jid (fl_queue f) = (r, s)"
  shows "lease_inv q (f\<lparr>fl_queue := s\<rparr>)"
    and "r = Ok () \<Longrightarrow> 0 \<le> q_extendInterval q \<Longrightarrow> held q (q_jobs s) (fleet_now f) jid (fleet_now f)"
proof -
  have good: "q_good s"
    using q_good_progress [OF touches_extend, of "fl_queue f" q None jid] inv p by (simp add: lease_inv_def)
  have now: "q_now s = q_now (fl_queue f)"
    using timeless_exec p unfolding timeless_def q_extendWaitTime_def by (metis snd_conv)
  have heldf: "held q (q_jobs (fl_queue f)) (fleet_now f) jid b" if "fl_running f w = Some (jid, b)" for w jid b
    using inv that by (simp add: lease_inv_def)
  note rows = q_extendWaitTime_rows [OF p, folded fleet_now_def]
  show "lease_inv q (f\<lparr>fl_queue := s\<rparr>)"
    by (rule lease_inv_rows [OF inv good now]) (use rows heldf in \<open>auto intro!: held_extend\<close>)
  show "held q (q_jobs s) (fleet_now f) jid (fleet_now f)" if "r = Ok ()" "0 \<le> q_extendInterval q"
    using rows that heldf [OF run] by (auto simp: held_def [of q "q_jobs (fl_queue f)"] intro!: held_new)
qed

lemma lease_inv_step:
  assumes "fleet_step q f f'" and "lease_inv q f"
    and order: "\<And>rs. set (q_order q rs) = set rs" and ext: "0 \<le> q_extendInterval q"
  shows "lease_inv q f'"
  using assms(1,2)
proof (induction rule: fleet_step.induct)
  case (pickup f w kinds j s)
  note p = lease_inv_pickup [OF pickup(3) order pickup(2)]
  have "fleet_now (f\<lparr>fl_queue := s\<rparr>) = fleet_now f"
    by (rule fleet_now_queue [OF timeless_pickup pickup(2)])
  then show ?case
    using lease_inv_set [OF p(1), of "job_ID j" "fleet_now f" w] p(2,3) ext by auto
next
  case (pickup_failed kinds f e s)
  then show ?case using lease_inv_pickup(1) order by blast
next
  case (beat f w jid b s)
  note p = lease_inv_extend [OF beat(3,1,2)]
  have "fleet_now (f\<lparr>fl_queue := s\<rparr>) = fleet_now f"
    using beat(2) unfolding q_extendWaitTime_def by (rule fleet_now_queue [OF timeless_exec])
  moreover have "w' = w" if "fl_running f w' = Some (jid, b')" for w' b'
    using beat(1,3) that unfolding lease_inv_def by blast
  ultimately show ?case
    using lease_inv_set [OF p(1), of jid "fleet_now f" w] p(2) ext by auto
next
  case (beat_failed f w jid b e s)
  then show ?case using lease_inv_extend(1) by blast
next
  case (save f w jid b job)
  let ?s = "snd (saveJobResult None job (fl_queue f))"
  have "q_good ?s"
    using save by (intro q_good_progress [OF touches_save]) (simp add: lease_inv_def)
  moreover have "q_now ?s = q_now (fl_queue f)"
    using timeless_exec unfolding timeless_def saveJobResult_def by blast
  ultimately have "lease_inv q (f\<lparr>fl_queue := ?s\<rparr>)"
    using save by (intro lease_inv_rows held_save) (auto simp: lease_inv_def)
  from lease_inv_clear [OF this, of w] show ?case by simp
next
  case (give_up f w)
  then show ?case by (rule lease_inv_clear)
next
  case (enqueue f jobs)
  let ?s = "snd (Enqueue None jobs (fl_queue f))"
  have rows: "q_jobs ?s = q_jobs (fl_queue f) \<or>
      q_jobs ?s = q_jobs (fl_queue f) @ map job_into_row jobs \<and> distinct (map jr_id (q_jobs ?s))"
    using Enqueue_effect [of None jobs "fl_queue f" "fst (Enqueue None jobs (fl_queue f))" ?s] by auto
  show ?case
  proof (rule lease_inv_rows [OF enqueue])
    show "q_good ?s" using rows enqueue by (auto simp: lease_inv_def q_good_def)
    show "q_now ?s = q_now (fl_queue f)" by (rule timeless_Enqueue)
    fix w jid b
    assume "fl_running f w = Some (jid, b)"
    then have "held q (q_jobs (fl_queue f)) (fleet_now f) jid b"
      using enqueue by (simp add: lease_inv_def)
    then show "held q (q_jobs ?s) (fleet_now f) jid b"
      using rows held_append by metis
  qed
next
  case (pass f now)
  then show ?case
    using pg_time_mono [OF pass(1)] unfolding lease_inv_def held_def fleet_now_def q_good_def
    by simp (meson order_trans)
qed

lemma lease_inv_reachable:
  assumes "(fleet_step q)\<^sup>*\<^sup>* (fleet_start s) f" and "q_good s"
    and "\<And>rs. set (q_order q rs) = set rs" and "0 \<le> q_extendInterval q"
  shows "lease_inv q f"
  using assms(1)
proof (induction rule: rtranclp_induct)
  case base
  then show ?case using assms(2) by (simp add: lease_inv_def fleet_start_def)
next
  case (step f f')
  then show ?case using lease_inv_step assms(3,4) by blast
qed

section \<open>Properties\<close>


end
