(* ===== verification/Witnesses_Queue.thy ===== *)
theory Witnesses_Queue
  imports Lease
begin

text \<open>
  The properties of the worker and of the PostgreSQL queue, applied to a queue \<open>jobs\<close> with one
  pending job \<open>mail\<close> and a worker whose handler returns a result.
\<close>

definition jobs_queue :: Queue where
  "jobs_queue = \<lparr>q_queueName = ''jobs'', q_tableName = ''pgq_jobs'', q_extendInterval = extendInterval,
     q_refreshInterval = refreshInterval, q_order = (\<lambda>rows. rows)\<rparr>"

lemma jobs_queue_opened: "pgq_Open (Ok ()) ''jobs'' (\<lambda>rows. rows) = Ok jobs_queue"
  by (simp add: pgq_Open_def jobs_queue_def queueNamePattern_def name_start_def name_char_def)

definition mail_job :: Job where
  "mail_job = \<lparr>job_ID = ''m1'', job_Kind = ''mail'', job_RunAt = 1000, job_Payload = Some (Text ''to alice''),
     job_Status = JobPending, job_CreatedAt = 1000, job_UpdatedAt = 1000, job_Result = None,
     job_AttemptsDone = 0, job_LastAttemptAt = 0, job_LastError = []\<rparr>"

definition mail_handler :: "unit qworld JobFn" where
  "mail_handler job = ret (Some (Text ''sent''))"

definition mail_worker :: "unit qworld Worker" where
  "mail_worker = \<lparr>wk_workers = 1, wk_pollInt = 1000000000, wk_queue = pgq_JobQueue jobs_queue,
     wk_handlers = Some [(''mail'', mail_handler)]\<rparr>"

definition empty_queue :: "unit qworld" where
  "empty_queue = \<lparr>q_jobs = [], q_faults = [], q_now = 5000, q_ext = ()\<rparr>"

definition mail_queue :: "unit qworld" where
  "mail_queue = empty_queue\<lparr>q_jobs := [job_into_row mail_job]\<rparr>"

definition mail_leased :: "unit qworld" where
  "mail_leased = mail_queue\<lparr>q_jobs := [(job_into_row mail_job)\<lparr>jr_run_at := 30000005000\<rparr>]\<rparr>"

lemmas queue_scenario = jobs_queue_def mail_job_def mail_worker_def mail_handler_def empty_queue_def
  mail_queue_def mail_leased_def job_into_row_def extendInterval_def pg_time_def q_good_def

lemma mail_good: "q_good mail_queue" "q_good empty_queue"
  by (simp_all add: queue_scenario)

lemma mail_order: "set (q_order jobs_queue rows) = set rows"
  by (simp add: jobs_queue_def)

theorem Attempt_correct_witness:
  "\<exists>j' t. Attempt None 7000 mail_handler mail_job mail_queue = (Ok j', t) \<and>
     job_AttemptsDone j' = 1 \<and> job_Status j' = StatusDone \<and> job_Result j' = Some (Text ''sent'')"
proof -
  have h: "mail_handler mail_job mail_queue = (Ok (Some (Text ''sent'')), mail_queue)"
    by (simp add: mail_handler_def ret_def)
  have a: "job_AttemptsDone mail_job = 0"
    by (simp add: mail_job_def)
  have "fst (mail_handler mail_job mail_queue) \<noteq> Overflow"
    by (simp add: h)
  from Attempt_correct [where fn = mail_handler and j = mail_job and s = mail_queue
      and ctxErr = None and now = 7000, OF this] show ?thesis
    unfolding h a by auto
qed


lemma mail_enqueued: "worker_Enqueue mail_worker q_now None [mail_job] empty_queue = (Ok (), snd (worker_Enqueue mail_worker q_now None [mail_job] empty_queue))"
  by code_simp

theorem worker_Enqueue_pending_witness:
  "\<exists>jobs'. check_jobs mail_worker 5000 [mail_job] = Ok jobs' \<and>
     (\<forall>j \<in> set jobs'. q_view (snd (worker_Enqueue mail_worker q_now None [mail_job] empty_queue)) (job_ID j) =
        Some (job_Kind j, JobPending, None))"
proof -
  have w: "wk_queue mail_worker = pgq_JobQueue jobs_queue" and n: "q_now empty_queue = 5000"
    by (simp_all add: mail_worker_def empty_queue_def)
  from worker_Enqueue_pending [OF mail_good(2) w mail_enqueued] show ?thesis
    unfolding n by blast
qed

lemma mail_handlers:
  "lookup (wk_handlers mail_worker) kind = Some fn \<Longrightarrow> leaves_alone q_view q_good (fn j)"
  by (auto simp: mail_worker_def lookup_def mail_handler_def leaves_alone_def ret_def split: if_splits)

theorem finished_jobs_final_witness:
  "progresses (q_view mail_queue) (q_view (snd (runWorker mail_worker q_now 3 mail_queue)))"
proof -
  have w: "wk_queue mail_worker = pgq_JobQueue jobs_queue"
    by (simp add: mail_worker_def)
  show ?thesis
    using finished_jobs_final [OF w mail_good(1), of q_now 3] mail_handlers by blast
qed

lemma mail_picked: "pickupJob jobs_queue None [''mail''] mail_queue = (Ok mail_job, mail_leased)"
  by code_simp

theorem pickup_leases_witness:
  "\<exists>row \<in> set (q_jobs mail_queue). mail_job = rowIntoJob row"
  using pickup_leases [OF mail_order mail_picked] by blast

text \<open>A handler that takes 47 seconds, so that two beats extend the lease, and asks for a retry in an hour.\<close>

definition slow_handler :: "unit qworld DequeueFn" where
  "slow_handler ctx job s =
     (Ok (job\<lparr>job_RunAt := 3600 * 1000000000, job_LastError := ''try later''\<rparr>), s\<lparr>q_now := q_now s + 47 * 1000000000\<rparr>)"

theorem Dequeue_outcome_witness:
  "fst (Dequeue jobs_queue None [''mail''] slow_handler mail_queue) = Ok () \<and>
   map jr_run_at (q_jobs (snd (Dequeue jobs_queue None [''mail''] slow_handler mail_queue))) = [5000 + 70 * 1000000000]"
proof -
  let ?row = "job_into_row mail_job"
  let ?s = "mail_queue\<lparr>q_jobs := leased (jr_id ?row) (pg_time (q_now mail_queue) + q_extendInterval jobs_queue) (q_jobs mail_queue)\<rparr>"
  let ?job = "(rowIntoJob ?row)\<lparr>job_RunAt := 3600 * 1000000000, job_LastError := ''try later''\<rparr>"
  let ?now = "5000 + 47 * 1000000000 :: jtime"
  have f: "q_faults mail_queue = []" "q_extendInterval jobs_queue = extendInterval" "q_refreshInterval jobs_queue = refreshInterval"
    by (simp_all add: queue_scenario)
  have r: "q_order jobs_queue (filter (ready [''mail''] (pg_time (q_now mail_queue))) (q_jobs mail_queue)) = [?row]"
    by (simp add: queue_scenario ready_def)
  have h: "slow_handler None (rowIntoJob ?row) ?s = (Ok ?job, ?s\<lparr>q_now := ?now, q_ext := ()\<rparr>)"
    by (simp add: slow_handler_def mail_queue_def empty_queue_def)
  have i: "job_ID ?job = jr_id ?row" "q_now mail_queue \<le> ?now"
    by (simp_all add: rowIntoJob_def mail_queue_def empty_queue_def)
  from Dequeue_outcome [OF f(1) mail_good(1) mail_order f(2,3) r _ i,
      where fn = slow_handler and x = "()"] h
  obtain beat where beat: "5000 \<le> beat" "beat \<le> ?now" "?now < beat + 20 * 1000000000" "(beat - 5000) mod (20 * 1000000000) = 0"
    and run: "Dequeue jobs_queue None [''mail''] slow_handler mail_queue =
      (Ok (), mail_queue\<lparr>q_jobs := set_rows (\<lambda>r. jr_id r = jr_id ?row)
         (\<lambda>_. saved ?job (?row\<lparr>jr_run_at := pg_time beat + 30 * 1000000000\<rparr>)) (q_jobs mail_queue), q_now := ?now, q_ext := ()\<rparr>)"
    by (auto simp: mail_queue_def empty_queue_def)
  obtain k where k: "beat - 5000 = 20 * 1000000000 * k" using beat(4) by (auto elim: dvdE)
  then have "k = 2" using beat(1-3) by linarith
  with k have "beat = 5000 + 40 * 1000000000" by simp
  then show ?thesis unfolding run by (simp add: queue_scenario set_rows_def saved_def)
qed


end
