(* ===== verification/Kube_Types.thy ===== *)
theory Kube_Types
  imports Json_More Validator
begin

text \<open>
  \<open>pkg/kube/container\<close>, \<open>pkg/kube/volume\<close>, \<open>pkg/kube/pod\<close> and the job of \<open>pkg/kube/job\<close>: the pods and
  jobs Entropy describes and the Kubernetes objects they are turned into. The Kubernetes objects are
  records of the fields the code sets. A \<open>resource.Quantity\<close> is kept as its canonical text;
  \<open>parseQuantity\<close> is the library's parser, which returns a value and an error as in Go.
\<close>

section \<open>Containers\<close>

type_synonym quantity = string

record VolumeMount =
  vm_Name :: string
  vm_MountPath :: string

record Container =
  ct_Image :: string
  ct_Name :: string
  ct_EnvConfigMaps :: "string list"
  ct_Command :: "string list"
  ct_EnvMap :: "string gomap"
  ct_Args :: "string list"
  ct_ImagePullPolicy :: string
  ct_VolumeMounts :: "VolumeMount list"
  ct_Requests :: "string gomap"
  ct_Limits :: "string gomap"
  ct_PreStopCmd :: "string list"
  ct_PostStartCmd :: "string list"

text \<open>\<open>corev1.Container\<close>; \<open>cv_EnvFrom\<close> are the names of config maps.\<close>

record corev1_Container =
  cv_Name :: string
  cv_Image :: string
  cv_Command :: "string list"
  cv_Args :: "string list"
  cv_EnvFrom :: "string list"
  cv_Env :: "(string \<times> string) list"
  cv_Limits :: "quantity gomap"
  cv_Requests :: "quantity gomap"
  cv_VolumeMounts :: "VolumeMount list"
  cv_PreStop :: "string list option"
  cv_PostStart :: "string list option"
  cv_ImagePullPolicy :: string

definition parseResources ::
    "(string \<Rightarrow> quantity \<times> gerror option) \<Rightarrow> Container \<Rightarrow> quantity gomap \<times> quantity gomap" where
  "parseResources parseQuantity c =
     (let quantity = (\<lambda>m k. fst (parseQuantity (get_str m k)))
      in (Some [(''cpu'', quantity (ct_Limits c) ''cpu''), (''memory'', quantity (ct_Limits c) ''memory'')],
          Some [(''cpu'', quantity (ct_Requests c) ''cpu''), (''memory'', quantity (ct_Requests c) ''memory'')]))"

definition Container_Template ::
    "(string \<Rightarrow> quantity \<times> gerror option) \<Rightarrow> Container \<Rightarrow> corev1_Container" where
  "Container_Template parseQuantity c =
     (let (limits, requests) = parseResources parseQuantity c
      in \<lparr>cv_Name = ct_Name c, cv_Image = ct_Image c, cv_Command = ct_Command c, cv_Args = ct_Args c,
          cv_EnvFrom = ct_EnvConfigMaps c, cv_Env = entries (ct_EnvMap c),
          cv_Limits = limits, cv_Requests = requests,
          cv_VolumeMounts = ct_VolumeMounts c @ [\<lparr>vm_Name = ''shared-data'', vm_MountPath = ''/shared''\<rparr>],
          cv_PreStop = (if ct_PreStopCmd c = [] then None else Some (ct_PreStopCmd c)),
          cv_PostStart = (if ct_PostStartCmd c = [] then None else Some (ct_PostStartCmd c)),
          cv_ImagePullPolicy = ct_ImagePullPolicy c\<rparr>)"

section \<open>Volumes\<close>

definition Volume_Secret :: int where "Volume_Secret = 0"
definition Volume_ConfigMap :: int where "Volume_ConfigMap = 1"

record Volume =
  vol_Kind :: int
  vol_Name :: string
  vol_SourceName :: string

text \<open>\<open>corev1.VolumeSource\<close>: which of its pointers is set.\<close>

datatype volume_source = SecretSource string | ConfigMapSource string | EmptyDir | NoSource

definition GetPodVolume :: "Volume \<Rightarrow> string \<times> volume_source" where
  "GetPodVolume v =
     (vol_Name v,
      if vol_Kind v = Volume_Secret then SecretSource (vol_SourceName v)
      else if vol_Kind v = Volume_ConfigMap then ConfigMapSource (vol_SourceName v)
      else NoSource)"

section \<open>Pods\<close>

record Toleration =
  tol_Key :: string
  tol_Value :: string
  tol_Effect :: string
  tol_Operator :: string

record Preference =
  pref_Key :: string
  pref_Operator :: string
  pref_Values :: "string list"

record WeightedPreference =
  wp_Weight :: int
  wp_Preference :: "Preference list"

record NodeAffinityMatchExpressions =
  na_Required :: "Preference list"
  na_Preferred :: "WeightedPreference list"

text \<open>\<open>corev1.NodeAffinity\<close>: the required selector terms and the preferred terms with their \<open>int32\<close> weights.\<close>

record corev1_NodeAffinity =
  ca_Required :: "Preference list list"
  ca_Preferred :: "(int \<times> Preference list) list"

definition Affinity_ToCoreV1 :: "NodeAffinityMatchExpressions option \<Rightarrow> corev1_NodeAffinity option" where
  "Affinity_ToCoreV1 na =
     (case na of
        None \<Rightarrow> None
      | Some a \<Rightarrow>
          Some \<lparr>ca_Required = (if na_Required a = [] then [] else [na_Required a]),
                ca_Preferred = map (\<lambda>wp. (to_int32 (wp_Weight wp), wp_Preference wp)) (na_Preferred a)\<rparr>)"

record Pod =
  pod_Name :: string
  pod_Containers :: "Container list"
  pod_Volumes :: "Volume list"
  pod_Labels :: "string gomap"
  pod_Tolerations :: "Toleration list"
  pod_Affinity :: "NodeAffinityMatchExpressions option"

record corev1_PodTemplateSpec =
  pt_Name :: string
  pt_Labels :: "string gomap"
  pt_Tolerations :: "Toleration list"
  pt_Affinity :: "corev1_NodeAffinity option"
  pt_Containers :: "corev1_Container list"
  pt_Volumes :: "(string \<times> volume_source) list"
  pt_RestartPolicy :: string

definition Pod_Template ::
    "(string \<Rightarrow> quantity \<times> gerror option) \<Rightarrow> Pod \<Rightarrow> corev1_PodTemplateSpec" where
  "Pod_Template parseQuantity p =
     \<lparr>pt_Name = pod_Name p, pt_Labels = pod_Labels p, pt_Tolerations = pod_Tolerations p,
      pt_Affinity = Affinity_ToCoreV1 (pod_Affinity p),
      pt_Containers = map (Container_Template parseQuantity) (pod_Containers p),
      pt_Volumes = map GetPodVolume (pod_Volumes p) @ [(''shared-data'', EmptyDir)],
      pt_RestartPolicy = ''Never''\<rparr>"

section \<open>Jobs\<close>

text \<open>The pointers to \<open>int32\<close> are optional integers.\<close>

record kube_Job =
  kj_Pod :: "Pod option"
  kj_Name :: string
  kj_Namespace :: string
  kj_Labels :: "string gomap"
  kj_Parallelism :: "int option"
  kj_BackOffList :: "int option"
  kj_TTLSeconds :: "int option"

record v1_Job =
  vj_Name :: string
  vj_Namespace :: string
  vj_Labels :: "string gomap"
  vj_Template :: corev1_PodTemplateSpec
  vj_Parallelism :: "int option"
  vj_BackoffLimit :: "int option"
  vj_TTLSecondsAfterFinished :: "int option"
  vj_Suspend :: "bool option"
  vj_Active :: int
  vj_Succeeded :: int
  vj_Failed :: int
  vj_Ready :: "int option"

definition nil_dereference :: string where
  "nil_dereference = ''runtime error: invalid memory address or nil pointer dereference''"

definition Job_Template :: "(string \<Rightarrow> quantity \<times> gerror option) \<Rightarrow> kube_Job \<Rightarrow> v1_Job outcome" where
  "Job_Template parseQuantity j =
     (case kj_Pod j of
        None \<Rightarrow> Panic nil_dereference
      | Some p \<Rightarrow>
          Ok \<lparr>vj_Name = kj_Name j, vj_Namespace = kj_Namespace j, vj_Labels = kj_Labels j,
              vj_Template = Pod_Template parseQuantity p, vj_Parallelism = kj_Parallelism j,
              vj_BackoffLimit = kj_BackOffList j, vj_TTLSecondsAfterFinished = kj_TTLSeconds j,
              vj_Suspend = None, vj_Active = 0, vj_Succeeded = 0, vj_Failed = 0, vj_Ready = None\<rparr>)"

section \<open>Processing of jobs\<close>

text \<open>The client of one namespace's jobs, \<open>v1.JobInterface\<close>; \<open>ji_Delete\<close> takes the propagation policy.\<close>

record 's JobInterface =
  ji_Create :: "v1_Job \<Rightarrow> ('s, v1_Job) go"
  ji_Get :: "string \<Rightarrow> ('s, v1_Job) go"
  ji_Update :: "v1_Job \<Rightarrow> ('s, v1_Job) go"
  ji_Delete :: "string \<Rightarrow> string \<Rightarrow> ('s, unit) go"

record 's Processor =
  pr_Job :: kube_Job
  pr_Client :: "'s JobInterface"
  pr_DeletePropagation :: string

definition deletionPolicy :: string where "deletionPolicy = ''Foreground''"

definition NewProcessor :: "kube_Job \<Rightarrow> 's JobInterface \<Rightarrow> 's Processor" where
  "NewProcessor job client = \<lparr>pr_Job = job, pr_Client = client, pr_DeletePropagation = deletionPolicy\<rparr>"

definition SubmitJob :: "(string \<Rightarrow> quantity \<times> gerror option) \<Rightarrow> 's Processor \<Rightarrow> ('s, unit) go" where
  "SubmitJob parseQuantity jp =
     bindS (liftR (Job_Template parseQuantity (pr_Job jp))) (\<lambda>template.
     bindS (ji_Create (pr_Client jp) template) (\<lambda>_. ret ()))"

definition UpdateJob :: "bool \<Rightarrow> 's Processor \<Rightarrow> ('s, unit) go" where
  "UpdateJob suspend jp =
     bindS (ji_Get (pr_Client jp) (kj_Name (pr_Job jp))) (\<lambda>job.
     bindS (ji_Update (pr_Client jp) (job\<lparr>vj_Suspend := Some suspend\<rparr>)) (\<lambda>_. ret ()))"

definition DeleteJob :: "'s Processor \<Rightarrow> ('s, unit) go" where
  "DeleteJob jp = ji_Delete (pr_Client jp) (kj_Name (pr_Job jp)) (pr_DeletePropagation jp)"

datatype StatusType = InvalidStatus | Success | Failed | Running | Ready | Finished

record job_Status =
  js_Status :: StatusType
  js_Err :: "gerror option"

definition GetStatus :: "'s Processor \<Rightarrow> ('s, job_Status) go" where
  "GetStatus jp =
     catchS (ji_Get (pr_Client jp) (kj_Name (pr_Job jp)))
       (\<lambda>job.
          case vj_Ready job of
            None \<Rightarrow> panicS nil_dereference
          | Some n \<Rightarrow>
              ret \<lparr>js_Status = (if n \<ge> 1 then Ready else if vj_Active job \<ge> 1 then Running
                               else if vj_Succeeded job \<ge> 1 then Success else Failed),
                   js_Err = None\<rparr>)
       (\<lambda>err. ret \<lparr>js_Status = InvalidStatus, js_Err = Some err\<rparr>)"

definition WatchTimeout :: int where "WatchTimeout = 60"

text \<open>The timeout and the label selector of the watch.\<close>

definition WatchOptions :: "kube_Job \<Rightarrow> int \<times> string" where
  "WatchOptions j = (WatchTimeout, join ''='' [''name'', kj_Name j])"

end
