(* ===== verification/Kube_Client.thy ===== *)
theory Kube_Client
  imports Kube_Types
begin

text \<open>
  \<open>pkg/kube/config.go\<close> and \<open>pkg/kube/client.go\<close>: the configuration of a cluster, the client made
  from it, and the operations the modules use. The calls into client-go, the Google credentials and
  the decoding of filters are the operations of a record \<open>kube_API\<close> on the state \<open>'s\<close>.
\<close>

section \<open>Configuration\<close>

definition providerTypeGKE :: string where "providerTypeGKE = ''gke''"

record HelmConfig =
  hc_MaxHistory :: int

record kube_Config =
  kcf_Host :: string
  kcf_Timeout :: int
  kcf_Token :: string
  kcf_Insecure :: bool
  kcf_ClientKey :: string
  kcf_ClientCertificate :: string
  kcf_ClusterCACertificate :: string
  kcf_ProviderType :: string
  kcf_Namespace :: string
  kcf_HelmConfig :: HelmConfig
  kcf_Burst :: int
  kcf_QPS :: json

definition zero_kube_Config :: kube_Config where
  "zero_kube_Config =
     \<lparr>kcf_Host = [], kcf_Timeout = 0, kcf_Token = [], kcf_Insecure = False, kcf_ClientKey = [],
      kcf_ClientCertificate = [], kcf_ClusterCACertificate = [], kcf_ProviderType = [], kcf_Namespace = [],
      kcf_HelmConfig = \<lparr>hc_MaxHistory = 0\<rparr>, kcf_Burst = 0, kcf_QPS = JInt 0\<rparr>"

definition HelmConfig_fields :: "(string \<times> HelmConfig setter) list" where
  "HelmConfig_fields = [(''max_history'', set_int hc_MaxHistory_update)]"

definition kube_Config_fields :: "(string \<times> kube_Config setter) list" where
  "kube_Config_fields =
     [(''host'', set_str kcf_Host_update), (''timeout'', set_int kcf_Timeout_update),
      (''token'', set_str kcf_Token_update), (''insecure'', set_bool kcf_Insecure_update),
      (''client_key'', set_str kcf_ClientKey_update),
      (''client_certificate'', set_str kcf_ClientCertificate_update),
      (''cluster_ca_certificate'', set_str kcf_ClusterCACertificate_update),
      (''provider_type'', set_str kcf_ProviderType_update), (''namespace'', set_str kcf_Namespace_update),
      (''helm_config'', set_obj HelmConfig_fields kcf_HelmConfig kcf_HelmConfig_update),
      (''burst'', set_int kcf_Burst_update), (''qps'', set_num kcf_QPS_update)]"

definition kube_Config_json :: "kube_Config \<Rightarrow> json" where
  "kube_Config_json c =
     JObj [(''host'', JStr (kcf_Host c)), (''timeout'', JInt (kcf_Timeout c)), (''token'', JStr (kcf_Token c)),
           (''insecure'', JBool (kcf_Insecure c)), (''client_key'', JStr (kcf_ClientKey c)),
           (''client_certificate'', JStr (kcf_ClientCertificate c)),
           (''cluster_ca_certificate'', JStr (kcf_ClusterCACertificate c)),
           (''provider_type'', JStr (kcf_ProviderType c)), (''namespace'', JStr (kcf_Namespace c)),
           (''helm_config'', JObj [(''max_history'', JInt (hc_MaxHistory (kcf_HelmConfig c)))]),
           (''burst'', JInt (kcf_Burst c)), (''qps'', kcf_QPS c)]"

text \<open>\<open>rest.Config\<close>: the fields the code sets.\<close>

record rest_Config =
  rc_Host :: string
  rc_Timeout :: int
  rc_Insecure :: bool
  rc_CAData :: string
  rc_KeyData :: string
  rc_CertData :: string
  rc_BearerToken :: string
  rc_Burst :: int
  rc_QPS :: json

text \<open>
  \<open>RESTConfig\<close>, with the receiver it leaves. \<open>google\<close> is \<open>google.DefaultTokenSource\<close>: it gives a
  token source, whose \<open>Token\<close> is a second call.
\<close>

type_synonym 's token_source = "('s, ('s, string) go) go"

definition google_failed :: "kube_Config \<Rightarrow> Error \<Rightarrow> string \<Rightarrow> gerror \<Rightarrow> gerror" where
  "google_failed conf category what err =
     EErr (WithCausef (WithMsgf category (kcf_ProviderType conf @ '': can'' @ [CHR 0x27] @ what)) (error_text err))"

definition RESTConfig :: "'s token_source \<Rightarrow> kube_Config \<Rightarrow> ('s, kube_Config \<times> rest_Config) go" where
  "RESTConfig google conf =
     (let rc = \<lparr>rc_Host = kcf_Host conf, rc_Timeout = kcf_Timeout conf, rc_Insecure = kcf_Insecure conf,
                rc_CAData = kcf_ClusterCACertificate conf, rc_KeyData = kcf_ClientKey conf,
                rc_CertData = kcf_ClientCertificate conf, rc_BearerToken = [], rc_Burst = 0, rc_QPS = JInt 0\<rparr>;
          limited = (\<lambda>rc. rc\<lparr>rc_Burst := kcf_Burst conf, rc_QPS := kcf_QPS conf\<rparr>)
      in if kcf_ProviderType conf \<noteq> [] then
           if kcf_ProviderType conf = providerTypeGKE then
             catchS google
               (\<lambda>ts.
                  catchS ts
                    (\<lambda>token. ret (conf\<lparr>kcf_Token := token\<rparr>, limited (rc\<lparr>rc_BearerToken := token\<rparr>)))
                    (\<lambda>err. fail (google_failed conf ErrInternal ''t get token from token source'' err)))
               (\<lambda>err. fail (google_failed conf ErrInvalid ''t fetch credentials from service account json'' err))
           else fail (EErr (WithMsgf ErrInternal (kcf_ProviderType conf @ '': unsupported provider type'')))
         else if kcf_Token conf \<noteq> [] then ret (conf, limited (rc\<lparr>rc_BearerToken := kcf_Token conf\<rparr>))
         else ret (conf, limited rc))"

definition StreamingConfig :: "'s token_source \<Rightarrow> kube_Config \<Rightarrow> ('s, kube_Config \<times> rest_Config) go" where
  "StreamingConfig google conf =
     bindS (RESTConfig google conf) (\<lambda>(conf, rc). ret (conf, rc\<lparr>rc_Timeout := 0\<rparr>))"

definition kube_Sanitise :: "(kube_Config, unit) go" where
  "kube_Sanitise conf0 =
     (if kcf_Host conf0 = [] then (Err (invalid ''host must be set''), conf0)
      else
        let conf = (if kcf_Timeout conf0 = 0 then conf0\<lparr>kcf_Timeout := 1000000000\<rparr> else conf0)
        in if kcf_ProviderType conf = [] then
             if kcf_Token conf = [] \<and> (kcf_ClientKey conf = [] \<or> kcf_ClientCertificate conf = []) then
               (Err (invalid (''client_key and client_certificate must be set when token and ''
                              @ ''service account is not set'')), conf)
             else if \<not> kcf_Insecure conf \<and> kcf_ClusterCACertificate conf = [] then
               (Err (invalid ''cluster_ca_certificate must be set when insecure=false''), conf)
             else (Ok (), conf)
           else (Ok (), conf))"

section \<open>The Kubernetes API\<close>

record v1_Pod =
  v1p_Name :: string
  v1p_InitContainers :: "string list"
  v1p_Containers :: "string list"
  v1p_Phase :: string

record v1_Condition =
  cond_Type :: string
  cond_Status :: string
  cond_Reason :: string
  cond_Message :: string

record v1_Deployment =
  vd_Name :: string
  vd_Paused :: bool
  vd_Replicas :: int
  vd_ReadyReplicas :: int
  vd_AvailableReplicas :: int
  vd_UnavailableReplicas :: int
  vd_Conditions :: "v1_Condition list option"

record PodLogOptions =
  plo_Container :: string
  plo_Follow :: bool
  plo_Previous :: bool
  plo_Timestamps :: bool
  plo_SinceSeconds :: "int option"
  plo_TailLines :: "int option"

record LogOptions =
  lo_App :: string
  lo_Pod :: string
  lo_Container :: string
  lo_Follow :: string
  lo_Previous :: string
  lo_SinceSeconds :: string
  lo_Timestamps :: string
  lo_TailLines :: string

text \<open>
  \<open>api_Clientset\<close> is \<open>kubernetes.NewForConfig\<close>, \<open>api_Dynamic\<close> \<open>dynamic.NewForConfig\<close>. The selectors of
  a listing are their texts; \<open>api_Requirement\<close> validates the label value of a requirement and
  \<open>api_Field\<close> prints a term of a field selector. \<open>api_Stream\<close> are the goroutines that copy the log of
  every given container.
\<close>

record 's kube_API =
  api_Google :: "'s token_source"
  api_Clientset :: "rest_Config \<Rightarrow> ('s, unit) go"
  api_Dynamic :: "rest_Config \<Rightarrow> ('s, unit) go"
  api_ServerVersion :: "rest_Config \<Rightarrow> ('s, json) go"
  api_Jobs :: "rest_Config \<Rightarrow> string \<Rightarrow> 's JobInterface"
  api_Pods :: "rest_Config \<Rightarrow> string \<Rightarrow> string \<Rightarrow> string \<Rightarrow> ('s, v1_Pod list) go"
  api_Deployment :: "rest_Config \<Rightarrow> string \<Rightarrow> string \<Rightarrow> ('s, v1_Deployment) go"
  api_CRD :: "rest_Config \<Rightarrow> string \<Rightarrow> string \<Rightarrow> string \<Rightarrow> ('s, json) go"
  api_Stream :: "rest_Config \<Rightarrow> string \<Rightarrow> (string \<times> PodLogOptions) list \<Rightarrow> ('s, LogChunk list) go"
  api_ProxyGet :: "rest_Config \<Rightarrow> string \<Rightarrow> string \<Rightarrow> string \<Rightarrow> string \<Rightarrow> string \<Rightarrow> ('s, raw) go"
  api_IsNotFound :: "gerror \<Rightarrow> bool"
  api_IsServiceUnavailable :: "gerror \<Rightarrow> bool"
  api_Requirement :: "string \<Rightarrow> string outcome"
  api_Field :: "string \<Rightarrow> string \<Rightarrow> string"
  api_DecodeOptions :: "string gomap \<Rightarrow> LogOptions outcome"
  api_ParseQuantity :: "string \<Rightarrow> quantity \<times> gerror option"

section \<open>Client\<close>

definition ErrJobExecutionFailed :: Error where
  "ErrJobExecutionFailed = WithMsgf ErrInternal ''job execution failed''"
definition ErrJobCreationFailed :: Error where
  "ErrJobCreationFailed = WithMsgf ErrInternal ''job creation failed''"
definition ErrJobNotFound :: Error where
  "ErrJobNotFound = WithMsgf ErrNotFound ''job not found''"

record Client =
  cl_restConfig :: rest_Config
  cl_streamingConfig :: rest_Config

definition NewClient :: "'s kube_API \<Rightarrow> kube_Config \<Rightarrow> ('s, Client) go" where
  "NewClient api config =
     bindS (RESTConfig (api_Google api) config) (\<lambda>(config', restConfig).
     bindS (StreamingConfig (api_Google api) config') (\<lambda>(_, streamingConfig).
     ret \<lparr>cl_restConfig = restConfig, cl_streamingConfig = streamingConfig\<rparr>))"

definition GetJobProcessor :: "'s kube_API \<Rightarrow> Client \<Rightarrow> kube_Job \<Rightarrow> ('s, 's Processor) go" where
  "GetJobProcessor api c j =
     bindS (api_Clientset api (cl_restConfig c)) (\<lambda>_.
     ret (NewProcessor j (api_Jobs api (cl_restConfig c) (kj_Namespace j))))"

record kube_Pod =
  kp_Name :: string
  kp_Containers :: "string list"
  kp_Status :: string

definition GetPodDetails ::
    "'s kube_API \<Rightarrow> Client \<Rightarrow> string \<Rightarrow> string gomap \<Rightarrow> (v1_Pod \<Rightarrow> bool) \<Rightarrow> ('s, kube_Pod list) go" where
  "GetPodDetails api c namespace labelSelectors allow =
     (let labelSelector = join '','' (map (\<lambda>(k, v). k @ ''='' @ v) (entries labelSelectors))
      in bindS (api_Clientset api (cl_restConfig c)) (\<lambda>_.
         bindS (api_Pods api (cl_restConfig c) namespace labelSelector []) (\<lambda>pods.
         ret (map (\<lambda>pod. \<lparr>kp_Name = v1p_Name pod, kp_Containers = v1p_Containers pod,
                          kp_Status = v1p_Phase pod\<rparr>) (filter allow pods)))))"

section \<open>Logs\<close>

definition trueString :: string where "trueString = ''true''"

definition getPodListOptions :: "'s kube_API \<Rightarrow> LogOptions \<Rightarrow> (string \<times> string) outcome" where
  "getPodListOptions api l =
     (case api_Requirement api (lo_App l) of
        Ok labelSelector \<Rightarrow>
          Ok (labelSelector, if lo_Pod l \<noteq> [] then api_Field api ''metadata.name'' (lo_Pod l) else [])
      | Err e \<Rightarrow> Err e
      | Panic p \<Rightarrow> Panic p
      | Overflow \<Rightarrow> Overflow)"

text \<open>\<open>strconv.ParseInt(s, 10, 64)\<close> of a non-empty option.\<close>

definition parse_option :: "string \<Rightarrow> int option outcome" where
  "parse_option s =
     (if s = [] then Ok None
      else case Atoi s of Some i \<Rightarrow> Ok (Some i) | None \<Rightarrow> Err (PlainErr (''strconv.ParseInt: parsing '' @ s)))"

definition getPodLogOptions :: "LogOptions \<Rightarrow> PodLogOptions outcome" where
  "getPodLogOptions l =
     (case parse_option (lo_SinceSeconds l) of
        Ok ss \<Rightarrow>
          (case parse_option (lo_TailLines l) of
             Ok lines \<Rightarrow>
               Ok \<lparr>plo_Container = lo_Container l, plo_Follow = (lo_Follow l = trueString),
                   plo_Previous = (lo_Previous l = trueString), plo_Timestamps = (lo_Timestamps l = trueString),
                   plo_SinceSeconds = ss, plo_TailLines = lines\<rparr>
           | Err e \<Rightarrow> Err e
           | Panic p \<Rightarrow> Panic p
           | Overflow \<Rightarrow> Overflow)
      | Err e \<Rightarrow> Err e
      | Panic p \<Rightarrow> Panic p
      | Overflow \<Rightarrow> Overflow)"

text \<open>The containers whose logs are wanted, with the options of each.\<close>

definition wanted_containers :: "LogOptions \<Rightarrow> v1_Pod list \<Rightarrow> (string \<times> string) list" where
  "wanted_containers l pods =
     concat (map (\<lambda>pod. map (Pair (v1p_Name pod))
       (filter (\<lambda>container. lo_Container l = [] \<or> container = lo_Container l)
          (v1p_InitContainers pod @ v1p_Containers pod))) pods)"

definition streamFromPods :: "'s kube_API \<Rightarrow> Client \<Rightarrow> string \<Rightarrow> LogOptions \<Rightarrow> ('s, LogChunk list) go" where
  "streamFromPods api c namespace l =
     bindS (api_Clientset api (cl_restConfig c)) (\<lambda>_.
     bindS (liftR (getPodListOptions api l)) (\<lambda>(labelSelector, fieldSelector).
     bindS (api_Pods api (cl_restConfig c) namespace labelSelector fieldSelector) (\<lambda>pods.
     bindS (api_Clientset api (cl_streamingConfig c)) (\<lambda>_.
       let wanted = wanted_containers l pods
       in if wanted = [] then ret []
          else bindS (liftR (getPodLogOptions l)) (\<lambda>plo.
                 api_Stream api (cl_streamingConfig c) namespace
                   (map (\<lambda>(pod, container). (pod, plo\<lparr>plo_Container := container\<rparr>)) wanted))))))"

definition kube_StreamLogs :: "'s kube_API \<Rightarrow> Client \<Rightarrow> string \<Rightarrow> string gomap \<Rightarrow> ('s, LogChunk list) go" where
  "kube_StreamLogs api c namespace filt =
     (case api_DecodeOptions api filt of
        Ok logOptions \<Rightarrow> streamFromPods api c namespace logOptions
      | Err err \<Rightarrow> fail (invalid (error_text err))
      | Panic p \<Rightarrow> panicS p
      | Overflow \<Rightarrow> overflowS)"

section \<open>Running a job to its end\<close>

text \<open>
  \<open>waitForJob\<close> polls without a limit and without a pause: the fuel is the number of polls, and \<open>None\<close>
  means that they did not suffice.
\<close>

definition job_not_started :: "v1_Job \<Rightarrow> bool" where
  "job_not_started job \<longleftrightarrow> vj_Active job = 0 \<and> vj_Succeeded job = 0 \<and> vj_Failed job = 0"

fun waitForJob :: "nat \<Rightarrow> (v1_Job \<Rightarrow> string) \<Rightarrow> string \<Rightarrow> 's JobInterface \<Rightarrow> ('s, unit option) go" where
  "waitForJob 0 status jobName jobs = ret None"
| "waitForJob (Suc polls) status jobName jobs =
     catchS (ji_Get jobs jobName)
       (\<lambda>job.
          if job_not_started job then waitForJob polls status jobName jobs
          else if vj_Active job > 0 then waitForJob polls status jobName jobs
          else if vj_Succeeded job > 0 then ret (Some ())
          else fail (EErr (WithCausef ErrJobExecutionFailed (status job))))
       (\<lambda>err. fail (EErr (WithCausef ErrJobNotFound (error_text err))))"

definition run_job_spec :: "string \<Rightarrow> string \<Rightarrow> string \<Rightarrow> string list \<Rightarrow> int \<Rightarrow> v1_Job" where
  "run_job_spec namespace name img cmd retries =
     \<lparr>vj_Name = name, vj_Namespace = namespace, vj_Labels = None,
      vj_Template =
        \<lparr>pt_Name = [], pt_Labels = None, pt_Tolerations = [], pt_Affinity = None,
         pt_Containers =
           [\<lparr>cv_Name = name, cv_Image = img, cv_Command = cmd, cv_Args = [], cv_EnvFrom = [], cv_Env = [],
             cv_Limits = None, cv_Requests = None, cv_VolumeMounts = [], cv_PreStop = None, cv_PostStart = None,
             cv_ImagePullPolicy = []\<rparr>],
         pt_Volumes = [], pt_RestartPolicy = ''Never''\<rparr>,
      vj_Parallelism = None, vj_BackoffLimit = Some retries, vj_TTLSecondsAfterFinished = Some 60,
      vj_Suspend = None, vj_Active = 0, vj_Succeeded = 0, vj_Failed = 0, vj_Ready = None\<rparr>"

definition RunJob ::
    "'s kube_API \<Rightarrow> nat \<Rightarrow> (v1_Job \<Rightarrow> string) \<Rightarrow> Client \<Rightarrow> string \<Rightarrow> string \<Rightarrow> string \<Rightarrow> string list \<Rightarrow> int \<Rightarrow>
     bool \<Rightarrow> ('s, unit option) go" where
  "RunJob api polls status c namespace name img cmd retries wait =
     catchS (api_Clientset api (cl_restConfig c))
       (\<lambda>_.
          let jobs = api_Jobs api (cl_restConfig c) namespace
          in catchS (ji_Create jobs (run_job_spec namespace name img cmd retries))
               (\<lambda>job. if \<not> wait then ret (Some ()) else waitForJob polls status name jobs)
               (\<lambda>err. fail (EErr (WithCausef ErrJobCreationFailed (error_text err)))))
       (\<lambda>err. fail (EErr (WithCausef ErrJobCreationFailed (error_text err))))"

section \<open>Deployments, custom resources and services\<close>

record kube_Deployment =
  dpl_Name :: string
  dpl_Paused :: bool
  dpl_Replicas :: int
  dpl_ReadyReplicas :: int
  dpl_AvailableReplicas :: int
  dpl_UnavailableReplicas :: int
  dpl_Conditions :: "(string \<times> string) list list option"

definition zero_Deployment :: kube_Deployment where
  "zero_Deployment = \<lparr>dpl_Name = [], dpl_Paused = False, dpl_Replicas = 0, dpl_ReadyReplicas = 0,
     dpl_AvailableReplicas = 0, dpl_UnavailableReplicas = 0, dpl_Conditions = None\<rparr>"

definition condition_map :: "v1_Condition \<Rightarrow> (string \<times> string) list" where
  "condition_map c = [(''type'', cond_Type c), (''status'', cond_Status c), (''reason'', cond_Reason c),
                      (''message'', cond_Message c)]"

definition GetDeploymentDetails ::
    "'s kube_API \<Rightarrow> Client \<Rightarrow> string \<Rightarrow> string \<Rightarrow> ('s, kube_Deployment) go" where
  "GetDeploymentDetails api c namespace name =
     bindS (api_Clientset api (cl_restConfig c)) (\<lambda>_.
     catchS (api_Deployment api (cl_restConfig c) namespace name)
       (\<lambda>d. ret
          \<lparr>dpl_Name = vd_Name d, dpl_Paused = vd_Paused d, dpl_Replicas = vd_Replicas d,
           dpl_ReadyReplicas = vd_ReadyReplicas d, dpl_AvailableReplicas = vd_AvailableReplicas d,
           dpl_UnavailableReplicas = vd_UnavailableReplicas d,
           dpl_Conditions = map_option (\<lambda>cs. map condition_map
             (filter (\<lambda>c. cond_Status c \<noteq> ''Unknown'' \<and> cond_Status c \<noteq> ''False'') cs)) (vd_Conditions d)\<rparr>)
       (\<lambda>err. if api_IsNotFound api err then ret zero_Deployment else fail err))"

definition GetCRDDetails :: "'s kube_API \<Rightarrow> Client \<Rightarrow> string \<Rightarrow> string \<Rightarrow> ('s, json) go" where
  "GetCRDDetails api c namespace name =
     catchS (api_Dynamic api (cl_restConfig c))
       (\<lambda>_.
          catchS (api_CRD api (cl_restConfig c) ''flinkdeployments.v1beta1.flink.apache.org'' namespace name) ret
            (\<lambda>err. fail (PlainErr (''failed to get FlinkDeployment: '' @ error_text err))))
       (\<lambda>err. fail (PlainErr (''failed to create dynamic client: '' @ error_text err)))"

definition ProxyService ::
    "'s kube_API \<Rightarrow> Client \<Rightarrow> string \<Rightarrow> string \<Rightarrow> string \<Rightarrow> string \<Rightarrow> string \<Rightarrow> ('s, raw) go" where
  "ProxyService api c namespace scheme serviceName servicePort path =
     bindS (api_Clientset api (cl_restConfig c)) (\<lambda>_.
     catchS (api_ProxyGet api (cl_restConfig c) namespace scheme serviceName servicePort path) ret
       (\<lambda>err.
          if api_IsServiceUnavailable api err then
            fail (EErr (WithCausef (WithMsgf ErrInternal ''service unavailable'') (error_text err)))
          else if api_IsNotFound api err then
            fail (EErr (WithCausef (WithMsgf ErrNotFound ''service not found'') (error_text err)))
          else fail err))"

end
