(* ===== verification/Driver_Kubernetes.thy ===== *)
theory Driver_Kubernetes
  imports Kube_Client
begin

text \<open>
  \<open>modules/kubernetes\<close>: a resource that stands for a Kubernetes cluster. Planning it connects to the
  cluster and stores the connection, the server version and the scheduling rules of the module as
  its output, which the resources that depend on it read. \<open>defaults\<close> is the configuration the defaults
  library builds from the tags of \<open>kube.Config\<close>; the server version is kept as the object it prints to.
\<close>

section \<open>Scheduling rules as JSON\<close>

definition Toleration_fields :: "(string \<times> Toleration setter) list" where
  "Toleration_fields =
     [(''key'', set_str tol_Key_update), (''value'', set_str tol_Value_update),
      (''effect'', set_str tol_Effect_update), (''operator'', set_str tol_Operator_update)]"

definition zero_Toleration :: Toleration where
  "zero_Toleration = \<lparr>tol_Key = [], tol_Value = [], tol_Effect = [], tol_Operator = []\<rparr>"

definition Toleration_json :: "Toleration \<Rightarrow> json" where
  "Toleration_json t = JObj [(''key'', JStr (tol_Key t)), (''value'', JStr (tol_Value t)),
     (''effect'', JStr (tol_Effect t)), (''operator'', JStr (tol_Operator t))]"

definition Preference_fields :: "(string \<times> Preference setter) list" where
  "Preference_fields =
     [(''key'', set_str pref_Key_update), (''operator'', set_str pref_Operator_update),
      (''values'', set_strs pref_Values_update)]"

definition zero_Preference :: Preference where
  "zero_Preference = \<lparr>pref_Key = [], pref_Operator = [], pref_Values = []\<rparr>"

definition Preference_json :: "Preference \<Rightarrow> json" where
  "Preference_json p = JObj [(''key'', JStr (pref_Key p)), (''operator'', JStr (pref_Operator p)),
     (''values'', enc_list JStr (pref_Values p))]"

definition WeightedPreference_fields :: "(string \<times> WeightedPreference setter) list" where
  "WeightedPreference_fields =
     [(''weight'', set_int wp_Weight_update),
      (''preference'', set_objs Preference_fields zero_Preference wp_Preference wp_Preference_update)]"

definition zero_WeightedPreference :: WeightedPreference where
  "zero_WeightedPreference = \<lparr>wp_Weight = 0, wp_Preference = []\<rparr>"

definition WeightedPreference_json :: "WeightedPreference \<Rightarrow> json" where
  "WeightedPreference_json w = JObj [(''weight'', JInt (wp_Weight w)),
     (''preference'', enc_list Preference_json (wp_Preference w))]"

definition Affinity_fields :: "(string \<times> NodeAffinityMatchExpressions setter) list" where
  "Affinity_fields =
     [(''requiredDuringSchedulingIgnoredDuringExecution'',
        set_objs Preference_fields zero_Preference na_Required na_Required_update),
      (''preferredDuringSchedulingIgnoredDuringExecution'',
        set_objs WeightedPreference_fields zero_WeightedPreference na_Preferred na_Preferred_update)]"

definition zero_Affinity :: NodeAffinityMatchExpressions where
  "zero_Affinity = \<lparr>na_Required = [], na_Preferred = []\<rparr>"

definition Affinity_json :: "NodeAffinityMatchExpressions \<Rightarrow> json" where
  "Affinity_json a =
     JObj (omit_empty_list ''requiredDuringSchedulingIgnoredDuringExecution'' Preference_json (na_Required a) @
           omit_empty_list ''preferredDuringSchedulingIgnoredDuringExecution'' WeightedPreference_json (na_Preferred a))"

section \<open>Output\<close>

record kubeDriver =
  kdr_TolerationMode :: "string gomap"
  kdr_Tolerations :: "Toleration list gomap"
  kdr_AffinityMode :: "string gomap"
  kdr_Affinities :: "NodeAffinityMatchExpressions gomap"

definition zero_kubeDriver :: kubeDriver where
  "zero_kubeDriver =
     \<lparr>kdr_TolerationMode = None, kdr_Tolerations = None, kdr_AffinityMode = None, kdr_Affinities = None\<rparr>"

definition kubeDriver_fields :: "(string \<times> kubeDriver setter) list" where
  "kubeDriver_fields =
     [(''toleration_mode'', set_strmap kdr_TolerationMode_update),
      (''tolerations'', set_map (dec_objs Toleration_fields zero_Toleration) kdr_Tolerations_update),
      (''affinity_mode'', set_strmap kdr_AffinityMode_update),
      (''affinities'', set_map (dec_obj Affinity_fields zero_Affinity) kdr_Affinities_update)]"

record kube_Output =
  ko_Configs :: kube_Config
  ko_ServerInfo :: json
  ko_TolerationMode :: "string gomap"
  ko_Tolerations :: "Toleration list gomap"
  ko_AffinityMode :: "string gomap"
  ko_Affinities :: "NodeAffinityMatchExpressions gomap"

definition zero_kube_Output :: kube_Output where
  "zero_kube_Output =
     \<lparr>ko_Configs = zero_kube_Config, ko_ServerInfo = JObj [], ko_TolerationMode = None, ko_Tolerations = None,
      ko_AffinityMode = None, ko_Affinities = None\<rparr>"

definition kube_Output_fields :: "(string \<times> kube_Output setter) list" where
  "kube_Output_fields =
     [(''configs'', set_obj kube_Config_fields ko_Configs ko_Configs_update),
      (''server_info'', set_object ko_ServerInfo_update),
      (''toleration_mode'', set_strmap ko_TolerationMode_update),
      (''tolerations'', set_map (dec_objs Toleration_fields zero_Toleration) ko_Tolerations_update),
      (''affinity_mode'', set_strmap ko_AffinityMode_update),
      (''affinities'', set_map (dec_obj Affinity_fields zero_Affinity) ko_Affinities_update)]"

definition kube_Output_json :: "kube_Output \<Rightarrow> json" where
  "kube_Output_json out =
     JObj [(''configs'', kube_Config_json (ko_Configs out)), (''server_info'', ko_ServerInfo out),
           (''toleration_mode'', enc_strmap (ko_TolerationMode out)),
           (''tolerations'', enc_map (enc_list Toleration_json) (ko_Tolerations out)),
           (''affinity_mode'', enc_strmap (ko_AffinityMode out)),
           (''affinities'', enc_map Affinity_json (ko_Affinities out))]"

section \<open>Driver\<close>

text \<open>
  The driver is a pointer: decoding the JSON text \<open>null\<close> sets it to nil, and \<open>Output\<close> then panics where
  it reads a field. The order of the checks is that of the code, so the panic comes last.
\<close>

definition kubernetes_Output ::
    "'s kube_API \<Rightarrow> kube_Config \<Rightarrow> kubeDriver option \<Rightarrow> ExpandedResource \<Rightarrow> ('s, raw) go" where
  "kubernetes_Output api defaults m res =
     (case Unmarshal kube_Config_fields (sp_Configs (res_Spec (er_Resource res))) defaults of
        Err err \<Rightarrow> fail (EErr (WithCausef (WithMsgf ErrInvalid ''invalid json config value'') (error_text err)))
      | Panic p \<Rightarrow> panicS p
      | Overflow \<Rightarrow> overflowS
      | Ok conf0 \<Rightarrow>
          (case kube_Sanitise conf0 of
             (Err err, _) \<Rightarrow> fail err
           | (Panic p, _) \<Rightarrow> panicS p
           | (Overflow, _) \<Rightarrow> overflowS
           | (Ok _, conf) \<Rightarrow>
               catchS (RESTConfig (api_Google api) conf)
                 (\<lambda>(conf, restConfig).
                    catchS (api_Clientset api restConfig)
                      (\<lambda>_.
                         catchS (api_ServerVersion api restConfig)
                           (\<lambda>info.
                              case m of
                                None \<Rightarrow> panicS nil_dereference
                              | Some d \<Rightarrow>
                                  ret (raw_doc (kube_Output_json
                                    \<lparr>ko_Configs = conf, ko_ServerInfo = info, ko_TolerationMode = kdr_TolerationMode d,
                                     ko_Tolerations = kdr_Tolerations d, ko_AffinityMode = kdr_AffinityMode d,
                                     ko_Affinities = kdr_Affinities d\<rparr>)))
                           (\<lambda>err. fail (invalid (''failed to fetch server info: '' @ error_text err))))
                      (\<lambda>err. fail (invalid (''failed to create client: '' @ error_text err))))
                 (\<lambda>err. fail (EErr (WithCausef
                    (WithMsgf ErrInternal ''failed to create new kube client on kube driver output'')
                    (error_text err))))))"

definition kubernetes_Plan ::
    "'s kube_API \<Rightarrow> kube_Config \<Rightarrow> kubeDriver option \<Rightarrow> ExpandedResource \<Rightarrow> ActionRequest \<Rightarrow>
     ('s, Resource) go" where
  "kubernetes_Plan api defaults m res act =
     (let r = (er_Resource res)\<lparr>res_Spec := \<lparr>sp_Configs = act_Params act, sp_Dependencies = None\<rparr>\<rparr>
      in bindS (kubernetes_Output api defaults m (res\<lparr>er_Resource := r\<rparr>)) (\<lambda>output.
         ret (r\<lparr>res_State := zero_State\<lparr>st_Status := StatusCompleted, st_Output := output\<rparr>\<rparr>)))"

definition kubernetes_Sync :: "ExpandedResource \<Rightarrow> ('s, State) go" where
  "kubernetes_Sync res =
     ret (zero_State\<lparr>st_Status := StatusCompleted, st_Output := st_Output (res_State (er_Resource res))\<rparr>)"

definition kubernetes_driver :: "'s kube_API \<Rightarrow> kube_Config \<Rightarrow> kubeDriver option \<Rightarrow> 's Driver" where
  "kubernetes_driver api defaults m =
     \<lparr>dr_Plan = plan_only (kubernetes_Plan api defaults m), dr_Sync = kubernetes_Sync,
      dr_Output = kubernetes_Output api defaults m, dr_Log = None\<rparr>"

definition kubernetes_Module :: "'s kube_API \<Rightarrow> kube_Config \<Rightarrow> 's Descriptor" where
  "kubernetes_Module api defaults =
     \<lparr>desc_Kind = ''kubernetes'', desc_Actions = [plain_action CreateAction, plain_action UpdateAction],
      desc_Dependencies = None,
      desc_DriverFactory = (\<lambda>conf.
        if json_parse conf = Ok JNull then Ok (kubernetes_driver api defaults None)
        else case Unmarshal kubeDriver_fields conf zero_kubeDriver of
          Ok kd \<Rightarrow> Ok (kubernetes_driver api defaults (Some kd))
        | Err err \<Rightarrow> Err (invalid (''failed to unmarshal module config: '' @ error_text err))
        | Panic p \<Rightarrow> Panic p
        | Overflow \<Rightarrow> Overflow)\<rparr>"

end
