(* ===== verification/Driver_Job.thy ===== *)
theory Driver_Job
  imports Driver_Kubernetes
begin

text \<open>
  \<open>modules/job\<close>: the driver of Kubernetes jobs. Every action plans one pending step, a sync performs
  the first pending step against the cluster of the resource's dependency, and a sync without
  pending steps refreshes the list of pods and completes. The check of the embedded schema is
  \<open>validateConfig\<close>, \<open>sha\<close> the hexadecimal SHA-256 of a name, \<open>clock\<close> the time a call reads.
\<close>

section \<open>Configuration\<close>

definition maxJobNameLength :: nat where "maxJobNameLength = 53"
definition job_Default :: string where "job_Default = ''default''"
definition job_defaultTTLSecondsAfterFinished :: int where "job_defaultTTLSecondsAfterFinished = 172800"

record UsageSpec =
  us_CPU :: string
  us_Memory :: string

record RequestsAndLimits =
  rl_Limits :: UsageSpec
  rl_Requests :: UsageSpec

record job_DriverConf =
  jd_Namespace :: string
  jd_RequestsAndLimits :: "RequestsAndLimits gomap"
  jd_EnvVariables :: "string gomap"

record job_Volume =
  jv_Name :: string
  jv_Kind :: string

text \<open>The structs \<open>Secret\<close> and \<open>ConfigMap\<close> have the same fields.\<close>

record job_Mount =
  jm_Name :: string
  jm_Mount :: string

record job_Container =
  jct_Name :: string
  jct_Image :: string
  jct_ImagePullPolicy :: string
  jct_Command :: "string list"
  jct_Args :: "string list"
  jct_SecretsVolumes :: "job_Mount list"
  jct_ConfigMapsVolumes :: "job_Mount list"
  jct_Limits :: UsageSpec
  jct_Requests :: UsageSpec
  jct_EnvConfigMaps :: "string list"
  jct_EnvVariables :: "string gomap"
  jct_PreStopCmd :: "string list"
  jct_PostStartCmd :: "string list"

record job_Config =
  jc_Replicas :: int
  jc_Namespace :: string
  jc_Name :: string
  jc_Containers :: "job_Container list"
  jc_JobLabels :: "string gomap"
  jc_Volumes :: "job_Volume list"
  jc_TTLSeconds :: "int option"

definition zero_UsageSpec :: UsageSpec where "zero_UsageSpec = \<lparr>us_CPU = [], us_Memory = []\<rparr>"

definition zero_RequestsAndLimits :: RequestsAndLimits where
  "zero_RequestsAndLimits = \<lparr>rl_Limits = zero_UsageSpec, rl_Requests = zero_UsageSpec\<rparr>"

definition zero_job_Container :: job_Container where
  "zero_job_Container =
     \<lparr>jct_Name = [], jct_Image = [], jct_ImagePullPolicy = [], jct_Command = [], jct_Args = [],
      jct_SecretsVolumes = [], jct_ConfigMapsVolumes = [], jct_Limits = zero_UsageSpec,
      jct_Requests = zero_UsageSpec, jct_EnvConfigMaps = [], jct_EnvVariables = None, jct_PreStopCmd = [],
      jct_PostStartCmd = []\<rparr>"

definition zero_job_Config :: job_Config where
  "zero_job_Config =
     \<lparr>jc_Replicas = 0, jc_Namespace = [], jc_Name = [], jc_Containers = [], jc_JobLabels = None,
      jc_Volumes = [], jc_TTLSeconds = None\<rparr>"

section \<open>Configuration as JSON\<close>

definition UsageSpec_fields :: "(string \<times> UsageSpec setter) list" where
  "UsageSpec_fields = [(''cpu'', set_str us_CPU_update), (''memory'', set_str us_Memory_update)]"

definition RequestsAndLimits_fields :: "(string \<times> RequestsAndLimits setter) list" where
  "RequestsAndLimits_fields =
     [(''limits'', set_obj UsageSpec_fields rl_Limits rl_Limits_update),
      (''requests'', set_obj UsageSpec_fields rl_Requests rl_Requests_update)]"

definition job_DriverConf_fields :: "(string \<times> job_DriverConf setter) list" where
  "job_DriverConf_fields =
     [(''namespace'', set_str jd_Namespace_update),
      (''requestsAndLimits'',
         set_map (dec_obj RequestsAndLimits_fields zero_RequestsAndLimits) jd_RequestsAndLimits_update),
      (''env_variables'', set_strmap jd_EnvVariables_update)]"

definition job_Mount_fields :: "(string \<times> job_Mount setter) list" where
  "job_Mount_fields = [(''name'', set_str jm_Name_update), (''mount'', set_str jm_Mount_update)]"

definition job_Volume_fields :: "(string \<times> job_Volume setter) list" where
  "job_Volume_fields = [(''Name'', set_str jv_Name_update), (''Kind'', set_str jv_Kind_update)]"

definition zero_job_Mount :: job_Mount where "zero_job_Mount = \<lparr>jm_Name = [], jm_Mount = []\<rparr>"
definition zero_job_Volume :: job_Volume where "zero_job_Volume = \<lparr>jv_Name = [], jv_Kind = []\<rparr>"

definition job_Container_fields :: "(string \<times> job_Container setter) list" where
  "job_Container_fields =
     [(''name'', set_str jct_Name_update), (''image'', set_str jct_Image_update),
      (''image_pull_policy'', set_str jct_ImagePullPolicy_update), (''command'', set_strs jct_Command_update),
      (''args'', set_strs jct_Args_update),
      (''secrets_volumes'', set_objs job_Mount_fields zero_job_Mount jct_SecretsVolumes jct_SecretsVolumes_update),
      (''config_maps_volumes'',
         set_objs job_Mount_fields zero_job_Mount jct_ConfigMapsVolumes jct_ConfigMapsVolumes_update),
      (''limits'', set_obj UsageSpec_fields jct_Limits jct_Limits_update),
      (''requests'', set_obj UsageSpec_fields jct_Requests jct_Requests_update),
      (''env_config_maps'', set_strs jct_EnvConfigMaps_update),
      (''env_variables'', set_strmap jct_EnvVariables_update), (''pre_stop_cmd'', set_strs jct_PreStopCmd_update),
      (''post_start_cmd'', set_strs jct_PostStartCmd_update)]"

definition job_Config_fields :: "(string \<times> job_Config setter) list" where
  "job_Config_fields =
     [(''replicas'', set_int32 jc_Replicas_update), (''namespace'', set_str jc_Namespace_update),
      (''name'', set_str jc_Name_update),
      (''containers'', set_objs job_Container_fields zero_job_Container jc_Containers jc_Containers_update),
      (''job_labels'', set_strmap jc_JobLabels_update),
      (''volumes'', set_objs job_Volume_fields zero_job_Volume jc_Volumes jc_Volumes_update),
      (''ttl_seconds'', set_int32_ptr jc_TTLSeconds_update)]"

definition UsageSpec_json :: "UsageSpec \<Rightarrow> json" where
  "UsageSpec_json u = JObj (omit_empty_str ''cpu'' (us_CPU u) @ omit_empty_str ''memory'' (us_Memory u))"

definition job_Mount_json :: "job_Mount \<Rightarrow> json" where
  "job_Mount_json m = JObj [(''name'', JStr (jm_Name m)), (''mount'', JStr (jm_Mount m))]"

definition job_Volume_json :: "job_Volume \<Rightarrow> json" where
  "job_Volume_json v = JObj [(''Name'', JStr (jv_Name v)), (''Kind'', JStr (jv_Kind v))]"

definition job_Container_json :: "job_Container \<Rightarrow> json" where
  "job_Container_json c =
     JObj ((''name'', JStr (jct_Name c)) # (''image'', JStr (jct_Image c)) #
       omit_empty_str ''image_pull_policy'' (jct_ImagePullPolicy c) @
       omit_empty_list ''command'' JStr (jct_Command c) @
       omit_empty_list ''args'' JStr (jct_Args c) @
       omit_empty_list ''secrets_volumes'' job_Mount_json (jct_SecretsVolumes c) @
       omit_empty_list ''config_maps_volumes'' job_Mount_json (jct_ConfigMapsVolumes c) @
       (''limits'', UsageSpec_json (jct_Limits c)) # (''requests'', UsageSpec_json (jct_Requests c)) #
       omit_empty_list ''env_config_maps'' JStr (jct_EnvConfigMaps c) @
       omit_empty_map ''env_variables'' (jct_EnvVariables c) @
       omit_empty_list ''pre_stop_cmd'' JStr (jct_PreStopCmd c) @
       omit_empty_list ''post_start_cmd'' JStr (jct_PostStartCmd c))"

definition job_Config_json :: "job_Config \<Rightarrow> json" where
  "job_Config_json cfg =
     JObj ((''replicas'', JInt (jc_Replicas cfg)) # (''namespace'', JStr (jc_Namespace cfg)) #
       omit_empty_str ''name'' (jc_Name cfg) @
       omit_empty_list ''containers'' job_Container_json (jc_Containers cfg) @
       omit_empty_map ''job_labels'' (jc_JobLabels cfg) @
       omit_empty_list ''volumes'' job_Volume_json (jc_Volumes cfg) @
       (case jc_TTLSeconds cfg of None \<Rightarrow> [] | Some t \<Rightarrow> [(''ttl_seconds'', JInt t)]))"

section \<open>Reading the configuration\<close>

definition getDefaultResources :: "job_DriverConf \<Rightarrow> RequestsAndLimits" where
  "getDefaultResources dc =
     (case lookup (jd_RequestsAndLimits dc) job_Default of Some rl \<Rightarrow> rl | None \<Rightarrow> zero_RequestsAndLimits)"

definition or_default :: "UsageSpec \<Rightarrow> UsageSpec \<Rightarrow> UsageSpec" where
  "or_default d u =
     \<lparr>us_CPU = (if us_CPU u = [] then us_CPU d else us_CPU u),
      us_Memory = (if us_Memory u = [] then us_Memory d else us_Memory u)\<rparr>"

text \<open>The body of the loop over the containers.\<close>

definition fill_container :: "job_DriverConf \<Rightarrow> job_Container \<Rightarrow> job_Container" where
  "fill_container dc c =
     (let rl = getDefaultResources dc
      in c\<lparr>jct_EnvVariables := CloneAndMergeMaps (jd_EnvVariables dc) (jct_EnvVariables c),
           jct_Requests := or_default (rl_Requests rl) (jct_Requests c),
           jct_Limits := or_default (rl_Limits rl) (jct_Limits c)\<rparr>)"

definition job_ReadConfig ::
    "(string \<Rightarrow> string) \<Rightarrow> (raw \<Rightarrow> unit outcome) \<Rightarrow> Resource \<Rightarrow> raw \<Rightarrow> job_DriverConf \<Rightarrow> job_Config outcome" where
  "job_ReadConfig sha validateConfig r confJSON dc =
     (case Unmarshal job_Config_fields confJSON zero_job_Config of
        Err err \<Rightarrow> Err (EErr (WithCausef (WithMsgf ErrInvalid ''invalid config json'') (error_text err)))
      | Panic p \<Rightarrow> Panic p
      | Overflow \<Rightarrow> Overflow
      | Ok cfg0 \<Rightarrow>
          let cfg = cfg0\<lparr>jc_Containers := map (fill_container dc) (jc_Containers cfg0)\<rparr>
          in case validateConfig confJSON of
               Err e \<Rightarrow> Err e
             | Panic p \<Rightarrow> Panic p
             | Overflow \<Rightarrow> Overflow
             | Ok _ \<Rightarrow>
                 let named =
                   (if jc_Name cfg = [] then
                      (case SafeName sha (res_Project r @ ''-'' @ res_Name r) ''-job'' (int maxJobNameLength) of
                         Ok name \<Rightarrow> Ok (cfg\<lparr>jc_Name := name\<rparr>)
                       | Err e \<Rightarrow> Err e | Panic p \<Rightarrow> Panic p | Overflow \<Rightarrow> Overflow)
                    else if length (jc_Name cfg) > maxJobNameLength then
                      Err (invalid (''Job name must not have more than '' @ show_nat maxJobNameLength @ '' chars''))
                    else Ok cfg)
                 in case named of
                      Ok cfg \<Rightarrow>
                        Ok (cfg\<lparr>jc_Namespace := (if jc_Namespace cfg = [] then jd_Namespace dc else jc_Namespace cfg),
                                jc_Replicas := (if jc_Replicas cfg < 1 then 1 else jc_Replicas cfg),
                                jc_TTLSeconds := Some job_defaultTTLSecondsAfterFinished\<rparr>)
                    | Err e \<Rightarrow> Err e | Panic p \<Rightarrow> Panic p | Overflow \<Rightarrow> Overflow)"

section \<open>The driver\<close>

definition KeyKubeDependency :: string where "KeyKubeDependency = ''kube_cluster''"
definition SuspendAction :: string where "SuspendAction = ''suspend''"
definition StartAction :: string where "StartAction = ''start''"

definition step_Create :: string where "step_Create = ''create''"
definition step_Suspend :: string where "step_Suspend = ''suspend''"
definition step_Delete :: string where "step_Delete = ''delete''"
definition step_Start :: string where "step_Start = ''start''"

record 's job_Driver =
  jdr_Conf :: job_DriverConf
  jdr_CreateJob :: "kube_Config \<Rightarrow> kube_Job \<Rightarrow> ('s, unit) go"
  jdr_SuspendJob :: "kube_Config \<Rightarrow> kube_Job \<Rightarrow> ('s, unit) go"
  jdr_DeleteJob :: "kube_Config \<Rightarrow> kube_Job \<Rightarrow> ('s, unit) go"
  jdr_StartJob :: "kube_Config \<Rightarrow> kube_Job \<Rightarrow> ('s, unit) go"
  jdr_GetJobPods :: "kube_Config \<Rightarrow> kube_Job \<Rightarrow> string gomap \<Rightarrow> ('s, kube_Pod list) go"
  jdr_StreamLogs :: "kube_Config \<Rightarrow> kube_Job \<Rightarrow> string gomap \<Rightarrow> ('s, LogChunk list) go"
  jdr_ReadConfig :: "Resource \<Rightarrow> raw \<Rightarrow> job_DriverConf \<Rightarrow> job_Config outcome"
  jdr_Now :: "'s \<Rightarrow> time"

text \<open>The last two components are \<open>config.ReadConfig\<close> over its parameters and \<open>time.Now\<close>.\<close>

section \<open>Output and transient data\<close>

record job_OutputData =
  jo_Namespace :: string
  jo_JobName :: string
  jo_Pods :: "kube_Pod list"

definition kube_Pod_fields :: "(string \<times> kube_Pod setter) list" where
  "kube_Pod_fields =
     [(''name'', set_str kp_Name_update), (''containers'', set_strs kp_Containers_update),
      (''status'', set_str kp_Status_update)]"

definition zero_kube_Pod :: kube_Pod where
  "zero_kube_Pod = \<lparr>kp_Name = [], kp_Containers = [], kp_Status = []\<rparr>"

definition kube_Pod_json :: "kube_Pod \<Rightarrow> json" where
  "kube_Pod_json p = JObj [(''name'', JStr (kp_Name p)), (''containers'', enc_list JStr (kp_Containers p)),
     (''status'', JStr (kp_Status p))]"

definition zero_job_Output :: job_OutputData where
  "zero_job_Output = \<lparr>jo_Namespace = [], jo_JobName = [], jo_Pods = []\<rparr>"

definition job_Output_fields :: "(string \<times> job_OutputData setter) list" where
  "job_Output_fields =
     [(''namespace'', set_str jo_Namespace_update), (''jobName'', set_str jo_JobName_update),
      (''pods'', set_objs kube_Pod_fields zero_kube_Pod jo_Pods jo_Pods_update)]"

definition job_Output_json :: "job_OutputData \<Rightarrow> json" where
  "job_Output_json out =
     JObj [(''namespace'', JStr (jo_Namespace out)), (''jobName'', JStr (jo_JobName out)),
           (''pods'', enc_list kube_Pod_json (jo_Pods out))]"

definition ReadOutputData :: "ExpandedResource \<Rightarrow> job_OutputData outcome" where
  "ReadOutputData exr =
     (if raw_empty (st_Output (res_State (er_Resource exr))) then Ok zero_job_Output
      else case Unmarshal job_Output_fields (st_Output (res_State (er_Resource exr))) zero_job_Output of
             Err err \<Rightarrow> Err (EErr (WithCausef (WithMsgf ErrInternal ''corrupted output'') (error_text err)))
           | r \<Rightarrow> r)"

record TransientData =
  td_PendingSteps :: "string list"

definition TransientData_fields :: "(string \<times> TransientData setter) list" where
  "TransientData_fields = [(''pending_steps'', set_strs td_PendingSteps_update)]"

text \<open>The slices that are encoded are never nil: the planned steps, or what is left of them.\<close>

definition TransientData_json :: "TransientData \<Rightarrow> json" where
  "TransientData_json d = JObj [(''pending_steps'', JArr (map JStr (td_PendingSteps d)))]"

definition ReadTransientData :: "ExpandedResource \<Rightarrow> TransientData outcome" where
  "ReadTransientData exr =
     (if raw_empty (st_ModuleData (res_State (er_Resource exr))) then Ok \<lparr>td_PendingSteps = []\<rparr>
      else case Unmarshal TransientData_fields (st_ModuleData (res_State (er_Resource exr))) \<lparr>td_PendingSteps = []\<rparr> of
             Err err \<Rightarrow> Err (EErr (WithCausef (WithMsgf ErrInternal ''corrupted transient data'') (error_text err)))
           | r \<Rightarrow> r)"

text \<open>The output of the resource's cluster: a missing dependency has no output, which does not parse.\<close>

definition kube_dependency :: "ExpandedResource \<Rightarrow> kube_Output outcome" where
  "kube_dependency exr =
     Unmarshal kube_Output_fields
       (case lookup (er_Dependencies exr) KeyKubeDependency of Some d \<Rightarrow> rd_Output d | None \<Rightarrow> None)
       zero_kube_Output"

section \<open>Planning\<close>

definition planPendingWithConf ::
    "'s job_Driver \<Rightarrow> job_Config \<Rightarrow> ExpandedResource \<Rightarrow> string list \<Rightarrow> ('s, Resource) go" where
  "planPendingWithConf drv conf exr steps s =
     (Ok ((er_Resource exr)
        \<lparr>res_Spec := (res_Spec (er_Resource exr))\<lparr>sp_Configs := raw_doc (job_Config_json conf)\<rparr>,
         res_State := zero_State
           \<lparr>st_Status := StatusPending,
            st_Output := raw_doc (job_Output_json
              \<lparr>jo_Namespace = jc_Namespace conf, jo_JobName = jc_Name conf, jo_Pods = []\<rparr>),
            st_NextSyncAt := Some (jdr_Now drv s),
            st_ModuleData := raw_doc (TransientData_json \<lparr>td_PendingSteps = steps\<rparr>)\<rparr>\<rparr>), s)"

definition planCreate :: "'s job_Driver \<Rightarrow> ExpandedResource \<Rightarrow> ActionRequest \<Rightarrow> ('s, Resource) go" where
  "planCreate drv exr act =
     bindS (liftR (jdr_ReadConfig drv (er_Resource exr) (act_Params act) (jdr_Conf drv))) (\<lambda>conf.
     planPendingWithConf drv conf exr [step_Create])"

definition planPendingWithExistingResource ::
    "'s job_Driver \<Rightarrow> ExpandedResource \<Rightarrow> string list \<Rightarrow> ('s, Resource) go" where
  "planPendingWithExistingResource drv exr steps =
     bindS (liftR (jdr_ReadConfig drv (er_Resource exr) (sp_Configs (res_Spec (er_Resource exr))) (jdr_Conf drv)))
       (\<lambda>conf. planPendingWithConf drv conf exr steps)"

definition planDelete :: "'s job_Driver \<Rightarrow> ExpandedResource \<Rightarrow> ('s, Resource) go" where
  "planDelete drv exr = planPendingWithExistingResource drv exr [step_Delete]"

definition planSuspend :: "'s job_Driver \<Rightarrow> ExpandedResource \<Rightarrow> ('s, Resource) go" where
  "planSuspend drv exr = planPendingWithExistingResource drv exr [step_Suspend]"

definition planStart :: "'s job_Driver \<Rightarrow> ExpandedResource \<Rightarrow> ('s, Resource) go" where
  "planStart drv exr = planPendingWithExistingResource drv exr [step_Start]"

definition job_Plan :: "'s job_Driver \<Rightarrow> ExpandedResource \<Rightarrow> ActionRequest \<Rightarrow> ('s, Resource) go" where
  "job_Plan drv exr act =
     (if act_Name act = CreateAction then planCreate drv exr act
      else if act_Name act = SuspendAction then planSuspend drv exr
      else if act_Name act = DeleteAction then planDelete drv exr
      else if act_Name act = StartAction then planStart drv exr
      else ret zero_Resource)"

section \<open>Syncing\<close>

definition job_backoffLimit :: int where "job_backoffLimit = 0"

definition job_volume :: "job_Volume \<Rightarrow> Volume" where
  "job_volume v = \<lparr>vol_Kind = (if jv_Kind v = ''configMap'' then Volume_ConfigMap else Volume_Secret),
                  vol_Name = jv_Name v, vol_SourceName = jv_Name v\<rparr>"

definition job_container :: "job_Container \<Rightarrow> Container" where
  "job_container c =
     (let mount = (\<lambda>m. \<lparr>vm_Name = jm_Name m, vm_MountPath = jm_Mount m\<rparr>)
      in \<lparr>ct_Image = jct_Image c, ct_Name = jct_Name c, ct_EnvConfigMaps = jct_EnvConfigMaps c,
          ct_Command = jct_Command c, ct_EnvMap = jct_EnvVariables c, ct_Args = jct_Args c,
          ct_ImagePullPolicy = jct_ImagePullPolicy c,
          ct_VolumeMounts = map mount (jct_SecretsVolumes c) @ map mount (jct_ConfigMapsVolumes c),
          ct_Requests = Some [(''cpu'', us_CPU (jct_Requests c)), (''memory'', us_Memory (jct_Requests c))],
          ct_Limits = Some [(''cpu'', us_CPU (jct_Limits c)), (''memory'', us_Memory (jct_Limits c))],
          ct_PreStopCmd = jct_PreStopCmd c, ct_PostStartCmd = jct_PostStartCmd c\<rparr>)"

definition getJob :: "Resource \<Rightarrow> job_Config \<Rightarrow> kube_Output \<Rightarrow> kube_Job" where
  "getJob res conf kubeOut =
     \<lparr>kj_Pod = Some
        \<lparr>pod_Name = jc_Name conf, pod_Containers = map job_container (jc_Containers conf),
         pod_Volumes = map job_volume (jc_Volumes conf), pod_Labels = Some [(''app'', jc_Name conf)],
         pod_Tolerations =
           (case lookup (ko_Tolerations kubeOut) ''job'' of Some ts \<Rightarrow> ts | None \<Rightarrow> []),
         pod_Affinity = lookup (ko_Affinities kubeOut) ''job''\<rparr>,
      kj_Name = jc_Name conf, kj_Namespace = jc_Namespace conf,
      kj_Labels = CloneAndMergeMaps (Some [(''orchestrator'', ''entropy''), (''name'', res_Name res)])
                    (jc_JobLabels conf),
      kj_Parallelism = Some (jc_Replicas conf), kj_BackOffList = Some job_backoffLimit,
      kj_TTLSeconds = jc_TTLSeconds conf\<rparr>"

text \<open>The job with only its name and namespace, as the other steps pass it.\<close>

definition named_job :: "job_Config \<Rightarrow> kube_Job" where
  "named_job conf =
     \<lparr>kj_Pod = None, kj_Name = jc_Name conf, kj_Namespace = jc_Namespace conf, kj_Labels = None,
      kj_Parallelism = None, kj_BackOffList = None, kj_TTLSeconds = None\<rparr>"

definition as_internal :: "('s, 'a) go \<Rightarrow> ('s, 'a) go" where
  "as_internal m = catchS m ret (\<lambda>err. fail (internal_cause err))"

definition job_create :: "'s job_Driver \<Rightarrow> Resource \<Rightarrow> job_Config \<Rightarrow> kube_Output \<Rightarrow> ('s, unit) go" where
  "job_create drv r conf out = as_internal (jdr_CreateJob drv (ko_Configs out) (getJob r conf out))"

definition job_suspend :: "'s job_Driver \<Rightarrow> job_Config \<Rightarrow> kube_Output \<Rightarrow> ('s, unit) go" where
  "job_suspend drv conf out = as_internal (jdr_SuspendJob drv (ko_Configs out) (named_job conf))"

definition job_delete :: "'s job_Driver \<Rightarrow> job_Config \<Rightarrow> kube_Output \<Rightarrow> ('s, unit) go" where
  "job_delete drv conf out = as_internal (jdr_DeleteJob drv (ko_Configs out) (named_job conf))"

definition job_start :: "'s job_Driver \<Rightarrow> job_Config \<Rightarrow> kube_Output \<Rightarrow> ('s, unit) go" where
  "job_start drv conf out = as_internal (jdr_StartJob drv (ko_Configs out) (named_job conf))"

definition job_refreshOutput ::
    "'s job_Driver \<Rightarrow> job_Config \<Rightarrow> job_OutputData \<Rightarrow> kube_Output \<Rightarrow> ('s, raw) go" where
  "job_refreshOutput drv conf output kubeOut =
     bindS (as_internal (jdr_GetJobPods drv (ko_Configs kubeOut) (named_job conf)
              (Some [(''job-name'', jc_Name conf)]))) (\<lambda>pods.
     ret (raw_doc (job_Output_json (output\<lparr>jo_Pods := pods\<rparr>))))"

definition job_step :: "'s job_Driver \<Rightarrow> Resource \<Rightarrow> job_Config \<Rightarrow> kube_Output \<Rightarrow> string \<Rightarrow> ('s, unit) go" where
  "job_step drv r conf kubeOut pendingStep =
     (if pendingStep = step_Create then job_create drv r conf kubeOut
      else if pendingStep = step_Suspend then job_suspend drv conf kubeOut
      else if pendingStep = step_Delete then job_delete drv conf kubeOut
      else if pendingStep = step_Start then job_start drv conf kubeOut
      else fail (EErr (WithMsgf ErrInternal (''unknown step: '' @ sq pendingStep))))"

definition kube_state_error :: "gerror \<Rightarrow> gerror" where
  "kube_state_error err = EErr (WithCausef (WithMsgf ErrInternal ''invalid kube state'') (error_text err))"

definition job_Sync :: "'s job_Driver \<Rightarrow> ExpandedResource \<Rightarrow> ('s, State) go" where
  "job_Sync drv exr =
     bindS (liftR (ReadTransientData exr)) (\<lambda>modData.
     bindS (as_internal (liftR (ReadOutputData exr))) (\<lambda>out.
     bindS (as_internal (liftR (jdr_ReadConfig drv (er_Resource exr) (sp_Configs (res_Spec (er_Resource exr)))
              (jdr_Conf drv)))) (\<lambda>conf.
     catchS (liftR (kube_dependency exr))
       (\<lambda>kubeOut.
          let finalState = zero_State\<lparr>st_Status := StatusPending,
                             st_Output := st_Output (res_State (er_Resource exr))\<rparr>
          in case td_PendingSteps modData of
               pendingStep # rest \<Rightarrow>
                 bindS (job_step drv (er_Resource exr) conf kubeOut pendingStep) (\<lambda>_ s.
                 (Ok (finalState\<lparr>st_NextSyncAt := Some (jdr_Now drv s),
                        st_ModuleData := raw_doc (TransientData_json (modData\<lparr>td_PendingSteps := rest\<rparr>))\<rparr>), s))
             | [] \<Rightarrow>
                 bindS (job_refreshOutput drv conf out kubeOut) (\<lambda>finalOut.
                 ret (finalState\<lparr>st_Output := finalOut, st_Status := StatusCompleted, st_ModuleData := None\<rparr>)))
       (\<lambda>err. fail (kube_state_error err)))))"

definition job_Output :: "'s job_Driver \<Rightarrow> ExpandedResource \<Rightarrow> ('s, raw) go" where
  "job_Output drv exr =
     bindS (liftR (ReadOutputData exr)) (\<lambda>output.
     bindS (as_internal (liftR (jdr_ReadConfig drv (er_Resource exr) (sp_Configs (res_Spec (er_Resource exr)))
              (jdr_Conf drv)))) (\<lambda>conf.
     catchS (liftR (kube_dependency exr)) (job_refreshOutput drv conf output)
       (\<lambda>err. fail (kube_state_error err))))"

definition job_Log :: "'s job_Driver \<Rightarrow> ExpandedResource \<Rightarrow> string gomap \<Rightarrow> ('s, LogChunk list) go" where
  "job_Log drv res filt =
     bindS (as_internal (liftR (jdr_ReadConfig drv (er_Resource res) (sp_Configs (res_Spec (er_Resource res)))
              (jdr_Conf drv)))) (\<lambda>conf.
       let filt' = Some (put ''app'' (jc_Name conf) (entries filt))
       in catchS (liftR (kube_dependency res))
            (\<lambda>kubeOut. jdr_StreamLogs drv (ko_Configs kubeOut) (named_job conf) filt')
            (\<lambda>err. fail (internal_cause err)))"

end
