(* ===== verification/Job_Module.thy ===== *)
theory Job_Module
  imports Driver_Job
begin

text \<open>
  \<open>modules/job/module.go\<close>: the descriptor of the job module, with the driver over the Kubernetes
  client. \<open>defaultDriverConf\<close> is one package variable: its copy shares the map of default resources,
  which decoding a module's configuration writes into. The content of that map is therefore an
  argument of the descriptor, and \<open>job_defaults_after\<close> is its content after a driver was made.
\<close>

section \<open>Driver configuration\<close>

definition job_usage :: UsageSpec where "job_usage = \<lparr>us_CPU = ''1'', us_Memory = ''2000Mi''\<rparr>"

definition job_default_resources :: "RequestsAndLimits gomap" where
  "job_default_resources = Some [(job_Default, \<lparr>rl_Limits = job_usage, rl_Requests = job_usage\<rparr>)]"

definition job_defaultDriverConf :: "RequestsAndLimits gomap \<Rightarrow> job_DriverConf" where
  "job_defaultDriverConf shared =
     \<lparr>jd_Namespace = job_Default, jd_RequestsAndLimits = shared, jd_EnvVariables = None\<rparr>"

definition job_driver_conf ::
    "(job_DriverConf \<Rightarrow> struct_error option) \<Rightarrow> RequestsAndLimits gomap \<Rightarrow> raw \<Rightarrow> job_DriverConf outcome" where
  "job_driver_conf validate shared confJSON =
     (case Unmarshal job_DriverConf_fields confJSON (job_defaultDriverConf shared) of
        Ok conf \<Rightarrow>
          (case TaggedStruct validate conf of
             Ok _ \<Rightarrow> Ok conf | Err e \<Rightarrow> Err e | Panic p \<Rightarrow> Panic p | Overflow \<Rightarrow> Overflow)
      | r \<Rightarrow> r)"

text \<open>
  The shared map after decoding a configuration that names \<open>requestsAndLimits\<close> at most once; \<open>null\<close>
  only detaches the copy. A document that does not decode is not followed.
\<close>

definition job_defaults_after :: "RequestsAndLimits gomap \<Rightarrow> raw \<Rightarrow> RequestsAndLimits gomap" where
  "job_defaults_after shared confJSON =
     (case Unmarshal job_DriverConf_fields confJSON (job_defaultDriverConf shared) of
        Ok conf \<Rightarrow> (if jd_RequestsAndLimits conf = None then shared else jd_RequestsAndLimits conf)
      | _ \<Rightarrow> shared)"

section \<open>The driver over the Kubernetes client\<close>

definition with_processor ::
    "'s kube_API \<Rightarrow> string \<Rightarrow> ('s Processor \<Rightarrow> ('s, unit) go) \<Rightarrow> kube_Config \<Rightarrow> kube_Job \<Rightarrow> ('s, unit) go" where
  "with_processor api msg f conf j =
     catchS (NewClient api conf)
       (\<lambda>kubeCl. bindS (GetJobProcessor api kubeCl j) f)
       (\<lambda>err. fail (EErr (WithCausef (WithMsgf ErrInternal msg) (error_text err))))"

definition job_GetJobPods ::
    "'s kube_API \<Rightarrow> kube_Config \<Rightarrow> kube_Job \<Rightarrow> string gomap \<Rightarrow> ('s, kube_Pod list) go" where
  "job_GetJobPods api conf j podLabels =
     catchS (NewClient api conf)
       (\<lambda>kubeCl. GetPodDetails api kubeCl (kj_Namespace j) podLabels (\<lambda>pod. True))
       (\<lambda>err. fail (EErr (WithCausef (WithMsgf ErrInternal ''failed to create new kube client on driver'')
          (error_text err))))"

definition job_StreamLogs ::
    "'s kube_API \<Rightarrow> kube_Config \<Rightarrow> kube_Job \<Rightarrow> string gomap \<Rightarrow> ('s, LogChunk list) go" where
  "job_StreamLogs api conf j filt =
     catchS (NewClient api conf)
       (\<lambda>kubeCl. kube_StreamLogs api kubeCl (kj_Namespace j) filt)
       (\<lambda>err. fail (EErr (WithCausef
          (WithMsgf ErrInternal ''failed to create new kube client on firehose driver Log'') (error_text err))))"

definition job_driver ::
    "'s kube_API \<Rightarrow> (Resource \<Rightarrow> raw \<Rightarrow> job_DriverConf \<Rightarrow> job_Config outcome) \<Rightarrow> ('s \<Rightarrow> time) \<Rightarrow> job_DriverConf \<Rightarrow>
     's job_Driver" where
  "job_driver api readConfig clock conf =
     \<lparr>jdr_Conf = conf,
      jdr_CreateJob = with_processor api ''failed to create new kube client on job driver''
        (SubmitJob (api_ParseQuantity api)),
      jdr_SuspendJob = with_processor api ''failed to suspend the job'' (UpdateJob True),
      jdr_DeleteJob = with_processor api ''failed to delete the job'' DeleteJob,
      jdr_StartJob = with_processor api ''failed to start the job'' (UpdateJob False),
      jdr_GetJobPods = job_GetJobPods api, jdr_StreamLogs = job_StreamLogs api,
      jdr_ReadConfig = readConfig, jdr_Now = clock\<rparr>"

definition job_module_driver :: "'s job_Driver \<Rightarrow> 's Driver" where
  "job_module_driver drv =
     \<lparr>dr_Plan = plan_only (job_Plan drv), dr_Sync = job_Sync drv, dr_Output = job_Output drv, dr_Log = Some (job_Log drv)\<rparr>"

definition described_action :: "string \<Rightarrow> string \<Rightarrow> ActionDesc" where
  "described_action n descr = (plain_action n)\<lparr>ad_Description := descr\<rparr>"

definition job_Module ::
    "'s kube_API \<Rightarrow> (string \<Rightarrow> string) \<Rightarrow> (raw \<Rightarrow> unit outcome) \<Rightarrow> (job_DriverConf \<Rightarrow> struct_error option) \<Rightarrow>
     ('s \<Rightarrow> time) \<Rightarrow> RequestsAndLimits gomap \<Rightarrow> 's Descriptor" where
  "job_Module api sha validateConfig validate clock shared =
     \<lparr>desc_Kind = ''job'',
      desc_Actions =
        [described_action CreateAction ''Creates a new Kube job.'',
         described_action SuspendAction ''Suspend the kube Job.'',
         described_action StartAction ''Start the kube Job.'',
         described_action DeleteAction ''Delete the kube Job.''],
      desc_Dependencies = Some [(KeyKubeDependency, ''kubernetes'')],
      desc_DriverFactory = (\<lambda>confJSON.
        case job_driver_conf validate shared confJSON of
          Ok conf \<Rightarrow> Ok (job_module_driver (job_driver api (job_ReadConfig sha validateConfig) clock conf))
        | Err e \<Rightarrow> Err e
        | Panic p \<Rightarrow> Panic p
        | Overflow \<Rightarrow> Overflow)\<rparr>"

end
