(* ===== verification/Step_Machine.thy ===== *)
theory Step_Machine
  imports Module_Types
begin

text \<open>
  Drivers that carry out an action as a list of pending steps: a sync performs the first one and stores
  the rest, a sync without pending steps finishes. The locale is what such a driver promises of its
  \<open>Sync\<close>; what follows for a sequence of syncs is proved once.
\<close>

abbreviation with_state :: "ExpandedResource \<Rightarrow> State \<Rightarrow> ExpandedResource" where
  "with_state exr st \<equiv> exr\<lparr>er_Resource := (er_Resource exr)\<lparr>res_State := st\<rparr>\<rparr>"

text \<open>Consecutive syncs of a resource, each storing the state it returns.\<close>

fun syncs :: "nat \<Rightarrow> (ExpandedResource \<Rightarrow> ('s, State) go) \<Rightarrow> ExpandedResource \<Rightarrow> ('s, State) go" where
  "syncs 0 sync exr = ret (res_State (er_Resource exr))"
| "syncs (Suc n) sync exr = bindS (sync exr) (\<lambda>st. syncs n sync (with_state exr st))"

lemma bindS_ret_right [simp]: "bindS m ret = m"
  by (rule ext) (auto simp: bindS_def catchS_def ret_def fail_def split: prod.split result.split)

lemma bindS_read: "bindS (\<lambda>s. (Ok (f s), s)) g = (\<lambda>s. g (f s) s)"
  by (rule ext) (simp add: bindS_def catchS_def)

text \<open>
  \<open>ready exr steps c\<close>: the stored state of the resource has the pending steps, and what a step needs is
  read from the resource as \<open>c\<close>.
\<close>

locale step_machine =
  fixes sync :: "ExpandedResource \<Rightarrow> ('s, State) go"
    and ready :: "ExpandedResource \<Rightarrow> string list \<Rightarrow> 'c \<Rightarrow> bool"
    and step :: "'c \<Rightarrow> string \<Rightarrow> ('s, unit) go"
    and finish :: "'c \<Rightarrow> ('s, State) go"
  assumes sync_step: "ready exr (x # xs) c \<Longrightarrow>
      \<exists>next. sync exr = bindS (step c x) (\<lambda>_ s. (Ok (next s), s)) \<and> (\<forall>s. ready (with_state exr (next s)) xs c)"
    and sync_finish: "ready exr [] c \<Longrightarrow> sync exr = finish c"
begin

lemma syncs_run:
  "ready exr xs c \<Longrightarrow> syncs (Suc (length xs)) sync exr = bindS (foldS (\<lambda>x _. step c x) xs ()) (\<lambda>_. finish c)"
proof (induction xs arbitrary: exr)
  case Nil
  then show ?case by (simp add: sync_finish)
next
  case (Cons x xs)
  obtain nxt where s: "sync exr = bindS (step c x) (\<lambda>_ s. (Ok (nxt s), s))"
    and r: "\<And>s. ready (with_state exr (nxt s)) xs c"
    using sync_step [OF Cons.prems] by blast
  have "syncs (Suc (length (x # xs))) sync exr =
      bindS (step c x) (\<lambda>_ s. syncs (Suc (length xs)) sync (with_state exr (nxt s)) s)"
    unfolding list.size add_Suc_right add_0_right syncs.simps(2) [of "Suc (length xs)"] s
    by (simp add: bindS_assoc bindS_read del: syncs.simps(2))
  also have "\<dots> = bindS (step c x) (\<lambda>_. bindS (foldS (\<lambda>x _. step c x) xs ()) (\<lambda>_. finish c))"
    unfolding Cons.IH [OF r] ..
  finally show ?case by (simp add: bindS_assoc)
qed

text \<open>A step that fails is reported, and the stored state, which the caller keeps, still has it pending.\<close>

lemma sync_failed: "ready exr (x # xs) c \<Longrightarrow> step c x s = (Err e, t) \<Longrightarrow> sync exr s = (Err e, t)"
  using sync_step [of exr x xs c] by (auto simp: bindS_def catchS_def fail_def)

end

end
