(* ===== verification/Job_Laws.thy ===== *)
theory Job_Laws
  imports Job_Module Step_Machine
begin

text \<open>
  Laws of the job module: the configuration survives being stored, its bounds, and how syncing runs
  the planned steps.
\<close>

section \<open>Reading back a stored configuration\<close>

lemma job_fields [simp]:
  "field_for UsageSpec_fields ''cpu'' = Some (set_str us_CPU_update)"
  "field_for UsageSpec_fields ''memory'' = Some (set_str us_Memory_update)"
  by (simp_all add: field_for_def UsageSpec_fields_def)

lemma decode_UsageSpec [simp]: "decode_obj UsageSpec_fields (UsageSpec_json u) zero_UsageSpec = Ok u"
  using decode_obj_omit [of UsageSpec_fields "''memory''" us_Memory_update "us_Memory u" "[]"]
  by (simp add: UsageSpec_json_def decode_obj_omit zero_UsageSpec_def)

lemma decode_job_Mount [simp]: "decode_obj job_Mount_fields (job_Mount_json m) x = Ok m"
  by (cases m) (simp add: decode_obj_def job_Mount_json_def set_member_def field_for_def job_Mount_fields_def
      set_str_def)

lemma decode_job_Volume [simp]: "decode_obj job_Volume_fields (job_Volume_json v) x = Ok v"
  by (cases v) (simp add: decode_obj_def job_Volume_json_def set_member_def field_for_def job_Volume_fields_def
      set_str_def)

lemma container_fields [simp]:
  "field_for job_Container_fields ''name'' = Some (set_str jct_Name_update)"
  "field_for job_Container_fields ''image'' = Some (set_str jct_Image_update)"
  "field_for job_Container_fields ''image_pull_policy'' = Some (set_str jct_ImagePullPolicy_update)"
  "field_for job_Container_fields ''command'' = Some (set_strs jct_Command_update)"
  "field_for job_Container_fields ''args'' = Some (set_strs jct_Args_update)"
  "field_for job_Container_fields ''secrets_volumes'' =
     Some (set_objs job_Mount_fields zero_job_Mount jct_SecretsVolumes jct_SecretsVolumes_update)"
  "field_for job_Container_fields ''config_maps_volumes'' =
     Some (set_objs job_Mount_fields zero_job_Mount jct_ConfigMapsVolumes jct_ConfigMapsVolumes_update)"
  "field_for job_Container_fields ''limits'' = Some (set_obj UsageSpec_fields jct_Limits jct_Limits_update)"
  "field_for job_Container_fields ''requests'' = Some (set_obj UsageSpec_fields jct_Requests jct_Requests_update)"
  "field_for job_Container_fields ''env_config_maps'' = Some (set_strs jct_EnvConfigMaps_update)"
  "field_for job_Container_fields ''env_variables'' = Some (set_strmap jct_EnvVariables_update)"
  "field_for job_Container_fields ''pre_stop_cmd'' = Some (set_strs jct_PreStopCmd_update)"
  "field_for job_Container_fields ''post_start_cmd'' = Some (set_strs jct_PostStartCmd_update)"
  by (simp_all add: field_for_def job_Container_fields_def)

lemma decode_obj_member:
  "field_for fs k = Some (set_obj gs get upd) \<Longrightarrow> decode_obj gs j (get r) = Ok b \<Longrightarrow>
     decode_obj fs (JObj ((k, j) # kvs)) r = decode_obj fs (JObj kvs) (upd (\<lambda>_. b) r)"
  by (simp add: decode_obj_def set_member_def set_obj_def)

lemma decode_obj_omit_strs_last:
  "field_for fs k = Some (set_strs upd) \<Longrightarrow>
     decode_obj fs (JObj (omit_empty_list k JStr ss)) r = Ok (if ss = [] then r else upd (\<lambda>_. ss) r)"
  using decode_obj_omit_strs [of fs k upd ss "[]" r] by simp

lemma decode_job_Container:
  "decode_obj job_Container_fields (job_Container_json c) zero_job_Container =
     Ok (c\<lparr>jct_EnvVariables := sorted_map (jct_EnvVariables c)\<rparr>)"
proof -
  note mounts = decode_obj_omit_objs [where fs = job_Container_fields and gs = job_Mount_fields and
      enc = job_Mount_json and dec = "\<lambda>m. m" and zero = zero_job_Mount]
  show ?thesis
    by (cases c)
      (simp add: job_Container_json_def zero_job_Container_def decode_obj_str decode_obj_omit decode_obj_omit_strs
        decode_obj_omit_strs_last mounts [where k = "''secrets_volumes''"] mounts [where k = "''config_maps_volumes''"]
        decode_obj_member [where k = "''limits''"] decode_obj_member [where k = "''requests''"]
        decode_obj_omit_map o_def)
qed

lemma config_fields [simp]:
  "field_for job_Config_fields ''replicas'' = Some (set_int32 jc_Replicas_update)"
  "field_for job_Config_fields ''namespace'' = Some (set_str jc_Namespace_update)"
  "field_for job_Config_fields ''name'' = Some (set_str jc_Name_update)"
  "field_for job_Config_fields ''containers'' =
     Some (set_objs job_Container_fields zero_job_Container jc_Containers jc_Containers_update)"
  "field_for job_Config_fields ''job_labels'' = Some (set_strmap jc_JobLabels_update)"
  "field_for job_Config_fields ''volumes'' =
     Some (set_objs job_Volume_fields zero_job_Volume jc_Volumes jc_Volumes_update)"
  "field_for job_Config_fields ''ttl_seconds'' = Some (set_int32_ptr jc_TTLSeconds_update)"
  by (simp_all add: field_for_def job_Config_fields_def)

text \<open>What a stored configuration decodes to: the same, with its maps sorted by key.\<close>

definition reread :: "job_Config \<Rightarrow> job_Config" where
  "reread cfg =
     cfg\<lparr>jc_Containers := map (\<lambda>c. c\<lparr>jct_EnvVariables := sorted_map (jct_EnvVariables c)\<rparr>) (jc_Containers cfg),
         jc_JobLabels := sorted_map (jc_JobLabels cfg)\<rparr>"

lemma decode_job_Config:
  assumes "int32_ok (jc_Replicas cfg)" and "\<And>t. jc_TTLSeconds cfg = Some t \<Longrightarrow> int32_ok t"
  shows "Unmarshal job_Config_fields (raw_doc (job_Config_json cfg)) zero_job_Config = Ok (reread cfg)"
proof -
  have rep: "int32_ok i \<Longrightarrow> decode_obj job_Config_fields (JObj ((''replicas'', JInt i) # kvs)) r =
      decode_obj job_Config_fields (JObj kvs) (r\<lparr>jc_Replicas := i\<rparr>)" for i kvs r
    by (simp add: decode_obj_def set_member_def set_int32_def)
  have ttl: "(\<And>t. ot = Some t \<Longrightarrow> int32_ok t) \<Longrightarrow> decode_obj job_Config_fields
      (JObj (case ot of None \<Rightarrow> [] | Some t \<Rightarrow> [(''ttl_seconds'', JInt t)])) r =
      Ok (if ot = None then r else r\<lparr>jc_TTLSeconds := ot\<rparr>)" for ot r
    by (simp add: decode_obj_def set_member_def set_int32_ptr_def split: option.splits)
  note objs = decode_obj_omit_objs [where fs = job_Config_fields]
  show ?thesis
    unfolding Unmarshal_def json_parse_raw_doc result.case job_Config_json_def reread_def
    using assms by (cases cfg)
      (simp add: rep ttl zero_job_Config_def decode_obj_str decode_obj_omit decode_obj_omit_map o_def
        objs [where k = "''containers''" and gs = job_Container_fields and enc = job_Container_json
          and zero = zero_job_Container and dec = "\<lambda>c. c\<lparr>jct_EnvVariables := sorted_map (jct_EnvVariables c)\<rparr>"]
        objs [where k = "''volumes''" and gs = job_Volume_fields and enc = job_Volume_json
          and zero = zero_job_Volume and dec = "\<lambda>v. v"]
        decode_job_Container)
qed

section \<open>The configuration that is read\<close>

lemma SafeName_length:
  assumes "SafeName sha name suffix maxLen = Ok n" and "0 \<le> maxLen"
  shows "int (length n) \<le> maxLen"
proof (cases "int (length (TrimSuffix name suffix)) \<le> maxLen - int (length suffix)")
  case True
  then show ?thesis using assms by (auto simp: SafeName_def Let_def)
next
  case False
  define tail where "tail = ''-'' @ take 6 (sha (TrimSuffix name suffix)) @ suffix"
  define cut where "cut = take (nat (maxLen - int (length tail))) (TrimSuffix name suffix)"
  from False assms have "int (length tail) \<le> maxLen" and n: "n = trim_hyphens cut @ tail"
    by (auto simp: SafeName_def Let_def slice_to_def tail_def cut_def split: if_splits)
  moreover from this(1) have "int (length (trim_hyphens cut)) \<le> maxLen - int (length tail)"
    using length_trim_hyphens [of cut] unfolding cut_def by (simp, linarith)
  ultimately show ?thesis by simp
qed

lemma SafeName_nonempty: "SafeName sha name suffix maxLen = Ok n \<Longrightarrow> suffix \<noteq> [] \<Longrightarrow> n \<noteq> []"
  by (auto simp: SafeName_def Let_def split: if_splits result.splits)

lemma decode_obj_preserves:
  assumes "\<And>k f j x y. (k, f) \<in> set fs \<Longrightarrow> f j x = Some y \<Longrightarrow> P x \<Longrightarrow> P y" and "P r" and "decode_obj fs j r = Ok r'"
  shows "P r'"
proof -
  have set: "P (fst (set_member fs kv st))" if "P (fst st)" for kv st
  proof (cases "field_for fs (fst kv)")
    case (Some f)
    then have "\<exists>k. (k, f) \<in> set fs"
      by (auto simp: field_for_def find_Some_iff dest: map_of_SomeD split: option.splits) (metis nth_mem)
    then show ?thesis
      using Some that assms(1) by (auto simp: set_member_def split: option.splits)
  qed (simp add: set_member_def that)
  have "P (fst (fold (set_member fs) kvs st))" if "P (fst st)" for kvs st
    using that by (induction kvs arbitrary: st) (simp_all add: set)
  then show ?thesis
    using assms(2,3) by (auto simp: decode_obj_def split: json.splits prod.splits if_splits) (metis fst_conv)
qed

lemma decoded_int32:
  assumes "Unmarshal job_Config_fields c zero_job_Config = Ok cfg"
  shows "int32_ok (jc_Replicas cfg)"
proof -
  from assms obtain j where "decode_obj job_Config_fields j zero_job_Config = Ok cfg"
    by (auto simp: Unmarshal_def split: result.splits)
  then show ?thesis
    by (rule decode_obj_preserves [where P = "\<lambda>c. int32_ok (jc_Replicas c)", rotated 2])
      (auto simp: job_Config_fields_def set_int32_def set_str_def set_objs_def set_strmap_def set_int32_ptr_def
        zero_job_Config_def int32_ok_def split: json.splits if_splits option.splits)
qed

text \<open>A successful \<open>ReadConfig\<close>: from the decoded configuration to the one it returns.\<close>

lemma job_ReadConfig_Ok:
  assumes "job_ReadConfig sha v r confJSON dc = Ok conf"
  obtains cfg where "Unmarshal job_Config_fields confJSON zero_job_Config = Ok cfg" and "v confJSON = Ok ()"
    and "int32_ok (jc_Replicas cfg)"
    and "if jc_Name cfg = []
         then SafeName sha (res_Project r @ ''-'' @ res_Name r) ''-job'' (int maxJobNameLength) = Ok (jc_Name conf)
         else jc_Name conf = jc_Name cfg \<and> length (jc_Name cfg) \<le> maxJobNameLength"
    and "conf = cfg\<lparr>jc_Containers := map (fill_container dc) (jc_Containers cfg), jc_Name := jc_Name conf,
           jc_Namespace := (if jc_Namespace cfg = [] then jd_Namespace dc else jc_Namespace cfg),
           jc_Replicas := (if jc_Replicas cfg < 1 then 1 else jc_Replicas cfg),
           jc_TTLSeconds := Some job_defaultTTLSecondsAfterFinished\<rparr>"
proof -
  from assms obtain cfg where c: "Unmarshal job_Config_fields confJSON zero_job_Config = Ok cfg"
    by (auto simp: job_ReadConfig_def split: result.splits)
  show ?thesis
    by (rule that [OF c _ decoded_int32 [OF c]])
      (use assms c in \<open>auto simp: job_ReadConfig_def Let_def split: result.splits if_splits\<close>)
qed

lemma job_ReadConfig_facts:
  assumes "job_ReadConfig sha v r confJSON dc = Ok conf"
  shows "int32_ok (jc_Replicas conf)" and "1 \<le> jc_Replicas conf"
    and "jc_TTLSeconds conf = Some job_defaultTTLSecondsAfterFinished"
    and "jc_Namespace conf = [] \<Longrightarrow> jd_Namespace dc = []"
    and "jc_Name conf \<noteq> []" and "length (jc_Name conf) \<le> maxJobNameLength"
    and "\<exists>cs. jc_Containers conf = map (fill_container dc) cs"
proof -
  from assms obtain cfg where ok: "int32_ok (jc_Replicas cfg)"
    and name: "if jc_Name cfg = []
         then SafeName sha (res_Project r @ ''-'' @ res_Name r) ''-job'' (int maxJobNameLength) = Ok (jc_Name conf)
         else jc_Name conf = jc_Name cfg \<and> length (jc_Name cfg) \<le> maxJobNameLength"
    and conf: "conf = cfg\<lparr>jc_Containers := map (fill_container dc) (jc_Containers cfg), jc_Name := jc_Name conf,
           jc_Namespace := (if jc_Namespace cfg = [] then jd_Namespace dc else jc_Namespace cfg),
           jc_Replicas := (if jc_Replicas cfg < 1 then 1 else jc_Replicas cfg),
           jc_TTLSeconds := Some job_defaultTTLSecondsAfterFinished\<rparr>"
    by (rule job_ReadConfig_Ok)
  note sel = arg_cong [OF conf]
  show "int32_ok (jc_Replicas conf)" "1 \<le> jc_Replicas conf"
    using ok sel [of jc_Replicas] by (simp_all add: int32_ok_def)
  show "jc_TTLSeconds conf = Some job_defaultTTLSecondsAfterFinished"
    using sel [of jc_TTLSeconds] by simp
  show "jc_Namespace conf = [] \<Longrightarrow> jd_Namespace dc = []"
    using sel [of jc_Namespace] by (simp split: if_splits)
  show "\<exists>cs. jc_Containers conf = map (fill_container dc) cs"
    using sel [of jc_Containers] by auto
  show "jc_Name conf \<noteq> []" "length (jc_Name conf) \<le> maxJobNameLength"
    using name SafeName_nonempty [of sha _ "''-job''"] SafeName_length [of sha _ "''-job''" "int maxJobNameLength"]
    by (auto split: if_splits)
qed

section \<open>Maps of a configuration\<close>

lemma wf_map_put_all: "distinct (map fst m) \<Longrightarrow> wf_map (Some (put_all kvs m))"
  unfolding wf_map_def
  by (induction kvs arbitrary: m) (auto simp: put_all_def put_def distinct_update)

lemma wf_CloneAndMergeMaps: "wf_map (CloneAndMergeMaps a b)"
  unfolding CloneAndMergeMaps_def using wf_map_put_all [of "[]" "entries a"]
  by (intro wf_map_put_all) (simp add: wf_map_def)

lemma wf_sorted_map: "wf_map (sorted_map m)"
  by (simp add: sorted_map_def wf_map_put_all) (simp add: wf_map_def)

lemma dom_put_all: "dom (map_of (put_all kvs m)) = fst ` set kvs \<union> dom (map_of m)"
  by (induction kvs arbitrary: m) (auto simp: put_all_def split: if_splits)

lemma merged_again:
  assumes "wf_map d"
  shows "lookup (CloneAndMergeMaps d (sorted_map (CloneAndMergeMaps d m))) k = lookup (CloneAndMergeMaps d m) k"
proof -
  have "lookup d k = None" if "lookup (CloneAndMergeMaps d m) k = None"
  proof -
    have "k \<notin> dom (map_of (put_all (entries m) (put_all (entries d) [])))"
      using that by (simp add: CloneAndMergeMaps_def lookup_def domIff)
    then show ?thesis
      by (simp add: dom_put_all lookup_def map_of_eq_None_iff)
  qed
  then show ?thesis
    using assms by (simp add: CloneAndMergeMaps_lookup wf_sorted_map wf_CloneAndMergeMaps sorted_map_lookup
        split: option.split)
qed

section \<open>Syncing to completion\<close>

lemma job_step_state [simp]: "job_step drv (r\<lparr>res_State := x\<rparr>) = job_step drv r"
  by (intro ext) (simp add: job_step_def job_create_def getJob_def)

lemma job_ReadConfig_state [simp]: "job_ReadConfig sha v (r\<lparr>res_State := x\<rparr>) = job_ReadConfig sha v r"
  by (intro ext) (simp add: job_ReadConfig_def cong: if_cong result.case_cong)

lemma read_pending [simp]:
  "ReadTransientData (exr\<lparr>er_Resource := r\<lparr>res_State := st\<lparr>st_ModuleData := raw_doc (TransientData_json td)\<rparr>\<rparr>\<rparr>) = Ok td"
  by (cases td)
    (simp add: ReadTransientData_def Unmarshal_def TransientData_json_def decode_obj_def set_member_def field_for_def
      TransientData_fields_def set_strs_def)

lemma as_internal_ret [simp]: "as_internal (ret a) = ret a"
  by (simp add: as_internal_def)

lemma liftR_ret [simp]: "liftR (Ok a) = ret a"
  by (rule ext) (simp add: run_simps)

lemma job_Sync_ready:
  assumes "ReadTransientData exr = Ok td" and "ReadOutputData exr = Ok out"
    and "jdr_ReadConfig drv (er_Resource exr) (sp_Configs (res_Spec (er_Resource exr))) (jdr_Conf drv) = Ok conf"
    and "kube_dependency exr = Ok kubeOut"
  shows "job_Sync drv exr =
    (case td_PendingSteps td of
       pendingStep # rest \<Rightarrow>
         bindS (job_step drv (er_Resource exr) conf kubeOut pendingStep) (\<lambda>_ s.
           (Ok (zero_State\<lparr>st_Status := StatusPending, st_Output := st_Output (res_State (er_Resource exr)),
                  st_NextSyncAt := Some (jdr_Now drv s),
                  st_ModuleData := raw_doc (TransientData_json (td\<lparr>td_PendingSteps := rest\<rparr>))\<rparr>), s))
     | [] \<Rightarrow>
         bindS (job_refreshOutput drv conf out kubeOut) (\<lambda>finalOut.
           ret (zero_State\<lparr>st_Output := finalOut, st_Status := StatusCompleted, st_ModuleData := None\<rparr>)))"
  using assms by (simp add: job_Sync_def Let_def split: list.split)

definition job_ready ::
    "'s job_Driver \<Rightarrow> ExpandedResource \<Rightarrow> string list \<Rightarrow> Resource \<times> job_Config \<times> job_OutputData \<times> kube_Output \<Rightarrow> bool" where
  "job_ready drv exr steps c \<longleftrightarrow>
     (case c of (r, conf, out, kubeOut) \<Rightarrow>
        (\<exists>st. er_Resource exr = r\<lparr>res_State := st\<rparr>) \<and>
        (\<forall>st. jdr_ReadConfig drv (r\<lparr>res_State := st\<rparr>) (sp_Configs (res_Spec r)) (jdr_Conf drv) = Ok conf) \<and>
        ReadTransientData exr = Ok \<lparr>td_PendingSteps = steps\<rparr> \<and> ReadOutputData exr = Ok out \<and>
        kube_dependency exr = Ok kubeOut)"

definition job_finish :: "'s job_Driver \<Rightarrow> job_Config \<Rightarrow> job_OutputData \<Rightarrow> kube_Output \<Rightarrow> ('s, State) go" where
  "job_finish drv conf out kubeOut =
     bindS (job_refreshOutput drv conf out kubeOut) (\<lambda>finalOut.
     ret (zero_State\<lparr>st_Status := StatusCompleted, st_Output := finalOut\<rparr>))"

interpretation job_machine: step_machine "job_Sync drv" "job_ready drv"
    "\<lambda>(r, conf, out, kubeOut). job_step drv r conf kubeOut" "\<lambda>(r, conf, out, kubeOut). job_finish drv conf out kubeOut"
  for drv :: "'s job_Driver"
proof (unfold_locales, goal_cases)
  case (1 exr x xs c)
  obtain r conf out kubeOut where c: "c = (r, conf, out, kubeOut)" by (cases c)
  let ?next = "\<lambda>s. zero_State\<lparr>st_Status := StatusPending, st_Output := st_Output (res_State (er_Resource exr)),
                  st_NextSyncAt := Some (jdr_Now drv s),
                  st_ModuleData := raw_doc (TransientData_json \<lparr>td_PendingSteps = xs\<rparr>)\<rparr>"
  obtain st where er: "er_Resource exr = r\<lparr>res_State := st\<rparr>"
    and td: "ReadTransientData exr = Ok \<lparr>td_PendingSteps = x # xs\<rparr>" and out: "ReadOutputData exr = Ok out"
    and kube: "kube_dependency exr = Ok kubeOut"
    and conf: "\<And>st. jdr_ReadConfig drv (r\<lparr>res_State := st\<rparr>) (sp_Configs (res_Spec r)) (jdr_Conf drv) = Ok conf"
    using 1 by (auto simp: job_ready_def c)
  have "job_Sync drv exr = bindS (job_step drv r conf kubeOut x) (\<lambda>_ s. (Ok (?next s), s))"
    using job_Sync_ready [OF td out _ kube, of drv conf] conf er by simp
  moreover have "ReadOutputData (with_state exr (?next s)) = Ok out" for s
    using out unfolding ReadOutputData_def by (auto split: if_splits result.splits)
  moreover have "kube_dependency (with_state exr (?next s)) = Ok kubeOut" for s
    using kube by (simp add: kube_dependency_def)
  ultimately show ?case
    using conf er by (intro exI [of _ ?next]) (auto simp: job_ready_def c)
next
  case (2 exr c)
  obtain r conf out kubeOut where c: "c = (r, conf, out, kubeOut)" by (cases c)
  from 2 show ?case
    by (auto simp: job_ready_def c job_finish_def zero_State_def
        job_Sync_ready [where td = "\<lparr>td_PendingSteps = []\<rparr>" and conf = conf and out = out and kubeOut = kubeOut])
qed

section \<open>A planned action\<close>

lemma int32_ok_ttl: "int32_ok job_defaultTTLSecondsAfterFinished"
  by (simp add: int32_ok_def job_defaultTTLSecondsAfterFinished_def)

text \<open>The stored configuration is read back as the one that was planned, up to the order of its maps.\<close>

lemma job_ReadConfig_again:
  assumes "job_ReadConfig sha v r c dc = Ok conf" and "v (raw_doc (job_Config_json conf)) = Ok ()"
  shows "job_ReadConfig sha v r' (raw_doc (job_Config_json conf)) dc =
    Ok ((reread conf)\<lparr>jc_Containers := map (fill_container dc) (jc_Containers (reread conf))\<rparr>)"
proof -
  note facts = job_ReadConfig_facts [OF assms(1)]
  have "Unmarshal job_Config_fields (raw_doc (job_Config_json conf)) zero_job_Config = Ok (reread conf)"
    using facts(1,3) int32_ok_ttl by (intro decode_job_Config) simp_all
  then show ?thesis
    using facts(2-6) assms(2) by (simp add: job_ReadConfig_def reread_def Let_def)
qed

lemma read_planned_output:
  assumes "st_Output (res_State (er_Resource exr)) =
    raw_doc (job_Output_json \<lparr>jo_Namespace = ns, jo_JobName = name, jo_Pods = []\<rparr>)"
  shows "ReadOutputData exr = Ok \<lparr>jo_Namespace = ns, jo_JobName = name, jo_Pods = []\<rparr>"
  using assms
  by (simp add: ReadOutputData_def Unmarshal_def job_Output_json_def decode_obj_def set_member_def field_for_def
      job_Output_fields_def set_str_def set_objs_def enc_list_def zero_job_Output_def)

lemma read_planned_steps:
  "st_ModuleData (res_State (er_Resource exr)) = raw_doc (TransientData_json td) \<Longrightarrow> ReadTransientData exr = Ok td"
  by (cases td)
    (simp add: ReadTransientData_def Unmarshal_def TransientData_json_def decode_obj_def set_member_def field_for_def
      TransientData_fields_def set_strs_def)

lemmas job_steps = step_Create_def step_Suspend_def step_Delete_def step_Start_def
lemmas job_actions = action_defs SuspendAction_def StartAction_def

lemma job_Plan_Ok:
  assumes "job_Plan drv exr act s = (Ok p, t)" and "act_Name act \<in> {CreateAction, SuspendAction, DeleteAction, StartAction}"
  obtains c conf where "jdr_ReadConfig drv (er_Resource exr) c (jdr_Conf drv) = Ok conf" and "t = s"
    and "p = (er_Resource exr)
        \<lparr>res_Spec := (res_Spec (er_Resource exr))\<lparr>sp_Configs := raw_doc (job_Config_json conf)\<rparr>,
         res_State := zero_State
           \<lparr>st_Status := StatusPending,
            st_Output := raw_doc (job_Output_json
              \<lparr>jo_Namespace = jc_Namespace conf, jo_JobName = jc_Name conf, jo_Pods = []\<rparr>),
            st_NextSyncAt := Some (jdr_Now drv s),
            st_ModuleData := raw_doc (TransientData_json \<lparr>td_PendingSteps = [act_Name act]\<rparr>)\<rparr>\<rparr>"
proof -
  have "\<exists>c. job_Plan drv exr act =
      bindS (liftR (jdr_ReadConfig drv (er_Resource exr) c (jdr_Conf drv))) (\<lambda>conf.
      planPendingWithConf drv conf exr [act_Name act])"
    using assms(2)
    by (simp add: job_Plan_def job_actions job_steps planCreate_def planPendingWithExistingResource_def planDelete_def planSuspend_def planStart_def) blast
  then obtain c where "bindS (liftR (jdr_ReadConfig drv (er_Resource exr) c (jdr_Conf drv)))
      (\<lambda>conf. planPendingWithConf drv conf exr [act_Name act]) s = (Ok p, t)"
    using assms(1) by metis
  then show ?thesis
    using that by (auto simp: planPendingWithConf_def liftR_def)
qed

section \<open>Properties\<close>

text \<open>The bounds of a job configuration. Whatever \<open>ReadConfig\<close> accepts has a non-empty name of at most
  53 bytes, at least one replica within 32 bits, the fixed time to live, a namespace when the module
  has one, and in every container the module's default resources where the container gives none.\<close>

theorem job_ReadConfig_bounds:
  assumes "job_ReadConfig sha v r confJSON dc = Ok conf"
  shows "0 < length (jc_Name conf) \<and> length (jc_Name conf) \<le> 53 \<and>
    1 \<le> jc_Replicas conf \<and> jc_Replicas conf < 2 ^ 31 \<and> jc_TTLSeconds conf = Some 172800 \<and>
    (jd_Namespace dc \<noteq> [] \<longrightarrow> jc_Namespace conf \<noteq> []) \<and>
    (\<forall>c \<in> set (jc_Containers conf).
       (us_CPU (rl_Requests (getDefaultResources dc)) \<noteq> [] \<longrightarrow> us_CPU (jct_Requests c) \<noteq> []) \<and>
       (us_Memory (rl_Limits (getDefaultResources dc)) \<noteq> [] \<longrightarrow> us_Memory (jct_Limits c) \<noteq> []))"
proof -
  note facts = job_ReadConfig_facts [OF assms]
  from facts(7) obtain cs where "jc_Containers conf = map (fill_container dc) cs" ..
  then show ?thesis
    using facts(1-6)
    by (simp add: int32_ok_def job_defaultTTLSecondsAfterFinished_def maxJobNameLength_def fill_container_def
        or_default_def Let_def) blast
qed

text \<open>C26: a job configuration survives being stored. When the schema accepts the encoding of what
  \<open>ReadConfig\<close> returned, reading that encoding gives the same name, namespace, replicas, volumes and
  time to live, the same containers except for the order of their environment, and the same value
  for every label and every variable.\<close>

theorem job_config_roundtrip:
  assumes "job_ReadConfig sha v r c dc = Ok conf" and "v (raw_doc (job_Config_json conf)) = Ok ()"
    and "wf_map (jd_EnvVariables dc)" and "wf_map (jc_JobLabels conf)"
  shows "\<exists>conf'. job_ReadConfig sha v r' (raw_doc (job_Config_json conf)) dc = Ok conf' \<and>
    jc_Name conf' = jc_Name conf \<and> jc_Namespace conf' = jc_Namespace conf \<and>
    jc_Replicas conf' = jc_Replicas conf \<and> jc_Volumes conf' = jc_Volumes conf \<and>
    jc_TTLSeconds conf' = jc_TTLSeconds conf \<and>
    (\<forall>k. lookup (jc_JobLabels conf') k = lookup (jc_JobLabels conf) k) \<and>
    list_all2 (\<lambda>c' c. c'\<lparr>jct_EnvVariables := None\<rparr> = c\<lparr>jct_EnvVariables := None\<rparr> \<and>
                      (\<forall>k. lookup (jct_EnvVariables c') k = lookup (jct_EnvVariables c) k))
      (jc_Containers conf') (jc_Containers conf)"
proof -
  from job_ReadConfig_facts(7) [OF assms(1)] obtain cs where
    conf: "jc_Containers conf = map (fill_container dc) cs" ..
  have filled: "fill_container dc (c\<lparr>jct_EnvVariables := e\<rparr>)\<lparr>jct_EnvVariables := None\<rparr> = c\<lparr>jct_EnvVariables := None\<rparr>"
    if "c = fill_container dc c0" for c c0 e
    unfolding that by (simp add: fill_container_def or_default_def Let_def)
  have env: "lookup (jct_EnvVariables (fill_container dc (c\<lparr>jct_EnvVariables := sorted_map (jct_EnvVariables c)\<rparr>))) k =
      lookup (jct_EnvVariables c) k" if "c = fill_container dc c0" for c c0 k
    unfolding that using merged_again [OF assms(3)] by (simp add: fill_container_def Let_def)
  show ?thesis
    unfolding job_ReadConfig_again [OF assms(1,2)] reread_def conf
    using sorted_map_lookup [OF assms(4)]
    by (auto simp: list_all2_conv_all_nth filled env)
qed

text \<open>C14: a planned action is carried out. After \<open>Plan\<close> stored a create, suspend, start or delete, two
  syncs of the planned resource are exactly the step of that name on the cluster of its
  dependency followed by one refresh of the pods, and end in the completed state; the step and the
  refresh act on the job whose name and namespace \<open>Plan\<close> reported as the output. An error of either
  call is the error of the sync that makes it.\<close>

theorem job_action_runs:
  assumes "jdr_ReadConfig drv = job_ReadConfig sha v"
    and "act_Name act \<in> {CreateAction, SuspendAction, DeleteAction, StartAction}"
    and "job_Plan drv exr act s = (Ok p, t)" and "v (sp_Configs (res_Spec p)) = Ok ()"
    and "kube_dependency exr = Ok kubeOut"
  shows "\<exists>conf. st_Output (res_State p) =
      raw_doc (job_Output_json \<lparr>jo_Namespace = jc_Namespace conf, jo_JobName = jc_Name conf, jo_Pods = []\<rparr>) \<and>
    job_ReadConfig sha v p (sp_Configs (res_Spec p)) (jdr_Conf drv) = Ok conf \<and>
    syncs 2 (job_Sync drv) (exr\<lparr>er_Resource := p\<rparr>) =
      bindS (job_step drv p conf kubeOut (act_Name act)) (\<lambda>_.
      bindS (job_refreshOutput drv conf
               \<lparr>jo_Namespace = jc_Namespace conf, jo_JobName = jc_Name conf, jo_Pods = []\<rparr> kubeOut) (\<lambda>finalOut.
      ret (zero_State\<lparr>st_Status := StatusCompleted, st_Output := finalOut\<rparr>)))"
proof -
  from assms(3,2) obtain c conf0 where read: "jdr_ReadConfig drv (er_Resource exr) c (jdr_Conf drv) = Ok conf0"
    and p: "p = (er_Resource exr)
        \<lparr>res_Spec := (res_Spec (er_Resource exr))\<lparr>sp_Configs := raw_doc (job_Config_json conf0)\<rparr>,
         res_State := zero_State
           \<lparr>st_Status := StatusPending,
            st_Output := raw_doc (job_Output_json
              \<lparr>jo_Namespace = jc_Namespace conf0, jo_JobName = jc_Name conf0, jo_Pods = []\<rparr>),
            st_NextSyncAt := Some (jdr_Now drv s),
            st_ModuleData := raw_doc (TransientData_json \<lparr>td_PendingSteps = [act_Name act]\<rparr>)\<rparr>\<rparr>"
    by (rule job_Plan_Ok)
  let ?conf = "(reread conf0)\<lparr>jc_Containers := map (fill_container (jdr_Conf drv)) (jc_Containers (reread conf0))\<rparr>"
  let ?out = "\<lparr>jo_Namespace = jc_Namespace conf0, jo_JobName = jc_Name conf0, jo_Pods = []\<rparr>"
  have configs: "sp_Configs (res_Spec p) = raw_doc (job_Config_json conf0)"
    and outp: "st_Output (res_State p) = raw_doc (job_Output_json ?out)"
    and data: "st_ModuleData (res_State p) = raw_doc (TransientData_json \<lparr>td_PendingSteps = [act_Name act]\<rparr>)"
    by (simp_all add: p)
  have same: "jc_Name ?conf = jc_Name conf0" "jc_Namespace ?conf = jc_Namespace conf0"
    by (simp_all add: reread_def)
  have again: "job_ReadConfig sha v p (sp_Configs (res_Spec p)) (jdr_Conf drv) = Ok ?conf"
    using job_ReadConfig_again [of sha v "er_Resource exr" c "jdr_Conf drv" conf0] read assms(1,4)
    unfolding configs by simp
  have "\<exists>st. p = p\<lparr>res_State := st\<rparr>"
    by (intro exI [of _ "res_State p"]) simp
  then have "job_ready drv (exr\<lparr>er_Resource := p\<rparr>) [act_Name act] (p, ?conf, ?out, kubeOut)"
    using read_planned_steps [of "exr\<lparr>er_Resource := p\<rparr>"] read_planned_output [of "exr\<lparr>er_Resource := p\<rparr>"]
      data outp again assms(1,5)
    by (simp add: job_ready_def kube_dependency_def)
  from job_machine.syncs_run [OF this]
  have "syncs 2 (job_Sync drv) (exr\<lparr>er_Resource := p\<rparr>) =
      bindS (job_step drv p ?conf kubeOut (act_Name act)) (\<lambda>_. job_finish drv ?conf ?out kubeOut)"
    by (simp add: bindS_assoc numeral_2_eq_2)
  then show ?thesis
    using outp again same by (intro exI [of _ ?conf]) (simp add: job_finish_def)
qed

text \<open>The default resources of one job module reach the others. Once a module whose configuration sets
  the entry \<open>default\<close> was initialised, a module that configures nothing gets that entry instead of
  the built-in one CPU and 2000Mi, because both decode into the map of one package variable.\<close>

theorem job_defaults_shared:
  assumes "Unmarshal job_DriverConf_fields confA (job_defaultDriverConf job_default_resources) = Ok dcA"
    and "validate (job_defaultDriverConf (job_defaults_after job_default_resources confA)) = None"
    and "lookup (jd_RequestsAndLimits dcA) job_Default = Some rl"
  shows "\<exists>dcB. job_driver_conf validate (job_defaults_after job_default_resources confA) (raw_doc (JObj [])) = Ok dcB \<and>
    getDefaultResources dcB = rl"
  using assms
  by (auto simp: job_driver_conf_def job_defaults_after_def Unmarshal_def [of _ "raw_doc (JObj [])"] TaggedStruct_def
      job_defaultDriverConf_def getDefaultResources_def lookup_def)

end
