(* ===== verification/Witnesses_Job.thy ===== *)
theory Witnesses_Job
  imports Job_Laws
begin

text \<open>
  The properties of the job module, applied to a small job \<open>report\<close> on a cluster whose state is the
  list of the names of its jobs.
\<close>

definition report_json :: json where
  "report_json = JObj
     [(''replicas'', JInt 0), (''job_labels'', JObj [(''team'', JStr ''core'')]),
      (''containers'', JArr [JObj [(''name'', JStr ''main''), (''image'', JStr ''report:1''),
         (''env_variables'', JObj [(''MODE'', JStr ''daily'')]), (''limits'', JObj [(''cpu'', JStr ''2'')])]])]"

definition report_resource :: Resource where
  "report_resource = zero_Resource\<lparr>res_Name := ''report'', res_Project := ''proj'', res_Kind := ''job''\<rparr>"

definition report_dc :: job_DriverConf where
  "report_dc = (job_defaultDriverConf job_default_resources)\<lparr>jd_EnvVariables := Some [(''REGION'', ''eu'')]\<rparr>"

definition report_sha :: "string \<Rightarrow> string" where "report_sha name = ''abcdef0123''"

definition report_valid :: "raw \<Rightarrow> unit outcome" where "report_valid doc = Ok ()"

definition report_conf :: job_Config where
  "report_conf = \<lparr>jc_Replicas = 1, jc_Namespace = ''default'', jc_Name = ''proj-report-job'',
     jc_Containers =
       [zero_job_Container\<lparr>jct_Name := ''main'', jct_Image := ''report:1'',
          jct_Limits := \<lparr>us_CPU = ''2'', us_Memory = ''2000Mi''\<rparr>, jct_Requests := job_usage,
          jct_EnvVariables := Some [(''REGION'', ''eu''), (''MODE'', ''daily'')]\<rparr>],
     jc_JobLabels = Some [(''team'', ''core'')], jc_Volumes = [], jc_TTLSeconds = Some 172800\<rparr>"

lemma report_read:
  "job_ReadConfig report_sha report_valid report_resource (raw_doc report_json) report_dc = Ok report_conf"
  by code_simp

theorem job_ReadConfig_bounds_witness:
  "0 < length (jc_Name report_conf) \<and> length (jc_Name report_conf) \<le> 53 \<and> 1 \<le> jc_Replicas report_conf"
  using job_ReadConfig_bounds [OF report_read] by blast

theorem job_config_roundtrip_witness:
  "\<exists>conf'. job_ReadConfig report_sha report_valid report_resource (raw_doc (job_Config_json report_conf)) report_dc = Ok conf' \<and>
     jc_Name conf' = jc_Name report_conf"
proof -
  have v: "report_valid (raw_doc (job_Config_json report_conf)) = Ok ()"
    by (simp add: report_valid_def)
  have e: "wf_map (jd_EnvVariables report_dc)" and l: "wf_map (jc_JobLabels report_conf)"
    by (simp_all add: wf_map_def report_dc_def report_conf_def)
  show ?thesis
    using job_config_roundtrip [OF report_read v e l, of report_resource] by blast
qed

definition report_driver :: "string list job_Driver" where
  "report_driver =
     \<lparr>jdr_Conf = report_dc, jdr_CreateJob = (\<lambda>kc j jobs. (Ok (), kj_Name j # jobs)), jdr_SuspendJob = (\<lambda>kc j. ret ()),
      jdr_DeleteJob = (\<lambda>kc j. ret ()), jdr_StartJob = (\<lambda>kc j. ret ()), jdr_GetJobPods = (\<lambda>kc j ls. ret []),
      jdr_StreamLogs = (\<lambda>kc j fl. ret []), jdr_ReadConfig = job_ReadConfig report_sha report_valid,
      jdr_Now = (\<lambda>_. 1000)\<rparr>"

definition report_exr :: ExpandedResource where
  "report_exr = \<lparr>er_Resource = report_resource,
     er_Dependencies = Some [(KeyKubeDependency,
       \<lparr>rd_Kind = ''kubernetes'', rd_Output = raw_doc (JObj [(''configs'', JObj [(''host'', JStr ''k8s'')])])\<rparr>)]\<rparr>"

definition report_create :: ActionRequest where
  "report_create = \<lparr>act_Name = CreateAction, act_Params = raw_doc report_json, act_Labels = None, act_UserID = [],
     act_LabelsShared = False\<rparr>"

definition report_planned :: Resource where
  "report_planned = (case fst (job_Plan report_driver report_exr report_create []) of Ok p \<Rightarrow> p | _ \<Rightarrow> zero_Resource)"

definition report_cluster :: kube_Output where
  "report_cluster = zero_kube_Output\<lparr>ko_Configs := zero_kube_Config\<lparr>kcf_Host := ''k8s''\<rparr>\<rparr>"

lemma report_plan: "job_Plan report_driver report_exr report_create [] = (Ok report_planned, [])"
  unfolding report_planned_def by code_simp

lemma report_kube: "kube_dependency report_exr = Ok report_cluster"
  by code_simp

theorem job_action_runs_witness:
  "\<exists>conf. job_ReadConfig report_sha report_valid report_planned (sp_Configs (res_Spec report_planned)) report_dc = Ok conf"
proof -
  have c: "jdr_ReadConfig report_driver = job_ReadConfig report_sha report_valid"
    and a: "act_Name report_create \<in> {CreateAction, SuspendAction, DeleteAction, StartAction}"
    and v: "report_valid (sp_Configs (res_Spec report_planned)) = Ok ()"
    and d: "jdr_Conf report_driver = report_dc"
    by (simp_all add: report_driver_def report_create_def report_valid_def)
  show ?thesis
    using job_action_runs [OF c a report_plan v report_kube] unfolding d by blast
qed

definition small_default :: RequestsAndLimits where
  "small_default = \<lparr>rl_Limits = \<lparr>us_CPU = ''100m'', us_Memory = ''64Mi''\<rparr>, rl_Requests = zero_UsageSpec\<rparr>"

definition small_conf :: raw where
  "small_conf = raw_doc (JObj [(''requestsAndLimits'', JObj [(''default'',
     JObj [(''limits'', JObj [(''cpu'', JStr ''100m''), (''memory'', JStr ''64Mi'')])])])])"

lemma small_decoded:
  "Unmarshal job_DriverConf_fields small_conf (job_defaultDriverConf job_default_resources) =
     Ok (job_defaultDriverConf (Some [(job_Default, small_default)]))"
  by code_simp

theorem job_defaults_shared_witness:
  "\<exists>dcB. job_driver_conf (\<lambda>_. None) (job_defaults_after job_default_resources small_conf) (raw_doc (JObj [])) = Ok dcB \<and>
     getDefaultResources dcB = small_default"
proof -
  have l: "lookup (jd_RequestsAndLimits (job_defaultDriverConf (Some [(job_Default, small_default)]))) job_Default =
      Some small_default"
    by (simp add: job_defaultDriverConf_def lookup_def)
  show ?thesis
    by (rule job_defaults_shared [OF small_decoded _ l]) simp
qed

end
