(* ===== verification/Api.thy ===== *)
theory Api
  imports Core_Service "HOL-Library.Multiset"
begin

text \<open>
  \<open>internal/server/serverutils\<close> and what the handlers of both services share: the gRPC status of an
  error, the identity of the caller, the protocol messages' JSON values, and \<open>is2xx\<close> of the request
  log. The conversions of \<open>structpb\<close> are a parameter; a \<open>timestamppb.Timestamp\<close> holds a time exactly.
\<close>

section \<open>Errors of a call\<close>

datatype rpc_code = code_NotFound | code_AlreadyExists | code_InvalidArgument | code_Internal | code_DataLoss
  | code_Unimplemented

text \<open>\<open>RpcStatus\<close> is \<open>status.Error(code, msg)\<close>; \<open>RpcRaw\<close> an error returned as it is.\<close>

datatype rpc_error = RpcStatus rpc_code string | RpcRaw gerror

type_synonym ('s, 'a) rpc = "(rpc_error, 's, 'a) st"

definition ToRPCError :: "gerror \<Rightarrow> rpc_error" where
  "ToRPCError e =
     (let err = EErr (E e);
          code = (if errors_Is err (EErr ErrNotFound) then code_NotFound
                  else if errors_Is err (EErr ErrConflict) then code_AlreadyExists
                  else if errors_Is err (EErr ErrInvalid) then code_InvalidArgument
                  else code_Internal)
      in RpcStatus code (error_text err))"

text \<open>\<open>if err != nil { return nil, serverutils.ToRPCError(err) }\<close>\<close>

definition rpcS :: "('s, 'a) go \<Rightarrow> ('a \<Rightarrow> ('s, 'b) rpc) \<Rightarrow> ('s, 'b) rpc" where
  "rpcS m f = catchS m f (\<lambda>err. fail (ToRPCError err))"

section \<open>The caller\<close>

definition userIDHeader :: string where
  "userIDHeader = ''user-id''"

fun code_name :: "rpc_code \<Rightarrow> string" where
  "code_name code_NotFound = ''NotFound''"
| "code_name code_AlreadyExists = ''AlreadyExists''"
| "code_name code_InvalidArgument = ''InvalidArgument''"
| "code_name code_Internal = ''Internal''"
| "code_name code_DataLoss = ''DataLoss''"
| "code_name code_Unimplemented = ''Unimplemented''"

text \<open>A status error as an error value of its own, with the text the library gives it.\<close>

definition status_Errorf :: "rpc_code \<Rightarrow> string \<Rightarrow> gerror" where
  "status_Errorf c msg = PlainErr (''rpc error: code = '' @ code_name c @ '' desc = '' @ msg)"

text \<open>The incoming metadata of the context, \<open>None\<close> when there is none.\<close>

type_synonym metadata = "string list gomap option"

definition GetUserIdentifier :: "metadata \<Rightarrow> string outcome" where
  "GetUserIdentifier ctx =
     (case ctx of
        None \<Rightarrow> Err (status_Errorf code_DataLoss ''failed to get metadata'')
      | Some md \<Rightarrow>
          (case lookup md userIDHeader of
             Some (x # xs) \<Rightarrow>
               (let userID = TrimSpace x
                in if userID = [] then
                     Err (status_Errorf code_InvalidArgument (''empty '' @ sq userIDHeader @ '' header''))
                   else Ok userID)
           | _ \<Rightarrow> Err (status_Errorf code_InvalidArgument (''missing '' @ sq userIDHeader @ '' header''))))"

text \<open>\<open>Header.Get\<close> of an HTTP request: the first value under the canonical name of the header.\<close>

fun canonical :: "bool \<Rightarrow> string \<Rightarrow> string" where
  "canonical up [] = []"
| "canonical up (c # cs) =
     (if up \<and> 97 \<le> code c \<and> code c \<le> 122 then char_of (code c - 32) else if up then c else lower_char c)
     # canonical (c = CHR ''-'') cs"

definition header_Get :: "string list gomap \<Rightarrow> string \<Rightarrow> string" where
  "header_Get hdr k = (case lookup hdr (canonical True k) of Some (v # _) \<Rightarrow> v | _ \<Rightarrow> [])"

definition ExtractRequestMetadata :: "string list gomap \<Rightarrow> metadata" where
  "ExtractRequestMetadata hdr = Some (Some [(userIDHeader, [header_Get hdr userIDHeader])])"

section \<open>Protocol values\<close>

text \<open>
  \<open>structpb.Value\<close>: decoding a JSON document (\<open>UnmarshalJSON\<close>), encoding a value (\<open>MarshalJSON\<close>, a
  nil pointer allowed), encoding the struct in a value (\<open>GetStructValue().MarshalJSON()\<close>), and the
  null value. \<open>pb_Range\<close> is the order in which a \<open>range\<close> loop of the translation visits the entries of
  a Go map: the language leaves it open, so it is any arrangement of the entries (\<open>any_order\<close>).
\<close>

record 'v structpb =
  pb_Unmarshal :: "json \<Rightarrow> 'v outcome"
  pb_Marshal :: "'v option \<Rightarrow> raw outcome"
  pb_MarshalStruct :: "'v option \<Rightarrow> raw outcome"
  pb_NullValue :: 'v
  pb_Range :: "(string \<times> string) list \<Rightarrow> (string \<times> string) list"

definition any_order :: "'v structpb \<Rightarrow> bool" where
  "any_order pb \<longleftrightarrow> (\<forall>kvs. mset (pb_Range pb kvs) = mset kvs)"

text \<open>\<open>json.Unmarshal\<close> into a value, and into a pointer to one, which \<open>null\<close> sets to nil.\<close>

definition unmarshal_value :: "'v structpb \<Rightarrow> raw \<Rightarrow> 'v outcome" where
  "unmarshal_value pb r =
     (case json_parse r of
        Ok j \<Rightarrow> pb_Unmarshal pb j
      | Err e \<Rightarrow> Err e
      | Panic p \<Rightarrow> Panic p
      | Overflow \<Rightarrow> Overflow)"

definition unmarshal_pointer :: "'v structpb \<Rightarrow> raw \<Rightarrow> 'v option outcome" where
  "unmarshal_pointer pb r =
     (case json_parse r of
        Ok j \<Rightarrow>
          if j = JNull then Ok None
          else (case pb_Unmarshal pb j of
                  Ok v \<Rightarrow> Ok (Some v)
                | Err e \<Rightarrow> Err e
                | Panic p \<Rightarrow> Panic p
                | Overflow \<Rightarrow> Overflow)
      | Err e \<Rightarrow> Err e
      | Panic p \<Rightarrow> Panic p
      | Overflow \<Rightarrow> Overflow)"

text \<open>\<open>AsTime\<close>: a nil timestamp is the Unix epoch.\<close>

definition unix_epoch :: time where
  "unix_epoch = 62135596800 * 1000000000"

definition AsTime :: "time option \<Rightarrow> time" where
  "AsTime ts = (case ts of None \<Rightarrow> unix_epoch | Some t \<Rightarrow> t)"

section \<open>The request log\<close>

definition is2xx :: "int \<Rightarrow> bool" where
  "is2xx status \<longleftrightarrow> status \<ge> 200 \<and> status < 299"

section \<open>Lemmas\<close>

lemma rpcS_ret [simp]: "rpcS (ret a) f = f a"
  by (simp add: rpcS_def)

lemma rpcS_Ok: "rpcS m f s = (Ok b, t) \<longleftrightarrow> (\<exists>a u. m s = (Ok a, u) \<and> f a u = (Ok b, t))"
  by (auto simp: rpcS_def catchS_def fail_def split: prod.splits result.splits)

lemma rpcS_Ok_E [elim!]:
  assumes "rpcS m f s = (Ok b, t)"
  obtains a u where "m s = (Ok a, u)" and "f a u = (Ok b, t)"
  using assms by (auto simp: rpcS_Ok)

lemma rpcS_Err: "m s = (Err e, t) \<Longrightarrow> rpcS m f s = (Err (ToRPCError e), t)"
  by (simp add: rpcS_def catchS_def fail_def)

lemma keeps_rpcS: "keeps P m \<Longrightarrow> (\<And>a. keeps P (f a)) \<Longrightarrow> keeps P (rpcS m f)"
  unfolding rpcS_def by (intro keeps_catchS hoare_fail)

lemma GetUserIdentifier_cases:
  "(\<exists>u. GetUserIdentifier ctx = Ok u \<and> u \<noteq> [] \<and> TrimSpace u = u) \<or>
   (\<exists>txt. GetUserIdentifier ctx = Err (PlainErr txt))"
  by (auto simp: GetUserIdentifier_def status_Errorf_def Let_def split: option.split list.split)

lemma ToRPCError_plain: "ToRPCError (PlainErr txt) = RpcStatus code_Internal (''internal_error: some unexpected error occurred: '' @ txt)" if "txt \<noteq> []"
  using that by (simp add: ToRPCError_def E_def Error_Error_def WithCausef_def category_defs)

end
