(* ===== verification/Api_Resources.thy ===== *)
theory Api_Resources
  imports Api Json_More
begin

text \<open>
  \<open>internal/server/v1/resources\<close>: the resource service of the API. The messages are records, a pointer
  to a message an option; \<open>mappers.go\<close> translates between them and the model, and each handler calls
  the service it is given.
\<close>

section \<open>Messages\<close>

record pb_Dependency =
  pbd_Key :: string
  pbd_Value :: string

record 'v pb_Spec =
  pbs_Configs :: "'v option"
  pbs_Dependencies :: "pb_Dependency list"

record 'v pb_State =
  pbt_Status :: int
  pbt_Output :: "'v option"
  pbt_ModuleData :: raw
  pbt_LogOptions :: "string list gomap option"
  pbt_SyncRetries :: int
  pbt_SyncLastError :: string
  pbt_NextSyncAt :: "time option"

record 'v pb_Resource =
  pbr_Urn :: string
  pbr_Kind :: string
  pbr_Name :: string
  pbr_Project :: string
  pbr_Labels :: labels
  pbr_CreatedAt :: "time option"
  pbr_UpdatedAt :: "time option"
  pbr_Spec :: "'v pb_Spec option"
  pbr_State :: "'v pb_State option"
  pbr_CreatedBy :: string
  pbr_UpdatedBy :: string

record 'v pb_Revision =
  pbv_Id :: string
  pbv_Urn :: string
  pbv_Reason :: string
  pbv_Labels :: labels
  pbv_CreatedAt :: "time option"
  pbv_CreatedBy :: string
  pbv_Spec :: "'v pb_Spec option"

record ListResourcesRequest =
  lrq_Project :: string
  lrq_Kind :: string
  lrq_Labels :: labels
  lrq_PageSize :: "32 word"
  lrq_PageNum :: "32 word"
  lrq_WithSpecConfigs :: bool

record 'v ListResourcesResponse =
  lrs_Count :: int
  lrs_Resources :: "'v pb_Resource list"

record 'v CreateResourceRequest =
  crq_Resource :: "'v pb_Resource option"
  crq_DryRun :: bool

record 'v UpdateResourceRequest =
  urq_Urn :: string
  urq_NewSpec :: "'v pb_Spec option"
  urq_Labels :: labels
  urq_DryRun :: bool

record 'v ApplyActionRequest =
  arq_Urn :: string
  arq_Action :: string
  arq_Params :: "'v option"
  arq_Labels :: labels
  arq_DryRun :: bool

text \<open>The names and the values of the status enum, which is open: other numbers print as they are.\<close>

definition ResourceState_Status_name :: "(int \<times> string) list" where
  "ResourceState_Status_name =
     [(0, ''STATUS_UNSPECIFIED''), (1, ''STATUS_PENDING''), (2, ''STATUS_ERROR''), (3, ''STATUS_DELETED''),
      (4, ''STATUS_COMPLETED'')]"

definition ResourceState_Status_value :: "(string \<times> int) list" where
  "ResourceState_Status_value =
     [(''STATUS_UNSPECIFIED'', 0), (''STATUS_PENDING'', 1), (''STATUS_ERROR'', 2), (''STATUS_DELETED'', 3),
      (''STATUS_COMPLETED'', 4)]"

definition pb_Status_String :: "int \<Rightarrow> string" where
  "pb_Status_String x = (case map_of ResourceState_Status_name x of Some n \<Rightarrow> n | None \<Rightarrow> show_int x)"

section \<open>Mappers\<close>

definition pb_cause :: "string \<Rightarrow> gerror \<Rightarrow> gerror" where
  "pb_cause msg err = EErr (WithCausef (WithMsgf ErrInternal msg) (error_text err))"

definition map_err :: "(gerror \<Rightarrow> gerror) \<Rightarrow> 'a outcome \<Rightarrow> 'a outcome" where
  "map_err f r = (case r of Err e \<Rightarrow> Err (f e) | _ \<Rightarrow> r)"

definition bindR :: "'a outcome \<Rightarrow> ('a \<Rightarrow> 'b outcome) \<Rightarrow> 'b outcome" where
  "bindR r f = (case r of Ok a \<Rightarrow> f a | Err e \<Rightarrow> Err e | Panic p \<Rightarrow> Panic p | Overflow \<Rightarrow> Overflow)"

definition resourceStateToProto :: "'v structpb \<Rightarrow> State \<Rightarrow> 'v pb_State outcome" where
  "resourceStateToProto pb st =
     bindR (if raw_empty (st_Output st) then Ok None
            else map_err (pb_cause ''failed to unmarshal output'')
                   (bindR (unmarshal_value pb (st_Output st)) (\<lambda>v. Ok (Some v))))
       (\<lambda>outputVal. Ok
          \<lparr>pbt_Status = (case map_of ResourceState_Status_value (st_Status st) of Some v \<Rightarrow> v | None \<Rightarrow> 0),
           pbt_Output = outputVal, pbt_ModuleData = st_ModuleData st, pbt_LogOptions = None,
           pbt_SyncRetries = to_int32 (sr_Retries (st_SyncResult st)),
           pbt_SyncLastError = sr_LastError (st_SyncResult st), pbt_NextSyncAt = st_NextSyncAt st\<rparr>)"

definition resourceSpecToProto :: "'v structpb \<Rightarrow> Spec \<Rightarrow> 'v pb_Spec outcome" where
  "resourceSpecToProto pb spec =
     bindR (if sp_Configs spec = None then Ok (Some (pb_NullValue pb))
            else map_err (pb_cause ''json.Unmarshal failed for spec.configs'') (unmarshal_pointer pb (sp_Configs spec)))
       (\<lambda>conf. Ok
          \<lparr>pbs_Configs = conf,
           pbs_Dependencies = map (\<lambda>(key, r). \<lparr>pbd_Key = key, pbd_Value = r\<rparr>) (pb_Range pb (entries (sp_Dependencies spec)))\<rparr>)"

definition resourceToProto :: "'v structpb \<Rightarrow> Resource \<Rightarrow> 'v pb_Resource outcome" where
  "resourceToProto pb res =
     bindR (map_err (pb_cause ''state to protobuf failed'') (resourceStateToProto pb (res_State res))) (\<lambda>protoState.
     bindR (map_err (pb_cause ''spec to protobuf failed'') (resourceSpecToProto pb (res_Spec res))) (\<lambda>spec.
     Ok \<lparr>pbr_Urn = res_URN res, pbr_Kind = res_Kind res, pbr_Name = res_Name res, pbr_Project = res_Project res,
         pbr_Labels = res_Labels res, pbr_CreatedAt = Some (res_CreatedAt res),
         pbr_UpdatedAt = Some (res_UpdatedAt res), pbr_Spec = Some spec, pbr_State = Some protoState,
         pbr_CreatedBy = res_CreatedBy res, pbr_UpdatedBy = res_UpdatedBy res\<rparr>))"

text \<open>The loop over the dependencies of the message.\<close>

fun collect_dependencies :: "pb_Dependency list \<Rightarrow> (string \<times> string) list \<Rightarrow> (string \<times> string) list outcome" where
  "collect_dependencies [] deps = Ok deps"
| "collect_dependencies (dep # rest) deps =
     (if map_of deps (pbd_Key dep) \<noteq> None then
        Err (invalid (''dependency key '' @ sq (pbd_Key dep) @ '' is set more than once''))
      else collect_dependencies rest (put (pbd_Key dep) (pbd_Value dep) deps))"

definition resourceSpecFromProto :: "'v structpb \<Rightarrow> 'v pb_Spec option \<Rightarrow> Spec outcome" where
  "resourceSpecFromProto pb spec =
     bindR (collect_dependencies (case spec of None \<Rightarrow> [] | Some sp \<Rightarrow> pbs_Dependencies sp) []) (\<lambda>deps.
     bindR (map_err (\<lambda>err. EErr (WithCausef (WithMsgf ErrInvalid ''configs is not valid JSON'') (error_text err)))
              (pb_Marshal pb (case spec of None \<Rightarrow> None | Some sp \<Rightarrow> pbs_Configs sp))) (\<lambda>confJSON.
     Ok \<lparr>sp_Configs = confJSON, sp_Dependencies = Some deps\<rparr>))"

definition nil_panic :: string where
  "nil_panic = ''runtime error: invalid memory address or nil pointer dereference''"

text \<open>The accesses \<open>res.Spec\<close> and \<open>res.State\<close> read the fields of a pointer that may be nil.\<close>

definition resourceFromProto :: "'v structpb \<Rightarrow> 'v pb_Resource option \<Rightarrow> bool \<Rightarrow> Resource outcome" where
  "resourceFromProto pb msg includeState =
     (case msg of
        None \<Rightarrow> Panic nil_panic
      | Some res \<Rightarrow>
          bindR (resourceSpecFromProto pb (pbr_Spec res)) (\<lambda>spec.
          let mappedRes = zero_Resource
                \<lparr>res_URN := pbr_Urn res, res_Kind := pbr_Kind res, res_Name := pbr_Name res,
                 res_Labels := pbr_Labels res, res_Project := pbr_Project res,
                 res_CreatedAt := AsTime (pbr_CreatedAt res), res_UpdatedAt := AsTime (pbr_UpdatedAt res),
                 res_Spec := spec\<rparr>
          in if \<not> includeState then Ok mappedRes
             else
               bindR (map_err (\<lambda>err. EErr (WithCausef (WithMsgf ErrInvalid ''state.output is not valid json'')
                                             (error_text err)))
                        (pb_MarshalStruct pb (case pbr_State res of None \<Rightarrow> None | Some st \<Rightarrow> pbt_Output st)))
                 (\<lambda>jsonData. Ok (mappedRes\<lparr>res_State := zero_State
                    \<lparr>st_Status := pb_Status_String
                       (case pbr_State res of None \<Rightarrow> 0 | Some st \<Rightarrow> pbt_Status st),
                     st_Output := jsonData,
                     st_ModuleData := (case pbr_State res of None \<Rightarrow> None | Some st \<Rightarrow> pbt_ModuleData st)\<rparr>\<rparr>))))"

definition revisionToProto :: "'v structpb \<Rightarrow> Revision \<Rightarrow> 'v pb_Revision outcome" where
  "revisionToProto pb rv =
     bindR (resourceSpecToProto pb (rev_Spec rv)) (\<lambda>spec. Ok
       \<lparr>pbv_Id = show_int (rev_ID rv), pbv_Urn = rev_URN rv, pbv_Reason = rev_Reason rv,
        pbv_Labels = rev_Labels rv, pbv_CreatedAt = Some (rev_CreatedAt rv), pbv_CreatedBy = rev_CreatedBy rv,
        pbv_Spec = Some spec\<rparr>)"

section \<open>The service behind the handlers\<close>

record 's ResourceService =
  rsv_GetResource :: "string \<Rightarrow> ('s, Resource) go"
  rsv_ListResources :: "Filter \<Rightarrow> bool \<Rightarrow> ('s, PagedResource) go"
  rsv_CreateResource :: "Resource \<Rightarrow> Options list \<Rightarrow> ('s, Resource) go"
  rsv_UpdateResource :: "string \<Rightarrow> UpdateRequest \<Rightarrow> Options list \<Rightarrow> ('s, Resource) go"
  rsv_DeleteResource :: "string \<Rightarrow> ('s, unit) go"
  rsv_ApplyAction :: "string \<Rightarrow> ActionRequest \<Rightarrow> Options list \<Rightarrow> ('s, Resource) go"
  rsv_GetLog :: "string \<Rightarrow> string gomap \<Rightarrow> ('s, LogChunk list) go"
  rsv_GetRevisions :: "string \<Rightarrow> ('s, Revision list) go"

text \<open>The resource service of \<open>core\<close> as that interface, with its bound on the dependency depth.\<close>

definition core_ResourceService :: "nat \<Rightarrow> 's Service \<Rightarrow> 's ResourceService" where
  "core_ResourceService n svc =
     \<lparr>rsv_GetResource = GetResource n svc, rsv_ListResources = ListResources svc,
      rsv_CreateResource = CreateResource n svc, rsv_UpdateResource = UpdateResource n svc,
      rsv_DeleteResource = DeleteResource n svc, rsv_ApplyAction = ApplyAction n svc,
      rsv_GetLog = GetLog n svc, rsv_GetRevisions = GetRevisions svc\<rparr>"

section \<open>Handlers\<close>

definition api_CreateResource ::
    "'v structpb \<Rightarrow> 's ResourceService \<Rightarrow> metadata \<Rightarrow> 'v CreateResourceRequest \<Rightarrow> ('s, 'v pb_Resource) rpc" where
  "api_CreateResource pb rsv ctx request =
     rpcS (liftR (resourceFromProto pb (crq_Resource request) False)) (\<lambda>res.
     rpcS (liftR (GetUserIdentifier ctx)) (\<lambda>userIdentifier.
     rpcS (rsv_CreateResource rsv (res\<lparr>res_CreatedBy := userIdentifier, res_UpdatedBy := userIdentifier\<rparr>)
             [WithDryRun (crq_DryRun request)]) (\<lambda>result.
     rpcS (liftR (resourceToProto pb result)) ret)))"

definition api_UpdateResource ::
    "'v structpb \<Rightarrow> 's ResourceService \<Rightarrow> metadata \<Rightarrow> 'v UpdateResourceRequest \<Rightarrow> ('s, 'v pb_Resource) rpc" where
  "api_UpdateResource pb rsv ctx request =
     rpcS (liftR (resourceSpecFromProto pb (urq_NewSpec request))) (\<lambda>newSpec.
     rpcS (liftR (GetUserIdentifier ctx)) (\<lambda>userIdentifier.
     rpcS (rsv_UpdateResource rsv (urq_Urn request)
             \<lparr>ur_Spec = newSpec, ur_Labels = urq_Labels request, ur_UserID = userIdentifier\<rparr>
             [WithDryRun (urq_DryRun request)]) (\<lambda>res.
     rpcS (liftR (resourceToProto pb res)) ret)))"

definition api_GetResource :: "'v structpb \<Rightarrow> 's ResourceService \<Rightarrow> string \<Rightarrow> ('s, 'v pb_Resource) rpc" where
  "api_GetResource pb rsv urn =
     rpcS (rsv_GetResource rsv urn) (\<lambda>res. rpcS (liftR (resourceToProto pb res)) ret)"

text \<open>The loops that translate the elements of a list.\<close>

fun map_outcome :: "('a \<Rightarrow> 'b outcome) \<Rightarrow> 'a list \<Rightarrow> 'b list outcome" where
  "map_outcome f [] = Ok []"
| "map_outcome f (x # xs) = bindR (f x) (\<lambda>y. bindR (map_outcome f xs) (\<lambda>ys. Ok (y # ys)))"

definition api_ListResources ::
    "'v structpb \<Rightarrow> 's ResourceService \<Rightarrow> ListResourcesRequest \<Rightarrow> ('s, 'v ListResourcesResponse) rpc" where
  "api_ListResources pb rsv request =
     rpcS (rsv_ListResources rsv
             \<lparr>fl_Kind = lrq_Kind request, fl_Project = lrq_Project request, fl_Labels = lrq_Labels request,
              fl_PageSize = lrq_PageSize request, fl_PageNum = lrq_PageNum request\<rparr>
             (lrq_WithSpecConfigs request)) (\<lambda>resources.
     rpcS (liftR (map_outcome (resourceToProto pb) (pr_Resources resources))) (\<lambda>responseResources.
     ret \<lparr>lrs_Count = to_int32 (int (length responseResources)), lrs_Resources = responseResources\<rparr>))"

definition api_DeleteResource :: "'s ResourceService \<Rightarrow> string \<Rightarrow> ('s, unit) rpc" where
  "api_DeleteResource rsv urn = rpcS (rsv_DeleteResource rsv urn) ret"

definition api_ApplyAction ::
    "'v structpb \<Rightarrow> 's ResourceService \<Rightarrow> metadata \<Rightarrow> 'v ApplyActionRequest \<Rightarrow> ('s, 'v pb_Resource) rpc" where
  "api_ApplyAction pb rsv ctx request =
     catchS (liftR (pb_MarshalStruct pb (arq_Params request)))
       (\<lambda>paramsJSON.
          rpcS (liftR (GetUserIdentifier ctx)) (\<lambda>userIdentifier.
          rpcS (rsv_ApplyAction rsv (arq_Urn request)
                  \<lparr>act_Name = arq_Action request, act_Params = paramsJSON, act_Labels = arq_Labels request,
                   act_UserID = userIdentifier, act_LabelsShared = False\<rparr>
                  [WithDryRun (arq_DryRun request)]) (\<lambda>updatedRes.
          rpcS (liftR (resourceToProto pb updatedRes)) ret)))
       (\<lambda>err. fail (RpcRaw err))"

text \<open>
  The loop of \<open>GetLog\<close> over the chunks of the log stream: \<open>done\<close> tells whether the select of this
  iteration sees the cancelled context, \<open>send\<close> is the stream of the call.
\<close>

fun forward_logs ::
    "('s \<Rightarrow> bool) \<Rightarrow> (LogChunk \<Rightarrow> ('s, unit) go) \<Rightarrow> LogChunk list \<Rightarrow> ('s, unit) rpc" where
  "forward_logs done send [] = ret ()"
| "forward_logs done send (chunk # chunks) =
     (\<lambda>s. if done s then ret () s else rpcS (send chunk) (\<lambda>_. forward_logs done send chunks) s)"

definition api_GetLog ::
    "'s ResourceService \<Rightarrow> ('s \<Rightarrow> bool) \<Rightarrow> (LogChunk \<Rightarrow> ('s, unit) go) \<Rightarrow> string \<Rightarrow> string gomap \<Rightarrow>
     ('s, unit) rpc" where
  "api_GetLog rsv done send urn filt = rpcS (rsv_GetLog rsv urn filt) (forward_logs done send)"

definition api_GetResourceRevisions ::
    "'v structpb \<Rightarrow> 's ResourceService \<Rightarrow> string \<Rightarrow> ('s, 'v pb_Revision list) rpc" where
  "api_GetResourceRevisions pb rsv urn =
     rpcS (rsv_GetRevisions rsv urn) (\<lambda>revisions.
     rpcS (liftR (map_outcome (revisionToProto pb) revisions)) ret)"

end
