(* ===== verification/Api_Modules.thy ===== *)
theory Api_Modules
  imports Api_Resources
begin

text \<open>
  \<open>internal/server/v1/modules\<close>: the module service of the API, its messages and their translation.
\<close>

section \<open>Messages and mappers\<close>

record 'v pb_Module =
  pbm_Urn :: string
  pbm_Name :: string
  pbm_Project :: string
  pbm_CreatedAt :: "time option"
  pbm_UpdatedAt :: "time option"
  pbm_Configs :: "'v option"

record 'v UpdateModuleRequest =
  umr_Urn :: string
  umr_Configs :: "'v option"

definition moduleToProto :: "'v structpb \<Rightarrow> Module \<Rightarrow> 'v pb_Module outcome" where
  "moduleToProto pb m =
     bindR (if raw_empty (mod_Configs m) then Ok None else unmarshal_pointer pb (mod_Configs m)) (\<lambda>conf. Ok
       \<lparr>pbm_Urn = mod_URN m, pbm_Name = mod_Name m, pbm_Project = mod_Project m,
        pbm_CreatedAt = Some (mod_CreatedAt m), pbm_UpdatedAt = Some (mod_UpdatedAt m), pbm_Configs = conf\<rparr>)"

definition errInvalidJSON :: Error where
  "errInvalidJSON =
     WithMsgf ErrInvalid (CHR 0x27 # ''configs'' @ CHR 0x27 # '' field must be specified and must be valid JSON'')"

text \<open>The argument is what \<open>GetConfigs\<close> of the message gives.\<close>

definition getConfigsAsRawJSON :: "'v structpb \<Rightarrow> 'v option \<Rightarrow> raw outcome" where
  "getConfigsAsRawJSON pb confVal =
     (if confVal = None then Err (EErr errInvalidJSON)
      else map_err (\<lambda>err. EErr (WithCausef errInvalidJSON (error_text err))) (pb_Marshal pb confVal))"

text \<open>The getters of a nil message give zero values.\<close>

definition zero_pb_Module :: "'v pb_Module" where
  "zero_pb_Module =
     \<lparr>pbm_Urn = [], pbm_Name = [], pbm_Project = [], pbm_CreatedAt = None, pbm_UpdatedAt = None, pbm_Configs = None\<rparr>"

definition moduleFromProto :: "'v structpb \<Rightarrow> 'v pb_Module option \<Rightarrow> Module outcome" where
  "moduleFromProto pb msg =
     (let res = (case msg of None \<Rightarrow> zero_pb_Module | Some m \<Rightarrow> m)
      in bindR (getConfigsAsRawJSON pb (pbm_Configs res)) (\<lambda>confJSON. Ok
           \<lparr>mod_URN = pbm_Urn res, mod_Name = pbm_Name res, mod_Project = pbm_Project res, mod_Configs = confJSON,
            mod_CreatedAt = AsTime (pbm_CreatedAt res), mod_UpdatedAt = AsTime (pbm_UpdatedAt res)\<rparr>))"

section \<open>Handlers\<close>

record 's ModuleAPI =
  msa_GetModule :: "string \<Rightarrow> ('s, Module) go"
  msa_ListModules :: "string \<Rightarrow> ('s, Module list) go"
  msa_CreateModule :: "Module \<Rightarrow> ('s, Module) go"
  msa_UpdateModule :: "string \<Rightarrow> raw \<Rightarrow> ('s, Module) go"
  msa_DeleteModule :: "string \<Rightarrow> ('s, unit) go"

definition core_ModuleAPI :: "'s module_Service \<Rightarrow> 's ModuleAPI" where
  "core_ModuleAPI mr =
     \<lparr>msa_GetModule = GetModule mr, msa_ListModules = ListModules mr, msa_CreateModule = CreateModule mr,
      msa_UpdateModule = UpdateModule mr, msa_DeleteModule = DeleteModule mr\<rparr>"

definition api_ListModules :: "'v structpb \<Rightarrow> 's ModuleAPI \<Rightarrow> string \<Rightarrow> ('s, 'v pb_Module list) rpc" where
  "api_ListModules pb srv project =
     rpcS (msa_ListModules srv project) (\<lambda>mods. rpcS (liftR (map_outcome (moduleToProto pb) mods)) ret)"

definition api_GetModule :: "'v structpb \<Rightarrow> 's ModuleAPI \<Rightarrow> string \<Rightarrow> ('s, 'v pb_Module) rpc" where
  "api_GetModule pb srv urn = rpcS (msa_GetModule srv urn) (\<lambda>m. rpcS (liftR (moduleToProto pb m)) ret)"

definition api_CreateModule ::
    "'v structpb \<Rightarrow> 's ModuleAPI \<Rightarrow> 'v pb_Module option \<Rightarrow> ('s, 'v pb_Module) rpc" where
  "api_CreateModule pb srv msg =
     rpcS (liftR (moduleFromProto pb msg)) (\<lambda>m.
     rpcS (msa_CreateModule srv m) (\<lambda>createdMod.
     rpcS (liftR (moduleToProto pb createdMod)) ret))"

definition api_UpdateModule ::
    "'v structpb \<Rightarrow> 's ModuleAPI \<Rightarrow> 'v UpdateModuleRequest \<Rightarrow> ('s, 'v pb_Module) rpc" where
  "api_UpdateModule pb srv request =
     rpcS (liftR (getConfigsAsRawJSON pb (umr_Configs request))) (\<lambda>newConfigs.
     rpcS (msa_UpdateModule srv (umr_Urn request) newConfigs) (\<lambda>updatedMod.
     rpcS (liftR (moduleToProto pb updatedMod)) ret))"

definition api_DeleteModule :: "'s ModuleAPI \<Rightarrow> string \<Rightarrow> ('s, unit) rpc" where
  "api_DeleteModule srv urn = rpcS (msa_DeleteModule srv urn) ret"

end
