(* ===== verification/Api_Reach.thy ===== *)
theory Api_Reach
  imports Api_Modules Entropy_Props
begin

text \<open>
  The API over the service on Postgres. A request is one call of one of the two API servers; each
  request makes at most one call of the services, so what holds in every reachable state of the
  service holds in every state the API can bring it to.
\<close>

section \<open>Requests\<close>

datatype 'v request =
    ReqCreate metadata "'v CreateResourceRequest"
  | ReqUpdate metadata "'v UpdateResourceRequest"
  | ReqGet string
  | ReqList ListResourcesRequest
  | ReqDelete string
  | ReqAction metadata "'v ApplyActionRequest"
  | ReqLog string "string gomap"
  | ReqRevisions string
  | ReqListModules string
  | ReqGetModule string
  | ReqCreateModule "'v pb_Module option"
  | ReqUpdateModule "'v UpdateModuleRequest"
  | ReqDeleteModule string

definition rpc_done :: "('s, 'a) rpc \<Rightarrow> ('s, unit) rpc" where
  "rpc_done m = bindS m (\<lambda>_. ret ())"

fun serve_request ::
    "'v structpb \<Rightarrow> 's ResourceService \<Rightarrow> 's ModuleAPI \<Rightarrow> ('s \<Rightarrow> bool) \<Rightarrow> (LogChunk \<Rightarrow> ('s, unit) go) \<Rightarrow>
     'v request \<Rightarrow> ('s, unit) rpc" where
  "serve_request pb rsv srv done send (ReqCreate ctx q) = rpc_done (api_CreateResource pb rsv ctx q)"
| "serve_request pb rsv srv done send (ReqUpdate ctx q) = rpc_done (api_UpdateResource pb rsv ctx q)"
| "serve_request pb rsv srv done send (ReqGet urn) = rpc_done (api_GetResource pb rsv urn)"
| "serve_request pb rsv srv done send (ReqList q) = rpc_done (api_ListResources pb rsv q)"
| "serve_request pb rsv srv done send (ReqDelete urn) = rpc_done (api_DeleteResource rsv urn)"
| "serve_request pb rsv srv done send (ReqAction ctx q) = rpc_done (api_ApplyAction pb rsv ctx q)"
| "serve_request pb rsv srv done send (ReqLog urn filt) = rpc_done (api_GetLog rsv done send urn filt)"
| "serve_request pb rsv srv done send (ReqRevisions urn) = rpc_done (api_GetResourceRevisions pb rsv urn)"
| "serve_request pb rsv srv done send (ReqListModules project) = rpc_done (api_ListModules pb srv project)"
| "serve_request pb rsv srv done send (ReqGetModule urn) = rpc_done (api_GetModule pb srv urn)"
| "serve_request pb rsv srv done send (ReqCreateModule m) = rpc_done (api_CreateModule pb srv m)"
| "serve_request pb rsv srv done send (ReqUpdateModule q) = rpc_done (api_UpdateModule pb srv q)"
| "serve_request pb rsv srv done send (ReqDeleteModule urn) = rpc_done (api_DeleteModule srv urn)"

section \<open>The conversions return\<close>

definition structpb_total :: "'v structpb \<Rightarrow> bool" where
  "structpb_total pb \<longleftrightarrow>
     (\<forall>j. pb_Unmarshal pb j \<noteq> Overflow) \<and> (\<forall>v. pb_Marshal pb v \<noteq> Overflow) \<and>
     (\<forall>v. pb_MarshalStruct pb v \<noteq> Overflow)"

lemma bindR_Overflow [simp]: "bindR r f = Overflow \<longleftrightarrow> r = Overflow \<or> (\<exists>a. r = Ok a \<and> f a = Overflow)"
  by (auto simp: bindR_def split: result.split)

lemma map_err_Overflow [simp]: "map_err f r = Overflow \<longleftrightarrow> r = Overflow"
  by (simp add: map_err_def split: result.split)

lemma json_parse_no_overflow: "json_parse r \<noteq> Overflow"
  by (auto simp: json_parse_def split: option.split bytes.split list.split)

lemma unmarshal_no_overflow:
  "structpb_total pb \<Longrightarrow> unmarshal_value pb r \<noteq> Overflow"
  "structpb_total pb \<Longrightarrow> unmarshal_pointer pb r \<noteq> Overflow"
  using json_parse_no_overflow [of r]
  by (auto simp: unmarshal_value_def unmarshal_pointer_def structpb_total_def split: result.split)

lemma map_outcome_no_overflow: "(\<And>x. f x \<noteq> Overflow) \<Longrightarrow> map_outcome f xs \<noteq> Overflow"
  by (induction xs) auto

lemma collect_dependencies_no_overflow: "collect_dependencies ds acc \<noteq> Overflow"
  by (induction ds acc rule: collect_dependencies.induct) auto

lemma to_proto_no_overflow:
  assumes "structpb_total pb"
  shows "resourceToProto pb r \<noteq> Overflow" "revisionToProto pb v \<noteq> Overflow" "moduleToProto pb m \<noteq> Overflow"
  by (auto simp: resourceToProto_def revisionToProto_def moduleToProto_def resourceSpecToProto_def
      resourceStateToProto_def unmarshal_no_overflow [OF assms])

lemma from_proto_no_overflow:
  assumes "structpb_total pb"
  shows "resourceSpecFromProto pb sp \<noteq> Overflow" "resourceFromProto pb r b \<noteq> Overflow"
    "getConfigsAsRawJSON pb c \<noteq> Overflow" "moduleFromProto pb m \<noteq> Overflow" "GetUserIdentifier ctx \<noteq> Overflow"
  using assms GetUserIdentifier_cases [of ctx]
  by (auto simp: structpb_total_def resourceSpecFromProto_def resourceFromProto_def getConfigsAsRawJSON_def
      moduleFromProto_def Let_def collect_dependencies_no_overflow split: option.split)

lemmas proto_no_overflow = to_proto_no_overflow from_proto_no_overflow

section \<open>A request is at most one service call\<close>

text \<open>\<open>quiet m\<close>: the computation leaves the database alone and returns.\<close>

definition quiet :: "('x world \<Rightarrow> ('e, 'a) result \<times> 'x world) \<Rightarrow> bool" where
  "quiet m \<longleftrightarrow> (\<forall>s. db_part (snd (m s)) = db_part s \<and> fst (m s) \<noteq> Overflow)"

definition one_call ::
    "('x world \<Rightarrow> call \<Rightarrow> (gerror, unit) result \<times> 'x world) \<Rightarrow>
     ('x world \<Rightarrow> ('e, 'a) result \<times> 'x world) \<Rightarrow> bool" where
  "one_call run m \<longleftrightarrow>
     (\<forall>s. db_part (snd (m s)) = db_part s \<and> fst (m s) \<noteq> Overflow \<or>
        (\<exists>c. db_part (snd (m s)) = db_part (snd (run s c)) \<and> (fst (m s) = Overflow \<longrightarrow> fst (run s c) = Overflow)))"

lemma quiet_ret: "quiet (ret a)"
  and quiet_fail: "quiet (fail e)"
  by (auto simp: quiet_def ret_def fail_def)

lemma quiet_liftR: "r \<noteq> Overflow \<Longrightarrow> (\<And>a. quiet (f a)) \<Longrightarrow> quiet (rpcS (liftR r) f)"
  by (cases r) (auto simp: quiet_def fail_def rpcS_def catchS_def liftR_def)

lemma quiet_rpcS: "outside_only m \<Longrightarrow> (\<And>a. quiet (f a)) \<Longrightarrow> quiet (rpcS m f)"
  unfolding quiet_def
proof (intro allI)
  fix s
  assume m: "outside_only m" and f: "\<And>a. \<forall>s. db_part (snd (f a s)) = db_part s \<and> fst (f a s) \<noteq> Overflow"
  obtain r t where rt: "m s = (r, t)" by fastforce
  with m have "db_part t = db_part s" "r \<noteq> Overflow" unfolding outside_only_def by blast+
  then show "db_part (snd (rpcS m f s)) = db_part s \<and> fst (rpcS m f s) \<noteq> Overflow"
    using f rt by (cases r) (auto simp: rpcS_def catchS_def fail_def)
qed

lemma quiet_one_call: "quiet m \<Longrightarrow> one_call run m"
  by (simp add: quiet_def one_call_def)

lemma one_call_liftR: "r \<noteq> Overflow \<Longrightarrow> (\<And>a. one_call run (f a)) \<Longrightarrow> one_call run (rpcS (liftR r) f)"
  by (cases r) (auto simp: one_call_def rpcS_def catchS_def liftR_def fail_def)

lemma one_call_catch_liftR:
  "r \<noteq> Overflow \<Longrightarrow> (\<And>a. one_call run (f a)) \<Longrightarrow> one_call run (catchS (liftR r) f (\<lambda>e. fail (h e)))"
  by (cases r) (auto simp: one_call_def catchS_def liftR_def fail_def)

lemma one_call_rpcS:
  assumes "\<And>s. \<exists>c. run s c = discard m s" and "\<And>a. quiet (f a)"
  shows "one_call run (rpcS m f)"
  unfolding one_call_def
proof (intro allI disjI2)
  fix s
  obtain c where c: "run s c = discard m s" using assms(1) by blast
  obtain r t where rt: "m s = (r, t)" by fastforce
  show "\<exists>c. db_part (snd (rpcS m f s)) = db_part (snd (run s c)) \<and>
      (fst (rpcS m f s) = Overflow \<longrightarrow> fst (run s c) = Overflow)"
  proof (intro exI [of _ c])
    show "db_part (snd (rpcS m f s)) = db_part (snd (run s c)) \<and>
        (fst (rpcS m f s) = Overflow \<longrightarrow> fst (run s c) = Overflow)"
      using assms(2) rt
      by (cases r) (auto simp: c discard_def bindS_def rpcS_def catchS_def fail_def ret_def quiet_def)
  qed
qed

lemma one_call_done: "one_call run (rpc_done m) \<longleftrightarrow> one_call run m"
proof -
  have "snd (rpc_done m s) = snd (m s) \<and> (fst (rpc_done m s) = Overflow) = (fst (m s) = Overflow)" for s
    by (auto simp: rpc_done_def bindS_def catchS_def ret_def fail_def split: prod.split result.split)
  then show ?thesis
    by (simp add: one_call_def)
qed

lemma quiet_forward_logs: "(\<And>ch. outside_only (send ch)) \<Longrightarrow> quiet (forward_logs done send chunks)"
proof (induction chunks)
  case (Cons ch chunks)
  have "quiet (rpcS (send ch) (\<lambda>_. forward_logs done send chunks))"
    by (intro quiet_rpcS Cons)
  then show ?case by (simp add: quiet_def ret_def)
qed (simp add: quiet_ret)

lemma serve_request_one_call:
  assumes pb: "structpb_total pb" and send: "\<And>ch. outside_only (send ch)"
  shows "one_call (\<lambda>s c. run_call n svc mr c s)
    (serve_request pb (core_ResourceService n svc) (core_ModuleAPI mr) done send q)"
proof -
  have call: "one_call (\<lambda>s c. run_call n svc mr c s) (rpcS m f)"
    if "run_call n svc mr c = discard m" "\<And>a. quiet (f a)" for m f c
    using that by (intro one_call_rpcS exI [of _ c]) auto
  have ms: "pb_MarshalStruct pb v \<noteq> Overflow" for v
    using pb by (simp add: structpb_total_def)
  show ?thesis
    by (cases q; simp only: serve_request.simps api_CreateResource_def api_UpdateResource_def api_GetResource_def
        api_ListResources_def api_DeleteResource_def api_ApplyAction_def api_GetLog_def api_GetResourceRevisions_def
        api_ListModules_def api_GetModule_def api_CreateModule_def api_UpdateModule_def api_DeleteModule_def
        core_ResourceService_def core_ModuleAPI_def ResourceService.simps ModuleAPI.simps)
      (rule one_call_done [THEN iffD2] one_call_liftR one_call_catch_liftR call run_call.simps quiet_liftR quiet_ret
        quiet_forward_logs [OF send] proto_no_overflow [OF pb] map_outcome_no_overflow ms)+
qed

end
