(* ===== verification/Api_Props.thy ===== *)
theory Api_Props
  imports Api_Reach
begin

text \<open>
  What a client of the API can rely on: which status an error gets, that specs survive the translation, and what a create call reports.
\<close>

section \<open>Translation of specs\<close>

lemma bindR_Ok: "bindR r f = Ok b \<longleftrightarrow> (\<exists>a. r = Ok a \<and> f a = Ok b)"
  by (auto simp: bindR_def split: result.split)

lemma map_err_Ok [simp]: "map_err f r = Ok a \<longleftrightarrow> r = Ok a"
  by (simp add: map_err_def split: result.split)

lemma put_fresh: "map_of m k = None \<Longrightarrow> put k v m = m @ [(k, v)]"
  by (induction m) (auto simp: put_def)

text \<open>The accepted dependencies are the ones of the message in its order, and no key occurs twice.\<close>

lemma collect_dependencies_Ok:
  "collect_dependencies ds acc = Ok deps \<Longrightarrow> deps = acc @ map (\<lambda>d. (pbd_Key d, pbd_Value d)) ds"
proof (induction ds arbitrary: acc)
  case (Cons d ds)
  then have new: "map_of acc (pbd_Key d) = None"
    and rest: "collect_dependencies ds (put (pbd_Key d) (pbd_Value d) acc) = Ok deps"
    by (auto split: if_splits)
  from Cons.IH [OF rest] show ?case by (simp add: put_fresh [OF new])
qed simp

lemma collect_dependencies_distinct:
  "collect_dependencies ds acc = Ok deps \<Longrightarrow> distinct (map fst acc) \<Longrightarrow> distinct (map fst deps)"
  by (induction ds arbitrary: acc) (auto split: if_splits)

lemma resourceSpecFromProto_Ok:
  assumes "resourceSpecFromProto pb (Some sp) = Ok spec"
  shows "pb_Marshal pb (pbs_Configs sp) = Ok (sp_Configs spec) \<and>
    sp_Dependencies spec = Some (map (\<lambda>d. (pbd_Key d, pbd_Value d)) (pbs_Dependencies sp)) \<and>
    wf_map (sp_Dependencies spec)"
  using assms collect_dependencies_Ok collect_dependencies_distinct
  by (fastforce simp: resourceSpecFromProto_def bindR_Ok wf_map_def)

section \<open>Creating through the API\<close>

lemma CreateResource_stamps:
  assumes "CreateResource n svc res opts s = (Ok p, t)"
  shows "res_CreatedBy p = res_CreatedBy res \<and> res_UpdatedBy p = res_CreatedBy res"
proof -
  from assms obtain res' act where e: "execAction n svc res' act (dry_run opts) s = (Ok p, t)"
    and act: "act_Name act = CreateAction" "act_UserID act = res_CreatedBy res"
    by (auto simp: CreateResource_def Let_def fail_def panicS_def overflowS_def Validate_def
        split: prod.splits result.splits if_splits)
  then show ?thesis
    using execAction_Ok [OF e] by (auto simp: isCreate_def)
qed

lemma resourceToProto_fields:
  "resourceToProto pb r = Ok msg \<Longrightarrow>
     pbr_Urn msg = res_URN r \<and> pbr_CreatedBy msg = res_CreatedBy r \<and> pbr_Labels msg = res_Labels r"
  by (auto simp: resourceToProto_def bindR_Ok)

lemma api_CreateResource_Ok:
  assumes "api_CreateResource pb rsv ctx q s = (Ok msg, t)"
  obtains res user p where "resourceFromProto pb (crq_Resource q) False = Ok res"
    and "GetUserIdentifier ctx = Ok user"
    and "rsv_CreateResource rsv (res\<lparr>res_CreatedBy := user, res_UpdatedBy := user\<rparr>)
           [WithDryRun (crq_DryRun q)] s = (Ok p, t)"
    and "resourceToProto pb p = Ok msg"
  using assms unfolding api_CreateResource_def by (auto simp: ret_def)

text \<open>What the API reports of a created resource is what the store holds.\<close>

lemma api_created_stored:
  fixes s t :: "'x world"
  assumes "registry_ok reg" and "\<forall>service c. int64Counter service c \<noteq> Overflow"
    and "db_inv s" and "w_res_seq s \<le> n" and "\<not> crq_DryRun q"
    and "api_CreateResource pb (core_ResourceService n (entropy st reg backoff maxRetries name int64Counter add)) ctx q s
      = (Ok msg, t)"
  shows "\<exists>p user. resourceToProto pb p = Ok msg \<and> GetUserIdentifier ctx = Ok user \<and>
    pbr_CreatedBy msg = user \<and> user \<noteq> [] \<and>
    (storable p \<longrightarrow> fst (GetByURN (pbr_Urn msg) (nf t)) = Ok (stored p))"
proof -
  from assms(6) obtain res user p where u: "GetUserIdentifier ctx = Ok user"
    and c: "CreateResource n (entropy st reg backoff maxRetries name int64Counter add)
              (res\<lparr>res_CreatedBy := user, res_UpdatedBy := user\<rparr>) [WithDryRun (crq_DryRun q)] s = (Ok p, t)"
    and m: "resourceToProto pb p = Ok msg"
    by (elim api_CreateResource_Ok) (simp add: core_ResourceService_def)
  have d: "\<not> dry_run [WithDryRun (crq_DryRun q)]"
    using assms(5) by (simp add: dry_run_def WithDryRun_def)
  show ?thesis
    using m u resourceToProto_fields [OF m] CreateResource_stamps [OF c] GetUserIdentifier_cases [of ctx]
      CreateResource_stored [OF assms(1-4) c d]
    by (intro exI [of _ p] exI [of _ user]) auto
qed

section \<open>Requests and reachability\<close>

lemma one_call_reachable:
  fixes s :: "'x world"
  assumes "registry_ok reg" and "\<forall>service c. int64Counter service c \<noteq> Overflow" and "\<forall>ts. pg_scanTags st ts \<noteq> Overflow"
    and "reachable (entropy st reg backoff maxRetries name int64Counter add) (pg_module_Service reg) n s"
    and "w_res_seq s \<le> n" and "m s = (r, t)"
    and "one_call (\<lambda>s c. run_call n (entropy st reg backoff maxRetries name int64Counter add) (pg_module_Service reg) c s) m"
  shows "reachable (entropy st reg backoff maxRetries name int64Counter add) (pg_module_Service reg) n t \<and> r \<noteq> Overflow"
proof -
  let ?svc = "entropy st reg backoff maxRetries name int64Counter add" and ?mr = "pg_module_Service reg"
  have svc: "pg_service reg int64Counter"
    using assms(1,2) by (intro pg_service.intro) auto
  have inv: "db_inv s"
    using pg_service.reachable_inv [OF svc assms(4)] assms(3) by blast
  have run: "fst (run_call n ?svc ?mr c s) \<noteq> Overflow" for c
    using pg_service.run_call_inv [OF svc inv assms(5)] assms(3) by blast
  from assms(6,7) consider "db_part t = db_part s" "r \<noteq> Overflow" |
      c where "db_part t = db_part (snd (run_call n ?svc ?mr c s))" "r = Overflow \<longrightarrow> fst (run_call n ?svc ?mr c s) = Overflow"
    unfolding one_call_def by (metis fst_conv snd_conv)
  then show ?thesis
    using run reachable.outside [OF assms(4)] reachable.outside [OF reachable.step [OF assms(4,5)]] by cases auto
qed

section \<open>Properties\<close>

text \<open>C34: the status of an error. \<open>ToRPCError\<close> maps every error to a status by its category, however often the
  error was wrapped: not found, conflict and invalid to NotFound, AlreadyExists and InvalidArgument,
  and everything else, foreign errors included, to Internal; the message is the text of the error of
  this category in the chain, or that of an internal error caused by the foreign one.\<close>

theorem ToRPCError_correct:
  "ToRPCError e = RpcStatus
     (if isNotFound e then code_NotFound else if isConflict e then code_AlreadyExists
      else if isInvalid e then code_InvalidArgument else code_Internal)
     (Error_Error (case As_Error e of Some err \<Rightarrow> err | None \<Rightarrow> WithCausef ErrInternal (error_text e)))"
  by (cases "As_Error e") (auto simp: ToRPCError_def E_def errors_Is_foreign errors_Is_As)

text \<open>A missing user is reported as an internal error. A create request without the user header is
  rejected before the service is called; the status built for it has the code InvalidArgument, but
  \<open>ToRPCError\<close> does not know status errors and the client gets Internal.\<close>

theorem missing_user_internal:
  assumes "resourceFromProto pb (crq_Resource q) False = Ok res" and "lookup md userIDHeader = None"
  shows "GetUserIdentifier (Some md) =
      Err (status_Errorf code_InvalidArgument (''missing '' @ sq userIDHeader @ '' header'')) \<and>
    (\<exists>msg. api_CreateResource pb rsv (Some md) q s = (Err (RpcStatus code_Internal msg), s))"
  using assms
  by (simp add: api_CreateResource_def GetUserIdentifier_def rpcS_Err liftR_def ToRPCError_plain
      status_Errorf_def rpcS_def catchS_def fail_def)

lemma dependencies_arranged:
  assumes "any_order pb" and "kvs = map (\<lambda>d. (pbd_Key d, pbd_Value d)) ds"
  shows "mset (map (\<lambda>(key, r). \<lparr>pbd_Key = key, pbd_Value = r\<rparr>) (pb_Range pb kvs)) = mset (ds :: pb_Dependency list)"
proof -
  have "mset (map (\<lambda>(key, r). \<lparr>pbd_Key = key, pbd_Value = r\<rparr>) (pb_Range pb kvs)) =
      mset (map (\<lambda>(key, r). \<lparr>pbd_Key = key, pbd_Value = r\<rparr>) kvs)"
    using assms(1) unfolding mset_map any_order_def by simp
  moreover have "map (\<lambda>(key, r). \<lparr>pbd_Key = key, pbd_Value = r\<rparr>) kvs = ds"
    unfolding assms(2) by (induction ds) simp_all
  ultimately show ?thesis by simp
qed

text \<open>C33: specs survive the API. When the conversions of \<open>structpb\<close> read back what they wrote, a spec that
  is accepted from a message is translated back to a message with the same configuration (one that is
  the null value comes back as an absent one) and with the same dependencies, each once, in whatever
  order the loop over the map of dependencies visits them.\<close>

theorem spec_proto_roundtrip:
  assumes "\<And>v r. pb_Marshal pb (Some v) = Ok r \<Longrightarrow> \<exists>j. r = raw_doc j \<and> pb_Unmarshal pb j = Ok v"
    and "any_order pb" and "resourceSpecFromProto pb (Some sp) = Ok spec" and "pbs_Configs sp = Some v"
  shows "wf_map (sp_Dependencies spec) \<and>
    (\<exists>j sp'. sp_Configs spec = raw_doc j \<and> resourceSpecToProto pb spec = Ok sp' \<and>
       pbs_Configs sp' = (if j = JNull then None else Some v) \<and>
       mset (pbs_Dependencies sp') = mset (pbs_Dependencies sp) \<and> distinct (map pbd_Key (pbs_Dependencies sp')))"
proof -
  from resourceSpecFromProto_Ok [OF assms(3)] have m: "pb_Marshal pb (Some v) = Ok (sp_Configs spec)"
    and d: "sp_Dependencies spec = Some (map (\<lambda>d. (pbd_Key d, pbd_Value d)) (pbs_Dependencies sp))"
    and w: "wf_map (sp_Dependencies spec)"
    unfolding assms(4) by blast+
  from assms(1) [OF m] obtain j where j: "sp_Configs spec = raw_doc j" "pb_Unmarshal pb j = Ok v" by blast
  let ?ds = "map (\<lambda>(key, r). \<lparr>pbd_Key = key, pbd_Value = r\<rparr>) (pb_Range pb (entries (sp_Dependencies spec)))"
  have to: "resourceSpecToProto pb spec =
      Ok \<lparr>pbs_Configs = (if j = JNull then None else Some v), pbs_Dependencies = ?ds\<rparr>"
    using j by (auto simp: resourceSpecToProto_def unmarshal_pointer_def bindR_def map_err_def comp_def raw_doc_def json_parse_def)
  have same: "mset ?ds = mset (pbs_Dependencies sp)"
    by (rule dependencies_arranged [OF assms(2)]) (simp add: d)
  have "mset (map pbd_Key ?ds) = mset (map pbd_Key (pbs_Dependencies sp))"
    using same by (metis mset_map)
  moreover have "distinct (map pbd_Key (pbs_Dependencies sp))"
    using w by (simp add: d wf_map_def comp_def)
  ultimately have "distinct (map pbd_Key ?ds)" by (metis mset_eq_imp_distinct_iff)
  with j w to same show ?thesis by auto
qed

text \<open>What a create request reports is what is stored. When \<open>CreateResource\<close> of the API succeeds, not as a
  dry run, the response is the translation of a resource that a later read of its URN gives back as
  the database holds it, and the resource is stamped with the user of the request's metadata.\<close>

theorem api_create_reports_stored:
  fixes s t :: "'x world"
  assumes "registry_ok reg" and "\<forall>service c. int64Counter service c \<noteq> Overflow"
    and "db_inv s" and "w_res_seq s \<le> n" and "\<not> crq_DryRun q"
    and "api_CreateResource pb (core_ResourceService n (entropy st reg backoff maxRetries name int64Counter add)) ctx q s
      = (Ok msg, t)"
  shows "\<exists>p user. resourceToProto pb p = Ok msg \<and> GetUserIdentifier ctx = Ok user \<and>
    pbr_CreatedBy msg = user \<and> user \<noteq> [] \<and>
    (storable p \<longrightarrow> fst (GetByURN (pbr_Urn msg) (nf t)) = Ok (stored p))"
  using api_created_stored [OF assms] .

end
