(* ===== verification/Go_Text.thy ===== *)
theory Go_Text
  imports Json
begin

text \<open>
  Text the dagger module produces with Go's standard library, on strings as byte lists: \<open>json.Marshal\<close>
  as text, the verb \<open>%q\<close>, \<open>base64.StdEncoding\<close>, the verb \<open>%04d\<close>, the value \<open>strconv.Atoi\<close> returns next to an
  error, and 64-bit addition. The table of printable code points above U+00FF is the parameter \<open>print\<close>.
\<close>

section \<open>UTF-8\<close>

definition byte_in :: "nat \<Rightarrow> nat \<Rightarrow> char \<Rightarrow> bool" where
  "byte_in lo hi c \<longleftrightarrow> lo \<le> code c \<and> code c \<le> hi"

definition RuneError :: nat where "RuneError = 0xFFFD"

text \<open>\<open>utf8.DecodeRuneInString\<close> on a non-empty string: the rune and its width; an invalid byte has width 1.\<close>

definition rune2 :: "char \<Rightarrow> char \<Rightarrow> nat" where
  "rune2 a b = (code a mod 32) * 64 + code b mod 64"

definition rune3 :: "char \<Rightarrow> char \<Rightarrow> char \<Rightarrow> nat" where
  "rune3 a b c = (code a mod 16) * 4096 + (code b mod 64) * 64 + code c mod 64"

definition rune4 :: "char \<Rightarrow> char \<Rightarrow> char \<Rightarrow> char \<Rightarrow> nat" where
  "rune4 a b c d = (code a mod 8) * 262144 + (code b mod 64) * 4096 + (code c mod 64) * 64 + code d mod 64"

definition DecodeRune :: "char \<Rightarrow> string \<Rightarrow> nat \<times> nat" where
  "DecodeRune a rest =
     (if code a < 0x80 then (code a, 1)
      else if byte_in 0xC2 0xDF a then
        (case rest of b # _ \<Rightarrow> if byte_in 0x80 0xBF b then (rune2 a b, 2) else (RuneError, 1) | [] \<Rightarrow> (RuneError, 1))
      else if byte_in 0xE0 0xEF a then
        (case rest of
           b # c # _ \<Rightarrow>
             if byte_in (if code a = 0xE0 then 0xA0 else 0x80) (if code a = 0xED then 0x9F else 0xBF) b \<and>
                byte_in 0x80 0xBF c
             then (rune3 a b c, 3) else (RuneError, 1)
         | _ \<Rightarrow> (RuneError, 1))
      else if byte_in 0xF0 0xF4 a then
        (case rest of
           b # c # d # _ \<Rightarrow>
             if byte_in (if code a = 0xF0 then 0x90 else 0x80) (if code a = 0xF4 then 0x8F else 0xBF) b \<and>
                byte_in 0x80 0xBF c \<and> byte_in 0x80 0xBF d
             then (rune4 a b c d, 4) else (RuneError, 1)
         | _ \<Rightarrow> (RuneError, 1))
      else (RuneError, 1))"

text \<open>A text rewritten rune by rune; \<open>f r w bytes\<close> is what a rune of the given width becomes.\<close>

function map_runes :: "(nat \<Rightarrow> nat \<Rightarrow> string \<Rightarrow> string) \<Rightarrow> string \<Rightarrow> string" where
  "map_runes f [] = []"
| "map_runes f (c # cs) =
     (let (r, w) = DecodeRune c cs in f r w (take w (c # cs)) @ map_runes f (drop (w - 1) cs))"
  by pat_completeness auto
termination
  by (relation "measure (\<lambda>(f, s). length s)") auto

section \<open>Escapes\<close>

definition hex_digit :: "nat \<Rightarrow> char" where
  "hex_digit n = (if n < 10 then char_of (48 + n) else char_of (87 + n))"

fun hex :: "nat \<Rightarrow> nat \<Rightarrow> string" where
  "hex 0 n = []"
| "hex (Suc k) n = hex k (n div 16) @ [hex_digit (n mod 16)]"

definition backslash :: char where "backslash = CHR 0x5C"
definition dquote :: char where "dquote = CHR 0x22"

text \<open>A string in a JSON text: quotes, controls, the characters of HTML and the line separators are escaped.\<close>

definition json_rune :: "nat \<Rightarrow> nat \<Rightarrow> string \<Rightarrow> string" where
  "json_rune r w bs =
     (if r = RuneError \<and> w = 1 then backslash # ''ufffd''
      else if r = 0x22 \<or> r = 0x5C then backslash # bs
      else if r = 0x08 then [backslash, CHR ''b'']
      else if r = 0x0C then [backslash, CHR ''f'']
      else if r = 0x0A then [backslash, CHR ''n'']
      else if r = 0x0D then [backslash, CHR ''r'']
      else if r = 0x09 then [backslash, CHR ''t'']
      else if r < 0x20 \<or> r = 0x3C \<or> r = 0x3E \<or> r = 0x26 \<or> r = 0x2028 \<or> r = 0x2029
      then backslash # CHR ''u'' # hex 4 r
      else bs)"

definition json_string :: "string \<Rightarrow> string" where
  "json_string s = dquote # map_runes json_rune s @ [dquote]"

fun json_text :: "json \<Rightarrow> string" where
  "json_text JNull = ''null''"
| "json_text (JBool b) = (if b then ''true'' else ''false'')"
| "json_text (JInt i) = show_int i"
| "json_text (JFloat f) = f"
| "json_text (JStr s) = json_string s"
| "json_text (JArr js) = ''['' @ join '','' (map json_text js) @ '']''"
| "json_text (JObj kvs) = ''{'' @ join '','' (map (\<lambda>(k, j). json_string k @ '':'' @ json_text j) kvs) @ ''}''"

text \<open>The verb \<open>%q\<close>, which is \<open>strconv.Quote\<close>.\<close>

definition IsPrint :: "(nat \<Rightarrow> bool) \<Rightarrow> nat \<Rightarrow> bool" where
  "IsPrint print r =
     (if r \<le> 0xFF then (0x20 \<le> r \<and> r < 0x7F) \<or> (0xA1 \<le> r \<and> r \<noteq> 0xAD) else print r)"

definition quote_rune :: "(nat \<Rightarrow> bool) \<Rightarrow> nat \<Rightarrow> nat \<Rightarrow> string \<Rightarrow> string" where
  "quote_rune print r w bs =
     (if r = RuneError \<and> w = 1 then backslash # CHR ''x'' # hex 2 (code (hd bs))
      else if r = 0x22 \<or> r = 0x5C then backslash # bs
      else if IsPrint print r then bs
      else if r = 0x07 then [backslash, CHR ''a'']
      else if r = 0x08 then [backslash, CHR ''b'']
      else if r = 0x0C then [backslash, CHR ''f'']
      else if r = 0x0A then [backslash, CHR ''n'']
      else if r = 0x0D then [backslash, CHR ''r'']
      else if r = 0x09 then [backslash, CHR ''t'']
      else if r = 0x0B then [backslash, CHR ''v'']
      else if r < 0x20 \<or> r = 0x7F then backslash # CHR ''x'' # hex 2 r
      else if r < 0x10000 then backslash # CHR ''u'' # hex 4 r
      else backslash # CHR ''U'' # hex 8 r)"

definition Quote :: "(nat \<Rightarrow> bool) \<Rightarrow> string \<Rightarrow> string" where
  "Quote print s = dquote # map_runes (quote_rune print) s @ [dquote]"

section \<open>Base 64\<close>

definition b64_char :: "nat \<Rightarrow> char" where
  "b64_char n =
     (if n < 26 then char_of (65 + n) else if n < 52 then char_of (71 + n) else if n < 62 then char_of (n - 4)
      else if n = 62 then CHR ''+'' else CHR 0x2F)"

fun EncodeToString :: "string \<Rightarrow> string" where
  "EncodeToString [] = []"
| "EncodeToString [a] =
     [b64_char (code a div 4), b64_char (code a mod 4 * 16), CHR ''='', CHR ''='']"
| "EncodeToString [a, b] =
     [b64_char (code a div 4), b64_char (code a mod 4 * 16 + code b div 16), b64_char (code b mod 16 * 4), CHR ''='']"
| "EncodeToString (a # b # c # rest) =
     b64_char (code a div 4) # b64_char (code a mod 4 * 16 + code b div 16) #
     b64_char (code b mod 16 * 4 + code c div 64) # b64_char (code c mod 64) # EncodeToString rest"

section \<open>Numbers\<close>

definition wrap64 :: "int \<Rightarrow> int" where
  "wrap64 i = (i + 2 ^ 63) mod 2 ^ 64 - 2 ^ 63"

text \<open>The verb \<open>%04d\<close>: zeros up to four places, the sign included.\<close>

definition zero_pad :: "nat \<Rightarrow> string \<Rightarrow> string" where
  "zero_pad n s = replicate (n - length s) (CHR ''0'') @ s"

definition show_04d :: "int \<Rightarrow> string" where
  "show_04d i = (if i < 0 then CHR ''-'' # zero_pad 3 (show_nat (nat (- i))) else zero_pad 4 (show_nat (nat i)))"

text \<open>
  The number \<open>strconv.Atoi\<close> returns, its error ignored: 0 for a text that is no number, the nearest
  64-bit value for one out of range.
\<close>

definition Atoi_value :: "string \<Rightarrow> int" where
  "Atoi_value s =
     (case Atoi s of
        Some i \<Rightarrow> i
      | None \<Rightarrow>
          (let (neg, ds) = (case s of [] \<Rightarrow> (False, []) | c # cs \<Rightarrow>
               if c = CHR ''-'' then (True, cs) else if c = CHR ''+'' then (False, cs) else (False, s))
           in case read_nat ds of
                None \<Rightarrow> 0
              | Some n \<Rightarrow> if neg then - int64_max - 1 else int64_max))"

section \<open>Reading base 64 back\<close>

text \<open>A reader of the encoding, as a receiver of the text has it.\<close>

definition b64_value :: "char \<Rightarrow> nat" where
  "b64_value c =
     (if byte_in 65 90 c then code c - 65 else if byte_in 97 122 c then code c - 71
      else if byte_in 48 57 c then code c + 4 else if c = CHR ''+'' then 62 else 63)"

fun b64_decode :: "string \<Rightarrow> string option" where
  "b64_decode [] = Some []"
| "b64_decode (w # x # y # z # rest) =
     (let hi = char_of (b64_value w * 4 + b64_value x div 16);
          mid = char_of (b64_value x mod 16 * 16 + b64_value y div 4);
          lo = char_of (b64_value y mod 4 * 64 + b64_value z)
      in if z = CHR ''='' then
           (if rest \<noteq> [] then None else if y = CHR ''='' then Some [hi] else Some [hi, mid])
         else map_option (\<lambda>s. hi # mid # lo # s) (b64_decode rest))"
| "b64_decode _ = None"

lemma b64_value_char: "n < 64 \<Longrightarrow> b64_value (b64_char n) = n"
  by (auto simp: b64_value_def b64_char_def byte_in_def)

lemma b64_char_pad: "n < 64 \<Longrightarrow> b64_char n \<noteq> CHR ''=''"
proof
  assume "n < 64" and "b64_char n = CHR ''=''"
  then have "code (b64_char n) = 61" by simp
  with \<open>n < 64\<close> show False by (auto simp: b64_char_def split: if_splits)
qed

lemmas b64_char_simps = b64_value_char b64_char_pad

lemma byte_parts:
  fixes a b c :: nat
  assumes "a < 256" "b < 256" "c < 256"
  shows "a div 4 < 64" "a mod 4 * 16 + b div 16 < 64" "b mod 16 * 4 + c div 64 < 64" "c mod 64 < 64"
    "a mod 4 * 16 < 64" "b mod 16 * 4 < 64"
    "(a mod 4 * 16 + b div 16) div 16 = a mod 4" "(a mod 4 * 16 + b div 16) mod 16 = b div 16"
    "(b mod 16 * 4 + c div 64) div 4 = b mod 16" "(b mod 16 * 4 + c div 64) mod 4 = c div 64"
    "b div 16 mod 16 = b div 16"
proof -
  have "b div 16 < 16" "c div 64 < 4" using assms by (simp_all add: less_mult_imp_div_less)
  moreover have "a mod 4 < 4" "b mod 16 < 16" by simp_all
  ultimately show "a mod 4 * 16 + b div 16 < 64" "b mod 16 * 4 + c div 64 < 64" "a mod 4 * 16 < 64" "b mod 16 * 4 < 64"
    "(a mod 4 * 16 + b div 16) div 16 = a mod 4" "(a mod 4 * 16 + b div 16) mod 16 = b div 16"
    "(b mod 16 * 4 + c div 64) div 4 = b mod 16" "(b mod 16 * 4 + c div 64) mod 4 = c div 64"
    "b div 16 mod 16 = b div 16"
    by simp_all
qed (use assms in \<open>simp_all add: less_mult_imp_div_less\<close>)

lemma b64_roundtrip: "b64_decode (EncodeToString s) = Some s"
proof (induction s rule: EncodeToString.induct)
  case (2 a)
  show ?case
    using byte_parts [of "code a" "code a" "code a"] by (simp add: b64_char_simps)
next
  case (3 a b)
  show ?case
    using byte_parts [of "code a" "code b" "code b"] by (simp add: b64_char_simps)
next
  case (4 a b c rest)
  then show ?case
    using byte_parts [of "code a" "code b" "code c"] by (simp add: b64_char_simps)
qed simp

end
