(* ===== verification/Api_Server.thy ===== *)
theory Api_Server
  imports Api_Reach Go_Text
begin

text \<open>
  What stands between a connection and the handlers. \<open>logwrapper.go\<close>: the resource server with its errors
  logged. \<open>middlewares.go\<close> and the routes of \<open>server.go\<close>: a request gets an id, its body is read and
  handed on, and what was written is logged. An HTTP handler is a computation from the request to the
  calls it makes on the response writer, in order, or a panic, which ends the connection; the gRPC
  gateway is such a handler, and \<open>xid.New\<close>, the logger and the clock are parameters.
\<close>

section \<open>The log wrapper\<close>

definition logged :: "(string \<Rightarrow> rpc_error \<Rightarrow> 's \<Rightarrow> 's) \<Rightarrow> string \<Rightarrow> ('s, 'a) rpc \<Rightarrow> ('s, 'a) rpc" where
  "logged logError msg m s = (case m s of (Err err, t) \<Rightarrow> (Err err, logError msg err t) | r \<Rightarrow> r)"

definition lw_ListResources ::
    "(string \<Rightarrow> rpc_error \<Rightarrow> 's \<Rightarrow> 's) \<Rightarrow> 'v structpb \<Rightarrow> 's ResourceService \<Rightarrow> ListResourcesRequest \<Rightarrow>
     ('s, 'v ListResourcesResponse) rpc" where
  "lw_ListResources logError pb rsv request = logged logError ''ListResources() failed'' (api_ListResources pb rsv request)"

definition lw_GetResource ::
    "(string \<Rightarrow> rpc_error \<Rightarrow> 's \<Rightarrow> 's) \<Rightarrow> 'v structpb \<Rightarrow> 's ResourceService \<Rightarrow> string \<Rightarrow> ('s, 'v pb_Resource) rpc" where
  "lw_GetResource logError pb rsv urn = logged logError ''GetResource() failed'' (api_GetResource pb rsv urn)"

definition lw_CreateResource ::
    "(string \<Rightarrow> rpc_error \<Rightarrow> 's \<Rightarrow> 's) \<Rightarrow> 'v structpb \<Rightarrow> 's ResourceService \<Rightarrow> metadata \<Rightarrow> 'v CreateResourceRequest \<Rightarrow>
     ('s, 'v pb_Resource) rpc" where
  "lw_CreateResource logError pb rsv ctx request =
     logged logError ''CreateResource() failed'' (api_CreateResource pb rsv ctx request)"

definition lw_UpdateResource ::
    "(string \<Rightarrow> rpc_error \<Rightarrow> 's \<Rightarrow> 's) \<Rightarrow> 'v structpb \<Rightarrow> 's ResourceService \<Rightarrow> metadata \<Rightarrow> 'v UpdateResourceRequest \<Rightarrow>
     ('s, 'v pb_Resource) rpc" where
  "lw_UpdateResource logError pb rsv ctx request =
     logged logError ''UpdateResource() failed'' (api_UpdateResource pb rsv ctx request)"

definition lw_DeleteResource ::
    "(string \<Rightarrow> rpc_error \<Rightarrow> 's \<Rightarrow> 's) \<Rightarrow> 's ResourceService \<Rightarrow> string \<Rightarrow> ('s, unit) rpc" where
  "lw_DeleteResource logError rsv urn = logged logError ''DeleteResource() failed'' (api_DeleteResource rsv urn)"

definition lw_ApplyAction ::
    "(string \<Rightarrow> rpc_error \<Rightarrow> 's \<Rightarrow> 's) \<Rightarrow> 'v structpb \<Rightarrow> 's ResourceService \<Rightarrow> metadata \<Rightarrow> 'v ApplyActionRequest \<Rightarrow>
     ('s, 'v pb_Resource) rpc" where
  "lw_ApplyAction logError pb rsv ctx request = logged logError ''ApplyAction() failed'' (api_ApplyAction pb rsv ctx request)"

definition lw_GetLog ::
    "(string \<Rightarrow> rpc_error \<Rightarrow> 's \<Rightarrow> 's) \<Rightarrow> 's ResourceService \<Rightarrow> ('s \<Rightarrow> bool) \<Rightarrow> (LogChunk \<Rightarrow> ('s, unit) go) \<Rightarrow> string \<Rightarrow>
     string gomap \<Rightarrow> ('s, unit) rpc" where
  "lw_GetLog logError rsv done send urn filt = logged logError ''GetLog() failed'' (api_GetLog rsv done send urn filt)"

definition lw_GetResourceRevisions ::
    "(string \<Rightarrow> rpc_error \<Rightarrow> 's \<Rightarrow> 's) \<Rightarrow> 'v structpb \<Rightarrow> 's ResourceService \<Rightarrow> string \<Rightarrow> ('s, 'v pb_Revision list) rpc" where
  "lw_GetResourceRevisions logError pb rsv urn =
     logged logError ''GetResourceRevisions() failed'' (api_GetResourceRevisions pb rsv urn)"

text \<open>Logging changes no result.\<close>

lemma logged_result [simp]: "fst (logged logError msg m s) = fst (m s)"
  by (simp add: logged_def split: prod.split result.split)

lemma logged_Ok [simp]: "logged logError msg m s = (Ok a, t) \<longleftrightarrow> m s = (Ok a, t)"
  by (simp add: logged_def split: prod.split result.split)

lemma logged_Err: "m s = (Err e, t) \<Longrightarrow> logged logError msg m s = (Err e, logError msg e t)"
  by (simp add: logged_def)

section \<open>Requests and responses\<close>

text \<open>The body of a request is what \<open>io.ReadAll\<close> gives of it.\<close>

record http_request =
  hq_Method :: string
  hq_Path :: string
  hq_RawQuery :: string
  hq_Header :: "string list gomap"
  hq_Body :: "gerror + raw"

text \<open>The calls on a response writer: setting a header, sending the status, sending bytes.\<close>

datatype write_op = SetHeader string string | WriteHeader int | Write string

type_synonym 's http_handler = "http_request \<Rightarrow> ('s, write_op list) go"

text \<open>
  What the client receives: headers set before the first of status and bytes are sent, the first status
  counts, bytes without a status send 200.
\<close>

record http_response =
  hr_Sent :: "int option"
  hr_Headers :: "(string \<times> string) list"
  hr_Bytes :: string

definition apply_op :: "http_response \<Rightarrow> write_op \<Rightarrow> http_response" where
  "apply_op w op =
     (case op of
        SetHeader k v \<Rightarrow> if hr_Sent w = None then w\<lparr>hr_Headers := put k v (hr_Headers w)\<rparr> else w
      | WriteHeader status \<Rightarrow> if hr_Sent w = None then w\<lparr>hr_Sent := Some status\<rparr> else w
      | Write bytes \<Rightarrow>
          w\<lparr>hr_Sent := (case hr_Sent w of None \<Rightarrow> Some 200 | c \<Rightarrow> c), hr_Bytes := hr_Bytes w @ bytes\<rparr>)"

definition respond :: "write_op list \<Rightarrow> http_response" where
  "respond ops =
     (let w = foldl apply_op \<lparr>hr_Sent = None, hr_Headers = [], hr_Bytes = []\<rparr> ops
      in w\<lparr>hr_Sent := (case hr_Sent w of None \<Rightarrow> Some 200 | c \<Rightarrow> c)\<rparr>)"

section \<open>Middleware\<close>

definition headerRequestID :: string where "headerRequestID = ''X-Request-Id''"

text \<open>\<open>wrappedWriter\<close> passes every call on and keeps the last status and the bytes.\<close>

record wrappedWriter =
  ww_Status :: int
  ww_ResponseBuffer :: string

definition wrapped_op :: "wrappedWriter \<Rightarrow> write_op \<Rightarrow> wrappedWriter" where
  "wrapped_op w op =
     (case op of
        SetHeader k v \<Rightarrow> w
      | WriteHeader statusCode \<Rightarrow> w\<lparr>ww_Status := statusCode\<rparr>
      | Write bytes \<Rightarrow> w\<lparr>ww_ResponseBuffer := ww_ResponseBuffer w @ bytes\<rparr>)"

definition requestID :: "('s \<Rightarrow> string \<times> 's) \<Rightarrow> 's http_handler \<Rightarrow> 's http_handler" where
  "requestID newID next req s =
     (let given = TrimSpace (header_Get (hq_Header req) headerRequestID);
          (rid, t) = (if given = [] then newID s else (given, s))
      in bindS (next (req\<lparr>hq_Header := Some (put headerRequestID [rid] (entries (hq_Header req)))\<rparr>))
           (\<lambda>ops. ret (SetHeader headerRequestID rid # ops)) t)"

text \<open>
  What is logged of a request, less its times, its trace and the client of its basic authentication; the
  body is a document, as compacting drops the white space.
\<close>

record log_line =
  ll_Method :: string
  ll_Status :: int
  ll_Path :: string
  ll_RequestID :: string
  ll_RequestBody :: "json option"
  ll_ResponseBody :: "string option"

datatype http_log =
    BodyUnreadable string
  | BodyNotCompact string
  | Handled log_line

definition handled_line :: "http_request \<Rightarrow> wrappedWriter \<Rightarrow> json option \<Rightarrow> log_line" where
  "handled_line req w body =
     \<lparr>ll_Method = hq_Method req, ll_Status = ww_Status w, ll_Path = hq_Path req,
      ll_RequestID = header_Get (hq_Header req) headerRequestID, ll_RequestBody = body,
      ll_ResponseBody = (if is2xx (ww_Status w) then None else Some (ww_ResponseBuffer w))\<rparr>"

text \<open>
  A panic of the handler is that of the connection and is not logged here. The handler gets the bytes
  that were read as its body.
\<close>

definition requestLogger :: "(http_log \<Rightarrow> 's \<Rightarrow> 's) \<Rightarrow> 's http_handler \<Rightarrow> 's http_handler" where
  "requestLogger write_log next req s =
     (case hq_Body req of
        Inr bodyBytes \<Rightarrow>
          bindS (next req) (\<lambda>ops t.
            let w = foldl wrapped_op \<lparr>ww_Status = 200, ww_ResponseBuffer = []\<rparr> ops
            in if hq_Path req = ''/ping'' then (Ok ops, t)
               else if raw_empty bodyBytes then (Ok ops, write_log (Handled (handled_line req w None)) t)
               else (case json_parse bodyBytes of
                       Ok j \<Rightarrow> (Ok ops, write_log (Handled (handled_line req w (Some j))) t)
                     | Err err \<Rightarrow>
                         (Ok ops, write_log (Handled (handled_line req w None)) (write_log (BodyNotCompact (error_text err)) t))
                     | Panic p \<Rightarrow> (Panic p, t)
                     | Overflow \<Rightarrow> (Overflow, t))) s
      | Inl err \<Rightarrow> (Ok [], write_log (BodyUnreadable (error_text err)) s))"

section \<open>Routes\<close>

definition grpcGatewayPrefix :: string where "grpcGatewayPrefix = ''/api''"

definition ping :: "'s http_handler" where
  "ping req = ret [Write ''pong'']"

text \<open>\<open>http.StripPrefix\<close> in front of the gateway.\<close>

definition strip_prefix :: "'s http_handler \<Rightarrow> 's http_handler" where
  "strip_prefix gateway req = gateway (req\<lparr>hq_Path := drop (length grpcGatewayPrefix) (hq_Path req)\<rparr>)"

text \<open>
  The router runs the middleware for the routes it has, in the order of its calls of \<open>Use\<close>; those of
  telemetry pass the request on. Any other path is not found. The model is for the paths that the library
  leaves as they are: it answers one that its cleaning changes (two slashes, dots) with a redirect to the
  clean path before it looks for a route.
\<close>

definition http_router ::
    "('s \<Rightarrow> string \<times> 's) \<Rightarrow> (http_log \<Rightarrow> 's \<Rightarrow> 's) \<Rightarrow> 's http_handler \<Rightarrow> 's http_handler \<Rightarrow> 's http_handler" where
  "http_router newID write_log notFound gateway req =
     (if HasPrefix (hq_Path req) (grpcGatewayPrefix @ ''/'') then
        requestID newID (requestLogger write_log (strip_prefix gateway)) req
      else if hq_Path req = ''/ping'' then requestID newID (requestLogger write_log ping) req
      else notFound req)"

section \<open>Lemmas\<close>

lemma bindS_fst: "fst (bindS m (\<lambda>a. ret (f a)) s) = map_result id f (fst (m s))"
  by (simp add: bindS_def catchS_def ret_def fail_def split: prod.split result.split)

lemma json_parse_returns: "json_parse r \<noteq> Panic p" "json_parse r \<noteq> Overflow"
  by (auto simp: json_parse_def split: option.split bytes.split list.split)

text \<open>The request log changes neither the response nor a panic.\<close>

lemma requestLogger_result:
  "hq_Body req = Inr body \<Longrightarrow> fst (requestLogger write_log next req s) = fst (next req s)"
  using json_parse_returns [of body]
  by (auto simp: requestLogger_def Let_def bindS_def catchS_def fail_def split: prod.split result.split)

section \<open>Properties\<close>

text \<open>C35: The middleware adds an id to a request and nothing else. Every request for the gateway has an id that is
  not empty, the client's own if it sent one; the gateway gets the request with this id, without the
  prefix and with the body as sent, and the client gets exactly what the gateway writes after the header
  with the id. A body that cannot be read is the exception: the gateway is not called and the client
  gets an empty response with status 200.\<close>

theorem http_middleware_transparent:
  assumes "HasPrefix (hq_Path req) (grpcGatewayPrefix @ ''/'')" and "\<forall>s. fst (newID s) \<noteq> []"
  shows "\<exists>rid t. rid \<noteq> [] \<and>
    (TrimSpace (header_Get (hq_Header req) headerRequestID) \<noteq> [] \<longrightarrow>
       rid = TrimSpace (header_Get (hq_Header req) headerRequestID) \<and> t = s) \<and>
    (\<forall>body. hq_Body req = Inr body \<longrightarrow>
       fst (http_router newID write_log notFound gateway req s) =
         map_result id (\<lambda>ops. SetHeader headerRequestID rid # ops)
           (fst (gateway (req\<lparr>hq_Header := Some (put headerRequestID [rid] (entries (hq_Header req))),
              hq_Path := drop (length grpcGatewayPrefix) (hq_Path req)\<rparr>) t))) \<and>
    (\<forall>e. hq_Body req = Inl e \<longrightarrow>
       (\<exists>ops. fst (http_router newID write_log notFound gateway req s) = Ok ops \<and>
         respond ops = \<lparr>hr_Sent = Some 200, hr_Headers = [(headerRequestID, rid)], hr_Bytes = []\<rparr>))"
proof -
  let ?given = "TrimSpace (header_Get (hq_Header req) headerRequestID)"
  obtain rid t where id: "(rid, t) = (if ?given = [] then newID s else (?given, s))"
    by (cases "if ?given = [] then newID s else (?given, s)") simp
  have ne: "rid \<noteq> []"
    using id assms(2) by (auto split: if_splits dest: sym) (metis fst_conv)
  let ?req = "req\<lparr>hq_Header := Some (put headerRequestID [rid] (entries (hq_Header req)))\<rparr>"
  have router: "fst (http_router newID write_log notFound gateway req s) =
      map_result id (\<lambda>ops. SetHeader headerRequestID rid # ops) (fst (requestLogger write_log (strip_prefix gateway) ?req t))"
    using assms(1) by (simp add: http_router_def requestID_def id [symmetric] bindS_fst)
  have "fst (requestLogger write_log (strip_prefix gateway) ?req t) = fst (strip_prefix gateway ?req t)"
    if "hq_Body req = Inr body" for body
    using that by (simp add: requestLogger_result)
  moreover have "fst (requestLogger write_log (strip_prefix gateway) ?req t) = Ok []" if "hq_Body req = Inl e" for e
    using that by (simp add: requestLogger_def)
  moreover have "respond [SetHeader headerRequestID rid] = \<lparr>hr_Sent = Some 200, hr_Headers = [(headerRequestID, rid)], hr_Bytes = []\<rparr>"
    by (simp add: respond_def apply_op_def put_def)
  moreover have "?given \<noteq> [] \<longrightarrow> rid = ?given \<and> t = s"
    using id by auto
  ultimately show ?thesis
    using ne by (intro exI [of _ rid] exI [of _ t]) (simp add: router strip_prefix_def)
qed

end
