(* ===== verification/Helm_Client.thy ===== *)
theory Helm_Client
  imports Kube_Client
begin

text \<open>
  \<open>pkg/helm\<close>: installing, upgrading and deleting releases. The calls into the Helm library are the
  operations of a record \<open>helm_API\<close> on the state \<open>'s\<close>; the configuration an action is made from is the
  connection \<open>helm_Context\<close> the code puts together.
\<close>

section \<open>Strings and durations\<close>

text \<open>\<open>strings.Contains\<close>.\<close>

fun contains :: "string \<Rightarrow> string \<Rightarrow> bool" where
  "contains [] p \<longleftrightarrow> p = []"
| "contains (c # cs) p \<longleftrightarrow> HasPrefix (c # cs) p \<or> contains cs p"

text \<open>\<open>time.Duration(n) * time.Second\<close> in 64 bits.\<close>

definition seconds :: "int \<Rightarrow> int" where
  "seconds n = (n * 1000000000 + 2 ^ 63) mod 2 ^ 64 - 2 ^ 63"

section \<open>Releases and the library\<close>

record ReleaseConfig =
  hr_Name :: string
  hr_Repository :: string
  hr_Chart :: string
  hr_Version :: string
  hr_Values :: "json gomap"
  hr_Namespace :: string
  hr_Timeout :: int
  hr_ForceUpdate :: bool
  hr_RecreatePods :: bool
  hr_Wait :: bool
  hr_WaitForJobs :: bool
  hr_Replace :: bool
  hr_Description :: string
  hr_CreateNamespace :: bool

record helm_Release =
  hrl_Name :: string
  hrl_Config :: "json gomap"

record helm_Result =
  hrs_Config :: ReleaseConfig
  hrs_Release :: helm_Release

record helm_Config =
  hcf_HelmDriver :: string
  hcf_Kubernetes :: kube_Config

record helm_Context =
  hx_Server :: string
  hx_Token :: string
  hx_ClientKeyData :: string
  hx_ClientCertificateData :: string
  hx_Insecure :: bool
  hx_CAData :: string
  hx_Namespace :: string
  hx_Driver :: string

record helm_Chart =
  hch_Path :: string
  hch_Type :: string

record ChartPathOptions =
  cpo_RepoURL :: string
  cpo_Version :: string

record helm_Install =
  hi_Wait :: bool
  hi_IncludeCRDs :: bool
  hi_SkipCRDs :: bool
  hi_Timeout :: int
  hi_Replace :: bool
  hi_OutputDir :: string
  hi_Namespace :: string
  hi_ClientOnly :: bool
  hi_Description :: string
  hi_WaitForJobs :: bool
  hi_ReleaseName :: string
  hi_GenerateName :: bool
  hi_NameTemplate :: string
  hi_CreateNamespace :: bool
  hi_ChartPathOptions :: ChartPathOptions
  hi_DryRun :: bool

record helm_Upgrade =
  hu_ChartPathOptions :: ChartPathOptions
  hu_DryRun :: bool
  hu_Wait :: bool
  hu_WaitForJobs :: bool
  hu_Timeout :: int
  hu_Namespace :: string
  hu_Description :: string
  hu_MaxHistory :: int

text \<open>
  \<open>hm_ServerURL\<close> is \<open>rest.DefaultServerURL\<close>, \<open>hm_Init\<close> the initialisation of an action configuration,
  \<open>hm_Locate\<close> \<open>LocateChart\<close>, \<open>hm_IsRequestURI\<close> tells whether \<open>url.ParseRequestURI\<close> accepts a text.
\<close>

record 's helm_API =
  hm_ServerURL :: "string \<Rightarrow> bool \<Rightarrow> string outcome"
  hm_Init :: "helm_Context \<Rightarrow> ('s, unit) go"
  hm_Get :: "helm_Context \<Rightarrow> string \<Rightarrow> ('s, helm_Release) go"
  hm_Locate :: "ChartPathOptions \<Rightarrow> string \<Rightarrow> ('s, string) go"
  hm_Load :: "string \<Rightarrow> ('s, helm_Chart) go"
  hm_Install :: "helm_Context \<Rightarrow> helm_Install \<Rightarrow> helm_Chart \<Rightarrow> json gomap \<Rightarrow> ('s, helm_Release) go"
  hm_Upgrade :: "helm_Context \<Rightarrow> helm_Upgrade \<Rightarrow> string \<Rightarrow> helm_Chart \<Rightarrow> json gomap \<Rightarrow> ('s, helm_Release) go"
  hm_Uninstall :: "helm_Context \<Rightarrow> string \<Rightarrow> ('s, unit) go"
  hm_IsRequestURI :: "string \<Rightarrow> bool"

section \<open>The client\<close>

definition typeApplication :: string where "typeApplication = ''application''"

definition ErrChartNotApplication :: gerror where
  "ErrChartNotApplication = PlainErr ''helm chart is not an application chart''"

definition getVersion :: "string \<Rightarrow> string" where
  "getVersion version = (if version = [] then ''>0.0.0-0'' else TrimSpace version)"

definition resolveChartName :: "'s helm_API \<Rightarrow> string \<Rightarrow> string \<Rightarrow> string \<times> string" where
  "resolveChartName hm repository name =
     (if hm_IsRequestURI hm repository then (repository, name)
      else if \<not> contains name ''/'' \<and> repository \<noteq> [] then ([], repository @ ''/'' @ name)
      else ([], name))"

definition isReleaseNotFoundErr :: "gerror \<Rightarrow> bool" where
  "isReleaseNotFoundErr err = contains (error_text err) ''release: not found''"

definition fetchRelease :: "'s helm_API \<Rightarrow> helm_Context \<Rightarrow> string \<Rightarrow> ('s, helm_Release) go" where
  "fetchRelease hm cfg name =
     catchS (hm_Get hm cfg name) ret
       (\<lambda>err. if isReleaseNotFoundErr err then fail (EErr (WithCausef ErrNotFound (error_text err)))
              else fail err)"

definition getActionConfiguration :: "'s helm_API \<Rightarrow> helm_Config \<Rightarrow> string \<Rightarrow> ('s, helm_Context) go" where
  "getActionConfiguration hm cfg namespace =
     (let k = hcf_Kubernetes cfg;
          hasCA = kcf_ClusterCACertificate k \<noteq> [];
          hasCert = kcf_ClientCertificate k \<noteq> [];
          defaultTLS = (hasCA \<or> hasCert \<or> kcf_Insecure k)
      in bindS (liftR (hm_ServerURL hm (kcf_Host k) defaultTLS)) (\<lambda>host.
         let actionConfig =
           \<lparr>hx_Server = host, hx_Token = kcf_Token k, hx_ClientKeyData = kcf_ClientKey k,
            hx_ClientCertificateData = kcf_ClientCertificate k, hx_Insecure = kcf_Insecure k,
            hx_CAData = kcf_ClusterCACertificate k, hx_Namespace = namespace, hx_Driver = hcf_HelmDriver cfg\<rparr>
         in bindS (hm_Init hm actionConfig) (\<lambda>_. ret actionConfig)))"

definition getChart :: "'s helm_API \<Rightarrow> ReleaseConfig \<Rightarrow> ('s, helm_Chart \<times> ChartPathOptions) go" where
  "getChart hm config =
     (let (repositoryURL, chartName) = resolveChartName hm (hr_Repository config) (TrimSpace (hr_Chart config));
          chartPathOpts = \<lparr>cpo_RepoURL = repositoryURL, cpo_Version = getVersion (hr_Version config)\<rparr>
      in bindS (hm_Locate hm chartPathOpts chartName) (\<lambda>path.
         bindS (hm_Load hm path) (\<lambda>fetchedChart.
         if hch_Type fetchedChart \<noteq> typeApplication then fail ErrChartNotApplication
         else ret (fetchedChart, chartPathOpts))))"

definition chart_error :: "gerror \<Rightarrow> gerror" where
  "chart_error err = EErr (WithCausef (WithMsgf ErrInternal ''error while getting chart'') (error_text err))"

definition doCreate :: "'s helm_API \<Rightarrow> helm_Context \<Rightarrow> ReleaseConfig \<Rightarrow> ('s, helm_Result) go" where
  "doCreate hm actionConfig config =
     catchS (getChart hm config)
       (\<lambda>(fetchedChart, chartPathOpts).
          let act =
            \<lparr>hi_Wait = True, hi_IncludeCRDs = True, hi_SkipCRDs = False, hi_Timeout = seconds (hr_Timeout config),
             hi_Replace = hr_Replace config, hi_OutputDir = [], hi_Namespace = hr_Namespace config,
             hi_ClientOnly = False, hi_Description = hr_Description config, hi_WaitForJobs = True,
             hi_ReleaseName = hr_Name config, hi_GenerateName = False, hi_NameTemplate = [],
             hi_CreateNamespace = hr_CreateNamespace config, hi_ChartPathOptions = chartPathOpts,
             hi_DryRun = False\<rparr>
          in catchS (hm_Install hm actionConfig act fetchedChart (hr_Values config))
               (\<lambda>rel. ret \<lparr>hrs_Config = config, hrs_Release = rel\<rparr>)
               (\<lambda>err. fail (EErr (WithCausef (WithMsgf ErrInternal ''create-release failed'') (error_text err)))))
       (\<lambda>err. fail (chart_error err))"

definition doUpdate ::
    "'s helm_API \<Rightarrow> helm_Config \<Rightarrow> helm_Context \<Rightarrow> ReleaseConfig \<Rightarrow> ('s, helm_Result) go" where
  "doUpdate hm cfg actionConfig config =
     catchS (getChart hm config)
       (\<lambda>(fetchedChart, chartPathOpts).
          let act =
            \<lparr>hu_ChartPathOptions = chartPathOpts, hu_DryRun = False, hu_Wait = hr_Wait config,
             hu_WaitForJobs = hr_WaitForJobs config, hu_Timeout = seconds (hr_Timeout config),
             hu_Namespace = hr_Namespace config, hu_Description = hr_Description config,
             hu_MaxHistory = hc_MaxHistory (kcf_HelmConfig (hcf_Kubernetes cfg))\<rparr>
          in catchS (hm_Upgrade hm actionConfig act (hr_Name config) fetchedChart (hr_Values config))
               (\<lambda>rel. ret \<lparr>hrs_Config = config, hrs_Release = rel\<rparr>)
               (\<lambda>err. if isReleaseNotFoundErr err then
                        fail (EErr (WithCausef (WithMsgf ErrNotFound ''update-release failed'')
                          ''release with given name not found''))
                      else fail (EErr (WithCausef (WithMsgf ErrInternal ''update-release failed'') (error_text err)))))
       (\<lambda>err. fail (chart_error err))"

definition action_error :: "gerror \<Rightarrow> gerror" where
  "action_error err = EErr (WithMsgf ErrInternal (''error while getting action configuration  : '' @ error_text err))"

definition Upsert ::
    "'s helm_API \<Rightarrow> helm_Config \<Rightarrow> ReleaseConfig \<Rightarrow> (helm_Release \<Rightarrow> bool) \<Rightarrow> ('s, helm_Result) go" where
  "Upsert hm cfg config canUpdateCheck =
     catchS (getActionConfiguration hm cfg (hr_Namespace config))
       (\<lambda>actionConfig.
          catchS (fetchRelease hm actionConfig (hr_Name config))
            (\<lambda>rel. if \<not> canUpdateCheck rel then
                     fail (EErr (WithMsgf ErrConflict ''release with same name exists, but update not possible''))
                   else doUpdate hm cfg actionConfig config)
            (\<lambda>err. if \<not> isNotFound err then
                     fail (EErr (WithCausef (WithMsgf ErrInternal ''failed to find release'') (error_text err)))
                   else doCreate hm actionConfig config))
       (\<lambda>err. fail (action_error err))"

definition helm_Delete :: "'s helm_API \<Rightarrow> helm_Config \<Rightarrow> ReleaseConfig \<Rightarrow> ('s, unit) go" where
  "helm_Delete hm cfg config =
     catchS (getActionConfiguration hm cfg (hr_Namespace config))
       (\<lambda>actionConfig.
          catchS (hm_Uninstall hm actionConfig (hr_Name config)) (\<lambda>_. ret ())
            (\<lambda>err. fail (EErr (WithMsgf ErrInternal (''unable to uninstall release '' @ error_text err)))))
       (\<lambda>err. fail (action_error err))"

end
