(* ===== verification/Firehose_Types.thy ===== *)
theory Firehose_Types
  imports Driver_Job Helm_Client
begin

text \<open>
  \<open>modules/firehose\<close>: the structs of the configuration, the driver configuration, the output and the
  transient data, and how they are read from and written as JSON. A \<open>time.Time\<close> field holds the
  instant with the text it prints as; \<open>pt\<close> is the parser of RFC 3339 texts. Numbers of floating-point
  type are kept as written, values of type \<open>any\<close> as documents.
\<close>

section \<open>Setters and encoders\<close>

definition set_ptr ::
    "(string \<times> 'b setter) list \<Rightarrow> 'b \<Rightarrow> ('r \<Rightarrow> 'b option) \<Rightarrow> (('b option \<Rightarrow> 'b option) \<Rightarrow> 'r \<Rightarrow> 'r) \<Rightarrow> 'r setter" where
  "set_ptr fs zero get upd j r =
     (if j = JNull then Some (upd (\<lambda>_. None) r)
      else case decode_obj fs j (case get r of None \<Rightarrow> zero | Some b \<Rightarrow> b) of
             Ok b \<Rightarrow> Some (upd (\<lambda>_. Some b) r) | _ \<Rightarrow> None)"

text \<open>A slice that tells nil from empty.\<close>

definition set_opt_strs :: "((string list option \<Rightarrow> string list option) \<Rightarrow> 'r \<Rightarrow> 'r) \<Rightarrow> 'r setter" where
  "set_opt_strs upd j r =
     (case j of
        JArr js \<Rightarrow> map_option (\<lambda>ss. upd (\<lambda>_. Some ss) r) (json_strs js)
      | JNull \<Rightarrow> Some (upd (\<lambda>_. None) r)
      | _ \<Rightarrow> None)"

definition set_opt_objs ::
    "(string \<times> 'b setter) list \<Rightarrow> 'b \<Rightarrow> ('r \<Rightarrow> 'b list option) \<Rightarrow>
     (('b list option \<Rightarrow> 'b list option) \<Rightarrow> 'r \<Rightarrow> 'r) \<Rightarrow> 'r setter" where
  "set_opt_objs fs zero get upd j r =
     (case j of
        JArr js \<Rightarrow> map_option (\<lambda>bs. upd (\<lambda>_. Some bs) r)
                     (decode_objs fs zero js (case get r of None \<Rightarrow> [] | Some bs \<Rightarrow> bs))
      | JNull \<Rightarrow> Some (upd (\<lambda>_. None) r)
      | _ \<Rightarrow> None)"

definition set_int_ptr :: "((int option \<Rightarrow> int option) \<Rightarrow> 'r \<Rightarrow> 'r) \<Rightarrow> 'r setter" where
  "set_int_ptr upd j r =
     (case j of
        JInt i \<Rightarrow> if - int64_max - 1 \<le> i \<and> i \<le> int64_max then Some (upd (\<lambda>_. Some i) r) else None
      | JNull \<Rightarrow> Some (upd (\<lambda>_. None) r)
      | _ \<Rightarrow> None)"

definition set_num_ptr :: "((json option \<Rightarrow> json option) \<Rightarrow> 'r \<Rightarrow> 'r) \<Rightarrow> 'r setter" where
  "set_num_ptr upd j r =
     (case j of
        JInt i \<Rightarrow> Some (upd (\<lambda>_. Some j) r) | JFloat f \<Rightarrow> Some (upd (\<lambda>_. Some j) r)
      | JNull \<Rightarrow> Some (upd (\<lambda>_. None) r) | _ \<Rightarrow> None)"

type_synonym rfc_time = "string \<times> time"

definition set_time ::
    "(string \<Rightarrow> rfc_time option) \<Rightarrow> ((rfc_time option \<Rightarrow> rfc_time option) \<Rightarrow> 'r \<Rightarrow> 'r) \<Rightarrow> 'r setter" where
  "set_time pt upd j r =
     (case j of
        JStr s \<Rightarrow> map_option (\<lambda>t. upd (\<lambda>_. Some t) r) (pt s)
      | JNull \<Rightarrow> Some (upd (\<lambda>_. None) r)
      | _ \<Rightarrow> None)"

definition omit_false :: "string \<Rightarrow> bool \<Rightarrow> (string \<times> json) list" where
  "omit_false k b = (if b then [(k, JBool True)] else [])"

definition omit_zero :: "string \<Rightarrow> int \<Rightarrow> (string \<times> json) list" where
  "omit_zero k i = (if i = 0 then [] else [(k, JInt i)])"

definition num_zero :: "json \<Rightarrow> bool" where
  "num_zero j =
     (case j of
        JInt i \<Rightarrow> i = 0
      | JFloat f \<Rightarrow> list_all (\<lambda>c. c = CHR ''0'' \<or> \<not> is_digit c)
                      (takeWhile (\<lambda>c. c \<noteq> CHR ''e'' \<and> c \<noteq> CHR ''E'') f)
      | _ \<Rightarrow> False)"

definition omit_num :: "string \<Rightarrow> json \<Rightarrow> (string \<times> json) list" where
  "omit_num k j = (if num_zero j then [] else [(k, j)])"

definition omit_nil :: "string \<Rightarrow> ('b \<Rightarrow> json) \<Rightarrow> 'b option \<Rightarrow> (string \<times> json) list" where
  "omit_nil k enc p = (case p of None \<Rightarrow> [] | Some b \<Rightarrow> [(k, enc b)])"

definition omit_empty_gomap :: "string \<Rightarrow> ('b \<Rightarrow> json) \<Rightarrow> 'b gomap \<Rightarrow> (string \<times> json) list" where
  "omit_empty_gomap k enc m = (if entries m = [] then [] else [(k, enc_map enc m)])"

definition enc_opt_list :: "('b \<Rightarrow> json) \<Rightarrow> 'b list option \<Rightarrow> json" where
  "enc_opt_list enc bs = (case bs of None \<Rightarrow> JNull | Some bs \<Rightarrow> JArr (map enc bs))"

section \<open>Keda\<close>

record AuthenticationRef =
  ar_Name :: string
  ar_Kind :: string

record Trigger =
  tr_Type :: string
  tr_Metadata :: "string gomap"
  tr_AuthenticationRef :: AuthenticationRef

record Fallback =
  fb_Behavior :: string
  fb_Replicas :: int
  fb_FailureThreshold :: int

record Policy =
  plc_Type :: string
  plc_Value :: json
  plc_PeriodSeconds :: int

record ScaleBehaviour =
  sb_Policies :: "Policy list"
  sb_StabilizationWindowSeconds :: "int option"
  sb_Tolerance :: "json option"

record HorizontalPodAutoscaler =
  hpa_ScaleDown :: ScaleBehaviour
  hpa_ScaleUp :: ScaleBehaviour

record Keda =
  kd_Paused :: bool
  kd_PausedWithReplica :: bool
  kd_PausedReplica :: int
  kd_MinReplicas :: int
  kd_MaxReplicas :: int
  kd_PollingInterval :: int
  kd_CooldownPeriod :: int
  kd_Triggers :: "Trigger gomap"
  kd_RestoreToOriginalReplica :: bool
  kd_Fallback :: "Fallback option"
  kd_HPA :: "HorizontalPodAutoscaler option"

definition zero_AuthenticationRef :: AuthenticationRef where
  "zero_AuthenticationRef = \<lparr>ar_Name = [], ar_Kind = []\<rparr>"

definition zero_Trigger :: Trigger where
  "zero_Trigger = \<lparr>tr_Type = [], tr_Metadata = None, tr_AuthenticationRef = zero_AuthenticationRef\<rparr>"

definition zero_Fallback :: Fallback where
  "zero_Fallback = \<lparr>fb_Behavior = [], fb_Replicas = 0, fb_FailureThreshold = 0\<rparr>"

definition zero_Policy :: Policy where
  "zero_Policy = \<lparr>plc_Type = [], plc_Value = JInt 0, plc_PeriodSeconds = 0\<rparr>"

definition zero_ScaleBehaviour :: ScaleBehaviour where
  "zero_ScaleBehaviour = \<lparr>sb_Policies = [], sb_StabilizationWindowSeconds = None, sb_Tolerance = None\<rparr>"

definition zero_HPA :: HorizontalPodAutoscaler where
  "zero_HPA = \<lparr>hpa_ScaleDown = zero_ScaleBehaviour, hpa_ScaleUp = zero_ScaleBehaviour\<rparr>"

definition zero_Keda :: Keda where
  "zero_Keda =
     \<lparr>kd_Paused = False, kd_PausedWithReplica = False, kd_PausedReplica = 0, kd_MinReplicas = 0, kd_MaxReplicas = 0,
      kd_PollingInterval = 0, kd_CooldownPeriod = 0, kd_Triggers = None, kd_RestoreToOriginalReplica = False,
      kd_Fallback = None, kd_HPA = None\<rparr>"

definition AuthenticationRef_fields :: "(string \<times> AuthenticationRef setter) list" where
  "AuthenticationRef_fields = [(''name'', set_str ar_Name_update), (''kind'', set_str ar_Kind_update)]"

definition Trigger_fields :: "(string \<times> Trigger setter) list" where
  "Trigger_fields =
     [(''type'', set_str tr_Type_update), (''metadata'', set_strmap tr_Metadata_update),
      (''authentication_ref'', set_obj AuthenticationRef_fields tr_AuthenticationRef tr_AuthenticationRef_update)]"

definition Fallback_fields :: "(string \<times> Fallback setter) list" where
  "Fallback_fields =
     [(''behavior'', set_str fb_Behavior_update), (''replicas'', set_int fb_Replicas_update),
      (''failure_threshold'', set_int fb_FailureThreshold_update)]"

definition Policy_fields :: "(string \<times> Policy setter) list" where
  "Policy_fields =
     [(''type'', set_str plc_Type_update), (''value'', set_num plc_Value_update),
      (''period_seconds'', set_int plc_PeriodSeconds_update)]"

definition ScaleBehaviour_fields :: "(string \<times> ScaleBehaviour setter) list" where
  "ScaleBehaviour_fields =
     [(''policies'', set_objs Policy_fields zero_Policy sb_Policies sb_Policies_update),
      (''stabilization_window_seconds'', set_int_ptr sb_StabilizationWindowSeconds_update),
      (''tolerance'', set_num_ptr sb_Tolerance_update)]"

definition HPA_fields :: "(string \<times> HorizontalPodAutoscaler setter) list" where
  "HPA_fields =
     [(''scale_down'', set_obj ScaleBehaviour_fields hpa_ScaleDown hpa_ScaleDown_update),
      (''scale_up'', set_obj ScaleBehaviour_fields hpa_ScaleUp hpa_ScaleUp_update)]"

definition Keda_fields :: "(string \<times> Keda setter) list" where
  "Keda_fields =
     [(''paused'', set_bool kd_Paused_update), (''paused_with_replica'', set_bool kd_PausedWithReplica_update),
      (''paused_replica'', set_int kd_PausedReplica_update), (''min_replicas'', set_int kd_MinReplicas_update),
      (''max_replicas'', set_int kd_MaxReplicas_update), (''polling_interval'', set_int kd_PollingInterval_update),
      (''cooldown_period'', set_int kd_CooldownPeriod_update),
      (''triggers'', set_map (dec_obj Trigger_fields zero_Trigger) kd_Triggers_update),
      (''restore_to_original_replica_count'', set_bool kd_RestoreToOriginalReplica_update),
      (''fallback'', set_ptr Fallback_fields zero_Fallback kd_Fallback kd_Fallback_update),
      (''hpa'', set_ptr HPA_fields zero_HPA kd_HPA kd_HPA_update)]"

definition AuthenticationRef_json :: "AuthenticationRef \<Rightarrow> json" where
  "AuthenticationRef_json a = JObj (omit_empty_str ''name'' (ar_Name a) @ omit_empty_str ''kind'' (ar_Kind a))"

definition Trigger_json :: "Trigger \<Rightarrow> json" where
  "Trigger_json t =
     JObj (omit_empty_str ''type'' (tr_Type t) @ omit_empty_map ''metadata'' (tr_Metadata t) @
           [(''authentication_ref'', AuthenticationRef_json (tr_AuthenticationRef t))])"

definition Fallback_json :: "Fallback \<Rightarrow> json" where
  "Fallback_json f =
     JObj (omit_empty_str ''behavior'' (fb_Behavior f) @ omit_zero ''replicas'' (fb_Replicas f) @
           omit_zero ''failure_threshold'' (fb_FailureThreshold f))"

definition Policy_json :: "Policy \<Rightarrow> json" where
  "Policy_json p =
     JObj (omit_empty_str ''type'' (plc_Type p) @ omit_num ''value'' (plc_Value p) @
           omit_zero ''period_seconds'' (plc_PeriodSeconds p))"

definition ScaleBehaviour_json :: "ScaleBehaviour \<Rightarrow> json" where
  "ScaleBehaviour_json s =
     JObj (omit_empty_list ''policies'' Policy_json (sb_Policies s) @
           omit_nil ''stabilization_window_seconds'' JInt (sb_StabilizationWindowSeconds s) @
           omit_nil ''tolerance'' (\<lambda>j. j) (sb_Tolerance s))"

definition HPA_json :: "HorizontalPodAutoscaler \<Rightarrow> json" where
  "HPA_json h = JObj [(''scale_down'', ScaleBehaviour_json (hpa_ScaleDown h)),
                      (''scale_up'', ScaleBehaviour_json (hpa_ScaleUp h))]"

definition Keda_json :: "Keda \<Rightarrow> json" where
  "Keda_json k =
     JObj (omit_false ''paused'' (kd_Paused k) @ omit_false ''paused_with_replica'' (kd_PausedWithReplica k) @
           omit_zero ''paused_replica'' (kd_PausedReplica k) @
           [(''min_replicas'', JInt (kd_MinReplicas k)), (''max_replicas'', JInt (kd_MaxReplicas k))] @
           omit_zero ''polling_interval'' (kd_PollingInterval k) @
           omit_zero ''cooldown_period'' (kd_CooldownPeriod k) @
           omit_empty_gomap ''triggers'' Trigger_json (kd_Triggers k) @
           omit_false ''restore_to_original_replica_count'' (kd_RestoreToOriginalReplica k) @
           omit_nil ''fallback'' Fallback_json (kd_Fallback k) @ omit_nil ''hpa'' HPA_json (kd_HPA k))"

section \<open>The autoscaler\<close>

definition KEDA :: string where "KEDA = ''keda''"

text \<open>
  The interface \<open>AutoscalerSpec\<close>: nil, or a pointer to a \<open>Keda\<close>, which may be nil itself.
\<close>

datatype AutoscalerSpec = NoSpec | KedaSpec "Keda option"

record Autoscaler =
  as_Enabled :: bool
  as_Type :: string
  as_Spec :: AutoscalerSpec

definition zero_Autoscaler :: Autoscaler where
  "zero_Autoscaler = \<lparr>as_Enabled = False, as_Type = [], as_Spec = NoSpec\<rparr>"

text \<open>\<open>UnmarshalJSON\<close>: the embedded struct with the member \<open>spec\<close> taken raw, then the spec by the type.\<close>

definition Autoscaler_temp_fields :: "(string \<times> (Autoscaler \<times> raw) setter) list" where
  "Autoscaler_temp_fields =
     [(''spec'', set_raw (\<lambda>f (a, r). (a, f r))),
      (''enabled'', set_bool (\<lambda>f (a, r). (as_Enabled_update f a, r))),
      (''type'', set_str (\<lambda>f (a, r). (as_Type_update f a, r)))]"

definition Autoscaler_Unmarshal :: "json \<Rightarrow> Autoscaler \<Rightarrow> Autoscaler outcome" where
  "Autoscaler_Unmarshal j a0 =
     (case decode_obj Autoscaler_temp_fields j (a0, None) of
        Err err \<Rightarrow> Err (EErr (WithCausef (WithMsgf ErrInvalid ''invalid autoscaler config'') (error_text err)))
      | Panic p \<Rightarrow> Panic p
      | Overflow \<Rightarrow> Overflow
      | Ok (a, spec) \<Rightarrow>
          if as_Type a = KEDA then
            if json_parse spec = Ok JNull then Ok (a\<lparr>as_Spec := KedaSpec None\<rparr>)
            else (case Unmarshal Keda_fields spec zero_Keda of
                    Ok k \<Rightarrow> Ok (a\<lparr>as_Spec := KedaSpec (Some k)\<rparr>)
                  | Err err \<Rightarrow> Err (EErr (WithCausef (WithMsgf ErrInvalid ''invalid keda config'') (error_text err)))
                  | Panic p \<Rightarrow> Panic p
                  | Overflow \<Rightarrow> Overflow)
          else Err (invalid (''unsupported autoscaler type: '' @ as_Type a)))"

definition Autoscaler_json :: "Autoscaler \<Rightarrow> json" where
  "Autoscaler_json a =
     JObj ([(''enabled'', JBool (as_Enabled a))] @ omit_empty_str ''type'' (as_Type a) @
           (case as_Spec a of NoSpec \<Rightarrow> [] | KedaSpec None \<Rightarrow> [(''spec'', JNull)]
            | KedaSpec (Some k) \<Rightarrow> [(''spec'', Keda_json k)]))"

end
