(* ===== verification/Firehose_Config.thy ===== *)
theory Firehose_Config
  imports Firehose_Types
begin

text \<open>
  \<open>modules/firehose/config.go\<close>, the configuration types of \<open>driver.go\<close> and \<open>autoscaler.go\<close>, and the
  operations of a Keda spec that do not render it (\<open>keda.go\<close>). \<open>readConfig\<close> completes a configuration
  with the values of the module's.
\<close>

section \<open>Configuration\<close>

definition confSinkType :: string where "confSinkType = ''SINK_TYPE''"
definition confKeyConsumerID :: string where "confKeyConsumerID = ''SOURCE_KAFKA_CONSUMER_GROUP_ID''"
definition confKeyKafkaBrokers :: string where "confKeyKafkaBrokers = ''SOURCE_KAFKA_BROKERS''"
definition confKeyKafkaTopic :: string where "confKeyKafkaTopic = ''SOURCE_KAFKA_TOPIC''"

definition helmReleaseNameMaxLength :: nat where "helmReleaseNameMaxLength = 53"

definition fh_defaultKey :: string where "fh_defaultKey = ''default''"

type_synonym fh_UsageSpec = UsageSpec
type_synonym fh_RequestsAndLimits = RequestsAndLimits

record ScaleParams =
  scp_Replicas :: int

record StartParams =
  stp_StopTime :: "rfc_time option"

record TelegrafConf =
  tc_Output :: "json gomap"
  tc_AdditionalGlobalTags :: "string gomap"

record Telegraf =
  tg_Enabled :: bool
  tg_Image :: "json gomap"
  tg_Config :: TelegrafConf

record ChartValues =
  cv_ImageRepository :: string
  cv_ImageTag :: string
  cv_ChartVersion :: string
  cv_PullPolicy :: string

record InitContainer =
  ic_Enabled :: bool
  ic_Args :: "string list option"
  ic_Command :: "string list option"
  ic_Repository :: string
  ic_ImageTag :: string
  ic_PullPolicy :: string

record fh_Config =
  fc_Stopped :: bool
  fc_StopTime :: "rfc_time option"
  fc_Replicas :: int
  fc_Namespace :: string
  fc_DeploymentID :: string
  fc_EnvVariables :: "string gomap"
  fc_ResetOffset :: string
  fc_Limits :: UsageSpec
  fc_Requests :: UsageSpec
  fc_Telegraf :: "Telegraf option"
  fc_ChartValues :: "ChartValues option"
  fc_InitContainer :: InitContainer
  fc_Autoscaler :: "Autoscaler option"

record fh_driverConf =
  fd_Labels :: "string gomap"
  fd_Telegraf :: "Telegraf option"
  fd_Namespace :: "string gomap"
  fd_ChartValues :: ChartValues
  fd_Tolerations :: "Toleration gomap"
  fd_EnvVariables :: "string gomap"
  fd_InitContainer :: InitContainer
  fd_GCSSinkCredential :: string
  fd_DLQGCSSinkCredential :: string
  fd_BigQuerySinkCredential :: string
  fd_RequestsAndLimits :: "RequestsAndLimits gomap"
  fd_AffinityRequired :: "Preference list option"
  fd_AffinityPreferred :: "WeightedPreference list option"
  fd_OffsetResetDelaySeconds :: int
  fd_KubeDeployTimeout :: int
  fd_AutoscalerKeda :: "Keda gomap"

text \<open>
  The nested structs \<open>NodeAffinityMatchExpressions\<close> and \<open>FirehoseAutoscaler\<close> are flattened into
  \<open>fd_AffinityRequired\<close>, \<open>fd_AffinityPreferred\<close> and \<open>fd_AutoscalerKeda\<close>.
\<close>

definition zero_TelegrafConf :: TelegrafConf where
  "zero_TelegrafConf = \<lparr>tc_Output = None, tc_AdditionalGlobalTags = None\<rparr>"

definition zero_Telegraf :: Telegraf where
  "zero_Telegraf = \<lparr>tg_Enabled = False, tg_Image = None, tg_Config = zero_TelegrafConf\<rparr>"

definition zero_ChartValues :: ChartValues where
  "zero_ChartValues = \<lparr>cv_ImageRepository = [], cv_ImageTag = [], cv_ChartVersion = [], cv_PullPolicy = []\<rparr>"

definition zero_InitContainer :: InitContainer where
  "zero_InitContainer = \<lparr>ic_Enabled = False, ic_Args = None, ic_Command = None, ic_Repository = [], ic_ImageTag = [],
     ic_PullPolicy = []\<rparr>"

definition zero_fh_Config :: fh_Config where
  "zero_fh_Config =
     \<lparr>fc_Stopped = False, fc_StopTime = None, fc_Replicas = 0, fc_Namespace = [], fc_DeploymentID = [],
      fc_EnvVariables = None, fc_ResetOffset = [], fc_Limits = zero_UsageSpec, fc_Requests = zero_UsageSpec,
      fc_Telegraf = None, fc_ChartValues = None, fc_InitContainer = zero_InitContainer, fc_Autoscaler = None\<rparr>"

section \<open>Configuration as JSON\<close>

definition ScaleParams_fields :: "(string \<times> ScaleParams setter) list" where
  "ScaleParams_fields = [(''replicas'', set_int scp_Replicas_update)]"

definition StartParams_fields :: "(string \<Rightarrow> rfc_time option) \<Rightarrow> (string \<times> StartParams setter) list" where
  "StartParams_fields pt = [(''stop_time'', set_time pt stp_StopTime_update)]"

definition TelegrafConf_fields :: "(string \<times> TelegrafConf setter) list" where
  "TelegrafConf_fields =
     [(''output'', set_map Some tc_Output_update),
      (''additional_global_tags'', set_strmap tc_AdditionalGlobalTags_update)]"

definition Telegraf_fields :: "(string \<times> Telegraf setter) list" where
  "Telegraf_fields =
     [(''enabled'', set_bool tg_Enabled_update), (''image'', set_map Some tg_Image_update),
      (''config'', set_obj TelegrafConf_fields tg_Config tg_Config_update)]"

definition ChartValues_fields :: "(string \<times> ChartValues setter) list" where
  "ChartValues_fields =
     [(''image_repository'', set_str cv_ImageRepository_update), (''image_tag'', set_str cv_ImageTag_update),
      (''chart_version'', set_str cv_ChartVersion_update), (''image_pull_policy'', set_str cv_PullPolicy_update)]"

definition InitContainer_fields :: "(string \<times> InitContainer setter) list" where
  "InitContainer_fields =
     [(''enabled'', set_bool ic_Enabled_update), (''args'', set_opt_strs ic_Args_update),
      (''command'', set_opt_strs ic_Command_update), (''repository'', set_str ic_Repository_update),
      (''image_tag'', set_str ic_ImageTag_update), (''pull_policy'', set_str ic_PullPolicy_update)]"

definition set_autoscaler :: "fh_Config setter" where
  "set_autoscaler j r =
     (if j = JNull then Some (r\<lparr>fc_Autoscaler := None\<rparr>)
      else case Autoscaler_Unmarshal j (case fc_Autoscaler r of None \<Rightarrow> zero_Autoscaler | Some a \<Rightarrow> a) of
             Ok a \<Rightarrow> Some (r\<lparr>fc_Autoscaler := Some a\<rparr>) | _ \<Rightarrow> None)"

definition fh_Config_fields :: "(string \<Rightarrow> rfc_time option) \<Rightarrow> (string \<times> fh_Config setter) list" where
  "fh_Config_fields pt =
     [(''stopped'', set_bool fc_Stopped_update), (''stop_time'', set_time pt fc_StopTime_update),
      (''replicas'', set_int fc_Replicas_update), (''namespace'', set_str fc_Namespace_update),
      (''deployment_id'', set_str fc_DeploymentID_update), (''env_variables'', set_strmap fc_EnvVariables_update),
      (''reset_offset'', set_str fc_ResetOffset_update),
      (''limits'', set_obj UsageSpec_fields fc_Limits fc_Limits_update),
      (''requests'', set_obj UsageSpec_fields fc_Requests fc_Requests_update),
      (''telegraf'', set_ptr Telegraf_fields zero_Telegraf fc_Telegraf fc_Telegraf_update),
      (''chart_values'', set_ptr ChartValues_fields zero_ChartValues fc_ChartValues fc_ChartValues_update),
      (''init_container'', set_obj InitContainer_fields fc_InitContainer fc_InitContainer_update),
      (''autoscaler'', set_autoscaler)]"

definition TelegrafConf_json :: "TelegrafConf \<Rightarrow> json" where
  "TelegrafConf_json t =
     JObj [(''output'', enc_map (\<lambda>j. j) (tc_Output t)),
           (''additional_global_tags'', enc_strmap (tc_AdditionalGlobalTags t))]"

definition Telegraf_json :: "Telegraf \<Rightarrow> json" where
  "Telegraf_json t =
     JObj (omit_false ''enabled'' (tg_Enabled t) @ omit_empty_gomap ''image'' (\<lambda>j. j) (tg_Image t) @
           [(''config'', TelegrafConf_json (tg_Config t))])"

definition ChartValues_json :: "ChartValues \<Rightarrow> json" where
  "ChartValues_json c =
     JObj [(''image_repository'', JStr (cv_ImageRepository c)), (''image_tag'', JStr (cv_ImageTag c)),
           (''chart_version'', JStr (cv_ChartVersion c)), (''image_pull_policy'', JStr (cv_PullPolicy c))]"

definition InitContainer_json :: "InitContainer \<Rightarrow> json" where
  "InitContainer_json i =
     JObj [(''enabled'', JBool (ic_Enabled i)), (''args'', enc_opt_list JStr (ic_Args i)),
           (''command'', enc_opt_list JStr (ic_Command i)), (''repository'', JStr (ic_Repository i)),
           (''image_tag'', JStr (ic_ImageTag i)), (''pull_policy'', JStr (ic_PullPolicy i))]"

definition fh_Config_json :: "fh_Config \<Rightarrow> json" where
  "fh_Config_json c =
     JObj ([(''stopped'', JBool (fc_Stopped c))] @
       omit_nil ''stop_time'' (\<lambda>t. JStr (fst t)) (fc_StopTime c) @
       [(''replicas'', JInt (fc_Replicas c))] @
       omit_empty_str ''namespace'' (fc_Namespace c) @
       omit_empty_str ''deployment_id'' (fc_DeploymentID c) @
       omit_empty_map ''env_variables'' (fc_EnvVariables c) @
       omit_empty_str ''reset_offset'' (fc_ResetOffset c) @
       [(''limits'', UsageSpec_json (fc_Limits c)), (''requests'', UsageSpec_json (fc_Requests c))] @
       omit_nil ''telegraf'' Telegraf_json (fc_Telegraf c) @
       omit_nil ''chart_values'' ChartValues_json (fc_ChartValues c) @
       [(''init_container'', InitContainer_json (fc_InitContainer c))] @
       omit_nil ''autoscaler'' Autoscaler_json (fc_Autoscaler c))"

section \<open>Driver configuration as JSON\<close>

text \<open>The flattened struct members are decoded by fields of their own.\<close>

definition Affinity_member_fields :: "(string \<times> fh_driverConf setter) list" where
  "Affinity_member_fields =
     [(''requiredDuringSchedulingIgnoredDuringExecution'',
        set_opt_objs Preference_fields zero_Preference fd_AffinityRequired fd_AffinityRequired_update),
      (''preferredDuringSchedulingIgnoredDuringExecution'',
        set_opt_objs WeightedPreference_fields zero_WeightedPreference fd_AffinityPreferred fd_AffinityPreferred_update)]"

definition Autoscaler_member_fields :: "(string \<times> fh_driverConf setter) list" where
  "Autoscaler_member_fields = [(''keda'', set_map (dec_obj Keda_fields zero_Keda) fd_AutoscalerKeda_update)]"

definition set_members :: "(string \<times> 'r setter) list \<Rightarrow> 'r setter" where
  "set_members fs j r = (case decode_obj fs j r of Ok r' \<Rightarrow> Some r' | _ \<Rightarrow> None)"

definition fh_driverConf_fields :: "(string \<times> fh_driverConf setter) list" where
  "fh_driverConf_fields =
     [(''labels'', set_strmap fd_Labels_update),
      (''telegraf'', set_ptr Telegraf_fields zero_Telegraf fd_Telegraf fd_Telegraf_update),
      (''namespace'', set_strmap fd_Namespace_update),
      (''chart_values'', set_obj ChartValues_fields fd_ChartValues fd_ChartValues_update),
      (''tolerations'', set_map (dec_obj Toleration_fields zero_Toleration) fd_Tolerations_update),
      (''env_variables'', set_strmap fd_EnvVariables_update),
      (''init_container'', set_obj InitContainer_fields fd_InitContainer fd_InitContainer_update),
      (''gcs_sink_credential'', set_str fd_GCSSinkCredential_update),
      (''dlq_gcs_sink_credential'', set_str fd_DLQGCSSinkCredential_update),
      (''big_query_sink_credential'', set_str fd_BigQuerySinkCredential_update),
      (''requests_and_limits'', set_map (dec_obj RequestsAndLimits_fields zero_RequestsAndLimits) fd_RequestsAndLimits_update),
      (''node_affinity_match_expressions'', set_members Affinity_member_fields),
      (''offset_reset_delay_seconds'', set_int fd_OffsetResetDelaySeconds_update),
      (''kube_deploy_timeout_seconds'', set_int fd_KubeDeployTimeout_update),
      (''autoscaler'', set_members Autoscaler_member_fields)]"

section \<open>Keda\<close>

definition KAFKA :: string where "KAFKA = ''kafka''"
definition KedaKafkaMetadataBootstrapServersKey :: string where
  "KedaKafkaMetadataBootstrapServersKey = ''bootstrapServers''"
definition KedaKafkaMetadataTopicKey :: string where "KedaKafkaMetadataTopicKey = ''topic''"
definition KedaKafkaMetadataConsumerGroupKey :: string where "KedaKafkaMetadataConsumerGroupKey = ''consumerGroup''"

definition nil_map_panic :: string where "nil_map_panic = ''assignment to entry in nil map''"

text \<open>\<open>m[k] = cfg[c]\<close> when \<open>c\<close> is set in \<open>cfg\<close>.\<close>

definition copy_key :: "string gomap \<Rightarrow> string \<Rightarrow> string \<Rightarrow> string gomap \<Rightarrow> string gomap outcome" where
  "copy_key cfg c k m =
     (case lookup cfg c of
        None \<Rightarrow> Ok m
      | Some v \<Rightarrow> (case m of None \<Rightarrow> Panic nil_map_panic | Some kvs \<Rightarrow> Ok (Some (put k v kvs))))"

definition update_trigger :: "string gomap \<Rightarrow> Trigger \<Rightarrow> Trigger outcome" where
  "update_trigger cfg t =
     (if tr_Type t \<noteq> KAFKA then Ok t
      else case copy_key cfg confKeyConsumerID KedaKafkaMetadataConsumerGroupKey (tr_Metadata t) of
             Ok m1 \<Rightarrow>
               (case copy_key cfg confKeyKafkaTopic KedaKafkaMetadataTopicKey m1 of
                  Ok m2 \<Rightarrow>
                    (case copy_key cfg confKeyKafkaBrokers KedaKafkaMetadataBootstrapServersKey m2 of
                       Ok m3 \<Rightarrow> Ok (t\<lparr>tr_Metadata := m3\<rparr>)
                     | Err e \<Rightarrow> Err e | Panic p \<Rightarrow> Panic p | Overflow \<Rightarrow> Overflow)
                | Err e \<Rightarrow> Err e | Panic p \<Rightarrow> Panic p | Overflow \<Rightarrow> Overflow)
           | Err e \<Rightarrow> Err e | Panic p \<Rightarrow> Panic p | Overflow \<Rightarrow> Overflow)"

fun update_triggers :: "string gomap \<Rightarrow> (string \<times> Trigger) list \<Rightarrow> (string \<times> Trigger) list outcome" where
  "update_triggers cfg [] = Ok []"
| "update_triggers cfg ((k, t) # ts) =
     (case update_trigger cfg t of
        Ok t' \<Rightarrow>
          (case update_triggers cfg ts of
             Ok ts' \<Rightarrow> Ok ((k, t') # ts')
           | Err e \<Rightarrow> Err e | Panic p \<Rightarrow> Panic p | Overflow \<Rightarrow> Overflow)
      | Err e \<Rightarrow> Err e | Panic p \<Rightarrow> Panic p | Overflow \<Rightarrow> Overflow)"

definition updateTriggersMetadata :: "string gomap \<Rightarrow> Keda \<Rightarrow> Keda outcome" where
  "updateTriggersMetadata cfg k =
     (case kd_Triggers k of
        None \<Rightarrow> Ok k
      | Some ts \<Rightarrow>
          (case update_triggers cfg ts of
             Ok ts' \<Rightarrow> Ok (k\<lparr>kd_Triggers := Some ts'\<rparr>)
           | Err e \<Rightarrow> Err e | Panic p \<Rightarrow> Panic p | Overflow \<Rightarrow> Overflow))"

text \<open>\<open>deepCopyTriggers\<close>: the copies have a metadata map of their own, never nil.\<close>

definition deepCopyTriggers :: "Trigger gomap \<Rightarrow> (string \<times> Trigger) list" where
  "deepCopyTriggers src = map (\<lambda>(k, v). (k, v\<lparr>tr_Metadata := Some (entries (tr_Metadata v))\<rparr>)) (entries src)"

text \<open>The body of the loop that merges a trigger of the configuration into the module's.\<close>

definition merge_trigger :: "string \<times> Trigger \<Rightarrow> (string \<times> Trigger) list \<Rightarrow> (string \<times> Trigger) list" where
  "merge_trigger kt merged =
     (let (key, trigger) = kt
      in case map_of merged key of
           None \<Rightarrow> put key trigger merged
         | Some existing \<Rightarrow>
             put key
               \<lparr>tr_Type = (if tr_Type trigger \<noteq> [] then tr_Type trigger else tr_Type existing),
                tr_Metadata = Some (put_all (entries (tr_Metadata trigger)) (entries (tr_Metadata existing))),
                tr_AuthenticationRef =
                  (if ar_Name (tr_AuthenticationRef trigger) \<noteq> [] then tr_AuthenticationRef trigger
                   else tr_AuthenticationRef existing)\<rparr> merged)"

definition Keda_ReadConfig :: "fh_Config \<Rightarrow> fh_driverConf \<Rightarrow> Keda \<Rightarrow> Keda outcome" where
  "Keda_ReadConfig cfg driverCfg k =
     (let base = (case lookup (fd_AutoscalerKeda driverCfg) (get_str (fc_EnvVariables cfg) confSinkType) of
                    Some c \<Rightarrow> c
                  | None \<Rightarrow> (case lookup (fd_AutoscalerKeda driverCfg) fh_defaultKey of
                               Some c \<Rightarrow> c | None \<Rightarrow> zero_Keda));
          merged = fold merge_trigger (entries (kd_Triggers k)) (deepCopyTriggers (kd_Triggers base))
      in case updateTriggersMetadata (fc_EnvVariables cfg) (base\<lparr>kd_Triggers := Some merged\<rparr>) of
           Ok c \<Rightarrow>
             Ok (c\<lparr>kd_MinReplicas := kd_MinReplicas k, kd_MaxReplicas := kd_MaxReplicas k,
                   kd_Fallback := (case kd_Fallback k of
                                     Some f \<Rightarrow> if fb_Behavior f \<noteq> [] then Some f else kd_Fallback c
                                   | None \<Rightarrow> kd_Fallback c),
                   kd_HPA := (if kd_HPA k \<noteq> None then kd_HPA k else kd_HPA c),
                   kd_Paused := kd_Paused k, kd_PausedWithReplica := kd_PausedWithReplica k,
                   kd_PausedReplica := kd_PausedReplica k\<rparr>)
         | r \<Rightarrow> r)"

text \<open>\<open>Pause(replica)\<close>, as it is called, and \<open>Resume\<close>.\<close>

definition Keda_Pause :: "int list \<Rightarrow> Keda \<Rightarrow> Keda" where
  "Keda_Pause replica k =
     (case replica of
        [] \<Rightarrow> k\<lparr>kd_Paused := True\<rparr>
      | r # _ \<Rightarrow> k\<lparr>kd_PausedWithReplica := True, kd_PausedReplica := r\<rparr>)"

definition Keda_Resume :: "Keda \<Rightarrow> Keda" where
  "Keda_Resume k = k\<lparr>kd_Paused := False, kd_PausedWithReplica := False\<rparr>"

definition Keda_Validate :: "Keda \<Rightarrow> unit outcome" where
  "Keda_Validate k =
     (if kd_MinReplicas k = 0 \<and> kd_MaxReplicas k = 0 then
        Err (invalid ''min_replicas and max_replicas must be set when autoscaler is enabled'')
      else if kd_MinReplicas k < 0 then Err (invalid ''min_replicas must be greater than or equal to 0'')
      else if kd_MaxReplicas k < 1 then Err (invalid ''max_replicas must be greater than or equal to 1'')
      else if kd_MinReplicas k > kd_MaxReplicas k then
        Err (invalid ''min_replicas must be less than or equal to max_replicas'')
      else if entries (kd_Triggers k) = [] then
        Err (invalid ''at least one trigger must be defined when autoscaler is enabled'')
      else Ok ())"

definition nil_deref :: string where
  "nil_deref = ''runtime error: invalid memory address or nil pointer dereference''"

text \<open>A method that changes the spec of an autoscaler: on nil, of either kind, it panics.\<close>

definition on_spec :: "(Keda \<Rightarrow> Keda outcome) \<Rightarrow> Autoscaler \<Rightarrow> Autoscaler outcome" where
  "on_spec f a =
     (case as_Spec a of
        KedaSpec (Some k) \<Rightarrow>
          (case f k of
             Ok k' \<Rightarrow> Ok (a\<lparr>as_Spec := KedaSpec (Some k')\<rparr>)
           | Err e \<Rightarrow> Err e | Panic p \<Rightarrow> Panic p | Overflow \<Rightarrow> Overflow)
      | _ \<Rightarrow> Panic nil_deref)"

definition Autoscaler_Validate :: "Autoscaler \<Rightarrow> unit outcome" where
  "Autoscaler_Validate a =
     (if \<not> as_Enabled a then Ok ()
      else case as_Spec a of
             NoSpec \<Rightarrow> Err (invalid ''autoscaler spec must be provided when autoscaler is enabled'')
           | KedaSpec None \<Rightarrow> Panic nil_deref
           | KedaSpec (Some k) \<Rightarrow> Keda_Validate k)"

section \<open>Reading the configuration\<close>

definition UsageSpec_merge :: "UsageSpec \<Rightarrow> UsageSpec \<Rightarrow> UsageSpec" where
  "UsageSpec_merge us overide =
     \<lparr>us_CPU = (if us_CPU overide \<noteq> [] then us_CPU overide else us_CPU us),
      us_Memory = (if us_Memory overide \<noteq> [] then us_Memory overide else us_Memory us)\<rparr>"

text \<open>The value of a map at the default key, overridden by the one at the sink type.\<close>

definition sink_override :: "'v gomap \<Rightarrow> string \<Rightarrow> 'v \<Rightarrow> 'v" where
  "sink_override m sink zero =
     (case lookup m sink of
        Some v \<Rightarrow> v
      | None \<Rightarrow> (case lookup m fh_defaultKey of Some v \<Rightarrow> v | None \<Rightarrow> zero))"

definition sink_resources :: "fh_driverConf \<Rightarrow> string \<Rightarrow> RequestsAndLimits" where
  "sink_resources dc sink =
     (let rl = (case lookup (fd_RequestsAndLimits dc) fh_defaultKey of Some r \<Rightarrow> r | None \<Rightarrow> zero_RequestsAndLimits)
      in case lookup (fd_RequestsAndLimits dc) sink of
           None \<Rightarrow> rl
         | Some overrides \<Rightarrow>
             \<lparr>rl_Limits = UsageSpec_merge (rl_Limits rl) (rl_Limits overrides),
              rl_Requests = UsageSpec_merge (rl_Requests rl) (rl_Requests overrides)\<rparr>)"

text \<open>The part of \<open>readConfig\<close> that names the deployment.\<close>

definition fh_deployment_id :: "(string \<Rightarrow> string) \<Rightarrow> Resource \<Rightarrow> fh_Config \<Rightarrow> string outcome" where
  "fh_deployment_id sha r cfg =
     (if fc_DeploymentID cfg = [] then
        SafeName sha (res_Project r @ ''-'' @ res_Name r) ''-firehose'' (int helmReleaseNameMaxLength)
      else if length (fc_DeploymentID cfg) > helmReleaseNameMaxLength then
        Err (invalid ''deployment_id must not have more than 53 chars'')
      else Ok (fc_DeploymentID cfg))"

text \<open>The part that fills in what the configuration leaves open.\<close>

definition fh_complete :: "fh_driverConf \<Rightarrow> string \<Rightarrow> fh_Config \<Rightarrow> fh_Config" where
  "fh_complete dc dep cfg =
     (let env = (if get_str (fc_EnvVariables cfg) confKeyConsumerID = []
                   then Some (put confKeyConsumerID (dep @ ''-1'') (entries (fc_EnvVariables cfg)))
                   else fc_EnvVariables cfg);
          rl = sink_resources dc (get_str env confSinkType)
      in cfg\<lparr>fc_DeploymentID := dep, fc_EnvVariables := env,
             fc_Limits := UsageSpec_merge (rl_Limits rl) (fc_Limits cfg),
             fc_Requests := UsageSpec_merge (rl_Requests rl) (fc_Requests cfg),
             fc_Namespace := (if fc_Namespace cfg = []
                                then sink_override (fd_Namespace dc) (get_str env confSinkType) []
                                else fc_Namespace cfg)\<rparr>)"

definition fh_read_autoscaler :: "fh_driverConf \<Rightarrow> fh_Config \<Rightarrow> fh_Config outcome" where
  "fh_read_autoscaler dc cfg =
     (case fc_Autoscaler cfg of
        None \<Rightarrow> Ok cfg
      | Some a \<Rightarrow>
          if \<not> as_Enabled a then Ok cfg
          else case on_spec (Keda_ReadConfig cfg dc) a of
                 Ok a' \<Rightarrow>
                   (case Autoscaler_Validate a' of
                      Ok _ \<Rightarrow> Ok (cfg\<lparr>fc_Autoscaler := Some a'\<rparr>)
                    | Err e \<Rightarrow> Err e | Panic p \<Rightarrow> Panic p | Overflow \<Rightarrow> Overflow)
               | Err e \<Rightarrow> Err e | Panic p \<Rightarrow> Panic p | Overflow \<Rightarrow> Overflow)"

definition fh_readConfig ::
    "(string \<Rightarrow> rfc_time option) \<Rightarrow> (string \<Rightarrow> string) \<Rightarrow> (raw \<Rightarrow> unit outcome) \<Rightarrow> Resource \<Rightarrow> raw \<Rightarrow>
     fh_driverConf \<Rightarrow> fh_Config outcome" where
  "fh_readConfig pt sha validateConfig r confJSON dc =
     (case Unmarshal (fh_Config_fields pt) confJSON zero_fh_Config of
        Err err \<Rightarrow> Err (EErr (WithCausef (WithMsgf ErrInvalid ''invalid config json'') (error_text err)))
      | Panic p \<Rightarrow> Panic p
      | Overflow \<Rightarrow> Overflow
      | Ok cfg0 \<Rightarrow>
          let cfg = cfg0\<lparr>fc_EnvVariables := CloneAndMergeMaps (fd_EnvVariables dc) (fc_EnvVariables cfg0),
                         fc_InitContainer := fd_InitContainer dc,
                         fc_Replicas := (if fc_Replicas cfg0 \<le> 0 then 1 else fc_Replicas cfg0)\<rparr>
          in case validateConfig confJSON of
               Err e \<Rightarrow> Err e
             | Panic p \<Rightarrow> Panic p
             | Overflow \<Rightarrow> Overflow
             | Ok _ \<Rightarrow>
                 (case fh_deployment_id sha r cfg of
                    Err e \<Rightarrow> Err e
                  | Panic p \<Rightarrow> Panic p
                  | Overflow \<Rightarrow> Overflow
                  | Ok dep \<Rightarrow> fh_read_autoscaler dc (fh_complete dc dep cfg)))"

end
