(* ===== verification/Firehose_Helm.thy ===== *)
theory Firehose_Helm
  imports Firehose_Config
begin

text \<open>
  The Helm release of a firehose: \<open>getHelmRelease\<close> and the rendering of templates in
  \<open>modules/firehose/driver.go\<close>, the values of the autoscaler in \<open>autoscaler.go\<close> and \<open>keda.go\<close>, and the
  conversions of affinities in \<open>modules/kubernetes/output.go\<close>. The engine of \<open>text/template\<close>, which
  interprets the templates an operator configures, is the parameter \<open>tpl\<close>: parsing a text gives the
  function from the values to the rendered text. A Helm value is the document it prints to, a nil map
  is \<open>null\<close>.
\<close>

section \<open>Templates\<close>

type_synonym engine = "string \<Rightarrow> (string gomap \<Rightarrow> string outcome) outcome"

fun render_entries :: "engine \<Rightarrow> string gomap \<Rightarrow> (string \<times> string) list \<Rightarrow> (string \<times> string) list outcome" where
  "render_entries tpl vals [] = Ok []"
| "render_entries tpl vals ((k, v) # rest) =
     (case tpl v of
        Err err \<Rightarrow>
          Err (EErr (WithCausef (WithMsgf ErrInvalid (''label template for '' @ sq k @ '' is invalid'')) (error_text err)))
      | Panic p \<Rightarrow> Panic p
      | Overflow \<Rightarrow> Overflow
      | Ok t \<Rightarrow>
          (case t vals of
             Err err \<Rightarrow>
               Err (EErr (WithCausef (WithMsgf ErrInvalid ''failed to render label template'') (error_text err)))
           | Panic p \<Rightarrow> Panic p
           | Overflow \<Rightarrow> Overflow
           | Ok txt \<Rightarrow>
               (case render_entries tpl vals rest of
                  Ok kvs \<Rightarrow> Ok ((k, txt) # kvs)
                | r \<Rightarrow> r)))"

definition renderTpl :: "engine \<Rightarrow> string gomap \<Rightarrow> string gomap \<Rightarrow> string gomap outcome" where
  "renderTpl tpl labelsTpl labelsValues =
     (case render_entries tpl labelsValues (entries labelsTpl) of
        Ok kvs \<Rightarrow> Ok (Some kvs)
      | Err e \<Rightarrow> Err e
      | Panic p \<Rightarrow> Panic p
      | Overflow \<Rightarrow> Overflow)"

text \<open>The members that are strings, and the members with those replaced.\<close>

definition string_members :: "(string \<times> json) list \<Rightarrow> (string \<times> string) list" where
  "string_members kvs = List.map_filter (\<lambda>(k, j). case j of JStr s \<Rightarrow> Some (k, s) | _ \<Rightarrow> None) kvs"

definition renderTplOfMapStringAny ::
    "engine \<Rightarrow> (string \<times> json) list \<Rightarrow> string gomap \<Rightarrow> (string \<times> json) list outcome" where
  "renderTplOfMapStringAny tpl labelsTpl labelsValues =
     (case renderTpl tpl (Some (string_members labelsTpl)) labelsValues of
        Ok outputMap \<Rightarrow> Ok (put_all (map (\<lambda>(k, v). (k, JStr v)) (entries outputMap)) labelsTpl)
      | Err e \<Rightarrow> Err e
      | Panic p \<Rightarrow> Panic p
      | Overflow \<Rightarrow> Overflow)"

section \<open>Affinities as Helm values\<close>

text \<open>\<open>mapstructure.Decode\<close> of a struct gives the map of its fields, whose names are then lowered.\<close>

definition PreferenceSliceToInterfaceSlice :: "Preference list \<Rightarrow> json" where
  "PreferenceSliceToInterfaceSlice prefs =
     JArr (map (\<lambda>p. JObj [(''key'', JStr (pref_Key p)), (''operator'', JStr (pref_Operator p)),
                          (''values'', enc_list JStr (pref_Values p))]) prefs)"

definition WeightedPreferencesToInterfaceSlice :: "WeightedPreference list \<Rightarrow> json" where
  "WeightedPreferencesToInterfaceSlice weightedPrefs =
     JArr (map (\<lambda>w. JObj [(''weight'', JInt (wp_Weight w)),
                          (''preference'', PreferenceSliceToInterfaceSlice (wp_Preference w))]) weightedPrefs)"

section \<open>Values of the autoscaler\<close>

definition KedaPausedAnnotationKey :: string where "KedaPausedAnnotationKey = ''autoscaling.keda.sh/paused''"
definition KedaPausedReplicaAnnotationKey :: string where
  "KedaPausedReplicaAnnotationKey = ''autoscaling.keda.sh/paused-replicas''"

definition trigger_value :: "Trigger \<Rightarrow> string gomap \<Rightarrow> json" where
  "trigger_value t metadata =
     JObj [(''type'', JStr (tr_Type t)), (''metadata'', enc_strmap metadata),
           (''authenticationRef'',
              JObj [(''name'', JStr (ar_Name (tr_AuthenticationRef t))),
                    (''kind'', JStr (ar_Kind (tr_AuthenticationRef t)))])]"

text \<open>A Kafka trigger on several topics becomes one trigger per topic.\<close>

definition trigger_values :: "Trigger \<Rightarrow> string gomap \<Rightarrow> json list" where
  "trigger_values t metadata =
     (case lookup metadata KedaKafkaMetadataTopicKey of
        Some topics \<Rightarrow>
          if tr_Type t = KAFKA \<and> contains topics ''|'' then
            map (\<lambda>topic. trigger_value t (Some (put KedaKafkaMetadataTopicKey topic (entries metadata))))
              (split_on (CHR ''|'') topics)
          else [trigger_value t metadata]
      | None \<Rightarrow> [trigger_value t metadata])"

fun keda_triggers :: "engine \<Rightarrow> string gomap \<Rightarrow> (string \<times> Trigger) list \<Rightarrow> json list outcome" where
  "keda_triggers tpl vals [] = Ok []"
| "keda_triggers tpl vals ((k, t) # ts) =
     (case renderTpl tpl (tr_Metadata t) vals of
        Ok rendered \<Rightarrow>
          (case keda_triggers tpl vals ts of
             Ok js \<Rightarrow> Ok (trigger_values t rendered @ js)
           | r \<Rightarrow> r)
      | Err e \<Rightarrow> Err e
      | Panic p \<Rightarrow> Panic p
      | Overflow \<Rightarrow> Overflow)"

definition scale_value :: "ScaleBehaviour \<Rightarrow> json" where
  "scale_value s =
     JObj [(''policies'', enc_list (\<lambda>p. JObj [(''type'', JStr (plc_Type p)), (''value'', plc_Value p),
                                              (''periodSeconds'', JInt (plc_PeriodSeconds p))]) (sb_Policies s)),
           (''stabilizationWindowSeconds'',
              (case sb_StabilizationWindowSeconds s of None \<Rightarrow> JNull | Some i \<Rightarrow> JInt i)),
           (''tolerance'', (case sb_Tolerance s of None \<Rightarrow> JNull | Some j \<Rightarrow> j))]"

definition Keda_GetHelmValues :: "engine \<Rightarrow> fh_Config \<Rightarrow> Keda \<Rightarrow> json outcome" where
  "Keda_GetHelmValues tpl cfg k =
     (let annotations =
            (if kd_Paused k then [(KedaPausedAnnotationKey, JStr ''true'')] else []) @
            (if kd_PausedWithReplica k then [(KedaPausedReplicaAnnotationKey, JStr (show_int (kd_PausedReplica k)))]
             else []);
          firehoseConfigs =
            Some [(''namespace'', fc_Namespace cfg), (''replicas'', show_int (fc_Replicas cfg))];
          vals = CloneAndMergeMaps firehoseConfigs (fc_EnvVariables cfg)
      in case keda_triggers tpl vals (entries (kd_Triggers k)) of
           Err e \<Rightarrow> Err e
         | Panic p \<Rightarrow> Panic p
         | Overflow \<Rightarrow> Overflow
         | Ok triggers \<Rightarrow>
             Ok (JObj
               [(''annotations'', JObj annotations), (''maxReplicaCount'', JInt (kd_MaxReplicas k)),
                (''minReplicaCount'', JInt (kd_MinReplicas k)), (''pollingInterval'', JInt (kd_PollingInterval k)),
                (''cooldownPeriod'', JInt (kd_CooldownPeriod k)),
                (''restoreToOriginalReplicaCount'', JBool (kd_RestoreToOriginalReplica k)),
                (''fallback'',
                   (case kd_Fallback k of
                      None \<Rightarrow> JNull
                    | Some f \<Rightarrow> JObj [(''behavior'', JStr (fb_Behavior f)),
                                      (''failureThreshold'', JInt (fb_FailureThreshold f)),
                                      (''replicas'', JInt (fb_Replicas f))])),
                (''triggers'', enc_list (\<lambda>j. j) triggers),
                (''hpa'',
                   (case kd_HPA k of
                      None \<Rightarrow> JNull
                    | Some h \<Rightarrow> JObj [(''scaleUp'', scale_value (hpa_ScaleUp h)),
                                      (''scaleDown'', scale_value (hpa_ScaleDown h))]))]))"

definition Autoscaler_GetHelmValues :: "engine \<Rightarrow> fh_Config \<Rightarrow> Autoscaler \<Rightarrow> json outcome" where
  "Autoscaler_GetHelmValues tpl cfg a =
     (case as_Spec a of
        KedaSpec (Some k) \<Rightarrow>
          (case Keda_GetHelmValues tpl cfg k of
             Ok v \<Rightarrow> Ok (JObj (put (as_Type a) v [(''enabled'', JBool (as_Enabled a)), (''type'', JStr (as_Type a))]))
           | r \<Rightarrow> r)
      | _ \<Rightarrow> Panic nil_deref)"

section \<open>The release\<close>

definition kubeConfigModeAutoscaler :: string where "kubeConfigModeAutoscaler = ''AUTOSCALER''"
definition fh_resourceName :: string where "fh_resourceName = ''firehose''"
definition firehoseAutoscalerTaintKey :: string where "firehoseAutoscalerTaintKey = ''firehose_autoscaler''"
definition firehoseNonAutoscalerTaintKey :: string where
  "firehoseNonAutoscalerTaintKey = ''firehose_non_autoscaler''"
definition fh_chartRepo :: string where "fh_chartRepo = ''https://goto.github.io/charts/''"
definition fh_chartName :: string where "fh_chartName = ''firehose''"
definition fh_imageRepo :: string where "fh_imageRepo = ''gotocompany/firehose''"
definition labelsConfKey :: string where "labelsConfKey = ''labels''"
definition labelDeployment :: string where "labelDeployment = ''deployment''"
definition labelOrchestrator :: string where "labelOrchestrator = ''orchestrator''"
definition orchestratorLabelValue :: string where "orchestratorLabelValue = ''entropy''"

text \<open>The key the tolerations and the affinity are looked up at, by the mode of the cluster.\<close>

definition taint_key :: "string \<Rightarrow> Autoscaler option \<Rightarrow> string gomap \<Rightarrow> string" where
  "taint_key mode autoscaler env =
     (if mode = kubeConfigModeAutoscaler then
        (case autoscaler of
           None \<Rightarrow> firehoseNonAutoscalerTaintKey
         | Some a \<Rightarrow> if as_Enabled a then firehoseAutoscalerTaintKey else firehoseNonAutoscalerTaintKey)
      else ''firehose_'' @ get_str env confSinkType)"

definition put_env :: "string \<Rightarrow> string \<Rightarrow> string gomap \<Rightarrow> string gomap outcome" where
  "put_env k v m = (case m of None \<Rightarrow> Panic nil_map_panic | Some kvs \<Rightarrow> Ok (Some (put k v kvs)))"

text \<open>One credential: the mounted secret and the environment variables that point to it.\<close>

definition mount_secret :: "string \<Rightarrow> string \<Rightarrow> string \<Rightarrow> json" where
  "mount_secret cred key mountFile = JObj [(''value'', JStr cred), (''key'', JStr key), (''path'', JStr mountFile)]"

fun put_envs :: "string list \<Rightarrow> string \<Rightarrow> string gomap \<Rightarrow> string gomap outcome" where
  "put_envs [] v m = Ok m"
| "put_envs (k # ks) v m =
     (case put_env k v m of
        Ok m' \<Rightarrow> put_envs ks v m'
      | Err e \<Rightarrow> Err e | Panic p \<Rightarrow> Panic p | Overflow \<Rightarrow> Overflow)"

definition credential ::
    "string \<Rightarrow> string \<Rightarrow> string \<Rightarrow> string list \<Rightarrow> json list \<times> string gomap \<Rightarrow> (json list \<times> string gomap) outcome" where
  "credential cred mountFile key envs st =
     (if cred = [] then Ok st
      else case put_envs envs (''/etc/secret/'' @ mountFile) (snd st) of
             Ok env \<Rightarrow> Ok (fst st @ [mount_secret cred key mountFile], env)
           | Err e \<Rightarrow> Err e | Panic p \<Rightarrow> Panic p | Overflow \<Rightarrow> Overflow)"

definition mount_credentials :: "fh_driverConf \<Rightarrow> string gomap \<Rightarrow> (json list \<times> string gomap) outcome" where
  "mount_credentials dc env =
     (case credential (fd_GCSSinkCredential dc) ''gcs_auth.json'' ''gcs_credential''
             [''SINK_BLOB_GCS_CREDENTIAL_PATH'', ''SINK_BIGTABLE_CREDENTIAL_PATH''] ([], env) of
        Ok st1 \<Rightarrow>
          (case credential (fd_DLQGCSSinkCredential dc) ''dlq_gcs_auth.json'' ''dlq_gcs_credential''
                  [''DLQ_GCS_CREDENTIAL_PATH''] st1 of
             Ok st2 \<Rightarrow>
               credential (fd_BigQuerySinkCredential dc) ''bigquery_auth.json'' ''bigquery_credential''
                 [''SINK_BIGQUERY_CREDENTIAL_PATH''] st2
           | r \<Rightarrow> r)
      | r \<Rightarrow> r)"

text \<open>
  The loop over the outputs of telegraf. The configuration is the state: the map of outputs is shared
  with the caller, who sees the rendered values.
\<close>

definition set_output :: "string \<Rightarrow> json \<Rightarrow> fh_Config \<Rightarrow> fh_Config" where
  "set_output k j c =
     c\<lparr>fc_Telegraf := map_option (\<lambda>t. t\<lparr>tg_Config := (tg_Config t)\<lparr>tc_Output :=
         map_option (put k j) (tc_Output (tg_Config t))\<rparr>\<rparr>) (fc_Telegraf c)\<rparr>"

fun render_outputs :: "engine \<Rightarrow> string gomap \<Rightarrow> (string \<times> json) list \<Rightarrow> (fh_Config, unit) go" where
  "render_outputs tpl vals [] = ret ()"
| "render_outputs tpl vals ((k, v) # rest) =
     (case v of
        JObj m \<Rightarrow>
          bindS (liftR (renderTplOfMapStringAny tpl m vals)) (\<lambda>m' c.
          render_outputs tpl vals rest (set_output k (JObj m') c))
      | _ \<Rightarrow> render_outputs tpl vals rest)"

text \<open>The environment of the deployment and the values of telegraf, in the state of the configuration.\<close>

definition telegraf_part ::
    "engine \<Rightarrow> string gomap \<Rightarrow> (fh_Config, string gomap \<times> Telegraf) go" where
  "telegraf_part tpl merged c =
     (case fc_Telegraf c of
        None \<Rightarrow> (Ok (fc_EnvVariables c, zero_Telegraf), c)
      | Some t \<Rightarrow>
          if \<not> tg_Enabled t then (Ok (fc_EnvVariables c, zero_Telegraf), c)
          else
            bindS (liftR (renderTpl tpl (fc_EnvVariables c) merged)) (\<lambda>env.
            bindS (liftR (renderTpl tpl (tc_AdditionalGlobalTags (tg_Config t)) merged)) (\<lambda>tags.
            bindS (render_outputs tpl merged (entries (tc_Output (tg_Config t)))) (\<lambda>_ c'.
            (Ok (env, \<lparr>tg_Enabled = True, tg_Image = tg_Image t,
                       tg_Config =
                         \<lparr>tc_Output = (case fc_Telegraf c' of None \<Rightarrow> None | Some t' \<Rightarrow> tc_Output (tg_Config t')),
                          tc_AdditionalGlobalTags = tags\<rparr>\<rparr>), c')))) c)"

definition telegraf_enabled :: "fh_Config \<Rightarrow> bool" where
  "telegraf_enabled c = (case fc_Telegraf c of None \<Rightarrow> False | Some t \<Rightarrow> tg_Enabled t)"

definition release_values ::
    "fh_driverConf \<Rightarrow> fh_Config \<Rightarrow> ChartValues \<Rightarrow> string gomap \<Rightarrow> string gomap \<Rightarrow> Telegraf \<Rightarrow> json list \<Rightarrow>
     Toleration list \<Rightarrow> Preference list \<Rightarrow> WeightedPreference list \<Rightarrow> (string \<times> json) list" where
  "release_values dc conf cv env labels telegraf mountSecrets tolerations required preferred =
     [(labelsConfKey, enc_strmap labels), (''replicaCount'', JInt (fc_Replicas conf)),
      (''firehose'',
         JObj [(''image'',
                  JObj [(''repository'',
                           JStr (if cv_ImageRepository cv \<noteq> [] then cv_ImageRepository cv
                                 else cv_ImageRepository (fd_ChartValues dc))),
                        (''pullPolicy'', JStr (cv_PullPolicy cv)), (''tag'', JStr (cv_ImageTag cv))]),
               (''config'', enc_strmap env),
               (''resources'',
                  JObj [(''limits'', JObj [(''cpu'', JStr (us_CPU (fc_Limits conf))),
                                           (''memory'', JStr (us_Memory (fc_Limits conf)))]),
                        (''requests'', JObj [(''cpu'', JStr (us_CPU (fc_Requests conf))),
                                             (''memory'', JStr (us_Memory (fc_Requests conf)))])])]),
      (''tolerations'', JArr (map Toleration_json tolerations)),
      (''nodeAffinityMatchExpressions'',
         JObj [(''requiredDuringSchedulingIgnoredDuringExecution'', PreferenceSliceToInterfaceSlice required),
               (''preferredDuringSchedulingIgnoredDuringExecution'', WeightedPreferencesToInterfaceSlice preferred)]),
      (''init-firehose'',
         JObj [(''enabled'', JBool (ic_Enabled (fd_InitContainer dc))),
               (''image'', JObj [(''repository'', JStr (ic_Repository (fd_InitContainer dc))),
                                 (''pullPolicy'', JStr (ic_PullPolicy (fd_InitContainer dc))),
                                 (''tag'', JStr (ic_ImageTag (fd_InitContainer dc)))]),
               (''command'', enc_opt_list JStr (ic_Command (fd_InitContainer dc))),
               (''args'', enc_opt_list JStr (ic_Args (fd_InitContainer dc)))]),
      (''telegraf'',
         JObj [(''enabled'', JBool (tg_Enabled telegraf)), (''image'', enc_map (\<lambda>j. j) (tg_Image telegraf)),
               (''config'',
                  JObj [(''output'', enc_map (\<lambda>j. j) (tc_Output (tg_Config telegraf))),
                        (''additional_global_tags'', enc_strmap (tc_AdditionalGlobalTags (tg_Config telegraf)))])]),
      (''mountSecrets'', JArr mountSecrets)]"

text \<open>The key of \<open>Toleration\<close> as a Helm value has the members of its JSON form.\<close>

definition entropy_labels :: "fh_Config \<Rightarrow> string gomap" where
  "entropy_labels conf = Some [(labelDeployment, fc_DeploymentID conf), (labelOrchestrator, orchestratorLabelValue)]"

definition other_labels :: "Resource \<Rightarrow> fh_Config \<Rightarrow> string gomap" where
  "other_labels res conf = Some [(''urn'', res_URN res), (''name'', res_Name res), (''namespace'', fc_Namespace conf)]"

text \<open>The second half of \<open>getHelmRelease\<close>: the release of a configuration whose environment and labels are rendered.\<close>

definition build_release ::
    "engine \<Rightarrow> ReleaseConfig \<Rightarrow> fh_driverConf \<Rightarrow> kube_Output \<Rightarrow> fh_Config \<Rightarrow> string gomap \<Rightarrow> string gomap \<Rightarrow>
     string gomap \<Rightarrow> Telegraf \<Rightarrow> json list \<Rightarrow> ReleaseConfig outcome" where
  "build_release tpl defaults dc kubeOut conf deploymentLabels env0 env telegraf mountSecrets =
     (let tolerations = (case lookup (ko_Tolerations kubeOut)
            (taint_key (get_str (ko_TolerationMode kubeOut) fh_resourceName) (fc_Autoscaler conf) env0) of
            Some ts \<Rightarrow> ts | None \<Rightarrow> []);
          affinity = lookup (ko_Affinities kubeOut)
            (taint_key (get_str (ko_AffinityMode kubeOut) fh_resourceName) (fc_Autoscaler conf) env0);
          required = (case fd_AffinityRequired dc of Some p \<Rightarrow> p
            | None \<Rightarrow> (case affinity of Some a \<Rightarrow> na_Required a | None \<Rightarrow> []));
          preferred = (case fd_AffinityPreferred dc of Some p \<Rightarrow> p
            | None \<Rightarrow> (case affinity of Some a \<Rightarrow> na_Preferred a | None \<Rightarrow> []))
      in case fc_ChartValues conf of
           None \<Rightarrow> Panic nil_deref
         | Some cv \<Rightarrow>
             let vals = release_values dc conf cv env (CloneAndMergeMaps deploymentLabels (entropy_labels conf))
                   telegraf mountSecrets tolerations required preferred;
                 rc = defaults\<lparr>hr_Timeout := fd_KubeDeployTimeout dc, hr_Name := fc_DeploymentID conf,
                   hr_Repository := fh_chartRepo, hr_Chart := fh_chartName, hr_Namespace := fc_Namespace conf,
                   hr_ForceUpdate := True, hr_Version := cv_ChartVersion cv\<rparr>
             in case fc_Autoscaler conf of
                  None \<Rightarrow> Ok (rc\<lparr>hr_Values := Some vals\<rparr>)
                | Some a \<Rightarrow>
                    (case Autoscaler_GetHelmValues tpl (conf\<lparr>fc_EnvVariables := env\<rparr>) a of
                       Ok v \<Rightarrow> Ok (rc\<lparr>hr_Values := Some (put ''autoscaler'' v vals)\<rparr>)
                     | Err e \<Rightarrow> Err e
                     | Panic p \<Rightarrow> Panic p
                     | Overflow \<Rightarrow> Overflow))"

text \<open>
  Without telegraf the environment is the map of the caller, who then sees the paths of the
  credentials.
\<close>

definition getHelmRelease ::
    "engine \<Rightarrow> ReleaseConfig \<Rightarrow> fh_driverConf \<Rightarrow> Resource \<Rightarrow> kube_Output \<Rightarrow> (fh_Config, ReleaseConfig) go" where
  "getHelmRelease tpl defaults dc res kubeOut conf =
     (let entropyLabels = entropy_labels conf;
          otherLabels = other_labels res conf
      in bindS (liftR (renderTpl tpl (fd_Labels dc)
                  (CloneAndMergeMaps (res_Labels res) (CloneAndMergeMaps entropyLabels otherLabels)))) (\<lambda>deploymentLabels.
         bindS (telegraf_part tpl
                  (CloneAndMergeMaps
                     (CloneAndMergeMaps (fc_EnvVariables conf)
                        (CloneAndMergeMaps deploymentLabels (CloneAndMergeMaps (res_Labels res) entropyLabels)))
                     otherLabels)) (\<lambda>(env0, telegraf).
         bindS (liftR (mount_credentials dc env0)) (\<lambda>(mountSecrets, env) c.
           (build_release tpl defaults dc kubeOut conf deploymentLabels env0 env telegraf mountSecrets,
            if telegraf_enabled c then c else c\<lparr>fc_EnvVariables := env\<rparr>))))) conf"

section \<open>What a release is about\<close>

text \<open>The release of a configuration, whatever the templates do, has its name and namespace.\<close>

definition releases :: "fh_Config \<Rightarrow> ReleaseConfig \<Rightarrow> bool" where
  "releases conf rc \<longleftrightarrow>
     hr_Name rc = fc_DeploymentID conf \<and> hr_Namespace rc = fc_Namespace conf \<and> hr_Chart rc = fh_chartName \<and>
     hr_Repository rc = fh_chartRepo \<and>
     lookup (hr_Values rc) ''replicaCount'' = Some (JInt (fc_Replicas conf)) \<and>
     (\<exists>labels. lookup (hr_Values rc) labelsConfKey = Some (enc_strmap (CloneAndMergeMaps labels (entropy_labels conf))))"

lemma build_release_Ok:
  assumes "build_release tpl defaults dc kubeOut conf dl env0 env tg ms = Ok rc"
  shows "releases conf rc"
proof -
  have vals: "map_of (release_values dc conf cv env l tg ms ts req pre) labelsConfKey = Some (enc_strmap l)"
    "map_of (release_values dc conf cv env l tg ms ts req pre) ''replicaCount'' = Some (JInt (fc_Replicas conf))"
    for cv l ts req pre
    by (simp_all add: release_values_def labelsConfKey_def)
  have auto: "labelsConfKey \<noteq> ''autoscaler''"
    by (simp add: labelsConfKey_def)
  show ?thesis
    using assms auto
    by (auto simp: build_release_def Let_def releases_def lookup_def vals
        split: option.splits [where option = "fc_ChartValues conf"] option.splits [where option = "fc_Autoscaler conf"]
          result.splits)
qed

lemma getHelmRelease_Ok:
  assumes "getHelmRelease tpl defaults dc res kubeOut conf = (Ok rc, c')"
  shows "releases conf rc"
  using assms unfolding getHelmRelease_def Let_def
  by (elim bindS_Ok_E) (auto split: prod.splits dest: build_release_Ok)

end
