(* ===== verification/Kafka_Reset.thy ===== *)
theory Kafka_Reset
  imports Kube_Client
begin

text \<open>
  \<open>pkg/kafka/consumer_reset.go\<close>: reading the parameters of an offset reset, and the Kubernetes job that
  performs it. As in \<open>Kube_Client\<close>, \<open>polls\<close> bounds how often the job is polled.
\<close>

definition kafkaImage :: string where "kafkaImage = ''bitnami/kafka:2.0.0''"
definition reset_retries :: int where "reset_retries = 6"

definition resetLatest :: string where "resetLatest = ''latest''"
definition resetEarliest :: string where "resetEarliest = ''earliest''"
definition resetDatetime :: string where "resetDatetime = ''datetime''"

lemmas reset_defs = resetLatest_def resetEarliest_def resetDatetime_def

record ResetV2Params =
  rp2_To :: string
  rp2_Datetime :: string

record ResetParams =
  rp_To :: string

definition ResetV2Params_fields :: "(string \<times> ResetV2Params setter) list" where
  "ResetV2Params_fields = [(''to'', set_str rp2_To_update), (''datetime'', set_str rp2_Datetime_update)]"

definition ResetParams_fields :: "(string \<times> ResetParams setter) list" where
  "ResetParams_fields = [(''to'', set_str rp_To_update)]"

definition reset_params_error :: "gerror \<Rightarrow> gerror" where
  "reset_params_error err = EErr (WithCausef (WithMsgf ErrInvalid ''invalid reset params'') (error_text err))"

definition ParseResetV2Params :: "raw \<Rightarrow> string outcome" where
  "ParseResetV2Params bytes =
     (case Unmarshal ResetV2Params_fields bytes \<lparr>rp2_To = [], rp2_Datetime = []\<rparr> of
        Err err \<Rightarrow> Err (reset_params_error err)
      | Panic p \<Rightarrow> Panic p
      | Overflow \<Rightarrow> Overflow
      | Ok params \<Rightarrow>
          let resetValue = ToLower (rp2_To params)
          in if rp2_To params = resetDatetime then Ok (rp2_Datetime params)
             else if resetValue \<noteq> resetLatest \<and> resetValue \<noteq> resetEarliest then
               Err (invalid ''reset_value must be one of [earliest latest datetime]'')
             else Ok resetValue)"

definition ParseResetParams :: "raw \<Rightarrow> string outcome" where
  "ParseResetParams bytes =
     (case Unmarshal ResetParams_fields bytes \<lparr>rp_To = []\<rparr> of
        Err err \<Rightarrow> Err (reset_params_error err)
      | Panic p \<Rightarrow> Panic p
      | Overflow \<Rightarrow> Overflow
      | Ok params \<Rightarrow>
          let resetValue = ToLower (rp_To params)
          in if resetValue \<noteq> resetLatest \<and> resetValue \<noteq> resetEarliest then
               Err (invalid ''reset_value must be one of [earliest latest]'')
             else Ok resetValue)"

definition prepCommand :: "string \<Rightarrow> string \<Rightarrow> string \<Rightarrow> string list" where
  "prepCommand brokers consumerID kafkaResetValue =
     [''kafka-consumer-groups.sh'', ''--bootstrap-server'', brokers, ''--group'', consumerID, ''--reset-offsets'',
      ''--execute'', ''--all-topics''] @
     (if kafkaResetValue = resetLatest then [''--to-latest'']
      else if kafkaResetValue = resetEarliest then [''--to-earliest'']
      else [''--to-datetime'', kafkaResetValue])"

definition DoReset ::
    "'s kube_API \<Rightarrow> nat \<Rightarrow> (v1_Job \<Rightarrow> string) \<Rightarrow> Client \<Rightarrow> string \<Rightarrow> string \<Rightarrow> string \<Rightarrow> string \<Rightarrow> string \<Rightarrow>
     ('s, unit option) go" where
  "DoReset api polls status jobCluster kubeNamespace kafkaBrokers kafkaConsumerID kafkaResetValue resetJobName =
     (let resetJobName = TrimSuffix resetJobName ''-firehose'' @ ''-reset''
      in RunJob api polls status jobCluster kubeNamespace resetJobName kafkaImage
           (prepCommand kafkaBrokers kafkaConsumerID kafkaResetValue) reset_retries True)"

text \<open>What the parsers accept.\<close>

lemma ParseResetParams_Ok: "ParseResetParams r = Ok v \<Longrightarrow> v = resetLatest \<or> v = resetEarliest"
  by (auto simp: ParseResetParams_def Let_def split: result.splits if_splits)

lemma ParseReset_no_overflow: "ParseResetParams r \<noteq> Overflow" "ParseResetV2Params r \<noteq> Overflow"
  by (auto simp: ParseResetParams_def ParseResetV2Params_def Let_def Unmarshal_no_overflow split: result.splits)

end
