(* ===== verification/Firehose_Driver.thy ===== *)
theory Firehose_Driver
  imports Firehose_Helm Kafka_Reset
begin

text \<open>
  \<open>modules/firehose\<close>: the driver. An action plans a change of the configuration with the steps a sync
  has to perform (release, stop, reset of the consumer group); each sync performs the first pending
  step, and a sync without pending steps refreshes the output and completes. The functions the driver
  calls on the cluster are the fields of \<open>firehoseDriver\<close>, as in the code; \<open>fhd_ReadConfig\<close> is
  \<open>readConfig\<close> and \<open>fhd_Release\<close> is \<open>getHelmRelease\<close>, over their parameters.
\<close>

section \<open>The driver\<close>

definition ScaleAction :: string where "ScaleAction = ''scale''"
definition fh_StartAction :: string where "fh_StartAction = ''start''"
definition StopAction :: string where "StopAction = ''stop''"
definition ResetAction :: string where "ResetAction = ''reset''"
definition ResetV2Action :: string where "ResetV2Action = ''reset-v2''"
definition UpgradeAction :: string where "UpgradeAction = ''upgrade''"

definition stepReleaseCreate :: string where "stepReleaseCreate = ''release_create''"
definition stepReleaseUpdate :: string where "stepReleaseUpdate = ''release_update''"
definition stepReleaseStop :: string where "stepReleaseStop = ''release_stop''"
definition stepKafkaReset :: string where "stepKafkaReset = ''consumer_reset''"

lemmas step_defs = stepReleaseCreate_def stepReleaseUpdate_def stepReleaseStop_def stepKafkaReset_def

lemmas fh_action_defs = ScaleAction_def fh_StartAction_def StopAction_def ResetAction_def ResetV2Action_def
  UpgradeAction_def

definition desiredStatusRunning :: string where "desiredStatusRunning = ''RUNNING''"
definition desiredStatusStopped :: string where "desiredStatusStopped = ''STOPPED''"

record 's firehoseDriver =
  fhd_conf :: fh_driverConf
  fhd_kubeDeploy :: "bool \<Rightarrow> kube_Config \<Rightarrow> ReleaseConfig \<Rightarrow> ('s, unit) go"
  fhd_kubeGetPod :: "kube_Config \<Rightarrow> string \<Rightarrow> string gomap \<Rightarrow> ('s, kube_Pod list) go"
  fhd_kubeGetDeployment :: "kube_Config \<Rightarrow> string \<Rightarrow> string \<Rightarrow> ('s, kube_Deployment) go"
  fhd_consumerReset :: "fh_Config \<Rightarrow> kube_Output \<Rightarrow> string \<Rightarrow> int \<Rightarrow> ('s, unit) go"
  fhd_StreamLogs :: "kube_Config \<Rightarrow> string \<Rightarrow> string gomap \<Rightarrow> ('s, LogChunk list) go"
  fhd_ParseTime :: "string \<Rightarrow> rfc_time option"
  fhd_ReadConfig :: "Resource \<Rightarrow> raw \<Rightarrow> fh_driverConf \<Rightarrow> fh_Config outcome"
  fhd_Release :: "fh_driverConf \<Rightarrow> Resource \<Rightarrow> kube_Output \<Rightarrow> (fh_Config, ReleaseConfig) go"
  fhd_Now :: "'s \<Rightarrow> time"

section \<open>Output and transient data\<close>

record fh_Output =
  fo_Pods :: "kube_Pod list"
  fo_Namespace :: string
  fo_ReleaseName :: string
  fo_Deployment :: "kube_Deployment option"
  fo_DesiredStatus :: string
  fo_AutoscalerEnabled :: bool

definition zero_fh_Output :: fh_Output where
  "zero_fh_Output = \<lparr>fo_Pods = [], fo_Namespace = [], fo_ReleaseName = [], fo_Deployment = None,
     fo_DesiredStatus = [], fo_AutoscalerEnabled = False\<rparr>"

definition dec_strmap :: "json \<Rightarrow> (string \<times> string) list option" where
  "dec_strmap j = (case j of JObj kvs \<Rightarrow> json_strmap kvs | JNull \<Rightarrow> Some [] | _ \<Rightarrow> None)"

definition set_conditions :: "kube_Deployment setter" where
  "set_conditions j d =
     (case j of
        JArr js \<Rightarrow> (case those (map dec_strmap js) of
                      Some cs \<Rightarrow> Some (d\<lparr>dpl_Conditions := Some cs\<rparr>) | None \<Rightarrow> None)
      | JNull \<Rightarrow> Some (d\<lparr>dpl_Conditions := None\<rparr>)
      | _ \<Rightarrow> None)"

definition kube_Deployment_fields :: "(string \<times> kube_Deployment setter) list" where
  "kube_Deployment_fields =
     [(''name'', set_str dpl_Name_update), (''paused'', set_bool dpl_Paused_update),
      (''replicas'', set_int dpl_Replicas_update), (''ready_replicas'', set_int dpl_ReadyReplicas_update),
      (''available_replicas'', set_int dpl_AvailableReplicas_update),
      (''unavailable_replicas'', set_int dpl_UnavailableReplicas_update), (''conditions'', set_conditions)]"

definition kube_Deployment_json :: "kube_Deployment \<Rightarrow> json" where
  "kube_Deployment_json d =
     JObj [(''name'', JStr (dpl_Name d)), (''paused'', JBool (dpl_Paused d)), (''replicas'', JInt (dpl_Replicas d)),
           (''ready_replicas'', JInt (dpl_ReadyReplicas d)), (''available_replicas'', JInt (dpl_AvailableReplicas d)),
           (''unavailable_replicas'', JInt (dpl_UnavailableReplicas d)),
           (''conditions'', enc_opt_list (\<lambda>c. enc_strmap (Some c)) (dpl_Conditions d))]"

definition fh_Output_fields :: "(string \<times> fh_Output setter) list" where
  "fh_Output_fields =
     [(''pods'', set_objs kube_Pod_fields zero_kube_Pod fo_Pods fo_Pods_update),
      (''namespace'', set_str fo_Namespace_update), (''release_name'', set_str fo_ReleaseName_update),
      (''deployment'', set_ptr kube_Deployment_fields zero_Deployment fo_Deployment fo_Deployment_update),
      (''desired_status'', set_str fo_DesiredStatus_update),
      (''autoscaler_enabled'', set_bool fo_AutoscalerEnabled_update)]"

definition fh_Output_json :: "fh_Output \<Rightarrow> json" where
  "fh_Output_json out =
     JObj (omit_empty_list ''pods'' kube_Pod_json (fo_Pods out) @ omit_empty_str ''namespace'' (fo_Namespace out) @
           omit_empty_str ''release_name'' (fo_ReleaseName out) @
           omit_nil ''deployment'' kube_Deployment_json (fo_Deployment out) @
           omit_empty_str ''desired_status'' (fo_DesiredStatus out) @
           omit_false ''autoscaler_enabled'' (fo_AutoscalerEnabled out))"

definition fh_readOutputData :: "ExpandedResource \<Rightarrow> fh_Output outcome" where
  "fh_readOutputData exr =
     (if raw_empty (st_Output (res_State (er_Resource exr))) then Ok zero_fh_Output
      else case Unmarshal fh_Output_fields (st_Output (res_State (er_Resource exr))) zero_fh_Output of
             Err err \<Rightarrow> Err (EErr (WithCausef (WithMsgf ErrInternal ''corrupted output'') (error_text err)))
           | r \<Rightarrow> r)"

record transientData =
  ftd_PendingSteps :: "string list"
  ftd_ResetOffsetTo :: string

definition zero_transientData :: transientData where
  "zero_transientData = \<lparr>ftd_PendingSteps = [], ftd_ResetOffsetTo = []\<rparr>"

definition transientData_fields :: "(string \<times> transientData setter) list" where
  "transientData_fields =
     [(''pending_steps'', set_strs ftd_PendingSteps_update), (''reset_offset_to'', set_str ftd_ResetOffsetTo_update)]"

definition transientData_json :: "transientData \<Rightarrow> json" where
  "transientData_json d =
     JObj ((''pending_steps'', JArr (map JStr (ftd_PendingSteps d))) #
           omit_empty_str ''reset_offset_to'' (ftd_ResetOffsetTo d))"

definition fh_readTransientData :: "ExpandedResource \<Rightarrow> transientData outcome" where
  "fh_readTransientData exr =
     (if raw_empty (st_ModuleData (res_State (er_Resource exr))) then Ok zero_transientData
      else case Unmarshal transientData_fields (st_ModuleData (res_State (er_Resource exr))) zero_transientData of
             Err err \<Rightarrow> Err (EErr (WithCausef (WithMsgf ErrInternal ''corrupted transient data'') (error_text err)))
           | r \<Rightarrow> r)"

section \<open>Planning\<close>

definition SourceKafkaConsumerAutoOffsetReset :: string where
  "SourceKafkaConsumerAutoOffsetReset = ''SOURCE_KAFKA_CONSUMER_CONFIG_AUTO_OFFSET_RESET''"

definition errCauseInvalidNamespaceUpdate :: string where
  "errCauseInvalidNamespaceUpdate = ''cannot update kube namespace of a running firehose''"

text \<open>
  The pattern \<open>^([A-Za-z0-9-]+)-([0-9]+)$\<close>: the digits after the last hyphen, and what is before it.
\<close>

definition suffixRegex :: "string \<Rightarrow> (string \<times> string) option" where
  "suffixRegex s =
     (let ds = rev (takeWhile (\<lambda>c. c \<noteq> CHR ''-'') (rev s));
          pre = rev (drop 1 (dropWhile (\<lambda>c. c \<noteq> CHR ''-'') (rev s)))
      in if length ds < length s \<and> ds \<noteq> [] \<and> list_all is_digit ds \<and> pre \<noteq> [] \<and>
            list_all (\<lambda>c. is_alpha c \<or> is_digit c \<or> c = CHR ''-'') pre
         then Some (pre, ds) else None)"

text \<open>\<open>seq++\<close> on a 64-bit integer.\<close>

definition incr64 :: "int \<Rightarrow> int" where
  "incr64 i = (if i = int64_max then - int64_max - 1 else i + 1)"

definition getNewConsumerGroupID :: "string \<Rightarrow> string outcome" where
  "getNewConsumerGroupID curGroup =
     (case suffixRegex curGroup of
        None \<Rightarrow> Ok (curGroup @ ''-1'')
      | Some (pre, sequence) \<Rightarrow>
          (case Atoi sequence of
             None \<Rightarrow> Err (Errorf (''error converting group sequence '' @ sequence @ '' to int: value out of range''))
           | Some n \<Rightarrow> Ok (pre @ ''-'' @ show_int (incr64 n))))"

definition mergeChartValues :: "ChartValues option \<Rightarrow> ChartValues option \<Rightarrow> ChartValues option outcome" where
  "mergeChartValues cur newVal =
     (case newVal of
        None \<Rightarrow> Ok cur
      | Some nv \<Rightarrow>
          (case cur of
             None \<Rightarrow> Panic nil_deref
           | Some merged \<Rightarrow>
               let newTag = TrimSpace (cv_ImageTag nv)
               in if newTag = [] then Ok (Some merged)
                  else if contains newTag '':'' \<and> \<not> HasPrefix newTag fh_imageRepo then
                    Err (invalid (''unknown image repo: '' @ sq newTag @ '', must start with '' @ sq fh_imageRepo))
                  else Ok (Some (merged\<lparr>cv_ImageTag := TrimPrefix newTag (fh_imageRepo @ '':'')\<rparr>))))"

text \<open>\<open>validateHelmReleaseConfigs\<close>: the release is built on a copy of the configuration.\<close>

definition validateHelmReleaseConfigs ::
    "'s firehoseDriver \<Rightarrow> ExpandedResource \<Rightarrow> Resource \<Rightarrow> fh_Config \<Rightarrow> unit outcome" where
  "validateHelmReleaseConfigs fd exr res config =
     (case kube_dependency exr of
        Err err \<Rightarrow> Err (kube_state_error err)
      | Panic p \<Rightarrow> Panic p
      | Overflow \<Rightarrow> Overflow
      | Ok kubeOut \<Rightarrow>
          (case fst (fhd_Release fd (fhd_conf fd) res kubeOut config) of
             Ok _ \<Rightarrow> Ok ()
           | Err e \<Rightarrow> Err e | Panic p \<Rightarrow> Panic p | Overflow \<Rightarrow> Overflow))"

text \<open>The resource with the configuration and the pending state of a plan.\<close>

definition with_config :: "Resource \<Rightarrow> fh_Config \<Rightarrow> Resource" where
  "with_config r conf = r\<lparr>res_Spec := (res_Spec r)\<lparr>sp_Configs := raw_doc (fh_Config_json conf)\<rparr>\<rparr>"

definition pending :: "time \<Rightarrow> raw \<Rightarrow> transientData \<Rightarrow> State" where
  "pending immediately out td =
     zero_State\<lparr>st_Status := StatusPending, st_Output := out, st_NextSyncAt := Some immediately,
                st_ModuleData := raw_doc (transientData_json td)\<rparr>"

text \<open>The case of \<open>UpdateAction\<close>: the new configuration.\<close>

definition plan_update ::
    "'s firehoseDriver \<Rightarrow> ExpandedResource \<Rightarrow> fh_Config \<Rightarrow> ActionRequest \<Rightarrow> fh_Config outcome" where
  "plan_update fd exr curConf act =
     (case fhd_ReadConfig fd (er_Resource exr) (act_Params act) (fhd_conf fd) of
        Err e \<Rightarrow> Err e
      | Panic p \<Rightarrow> Panic p
      | Overflow \<Rightarrow> Overflow
      | Ok newConf \<Rightarrow>
          (case mergeChartValues (fc_ChartValues curConf) (fc_ChartValues newConf) of
             Err e \<Rightarrow> Err e
           | Panic p \<Rightarrow> Panic p
           | Overflow \<Rightarrow> Overflow
           | Ok chartVals \<Rightarrow>
               (case kube_dependency exr of
                  Err err \<Rightarrow> Err (kube_state_error err)
                | Panic p \<Rightarrow> Panic p
                | Overflow \<Rightarrow> Overflow
                | Ok kubeOut \<Rightarrow>
                    let ns = (if kcf_Namespace (ko_Configs kubeOut) \<noteq> [] then kcf_Namespace (ko_Configs kubeOut)
                              else sink_override (fd_Namespace (fhd_conf fd))
                                     (get_str (fc_EnvVariables newConf) confSinkType) [])
                    in if fc_Namespace curConf \<noteq> ns \<and> \<not> fc_Stopped curConf then
                         Err (EErr (WithCausef ErrInvalid errCauseInvalidNamespaceUpdate))
                       else Ok (newConf\<lparr>fc_DeploymentID := fc_DeploymentID curConf, fc_ChartValues := chartVals,
                                        fc_Telegraf := fd_Telegraf (fhd_conf fd),
                                        fc_InitContainer := fd_InitContainer (fhd_conf fd), fc_Namespace := ns\<rparr>))))"

text \<open>A method of the autoscaler's spec, when there is an autoscaler.\<close>

definition change_autoscaler :: "(Keda \<Rightarrow> Keda) \<Rightarrow> fh_Config \<Rightarrow> fh_Config outcome" where
  "change_autoscaler f conf =
     (case fc_Autoscaler conf of
        None \<Rightarrow> Ok conf
      | Some a \<Rightarrow>
          (case on_spec (\<lambda>k. Ok (f k)) a of
             Ok a' \<Rightarrow> Ok (conf\<lparr>fc_Autoscaler := Some a'\<rparr>)
           | Err e \<Rightarrow> Err e | Panic p \<Rightarrow> Panic p | Overflow \<Rightarrow> Overflow))"

definition plan_scale :: "fh_Config \<Rightarrow> ActionRequest \<Rightarrow> fh_Config outcome" where
  "plan_scale curConf act =
     (case Unmarshal ScaleParams_fields (act_Params act) \<lparr>scp_Replicas = 0\<rparr> of
        Err err \<Rightarrow>
          Err (EErr (WithCausef (WithMsgf ErrInvalid ''invalid params for scale action'') (error_text err)))
      | Panic p \<Rightarrow> Panic p
      | Overflow \<Rightarrow> Overflow
      | Ok params \<Rightarrow>
          if scp_Replicas params < 1 then Err (invalid ''replicas must be >= 1'')
          else Ok (curConf\<lparr>fc_Replicas := scp_Replicas params\<rparr>))"

definition plan_start :: "'s firehoseDriver \<Rightarrow> fh_Config \<Rightarrow> ActionRequest \<Rightarrow> fh_Config outcome" where
  "plan_start fd curConf act =
     (case Unmarshal (StartParams_fields (fhd_ParseTime fd)) (act_Params act) \<lparr>stp_StopTime = None\<rparr> of
        Err err \<Rightarrow>
          Err (EErr (WithCausef (WithMsgf ErrInvalid ''invalid params for start action'') (error_text err)))
      | Panic p \<Rightarrow> Panic p
      | Overflow \<Rightarrow> Overflow
      | Ok params \<Rightarrow>
          change_autoscaler Keda_Resume
            (curConf\<lparr>fc_Stopped := False,
                     fc_StopTime := (if stp_StopTime params \<noteq> None then stp_StopTime params
                                     else fc_StopTime curConf)\<rparr>))"

definition plan_stop :: "fh_Config \<Rightarrow> fh_Config outcome" where
  "plan_stop curConf = change_autoscaler (Keda_Pause [0]) (curConf\<lparr>fc_Stopped := True\<rparr>)"

text \<open>The switch of \<open>planChange\<close>.\<close>

definition changed_config ::
    "'s firehoseDriver \<Rightarrow> ExpandedResource \<Rightarrow> fh_Config \<Rightarrow> ActionRequest \<Rightarrow> fh_Config outcome" where
  "changed_config fd exr curConf act =
     (if act_Name act = UpdateAction then plan_update fd exr curConf act
      else if act_Name act = ScaleAction then plan_scale curConf act
      else if act_Name act = fh_StartAction then plan_start fd curConf act
      else if act_Name act = StopAction then plan_stop curConf
      else if act_Name act = UpgradeAction then
        Ok (curConf\<lparr>fc_ChartValues := Some (fd_ChartValues (fhd_conf fd))\<rparr>)
      else Ok curConf)"

definition fh_planChange :: "'s firehoseDriver \<Rightarrow> ExpandedResource \<Rightarrow> ActionRequest \<Rightarrow> ('s, Resource) go" where
  "fh_planChange fd exr act =
     bindS (liftR (fhd_ReadConfig fd (er_Resource exr) (sp_Configs (res_Spec (er_Resource exr))) (fhd_conf fd)))
       (\<lambda>curConf0.
     bindS (liftR (changed_config fd exr curConf0 act)) (\<lambda>curConf s.
       (let r = with_config (er_Resource exr) curConf
        in bindS (liftR (validateHelmReleaseConfigs fd exr r curConf)) (\<lambda>_.
           ret (r\<lparr>res_State := pending (fhd_Now fd s) (st_Output (res_State (er_Resource exr)))
                    \<lparr>ftd_PendingSteps = [stepReleaseUpdate], ftd_ResetOffsetTo = []\<rparr>\<rparr>))) s))"

definition fh_planCreate :: "'s firehoseDriver \<Rightarrow> ExpandedResource \<Rightarrow> ActionRequest \<Rightarrow> ('s, Resource) go" where
  "fh_planCreate fd exr act =
     bindS (liftR (fhd_ReadConfig fd (er_Resource exr) (act_Params act) (fhd_conf fd))) (\<lambda>conf0.
     bindS (liftR (mergeChartValues (Some (fd_ChartValues (fhd_conf fd))) (fc_ChartValues conf0))) (\<lambda>chartVals.
     catchS (liftR (kube_dependency exr))
       (\<lambda>kubeOut s.
          (let conf = conf0\<lparr>fc_Telegraf := fd_Telegraf (fhd_conf fd), fc_ChartValues := chartVals,
                            fc_Namespace := (if kcf_Namespace (ko_Configs kubeOut) \<noteq> []
                                               then kcf_Namespace (ko_Configs kubeOut) else fc_Namespace conf0)\<rparr>;
               r = with_config (er_Resource exr) conf
           in bindS (liftR (validateHelmReleaseConfigs fd exr r conf)) (\<lambda>_.
              ret (r\<lparr>res_State := pending (fhd_Now fd s)
                       (raw_doc (fh_Output_json (zero_fh_Output
                          \<lparr>fo_Namespace := fc_Namespace conf, fo_ReleaseName := fc_DeploymentID conf\<rparr>)))
                       \<lparr>ftd_PendingSteps = [stepReleaseCreate], ftd_ResetOffsetTo = []\<rparr>\<rparr>))) s)
       (\<lambda>err. fail (kube_state_error err))))"

definition planResetV2 :: "'s firehoseDriver \<Rightarrow> ExpandedResource \<Rightarrow> ActionRequest \<Rightarrow> ('s, Resource) go" where
  "planResetV2 fd exr act =
     bindS (liftR (ParseResetV2Params (act_Params act))) (\<lambda>resetValue s.
     bindS (liftR (fhd_ReadConfig fd (er_Resource exr) (sp_Configs (res_Spec (er_Resource exr))) (fhd_conf fd)))
       (\<lambda>curConf.
     ret ((with_config (er_Resource exr) (curConf\<lparr>fc_ResetOffset := resetValue\<rparr>))
       \<lparr>res_State := pending (fhd_Now fd s) (st_Output (res_State (er_Resource exr)))
          \<lparr>ftd_PendingSteps = [stepReleaseStop, stepKafkaReset, stepReleaseUpdate],
           ftd_ResetOffsetTo = resetValue\<rparr>\<rparr>)) s)"

text \<open>
  The configuration \<open>planReset\<close> stores. A \<open>keda\<close> autoscaler whose spec is not a \<open>Keda\<close> makes it return
  nil without an error, on which the caller panics.
\<close>

definition reset_config :: "string \<Rightarrow> fh_Config \<Rightarrow> fh_Config outcome" where
  "reset_config resetValue curConf =
     (case put_env SourceKafkaConsumerAutoOffsetReset resetValue (fc_EnvVariables curConf) of
        Err e \<Rightarrow> Err e
      | Panic p \<Rightarrow> Panic p
      | Overflow \<Rightarrow> Overflow
      | Ok env1 \<Rightarrow>
          (case getNewConsumerGroupID (get_str env1 confKeyConsumerID) of
             Err e \<Rightarrow> Err e
           | Panic p \<Rightarrow> Panic p
           | Overflow \<Rightarrow> Overflow
           | Ok newGroup \<Rightarrow>
               let env = Some (put confKeyConsumerID newGroup (entries env1));
                   conf = curConf\<lparr>fc_ResetOffset := resetValue, fc_EnvVariables := env\<rparr>
               in case fc_Autoscaler conf of
                    None \<Rightarrow> Ok conf
                  | Some a \<Rightarrow>
                      if as_Type a \<noteq> KEDA then Ok conf
                      else (case on_spec (updateTriggersMetadata env) a of
                              Ok a' \<Rightarrow> Ok (conf\<lparr>fc_Autoscaler := Some a'\<rparr>)
                            | Err e \<Rightarrow> Err e | Panic p \<Rightarrow> Panic p | Overflow \<Rightarrow> Overflow)))"

definition planReset :: "'s firehoseDriver \<Rightarrow> ExpandedResource \<Rightarrow> ActionRequest \<Rightarrow> ('s, Resource) go" where
  "planReset fd exr act =
     bindS (liftR (ParseResetParams (act_Params act))) (\<lambda>resetValue s.
     bindS (liftR (fhd_ReadConfig fd (er_Resource exr) (sp_Configs (res_Spec (er_Resource exr))) (fhd_conf fd)))
       (\<lambda>curConf0.
     bindS (liftR (reset_config resetValue curConf0)) (\<lambda>curConf.
     ret ((with_config (er_Resource exr) curConf)
       \<lparr>res_State := pending (fhd_Now fd s) (st_Output (res_State (er_Resource exr)))
          \<lparr>ftd_PendingSteps = [stepReleaseStop, stepReleaseUpdate], ftd_ResetOffsetTo = []\<rparr>\<rparr>))) s)"

definition fh_Plan :: "'s firehoseDriver \<Rightarrow> ExpandedResource \<Rightarrow> ActionRequest \<Rightarrow> ('s, Resource) go" where
  "fh_Plan fd exr act =
     (if act_Name act = CreateAction then fh_planCreate fd exr act
      else if act_Name act = ResetAction then planReset fd exr act
      else if act_Name act = ResetV2Action then planResetV2 fd exr act
      else fh_planChange fd exr act)"

section \<open>Syncing\<close>

text \<open>\<open>releaseSync\<close>, with the configuration as the caller sees it afterwards.\<close>

definition releaseSync ::
    "'s firehoseDriver \<Rightarrow> Resource \<Rightarrow> bool \<Rightarrow> fh_Config \<Rightarrow> kube_Output \<Rightarrow> ('s, fh_Config) go" where
  "releaseSync fd r isCreate conf kubeOut =
     (case fhd_Release fd (fhd_conf fd) r kubeOut conf of
        (Ok rc, conf') \<Rightarrow>
          bindS (as_internal (fhd_kubeDeploy fd isCreate (ko_Configs kubeOut) rc)) (\<lambda>_. ret conf')
      | (Err e, _) \<Rightarrow> fail e
      | (Panic p, _) \<Rightarrow> panicS p
      | (Overflow, _) \<Rightarrow> overflowS)"

definition desiredStatus :: "fh_Config \<Rightarrow> string" where
  "desiredStatus conf = (if fc_Stopped conf then desiredStatusStopped else desiredStatusRunning)"

definition fh_refreshOutput ::
    "'s firehoseDriver \<Rightarrow> Resource \<Rightarrow> fh_Config \<Rightarrow> fh_Output \<Rightarrow> kube_Output \<Rightarrow> ('s, raw) go" where
  "fh_refreshOutput fd r conf output kubeOut =
     bindS (liftR (fst (fhd_Release fd (fhd_conf fd) r kubeOut conf))) (\<lambda>rc.
     bindS (as_internal (fhd_kubeGetPod fd (ko_Configs kubeOut) (hr_Namespace rc) (Some [(''app'', hr_Name rc)])))
       (\<lambda>pods.
     bindS (as_internal (fhd_kubeGetDeployment fd (ko_Configs kubeOut) (hr_Namespace rc) (fc_DeploymentID conf)))
       (\<lambda>deployment.
     ret (raw_doc (fh_Output_json (output
       \<lparr>fo_Pods := pods, fo_Namespace := fc_Namespace conf, fo_Deployment := Some deployment,
        fo_DesiredStatus := desiredStatus conf,
        fo_AutoscalerEnabled := (case fc_Autoscaler conf of None \<Rightarrow> False | Some a \<Rightarrow> as_Enabled a)\<rparr>))))))"

text \<open>The switch over the pending step.\<close>

definition fh_step ::
    "'s firehoseDriver \<Rightarrow> Resource \<Rightarrow> fh_Config \<Rightarrow> kube_Output \<Rightarrow> string \<Rightarrow> string \<Rightarrow> ('s, unit) go" where
  "fh_step fd r conf kubeOut resetTo pendingStep =
     (if pendingStep = stepReleaseCreate \<or> pendingStep = stepReleaseUpdate \<or> pendingStep = stepReleaseStop then
        bindS (liftR (if pendingStep = stepReleaseStop \<or> fc_Stopped conf
                        then change_autoscaler (Keda_Pause [0]) (conf\<lparr>fc_Replicas := 0\<rparr>) else Ok conf)) (\<lambda>conf'.
        bindS (releaseSync fd r (pendingStep = stepReleaseCreate) conf' kubeOut) (\<lambda>_. ret ()))
      else if pendingStep = stepKafkaReset then
        fhd_consumerReset fd conf kubeOut resetTo (fd_OffsetResetDelaySeconds (fhd_conf fd))
      else fail (EErr (WithMsgf ErrInternal (''unknown step: '' @ sq pendingStep))))"

text \<open>
  The check of the stop time: the configuration that is used from here on and the time of the next
  sync.
\<close>

definition stop_if_due ::
    "'s firehoseDriver \<Rightarrow> Resource \<Rightarrow> fh_Config \<Rightarrow> kube_Output \<Rightarrow> ('s, fh_Config \<times> time option) go" where
  "stop_if_due fd r conf kubeOut s =
     (case fc_StopTime conf of
        None \<Rightarrow> ret (conf, None) s
      | Some stop \<Rightarrow>
          if snd stop < fhd_Now fd s then
            bindS (releaseSync fd r False (conf\<lparr>fc_Replicas := 0, fc_Stopped := True\<rparr>) kubeOut)
              (\<lambda>conf'. ret (conf', None)) s
          else ret (conf, Some (snd stop)) s)"

definition fh_Sync :: "'s firehoseDriver \<Rightarrow> ExpandedResource \<Rightarrow> ('s, State) go" where
  "fh_Sync fd exr =
     bindS (liftR (fh_readTransientData exr)) (\<lambda>modData.
     bindS (as_internal (liftR (fh_readOutputData exr))) (\<lambda>out.
     bindS (as_internal (liftR (fhd_ReadConfig fd (er_Resource exr) (sp_Configs (res_Spec (er_Resource exr)))
              (fhd_conf fd)))) (\<lambda>conf.
     catchS (liftR (kube_dependency exr))
       (\<lambda>kubeOut.
          let finalState = zero_State\<lparr>st_Status := StatusPending,
                             st_Output := st_Output (res_State (er_Resource exr))\<rparr>
          in case ftd_PendingSteps modData of
               pendingStep # rest \<Rightarrow>
                 bindS (fh_step fd (er_Resource exr) conf kubeOut (ftd_ResetOffsetTo modData) pendingStep) (\<lambda>_ s.
                 (Ok (finalState\<lparr>st_NextSyncAt := Some (fhd_Now fd s),
                        st_ModuleData := raw_doc (transientData_json (modData\<lparr>ftd_PendingSteps := rest\<rparr>))\<rparr>), s))
             | [] \<Rightarrow>
                 bindS (stop_if_due fd (er_Resource exr) conf kubeOut) (\<lambda>(conf', nextSync).
                 bindS (fh_refreshOutput fd (er_Resource exr) conf' out kubeOut) (\<lambda>finalOut.
                 ret (finalState\<lparr>st_NextSyncAt := nextSync, st_Output := finalOut, st_Status := StatusCompleted,
                        st_ModuleData := None\<rparr>))))
       (\<lambda>err. fail (kube_state_error err)))))"

definition fh_Output_op :: "'s firehoseDriver \<Rightarrow> ExpandedResource \<Rightarrow> ('s, raw) go" where
  "fh_Output_op fd exr =
     bindS (liftR (fh_readOutputData exr)) (\<lambda>output.
     bindS (as_internal (liftR (fhd_ReadConfig fd (er_Resource exr) (sp_Configs (res_Spec (er_Resource exr)))
              (fhd_conf fd)))) (\<lambda>conf.
     catchS (liftR (kube_dependency exr)) (fh_refreshOutput fd (er_Resource exr) conf output)
       (\<lambda>err. fail (kube_state_error err))))"

definition fh_Log :: "'s firehoseDriver \<Rightarrow> ExpandedResource \<Rightarrow> string gomap \<Rightarrow> ('s, LogChunk list) go" where
  "fh_Log fd res filt =
     bindS (as_internal (liftR (fhd_ReadConfig fd (er_Resource res) (sp_Configs (res_Spec (er_Resource res)))
              (fhd_conf fd)))) (\<lambda>conf.
       let filt' = Some (put ''app'' (fc_DeploymentID conf) (entries filt))
       in catchS (liftR (kube_dependency res))
            (\<lambda>kubeOut. fhd_StreamLogs fd (ko_Configs kubeOut) (fc_Namespace conf) filt')
            (\<lambda>err. fail (internal_cause err)))"

end
