(* ===== verification/Firehose_Module.thy ===== *)
theory Firehose_Module
  imports Firehose_Driver Job_Module Worker
begin

text \<open>
  \<open>modules/firehose/module.go\<close>: the descriptor of the firehose module, with the driver over the Helm
  and Kubernetes clients. As in the job module, decoding a configuration writes into the maps that
  the copy of \<open>defaultDriverConf\<close> shares with the package variable; their content is an argument.
\<close>

section \<open>Driver configuration\<close>

record fh_shared =
  fs_Namespace :: "string gomap"
  fs_RequestsAndLimits :: "RequestsAndLimits gomap"

definition fh_usage :: UsageSpec where "fh_usage = \<lparr>us_CPU = ''200m'', us_Memory = ''512Mi''\<rparr>"

definition fh_default_maps :: fh_shared where
  "fh_default_maps =
     \<lparr>fs_Namespace = Some [(fh_defaultKey, ''firehose'')],
      fs_RequestsAndLimits = Some [(fh_defaultKey, \<lparr>rl_Limits = fh_usage, rl_Requests = fh_usage\<rparr>)]\<rparr>"

definition fh_defaultDriverConf :: "fh_shared \<Rightarrow> fh_driverConf" where
  "fh_defaultDriverConf shared =
     \<lparr>fd_Labels = None, fd_Telegraf = None, fd_Namespace = fs_Namespace shared,
      fd_ChartValues = \<lparr>cv_ImageRepository = fh_imageRepo, cv_ImageTag = ''latest'', cv_ChartVersion = ''0.1.3'',
                        cv_PullPolicy = ''IfNotPresent''\<rparr>,
      fd_Tolerations = None, fd_EnvVariables = None, fd_InitContainer = zero_InitContainer,
      fd_GCSSinkCredential = [], fd_DLQGCSSinkCredential = [], fd_BigQuerySinkCredential = [],
      fd_RequestsAndLimits = fs_RequestsAndLimits shared, fd_AffinityRequired = None, fd_AffinityPreferred = None,
      fd_OffsetResetDelaySeconds = 0, fd_KubeDeployTimeout = 0, fd_AutoscalerKeda = None\<rparr>"

definition fh_driver_conf ::
    "(fh_driverConf \<Rightarrow> struct_error option) \<Rightarrow> fh_shared \<Rightarrow> raw \<Rightarrow> fh_driverConf outcome" where
  "fh_driver_conf validate shared confJSON =
     (case Unmarshal fh_driverConf_fields confJSON (fh_defaultDriverConf shared) of
        Ok conf \<Rightarrow>
          (case TaggedStruct validate conf of
             Ok _ \<Rightarrow> Ok conf | Err e \<Rightarrow> Err e | Panic p \<Rightarrow> Panic p | Overflow \<Rightarrow> Overflow)
      | r \<Rightarrow> r)"

text \<open>The shared maps after decoding a configuration that names each of them at most once.\<close>

definition fh_defaults_after :: "fh_shared \<Rightarrow> raw \<Rightarrow> fh_shared" where
  "fh_defaults_after shared confJSON =
     (case Unmarshal fh_driverConf_fields confJSON (fh_defaultDriverConf shared) of
        Ok conf \<Rightarrow>
          \<lparr>fs_Namespace = (if fd_Namespace conf = None then fs_Namespace shared else fd_Namespace conf),
           fs_RequestsAndLimits =
             (if fd_RequestsAndLimits conf = None then fs_RequestsAndLimits shared else fd_RequestsAndLimits conf)\<rparr>
      | _ \<Rightarrow> shared)"

section \<open>The functions of the driver\<close>

text \<open>
  \<open>canUpdate\<close>: the labels of the installed release say that Entropy manages it, for the same
  deployment. The new labels are a map of strings, in which a missing key reads as empty.
\<close>

definition json_member :: "(string \<times> json) list \<Rightarrow> string \<Rightarrow> json" where
  "json_member kvs k = (case map_of kvs k of Some j \<Rightarrow> j | None \<Rightarrow> JNull)"

definition string_member :: "(string \<times> json) list \<Rightarrow> string \<Rightarrow> string" where
  "string_member kvs k = (case map_of kvs k of Some (JStr s) \<Rightarrow> s | _ \<Rightarrow> [])"

definition canUpdate :: "ReleaseConfig \<Rightarrow> helm_Release \<Rightarrow> bool" where
  "canUpdate hc rel =
     (case lookup (hrl_Config rel) labelsConfKey of
        Some (JObj curLabels) \<Rightarrow>
          (case lookup (hr_Values hc) labelsConfKey of
             Some (JObj newLabels) \<Rightarrow>
               json_member curLabels labelOrchestrator = JStr orchestratorLabelValue \<and>
               json_member curLabels labelDeployment = JStr (string_member newLabels labelDeployment)
           | _ \<Rightarrow> False)
      | _ \<Rightarrow> False)"

definition fh_kubeDeploy ::
    "'s helm_API \<Rightarrow> bool \<Rightarrow> kube_Config \<Rightarrow> ReleaseConfig \<Rightarrow> ('s, unit) go" where
  "fh_kubeDeploy hm isCreate kubeConf hc =
     bindS (Upsert hm \<lparr>hcf_HelmDriver = [], hcf_Kubernetes = kubeConf\<rparr> hc (canUpdate hc)) (\<lambda>_. ret ())"

definition kube_client_failed :: "string \<Rightarrow> gerror \<Rightarrow> gerror" where
  "kube_client_failed msg err = EErr (WithCausef (WithMsgf ErrInternal msg) (error_text err))"

text \<open>
  A pod is listed when it is running and not marked for deletion; \<open>deleting\<close> tells whether its
  deletion time is set.
\<close>

definition fh_kubeGetPod ::
    "'s kube_API \<Rightarrow> (v1_Pod \<Rightarrow> bool) \<Rightarrow> kube_Config \<Rightarrow> string \<Rightarrow> string gomap \<Rightarrow> ('s, kube_Pod list) go" where
  "fh_kubeGetPod api deleting conf ns podLabels =
     catchS (NewClient api conf)
       (\<lambda>kubeCl. GetPodDetails api kubeCl ns podLabels (\<lambda>pod. v1p_Phase pod = ''Running'' \<and> \<not> deleting pod))
       (\<lambda>err. fail (kube_client_failed ''failed to create new kube client on firehose driver kube get pod'' err))"

definition fh_kubeGetDeployment ::
    "'s kube_API \<Rightarrow> kube_Config \<Rightarrow> string \<Rightarrow> string \<Rightarrow> ('s, kube_Deployment) go" where
  "fh_kubeGetDeployment api conf ns name =
     catchS (NewClient api conf) (\<lambda>kubeCl. GetDeploymentDetails api kubeCl ns name)
       (\<lambda>err. fail (kube_client_failed
          ''failed to create new kube client on firehose driver kube get deployment'' err))"

definition fh_StreamLogs ::
    "'s kube_API \<Rightarrow> kube_Config \<Rightarrow> string \<Rightarrow> string gomap \<Rightarrow> ('s, LogChunk list) go" where
  "fh_StreamLogs api conf ns filt =
     catchS (NewClient api conf) (\<lambda>kubeCl. kube_StreamLogs api kubeCl ns filt)
       (\<lambda>err. fail (kube_client_failed ''failed to create new kube client on firehose driver Log'' err))"

section \<open>Resetting the consumer group\<close>

definition networkErrorRetryDuration :: int where "networkErrorRetryDuration = 5 * 1000000000"
definition kubeAPIRetryBackoffDuration :: int where "kubeAPIRetryBackoffDuration = 30 * 1000000000"
definition contextCancellationBackoffDuration :: int where
  "contextCancellationBackoffDuration = 30 * 1000000000"

text \<open>The switch over the error of \<open>DoReset\<close>.\<close>

definition reset_error :: "gerror \<Rightarrow> gerror" where
  "reset_error err =
     (if errors_Is err (EErr ErrJobCreationFailed) then WithCause err networkErrorRetryDuration
      else if errors_Is err (EErr ErrJobNotFound) then WithCause err kubeAPIRetryBackoffDuration
      else if errors_Is err (EErr ErrJobExecutionFailed) then WithCause err kubeAPIRetryBackoffDuration
      else err)"

text \<open>
  \<open>wait\<close> sleeps for the given time and tells whether the context was cancelled meanwhile. \<open>DoReset\<close>
  polls until the job has ended; a job that outlasts \<open>polls\<close> polls makes the call one that does not
  return, the value \<open>Overflow\<close>.
\<close>

definition consumerReset ::
    "'s kube_API \<Rightarrow> nat \<Rightarrow> (v1_Job \<Rightarrow> string) \<Rightarrow> (int \<Rightarrow> ('s, bool) go) \<Rightarrow> fh_Config \<Rightarrow> kube_Output \<Rightarrow> string \<Rightarrow>
     int \<Rightarrow> ('s, unit) go" where
  "consumerReset api polls status wait conf out resetTo offsetResetDelaySeconds =
     (let brokerAddr = get_str (fc_EnvVariables conf) confKeyKafkaBrokers;
          consumerID = get_str (fc_EnvVariables conf) confKeyConsumerID
      in bindS (NewClient api (ko_Configs out)) (\<lambda>kubeClient.
         bindS (wait (seconds offsetResetDelaySeconds)) (\<lambda>cancelled.
         if cancelled then
           fail (WithCause (PlainErr ''context cancelled while reset'') contextCancellationBackoffDuration)
         else
           catchS (DoReset api polls status kubeClient (fc_Namespace conf) brokerAddr consumerID resetTo
                     (fc_DeploymentID conf))
             (\<lambda>ended. case ended of Some _ \<Rightarrow> ret () | None \<Rightarrow> overflowS)
             (\<lambda>err. fail (reset_error err)))))"

section \<open>The module\<close>

text \<open>What the driver needs of the world: the two libraries, the clock, and the parameters of the parts.\<close>

record 's fh_env =
  fe_kube :: "'s kube_API"
  fe_helm :: "'s helm_API"
  fe_polls :: nat
  fe_job_status :: "v1_Job \<Rightarrow> string"
  fe_wait :: "int \<Rightarrow> ('s, bool) go"
  fe_deleting :: "v1_Pod \<Rightarrow> bool"
  fe_Now :: "'s \<Rightarrow> time"
  fe_ParseTime :: "string \<Rightarrow> rfc_time option"
  fe_sha256 :: "string \<Rightarrow> string"
  fe_validateConfig :: "raw \<Rightarrow> unit outcome"
  fe_engine :: engine
  fe_release_defaults :: ReleaseConfig

definition firehose_driver :: "'s fh_env \<Rightarrow> fh_driverConf \<Rightarrow> 's firehoseDriver" where
  "firehose_driver env conf =
     \<lparr>fhd_conf = conf,
      fhd_kubeDeploy = fh_kubeDeploy (fe_helm env),
      fhd_kubeGetPod = fh_kubeGetPod (fe_kube env) (fe_deleting env),
      fhd_kubeGetDeployment = fh_kubeGetDeployment (fe_kube env),
      fhd_consumerReset = consumerReset (fe_kube env) (fe_polls env) (fe_job_status env) (fe_wait env),
      fhd_StreamLogs = fh_StreamLogs (fe_kube env),
      fhd_ParseTime = fe_ParseTime env,
      fhd_ReadConfig = fh_readConfig (fe_ParseTime env) (fe_sha256 env) (fe_validateConfig env),
      fhd_Release = getHelmRelease (fe_engine env) (fe_release_defaults env),
      fhd_Now = fe_Now env\<rparr>"

definition firehose_module_driver :: "'s firehoseDriver \<Rightarrow> 's Driver" where
  "firehose_module_driver fd =
     \<lparr>dr_Plan = plan_only (fh_Plan fd), dr_Sync = fh_Sync fd, dr_Output = fh_Output_op fd, dr_Log = Some (fh_Log fd)\<rparr>"

definition firehose_Module ::
    "'s fh_env \<Rightarrow> (fh_driverConf \<Rightarrow> struct_error option) \<Rightarrow> fh_shared \<Rightarrow> 's Descriptor" where
  "firehose_Module env validate shared =
     \<lparr>desc_Kind = ''firehose'',
      desc_Actions =
        [described_action CreateAction ''Creates a new firehose'',
         described_action UpdateAction ''Update all configurations of firehose'',
         described_action ResetAction ''Stop firehose, reset consumer group, restart'',
         described_action ResetV2Action ''Stop firehose, reset consumer group, restart with datetime option'',
         described_action StopAction ''Stop all replicas of this firehose.'',
         described_action fh_StartAction ''Start the firehose if it is currently stopped.'',
         described_action ScaleAction ''Scale the number of replicas to given number.'',
         described_action UpgradeAction ''Upgrade firehose version''],
      desc_Dependencies = Some [(KeyKubeDependency, ''kubernetes'')],
      desc_DriverFactory = (\<lambda>confJSON.
        case fh_driver_conf validate shared confJSON of
          Ok conf \<Rightarrow> Ok (firehose_module_driver (firehose_driver env conf))
        | Err e \<Rightarrow> Err e
        | Panic p \<Rightarrow> Panic p
        | Overflow \<Rightarrow> Overflow)\<rparr>"

end
