(* ===== verification/Driver_Flink.thy ===== *)
theory Driver_Flink
  imports Driver_Job
begin

text \<open>
  \<open>modules/flink\<close>: a resource that stands for a Flink setup on a Kubernetes cluster. It acts on nothing
  outside: \<open>Plan\<close> completes the configuration from that of the module and copies it, with the output of
  the cluster it depends on, to its own output, which daggers read.
\<close>

section \<open>Configuration\<close>

record Influx =
  ifx_URL :: string
  ifx_Username :: string
  ifx_Password :: string
  ifx_DatabaseName :: string

record flink_Config =
  flc_KubeNamespace :: string
  flc_Influx :: Influx
  flc_SinkKafkaStream :: string
  flc_PrometheusURL :: string
  flc_FlinkName :: string
  flc_ExtraStreams :: "string list"

record flink_driverConf =
  fld_Influx :: Influx
  fld_SinkKafkaStream :: string
  fld_KubeNamespace :: string
  fld_PrometheusURL :: string
  fld_FlinkName :: string

record flinkDriver =
  fkd_conf :: flink_driverConf

definition zero_Influx :: Influx where
  "zero_Influx = \<lparr>ifx_URL = [], ifx_Username = [], ifx_Password = [], ifx_DatabaseName = []\<rparr>"

definition zero_flink_Config :: flink_Config where
  "zero_flink_Config = \<lparr>flc_KubeNamespace = [], flc_Influx = zero_Influx, flc_SinkKafkaStream = [],
     flc_PrometheusURL = [], flc_FlinkName = [], flc_ExtraStreams = []\<rparr>"

definition zero_flink_driverConf :: flink_driverConf where
  "zero_flink_driverConf = \<lparr>fld_Influx = zero_Influx, fld_SinkKafkaStream = [], fld_KubeNamespace = [],
     fld_PrometheusURL = [], fld_FlinkName = []\<rparr>"

definition Influx_fields :: "(string \<times> Influx setter) list" where
  "Influx_fields =
     [(''url'', set_str ifx_URL_update), (''username'', set_str ifx_Username_update),
      (''password'', set_str ifx_Password_update), (''database_name'', set_str ifx_DatabaseName_update)]"

definition Influx_json :: "Influx \<Rightarrow> json" where
  "Influx_json i =
     JObj (omit_empty_str ''url'' (ifx_URL i) @ omit_empty_str ''username'' (ifx_Username i) @
           omit_empty_str ''password'' (ifx_Password i) @ omit_empty_str ''database_name'' (ifx_DatabaseName i))"

definition flink_Config_fields :: "(string \<times> flink_Config setter) list" where
  "flink_Config_fields =
     [(''kube_namespace'', set_str flc_KubeNamespace_update),
      (''influx'', set_obj Influx_fields flc_Influx flc_Influx_update),
      (''sink_kafka_stream'', set_str flc_SinkKafkaStream_update),
      (''prometheus_url'', set_str flc_PrometheusURL_update), (''flink_name'', set_str flc_FlinkName_update),
      (''extra_streams'', set_strs flc_ExtraStreams_update)]"

definition flink_Config_json :: "flink_Config \<Rightarrow> json" where
  "flink_Config_json c =
     JObj (omit_empty_str ''kube_namespace'' (flc_KubeNamespace c) @ [(''influx'', Influx_json (flc_Influx c))] @
           omit_empty_str ''sink_kafka_stream'' (flc_SinkKafkaStream c) @
           omit_empty_str ''prometheus_url'' (flc_PrometheusURL c) @
           omit_empty_str ''flink_name'' (flc_FlinkName c) @
           omit_empty_list ''extra_streams'' JStr (flc_ExtraStreams c))"

text \<open>An empty text is replaced by the default.\<close>

definition or_text :: "string \<Rightarrow> string \<Rightarrow> string" where
  "or_text s d = (if s = [] then d else s)"

definition flink_readConfig :: "raw \<Rightarrow> flink_driverConf \<Rightarrow> flink_Config outcome" where
  "flink_readConfig confJSON dc =
     (case Unmarshal flink_Config_fields confJSON zero_flink_Config of
        Err err \<Rightarrow> Err (EErr (WithCausef (WithMsgf ErrInvalid ''invalid config json'') (error_text err)))
      | Panic p \<Rightarrow> Panic p
      | Overflow \<Rightarrow> Overflow
      | Ok cfg \<Rightarrow>
          Ok (cfg\<lparr>flc_Influx := (if ifx_URL (flc_Influx cfg) = [] then fld_Influx dc else flc_Influx cfg),
                  flc_SinkKafkaStream := or_text (flc_SinkKafkaStream cfg) (fld_SinkKafkaStream dc),
                  flc_KubeNamespace := or_text (flc_KubeNamespace cfg) (fld_KubeNamespace dc),
                  flc_PrometheusURL := or_text (flc_PrometheusURL cfg) (fld_PrometheusURL dc),
                  flc_FlinkName := or_text (flc_FlinkName cfg) (fld_FlinkName dc)\<rparr>))"

section \<open>Output\<close>

record flink_Output =
  flo_KubeCluster :: kube_Output
  flo_KubeNamespace :: string
  flo_Influx :: Influx
  flo_SinkKafkaStream :: string
  flo_PrometheusURL :: string
  flo_FlinkName :: string
  flo_ExtraStreams :: "string list"

definition zero_flink_Output :: flink_Output where
  "zero_flink_Output =
     \<lparr>flo_KubeCluster = zero_kube_Output, flo_KubeNamespace = [], flo_Influx = zero_Influx,
      flo_SinkKafkaStream = [], flo_PrometheusURL = [], flo_FlinkName = [], flo_ExtraStreams = []\<rparr>"

definition flink_Output_fields :: "(string \<times> flink_Output setter) list" where
  "flink_Output_fields =
     [(''kube_cluster'', set_obj kube_Output_fields flo_KubeCluster flo_KubeCluster_update),
      (''kube_namespace'', set_str flo_KubeNamespace_update),
      (''influx'', set_obj Influx_fields flo_Influx flo_Influx_update),
      (''sink_kafka_stream'', set_str flo_SinkKafkaStream_update),
      (''prometheus_url'', set_str flo_PrometheusURL_update), (''flink_name'', set_str flo_FlinkName_update),
      (''extra_streams'', set_strs flo_ExtraStreams_update)]"

definition flink_Output_json :: "flink_Output \<Rightarrow> json" where
  "flink_Output_json out =
     JObj ([(''kube_cluster'', kube_Output_json (flo_KubeCluster out))] @
           omit_empty_str ''kube_namespace'' (flo_KubeNamespace out) @ [(''influx'', Influx_json (flo_Influx out))] @
           omit_empty_str ''sink_kafka_stream'' (flo_SinkKafkaStream out) @
           omit_empty_str ''prometheus_url'' (flo_PrometheusURL out) @
           omit_empty_str ''flink_name'' (flo_FlinkName out) @
           omit_empty_list ''extra_streams'' JStr (flo_ExtraStreams out))"

definition flink_readOutputData :: "ExpandedResource \<Rightarrow> flink_Output outcome" where
  "flink_readOutputData exr =
     (if raw_empty (st_Output (res_State (er_Resource exr))) then Ok zero_flink_Output
      else case Unmarshal flink_Output_fields (st_Output (res_State (er_Resource exr))) zero_flink_Output of
             Err err \<Rightarrow> Err (EErr (WithCausef (WithMsgf ErrInternal ''corrupted output'') (error_text err)))
           | r \<Rightarrow> r)"

section \<open>Driver\<close>

text \<open>
  The driver is a pointer to a struct, nil when the configuration of the module is the JSON text \<open>null\<close>;
  reading its configuration then panics.
\<close>

definition flink_conf :: "flinkDriver option \<Rightarrow> flink_driverConf outcome" where
  "flink_conf fd = (case fd of None \<Rightarrow> Panic nil_dereference | Some d \<Rightarrow> Ok (fkd_conf d))"

definition flink_Output_op :: "flinkDriver option \<Rightarrow> ExpandedResource \<Rightarrow> ('s, raw) go" where
  "flink_Output_op fd exr =
     bindS (liftR (flink_readOutputData exr)) (\<lambda>output.
     bindS (liftR (flink_conf fd)) (\<lambda>dc.
     catchS (liftR (flink_readConfig (sp_Configs (res_Spec (er_Resource exr))) dc))
       (\<lambda>conf.
          catchS (liftR (kube_dependency exr))
            (\<lambda>kubeOut.
               ret (raw_doc (flink_Output_json (output
                 \<lparr>flo_KubeCluster := kubeOut, flo_Influx := flc_Influx conf, flo_KubeNamespace := flc_KubeNamespace conf,
                  flo_SinkKafkaStream := flc_SinkKafkaStream conf, flo_PrometheusURL := flc_PrometheusURL conf,
                  flo_FlinkName := flc_FlinkName conf, flo_ExtraStreams := flc_ExtraStreams conf\<rparr>))))
            (\<lambda>err. fail (kube_state_error err)))
       (\<lambda>err. if errors_Is err (EErr ErrInvalid) then fail err else fail (internal_cause err))))"

definition flink_Plan :: "flinkDriver option \<Rightarrow> ExpandedResource \<Rightarrow> ActionRequest \<Rightarrow> ('s, Resource) go" where
  "flink_Plan fd res act =
     (let r0 = er_Resource res
      in bindS (liftR (flink_conf fd)) (\<lambda>dc.
         bindS (liftR (flink_readConfig (act_Params act) dc)) (\<lambda>conf.
         let r = r0\<lparr>res_Spec := \<lparr>sp_Configs = raw_doc (flink_Config_json conf),
                                 sp_Dependencies = sp_Dependencies (res_Spec r0)\<rparr>\<rparr>
         in bindS (flink_Output_op fd (res\<lparr>er_Resource := r\<rparr>)) (\<lambda>output.
            ret (r\<lparr>res_State := zero_State\<lparr>st_Status := StatusCompleted, st_Output := output\<rparr>\<rparr>)))))"

definition flink_Sync :: "ExpandedResource \<Rightarrow> ('s, State) go" where
  "flink_Sync res =
     ret (zero_State\<lparr>st_Status := StatusCompleted, st_Output := st_Output (res_State (er_Resource res)),
                     st_ModuleData := None\<rparr>)"

definition flink_driver :: "flinkDriver option \<Rightarrow> 's Driver" where
  "flink_driver fd =
     \<lparr>dr_Plan = plan_only (flink_Plan fd), dr_Sync = flink_Sync, dr_Output = flink_Output_op fd, dr_Log = None\<rparr>"

text \<open>
  The factory decodes the configuration into a struct whose only field is not exported, so the decoder
  finds no field to set.
\<close>

definition flinkDriver_fields :: "(string \<times> flinkDriver setter) list" where
  "flinkDriver_fields = []"

definition flink_Module :: "'s Descriptor" where
  "flink_Module =
     \<lparr>desc_Kind = ''flink'', desc_Actions = [plain_action CreateAction, plain_action UpdateAction],
      desc_Dependencies = None,
      desc_DriverFactory = (\<lambda>conf.
        if json_parse conf = Ok JNull then Ok (flink_driver None)
        else case Unmarshal flinkDriver_fields conf \<lparr>fkd_conf = zero_flink_driverConf\<rparr> of
          Ok fd \<Rightarrow> Ok (flink_driver (Some fd))
        | Err err \<Rightarrow> Err (invalid (''failed to unmarshal module config: '' @ error_text err))
        | Panic p \<Rightarrow> Panic p
        | Overflow \<Rightarrow> Overflow)\<rparr>"

end
