(* ===== verification/Dagger_Types.thy ===== *)
theory Dagger_Types
  imports Firehose_Module Driver_Flink Go_Text
begin

text \<open>
  \<open>modules/dagger\<close>: the structs of the configuration, the driver configuration, the output and the
  transient data, and how they are read from and written as JSON. Embedded structs are fields of the
  record that embeds them, and their members are members of its JSON form. As for firehoses a
  \<open>time.Time\<close> holds the instant with the text it prints as. A value of type \<open>any\<close> is the document it prints to.
\<close>

section \<open>Structs\<close>

record dg_Resources =
  dgr_TaskManager :: UsageSpec
  dgr_JobManager :: UsageSpec

record dg_ChartValues =
  dcv_ImageRepository :: string
  dcv_ImageTag :: string
  dcv_ChartVersion :: string
  dcv_ImagePullPolicy :: string

record SourceDetail =
  sd_SourceName :: string
  sd_SourceType :: string

record SourceKafka =
  sk_AutoCommitEnable :: string
  sk_AutoOffsetReset :: string
  sk_TopicNames :: string
  sk_Name :: string
  sk_GroupID :: string
  sk_BootstrapServers :: string

record SinkKafka =
  snk_Brokers :: string
  snk_Stream :: string
  snk_Topic :: string
  snk_ProtoMsg :: string
  snk_LingerMs :: string
  snk_ProtoKey :: string
  snk_ProduceLargeMessageEnable :: string

record SinkInflux =
  sni_BatchSize :: string
  sni_DBName :: string
  sni_FlushDurationMs :: string
  sni_Password :: string
  sni_RetentionPolicy :: string
  sni_URL :: string
  sni_Username :: string
  sni_MeasurementName :: string

record SinkBigquery =
  snb_TablePartitionExpiryMs :: string
  snb_RowInsertIDEnable :: string
  snb_ClientReadTimeoutMs :: string
  snb_ClientConnectTimeoutMs :: string
  snb_CredentialPath :: string
  snb_GoogleCloudProjectID :: string
  snb_TableName :: string
  snb_DatasetLabels :: string
  snb_TableLabels :: string
  snb_DatasetName :: string
  snb_TablePartitioningEnable :: string
  snb_TablePartitionKey :: string
  snb_DatasetLocation :: string
  snb_BatchSize :: string
  snb_TableClusteringEnable :: string
  snb_TableClusteringKeys :: string
  snb_SinkErrorTypesForFailure :: string
  snb_SinkConnectorSchemaProtoMessageClass :: string

record SourceParquet =
  sp_FileDateRange :: json
  sp_FilePaths :: "string list option"

record Source =
  so_InputSchemaProtoClass :: string
  so_InputSchemaEventTimestampFieldIndex :: string
  so_SourceDetails :: "SourceDetail list option"
  so_InputSchemaTable :: string
  so_Kafka :: SourceKafka
  so_Parquet :: SourceParquet

record Sink =
  si_Kafka :: SinkKafka
  si_Influx :: SinkInflux
  si_Bigquery :: SinkBigquery

record dg_Config =
  dc_Resources :: dg_Resources
  dc_Source :: "Source list"
  dc_Sink :: Sink
  dc_EnvVariables :: "string gomap"
  dc_Replicas :: int
  dc_SinkType :: string
  dc_Team :: string
  dc_FlinkName :: string
  dc_DeploymentID :: string
  dc_Savepoint :: json
  dc_ChartValues :: "dg_ChartValues option"
  dc_Deleted :: bool
  dc_Namespace :: string
  dc_PrometheusURL :: string
  dc_JarURI :: string
  dc_State :: string
  dc_JobState :: string
  dc_ResetOffset :: string
  dc_StopTime :: "rfc_time option"
  dc_DaggerCheckpointURL :: string
  dc_DaggerSavepointURL :: string
  dc_DaggerK8sHAURL :: string
  dc_CloudProvider :: string
  dc_FSOSSEndpoint :: string

record dg_driverConf =
  dd_Labels :: "string gomap"
  dd_Namespace :: "string gomap"
  dd_ChartValues :: dg_ChartValues
  dd_EnvVariables :: "string gomap"
  dd_Resources :: dg_Resources
  dd_JarURI :: string
  dd_DaggerCheckpointURL :: string
  dd_DaggerSavepointURL :: string
  dd_DaggerK8sHAURL :: string
  dd_CloudProvider :: string
  dd_FSOSSEndpoint :: string
  dd_KubeDeployTimeout :: int
  dd_AffinityRequired :: "Preference list option"
  dd_AffinityPreferred :: "WeightedPreference list option"

text \<open>
  The nested struct \<open>NodeAffinityMatchExpressions\<close> of the driver configuration is flattened into the last
  two fields, which tell nil from empty.
\<close>

section \<open>Zero values\<close>

definition zero_SourceKafka :: SourceKafka where
  "zero_SourceKafka =
     \<lparr>sk_AutoCommitEnable = [], sk_AutoOffsetReset = [], sk_TopicNames = [], sk_Name = [], sk_GroupID = [],
      sk_BootstrapServers = []\<rparr>"

definition zero_SinkKafka :: SinkKafka where
  "zero_SinkKafka =
     \<lparr>snk_Brokers = [], snk_Stream = [], snk_Topic = [], snk_ProtoMsg = [], snk_LingerMs = [],
      snk_ProtoKey = [], snk_ProduceLargeMessageEnable = []\<rparr>"

definition zero_SinkInflux :: SinkInflux where
  "zero_SinkInflux =
     \<lparr>sni_BatchSize = [], sni_DBName = [], sni_FlushDurationMs = [], sni_Password = [],
      sni_RetentionPolicy = [], sni_URL = [], sni_Username = [], sni_MeasurementName = []\<rparr>"

definition zero_SinkBigquery :: SinkBigquery where
  "zero_SinkBigquery =
     \<lparr>snb_TablePartitionExpiryMs = [], snb_RowInsertIDEnable = [], snb_ClientReadTimeoutMs = [],
      snb_ClientConnectTimeoutMs = [], snb_CredentialPath = [], snb_GoogleCloudProjectID = [],
      snb_TableName = [], snb_DatasetLabels = [], snb_TableLabels = [], snb_DatasetName = [],
      snb_TablePartitioningEnable = [], snb_TablePartitionKey = [], snb_DatasetLocation = [],
      snb_BatchSize = [], snb_TableClusteringEnable = [], snb_TableClusteringKeys = [],
      snb_SinkErrorTypesForFailure = [], snb_SinkConnectorSchemaProtoMessageClass = []\<rparr>"

definition zero_dg_Resources :: dg_Resources where
  "zero_dg_Resources = \<lparr>dgr_TaskManager = zero_UsageSpec, dgr_JobManager = zero_UsageSpec\<rparr>"

definition zero_dg_ChartValues :: dg_ChartValues where
  "zero_dg_ChartValues =
     \<lparr>dcv_ImageRepository = [], dcv_ImageTag = [], dcv_ChartVersion = [], dcv_ImagePullPolicy = []\<rparr>"

definition zero_SourceDetail :: SourceDetail where
  "zero_SourceDetail = \<lparr>sd_SourceName = [], sd_SourceType = []\<rparr>"

definition zero_Source :: Source where
  "zero_Source =
     \<lparr>so_InputSchemaProtoClass = [], so_InputSchemaEventTimestampFieldIndex = [], so_SourceDetails = None,
      so_InputSchemaTable = [], so_Kafka = zero_SourceKafka,
      so_Parquet = \<lparr>sp_FileDateRange = JNull, sp_FilePaths = None\<rparr>\<rparr>"

definition zero_Sink :: Sink where
  "zero_Sink = \<lparr>si_Kafka = zero_SinkKafka, si_Influx = zero_SinkInflux, si_Bigquery = zero_SinkBigquery\<rparr>"

definition zero_dg_Config :: dg_Config where
  "zero_dg_Config =
     \<lparr>dc_Resources = zero_dg_Resources, dc_Source = [], dc_Sink = zero_Sink, dc_EnvVariables = None, dc_Replicas = 0,
      dc_SinkType = [], dc_Team = [], dc_FlinkName = [], dc_DeploymentID = [], dc_Savepoint = JNull,
      dc_ChartValues = None, dc_Deleted = False, dc_Namespace = [], dc_PrometheusURL = [], dc_JarURI = [],
      dc_State = [], dc_JobState = [], dc_ResetOffset = [], dc_StopTime = None, dc_DaggerCheckpointURL = [],
      dc_DaggerSavepointURL = [], dc_DaggerK8sHAURL = [], dc_CloudProvider = [], dc_FSOSSEndpoint = []\<rparr>"

section \<open>Reading JSON\<close>

text \<open>
  A field of type \<open>any\<close>: \<open>null\<close> is the nil interface, objects become maps, whose keys print in order and of
  which the last of equal ones stays; numbers are kept as written.
\<close>

fun any_value :: "json \<Rightarrow> json" where
  "any_value (JArr js) = JArr (map any_value js)"
| "any_value (JObj kvs) = JObj (sort_key fst (put_all (map (\<lambda>(k, j). (k, any_value j)) kvs) []))"
| "any_value j = j"

definition set_any :: "((json \<Rightarrow> json) \<Rightarrow> 'r \<Rightarrow> 'r) \<Rightarrow> 'r setter" where
  "set_any upd j r = Some (upd (\<lambda>_. any_value j) r)"

definition dg_UsageSpec_fields :: "(string \<times> UsageSpec setter) list" where
  "dg_UsageSpec_fields = [(''cpu'', set_str us_CPU_update), (''memory'', set_str us_Memory_update)]"

definition dg_Resources_fields :: "(string \<times> dg_Resources setter) list" where
  "dg_Resources_fields =
     [(''taskmanager'', set_obj dg_UsageSpec_fields dgr_TaskManager dgr_TaskManager_update),
      (''jobmanager'', set_obj dg_UsageSpec_fields dgr_JobManager dgr_JobManager_update)]"

definition dg_ChartValues_fields :: "(string \<times> dg_ChartValues setter) list" where
  "dg_ChartValues_fields =
     [(''image_repository'', set_str dcv_ImageRepository_update), (''image_tag'', set_str dcv_ImageTag_update),
      (''chart_version'', set_str dcv_ChartVersion_update),
      (''image_pull_policy'', set_str dcv_ImagePullPolicy_update)]"

definition SourceDetail_fields :: "(string \<times> SourceDetail setter) list" where
  "SourceDetail_fields =
     [(''SOURCE_NAME'', set_str sd_SourceName_update), (''SOURCE_TYPE'', set_str sd_SourceType_update)]"

definition SourceKafka_fields :: "(string \<times> Source setter) list" where
  "SourceKafka_fields =
     [
      (''SOURCE_KAFKA_CONSUMER_CONFIG_AUTO_COMMIT_ENABLE'', set_str (\<lambda>f. so_Kafka_update (sk_AutoCommitEnable_update f))),
      (''SOURCE_KAFKA_CONSUMER_CONFIG_AUTO_OFFSET_RESET'', set_str (\<lambda>f. so_Kafka_update (sk_AutoOffsetReset_update f))),
      (''SOURCE_KAFKA_TOPIC_NAMES'', set_str (\<lambda>f. so_Kafka_update (sk_TopicNames_update f))),
      (''SOURCE_KAFKA_NAME'', set_str (\<lambda>f. so_Kafka_update (sk_Name_update f))),
      (''SOURCE_KAFKA_CONSUMER_CONFIG_GROUP_ID'', set_str (\<lambda>f. so_Kafka_update (sk_GroupID_update f))),
      (''SOURCE_KAFKA_CONSUMER_CONFIG_BOOTSTRAP_SERVERS'', set_str (\<lambda>f. so_Kafka_update (sk_BootstrapServers_update f)))]"

definition SinkKafka_fields :: "(string \<times> Sink setter) list" where
  "SinkKafka_fields =
     [(''SINK_KAFKA_BROKERS'', set_str (\<lambda>f. si_Kafka_update (snk_Brokers_update f))),
      (''SINK_KAFKA_STREAM'', set_str (\<lambda>f. si_Kafka_update (snk_Stream_update f))),
      (''SINK_KAFKA_TOPIC'', set_str (\<lambda>f. si_Kafka_update (snk_Topic_update f))),
      (''SINK_KAFKA_PROTO_MESSAGE'', set_str (\<lambda>f. si_Kafka_update (snk_ProtoMsg_update f))),
      (''SINK_KAFKA_LINGER_MS'', set_str (\<lambda>f. si_Kafka_update (snk_LingerMs_update f))),
      (''SINK_KAFKA_PROTO_KEY'', set_str (\<lambda>f. si_Kafka_update (snk_ProtoKey_update f))),
      (''SINK_KAFKA_PRODUCE_LARGE_MESSAGE_ENABLE'', set_str (\<lambda>f. si_Kafka_update (snk_ProduceLargeMessageEnable_update f)))]"

definition SinkInflux_fields :: "(string \<times> Sink setter) list" where
  "SinkInflux_fields =
     [(''SINK_INFLUX_BATCH_SIZE'', set_str (\<lambda>f. si_Influx_update (sni_BatchSize_update f))),
      (''SINK_INFLUX_DB_NAME'', set_str (\<lambda>f. si_Influx_update (sni_DBName_update f))),
      (''SINK_INFLUX_FLUSH_DURATION_MS'', set_str (\<lambda>f. si_Influx_update (sni_FlushDurationMs_update f))),
      (''SINK_INFLUX_PASSWORD'', set_str (\<lambda>f. si_Influx_update (sni_Password_update f))),
      (''SINK_INFLUX_RETENTION_POLICY'', set_str (\<lambda>f. si_Influx_update (sni_RetentionPolicy_update f))),
      (''SINK_INFLUX_URL'', set_str (\<lambda>f. si_Influx_update (sni_URL_update f))),
      (''SINK_INFLUX_USERNAME'', set_str (\<lambda>f. si_Influx_update (sni_Username_update f))),
      (''SINK_INFLUX_MEASUREMENT_NAME'', set_str (\<lambda>f. si_Influx_update (sni_MeasurementName_update f)))]"

definition SinkBigquery_fields :: "(string \<times> Sink setter) list" where
  "SinkBigquery_fields =
     [
      (''SINK_BIGQUERY_TABLE_PARTITION_EXPIRY_MS'', set_str (\<lambda>f. si_Bigquery_update (snb_TablePartitionExpiryMs_update f))),
      (''SINK_BIGQUERY_ROW_INSERT_ID_ENABLE'', set_str (\<lambda>f. si_Bigquery_update (snb_RowInsertIDEnable_update f))),
      (''SINK_BIGQUERY_CLIENT_READ_TIMEOUT_MS'', set_str (\<lambda>f. si_Bigquery_update (snb_ClientReadTimeoutMs_update f))),
      (''SINK_BIGQUERY_CLIENT_CONNECT_TIMEOUT_MS'', set_str (\<lambda>f. si_Bigquery_update (snb_ClientConnectTimeoutMs_update f))),
      (''SINK_BIGQUERY_CREDENTIAL_PATH'', set_str (\<lambda>f. si_Bigquery_update (snb_CredentialPath_update f))),
      (''SINK_BIGQUERY_GOOGLE_CLOUD_PROJECT_ID'', set_str (\<lambda>f. si_Bigquery_update (snb_GoogleCloudProjectID_update f))),
      (''SINK_BIGQUERY_TABLE_NAME'', set_str (\<lambda>f. si_Bigquery_update (snb_TableName_update f))),
      (''SINK_BIGQUERY_DATASET_LABELS'', set_str (\<lambda>f. si_Bigquery_update (snb_DatasetLabels_update f))),
      (''SINK_BIGQUERY_TABLE_LABELS'', set_str (\<lambda>f. si_Bigquery_update (snb_TableLabels_update f))),
      (''SINK_BIGQUERY_DATASET_NAME'', set_str (\<lambda>f. si_Bigquery_update (snb_DatasetName_update f))),
      (''SINK_BIGQUERY_TABLE_PARTITIONING_ENABLE'', set_str (\<lambda>f. si_Bigquery_update (snb_TablePartitioningEnable_update f))),
      (''SINK_BIGQUERY_TABLE_PARTITION_KEY'', set_str (\<lambda>f. si_Bigquery_update (snb_TablePartitionKey_update f))),
      (''SINK_BIGQUERY_DATASET_LOCATION'', set_str (\<lambda>f. si_Bigquery_update (snb_DatasetLocation_update f))),
      (''SINK_BIGQUERY_BATCH_SIZE'', set_str (\<lambda>f. si_Bigquery_update (snb_BatchSize_update f))),
      (''SINK_BIGQUERY_TABLE_CLUSTERING_ENABLE'', set_str (\<lambda>f. si_Bigquery_update (snb_TableClusteringEnable_update f))),
      (''SINK_BIGQUERY_TABLE_CLUSTERING_KEYS'', set_str (\<lambda>f. si_Bigquery_update (snb_TableClusteringKeys_update f))),
      (''SINK_ERROR_TYPES_FOR_FAILURE'', set_str (\<lambda>f. si_Bigquery_update (snb_SinkErrorTypesForFailure_update f))),
      (''SINK_CONNECTOR_SCHEMA_PROTO_MESSAGE_CLASS'', set_str (\<lambda>f. si_Bigquery_update (snb_SinkConnectorSchemaProtoMessageClass_update f)))]"

definition SourceParquet_fields :: "(string \<times> Source setter) list" where
  "SourceParquet_fields =
     [(''SOURCE_PARQUET_FILE_DATE_RANGE'', set_any (\<lambda>f. so_Parquet_update (sp_FileDateRange_update f))),
      (''SOURCE_PARQUET_FILE_PATHS'', set_opt_strs (\<lambda>f. so_Parquet_update (sp_FilePaths_update f)))]"

definition Source_fields :: "(string \<times> Source setter) list" where
  "Source_fields =
     [(''INPUT_SCHEMA_PROTO_CLASS'', set_str so_InputSchemaProtoClass_update),
      (''INPUT_SCHEMA_EVENT_TIMESTAMP_FIELD_INDEX'', set_str so_InputSchemaEventTimestampFieldIndex_update),
      (''SOURCE_DETAILS'',
         set_opt_objs SourceDetail_fields zero_SourceDetail so_SourceDetails so_SourceDetails_update),
      (''INPUT_SCHEMA_TABLE'', set_str so_InputSchemaTable_update)] @
     SourceKafka_fields @ SourceParquet_fields"

definition Sink_fields :: "(string \<times> Sink setter) list" where
  "Sink_fields = SinkKafka_fields @ SinkInflux_fields @ SinkBigquery_fields"

definition dg_Config_fields :: "(string \<Rightarrow> rfc_time option) \<Rightarrow> (string \<times> dg_Config setter) list" where
  "dg_Config_fields pt =
     [(''resources'', set_obj dg_Resources_fields dc_Resources dc_Resources_update),
      (''source'', set_objs Source_fields zero_Source dc_Source dc_Source_update),
      (''sink'', set_obj Sink_fields dc_Sink dc_Sink_update),
      (''env_variables'', set_strmap dc_EnvVariables_update), (''replicas'', set_int dc_Replicas_update),
      (''sink_type'', set_str dc_SinkType_update), (''team'', set_str dc_Team_update),
      (''flink_name'', set_str dc_FlinkName_update), (''deployment_id'', set_str dc_DeploymentID_update),
      (''savepoint'', set_any dc_Savepoint_update),
      (''chart_values'', set_ptr dg_ChartValues_fields zero_dg_ChartValues dc_ChartValues dc_ChartValues_update),
      (''deleted'', set_bool dc_Deleted_update), (''namespace'', set_str dc_Namespace_update),
      (''prometheus_url'', set_str dc_PrometheusURL_update), (''jar_uri'', set_str dc_JarURI_update),
      (''state'', set_str dc_State_update), (''job_state'', set_str dc_JobState_update),
      (''reset_offset'', set_str dc_ResetOffset_update), (''stop_time'', set_time pt dc_StopTime_update),
      (''dagger_checkpoint_url'', set_str dc_DaggerCheckpointURL_update),
      (''dagger_savepoint_url'', set_str dc_DaggerSavepointURL_update),
      (''dagger_k8s_ha_url'', set_str dc_DaggerK8sHAURL_update),
      (''cloud_provider'', set_str dc_CloudProvider_update), (''fs_oss_endpoint'', set_str dc_FSOSSEndpoint_update)]"

definition dg_Affinity_member_fields :: "(string \<times> dg_driverConf setter) list" where
  "dg_Affinity_member_fields =
     [(''requiredDuringSchedulingIgnoredDuringExecution'',
        set_opt_objs Preference_fields zero_Preference dd_AffinityRequired dd_AffinityRequired_update),
      (''preferredDuringSchedulingIgnoredDuringExecution'',
        set_opt_objs WeightedPreference_fields zero_WeightedPreference dd_AffinityPreferred dd_AffinityPreferred_update)]"

definition dg_driverConf_fields :: "(string \<times> dg_driverConf setter) list" where
  "dg_driverConf_fields =
     [(''labels'', set_strmap dd_Labels_update), (''namespace'', set_strmap dd_Namespace_update),
      (''chart_values'', set_obj dg_ChartValues_fields dd_ChartValues dd_ChartValues_update),
      (''env_variables'', set_strmap dd_EnvVariables_update),
      (''resources'', set_obj dg_Resources_fields dd_Resources dd_Resources_update),
      (''jar_uri'', set_str dd_JarURI_update), (''dagger_checkpoint_url'', set_str dd_DaggerCheckpointURL_update),
      (''dagger_savepoint_url'', set_str dd_DaggerSavepointURL_update),
      (''dagger_k8s_ha_url'', set_str dd_DaggerK8sHAURL_update),
      (''cloud_provider'', set_str dd_CloudProvider_update), (''fs_oss_endpoint'', set_str dd_FSOSSEndpoint_update),
      (''kube_deploy_timeout_seconds'', set_int dd_KubeDeployTimeout_update),
      (''node_affinity_match_expressions'', set_members dg_Affinity_member_fields)]"

section \<open>Writing JSON\<close>

definition SourceKafka_members :: "SourceKafka \<Rightarrow> (string \<times> json) list" where
  "SourceKafka_members x =
     [(''SOURCE_KAFKA_CONSUMER_CONFIG_AUTO_COMMIT_ENABLE'', JStr (sk_AutoCommitEnable x)),
      (''SOURCE_KAFKA_CONSUMER_CONFIG_AUTO_OFFSET_RESET'', JStr (sk_AutoOffsetReset x)),
      (''SOURCE_KAFKA_TOPIC_NAMES'', JStr (sk_TopicNames x)), (''SOURCE_KAFKA_NAME'', JStr (sk_Name x)),
      (''SOURCE_KAFKA_CONSUMER_CONFIG_GROUP_ID'', JStr (sk_GroupID x)),
      (''SOURCE_KAFKA_CONSUMER_CONFIG_BOOTSTRAP_SERVERS'', JStr (sk_BootstrapServers x))]"

definition SinkKafka_members :: "SinkKafka \<Rightarrow> (string \<times> json) list" where
  "SinkKafka_members x =
     [(''SINK_KAFKA_BROKERS'', JStr (snk_Brokers x)), (''SINK_KAFKA_STREAM'', JStr (snk_Stream x)),
      (''SINK_KAFKA_TOPIC'', JStr (snk_Topic x)), (''SINK_KAFKA_PROTO_MESSAGE'', JStr (snk_ProtoMsg x)),
      (''SINK_KAFKA_LINGER_MS'', JStr (snk_LingerMs x)), (''SINK_KAFKA_PROTO_KEY'', JStr (snk_ProtoKey x)),
      (''SINK_KAFKA_PRODUCE_LARGE_MESSAGE_ENABLE'', JStr (snk_ProduceLargeMessageEnable x))]"

definition SinkInflux_members :: "SinkInflux \<Rightarrow> (string \<times> json) list" where
  "SinkInflux_members x =
     omit_empty_str ''SINK_INFLUX_BATCH_SIZE'' (sni_BatchSize x) @
     omit_empty_str ''SINK_INFLUX_DB_NAME'' (sni_DBName x) @
     omit_empty_str ''SINK_INFLUX_FLUSH_DURATION_MS'' (sni_FlushDurationMs x) @
     omit_empty_str ''SINK_INFLUX_PASSWORD'' (sni_Password x) @
     omit_empty_str ''SINK_INFLUX_RETENTION_POLICY'' (sni_RetentionPolicy x) @
     omit_empty_str ''SINK_INFLUX_URL'' (sni_URL x) @
     omit_empty_str ''SINK_INFLUX_USERNAME'' (sni_Username x) @
     [(''SINK_INFLUX_MEASUREMENT_NAME'', JStr (sni_MeasurementName x))]"

definition SinkBigquery_members :: "SinkBigquery \<Rightarrow> (string \<times> json) list" where
  "SinkBigquery_members x =
     [(''SINK_BIGQUERY_TABLE_PARTITION_EXPIRY_MS'', JStr (snb_TablePartitionExpiryMs x)),
      (''SINK_BIGQUERY_ROW_INSERT_ID_ENABLE'', JStr (snb_RowInsertIDEnable x)),
      (''SINK_BIGQUERY_CLIENT_READ_TIMEOUT_MS'', JStr (snb_ClientReadTimeoutMs x)),
      (''SINK_BIGQUERY_CLIENT_CONNECT_TIMEOUT_MS'', JStr (snb_ClientConnectTimeoutMs x)),
      (''SINK_BIGQUERY_CREDENTIAL_PATH'', JStr (snb_CredentialPath x)),
      (''SINK_BIGQUERY_GOOGLE_CLOUD_PROJECT_ID'', JStr (snb_GoogleCloudProjectID x)),
      (''SINK_BIGQUERY_TABLE_NAME'', JStr (snb_TableName x)),
      (''SINK_BIGQUERY_DATASET_LABELS'', JStr (snb_DatasetLabels x)),
      (''SINK_BIGQUERY_TABLE_LABELS'', JStr (snb_TableLabels x)),
      (''SINK_BIGQUERY_DATASET_NAME'', JStr (snb_DatasetName x)),
      (''SINK_BIGQUERY_TABLE_PARTITIONING_ENABLE'', JStr (snb_TablePartitioningEnable x)),
      (''SINK_BIGQUERY_TABLE_PARTITION_KEY'', JStr (snb_TablePartitionKey x)),
      (''SINK_BIGQUERY_DATASET_LOCATION'', JStr (snb_DatasetLocation x)),
      (''SINK_BIGQUERY_BATCH_SIZE'', JStr (snb_BatchSize x)),
      (''SINK_BIGQUERY_TABLE_CLUSTERING_ENABLE'', JStr (snb_TableClusteringEnable x)),
      (''SINK_BIGQUERY_TABLE_CLUSTERING_KEYS'', JStr (snb_TableClusteringKeys x)),
      (''SINK_ERROR_TYPES_FOR_FAILURE'', JStr (snb_SinkErrorTypesForFailure x)),
      (''SINK_CONNECTOR_SCHEMA_PROTO_MESSAGE_CLASS'', JStr (snb_SinkConnectorSchemaProtoMessageClass x))]"

definition dg_UsageSpec_json :: "UsageSpec \<Rightarrow> json" where
  "dg_UsageSpec_json u = JObj (omit_empty_str ''cpu'' (us_CPU u) @ omit_empty_str ''memory'' (us_Memory u))"

definition dg_Resources_json :: "dg_Resources \<Rightarrow> json" where
  "dg_Resources_json r =
     JObj [(''taskmanager'', dg_UsageSpec_json (dgr_TaskManager r)), (''jobmanager'', dg_UsageSpec_json (dgr_JobManager r))]"

definition dg_ChartValues_json :: "dg_ChartValues \<Rightarrow> json" where
  "dg_ChartValues_json c =
     JObj [(''image_repository'', JStr (dcv_ImageRepository c)), (''image_tag'', JStr (dcv_ImageTag c)),
           (''chart_version'', JStr (dcv_ChartVersion c)), (''image_pull_policy'', JStr (dcv_ImagePullPolicy c))]"

definition SourceDetail_json :: "SourceDetail \<Rightarrow> json" where
  "SourceDetail_json d =
     JObj [(''SOURCE_NAME'', JStr (sd_SourceName d)), (''SOURCE_TYPE'', JStr (sd_SourceType d))]"

definition Source_json :: "Source \<Rightarrow> json" where
  "Source_json s =
     JObj ([(''INPUT_SCHEMA_PROTO_CLASS'', JStr (so_InputSchemaProtoClass s)),
            (''INPUT_SCHEMA_EVENT_TIMESTAMP_FIELD_INDEX'', JStr (so_InputSchemaEventTimestampFieldIndex s)),
            (''SOURCE_DETAILS'', enc_opt_list SourceDetail_json (so_SourceDetails s)),
            (''INPUT_SCHEMA_TABLE'', JStr (so_InputSchemaTable s))] @
           SourceKafka_members (so_Kafka s) @
           [(''SOURCE_PARQUET_FILE_DATE_RANGE'', sp_FileDateRange (so_Parquet s)),
            (''SOURCE_PARQUET_FILE_PATHS'', enc_opt_list JStr (sp_FilePaths (so_Parquet s)))])"

definition Sink_json :: "Sink \<Rightarrow> json" where
  "Sink_json s =
     JObj (SinkKafka_members (si_Kafka s) @ SinkInflux_members (si_Influx s) @ SinkBigquery_members (si_Bigquery s))"

definition dg_Config_json :: "dg_Config \<Rightarrow> json" where
  "dg_Config_json c =
     JObj ([(''resources'', dg_Resources_json (dc_Resources c))] @
           omit_empty_list ''source'' Source_json (dc_Source c) @ [(''sink'', Sink_json (dc_Sink c))] @
           omit_empty_map ''env_variables'' (dc_EnvVariables c) @
           [(''replicas'', JInt (dc_Replicas c)), (''sink_type'', JStr (dc_SinkType c)), (''team'', JStr (dc_Team c))] @
           omit_empty_str ''flink_name'' (dc_FlinkName c) @ omit_empty_str ''deployment_id'' (dc_DeploymentID c) @
           (if dc_Savepoint c = JNull then [] else [(''savepoint'', dc_Savepoint c)]) @
           omit_nil ''chart_values'' dg_ChartValues_json (dc_ChartValues c) @ omit_false ''deleted'' (dc_Deleted c) @
           omit_empty_str ''namespace'' (dc_Namespace c) @ omit_empty_str ''prometheus_url'' (dc_PrometheusURL c) @
           omit_empty_str ''jar_uri'' (dc_JarURI c) @
           [(''state'', JStr (dc_State c)), (''job_state'', JStr (dc_JobState c)),
            (''reset_offset'', JStr (dc_ResetOffset c))] @
           omit_nil ''stop_time'' (\<lambda>t. JStr (fst t)) (dc_StopTime c) @
           omit_empty_str ''dagger_checkpoint_url'' (dc_DaggerCheckpointURL c) @
           omit_empty_str ''dagger_savepoint_url'' (dc_DaggerSavepointURL c) @
           omit_empty_str ''dagger_k8s_ha_url'' (dc_DaggerK8sHAURL c) @
           omit_empty_str ''cloud_provider'' (dc_CloudProvider c) @
           omit_empty_str ''fs_oss_endpoint'' (dc_FSOSSEndpoint c))"

end
