(* ===== verification/Cli.thy ===== *)
theory Cli
  imports Api_Server Dagger_Types
begin

text \<open>
  \<open>cli\<close>: the client commands. Flags are the arguments of a command; files, the YAML and protobuf readers,
  the encoders of messages and the connection are the fields of \<open>cli_env\<close>. What is written to standard
  output is a sequence of items: lines, tables and encoded values. The spinner is left out. The
  validators are those that protoc-gen-validate generated into \<open>proto\<close>.
\<close>

section \<open>Validators\<close>

text \<open>
  The text of a list of violations, nil for none. Every rule of these messages is to validate an embedded
  message; types of other packages may have a validator of their own, which is a parameter.
\<close>

definition multi_error :: "string list \<Rightarrow> string option" where
  "multi_error errs = (if errs = [] then None else Some (join ''; '' errs))"

definition embedded :: "string \<Rightarrow> string \<Rightarrow> string option \<Rightarrow> string list" where
  "embedded msg field err =
     (case err of
        None \<Rightarrow> []
      | Some cause \<Rightarrow>
          [''invalid '' @ msg @ ''.'' @ field @ '': embedded message failed validation | caused by: '' @ cause])"

definition ResourceDependency_ValidateAll :: "pb_Dependency \<Rightarrow> string option" where
  "ResourceDependency_ValidateAll m = multi_error []"

definition ResourceSpec_ValidateAll :: "('v option \<Rightarrow> string option) \<Rightarrow> 'v pb_Spec option \<Rightarrow> string option" where
  "ResourceSpec_ValidateAll validateValue m =
     (case m of
        None \<Rightarrow> None
      | Some spec \<Rightarrow>
          multi_error
            (embedded ''ResourceSpec'' ''Configs'' (validateValue (pbs_Configs spec)) @
             concat (map (\<lambda>(idx, item). embedded ''ResourceSpec'' (''Dependencies['' @ show_nat idx @ '']'')
                            (ResourceDependency_ValidateAll item))
                       (enumerate 0 (pbs_Dependencies spec)))))"

definition UpdateResourceRequest_ValidateAll ::
    "('v option \<Rightarrow> string option) \<Rightarrow> 'v UpdateResourceRequest \<Rightarrow> string option" where
  "UpdateResourceRequest_ValidateAll validateValue m =
     multi_error (embedded ''UpdateResourceRequest'' ''NewSpec'' (ResourceSpec_ValidateAll validateValue (urq_NewSpec m)))"

definition ApplyActionRequest_ValidateAll ::
    "('v option \<Rightarrow> string option) \<Rightarrow> 'v ApplyActionRequest \<Rightarrow> string option" where
  "ApplyActionRequest_ValidateAll validateValue m =
     multi_error (embedded ''ApplyActionRequest'' ''Params'' (validateValue (arq_Params m)))"

definition GetLogRequest_ValidateAll :: "string \<Rightarrow> string gomap \<Rightarrow> string option" where
  "GetLogRequest_ValidateAll urn filt = multi_error []"

definition Module_ValidateAll ::
    "(time option \<Rightarrow> string option) \<Rightarrow> ('v option \<Rightarrow> string option) \<Rightarrow> 'v pb_Module \<Rightarrow> string option" where
  "Module_ValidateAll validateTime validateValue m =
     multi_error
       (embedded ''Module'' ''CreatedAt'' (validateTime (pbm_CreatedAt m)) @
        embedded ''Module'' ''UpdatedAt'' (validateTime (pbm_UpdatedAt m)) @
        embedded ''Module'' ''Configs'' (validateValue (pbm_Configs m)))"

section \<open>The environment of a command\<close>

text \<open>What a command displays; a nil message is possible where the response holds a pointer.\<close>

datatype 'v shown =
    ShowResource "'v pb_Resource option"
  | ShowResources "'v pb_Resource list"
  | ShowModule "'v pb_Module option"
  | ShowRevisions "'v pb_Revision list"
  | ShowChunk "LogChunk option"
  | ShowNil

datatype 'v out_item =
    Line string
  | Table "string list list"
  | Json json
  | Yaml json
  | Toml "'v shown"
  | GoValue "'v shown"

text \<open>The stream of a log request: the messages received, then the end or an error.\<close>

type_synonym log_stream = "LogChunk option list \<times> gerror option"

record ('s, 'v) resource_client =
  rcl_ListResources :: "ListResourcesRequest \<Rightarrow> ('s, 'v ListResourcesResponse) go"
  rcl_GetResource :: "string \<Rightarrow> ('s, 'v pb_Resource option) go"
  rcl_CreateResource :: "'v CreateResourceRequest \<Rightarrow> ('s, 'v pb_Resource option) go"
  rcl_UpdateResource :: "'v UpdateResourceRequest \<Rightarrow> ('s, 'v pb_Resource option) go"
  rcl_DeleteResource :: "string \<Rightarrow> ('s, unit) go"
  rcl_ApplyAction :: "'v ApplyActionRequest \<Rightarrow> ('s, 'v pb_Resource option) go"
  rcl_GetLog :: "string \<Rightarrow> string gomap \<Rightarrow> ('s, log_stream) go"
  rcl_GetResourceRevisions :: "string \<Rightarrow> ('s, 'v pb_Revision list) go"

record ('s, 'v) module_client =
  mcl_GetModule :: "string \<Rightarrow> ('s, 'v pb_Module option) go"
  mcl_CreateModule :: "'v pb_Module option \<Rightarrow> ('s, 'v pb_Module option) go"
  mcl_UpdateModule :: "'v UpdateModuleRequest \<Rightarrow> ('s, 'v pb_Module option) go"

record cli_flags =
  gf_Host :: string
  gf_Timeout :: time
  gf_Format :: string

record ('s, 'v) cli_env =
  ce_ReadFile :: "string \<Rightarrow> raw outcome"
  ce_YAMLToJSON :: "raw \<Rightarrow> raw outcome"
  ce_Resource :: "raw \<Rightarrow> 'v pb_Resource outcome"
  ce_Spec :: "raw \<Rightarrow> 'v pb_Spec outcome"
  ce_Value :: "raw \<Rightarrow> 'v outcome"
  ce_Module :: "raw \<Rightarrow> 'v pb_Module outcome"
  ce_zeroValue :: 'v
  ce_stringValue :: "'v option \<Rightarrow> string"
  ce_validateValue :: "'v option \<Rightarrow> string option"
  ce_validateTime :: "time option \<Rightarrow> string option"
  ce_DialResources :: "string \<Rightarrow> time \<Rightarrow> ('s, ('s, 'v) resource_client) go"
  ce_DialModules :: "string \<Rightarrow> time \<Rightarrow> ('s, ('s, 'v) module_client) go"
  ce_Marshal :: "'v shown \<Rightarrow> json outcome"
  ce_YAMLEncode :: "json \<Rightarrow> unit outcome"
  ce_TOMLEncode :: "'v shown \<Rightarrow> unit outcome"
  ce_FormatTime :: "time \<Rightarrow> string"
  ce_Format :: "string \<Rightarrow> string"
  ce_stdout :: "'v out_item \<Rightarrow> 's \<Rightarrow> 's"

text \<open>Writing an item to standard output; errors of the terminal are ignored by the callers.\<close>

definition emit :: "('s, 'v) cli_env \<Rightarrow> 'v out_item \<Rightarrow> ('s, unit) go" where
  "emit env out s = (Ok (), ce_stdout env out s)"

section \<open>Files and output\<close>

text \<open>\<open>filepath.Ext\<close>: the rest of the last element of the path from its last dot.\<close>

definition Ext :: "string \<Rightarrow> string" where
  "Ext path =
     (let name = takeWhile (\<lambda>c. c \<noteq> CHR ''/'') (rev path);
          ext = takeWhile (\<lambda>c. c \<noteq> CHR ''.'') name
      in if length ext < length name then CHR ''.'' # rev ext else [])"

definition wrap_text :: "string \<Rightarrow> 'a outcome \<Rightarrow> 'a outcome" where
  "wrap_text prefix r = (case r of Err err \<Rightarrow> Err (PlainErr (prefix @ error_text err)) | x \<Rightarrow> x)"

definition parseFile :: "('s, 'v) cli_env \<Rightarrow> (raw \<Rightarrow> 'm outcome) \<Rightarrow> string \<Rightarrow> 'm outcome" where
  "parseFile env unmarshal filePath =
     bindR (ce_ReadFile env filePath) (\<lambda>b.
       if Ext filePath = ''.json'' then wrap_text ''invalid json: '' (unmarshal b)
       else if Ext filePath = ''.yaml'' \<or> Ext filePath = ''.yml'' then
         bindR (wrap_text ''invalid yaml: '' (ce_YAMLToJSON env b)) (\<lambda>j. wrap_text ''invalid yaml: '' (unmarshal j))
       else Err (PlainErr ''unsupported file type''))"

definition jsonConvert :: "('s, 'v) cli_env \<Rightarrow> 'v shown \<Rightarrow> json outcome" where
  "jsonConvert env v = bindR (ce_Marshal env v) (\<lambda>b. Ok (any_value b))"

definition JSONFormat :: "('s, 'v) cli_env \<Rightarrow> 'v shown \<Rightarrow> ('s, unit) go" where
  "JSONFormat env v = bindS (liftR (ce_Marshal env v)) (\<lambda>j. emit env (Json j))"

definition YAMLFormat :: "('s, 'v) cli_env \<Rightarrow> 'v shown \<Rightarrow> ('s, unit) go" where
  "YAMLFormat env v =
     bindS (liftR (jsonConvert env v)) (\<lambda>val. bindS (liftR (ce_YAMLEncode env val)) (\<lambda>_. emit env (Yaml val)))"

definition TOMLFormat :: "('s, 'v) cli_env \<Rightarrow> 'v shown \<Rightarrow> ('s, unit) go" where
  "TOMLFormat env v = bindS (liftR (ce_TOMLEncode env v)) (\<lambda>_. emit env (Toml v))"

definition GoFormat :: "('s, 'v) cli_env \<Rightarrow> 'v shown \<Rightarrow> ('s, unit) go" where
  "GoFormat env v = emit env (GoValue v)"

definition Display :: "('s, 'v) cli_env \<Rightarrow> cli_flags \<Rightarrow> 'v shown \<Rightarrow> ('s, unit) go option \<Rightarrow> ('s, unit) go" where
  "Display env flags v prettyFormatter =
     (let format = ToLower (TrimSpace (gf_Format flags))
      in if format = ''json'' then JSONFormat env v
         else if format = ''yaml'' \<or> format = ''yml'' then YAMLFormat env v
         else if format = ''toml'' then TOMLFormat env v
         else if format = ''pretty'' \<or> format = ''human'' then
           (case prettyFormatter of Some pretty \<Rightarrow> pretty | None \<Rightarrow> GoFormat env v)
         else fail (PlainErr (''--format value '' @ sq format @ '' is not valid'')))"

text \<open>
  An error ends the process with status 1. Its text is printed as a format without arguments, which
  \<open>ce_Format\<close> is.
\<close>

datatype exit_status = Returned | Exited int

definition handleErr :: "('s, 'v) cli_env \<Rightarrow> ('s, unit) go \<Rightarrow> ('s, exit_status) go" where
  "handleErr env fn =
     catchS fn (\<lambda>_. ret Returned)
       (\<lambda>err. bindS (emit env (Line (ce_Format env (error_text err)))) (\<lambda>_. ret (Exited 1)))"

text \<open>A validator's error.\<close>

definition checked :: "string option \<Rightarrow> unit outcome" where
  "checked err = (case err of None \<Rightarrow> Ok () | Some e \<Rightarrow> Err (PlainErr e))"

definition createResourceServiceClient ::
    "('s, 'v) cli_env \<Rightarrow> cli_flags \<Rightarrow> ('s, ('s, 'v) resource_client) go" where
  "createResourceServiceClient env flags = ce_DialResources env (gf_Host flags) (gf_Timeout flags)"

definition createModuleServiceClient :: "('s, 'v) cli_env \<Rightarrow> cli_flags \<Rightarrow> ('s, ('s, 'v) module_client) go" where
  "createModuleServiceClient env flags = ce_DialModules env (gf_Host flags) (gf_Timeout flags)"

section \<open>Resource commands\<close>

text \<open>A row of the table; the message and its state are dereferenced.\<close>

definition resource_row :: "'v pb_Resource option \<Rightarrow> string list outcome" where
  "resource_row m =
     (case m of
        None \<Rightarrow> Panic nil_panic
      | Some r \<Rightarrow>
          (case pbr_State r of
             None \<Rightarrow> Panic nil_panic
           | Some st \<Rightarrow> Ok [pbr_Urn r, pbr_Name r, pbr_Kind r, pbr_Project r, pb_Status_String (pbt_Status st)]))"

definition resource_head :: "string list" where
  "resource_head = [''URN'', ''NAME'', ''KIND'', ''PROJECT'', ''STATUS'']"

definition cmdViewResource ::
    "('s, 'v) cli_env \<Rightarrow> cli_flags \<Rightarrow> string \<Rightarrow> string \<Rightarrow> 32 word \<Rightarrow> 32 word \<Rightarrow> string \<Rightarrow> ('s, exit_status) go" where
  "cmdViewResource env flags kind project pageNum pageSize urn =
     handleErr env
       (bindS (createResourceServiceClient env flags) (\<lambda>client.
          if urn \<noteq> [] then
            bindS (rcl_GetResource client urn) (\<lambda>r.
            Display env flags (ShowResource r)
              (Some (bindS (liftR (resource_row r)) (\<lambda>row. emit env (Table [resource_head, row])))))
          else
            bindS (rcl_ListResources client
                     \<lparr>lrq_Project = project, lrq_Kind = kind, lrq_Labels = None, lrq_PageSize = pageSize,
                      lrq_PageNum = pageNum, lrq_WithSpecConfigs = False\<rparr>) (\<lambda>res.
            Display env flags (ShowResources (lrs_Resources res))
              (Some (bindS (liftR (map_outcome (resource_row \<circ> Some) (lrs_Resources res))) (\<lambda>rows.
                     bindS (emit env (Line (''Total: '' @ show_nat (length rows)))) (\<lambda>_.
                     emit env (Table (resource_head # rows)))))))))"

definition quoted_urn :: "string \<Rightarrow> string option \<Rightarrow> string outcome" where
  "quoted_urn prefix urn = (case urn of None \<Rightarrow> Panic nil_panic | Some u \<Rightarrow> Ok (prefix @ sq u @ ''.''))"

definition cmdCreateResource :: "('s, 'v) cli_env \<Rightarrow> cli_flags \<Rightarrow> string \<Rightarrow> ('s, exit_status) go" where
  "cmdCreateResource env flags file =
     handleErr env
       (bindS (liftR (parseFile env (ce_Resource env) file)) (\<lambda>reqBody.
        bindS (createResourceServiceClient env flags) (\<lambda>client.
        bindS (rcl_CreateResource client \<lparr>crq_Resource = Some reqBody, crq_DryRun = False\<rparr>) (\<lambda>resource.
        Display env flags (ShowResource resource)
          (Some (bindS (liftR (quoted_urn ''Resource created with URN '' (map_option pbr_Urn resource))) (\<lambda>line.
                 bindS (emit env (Line line)) (\<lambda>_.
                 emit env (Line (''Use '' @ sq ''entropy resource get <urn>'' @ '' to view resource.''))))))))))"

definition cmdEditResource :: "('s, 'v) cli_env \<Rightarrow> cli_flags \<Rightarrow> string \<Rightarrow> string \<Rightarrow> ('s, exit_status) go" where
  "cmdEditResource env flags file urn =
     handleErr env
       (bindS (liftR (parseFile env (ce_Spec env) file)) (\<lambda>newSpec.
          let reqBody = \<lparr>urq_Urn = urn, urq_NewSpec = Some newSpec, urq_Labels = None, urq_DryRun = False\<rparr>
          in bindS (liftR (checked (UpdateResourceRequest_ValidateAll (ce_validateValue env) reqBody))) (\<lambda>_.
             bindS (createResourceServiceClient env flags) (\<lambda>client.
             bindS (rcl_UpdateResource client reqBody) (\<lambda>resource.
             Display env flags (ShowResource resource)
               (Some (bindS (emit env (Line ''Update request placed successfully.'')) (\<lambda>_.
                      emit env (Line (''Use '' @ sq ''entropy resource get <urn>'' @ '' to view status.''))))))))))"

definition cmdApplyAction :: "('s, 'v) cli_env \<Rightarrow> cli_flags \<Rightarrow> string \<Rightarrow> string \<Rightarrow> string \<Rightarrow> ('s, exit_status) go" where
  "cmdApplyAction env flags urn file actionName =
     handleErr env
       (bindS (liftR (if file \<noteq> [] then parseFile env (ce_Value env) file else Ok (ce_zeroValue env))) (\<lambda>params.
          let reqBody = \<lparr>arq_Urn = urn, arq_Action = actionName, arq_Params = Some params, arq_Labels = None,
                         arq_DryRun = False\<rparr>
          in bindS (liftR (checked (ApplyActionRequest_ValidateAll (ce_validateValue env) reqBody))) (\<lambda>_.
             bindS (createResourceServiceClient env flags) (\<lambda>client.
             bindS (rcl_ApplyAction client reqBody) (\<lambda>resource.
             Display env flags (ShowResource resource)
               (Some (bindS (emit env (Line ''Action request placed successfully.'')) (\<lambda>_.
                      emit env (Line (''Use '' @ sq ''entropy resource get <urn>'' @ '' to view status.''))))))))))"

definition cmdDeleteResource :: "('s, 'v) cli_env \<Rightarrow> cli_flags \<Rightarrow> string \<Rightarrow> ('s, exit_status) go" where
  "cmdDeleteResource env flags urn =
     handleErr env
       (bindS (createResourceServiceClient env flags) (\<lambda>client.
        bindS (rcl_DeleteResource client urn) (\<lambda>_.
        Display env flags ShowNil (Some (emit env (Line ''Delete request placed successfully''))))))"

definition cmdListRevisions :: "('s, 'v) cli_env \<Rightarrow> cli_flags \<Rightarrow> string \<Rightarrow> ('s, exit_status) go" where
  "cmdListRevisions env flags urn =
     handleErr env
       (bindS (createResourceServiceClient env flags) (\<lambda>client.
        bindS (rcl_GetResourceRevisions client urn) (\<lambda>revisions.
        Display env flags (ShowRevisions revisions)
          (Some (bindS (emit env (Table ([''ID'', ''URN'', ''CREATED AT''] #
                          map (\<lambda>rev. [pbv_Id rev, pbv_Urn rev, ce_FormatTime env (AsTime (pbv_CreatedAt rev))]) revisions)))
                   (\<lambda>_. emit env (Line (''Total: '' @ show_nat (length revisions)))))))))"

text \<open>The filters of a log request: the first two parts of each, split at colons.\<close>

definition filter_panic :: string where
  "filter_panic = ''runtime error: index out of range [1] with length 1''"

fun parse_filters :: "string list \<Rightarrow> (string \<times> string) list \<Rightarrow> (string \<times> string) list outcome" where
  "parse_filters [] acc = Ok acc"
| "parse_filters (f # fs) acc =
     (case split_on (CHR '':'') f of
        k # v # _ \<Rightarrow> parse_filters fs (put k v acc)
      | _ \<Rightarrow> Panic filter_panic)"

text \<open>The loop over the stream; the result of \<open>Display\<close> is dropped.\<close>

fun show_chunks :: "('s, 'v) cli_env \<Rightarrow> cli_flags \<Rightarrow> LogChunk option list \<Rightarrow> gerror option \<Rightarrow> ('s, unit) go" where
  "show_chunks env flags [] ending =
     (case ending of None \<Rightarrow> ret () | Some err \<Rightarrow> fail (PlainErr (''failed to read stream: '' @ error_text err)))"
| "show_chunks env flags (chunk # chunks) ending =
     catchS (Display env flags (ShowChunk chunk)
              (Some (emit env (Line (case chunk of None \<Rightarrow> [] | Some c \<Rightarrow> lc_Data c)))))
       (\<lambda>_. show_chunks env flags chunks ending) (\<lambda>_. show_chunks env flags chunks ending)"

definition cmdStreamLogs :: "('s, 'v) cli_env \<Rightarrow> cli_flags \<Rightarrow> string \<Rightarrow> string list \<Rightarrow> ('s, exit_status) go" where
  "cmdStreamLogs env flags urn filt =
     handleErr env
       (bindS (createResourceServiceClient env flags) (\<lambda>client.
        bindS (liftR (parse_filters filt [])) (\<lambda>filters.
        bindS (liftR (checked (GetLogRequest_ValidateAll urn (Some filters)))) (\<lambda>_.
        bindS (rcl_GetLog client urn (Some filters)) (\<lambda>(chunks, ending). show_chunks env flags chunks ending)))))"

section \<open>Module commands\<close>

definition module_lines :: "('s, 'v) cli_env \<Rightarrow> string \<Rightarrow> 'v pb_Module option \<Rightarrow> ('s, unit) go" where
  "module_lines env prefix m =
     bindS (liftR (quoted_urn prefix (map_option pbm_Urn m))) (\<lambda>line.
     bindS (emit env (Line line)) (\<lambda>_.
     emit env (Line (''Use '' @ sq ''entropy module view <urn>'' @ '' to view module.''))))"

definition cmdModuleCreate :: "('s, 'v) cli_env \<Rightarrow> cli_flags \<Rightarrow> string \<Rightarrow> ('s, exit_status) go" where
  "cmdModuleCreate env flags filePath =
     handleErr env
       (bindS (liftR (parseFile env (ce_Module env) filePath)) (\<lambda>reqBody.
        bindS (liftR (checked (Module_ValidateAll (ce_validateTime env) (ce_validateValue env) reqBody))) (\<lambda>_.
        bindS (createModuleServiceClient env flags) (\<lambda>client.
        bindS (mcl_CreateModule client (Some reqBody)) (\<lambda>m.
        Display env flags (ShowModule m) (Some (module_lines env ''Module created with URN '' m)))))))"

definition cmdModuleUpdate :: "('s, 'v) cli_env \<Rightarrow> cli_flags \<Rightarrow> string \<Rightarrow> string \<Rightarrow> ('s, exit_status) go" where
  "cmdModuleUpdate env flags filePath urn =
     handleErr env
       (bindS (liftR (parseFile env (ce_Module env) filePath)) (\<lambda>reqBody.
        bindS (liftR (checked (Module_ValidateAll (ce_validateTime env) (ce_validateValue env) reqBody))) (\<lambda>_.
        bindS (createModuleServiceClient env flags) (\<lambda>client.
        bindS (mcl_UpdateModule client \<lparr>umr_Urn = urn, umr_Configs = pbm_Configs reqBody\<rparr>) (\<lambda>m.
        Display env flags (ShowModule m) (Some (module_lines env ''Module updated with URN '' m)))))))"

definition cmdModuleView :: "('s, 'v) cli_env \<Rightarrow> cli_flags \<Rightarrow> string \<Rightarrow> ('s, exit_status) go" where
  "cmdModuleView env flags urn =
     handleErr env
       (bindS (createModuleServiceClient env flags) (\<lambda>client.
        bindS (mcl_GetModule client urn) (\<lambda>m.
        Display env flags (ShowModule m)
          (Some (case m of
                   None \<Rightarrow> panicS nil_panic
                 | Some md \<Rightarrow>
                     emit env (Table [[''URN'', ''NAME'', ''PROJECT'', ''Config''],
                       [pbm_Urn md, pbm_Name md, pbm_Project md, ce_stringValue env (pbm_Configs md)]]))))))"

end
