(* ===== verification/Start.thy ===== *)
theory Start
  imports Serve Cli
begin

text \<open>
  \<open>pkg/logger\<close>, \<open>pkg/telemetry\<close>, \<open>cli/config.go\<close>, \<open>cli/serve.go\<close>, \<open>cli/worker.go\<close> and \<open>cli/migrate.go\<close>: the
  logger and the metrics of a process, its configuration, and starting the server, the workers and the
  migrations. The libraries of the logger and of telemetry are the records \<open>zap_env\<close> and
  \<open>telemetry_env\<close>, where an exporter or reader is described by its arguments; the configuration loader,
  the migration and the server loop are the fields of \<open>start_env\<close>. A call that ends the process
  (\<open>log.Fatal\<close>) is a panic of the model.
\<close>

section \<open>The logger\<close>

text \<open>A configuration of the logger: its level, and what else the production configuration sets.\<close>

record 'c zap_Config =
  zc_Level :: int
  zc_rest :: 'c

text \<open>The level a text names, the production configuration, building a logger, and making it the global one.\<close>

record ('c, 's) zap_env =
  zp_ParseLevel :: "string \<Rightarrow> gerror + int"
  zp_NewProductionConfig :: "'c zap_Config"
  zp_Build :: "'c zap_Config \<Rightarrow> gerror + ('s \<Rightarrow> 's)"

definition InfoLevel :: int where "InfoLevel = 0"

definition getZapLogLevelFromString :: "('c, 's) zap_env \<Rightarrow> string \<Rightarrow> int" where
  "getZapLogLevelFromString zap level = (case zp_ParseLevel zap level of Inl err \<Rightarrow> InfoLevel | Inr l \<Rightarrow> l)"

text \<open>The configuration with the level is made, and another one is built.\<close>

definition logger_Setup :: "('c, 's) zap_env \<Rightarrow> string \<Rightarrow> ('s, unit) go" where
  "logger_Setup zap level =
     (let defaultConfig = (zp_NewProductionConfig zap)\<lparr>zc_Level := getZapLogLevelFromString zap level\<rparr>
      in case zp_Build zap (zp_NewProductionConfig zap) of
           Inl err \<Rightarrow> fail err
         | Inr replaceGlobals \<Rightarrow> (\<lambda>s. (Ok (), replaceGlobals s)))"

section \<open>Metrics\<close>

record telemetry_Config =
  tc_Debug :: string
  tc_EnableRuntimeMetrics :: bool
  tc_ServiceName :: string
  tc_NewRelicAPIKey :: string
  tc_EnableNewRelic :: bool
  tc_EnableOtelAgent :: bool
  tc_OpenTelAgentAddr :: string

datatype reader_option = WithInterval time | WithProducer

datatype metric_option =
    WithResource string
  | WithPrometheusReader string
  | WithPeriodicReader string "reader_option list"

record 's telemetry_env =
  te_Resource :: "string \<Rightarrow> gerror option"
  te_Prometheus :: "string \<Rightarrow> gerror option"
  te_Otlp :: "string \<Rightarrow> gerror option"
  te_SetMeterProvider :: "metric_option list \<Rightarrow> 's \<Rightarrow> 's"
  te_RuntimeStart :: "time \<Rightarrow> ('s, unit) go"
  te_ShutdownWithContext :: "'s \<Rightarrow> 's"
  te_LogError :: "string \<Rightarrow> gerror \<Rightarrow> 's \<Rightarrow> 's"
  te_LogInfo :: "string \<Rightarrow> 's \<Rightarrow> 's"
  te_ListenAndServe :: "string \<Rightarrow> 's \<Rightarrow> 's"
  te_NewRelic :: "string \<Rightarrow> string \<Rightarrow> gerror option"

definition second :: time where "second = 1000000000"

definition setupOTELMetrics :: "'s telemetry_env \<Rightarrow> telemetry_Config \<Rightarrow> gerror + metric_option list" where
  "setupOTELMetrics env cfg =
     (case te_Prometheus env (tc_ServiceName cfg) of
        Some err \<Rightarrow> Inl err
      | None \<Rightarrow>
          (case te_Otlp env (tc_OpenTelAgentAddr cfg) of
             Some err \<Rightarrow> Inl err
           | None \<Rightarrow>
               Inr [WithPrometheusReader (tc_ServiceName cfg),
                    WithPeriodicReader (tc_OpenTelAgentAddr cfg)
                      (WithInterval (10 * second) # (if tc_EnableRuntimeMetrics cfg then [WithProducer] else []))]))"

definition startRuntimeMetrics :: "'s telemetry_env \<Rightarrow> telemetry_Config \<Rightarrow> ('s, unit) go" where
  "startRuntimeMetrics env cfg =
     (if tc_EnableRuntimeMetrics cfg
      then catchS (te_RuntimeStart env second) ret (\<lambda>err. panicS (error_text err))
      else ret ())"

definition setupOpenTelemetry :: "'s telemetry_env \<Rightarrow> telemetry_Config \<Rightarrow> ('s, unit) go" where
  "setupOpenTelemetry env cfg =
     (case te_Resource env (tc_ServiceName cfg) of
        Some err \<Rightarrow> fail err
      | None \<Rightarrow>
          (case (if tc_EnableOtelAgent cfg then setupOTELMetrics env cfg else Inr []) of
             Inl err \<Rightarrow> fail err
           | Inr options \<Rightarrow>
               bindS (\<lambda>s. (Ok (), te_SetMeterProvider env (WithResource (tc_ServiceName cfg) # options) s)) (\<lambda>_.
               bindS (startRuntimeMetrics env cfg) (\<lambda>_.
               \<lambda>s. (Ok (), te_ShutdownWithContext env s)))))"

text \<open>The debug server serves the profiles of the process; the process goes on when telemetry cannot be set up.\<close>

definition telemetry_Init :: "'s telemetry_env \<Rightarrow> telemetry_Config \<Rightarrow> ('s, unit) go" where
  "telemetry_Init env cfg =
     bindS (catchS (setupOpenTelemetry env cfg) ret
              (\<lambda>err s. (Ok (), te_LogError env ''failed to setup OpenTelemetry'' err s))) (\<lambda>_ s.
       let t = te_LogInfo env ''telemetry server started'' s
       in (Ok (), if tc_Debug cfg \<noteq> [] then te_ListenAndServe env (tc_Debug cfg) t else t))"

text \<open>\<open>newrelic.NewApplication\<close> in the commands, with the message they log.\<close>

definition newrelic_app :: "'s telemetry_env \<Rightarrow> string \<Rightarrow> telemetry_Config \<Rightarrow> ('s, unit) go" where
  "newrelic_app env msg cfg s =
     (Ok (), if tc_EnableNewRelic cfg
             then case te_NewRelic env (tc_ServiceName cfg) (tc_NewRelicAPIKey cfg) of
                    Some err \<Rightarrow> te_LogError env msg err s
                  | None \<Rightarrow> s
             else s)"

section \<open>What holds of the set-up\<close>

text \<open>The configured level has no effect.\<close>

lemma log_level_ignored: "logger_Setup zap level = logger_Setup zap level'"
  by (simp add: logger_Setup_def)

text \<open>Telemetry keeps a process from starting only when runtime metrics are on and cannot be started.\<close>

lemma telemetry_starts:
  assumes "tc_EnableRuntimeMetrics cfg \<Longrightarrow> \<forall>u. \<exists>v. te_RuntimeStart env second u = (Ok (), v)"
  shows "\<exists>t. telemetry_Init env cfg s = (Ok (), t)"
proof -
  have start: "\<exists>v. startRuntimeMetrics env cfg u = (Ok (), v)" for u
  proof (cases "tc_EnableRuntimeMetrics cfg")
    case True
    with assms obtain v where "te_RuntimeStart env second u = (Ok (), v)" by blast
    with True show ?thesis by (simp add: startRuntimeMetrics_def run_simps)
  qed (simp add: startRuntimeMetrics_def ret_def)
  have "\<exists>t. setupOpenTelemetry env cfg s = (Ok (), t) \<or> (\<exists>e. setupOpenTelemetry env cfg s = (Err e, t))"
  proof (cases "te_Resource env (tc_ServiceName cfg)")
    case None
    show ?thesis
    proof (cases "if tc_EnableOtelAgent cfg then setupOTELMetrics env cfg else Inr []")
      case (Inr options)
      obtain v where "startRuntimeMetrics env cfg (te_SetMeterProvider env (WithResource (tc_ServiceName cfg) # options) s) = (Ok (), v)"
        using start by blast
      then show ?thesis
        by (simp add: setupOpenTelemetry_def None Inr bindS_def catchS_def)
    qed (simp add: setupOpenTelemetry_def None fail_def)
  qed (simp add: setupOpenTelemetry_def fail_def)
  then show ?thesis
    by (auto simp: telemetry_Init_def bindS_def catchS_def ret_def Let_def)
qed

section \<open>Configuration\<close>

record WorkerConfig =
  wc_Count :: int
  wc_Scope :: scope

record SyncerConf =
  syc_SyncInterval :: time
  syc_RefreshInterval :: time
  syc_ExtendLockBy :: time
  syc_SyncBackoffInterval :: time
  syc_MaxRetries :: int
  syc_Workers :: "WorkerConfig gomap"

record ServeConfig =
  svc_Host :: string
  svc_Port :: int
  svc_HTTPAddr :: string
  svc_PaginationSizeDefault :: "32 word"
  svc_PaginationPageDefault :: "32 word"

record cli_Config =
  cfg_LogLevel :: string
  cfg_Syncer :: SyncerConf
  cfg_Service :: ServeConfig
  cfg_PGConnStr :: string
  cfg_Telemetry :: telemetry_Config

definition httpAddr :: "ServeConfig \<Rightarrow> string" where
  "httpAddr serveCfg = svc_HTTPAddr serveCfg"

definition grpcAddr :: "ServeConfig \<Rightarrow> string" where
  "grpcAddr serveCfg = svc_Host serveCfg @ '':'' @ show_int (svc_Port serveCfg)"

datatype loader_options = WithFile string | WithPathAndName string string

text \<open>
  The loader fills the configuration and may report an error, one kind of which is that there is no
  file. The package variables of the page defaults are the second component of the state.
\<close>

definition loadConfig ::
    "(loader_options \<Rightarrow> cli_Config \<times> gerror option) \<Rightarrow> (gerror \<Rightarrow> bool) \<Rightarrow> string \<Rightarrow>
     (32 word \<times> 32 word, cli_Config) go" where
  "loadConfig load fileMissing cfgFile defaults =
     (let (cfg, err) = load (if cfgFile \<noteq> [] then WithFile cfgFile else WithPathAndName ''./'' ''entropy'')
      in case err of
           None \<Rightarrow> (Ok cfg, defaults)
         | Some e \<Rightarrow>
             if fileMissing e then
               (Ok cfg, (svc_PaginationSizeDefault (cfg_Service cfg), svc_PaginationPageDefault (cfg_Service cfg)))
             else (Err e, defaults))"

section \<open>Workers\<close>

text \<open>The goroutines \<open>RunSyncer\<close> starts, each of which repeats \<open>syncer_tick\<close> with its scope.\<close>

definition RunSyncer :: "int \<Rightarrow> scope \<Rightarrow> scope list" where
  "RunSyncer workerCount sc = replicate (nat workerCount) sc"

definition spawnWorkers :: "WorkerConfig gomap \<Rightarrow> scope list" where
  "spawnWorkers workerModules =
     (if entries workerModules = [] then RunSyncer 1 (Some [])
      else concat (map (\<lambda>(_, m). RunSyncer (wc_Count m) (wc_Scope m)) (entries workerModules)))"

section \<open>Starting\<close>

record ('c, 's) start_env =
  se_zap :: "('c, 's) zap_env"
  se_telemetry :: "'s telemetry_env"
  se_newSchema :: "string \<Rightarrow> schema outcome"
  se_supported :: "'s Descriptor list"
  se_Open :: "time \<Rightarrow> time \<Rightarrow> 32 word \<Rightarrow> 32 word \<Rightarrow> Store outcome"
  se_Migrate :: "Store \<Rightarrow> ('s, unit) go"
  se_Serve :: "string \<Rightarrow> string \<Rightarrow> Store \<Rightarrow> 's Registry \<Rightarrow> time \<Rightarrow> int \<Rightarrow> string \<Rightarrow> scope list \<Rightarrow> ('s, unit) go"
  se_Work :: "Store \<Rightarrow> 's Registry \<Rightarrow> time \<Rightarrow> int \<Rightarrow> string \<Rightarrow> scope list \<Rightarrow> ('s, unit) go"

definition start_storage :: "('c, 's) start_env \<Rightarrow> cli_Config \<Rightarrow> Store outcome" where
  "start_storage env cfg =
     (case se_Open env (syc_RefreshInterval (cfg_Syncer cfg)) (syc_ExtendLockBy (cfg_Syncer cfg))
             (svc_PaginationSizeDefault (cfg_Service cfg)) (svc_PaginationPageDefault (cfg_Service cfg)) of
        Err e \<Rightarrow> Panic ''failed to connect to Postgres database''
      | r \<Rightarrow> r)"

definition runMigrations :: "('c, 's) start_env \<Rightarrow> cli_Config \<Rightarrow> ('s, unit) go" where
  "runMigrations env cfg = bindS (liftR (start_storage env cfg)) (se_Migrate env)"

definition StartServer :: "('c, 's) start_env \<Rightarrow> cli_Config \<Rightarrow> bool \<Rightarrow> bool \<Rightarrow> ('s, unit) go" where
  "StartServer env cfg migrate spawnWorker =
     bindS (logger_Setup (se_zap env) (cfg_LogLevel cfg)) (\<lambda>_.
     bindS (telemetry_Init (se_telemetry env) (cfg_Telemetry cfg)) (\<lambda>_.
     bindS (newrelic_app (se_telemetry env) ''failed to init newrelic app'' (cfg_Telemetry cfg)) (\<lambda>_.
     bindS (liftR (start_storage env cfg)) (\<lambda>store.
     bindS (liftR (setupRegistry (se_newSchema env) (se_supported env))) (\<lambda>registry.
     bindS (if migrate then runMigrations env cfg else ret ()) (\<lambda>_.
     se_Serve env (httpAddr (cfg_Service cfg)) (grpcAddr (cfg_Service cfg)) store registry
       (syc_SyncBackoffInterval (cfg_Syncer cfg)) (syc_MaxRetries (cfg_Syncer cfg)) (tc_ServiceName (cfg_Telemetry cfg))
       (if spawnWorker then spawnWorkers (syc_Workers (cfg_Syncer cfg)) else [])))))))"

definition StartWorkers :: "('c, 's) start_env \<Rightarrow> cli_Config \<Rightarrow> ('s, unit) go" where
  "StartWorkers env cfg =
     bindS (liftR (start_storage env cfg)) (\<lambda>store.
     bindS (liftR (setupRegistry (se_newSchema env) (se_supported env))) (\<lambda>registry.
     se_Work env store registry (syc_SyncBackoffInterval (cfg_Syncer cfg)) (syc_MaxRetries (cfg_Syncer cfg))
       (tc_ServiceName (cfg_Telemetry cfg)) (spawnWorkers (syc_Workers (cfg_Syncer cfg)))))"

text \<open>The commands: \<open>serve\<close>, \<open>worker\<close> and \<open>migrate\<close>, after the configuration is loaded.\<close>

definition cmdWorker :: "('c, 's) start_env \<Rightarrow> cli_Config \<Rightarrow> ('s, unit) go" where
  "cmdWorker env cfg =
     bindS (logger_Setup (se_zap env) (cfg_LogLevel cfg)) (\<lambda>_.
     bindS (telemetry_Init (se_telemetry env) (cfg_Telemetry cfg)) (\<lambda>_.
     bindS (newrelic_app (se_telemetry env) ''error initializing opentelemetry'' (cfg_Telemetry cfg)) (\<lambda>_.
     StartWorkers env cfg)))"

definition cmdMigrate :: "('c, 's) start_env \<Rightarrow> cli_Config \<Rightarrow> ('s, unit) go" where
  "cmdMigrate env cfg = bindS (logger_Setup (se_zap env) (cfg_LogLevel cfg)) (\<lambda>_. runMigrations env cfg)"

section \<open>What holds of them\<close>

text \<open>The page defaults of the client are those of the configuration only when there is no configuration file.\<close>

lemma loaded_defaults_ignored:
  assumes "load (if cfgFile \<noteq> [] then WithFile cfgFile else WithPathAndName ''./'' ''entropy'') = (cfg, None)"
  shows "loadConfig load fileMissing cfgFile defaults = (Ok cfg, defaults)"
  by (simp add: loadConfig_def assms)

text \<open>Without a configuration of workers one syncer runs for all resources; with one, as many as it says.\<close>

lemma spawned_default: "entries workers = [] \<Longrightarrow> spawnWorkers workers = [Some []]"
  by (simp add: spawnWorkers_def RunSyncer_def)

lemma spawned_count:
  "entries workers \<noteq> [] \<Longrightarrow>
     length (spawnWorkers workers) = sum_list (map (\<lambda>w. nat (wc_Count (snd w))) (entries workers))"
  by (simp add: spawnWorkers_def RunSyncer_def length_concat case_prod_beta comp_def)

text \<open>The server does not start before a requested migration has succeeded.\<close>

lemma serve_after_migration:
  assumes "StartServer env cfg True spawnWorker s = (Ok (), t)"
  shows "\<exists>u v store registry scopes. runMigrations env cfg u = (Ok (), v) \<and>
    se_Serve env (httpAddr (cfg_Service cfg)) (grpcAddr (cfg_Service cfg)) store registry
      (syc_SyncBackoffInterval (cfg_Syncer cfg)) (syc_MaxRetries (cfg_Syncer cfg)) (tc_ServiceName (cfg_Telemetry cfg)) scopes v = (Ok (), t)"
  using assms by (fastforce simp: StartServer_def bindS_Ok_iff liftR_def)

end
