(* ===== verification/Cli_Laws.thy ===== *)
theory Cli_Laws
  imports Start
begin

text \<open>
  The commands against the server. A unary call reaches the handler behind the log wrapper, a panic
  becomes the status of the recovery interceptor, and the client gets an error whose text holds the
  status. The metadata of a call is that of the transport.
\<close>

section \<open>The connection\<close>

definition rpc_err :: "rpc_error \<Rightarrow> gerror" where
  "rpc_err e =
     (case e of
        RpcStatus c msg \<Rightarrow> status_Errorf c msg
      | RpcRaw err \<Rightarrow> PlainErr (''rpc error: code = Unknown desc = '' @ error_text err))"

definition over_rpc :: "(string \<Rightarrow> rpc_error) \<Rightarrow> ('s, 'a) rpc \<Rightarrow> ('s, 'a) go" where
  "over_rpc recovered m s =
     (case m s of
        (Ok a, t) \<Rightarrow> (Ok a, t)
      | (Err e, t) \<Rightarrow> (Err (rpc_err e), t)
      | (Panic p, t) \<Rightarrow> (Err (rpc_err (recovered p)), t)
      | (Overflow, t) \<Rightarrow> (Overflow, t))"

text \<open>The stream of a log request that is neither cancelled nor broken; there is no recovery for streams.\<close>

definition stream_logs :: "'s ResourceService \<Rightarrow> string \<Rightarrow> string gomap \<Rightarrow> ('s, log_stream) go" where
  "stream_logs rsv urn filt =
     catchS (rsv_GetLog rsv urn filt) (\<lambda>chunks. ret (map Some chunks, None))
       (\<lambda>err. ret ([], Some (rpc_err (ToRPCError err))))"

definition server_client ::
    "(string \<Rightarrow> rpc_error \<Rightarrow> 's \<Rightarrow> 's) \<Rightarrow> (string \<Rightarrow> rpc_error) \<Rightarrow> 'v structpb \<Rightarrow> 's ResourceService \<Rightarrow>
     string list gomap \<Rightarrow> ('s, 'v) resource_client" where
  "server_client logError recovered pb rsv md =
     \<lparr>rcl_ListResources = (\<lambda>q. over_rpc recovered (lw_ListResources logError pb rsv q)),
      rcl_GetResource = (\<lambda>urn. bindS (over_rpc recovered (lw_GetResource logError pb rsv urn)) (ret \<circ> Some)),
      rcl_CreateResource = (\<lambda>q. bindS (over_rpc recovered (lw_CreateResource logError pb rsv (Some md) q)) (ret \<circ> Some)),
      rcl_UpdateResource = (\<lambda>q. bindS (over_rpc recovered (lw_UpdateResource logError pb rsv (Some md) q)) (ret \<circ> Some)),
      rcl_DeleteResource = (\<lambda>urn. over_rpc recovered (lw_DeleteResource logError rsv urn)),
      rcl_ApplyAction = (\<lambda>q. bindS (over_rpc recovered (lw_ApplyAction logError pb rsv (Some md) q)) (ret \<circ> Some)),
      rcl_GetLog = stream_logs rsv,
      rcl_GetResourceRevisions = (\<lambda>urn. over_rpc recovered (lw_GetResourceRevisions logError pb rsv urn))\<rparr>"

definition server_modules ::
    "(string \<Rightarrow> rpc_error) \<Rightarrow> 'v structpb \<Rightarrow> 's ModuleAPI \<Rightarrow> ('s, 'v) module_client" where
  "server_modules recovered pb srv =
     \<lparr>mcl_GetModule = (\<lambda>urn. bindS (over_rpc recovered (api_GetModule pb srv urn)) (ret \<circ> Some)),
      mcl_CreateModule = (\<lambda>m. bindS (over_rpc recovered (api_CreateModule pb srv m)) (ret \<circ> Some)),
      mcl_UpdateModule = (\<lambda>q. bindS (over_rpc recovered (api_UpdateModule pb srv q)) (ret \<circ> Some))\<rparr>"

section \<open>Commands without a user\<close>

text \<open>A call that gives no value and changes nothing but the log.\<close>

definition refused :: "(string \<Rightarrow> rpc_error \<Rightarrow> 's \<Rightarrow> 's) \<Rightarrow> ('s, 'a) go \<Rightarrow> bool" where
  "refused logError m \<longleftrightarrow>
     (\<forall>s. (\<forall>a. fst (m s) \<noteq> Ok a) \<and> (snd (m s) = s \<or> (\<exists>msg e. snd (m s) = logError msg e s)))"

lemma no_user: "lookup md userIDHeader = None \<Longrightarrow> \<exists>e. GetUserIdentifier (Some md) = Err e"
  by (simp add: GetUserIdentifier_def)

lemma refused_over_rpc:
  assumes "\<And>s a. fst (m s) \<noteq> Ok a" and "\<And>s. snd (m s) = s"
  shows "refused logError (bindS (over_rpc recovered (logged logError msg m)) (ret \<circ> Some))"
  unfolding refused_def
proof (intro allI conjI)
  fix s a
  obtain r where m: "m s = (r, s)" and r: "\<And>a. r \<noteq> Ok a"
    using assms by (metis prod.collapse)
  show "fst (bindS (over_rpc recovered (logged logError msg m)) (ret \<circ> Some) s) \<noteq> Ok a"
    using m r by (cases r) (auto simp: bindS_def catchS_def over_rpc_def logged_def fail_def ret_def)
  show "snd (bindS (over_rpc recovered (logged logError msg m)) (ret \<circ> Some) s) = s \<or>
    (\<exists>msg' e. snd (bindS (over_rpc recovered (logged logError msg m)) (ret \<circ> Some) s) = logError msg' e s)"
    using m r by (cases r) (auto simp: bindS_def catchS_def over_rpc_def logged_def fail_def)
qed

lemma unidentified:
  assumes "lookup md userIDHeader = None"
  shows "fst (rpcS (liftR (GetUserIdentifier (Some md))) f s) \<noteq> Ok a" "snd (rpcS (liftR (GetUserIdentifier (Some md))) f s) = s"
  using no_user [OF assms] by (auto simp: rpcS_def catchS_def liftR_def fail_def)

lemma catchS_pure:
  assumes "\<And>x. (\<forall>a. fst (f x s) \<noteq> Ok a) \<and> snd (f x s) = s" and "\<And>e. (\<forall>a. fst (h e s) \<noteq> Ok a) \<and> snd (h e s) = s"
  shows "fst (catchS (liftR r) f h s) \<noteq> Ok a" "snd (catchS (liftR r) f h s) = s"
  using assms by (cases r; auto simp: catchS_def liftR_def)+

lemma fail_pure: "fst (fail e s) \<noteq> Ok a" "snd (fail e s) = s"
  by (simp_all add: fail_def)

lemma rpcS_pure:
  assumes "\<And>x. (\<forall>a. fst (f x s) \<noteq> Ok a) \<and> snd (f x s) = s"
  shows "fst (rpcS (liftR r) f s) \<noteq> Ok a" "snd (rpcS (liftR r) f s) = s"
  using assms by (simp_all add: rpcS_def catchS_pure fail_pure)

lemma changes_refused:
  assumes "lookup md userIDHeader = None"
  shows "refused logError (rcl_CreateResource (server_client logError recovered pb rsv md) cq)"
    "refused logError (rcl_UpdateResource (server_client logError recovered pb rsv md) uq)"
    "refused logError (rcl_ApplyAction (server_client logError recovered pb rsv md) aq)"
proof -
  note user = unidentified [OF assms]
  show "refused logError (rcl_CreateResource (server_client logError recovered pb rsv md) cq)"
    by (simp add: server_client_def lw_CreateResource_def)
      (intro refused_over_rpc; simp add: api_CreateResource_def rpcS_pure user)
  show "refused logError (rcl_UpdateResource (server_client logError recovered pb rsv md) uq)"
    by (simp add: server_client_def lw_UpdateResource_def)
      (intro refused_over_rpc; simp add: api_UpdateResource_def rpcS_pure user)
  show "refused logError (rcl_ApplyAction (server_client logError recovered pb rsv md) aq)"
    by (simp add: server_client_def lw_ApplyAction_def)
      (intro refused_over_rpc; simp add: api_ApplyAction_def catchS_pure fail_pure user)
qed

text \<open>A refused call makes its command fail, after a line on the terminal.\<close>

definition cli_failed :: "('s, 'v) cli_env \<Rightarrow> (string \<Rightarrow> rpc_error \<Rightarrow> 's \<Rightarrow> 's) \<Rightarrow> 's \<Rightarrow> (gerror, exit_status) result \<times> 's \<Rightarrow> bool" where
  "cli_failed env logError s run \<longleftrightarrow>
     fst run \<noteq> Ok Returned \<and>
     (\<exists>u. (u = s \<or> (\<exists>msg e. u = logError msg e s)) \<and> (snd run = u \<or> (\<exists>line. snd run = ce_stdout env (Line line) u)))"

lemma handleErr_refused: "refused logError m \<Longrightarrow> cli_failed env logError s (handleErr env (bindS m f) s)"
proof -
  assume ref: "refused logError m"
  obtain r u where m: "m s = (r, u)" by (cases "m s")
  with ref have r: "\<And>a. r \<noteq> Ok a" and u: "u = s \<or> (\<exists>msg e. u = logError msg e s)"
    unfolding refused_def by (metis fst_conv, metis snd_conv)
  show ?thesis
    using r u m by (cases r) (auto simp: cli_failed_def handleErr_def bindS_def catchS_def fail_def emit_def ret_def)
qed

lemma handleErr_pure:
  assumes "\<And>x. cli_failed env logError s (handleErr env (f x) s)"
  shows "cli_failed env logError s (handleErr env (bindS (liftR r) f) s)"
  using assms
  by (cases r) (auto simp: cli_failed_def handleErr_def bindS_def catchS_def liftR_def fail_def emit_def ret_def)

section \<open>Properties\<close>

text \<open>C36: The client sends no user with its calls. Against a server that gets none, creating, editing and
  applying an action never succeed, whatever the file and the flags: the command fails and the only effects are a line of the server's log and a line on the
  terminal.\<close>

theorem cli_changes_rejected:
  assumes "createResourceServiceClient env flags = ret (server_client logError recovered pb rsv md)"
    and "lookup md userIDHeader = None"
  shows "cli_failed env logError s (cmdCreateResource env flags file s) \<and>
    cli_failed env logError s (cmdEditResource env flags file urn s) \<and>
    cli_failed env logError s (cmdApplyAction env flags urn file actionName s)"
  unfolding cmdCreateResource_def cmdEditResource_def cmdApplyAction_def Let_def assms(1) bindS_ret
  by (intro conjI handleErr_pure handleErr_refused changes_refused [OF assms(2)])

text \<open>Modules can be managed from the client. When the file parses and no field has a validator that objects,
  creating a module runs the handler of the server once, and on success prints the URN of the module
  the server reports.\<close>

theorem cli_module_created:
  assumes "createModuleServiceClient env flags = ret (server_modules recovered pb srv)"
    and "parseFile env (ce_Module env) file = Ok m" and "\<forall>v. ce_validateValue env v = None" and "\<forall>t. ce_validateTime env t = None"
    and "gf_Format flags = ''pretty''" and "api_CreateModule pb srv (Some m) s = (Ok made, t)"
  shows "cmdModuleCreate env flags file s =
    (Ok Returned, ce_stdout env (Line (''Use '' @ sq ''entropy module view <urn>'' @ '' to view module.''))
       (ce_stdout env (Line (''Module created with URN '' @ sq (pbm_Urn made) @ ''.'')) t))"
proof -
  have valid: "Module_ValidateAll (ce_validateTime env) (ce_validateValue env) m = None"
    using assms(3,4) by (simp add: Module_ValidateAll_def multi_error_def embedded_def)
  have call: "over_rpc recovered (api_CreateModule pb srv (Some m)) s = (Ok made, t)"
    by (simp add: over_rpc_def assms(6))
  have pretty: "ToLower (TrimSpace (gf_Format flags)) = ''pretty''"
    unfolding assms(5) by code_simp
  have lift: "liftR (Ok a) = ret a" for a
    by (simp add: liftR_def ret_def fun_eq_iff)
  let ?show = "module_lines env ''Module created with URN '' (Some made)"
  have "cmdModuleCreate env flags file s = handleErr env (\<lambda>_. ?show t) s"
    by (simp add: cmdModuleCreate_def assms(1,2) valid checked_def lift server_modules_def Display_def pretty handleErr_def)
      (simp add: catchS_def bindS_def call ret_def)
  then show ?thesis
    by (simp add: module_lines_def quoted_urn_def lift handleErr_def catchS_def bindS_def emit_def ret_def)
qed

text \<open>
  The validators accept every message, when the types of other packages have none: no field of the
  messages has a rule of its own.
\<close>

lemma validation_vacuous:
  assumes "\<forall>v. validateValue v = None" and "\<forall>t. validateTime t = None"
  shows "UpdateResourceRequest_ValidateAll validateValue uq = None" "ApplyActionRequest_ValidateAll validateValue aq = None"
    "Module_ValidateAll validateTime validateValue m = None" "GetLogRequest_ValidateAll urn filt = None"
proof -
  have "ResourceSpec_ValidateAll validateValue sp = None" for sp
    using assms(1)
    by (auto simp: ResourceSpec_ValidateAll_def ResourceDependency_ValidateAll_def multi_error_def embedded_def split: option.split)
  then show "UpdateResourceRequest_ValidateAll validateValue uq = None"
    by (simp add: UpdateResourceRequest_ValidateAll_def multi_error_def embedded_def)
qed (use assms in \<open>simp_all add: ApplyActionRequest_ValidateAll_def Module_ValidateAll_def GetLogRequest_ValidateAll_def
    multi_error_def embedded_def\<close>)

text \<open>A filter without a colon ends the client with a panic, before anything is sent.\<close>

lemma filter_without_colon: "CHR '':'' \<notin> set f \<Longrightarrow> parse_filters (f # fs) acc = Panic filter_panic"
proof -
  assume "CHR '':'' \<notin> set f"
  then have "split_on (CHR '':'') f = [f]" by (induction f) auto
  then show ?thesis by simp
qed

end
