(* ===== verification/Witnesses_Api.thy ===== *)
theory Witnesses_Api
  imports Api_Props Witnesses_Pg Cli_Laws
begin

text \<open>
  The API properties on the installation of \<open>Scenario\<close>, with JSON documents themselves as the protocol
  values; and those of the HTTP middleware and of the commands, for a client that keeps what it printed,
  next to a module server that stores nothing.
\<close>

section \<open>A client\<close>

definition doc_values :: "json structpb" where
  "doc_values =
     \<lparr>pb_Unmarshal = Ok,
      pb_Marshal = (\<lambda>v. case v of None \<Rightarrow> Err (PlainErr ''proto: none of the oneof fields is set'')
                             | Some j \<Rightarrow> Ok (raw_doc j)),
      pb_MarshalStruct = (\<lambda>v. case v of Some (JObj kvs) \<Rightarrow> Ok (raw_doc (JObj kvs)) | _ \<Rightarrow> Ok (raw_doc (JObj []))),
      pb_NullValue = JNull, pb_Range = rev\<rparr>"

definition alice :: metadata where
  "alice = ExtractRequestMetadata (Some [(''User-Id'', [''alice''])])"

definition demo_spec :: "json pb_Spec" where
  "demo_spec = \<lparr>pbs_Configs = Some (case demo_params of Some (Doc j) \<Rightarrow> j), pbs_Dependencies = []\<rparr>"

definition demo_create_request :: "json CreateResourceRequest" where
  "demo_create_request =
     \<lparr>crq_Resource = Some
        \<lparr>pbr_Urn = [], pbr_Kind = ''kafka'', pbr_Name = ''events'', pbr_Project = ''proj'',
         pbr_Labels = Some [(''team'', ''core'')], pbr_CreatedAt = None, pbr_UpdatedAt = None,
         pbr_Spec = Some demo_spec, pbr_State = None, pbr_CreatedBy = [], pbr_UpdatedBy = []\<rparr>,
      crq_DryRun = False\<rparr>"

definition demo_reply :: "json pb_Resource" where
  "demo_reply = (case resourceToProto doc_values demo_planned of Ok m \<Rightarrow> m)"

section \<open>Witnesses\<close>

theorem missing_user_internal_witness:
  "\<exists>msg. api_CreateResource doc_values (core_ResourceService 5 demo) (Some (Some [])) demo_create_request world1 =
     (Err (RpcStatus code_Internal msg), world1)"
proof -
  obtain res where res: "resourceFromProto doc_values (crq_Resource demo_create_request) False = Ok res"
    by (simp add: resourceFromProto_def demo_create_request_def resourceSpecFromProto_def bindR_def map_err_def
        doc_values_def demo_spec_def Let_def)
  have "lookup (Some []) userIDHeader = (None :: string list option)" by (simp add: lookup_def)
  from missing_user_internal [OF res this, of "core_ResourceService 5 demo" world1] show ?thesis by (rule conjunct2)
qed

definition linked_spec :: "json pb_Spec" where
  "linked_spec = demo_spec\<lparr>pbs_Dependencies :=
     [\<lparr>pbd_Key = ''broker'', pbd_Value = demo_urn\<rparr>, \<lparr>pbd_Key = ''sink'', pbd_Value = ''orn:entropy:kafka:proj:sink''\<rparr>]\<rparr>"

definition accepted_spec :: Spec where
  "accepted_spec = \<lparr>sp_Configs = demo_params,
     sp_Dependencies = Some [(''broker'', demo_urn), (''sink'', ''orn:entropy:kafka:proj:sink'')]\<rparr>"

theorem spec_proto_roundtrip_witness:
  "\<exists>sp'. resourceSpecToProto doc_values accepted_spec = Ok sp' \<and>
     mset (pbs_Dependencies sp') = mset (pbs_Dependencies linked_spec) \<and> pbs_Dependencies sp' \<noteq> pbs_Dependencies linked_spec"
proof -
  have law: "\<exists>j. r = raw_doc j \<and> pb_Unmarshal doc_values j = Ok v"
    if "pb_Marshal doc_values (Some v) = Ok r" for v r
    using that by (simp add: doc_values_def)
  have order: "any_order doc_values" by (simp add: any_order_def doc_values_def)
  have acc: "resourceSpecFromProto doc_values (Some linked_spec) = Ok accepted_spec"
    by (simp add: resourceSpecFromProto_def bindR_def map_err_def doc_values_def linked_spec_def demo_spec_def accepted_spec_def
        put_def demo_params_def raw_doc_def)
  obtain v where v: "pbs_Configs linked_spec = Some v"
    by (simp add: linked_spec_def demo_spec_def)
  from spec_proto_roundtrip [of doc_values, OF law order acc v] obtain sp' where
    sp': "resourceSpecToProto doc_values accepted_spec = Ok sp'" "mset (pbs_Dependencies sp') = mset (pbs_Dependencies linked_spec)"
    by blast
  have "hd (pbs_Dependencies sp') \<noteq> hd (pbs_Dependencies linked_spec)"
    using sp'(1)
    by (auto simp: resourceSpecToProto_def linked_spec_def accepted_spec_def doc_values_def bindR_def map_err_def demo_params_def
        split: result.splits)
  with sp' show ?thesis by metis
qed

lemma demo_create_runs:
  "api_CreateResource doc_values (core_ResourceService 5 demo) alice demo_create_request world1 = (Ok demo_reply, world2)"
  by code_simp

theorem api_create_reports_stored_witness:
  "\<exists>p. resourceToProto doc_values p = Ok demo_reply \<and>
     (storable p \<longrightarrow> fst (GetByURN (pbr_Urn demo_reply) (nf world2)) = Ok (stored p))"
proof -
  have n: "w_res_seq world1 \<le> 5" by (simp add: world1_def world0_def migrated_def)
  have d: "\<not> crq_DryRun demo_create_request" by (simp add: demo_create_request_def)
  from api_create_reports_stored [OF kafka_registry_ok demo_meter world_inv(1) n d demo_create_runs [unfolded demo_def]]
  show ?thesis by blast
qed

lemma doc_values_total: "structpb_total doc_values"
  by (auto simp: structpb_total_def doc_values_def split: option.split json.split)

section \<open>Middleware and commands\<close>

definition api_request :: http_request where
  "api_request = \<lparr>hq_Method = ''GET'', hq_Path = ''/api/v1beta1/resources'', hq_RawQuery = [], hq_Header = None, hq_Body = Inr None\<rparr>"

definition id_source :: "nat \<Rightarrow> string \<times> nat" where
  "id_source n = (''id'', Suc n)"

theorem http_middleware_transparent_witness:
  "\<exists>rid t. rid \<noteq> [] \<and>
     fst (http_router id_source (\<lambda>_ n. n) (\<lambda>req. ret []) (\<lambda>req. ret [Write (hq_Path req)]) api_request 0) =
       Ok [SetHeader headerRequestID rid, Write ''/v1beta1/resources'']"
proof -
  have p: "HasPrefix (hq_Path api_request) (grpcGatewayPrefix @ ''/'')"
    by code_simp
  have i: "\<forall>n. fst (id_source n) \<noteq> []"
    by (simp add: id_source_def)
  have b: "hq_Body api_request = Inr None" and d: "drop (length grpcGatewayPrefix) (hq_Path api_request) = ''/v1beta1/resources''"
    by code_simp+
  from http_middleware_transparent [OF p i, of 0 "\<lambda>_ n. n" "\<lambda>req. ret []" "\<lambda>req. ret [Write (hq_Path req)]"]
  show ?thesis using b d by (auto simp: ret_def)
qed

definition quiet_rsv :: "string list ResourceService" where
  "quiet_rsv =
     \<lparr>rsv_GetResource = (\<lambda>urn. fail (EErr ErrNotFound)), rsv_ListResources = (\<lambda>f b. fail (EErr ErrInternal)),
      rsv_CreateResource = (\<lambda>r opts. ret r), rsv_UpdateResource = (\<lambda>urn r opts. fail (EErr ErrNotFound)),
      rsv_DeleteResource = (\<lambda>urn. ret ()), rsv_ApplyAction = (\<lambda>urn act opts. fail (EErr ErrNotFound)),
      rsv_GetLog = (\<lambda>urn f. ret []), rsv_GetRevisions = (\<lambda>urn. ret [])\<rparr>"

definition echo_modules :: "string list ModuleAPI" where
  "echo_modules =
     \<lparr>msa_GetModule = (\<lambda>urn. fail (EErr ErrNotFound)), msa_ListModules = (\<lambda>p. ret []),
      msa_CreateModule = (\<lambda>m s. (Ok m, ''stored'' # s)), msa_UpdateModule = (\<lambda>urn c. fail (EErr ErrNotFound)),
      msa_DeleteModule = (\<lambda>urn. ret ())\<rparr>"

definition kept_line :: "json out_item \<Rightarrow> string list \<Rightarrow> string list" where
  "kept_line out s = (case out of Line txt \<Rightarrow> txt # s | _ \<Rightarrow> s)"

definition kept_log :: "string \<Rightarrow> rpc_error \<Rightarrow> string list \<Rightarrow> string list" where
  "kept_log msg e s = msg # s"

definition recovered_panic :: "string \<Rightarrow> rpc_error" where
  "recovered_panic p = RpcStatus code_Internal p"

definition topic_message :: "json pb_Module" where
  "topic_message = zero_pb_Module\<lparr>pbm_Urn := ''orn:entropy:module:proj:kafka'', pbm_Configs := Some (JObj [])\<rparr>"

definition desk :: "(string list, json) cli_env" where
  "desk =
     \<lparr>ce_ReadFile = (\<lambda>f. Ok (raw_doc (JObj []))), ce_YAMLToJSON = Ok,
      ce_Resource = (\<lambda>r. Ok \<lparr>pbr_Urn = [], pbr_Kind = ''kafka'', pbr_Name = ''events'', pbr_Project = ''proj'', pbr_Labels = None,
         pbr_CreatedAt = None, pbr_UpdatedAt = None, pbr_Spec = None, pbr_State = None, pbr_CreatedBy = [], pbr_UpdatedBy = []\<rparr>),
      ce_Spec = (\<lambda>r. Ok \<lparr>pbs_Configs = None, pbs_Dependencies = []\<rparr>), ce_Value = (\<lambda>r. Ok JNull), ce_Module = (\<lambda>r. Ok topic_message),
      ce_zeroValue = JNull, ce_stringValue = (\<lambda>v. []), ce_validateValue = (\<lambda>v. None), ce_validateTime = (\<lambda>t. None),
      ce_DialResources = (\<lambda>host timeout. ret (server_client kept_log recovered_panic doc_values quiet_rsv None)),
      ce_DialModules = (\<lambda>host timeout. ret (server_modules recovered_panic doc_values echo_modules)),
      ce_Marshal = (\<lambda>v. Ok JNull), ce_YAMLEncode = (\<lambda>j. Ok ()), ce_TOMLEncode = (\<lambda>v. Ok ()), ce_FormatTime = (\<lambda>t. []),
      ce_Format = (\<lambda>t. t), ce_stdout = kept_line\<rparr>"

definition desk_flags :: cli_flags where
  "desk_flags = \<lparr>gf_Host = ''localhost:8080'', gf_Timeout = 5000000000, gf_Format = ''pretty''\<rparr>"

theorem cli_changes_rejected_witness:
  "cli_failed desk kept_log [] (cmdCreateResource desk desk_flags ''topic.yaml'' [])"
proof -
  have c: "createResourceServiceClient desk desk_flags = ret (server_client kept_log recovered_panic doc_values quiet_rsv None)"
    by (simp add: createResourceServiceClient_def desk_def)
  have u: "lookup (None :: string list gomap) userIDHeader = None"
    by (simp add: lookup_def)
  show ?thesis using cli_changes_rejected [OF c u] by blast
qed

theorem cli_module_created_witness:
  "\<exists>out. cmdModuleCreate desk desk_flags ''kafka.yaml'' [] = (Ok Returned, out) \<and>
     ''Module created with URN '' @ sq ''orn:entropy:module:proj:kafka'' @ ''.'' \<in> set out"
proof -
  have c: "createModuleServiceClient desk desk_flags = ret (server_modules recovered_panic doc_values echo_modules)"
    by (simp add: createModuleServiceClient_def desk_def)
  have f: "parseFile desk (ce_Module desk) ''kafka.yaml'' = Ok topic_message"
    by code_simp
  have v: "\<forall>v. ce_validateValue desk v = None" "\<forall>t. ce_validateTime desk t = None" and p: "gf_Format desk_flags = ''pretty''"
    by (simp_all add: desk_def desk_flags_def)
  obtain made t where m: "api_CreateModule doc_values echo_modules (Some topic_message) [] = (Ok made, t)"
    and urn: "pbm_Urn made = ''orn:entropy:module:proj:kafka''"
    by (simp add: api_CreateModule_def moduleFromProto_def getConfigsAsRawJSON_def topic_message_def zero_pb_Module_def doc_values_def
        echo_modules_def moduleToProto_def rpcS_def catchS_def liftR_def ret_def bindR_def map_err_def raw_empty_def raw_doc_def
        unmarshal_pointer_def json_parse_def)
  have "ce_stdout desk = kept_line" by (simp add: desk_def)
  then show ?thesis
    using cli_module_created [OF c f v p m] by (simp add: kept_line_def urn)
qed

end
