(* ===== verification/Firehose_Laws.thy ===== *)
theory Firehose_Laws
  imports Firehose_Module Job_Laws
begin

text \<open>
  What the firehose module promises: consumer groups of a reset are new, configurations are within
  their bounds, an action keeps the identity of the deployment, the syncs after an action perform its
  pending steps in order, and a release Entropy does not manage is left alone.
\<close>

section \<open>Consumer groups\<close>

lemma suffixRegex_Some:
  assumes "suffixRegex s = Some (pre, ds)"
  shows "s = pre @ ''-'' @ ds" and "ds \<noteq> []" and "list_all is_digit ds"
proof -
  let ?P = "\<lambda>c. c \<noteq> CHR ''-''"
  have ds: "ds = rev (takeWhile ?P (rev s))" and pre: "pre = rev (drop 1 (dropWhile ?P (rev s)))"
    and len: "length ds < length s" and "ds \<noteq> []" "list_all is_digit ds"
    using assms by (auto simp: suffixRegex_def Let_def split: if_splits)
  then show "ds \<noteq> []" "list_all is_digit ds" by simp_all
  have "dropWhile ?P (rev s) \<noteq> []"
    using len unfolding ds by (metis append_Nil2 length_rev less_irrefl takeWhile_dropWhile_id)
  then obtain x where "dropWhile ?P (rev s) = CHR ''-'' # x"
    using hd_dropWhile [of ?P "rev s"] by (cases "dropWhile ?P (rev s)") auto
  moreover from this have "rev s = rev ds @ CHR ''-'' # x"
    unfolding ds by (metis rev_rev_ident takeWhile_dropWhile_id)
  ultimately show "s = pre @ ''-'' @ ds"
    unfolding pre by (metis append.left_neutral append_Cons drop_0 drop_Suc_Cons One_nat_def rev.simps(2)
        rev_append rev_rev_ident append_assoc)
qed

lemma suffixRegex_append:
  assumes "pre \<noteq> []" and "list_all (\<lambda>c. is_alpha c \<or> is_digit c \<or> c = CHR ''-'') pre"
    and "ds \<noteq> []" and "list_all is_digit ds"
  shows "suffixRegex (pre @ ''-'' @ ds) = Some (pre, ds)"
proof -
  have nd: "\<forall>c \<in> set (rev ds). c \<noteq> CHR ''-''"
    using assms(4) by (auto simp: list_all_iff is_digit_def)
  have "takeWhile (\<lambda>c. c \<noteq> CHR ''-'') (rev ds @ CHR ''-'' # rev pre) = rev ds"
    using nd by (subst takeWhile_append2) auto
  moreover have "dropWhile (\<lambda>c. c \<noteq> CHR ''-'') (rev ds @ CHR ''-'' # rev pre) = CHR ''-'' # rev pre"
    using nd by (subst dropWhile_append2) auto
  ultimately show ?thesis
    using assms by (simp add: suffixRegex_def)
qed

lemma read_nat_digits: "list_all is_digit ds \<Longrightarrow> ds \<noteq> [] \<Longrightarrow> \<exists>n. read_nat ds = Some n"
proof -
  assume "list_all is_digit ds" "ds \<noteq> []"
  moreover have "\<exists>n. read_digits acc ds = Some n" if "list_all is_digit ds" for acc
    using that by (induction ds arbitrary: acc) auto
  ultimately show ?thesis by (simp add: read_nat_def)
qed

lemma Atoi_digits:
  assumes "list_all is_digit ds" and "ds \<noteq> []"
  shows "Atoi ds = (case read_nat ds of None \<Rightarrow> None | Some n \<Rightarrow> if int n \<le> int64_max then Some (int n) else None)"
  using assms by (cases ds) (auto simp: Atoi_def is_digit_def int64_max_def Let_def split: option.split)

lemma getNewConsumerGroupID_next:
  assumes "pre \<noteq> []" and "list_all (\<lambda>c. is_alpha c \<or> is_digit c \<or> c = CHR ''-'') pre" and "int n < int64_max"
  shows "getNewConsumerGroupID (pre @ ''-'' @ show_nat n) = Ok (pre @ ''-'' @ show_nat (Suc n))"
  using assms suffixRegex_append [of pre "show_nat n"]
  by (simp add: getNewConsumerGroupID_def show_nat_digits Atoi_digits incr64_def show_int_def nat_add_distrib)

lemma show_int_incr64:
  assumes "Atoi ds = Some n" and "list_all is_digit ds" and "ds \<noteq> []"
  shows "show_int (incr64 n) \<noteq> ds"
proof
  assume eq: "show_int (incr64 n) = ds"
  obtain k where k: "read_nat ds = Some k" "n = int k" "int k \<le> int64_max"
    using assms read_nat_digits [of ds] by (auto simp: Atoi_digits split: if_splits)
  show False
  proof (cases "n = int64_max")
    case True
    then have "hd ds = CHR ''-''" using eq by (auto simp: incr64_def show_int_def int64_max_def)
    then show False using assms(2,3) by (cases ds) (auto simp: is_digit_def)
  next
    case False
    then have "ds = show_nat (Suc k)"
      using eq k by (simp add: incr64_def show_int_def nat_add_distrib)
    then show False using k(1) by simp
  qed
qed

lemma getNewConsumerGroupID_fresh:
  assumes "getNewConsumerGroupID g = Ok g'"
  shows "g' \<noteq> g"
proof (cases "suffixRegex g")
  case None
  then show ?thesis using assms by (auto simp: getNewConsumerGroupID_def)
next
  case (Some pd)
  obtain pre ds where pd: "pd = (pre, ds)" by fastforce
  note s = suffixRegex_Some [OF Some [unfolded pd]]
  from assms Some pd obtain n where n: "Atoi ds = Some n" "g' = pre @ ''-'' @ show_int (incr64 n)"
    by (auto simp: getNewConsumerGroupID_def split: option.splits)
  then show ?thesis
    using show_int_incr64 [OF n(1) s(3,2)] s(1) by simp
qed

section \<open>Bounds of a configuration\<close>

lemma get_str_put: "get_str (Some (put k v kvs)) k' = (if k' = k then v else get_str (Some kvs) k')"
  by (simp add: get_str_def lookup_def)

lemma fh_complete_facts:
  "fc_DeploymentID (fh_complete dc dep cfg) = dep" "fc_Replicas (fh_complete dc dep cfg) = fc_Replicas cfg"
  "fc_InitContainer (fh_complete dc dep cfg) = fc_InitContainer cfg"
  "get_str (fc_EnvVariables (fh_complete dc dep cfg)) confKeyConsumerID \<noteq> []"
  by (simp_all add: fh_complete_def Let_def get_str_put)

lemma fh_read_autoscaler_Ok:
  assumes "fh_read_autoscaler dc cfg = Ok conf"
  obtains a where "conf = cfg\<lparr>fc_Autoscaler := a\<rparr>"
    and "\<And>x. a = Some x \<Longrightarrow> as_Enabled x \<Longrightarrow> Autoscaler_Validate x = Ok ()"
proof (rule that [of "fc_Autoscaler conf"])
  show "conf = cfg\<lparr>fc_Autoscaler := fc_Autoscaler conf\<rparr>"
    using assms by (auto simp: fh_read_autoscaler_def split: option.splits if_splits result.splits)
  show "Autoscaler_Validate x = Ok ()" if "fc_Autoscaler conf = Some x" "as_Enabled x" for x
    using assms that by (auto simp: fh_read_autoscaler_def split: option.splits if_splits result.splits)
qed

lemma Autoscaler_Validate_Ok:
  assumes "Autoscaler_Validate a = Ok ()" and "as_Enabled a"
  obtains k where "as_Spec a = KedaSpec (Some k)" and "0 \<le> kd_MinReplicas k" and "1 \<le> kd_MaxReplicas k"
    and "kd_MinReplicas k \<le> kd_MaxReplicas k" and "entries (kd_Triggers k) \<noteq> []"
  using assms
  by (cases "as_Spec a") (auto simp: Autoscaler_Validate_def Keda_Validate_def split: option.splits if_splits)

lemma fh_deployment_id_Ok:
  assumes "fh_deployment_id sha r cfg = Ok dep"
  shows "dep \<noteq> []" and "length dep \<le> helmReleaseNameMaxLength"
  using assms SafeName_nonempty [of sha _ "''-firehose''" "int helmReleaseNameMaxLength" dep]
    SafeName_length [of sha _ "''-firehose''" "int helmReleaseNameMaxLength" dep]
  by (auto simp: fh_deployment_id_def split: if_splits)

lemma fh_readConfig_Ok:
  assumes "fh_readConfig pt sha v r confJSON dc = Ok conf"
  obtains cfg0 dep a where "Unmarshal (fh_Config_fields pt) confJSON zero_fh_Config = Ok cfg0" and "v confJSON = Ok ()"
    and "dep \<noteq> []" and "length dep \<le> helmReleaseNameMaxLength"
    and "\<And>x. a = Some x \<Longrightarrow> as_Enabled x \<Longrightarrow> Autoscaler_Validate x = Ok ()"
    and "conf = (fh_complete dc dep (cfg0\<lparr>fc_EnvVariables := CloneAndMergeMaps (fd_EnvVariables dc) (fc_EnvVariables cfg0),
                   fc_InitContainer := fd_InitContainer dc,
                   fc_Replicas := (if fc_Replicas cfg0 \<le> 0 then 1 else fc_Replicas cfg0)\<rparr>))\<lparr>fc_Autoscaler := a\<rparr>"
proof -
  from assms obtain cfg0 where c: "Unmarshal (fh_Config_fields pt) confJSON zero_fh_Config = Ok cfg0"
    by (auto simp: fh_readConfig_def split: result.splits)
  let ?cfg = "cfg0\<lparr>fc_EnvVariables := CloneAndMergeMaps (fd_EnvVariables dc) (fc_EnvVariables cfg0),
                   fc_InitContainer := fd_InitContainer dc,
                   fc_Replicas := (if fc_Replicas cfg0 \<le> 0 then 1 else fc_Replicas cfg0)\<rparr>"
  from assms c obtain dep where v: "v confJSON = Ok ()" and dep: "fh_deployment_id sha r ?cfg = Ok dep"
    and a: "fh_read_autoscaler dc (fh_complete dc dep ?cfg) = Ok conf"
    by (auto simp: fh_readConfig_def Let_def split: result.splits)
  from a show ?thesis
    by (rule fh_read_autoscaler_Ok) (rule that [OF c v fh_deployment_id_Ok [OF dep]])
qed

text \<open>C24: the bounds of a firehose configuration. Whatever \<open>readConfig\<close> accepts has at least one replica, a
  deployment id of 1 to 53 bytes, a consumer group, the init container of the module, and, when its
  autoscaler is enabled, a Keda spec with a trigger and bounds \<open>0 <= min <= max\<close>, \<open>1 <= max\<close>.\<close>

theorem fh_readConfig_bounds:
  assumes "fh_readConfig pt sha v r confJSON dc = Ok conf"
  shows "1 \<le> fc_Replicas conf \<and> 0 < length (fc_DeploymentID conf) \<and> length (fc_DeploymentID conf) \<le> 53 \<and>
    get_str (fc_EnvVariables conf) confKeyConsumerID \<noteq> [] \<and> fc_InitContainer conf = fd_InitContainer dc \<and>
    (\<forall>a. fc_Autoscaler conf = Some a \<and> as_Enabled a \<longrightarrow>
       (\<exists>k. as_Spec a = KedaSpec (Some k) \<and> 0 \<le> kd_MinReplicas k \<and> kd_MinReplicas k \<le> kd_MaxReplicas k \<and>
            1 \<le> kd_MaxReplicas k \<and> entries (kd_Triggers k) \<noteq> []))"
  using assms
proof (rule fh_readConfig_Ok, goal_cases)
  case (1 cfg0 dep a)
  have "\<exists>k. as_Spec x = KedaSpec (Some k) \<and> 0 \<le> kd_MinReplicas k \<and> kd_MinReplicas k \<le> kd_MaxReplicas k \<and>
      1 \<le> kd_MaxReplicas k \<and> entries (kd_Triggers k) \<noteq> []" if "a = Some x" "as_Enabled x" for x
    by (rule Autoscaler_Validate_Ok [OF "1"(5) [OF that] that(2)]) blast
  with 1 show ?case
    by (simp add: fh_complete_facts helmReleaseNameMaxLength_def)
qed

section \<open>Planned actions\<close>

definition retagged :: "ChartValues option \<Rightarrow> ChartValues option \<Rightarrow> bool" where
  "retagged cur new \<longleftrightarrow> (\<exists>tag. new = map_option (\<lambda>cv. cv\<lparr>cv_ImageTag := tag\<rparr>) cur)"

lemma retagged_refl [simp]: "retagged cv cv"
  unfolding retagged_def by (cases cv) (auto intro: exI [of _ "cv_ImageTag (the cv)"])

lemma retagged_update [simp]: "retagged (Some cv) (Some (cv\<lparr>cv_ImageTag := tag\<rparr>))"
  by (auto simp: retagged_def)

lemma mergeChartValues_Ok: "mergeChartValues cur new = Ok cv \<Longrightarrow> retagged cur cv"
  by (auto simp: mergeChartValues_def Let_def split: option.splits if_splits)

lemma same_autoscaler: "fc_Autoscaler conf = a \<Longrightarrow> conf\<lparr>fc_Autoscaler := a\<rparr> = conf"
  by (cases conf) simp

lemma change_autoscaler_Ok:
  "change_autoscaler f conf = Ok conf' \<Longrightarrow> conf' = conf\<lparr>fc_Autoscaler := fc_Autoscaler conf'\<rparr>"
  by (auto simp: change_autoscaler_def same_autoscaler split: option.splits result.splits)

text \<open>What an action may change: the deployment id stays, and of a firehose that is not stopped the namespace.\<close>

definition keeps_deployment :: "ActionRequest \<Rightarrow> fh_Config \<Rightarrow> fh_Config \<Rightarrow> bool" where
  "keeps_deployment act cur conf \<longleftrightarrow>
     fc_DeploymentID conf = fc_DeploymentID cur \<and>
     (fc_Namespace conf = fc_Namespace cur \<or> act_Name act = UpdateAction \<and> fc_Stopped cur) \<and>
     (retagged (fc_ChartValues cur) (fc_ChartValues conf) \<or> act_Name act = UpgradeAction)"

lemma plan_update_Ok:
  assumes "plan_update fd exr cur act = Ok conf"
  shows "fc_DeploymentID conf = fc_DeploymentID cur" and "retagged (fc_ChartValues cur) (fc_ChartValues conf)"
    and "fc_Namespace conf = fc_Namespace cur \<or> fc_Stopped cur"
    and "fc_Telegraf conf = fd_Telegraf (fhd_conf fd)" and "fc_InitContainer conf = fd_InitContainer (fhd_conf fd)"
  using assms
  by (auto simp: plan_update_def Let_def dest: mergeChartValues_Ok split: result.splits if_splits)

lemma keeps_autoscaler:
  "change_autoscaler f cur' = Ok conf \<Longrightarrow> keeps_deployment act cur (cur'\<lparr>fc_Autoscaler := fc_Autoscaler conf\<rparr>) \<Longrightarrow>
     keeps_deployment act cur conf"
  using change_autoscaler_Ok by metis

lemma changed_config_Ok:
  assumes "changed_config fd exr cur act = Ok conf"
  shows "keeps_deployment act cur conf"
proof -
  consider (upd) "act_Name act = UpdateAction" | (scale) "act_Name act = ScaleAction"
    | (start) "act_Name act = fh_StartAction" | (stop) "act_Name act = StopAction"
    | (upgrade) "act_Name act = UpgradeAction"
    | (other) "act_Name act \<notin> {UpdateAction, ScaleAction, fh_StartAction, StopAction, UpgradeAction}"
    by auto
  then show ?thesis
  proof cases
    case upd
    then have "plan_update fd exr cur act = Ok conf" using assms by (simp add: changed_config_def)
    from plan_update_Ok [OF this] upd show ?thesis by (simp add: keeps_deployment_def)
  next
    case scale
    then have "plan_scale cur act = Ok conf" using assms by (simp add: changed_config_def fh_action_defs action_defs)
    then show ?thesis by (auto simp: plan_scale_def keeps_deployment_def split: result.splits if_splits)
  next
    case start
    then have "plan_start fd cur act = Ok conf" using assms by (simp add: changed_config_def fh_action_defs action_defs)
    then show ?thesis
      by (auto simp: plan_start_def split: result.splits elim!: keeps_autoscaler) (simp_all add: keeps_deployment_def)
  next
    case stop
    then have "plan_stop cur = Ok conf" using assms by (simp add: changed_config_def fh_action_defs action_defs)
    then show ?thesis
      unfolding plan_stop_def by (rule keeps_autoscaler) (simp add: keeps_deployment_def)
  next
    case upgrade
    then show ?thesis using assms
      by (auto simp: changed_config_def fh_action_defs action_defs keeps_deployment_def)
  next
    case other
    then show ?thesis using assms by (simp add: changed_config_def keeps_deployment_def)
  qed
qed

lemma reset_config_Ok:
  assumes "reset_config resetValue cur = Ok conf"
  shows "fc_DeploymentID conf = fc_DeploymentID cur" and "fc_Namespace conf = fc_Namespace cur"
    and "fc_ChartValues conf = fc_ChartValues cur" and "fc_ResetOffset conf = resetValue"
    and "getNewConsumerGroupID (get_str (fc_EnvVariables cur) confKeyConsumerID) =
           Ok (get_str (fc_EnvVariables conf) confKeyConsumerID)"
    and "get_str (fc_EnvVariables conf) SourceKafkaConsumerAutoOffsetReset = resetValue"
proof -
  have ne: "confKeyConsumerID \<noteq> SourceKafkaConsumerAutoOffsetReset"
    by (simp add: confKeyConsumerID_def SourceKafkaConsumerAutoOffsetReset_def)
  from assms obtain kvs g where e: "fc_EnvVariables cur = Some kvs"
    and g: "getNewConsumerGroupID (get_str (fc_EnvVariables cur) confKeyConsumerID) = Ok g"
    using ne
    by (cases "fc_EnvVariables cur"; cases "getNewConsumerGroupID (get_str (fc_EnvVariables cur) confKeyConsumerID)")
      (simp_all add: reset_config_def put_env_def get_str_put)
  define conf1 where "conf1 = cur\<lparr>fc_ResetOffset := resetValue,
      fc_EnvVariables := Some (put confKeyConsumerID g (put SourceKafkaConsumerAutoOffsetReset resetValue kvs))\<rparr>"
  have "conf = conf1\<lparr>fc_Autoscaler := fc_Autoscaler conf\<rparr>"
    using assms ne g e
    by (auto simp: reset_config_def put_env_def Let_def get_str_put same_autoscaler conf1_def [symmetric]
        split: option.splits result.splits if_splits)
  then obtain a where c: "conf = conf1\<lparr>fc_Autoscaler := a\<rparr>" ..
  show "fc_DeploymentID conf = fc_DeploymentID cur" "fc_Namespace conf = fc_Namespace cur"
    "fc_ChartValues conf = fc_ChartValues cur" "fc_ResetOffset conf = resetValue"
    "get_str (fc_EnvVariables conf) SourceKafkaConsumerAutoOffsetReset = resetValue"
    "getNewConsumerGroupID (get_str (fc_EnvVariables cur) confKeyConsumerID) =
       Ok (get_str (fc_EnvVariables conf) confKeyConsumerID)"
    using ne g by (simp_all add: c conf1_def get_str_put)
qed

text \<open>The steps each action leaves for the syncs, and the offset the consumer group is reset to.\<close>

definition fh_planned :: "ActionRequest \<Rightarrow> transientData" where
  "fh_planned act =
     (if act_Name act = CreateAction then \<lparr>ftd_PendingSteps = [stepReleaseCreate], ftd_ResetOffsetTo = []\<rparr>
      else if act_Name act = ResetAction then
        \<lparr>ftd_PendingSteps = [stepReleaseStop, stepReleaseUpdate], ftd_ResetOffsetTo = []\<rparr>
      else if act_Name act = ResetV2Action then
        \<lparr>ftd_PendingSteps = [stepReleaseStop, stepKafkaReset, stepReleaseUpdate],
         ftd_ResetOffsetTo = (case ParseResetV2Params (act_Params act) of Ok v \<Rightarrow> v | _ \<Rightarrow> [])\<rparr>
      else \<lparr>ftd_PendingSteps = [stepReleaseUpdate], ftd_ResetOffsetTo = []\<rparr>)"

lemma liftR_Ok_iff [simp]: "liftR r s = (Ok a, t) \<longleftrightarrow> r = Ok a \<and> t = s"
  by (auto simp: liftR_def)

lemma fh_Plan_create:
  assumes "fh_Plan fd exr act s = (Ok p, t)" and "act_Name act = CreateAction"
  obtains conf where "t = s"
    and "p = (with_config (er_Resource exr) conf)\<lparr>res_State := pending (fhd_Now fd s)
           (raw_doc (fh_Output_json (zero_fh_Output\<lparr>fo_Namespace := fc_Namespace conf, fo_ReleaseName := fc_DeploymentID conf\<rparr>)))
           (fh_planned act)\<rparr>"
proof -
  from assms obtain conf0 cv kubeOut where "kube_dependency exr = Ok kubeOut"
    and "fh_planCreate fd exr act s = (Ok p, t)"
    and "fhd_ReadConfig fd (er_Resource exr) (act_Params act) (fhd_conf fd) = Ok conf0"
    and "mergeChartValues (Some (fd_ChartValues (fhd_conf fd))) (fc_ChartValues conf0) = Ok cv"
    by (auto simp: fh_Plan_def fh_planCreate_def liftR_def catchS_def fail_def
        split: result.splits prod.splits elim!: bindS_Ok_E)
  then show ?thesis
    by (intro that [of "conf0\<lparr>fc_Telegraf := fd_Telegraf (fhd_conf fd), fc_ChartValues := cv,
        fc_Namespace := (if kcf_Namespace (ko_Configs kubeOut) \<noteq> [] then kcf_Namespace (ko_Configs kubeOut)
          else fc_Namespace conf0)\<rparr>"])
      (auto simp: fh_planCreate_def Let_def assms(2) fh_planned_def ret_def elim!: bindS_Ok_E)
qed

lemma planReset_iff:
  "planReset fd exr act s = (Ok p, t) \<longleftrightarrow> t = s \<and>
     (\<exists>v cur conf. ParseResetParams (act_Params act) = Ok v \<and>
        fhd_ReadConfig fd (er_Resource exr) (sp_Configs (res_Spec (er_Resource exr))) (fhd_conf fd) = Ok cur \<and>
        reset_config v cur = Ok conf \<and>
        p = (with_config (er_Resource exr) conf)
              \<lparr>res_State := pending (fhd_Now fd s) (st_Output (res_State (er_Resource exr)))
                 \<lparr>ftd_PendingSteps = [stepReleaseStop, stepReleaseUpdate], ftd_ResetOffsetTo = []\<rparr>\<rparr>)"
  unfolding planReset_def bindS_Ok_iff liftR_Ok_iff ret_def prod.inject result.inject by blast

lemma planResetV2_iff:
  "planResetV2 fd exr act s = (Ok p, t) \<longleftrightarrow> t = s \<and>
     (\<exists>v cur. ParseResetV2Params (act_Params act) = Ok v \<and>
        fhd_ReadConfig fd (er_Resource exr) (sp_Configs (res_Spec (er_Resource exr))) (fhd_conf fd) = Ok cur \<and>
        p = (with_config (er_Resource exr) (cur\<lparr>fc_ResetOffset := v\<rparr>))
              \<lparr>res_State := pending (fhd_Now fd s) (st_Output (res_State (er_Resource exr)))
                 \<lparr>ftd_PendingSteps = [stepReleaseStop, stepKafkaReset, stepReleaseUpdate], ftd_ResetOffsetTo = v\<rparr>\<rparr>)"
  unfolding planResetV2_def bindS_Ok_iff liftR_Ok_iff ret_def prod.inject result.inject by blast

lemma fh_planChange_iff:
  "fh_planChange fd exr act s = (Ok p, t) \<longleftrightarrow> t = s \<and>
     (\<exists>cur conf. fhd_ReadConfig fd (er_Resource exr) (sp_Configs (res_Spec (er_Resource exr))) (fhd_conf fd) = Ok cur \<and>
        changed_config fd exr cur act = Ok conf \<and>
        validateHelmReleaseConfigs fd exr (with_config (er_Resource exr) conf) conf = Ok () \<and>
        p = (with_config (er_Resource exr) conf)
              \<lparr>res_State := pending (fhd_Now fd s) (st_Output (res_State (er_Resource exr)))
                 \<lparr>ftd_PendingSteps = [stepReleaseUpdate], ftd_ResetOffsetTo = []\<rparr>\<rparr>)"
  unfolding fh_planChange_def bindS_Ok_iff liftR_Ok_iff ret_def prod.inject result.inject Let_def by auto

lemma fh_Plan_Ok:
  assumes "fh_Plan fd exr act s = (Ok p, t)" and "act_Name act \<noteq> CreateAction"
  obtains cur conf where "t = s"
    and "fhd_ReadConfig fd (er_Resource exr) (sp_Configs (res_Spec (er_Resource exr))) (fhd_conf fd) = Ok cur"
    and "keeps_deployment act cur conf"
    and "p = (with_config (er_Resource exr) conf)
           \<lparr>res_State := pending (fhd_Now fd s) (st_Output (res_State (er_Resource exr))) (fh_planned act)\<rparr>"
proof -
  consider (reset) "act_Name act = ResetAction" | (resetV2) "act_Name act = ResetV2Action"
    | (change) "act_Name act \<noteq> ResetAction" "act_Name act \<noteq> ResetV2Action" by blast
  then show ?thesis
  proof cases
    case reset
    then have "planReset fd exr act s = (Ok p, t)"
      using assms by (simp add: fh_Plan_def)
    then obtain v cur conf where
      "fhd_ReadConfig fd (er_Resource exr) (sp_Configs (res_Spec (er_Resource exr))) (fhd_conf fd) = Ok cur"
      and "reset_config v cur = Ok conf"
      and "p = (with_config (er_Resource exr) conf)
           \<lparr>res_State := pending (fhd_Now fd s) (st_Output (res_State (er_Resource exr))) (fh_planned act)\<rparr>" "t = s"
      using reset assms(2) unfolding planReset_iff by (auto simp: fh_planned_def)
    moreover from reset_config_Ok [OF this(2)] have "keeps_deployment act cur conf"
      by (simp add: keeps_deployment_def)
    ultimately show ?thesis using that by blast
  next
    case resetV2
    then have "planResetV2 fd exr act s = (Ok p, t)"
      using assms by (simp add: fh_Plan_def fh_action_defs)
    then obtain v cur where "ParseResetV2Params (act_Params act) = Ok v"
      and r: "fhd_ReadConfig fd (er_Resource exr) (sp_Configs (res_Spec (er_Resource exr))) (fhd_conf fd) = Ok cur"
      and p: "p = (with_config (er_Resource exr) (cur\<lparr>fc_ResetOffset := v\<rparr>))
           \<lparr>res_State := pending (fhd_Now fd s) (st_Output (res_State (er_Resource exr)))
             \<lparr>ftd_PendingSteps = [stepReleaseStop, stepKafkaReset, stepReleaseUpdate], ftd_ResetOffsetTo = v\<rparr>\<rparr>" "t = s"
      unfolding planResetV2_iff by blast
    moreover have "fh_planned act =
        \<lparr>ftd_PendingSteps = [stepReleaseStop, stepKafkaReset, stepReleaseUpdate], ftd_ResetOffsetTo = v\<rparr>"
      using resetV2 assms(2) calculation(1) by (simp add: fh_planned_def fh_action_defs)
    moreover have "keeps_deployment act cur (cur\<lparr>fc_ResetOffset := v\<rparr>)"
      by (simp add: keeps_deployment_def)
    ultimately show ?thesis using that by metis
  next
    case change
    then have "fh_planChange fd exr act s = (Ok p, t)"
      using assms by (simp add: fh_Plan_def)
    then obtain cur conf where
      r: "fhd_ReadConfig fd (er_Resource exr) (sp_Configs (res_Spec (er_Resource exr))) (fhd_conf fd) = Ok cur"
      and c: "changed_config fd exr cur act = Ok conf"
      and p: "p = (with_config (er_Resource exr) conf)
           \<lparr>res_State := pending (fhd_Now fd s) (st_Output (res_State (er_Resource exr))) (fh_planned act)\<rparr>" "t = s"
      using change assms(2) unfolding fh_planChange_iff by (auto simp: fh_planned_def)
    show ?thesis by (rule that [OF p(2) r changed_config_Ok [OF c] p(1)])
  qed
qed

text \<open>C23: an action keeps the deployment. Whatever action is planned on an existing firehose, the planned
  resource is the same resource with a configuration of the same deployment id; its namespace is the
  old one unless a stopped firehose is updated, its chart values differ in the image tag at most
  unless it is upgraded, and the steps that are left are those of the action.\<close>

theorem fh_plan_keeps_deployment:
  assumes "fh_Plan fd exr act s = (Ok p, t)" and "act_Name act \<noteq> CreateAction"
  shows "\<exists>cur conf.
    fhd_ReadConfig fd (er_Resource exr) (sp_Configs (res_Spec (er_Resource exr))) (fhd_conf fd) = Ok cur \<and>
    p = (with_config (er_Resource exr) conf)\<lparr>res_State := res_State p\<rparr> \<and>
    fc_DeploymentID conf = fc_DeploymentID cur \<and>
    (fc_Namespace conf = fc_Namespace cur \<or> act_Name act = UpdateAction \<and> fc_Stopped cur) \<and>
    (retagged (fc_ChartValues cur) (fc_ChartValues conf) \<or> act_Name act = UpgradeAction) \<and>
    st_Status (res_State p) = StatusPending \<and> st_Output (res_State p) = st_Output (res_State (er_Resource exr)) \<and>
    st_ModuleData (res_State p) = raw_doc (transientData_json (fh_planned act))"
  using assms
proof (rule fh_Plan_Ok, goal_cases)
  case (1 cur conf)
  then show ?case
    by (intro exI [of _ cur] exI [of _ conf]) (simp add: keeps_deployment_def pending_def)
qed

text \<open>C25: What the two kinds of reset do to the consumers of a firehose. A planned \<open>reset\<close> stores the stored
  configuration with another consumer group, the next of the old one, and the offset to start from: a
  group that ends in a dash and a number counts up, as long as the number is below the largest 64-bit
  integer. A planned \<open>reset-v2\<close> keeps the group, stores the offset, and leaves the step that resets the offsets of that group.\<close>

theorem consumer_groups_new:
  assumes "fh_Plan fd exr act s = (Ok p, t)" and "act_Name act = ResetAction \<or> act_Name act = ResetV2Action"
  shows "\<exists>cur conf old new.
    fhd_ReadConfig fd (er_Resource exr) (sp_Configs (res_Spec (er_Resource exr))) (fhd_conf fd) = Ok cur \<and>
    old = get_str (fc_EnvVariables cur) confKeyConsumerID \<and> new = get_str (fc_EnvVariables conf) confKeyConsumerID \<and>
    sp_Configs (res_Spec p) = raw_doc (fh_Config_json conf) \<and>
    st_ModuleData (res_State p) = raw_doc (transientData_json (fh_planned act)) \<and>
    (if act_Name act = ResetAction
     then ParseResetParams (act_Params act) = Ok (fc_ResetOffset conf) \<and>
       get_str (fc_EnvVariables conf) SourceKafkaConsumerAutoOffsetReset = fc_ResetOffset conf \<and> new \<noteq> old \<and>
       (\<forall>pre n. old = pre @ ''-'' @ show_nat n \<and> pre \<noteq> [] \<and>
          list_all (\<lambda>c. is_alpha c \<or> is_digit c \<or> c = CHR ''-'') pre \<and> int n < int64_max \<longrightarrow>
          new = pre @ ''-'' @ show_nat (Suc n))
     else ParseResetV2Params (act_Params act) = Ok (fc_ResetOffset conf) \<and> conf = cur\<lparr>fc_ResetOffset := fc_ResetOffset conf\<rparr> \<and>
       stepKafkaReset \<in> set (ftd_PendingSteps (fh_planned act)) \<and> ftd_ResetOffsetTo (fh_planned act) = fc_ResetOffset conf)"
proof (cases "act_Name act = ResetAction")
  case True
  then have "planReset fd exr act s = (Ok p, t)" and "ResetAction \<noteq> CreateAction"
    using assms(1) by (auto simp: fh_Plan_def fh_action_defs action_defs split: if_splits)
  then obtain v cur conf where read: "ParseResetParams (act_Params act) = Ok v"
      "fhd_ReadConfig fd (er_Resource exr) (sp_Configs (res_Spec (er_Resource exr))) (fhd_conf fd) = Ok cur"
    and conf: "reset_config v cur = Ok conf"
    and p: "p = (with_config (er_Resource exr) conf)
           \<lparr>res_State := pending (fhd_Now fd s) (st_Output (res_State (er_Resource exr))) (fh_planned act)\<rparr>"
    using True unfolding planReset_iff by (auto simp: fh_planned_def)
  note reset = reset_config_Ok [OF conf]
  from True read reset p getNewConsumerGroupID_fresh [OF reset(5)] getNewConsumerGroupID_next reset(5) show ?thesis
    by (intro exI [of _ cur] exI [of _ conf]) (auto simp: with_config_def pending_def)
next
  case False
  then have v2: "act_Name act = ResetV2Action" "ResetV2Action \<noteq> CreateAction" "ResetV2Action \<noteq> ResetAction"
    using assms(2) by (auto simp: fh_action_defs action_defs)
  then have "planResetV2 fd exr act s = (Ok p, t)"
    using assms(1) by (simp add: fh_Plan_def)
  then obtain v cur where "ParseResetV2Params (act_Params act) = Ok v"
      "fhd_ReadConfig fd (er_Resource exr) (sp_Configs (res_Spec (er_Resource exr))) (fhd_conf fd) = Ok cur"
      "p = (with_config (er_Resource exr) (cur\<lparr>fc_ResetOffset := v\<rparr>))
           \<lparr>res_State := pending (fhd_Now fd s) (st_Output (res_State (er_Resource exr)))
             \<lparr>ftd_PendingSteps = [stepReleaseStop, stepKafkaReset, stepReleaseUpdate], ftd_ResetOffsetTo = v\<rparr>\<rparr>"
    unfolding planResetV2_iff by blast
  with v2 show ?thesis
    by (intro exI [of _ cur] exI [of _ "cur\<lparr>fc_ResetOffset := v\<rparr>"])
      (simp add: with_config_def pending_def fh_planned_def)
qed

section \<open>Syncing to completion\<close>

text \<open>A sync without pending steps.\<close>

definition fh_completes ::
    "'s firehoseDriver \<Rightarrow> Resource \<Rightarrow> fh_Config \<Rightarrow> fh_Output \<Rightarrow> kube_Output \<Rightarrow> ('s, State) go" where
  "fh_completes fd r conf out kubeOut =
     bindS (stop_if_due fd r conf kubeOut) (\<lambda>(conf', nextSync).
     bindS (fh_refreshOutput fd r conf' out kubeOut) (\<lambda>finalOut.
     ret (zero_State\<lparr>st_Status := StatusCompleted, st_Output := finalOut, st_NextSyncAt := nextSync\<rparr>)))"

lemma firehose_driver_fields [simp]:
  "fhd_conf (firehose_driver env dc) = dc"
  "fhd_ReadConfig (firehose_driver env dc) = fh_readConfig (fe_ParseTime env) (fe_sha256 env) (fe_validateConfig env)"
  "fhd_Release (firehose_driver env dc) = getHelmRelease (fe_engine env) (fe_release_defaults env)"
  "fhd_kubeDeploy (firehose_driver env dc) = fh_kubeDeploy (fe_helm env)"
  "fhd_Now (firehose_driver env dc) = fe_Now env"
  by (simp_all add: firehose_driver_def)

lemma getHelmRelease_state [simp]: "getHelmRelease tpl d dc (r\<lparr>res_State := x\<rparr>) = getHelmRelease tpl d dc r"
  by (intro ext) (simp add: getHelmRelease_def other_labels_def)

lemma fh_readConfig_state [simp]: "fh_readConfig pt sha v (r\<lparr>res_State := x\<rparr>) = fh_readConfig pt sha v r"
  by (intro ext) (simp add: fh_readConfig_def fh_deployment_id_def cong: if_cong result.case_cong)

lemma releaseSync_state [simp]:
  "releaseSync (firehose_driver env dc) (r\<lparr>res_State := x\<rparr>) = releaseSync (firehose_driver env dc) r"
  by (intro ext) (simp add: releaseSync_def)

lemma fh_step_state [simp]:
  "fh_step (firehose_driver env dc) (r\<lparr>res_State := x\<rparr>) = fh_step (firehose_driver env dc) r"
  by (intro ext) (simp add: fh_step_def)

lemma stop_if_due_state [simp]:
  "stop_if_due (firehose_driver env dc) (r\<lparr>res_State := x\<rparr>) = stop_if_due (firehose_driver env dc) r"
  by (intro ext) (simp add: stop_if_due_def split: option.split)

lemma fh_completes_state [simp]:
  "fh_completes (firehose_driver env dc) (r\<lparr>res_State := x\<rparr>) = fh_completes (firehose_driver env dc) r"
  by (intro ext) (simp add: fh_completes_def fh_refreshOutput_def)

lemma fh_read_pending:
  "st_ModuleData (res_State (er_Resource exr)) = raw_doc (transientData_json td) \<Longrightarrow> fh_readTransientData exr = Ok td"
  by (cases td)
    (simp add: fh_readTransientData_def Unmarshal_def transientData_json_def decode_obj_def set_member_def field_for_def
      transientData_fields_def set_strs_def set_str_def omit_empty_str_def zero_transientData_def)

lemma fh_Sync_ready:
  assumes "fh_readTransientData exr = Ok td" and "fh_readOutputData exr = Ok out"
    and "fhd_ReadConfig fd (er_Resource exr) (sp_Configs (res_Spec (er_Resource exr))) (fhd_conf fd) = Ok conf"
    and "kube_dependency exr = Ok kubeOut"
  shows "fh_Sync fd exr =
    (case ftd_PendingSteps td of
       pendingStep # rest \<Rightarrow>
         bindS (fh_step fd (er_Resource exr) conf kubeOut (ftd_ResetOffsetTo td) pendingStep) (\<lambda>_ s.
           (Ok (zero_State\<lparr>st_Status := StatusPending, st_Output := st_Output (res_State (er_Resource exr)),
                  st_NextSyncAt := Some (fhd_Now fd s),
                  st_ModuleData := raw_doc (transientData_json (td\<lparr>ftd_PendingSteps := rest\<rparr>))\<rparr>), s))
     | [] \<Rightarrow> fh_completes fd (er_Resource exr) conf out kubeOut)"
  using assms
  by (simp add: fh_Sync_def fh_completes_def Let_def zero_State_def split: list.split)

definition fh_ready ::
    "'s fh_env \<Rightarrow> fh_driverConf \<Rightarrow> ExpandedResource \<Rightarrow> string list \<Rightarrow>
     Resource \<times> fh_Config \<times> fh_Output \<times> kube_Output \<times> string \<Rightarrow> bool" where
  "fh_ready env dc exr steps c \<longleftrightarrow>
     (case c of (r, conf, out, kubeOut, resetTo) \<Rightarrow>
        (\<exists>st. er_Resource exr = r\<lparr>res_State := st\<rparr>) \<and>
        fh_readConfig (fe_ParseTime env) (fe_sha256 env) (fe_validateConfig env) r (sp_Configs (res_Spec r)) dc = Ok conf \<and>
        fh_readTransientData exr = Ok \<lparr>ftd_PendingSteps = steps, ftd_ResetOffsetTo = resetTo\<rparr> \<and>
        fh_readOutputData exr = Ok out \<and> kube_dependency exr = Ok kubeOut)"

interpretation fh_machine: step_machine "fh_Sync (firehose_driver env dc)" "fh_ready env dc"
    "\<lambda>(r, conf, out, kubeOut, resetTo). fh_step (firehose_driver env dc) r conf kubeOut resetTo"
    "\<lambda>(r, conf, out, kubeOut, resetTo). fh_completes (firehose_driver env dc) r conf out kubeOut"
  for env :: "'s fh_env" and dc :: fh_driverConf
proof (unfold_locales, goal_cases)
  case (1 exr x xs c)
  let ?fd = "firehose_driver env dc"
  obtain r conf out kubeOut resetTo where c: "c = (r, conf, out, kubeOut, resetTo)" by (cases c)
  let ?next = "\<lambda>s. zero_State\<lparr>st_Status := StatusPending, st_Output := st_Output (res_State (er_Resource exr)),
                  st_NextSyncAt := Some (fhd_Now ?fd s),
                  st_ModuleData := raw_doc (transientData_json \<lparr>ftd_PendingSteps = xs, ftd_ResetOffsetTo = resetTo\<rparr>)\<rparr>"
  obtain st where er: "er_Resource exr = r\<lparr>res_State := st\<rparr>"
    and td: "fh_readTransientData exr = Ok \<lparr>ftd_PendingSteps = x # xs, ftd_ResetOffsetTo = resetTo\<rparr>"
    and out: "fh_readOutputData exr = Ok out" and kube: "kube_dependency exr = Ok kubeOut"
    and conf: "fh_readConfig (fe_ParseTime env) (fe_sha256 env) (fe_validateConfig env) r (sp_Configs (res_Spec r)) dc = Ok conf"
    using 1 by (auto simp: fh_ready_def c)
  have "fh_Sync ?fd exr = bindS (fh_step ?fd r conf kubeOut resetTo x) (\<lambda>_ s. (Ok (?next s), s))"
    using fh_Sync_ready [OF td out _ kube, of ?fd conf] conf er by simp
  moreover have "fh_readOutputData (with_state exr (?next s)) = Ok out" for s
    using out unfolding fh_readOutputData_def by (auto split: if_splits result.splits)
  moreover have "kube_dependency (with_state exr (?next s)) = Ok kubeOut" for s
    using kube by (simp add: kube_dependency_def)
  ultimately show ?case
    using conf er fh_read_pending
    by (intro exI [of _ ?next]) (auto simp: fh_ready_def c)
next
  case (2 exr c)
  obtain r conf out kubeOut resetTo where c: "c = (r, conf, out, kubeOut, resetTo)" by (cases c)
  from 2 show ?case
    by (auto simp: fh_ready_def c fh_Sync_ready
        [where td = "\<lparr>ftd_PendingSteps = [], ftd_ResetOffsetTo = resetTo\<rparr>" and conf = conf and out = out and kubeOut = kubeOut])
qed

lemma fh_planned_data:
  assumes "fh_Plan fd exr act s = (Ok p, t)"
  shows "st_ModuleData (res_State p) = raw_doc (transientData_json (fh_planned act))"
proof (cases "act_Name act = CreateAction")
  case True
  show ?thesis by (rule fh_Plan_create [OF assms True]) (simp add: pending_def)
next
  case False
  show ?thesis by (rule fh_Plan_Ok [OF assms False]) (simp add: pending_def)
qed

text \<open>C15: a planned action is carried out. When an action was planned and the configuration, the output and the
  dependency of the planned resource can be read, one sync per pending step and one more perform the
  steps of the action in order (for \<open>reset-v2\<close>: stop the release, reset the consumer group, release
  again) and then check the stop time, refresh the output and complete; a step that fails ends the
  run with its error.\<close>

theorem fh_action_runs:
  assumes "fh_Plan (firehose_driver env dc) exr act s = (Ok p, t)"
    and "fh_readConfig (fe_ParseTime env) (fe_sha256 env) (fe_validateConfig env) p (sp_Configs (res_Spec p)) dc = Ok conf"
    and "fh_readOutputData (exr\<lparr>er_Resource := p\<rparr>) = Ok out" and "kube_dependency exr = Ok kubeOut"
  shows "syncs (Suc (length (ftd_PendingSteps (fh_planned act)))) (fh_Sync (firehose_driver env dc)) (exr\<lparr>er_Resource := p\<rparr>) =
    bindS (foldS (\<lambda>step _. fh_step (firehose_driver env dc) p conf kubeOut (ftd_ResetOffsetTo (fh_planned act)) step)
             (ftd_PendingSteps (fh_planned act)) ()) (\<lambda>_.
    fh_completes (firehose_driver env dc) p conf out kubeOut)"
proof -
  have "\<exists>st. p = p\<lparr>res_State := st\<rparr>"
    by (intro exI [of _ "res_State p"]) simp
  then have "fh_ready env dc (exr\<lparr>er_Resource := p\<rparr>) (ftd_PendingSteps (fh_planned act))
      (p, conf, out, kubeOut, ftd_ResetOffsetTo (fh_planned act))"
    using fh_read_pending [of "exr\<lparr>er_Resource := p\<rparr>" "fh_planned act"] fh_planned_data [OF assms(1)] assms(2-)
    by (simp add: fh_ready_def kube_dependency_def)
  from fh_machine.syncs_run [OF this] show ?thesis by simp
qed

section \<open>Stopping\<close>

definition keda_annotations :: "ReleaseConfig \<Rightarrow> string \<Rightarrow> json option" where
  "keda_annotations rc typ =
     (case lookup (hr_Values rc) ''autoscaler'' of
        Some (JObj kvs) \<Rightarrow>
          (case map_of kvs typ of Some (JObj m) \<Rightarrow> map_of m ''annotations'' | _ \<Rightarrow> None)
      | _ \<Rightarrow> None)"

definition annotations_of :: "Keda \<Rightarrow> json" where
  "annotations_of k =
     JObj ((if kd_Paused k then [(KedaPausedAnnotationKey, JStr ''true'')] else []) @
           (if kd_PausedWithReplica k then [(KedaPausedReplicaAnnotationKey, JStr (show_int (kd_PausedReplica k)))]
            else []))"

lemma release_annotations:
  assumes "getHelmRelease tpl d dc r kubeOut conf = (Ok rc, c')" and "fc_Autoscaler conf = Some a"
    and "as_Spec a = KedaSpec (Some k)"
  shows "keda_annotations rc (as_Type a) = Some (annotations_of k)"
proof -
  have built: "keda_annotations rc (as_Type a) = Some (annotations_of k)"
    if "build_release tpl d dc kubeOut conf dl env0 env tg ms = Ok rc" for dl env0 env tg ms
    using that assms(2,3)
    by (auto simp: build_release_def Let_def keda_annotations_def lookup_def Autoscaler_GetHelmValues_def
        Keda_GetHelmValues_def annotations_of_def split: option.splits [where option = "fc_ChartValues conf"] result.splits)
  show ?thesis
    using assms(1) unfolding getHelmRelease_def Let_def
    by (elim bindS_Ok_E) (auto split: prod.splits dest: built)
qed

text \<open>A due stop time scales the firehose down but leaves its autoscaler running. When the stop time has
  passed, the sync deploys a release of no replicas whose autoscaler carries no pause annotation; the
  step of the stop action, for the same firehose, deploys one of no replicas with the autoscaler paused
  at zero.\<close>

theorem due_stop_keeps_autoscaling:
  assumes "fc_StopTime conf = Some stop" and "snd stop < fe_Now env s"
    and "fc_Autoscaler conf = Some a" and "as_Spec a = KedaSpec (Some k)"
    and "\<not> kd_Paused k" and "\<not> kd_PausedWithReplica k"
    and "getHelmRelease (fe_engine env) (fe_release_defaults env) dc r kubeOut (conf\<lparr>fc_Replicas := 0, fc_Stopped := True\<rparr>) =
           (Ok rc, c)"
    and "change_autoscaler (Keda_Pause [0]) (conf\<lparr>fc_Replicas := 0\<rparr>) = Ok conf1"
    and "getHelmRelease (fe_engine env) (fe_release_defaults env) dc r kubeOut conf1 = (Ok rc1, c1)"
  shows "stop_if_due (firehose_driver env dc) r conf kubeOut s =
      bindS (as_internal (fh_kubeDeploy (fe_helm env) False (ko_Configs kubeOut) rc)) (\<lambda>_. ret (c, None)) s \<and>
    lookup (hr_Values rc) ''replicaCount'' = Some (JInt 0) \<and> keda_annotations rc (as_Type a) = Some (JObj []) \<and>
    lookup (hr_Values rc1) ''replicaCount'' = Some (JInt 0) \<and>
    keda_annotations rc1 (as_Type a) = Some (JObj [(KedaPausedReplicaAnnotationKey, JStr ''0'')])"
proof -
  have zero: "show_int 0 = ''0''"
    by code_simp
  have conf1: "conf1 = conf\<lparr>fc_Replicas := 0, fc_Autoscaler := Some (a\<lparr>as_Spec := KedaSpec (Some (Keda_Pause [0] k))\<rparr>)\<rparr>"
    using assms(3,4,8) by (simp add: change_autoscaler_def on_spec_def)
  have "keda_annotations rc (as_Type a) = Some (annotations_of k)"
    using release_annotations [OF assms(7)] assms(3,4) by simp
  moreover have "keda_annotations rc1 (as_Type a) = Some (annotations_of (Keda_Pause [0] k))"
    using release_annotations [OF assms(9), of "a\<lparr>as_Spec := KedaSpec (Some (Keda_Pause [0] k))\<rparr>"] conf1 by simp
  moreover have "releases (conf\<lparr>fc_Replicas := 0, fc_Stopped := True\<rparr>) rc" "releases conf1 rc1"
    using getHelmRelease_Ok assms(7,9) by blast+
  moreover have "releaseSync (firehose_driver env dc) r False (conf\<lparr>fc_Replicas := 0, fc_Stopped := True\<rparr>) kubeOut =
      bindS (as_internal (fh_kubeDeploy (fe_helm env) False (ko_Configs kubeOut) rc)) (\<lambda>_. ret c)"
    using assms(7) by (simp add: releaseSync_def)
  ultimately show ?thesis
    using assms(1,2,5,6) conf1 zero
    by (simp add: stop_if_due_def bindS_assoc releases_def annotations_of_def Keda_Pause_def)
qed

section \<open>Deploying\<close>

text \<open>An installed release whose labels say that Entropy manages it for the deployment.\<close>

definition managed_for :: "string \<Rightarrow> helm_Release \<Rightarrow> bool" where
  "managed_for dep rel \<longleftrightarrow>
     (\<exists>ls. lookup (hrl_Config rel) labelsConfKey = Some (JObj ls) \<and>
        map_of ls labelOrchestrator = Some (JStr orchestratorLabelValue) \<and> map_of ls labelDeployment = Some (JStr dep))"

lemma map_of_enc_strmap:
  assumes "wf_map (Some m)"
  shows "enc_strmap (Some m) = JObj kvs \<Longrightarrow> map_of kvs k = map_option JStr (map_of m k)"
proof -
  have "map_of (sort_key fst m) = map_of m"
    using assms by (intro map_of_inject_set [THEN iffD2]) (auto simp: wf_map_def distinct_map inj_on_def)
  then show "enc_strmap (Some m) = JObj kvs \<Longrightarrow> map_of kvs k = map_option JStr (map_of m k)"
    by (auto simp: enc_strmap_def map_of_map)
qed

lemma entropy_label:
  assumes "enc_strmap (CloneAndMergeMaps labels (entropy_labels conf)) = JObj kvs"
  shows "string_member kvs labelDeployment = fc_DeploymentID conf"
proof -
  obtain m where m: "CloneAndMergeMaps labels (entropy_labels conf) = Some m"
    by (simp add: CloneAndMergeMaps_def)
  have "map_of kvs labelDeployment = map_option JStr (map_of m labelDeployment)"
    using map_of_enc_strmap [of m kvs] wf_CloneAndMergeMaps [of labels "entropy_labels conf"] assms m by simp
  moreover have "map_of m labelDeployment = Some (fc_DeploymentID conf)"
    using m by (auto simp: CloneAndMergeMaps_def entropy_labels_def labelDeployment_def labelOrchestrator_def)
  ultimately show ?thesis by (simp add: string_member_def)
qed

lemma canUpdate_managed:
  assumes "releases conf rc"
  shows "canUpdate rc rel = managed_for (fc_DeploymentID conf) rel"
proof -
  from assms obtain labels where l: "lookup (hr_Values rc) labelsConfKey = Some (enc_strmap (CloneAndMergeMaps labels (entropy_labels conf)))"
    by (auto simp: releases_def)
  obtain kvs where kvs: "enc_strmap (CloneAndMergeMaps labels (entropy_labels conf)) = JObj kvs"
    by (simp add: CloneAndMergeMaps_def enc_strmap_def)
  show ?thesis
    using l entropy_label [OF kvs] kvs
    by (auto simp: canUpdate_def managed_for_def json_member_def split: option.splits json.splits)
qed

text \<open>C22: Entropy deploys over its own releases only. When a release of the name of the deployment is installed,
  it is upgraded when its labels say that Entropy manages it for this deployment; otherwise the
  deployment fails with a conflict, and nothing is installed or upgraded.\<close>

theorem fh_deploy_own_only:
  assumes "getHelmRelease tpl d dc r kubeOut conf = (Ok rc, c')"
    and "getActionConfiguration hm \<lparr>hcf_HelmDriver = [], hcf_Kubernetes = kc\<rparr> (fc_Namespace conf) s = (Ok ac, s1)"
    and "hm_Get hm ac (fc_DeploymentID conf) s1 = (Ok rel, s2)"
  shows "fh_kubeDeploy hm isCreate kc rc s =
    (if managed_for (fc_DeploymentID conf) rel
     then bindS (doUpdate hm \<lparr>hcf_HelmDriver = [], hcf_Kubernetes = kc\<rparr> ac rc) (\<lambda>_. ret ()) s2
     else (Err (EErr (WithMsgf ErrConflict ''release with same name exists, but update not possible'')), s2))"
proof -
  have rel: "releases conf rc"
    by (rule getHelmRelease_Ok [OF assms(1)])
  then have "hr_Name rc = fc_DeploymentID conf" "hr_Namespace rc = fc_Namespace conf"
    by (simp_all add: releases_def)
  then show ?thesis
    using assms(2,3) canUpdate_managed [OF rel]
    by (simp add: fh_kubeDeploy_def Upsert_def fetchRelease_def bindS_def catchS_def ret_def fail_def
        split: prod.split result.split)
qed

section \<open>Errors of a reset\<close>

text \<open>The errors of the reset job cannot be told apart. An error that carries the code \<open>internal\<close>, as a failed
  creation and a failed execution of the job both do, is retried after the five seconds of a network
  error; a missing job is retried after thirty seconds, and no other error with a code is retried.\<close>

theorem reset_error_backoff:
  assumes "As_Error err = Some e"
  shows "reset_error err =
      (if err_Code e = err_Code ErrInternal then WithCause err networkErrorRetryDuration
       else if err_Code e = err_Code ErrNotFound then WithCause err kubeAPIRetryBackoffDuration
       else err) \<and>
    reset_error (EErr (WithCausef ErrJobExecutionFailed cause)) =
      WithCause (EErr (WithCausef ErrJobExecutionFailed cause)) networkErrorRetryDuration"
proof -
  have "err_Code ErrJobCreationFailed = err_Code ErrInternal" "err_Code ErrJobExecutionFailed = err_Code ErrInternal"
    "err_Code ErrJobNotFound = err_Code ErrNotFound"
    by (simp_all add: ErrJobCreationFailed_def ErrJobExecutionFailed_def ErrJobNotFound_def)
  then show ?thesis
    using errors_Is_As [OF assms] by (auto simp: reset_error_def)
qed

section \<open>Shared defaults\<close>

text \<open>The namespaces and resources configured for one firehose module reach the others. Once a module was
  initialised whose configuration adds a namespace, a module that configures nothing has it too,
  because both decode into the maps of one package variable.\<close>

theorem fh_defaults_shared:
  assumes "Unmarshal fh_driverConf_fields confA (fh_defaultDriverConf fh_default_maps) = Ok dcA"
    and "validate (fh_defaultDriverConf (fh_defaults_after fh_default_maps confA)) = None"
    and "lookup (fd_Namespace dcA) sink = Some ns"
  shows "\<exists>dcB. fh_driver_conf validate (fh_defaults_after fh_default_maps confA) (raw_doc (JObj [])) = Ok dcB \<and>
    lookup (fd_Namespace dcB) sink = Some ns"
  using assms
  by (auto simp: fh_driver_conf_def fh_defaults_after_def Unmarshal_def [of _ "raw_doc (JObj [])"] TaggedStruct_def
      fh_defaultDriverConf_def lookup_def split: option.splits)

end
