(* ===== verification/Witnesses_Firehose.thy ===== *)
theory Witnesses_Firehose
  imports Firehose_Laws
begin

text \<open>
  The properties of the firehose module, applied to the firehose \<open>clicks\<close> with an autoscaler and a stop
  time, over libraries that accept every call; the cluster holds a release of another tool.
\<close>

section \<open>The libraries\<close>

definition lab_kube :: "'s kube_API" where
  "lab_kube =
     \<lparr>api_Google = ret (ret ''token''), api_Clientset = (\<lambda>rc. ret ()), api_Dynamic = (\<lambda>rc. ret ()),
      api_ServerVersion = (\<lambda>rc. ret JNull),
      api_Jobs = (\<lambda>rc ns. \<lparr>ji_Create = ret, ji_Get = (\<lambda>n. fail (PlainErr ''no job'')), ji_Update = ret, ji_Delete = (\<lambda>n p. ret ())\<rparr>),
      api_Pods = (\<lambda>rc ns l f. ret []), api_Deployment = (\<lambda>rc ns n. fail (PlainErr ''not found'')),
      api_CRD = (\<lambda>rc r ns n. ret JNull), api_Stream = (\<lambda>rc ns cs. ret []), api_ProxyGet = (\<lambda>rc ns sc n p path. ret None),
      api_IsNotFound = (\<lambda>e. True), api_IsServiceUnavailable = (\<lambda>e. False), api_Requirement = Ok,
      api_Field = (\<lambda>f v. f @ ''='' @ v),
      api_DecodeOptions = (\<lambda>m. Err (PlainErr ''no options'')), api_ParseQuantity = (\<lambda>q. (q, None))\<rparr>"

text \<open>The release of the name that is there was not made by Entropy.\<close>

definition lab_release :: helm_Release where
  "lab_release = \<lparr>hrl_Name = ''proj-clicks-firehose'',
     hrl_Config = Some [(''labels'', JObj [(''deployment'', JStr ''proj-clicks-firehose'')])]\<rparr>"

definition lab_helm :: "string list helm_API" where
  "lab_helm =
     \<lparr>hm_ServerURL = (\<lambda>h t. Ok (''https://'' @ h)), hm_Init = (\<lambda>c. ret ()), hm_Get = (\<lambda>c n. ret lab_release),
      hm_Locate = (\<lambda>opts n. ret n), hm_Load = (\<lambda>p. ret \<lparr>hch_Path = p, hch_Type = ''application''\<rparr>),
      hm_Install = (\<lambda>c i ch v l. (Ok lab_release, hi_ReleaseName i # l)),
      hm_Upgrade = (\<lambda>c u n ch v l. (Ok lab_release, n # l)), hm_Uninstall = (\<lambda>c n. ret ()), hm_IsRequestURI = (\<lambda>s. True)\<rparr>"

definition lab_defaults :: ReleaseConfig where
  "lab_defaults =
     \<lparr>hr_Name = [], hr_Repository = [], hr_Chart = [], hr_Version = [], hr_Values = None, hr_Namespace = ''default'',
      hr_Timeout = 300, hr_ForceUpdate = False, hr_RecreatePods = False, hr_Wait = True, hr_WaitForJobs = False,
      hr_Replace = False, hr_Description = [], hr_CreateNamespace = False\<rparr>"

definition lab_engine :: engine where "lab_engine txt = Ok (\<lambda>vals. Ok txt)"

definition lab_time :: "string \<Rightarrow> rfc_time option" where "lab_time txt = Some (txt, 500)"

definition lab_valid :: "raw \<Rightarrow> unit outcome" where "lab_valid doc = Ok ()"

definition lab_sha :: "string \<Rightarrow> string" where "lab_sha name = ''abcdef0123''"

definition lab_env :: "string list fh_env" where
  "lab_env =
     \<lparr>fe_kube = lab_kube, fe_helm = lab_helm, fe_polls = 3, fe_job_status = (\<lambda>j. []), fe_wait = (\<lambda>d. ret False),
      fe_deleting = (\<lambda>p. False), fe_Now = (\<lambda>l. 1000), fe_ParseTime = lab_time, fe_sha256 = lab_sha,
      fe_validateConfig = lab_valid, fe_engine = lab_engine, fe_release_defaults = lab_defaults\<rparr>"

lemma lab_env_fields [simp]:
  "fe_ParseTime lab_env = lab_time" "fe_sha256 lab_env = lab_sha" "fe_validateConfig lab_env = lab_valid"
  "fe_engine lab_env = lab_engine" "fe_release_defaults lab_env = lab_defaults" "fe_Now lab_env l = 1000"
  "fe_helm lab_env = lab_helm"
  by (simp_all add: lab_env_def)

section \<open>The firehose\<close>

definition clicks_doc :: json where
  "clicks_doc = JObj
     [(''stop_time'', JStr ''2030-01-01T00:00:00Z''), (''replicas'', JInt 2),
      (''env_variables'', JObj [(''SINK_TYPE'', JStr ''LOG''), (''SOURCE_KAFKA_TOPIC'', JStr ''clicks'')]),
      (''chart_values'', JObj [(''image_repository'', JStr ''r''), (''image_tag'', JStr ''1''), (''chart_version'', JStr ''0.1.3''),
         (''image_pull_policy'', JStr ''Always'')]),
      (''autoscaler'', JObj [(''enabled'', JBool True), (''type'', JStr ''keda''),
         (''spec'', JObj [(''min_replicas'', JInt 1), (''max_replicas'', JInt 4),
            (''triggers'', JObj [(''lag'', JObj [(''type'', JStr ''kafka''), (''metadata'', JObj [(''lagThreshold'', JStr ''10'')])])])])])]"

definition clicks_resource :: Resource where
  "clicks_resource = zero_Resource\<lparr>res_Name := ''clicks'', res_Project := ''proj'', res_Kind := ''firehose'',
     res_Spec := \<lparr>sp_Configs = raw_doc clicks_doc, sp_Dependencies = None\<rparr>\<rparr>"

definition clicks_dc :: fh_driverConf where
  "clicks_dc = fh_defaultDriverConf fh_default_maps"

definition clicks_conf :: fh_Config where
  "clicks_conf = (case fh_readConfig lab_time lab_sha lab_valid clicks_resource (raw_doc clicks_doc) clicks_dc of
     Ok c \<Rightarrow> c | _ \<Rightarrow> zero_fh_Config)"

lemma clicks_read: "fh_readConfig lab_time lab_sha lab_valid clicks_resource (raw_doc clicks_doc) clicks_dc = Ok clicks_conf"
  unfolding clicks_conf_def by code_simp

theorem fh_readConfig_bounds_witness:
  "1 \<le> fc_Replicas clicks_conf \<and> length (fc_DeploymentID clicks_conf) \<le> 53"
  using fh_readConfig_bounds [OF clicks_read] by blast

section \<open>Actions\<close>

definition clicks_exr :: ExpandedResource where
  "clicks_exr = \<lparr>er_Resource = clicks_resource,
     er_Dependencies = Some [(KeyKubeDependency,
       \<lparr>rd_Kind = ''kubernetes'', rd_Output = raw_doc (JObj [(''configs'', JObj [(''host'', JStr ''k8s'')])])\<rparr>)]\<rparr>"

definition clicks_fd :: "string list firehoseDriver" where
  "clicks_fd = firehose_driver lab_env clicks_dc"

definition clicks_kube :: kube_Output where
  "clicks_kube = zero_kube_Output\<lparr>ko_Configs := zero_kube_Config\<lparr>kcf_Host := ''k8s''\<rparr>\<rparr>"

lemma clicks_dependency: "kube_dependency clicks_exr = Ok clicks_kube"
  by code_simp

definition clicks_reset :: ActionRequest where
  "clicks_reset = \<lparr>act_Name = ResetV2Action,
     act_Params = raw_doc (JObj [(''to'', JStr ''datetime''), (''datetime'', JStr ''2029-01-01T00:00:00Z'')]),
     act_Labels = None, act_UserID = [],
     act_LabelsShared = False\<rparr>"

definition clicks_planned :: Resource where
  "clicks_planned = (case fst (fh_Plan clicks_fd clicks_exr clicks_reset []) of Ok p \<Rightarrow> p | _ \<Rightarrow> zero_Resource)"

lemma clicks_plan: "fh_Plan clicks_fd clicks_exr clicks_reset [] = (Ok clicks_planned, [])"
  unfolding clicks_planned_def by code_simp

lemma reset_not_create: "act_Name clicks_reset \<noteq> CreateAction"
  by code_simp

text \<open>A reset of the consumer group, of a firehose whose group has the number 9.\<close>

definition numbered_doc :: json where
  "numbered_doc = (case clicks_doc of
     JObj kvs \<Rightarrow> JObj (put ''env_variables'' (JObj [(''SINK_TYPE'', JStr ''LOG''),
       (''SOURCE_KAFKA_CONSUMER_GROUP_ID'', JStr ''clicks-9'')]) kvs) | d \<Rightarrow> d)"

definition numbered_exr :: ExpandedResource where
  "numbered_exr = clicks_exr\<lparr>er_Resource := clicks_resource
     \<lparr>res_Spec := \<lparr>sp_Configs = raw_doc numbered_doc, sp_Dependencies = None\<rparr>\<rparr>\<rparr>"

definition group_reset :: ActionRequest where
  "group_reset = clicks_reset\<lparr>act_Name := ResetAction, act_Params := raw_doc (JObj [(''to'', JStr ''latest'')])\<rparr>"

definition numbered_planned :: Resource where
  "numbered_planned = (case fst (fh_Plan clicks_fd numbered_exr group_reset []) of Ok p \<Rightarrow> p | _ \<Rightarrow> zero_Resource)"

lemma numbered_plan: "fh_Plan clicks_fd numbered_exr group_reset [] = (Ok numbered_planned, [])"
  unfolding numbered_planned_def by code_simp

lemma numbered_group:
  "\<exists>cur. fhd_ReadConfig clicks_fd (er_Resource numbered_exr) (sp_Configs (res_Spec (er_Resource numbered_exr)))
       (fhd_conf clicks_fd) = Ok cur \<and> get_str (fc_EnvVariables cur) confKeyConsumerID = ''clicks-9''"
proof -
  have "(case fhd_ReadConfig clicks_fd (er_Resource numbered_exr) (sp_Configs (res_Spec (er_Resource numbered_exr)))
       (fhd_conf clicks_fd) of Ok cur \<Rightarrow> get_str (fc_EnvVariables cur) confKeyConsumerID = ''clicks-9'' | _ \<Rightarrow> False)"
    by code_simp
  then show ?thesis by (simp split: result.splits)
qed

theorem consumer_groups_new_witness:
  "\<exists>conf. sp_Configs (res_Spec numbered_planned) = raw_doc (fh_Config_json conf) \<and>
     get_str (fc_EnvVariables conf) confKeyConsumerID = ''clicks-10''"
proof -
  have b: "list_all (\<lambda>c. is_alpha c \<or> is_digit c \<or> c = CHR ''-'') ''clicks''" "''clicks-9'' = ''clicks'' @ ''-'' @ show_nat 9"
    "''clicks-10'' = ''clicks'' @ ''-'' @ show_nat (Suc 9)"
    by code_simp+
  have n: "act_Name group_reset = ResetAction" "int 9 < int64_max"
    by (simp_all add: group_reset_def int64_max_def)
  show ?thesis
    using consumer_groups_new [OF numbered_plan disjI1 [OF n(1)]]
  proof (elim exE conjE, goal_cases)
    case (1 cur conf old new)
    have old: "old = ''clicks'' @ ''-'' @ show_nat 9"
      using numbered_group 1(1,2) b(2) by auto
    have "new = ''clicks'' @ ''-'' @ show_nat (Suc 9)"
      by (rule 1(6) [unfolded if_P [OF n(1)], THEN conjunct2, THEN conjunct2, THEN conjunct2, rule_format])
        (intro conjI old b(1) n(2), simp)
    with 1(3) b(3) have "get_str (fc_EnvVariables conf) confKeyConsumerID = ''clicks-10''" by simp
    with 1(4) show ?case by blast
  qed
qed

theorem fh_plan_keeps_deployment_witness:
  "\<exists>conf. clicks_planned = (with_config clicks_resource conf)\<lparr>res_State := res_State clicks_planned\<rparr>"
  using fh_plan_keeps_deployment [OF clicks_plan reset_not_create] by (auto simp: clicks_exr_def)

definition replanned_conf :: fh_Config where
  "replanned_conf = (case fh_readConfig lab_time lab_sha lab_valid clicks_planned (sp_Configs (res_Spec clicks_planned)) clicks_dc of
     Ok c \<Rightarrow> c | _ \<Rightarrow> zero_fh_Config)"

lemma replanned_read:
  "fh_readConfig lab_time lab_sha lab_valid clicks_planned (sp_Configs (res_Spec clicks_planned)) clicks_dc = Ok replanned_conf"
  unfolding replanned_conf_def by code_simp

lemma clicks_output: "fh_readOutputData (clicks_exr\<lparr>er_Resource := clicks_planned\<rparr>) = Ok zero_fh_Output"
  by code_simp

lemma clicks_steps:
  "fh_planned clicks_reset = \<lparr>ftd_PendingSteps = [stepReleaseStop, stepKafkaReset, stepReleaseUpdate],
     ftd_ResetOffsetTo = ''2029-01-01T00:00:00Z''\<rparr>"
  by code_simp

theorem fh_action_runs_witness:
  "syncs 4 (fh_Sync clicks_fd) (clicks_exr\<lparr>er_Resource := clicks_planned\<rparr>) =
     bindS (foldS (\<lambda>step _. fh_step clicks_fd clicks_planned replanned_conf clicks_kube ''2029-01-01T00:00:00Z'' step)
              [stepReleaseStop, stepKafkaReset, stepReleaseUpdate] ()) (\<lambda>_.
     fh_completes clicks_fd clicks_planned replanned_conf zero_fh_Output clicks_kube)"
  using fh_action_runs [of lab_env clicks_dc clicks_exr clicks_reset "[]" clicks_planned "[]" replanned_conf zero_fh_Output clicks_kube]
    clicks_plan replanned_read clicks_output clicks_dependency
  by (simp add: clicks_fd_def clicks_steps numeral_eq_Suc)

section \<open>Stopping and deploying\<close>

definition clicks_keda :: Keda where
  "clicks_keda = (case fc_Autoscaler clicks_conf of Some a \<Rightarrow> (case as_Spec a of KedaSpec (Some k) \<Rightarrow> k | _ \<Rightarrow> zero_Keda) | None \<Rightarrow> zero_Keda)"

definition clicks_scaler :: Autoscaler where
  "clicks_scaler = (case fc_Autoscaler clicks_conf of Some a \<Rightarrow> a | None \<Rightarrow> zero_Autoscaler)"

definition release_of :: "fh_Config \<Rightarrow> ReleaseConfig outcome \<times> fh_Config" where
  "release_of conf = getHelmRelease lab_engine lab_defaults clicks_dc clicks_resource clicks_kube conf"

definition the_release :: "fh_Config \<Rightarrow> ReleaseConfig" where
  "the_release conf = (case fst (release_of conf) of Ok rc \<Rightarrow> rc | _ \<Rightarrow> lab_defaults)"

definition clicks_paused :: fh_Config where
  "clicks_paused = (case change_autoscaler (Keda_Pause [0]) (clicks_conf\<lparr>fc_Replicas := 0\<rparr>) of Ok c \<Rightarrow> c | _ \<Rightarrow> zero_fh_Config)"

lemma clicks_stop: "fc_StopTime clicks_conf = Some (''2030-01-01T00:00:00Z'', 500)"
  by code_simp

lemma clicks_scales:
  "fc_Autoscaler clicks_conf = Some clicks_scaler" "as_Spec clicks_scaler = KedaSpec (Some clicks_keda)"
  "\<not> kd_Paused clicks_keda" "\<not> kd_PausedWithReplica clicks_keda" "as_Type clicks_scaler = KEDA"
  by (code_simp, code_simp, code_simp, code_simp, code_simp)

lemma clicks_releases:
  "getHelmRelease lab_engine lab_defaults clicks_dc clicks_resource clicks_kube (clicks_conf\<lparr>fc_Replicas := 0, fc_Stopped := True\<rparr>) =
     (Ok (the_release (clicks_conf\<lparr>fc_Replicas := 0, fc_Stopped := True\<rparr>)),
      snd (release_of (clicks_conf\<lparr>fc_Replicas := 0, fc_Stopped := True\<rparr>)))"
  "getHelmRelease lab_engine lab_defaults clicks_dc clicks_resource clicks_kube clicks_paused =
     (Ok (the_release clicks_paused), snd (release_of clicks_paused))"
  "change_autoscaler (Keda_Pause [0]) (clicks_conf\<lparr>fc_Replicas := 0\<rparr>) = Ok clicks_paused"
  by (code_simp, code_simp, code_simp)

theorem due_stop_keeps_autoscaling_witness:
  "keda_annotations (the_release (clicks_conf\<lparr>fc_Replicas := 0, fc_Stopped := True\<rparr>)) KEDA = Some (JObj []) \<and>
   keda_annotations (the_release clicks_paused) KEDA = Some (JObj [(KedaPausedReplicaAnnotationKey, JStr ''0'')])"
proof -
  have due: "snd (''2030-01-01T00:00:00Z'', 500 :: int) < fe_Now lab_env ([] :: string list)"
    by simp
  note stop = due_stop_keeps_autoscaling [where env = lab_env and dc = clicks_dc and r = clicks_resource
      and kubeOut = clicks_kube and s = "[]", OF clicks_stop due clicks_scales(1-4)]
  show ?thesis
    using stop [OF _ clicks_releases(3)] clicks_releases(1,2) clicks_scales(5) by simp
qed

definition lab_context :: helm_Context where
  "lab_context = \<lparr>hx_Server = ''https://k8s'', hx_Token = [], hx_ClientKeyData = [], hx_ClientCertificateData = [],
     hx_Insecure = False, hx_CAData = [], hx_Namespace = ''firehose'', hx_Driver = []\<rparr>"

lemma clicks_helm:
  "getHelmRelease lab_engine lab_defaults clicks_dc clicks_resource clicks_kube clicks_conf =
     (Ok (the_release clicks_conf), snd (release_of clicks_conf))"
  "getActionConfiguration lab_helm \<lparr>hcf_HelmDriver = [], hcf_Kubernetes = ko_Configs clicks_kube\<rparr> (fc_Namespace clicks_conf) [] =
     (Ok lab_context, [])"
  "hm_Get lab_helm lab_context (fc_DeploymentID clicks_conf) [] = (Ok lab_release, [])"
  "\<not> managed_for (fc_DeploymentID clicks_conf) lab_release"
  by (code_simp, code_simp, code_simp) (simp add: managed_for_def lab_release_def lookup_def labelsConfKey_def labelOrchestrator_def)

theorem fh_deploy_own_only_witness:
  "fh_kubeDeploy lab_helm True (ko_Configs clicks_kube) (the_release clicks_conf) [] =
     (Err (EErr (WithMsgf ErrConflict ''release with same name exists, but update not possible'')), [])"
  using fh_deploy_own_only [OF clicks_helm(1-3), of True] clicks_helm(4) by simp

theorem reset_error_backoff_witness:
  "reset_error (EErr ErrJobNotFound) = WithCause (EErr ErrJobNotFound) kubeAPIRetryBackoffDuration"
proof -
  have e: "As_Error (EErr ErrJobNotFound) = Some ErrJobNotFound" by simp
  show ?thesis
    using reset_error_backoff [OF e] by (simp add: ErrJobNotFound_def category_defs)
qed

definition sink_namespaces :: raw where
  "sink_namespaces = raw_doc (JObj [(''namespace'', JObj [(''LOG'', JStr ''logs'')])])"

definition sink_dc :: fh_driverConf where
  "sink_dc = fh_defaultDriverConf (fh_default_maps\<lparr>fs_Namespace := Some [(''default'', ''firehose''), (''LOG'', ''logs'')]\<rparr>)"

lemma sinks_decoded: "Unmarshal fh_driverConf_fields sink_namespaces (fh_defaultDriverConf fh_default_maps) = Ok sink_dc"
  by code_simp

theorem fh_defaults_shared_witness:
  "\<exists>dcB. fh_driver_conf (\<lambda>_. None) (fh_defaults_after fh_default_maps sink_namespaces) (raw_doc (JObj [])) = Ok dcB \<and>
     lookup (fd_Namespace dcB) ''LOG'' = Some ''logs''"
proof -
  have l: "lookup (fd_Namespace sink_dc) ''LOG'' = Some ''logs''"
    by code_simp
  show ?thesis
    by (rule fh_defaults_shared [OF sinks_decoded _ l]) simp
qed

end
