(* ===== verification/Modules_Ok.thy ===== *)
theory Modules_Ok
  imports Serve Job_Laws
begin

text \<open>
  The Kubernetes and job modules are good modules when the Kubernetes API acts on the outside world
  only and returns from every call; so the registry of \<open>cli/serve.go\<close> with them satisfies the laws
  the service is verified against.
\<close>

section \<open>A well-behaved API\<close>

definition job_interface_ok :: "'x world JobInterface \<Rightarrow> bool" where
  "job_interface_ok ji \<longleftrightarrow>
     (\<forall>j. outside_only (ji_Create ji j)) \<and> (\<forall>n. outside_only (ji_Get ji n)) \<and>
     (\<forall>j. outside_only (ji_Update ji j)) \<and> (\<forall>n p. outside_only (ji_Delete ji n p))"

definition google_ok :: "'x world token_source \<Rightarrow> bool" where
  "google_ok google \<longleftrightarrow> outside_only google \<and> (\<forall>s ts t. google s = (Ok ts, t) \<longrightarrow> outside_only ts)"

definition api_ok :: "'x world kube_API \<Rightarrow> bool" where
  "api_ok api \<longleftrightarrow>
     google_ok (api_Google api) \<and>
     (\<forall>rc. outside_only (api_Clientset api rc)) \<and> (\<forall>rc. outside_only (api_Dynamic api rc)) \<and>
     (\<forall>rc. outside_only (api_ServerVersion api rc)) \<and> (\<forall>rc ns. job_interface_ok (api_Jobs api rc ns)) \<and>
     (\<forall>rc ns l f. outside_only (api_Pods api rc ns l f)) \<and> (\<forall>rc ns n. outside_only (api_Deployment api rc ns n)) \<and>
     (\<forall>rc r ns n. outside_only (api_CRD api rc r ns n)) \<and> (\<forall>rc ns cs. outside_only (api_Stream api rc ns cs)) \<and>
     (\<forall>rc ns sc n p path. outside_only (api_ProxyGet api rc ns sc n p path)) \<and>
     (\<forall>v. api_Requirement api v \<noteq> Overflow) \<and> (\<forall>m. api_DecodeOptions api m \<noteq> Overflow)"

lemma api_okD:
  assumes "api_ok api"
  shows "google_ok (api_Google api)" "outside_only (api_Clientset api rc)" "outside_only (api_ServerVersion api rc)"
    "job_interface_ok (api_Jobs api rc ns)" "outside_only (api_Pods api rc ns l f)"
    "outside_only (api_Stream api rc ns cs)" "api_Requirement api v \<noteq> Overflow" "api_DecodeOptions api m \<noteq> Overflow"
  using assms by (simp_all add: api_ok_def)

lemma outside_panicS: "outside_only (panicS p)"
  by (simp add: outside_only_def panicS_def)

lemma outside_state: "outside_only (\<lambda>s. (Ok (f s), s))"
  by (simp add: outside_only_def)

text \<open>A computation that was found in the state is run.\<close>

lemma outside_catch_found:
  assumes "outside_only m" and "\<And>a s t. m s = (Ok a, t) \<Longrightarrow> outside_only (f a)" and "\<And>e. outside_only (h e)"
  shows "outside_only (catchS m f h)"
  unfolding outside_only_def
proof (intro allI impI)
  fix s r t
  assume run: "catchS m f h s = (r, t)"
  obtain q u where m: "m s = (q, u)" by fastforce
  then have u: "db_part u = db_part s" "q \<noteq> Overflow" using assms(1) unfolding outside_only_def by blast+
  show "db_part t = db_part s \<and> r \<noteq> Overflow"
  proof (cases q)
    case (Ok a)
    then have "f a u = (r, t)" and "outside_only (f a)"
      using run m assms(2) by (simp_all add: catchS_def)
    then show ?thesis using u unfolding outside_only_def by metis
  next
    case (Err e)
    then have "h e u = (r, t)" using run m by (simp add: catchS_def)
    then show ?thesis using assms(3) [of e] u unfolding outside_only_def by metis
  qed (use run m u in \<open>auto simp: catchS_def\<close>)
qed

section \<open>The client\<close>

lemma outside_RESTConfig: "google_ok google \<Longrightarrow> outside_only (RESTConfig google conf)"
  unfolding RESTConfig_def Let_def google_ok_def
  by (simp add: outside_ret outside_fail)
    (auto intro!: outside_catch_found [of google] outside_catchS [OF _ outside_ret] outside_fail)

lemma outside_StreamingConfig: "google_ok google \<Longrightarrow> outside_only (StreamingConfig google conf)"
  unfolding StreamingConfig_def by (auto intro!: outside_bindS outside_RESTConfig outside_ret split: prod.split)

lemma outside_NewClient: "api_ok api \<Longrightarrow> outside_only (NewClient api conf)"
  unfolding NewClient_def
  by (auto intro!: outside_bindS outside_RESTConfig outside_StreamingConfig outside_ret api_okD split: prod.split)

lemma outside_with_processor:
  assumes "api_ok api"
    and "\<And>jp. job_interface_ok (pr_Client jp) \<Longrightarrow> outside_only (f jp)"
  shows "outside_only (with_processor api msg f conf j)"
  unfolding with_processor_def
proof (intro outside_catchS outside_NewClient outside_fail assms(1))
  fix c
  have "bindS (GetJobProcessor api c j) f =
      bindS (api_Clientset api (cl_restConfig c)) (\<lambda>_. f (NewProcessor j (api_Jobs api (cl_restConfig c) (kj_Namespace j))))"
    by (simp add: GetJobProcessor_def bindS_assoc)
  then show "outside_only (bindS (GetJobProcessor api c j) f)"
    using assms(1) by (auto simp: NewProcessor_def intro!: outside_bindS assms(2) api_okD)
qed

lemma outside_processor:
  assumes "job_interface_ok (pr_Client jp)"
  shows "outside_only (SubmitJob pq jp)" "outside_only (UpdateJob b jp)" "outside_only (DeleteJob jp)"
  using assms
  by (auto simp: job_interface_ok_def SubmitJob_def UpdateJob_def DeleteJob_def Job_Template_def
      intro!: outside_bindS outside_liftR outside_ret split: option.split)

lemma outside_GetPodDetails: "api_ok api \<Longrightarrow> outside_only (GetPodDetails api c ns ls allow)"
  unfolding GetPodDetails_def Let_def by (auto intro!: outside_bindS outside_ret api_okD)

lemma getPodLogOptions_no_overflow: "getPodLogOptions l \<noteq> Overflow"
  by (auto simp: getPodLogOptions_def parse_option_def split: result.splits option.splits)

lemma outside_StreamLogs: "api_ok api \<Longrightarrow> outside_only (kube_StreamLogs api c ns filt)"
  unfolding kube_StreamLogs_def streamFromPods_def Let_def
  by (auto simp: getPodListOptions_def getPodLogOptions_no_overflow api_okD
      intro!: outside_bindS outside_ret outside_fail outside_panicS outside_liftR api_okD(2,5,6)
      split: result.splits)

section \<open>The Kubernetes module\<close>

lemma outside_kubernetes_Output:
  assumes "api_ok api"
  shows "outside_only (kubernetes_Output api d m res)"
  unfolding kubernetes_Output_def
  by (auto simp: Unmarshal_no_overflow kube_Sanitise_def Let_def
      intro!: outside_fail outside_panicS outside_catchS outside_RESTConfig outside_ret api_okD [OF assms]
      split: result.splits prod.splits option.splits)

lemma kubernetes_Module_ok:
  assumes "api_ok api"
  shows "descriptor_ok (kubernetes_Module api d)"
proof -
  have "driver_ok desc (kubernetes_driver api d m)" for desc m
    by (rule driver_okI)
      (auto simp: kubernetes_driver_def plan_only_Ok kubernetes_Plan_def kubernetes_Sync_def Let_def same_identity_def
        intro!: outside_plan_only outside_bindS outside_ret outside_kubernetes_Output assms)
  then show ?thesis
    by (auto simp: descriptor_ok_def kubernetes_Module_def plain_action_def Unmarshal_no_overflow split: result.splits)
qed

section \<open>The job module\<close>

lemma outside_as_internal: "outside_only m \<Longrightarrow> outside_only (as_internal m)"
  unfolding as_internal_def by (intro outside_catchS outside_ret outside_fail)

lemma job_ReadConfig_no_overflow:
  assumes "\<And>j. v j \<noteq> Overflow"
  shows "job_ReadConfig sha v r c dc \<noteq> Overflow"
  using assms
  by (auto simp: job_ReadConfig_def Let_def Unmarshal_no_overflow SafeName_def slice_to_def
      split: result.splits if_splits)

lemma decoded_no_overflow:
  "ReadTransientData exr \<noteq> Overflow" "ReadOutputData exr \<noteq> Overflow" "kube_dependency exr \<noteq> Overflow"
  by (auto simp: ReadTransientData_def ReadOutputData_def kube_dependency_def Unmarshal_no_overflow
      split: result.splits)

lemma job_driver_ok:
  assumes api: "api_ok api" and v: "\<And>j. v j \<noteq> Overflow" and desc: "desc_Actions desc = desc_Actions (job_Module api sha v val clock shared)"
  shows "driver_ok desc (job_module_driver (job_driver api (job_ReadConfig sha v) clock conf))"
proof (rule driver_okI)
  let ?drv = "job_driver api (job_ReadConfig sha v) clock conf"
  note read = outside_liftR [OF job_ReadConfig_no_overflow [OF v]]
  have named: "outside_only (jdr_GetJobPods ?drv kc j ls)" "outside_only (jdr_StreamLogs ?drv kc j fl)"
    "outside_only (jdr_CreateJob ?drv kc j)" "outside_only (jdr_SuspendJob ?drv kc j)"
    "outside_only (jdr_DeleteJob ?drv kc j)" "outside_only (jdr_StartJob ?drv kc j)" for kc j ls fl
    using api by (auto simp: job_driver_def job_GetJobPods_def job_StreamLogs_def
        intro!: outside_catchS outside_NewClient outside_GetPodDetails outside_StreamLogs outside_fail
          outside_with_processor outside_processor)
  have refresh: "outside_only (job_refreshOutput ?drv cf out ko)" for cf out ko
    unfolding job_refreshOutput_def by (intro outside_bindS outside_as_internal named outside_ret)
  have step: "outside_only (job_step ?drv r cf ko stp)" for r cf ko stp
    unfolding job_step_def job_create_def job_suspend_def job_delete_def job_start_def
    by (auto intro!: outside_as_internal named outside_fail)
  have cfg: "jdr_ReadConfig ?drv = job_ReadConfig sha v"
    by (simp add: job_driver_def)
  have plan: "outside_only (planPendingWithConf ?drv cf exr steps)" for cf exr steps
    by (simp add: outside_only_def planPendingWithConf_def)
  fix res act
  show "outside_only (dr_Plan (job_module_driver ?drv) res act)"
    by (simp add: job_module_driver_def outside_plan_only job_Plan_def planCreate_def planPendingWithExistingResource_def planDelete_def planSuspend_def planStart_def cfg plan
        outside_bindS read outside_ret)
  show "outside_only (dr_Sync (job_module_driver ?drv) res)"
    unfolding job_module_driver_def Driver.simps job_Sync_def cfg Let_def
    by (intro outside_bindS outside_catchS outside_as_internal outside_liftR decoded_no_overflow read outside_fail)
      (auto intro!: outside_bindS step refresh outside_state outside_ret split: list.split)
  show "outside_only (dr_Output (job_module_driver ?drv) res)"
    unfolding job_module_driver_def Driver.simps job_Output_def cfg
    by (intro outside_bindS outside_catchS outside_as_internal outside_liftR decoded_no_overflow read outside_fail refresh)
  show "outside_only (lg res filt)" if "dr_Log (job_module_driver ?drv) = Some lg" for lg filt
    using that
    by (auto simp: job_module_driver_def job_Log_def cfg Let_def
        intro!: outside_bindS outside_catchS outside_as_internal outside_liftR [OF decoded_no_overflow(3)] read
          outside_fail named)
  show "same_identity (pl_Resource p) (er_Resource res)"
    if "findAction desc (act_Name act) \<noteq> None" and plan: "dr_Plan (job_module_driver ?drv) res act s = (Ok p, t)" for s p t
  proof -
    have "act_Name act \<in> {CreateAction, SuspendAction, DeleteAction, StartAction}"
      using that(1) by (auto simp: findAction_def desc job_Module_def described_action_def plain_action_def split: if_splits)
    with plan show ?thesis
      unfolding job_module_driver_def Driver.simps plan_only_Ok
      by (elim exE conjE job_Plan_Ok) (simp_all add: same_identity_def)
  qed
qed

lemma job_Module_ok:
  assumes "api_ok api" and "\<And>j. v j \<noteq> Overflow"
  shows "descriptor_ok (job_Module api sha v val clock shared)"
proof -
  have "job_driver_conf val shared conf \<noteq> Overflow" for conf
    by (auto simp: job_driver_conf_def Unmarshal_no_overflow TaggedStruct_no_overflow split: result.splits)
  then show ?thesis
    using job_driver_ok [OF assms refl]
    by (auto simp: descriptor_ok_def job_Module_def described_action_def plain_action_def split: result.splits)
qed

end
