(* ===== verification/Firehose_Ok.thy ===== *)
theory Firehose_Ok
  imports Modules_Ok Firehose_Laws
begin

text \<open>
  The firehose module is a good module: over well-behaved Helm and Kubernetes libraries its driver acts
  on the outside world only, returns from every call, and plans for the resource it was given.
\<close>

section \<open>The libraries\<close>

definition helm_ok :: "'x world helm_API \<Rightarrow> bool" where
  "helm_ok hm \<longleftrightarrow>
     (\<forall>h t. hm_ServerURL hm h t \<noteq> Overflow) \<and> (\<forall>c. outside_only (hm_Init hm c)) \<and>
     (\<forall>c n. outside_only (hm_Get hm c n)) \<and> (\<forall>opts n. outside_only (hm_Locate hm opts n)) \<and>
     (\<forall>p. outside_only (hm_Load hm p)) \<and> (\<forall>c i ch v. outside_only (hm_Install hm c i ch v)) \<and>
     (\<forall>c u n ch v. outside_only (hm_Upgrade hm c u n ch v)) \<and> (\<forall>c n. outside_only (hm_Uninstall hm c n))"

definition engine_ok :: "engine \<Rightarrow> bool" where
  "engine_ok tpl \<longleftrightarrow> (\<forall>txt. tpl txt \<noteq> Overflow \<and> (\<forall>t vals. tpl txt = Ok t \<longrightarrow> t vals \<noteq> Overflow))"

text \<open>
  The environment of the module: the job of a reset, whose retries are limited, ends within the polls.
\<close>

definition fh_env_ok :: "'x world fh_env \<Rightarrow> bool" where
  "fh_env_ok env \<longleftrightarrow>
     api_ok (fe_kube env) \<and> helm_ok (fe_helm env) \<and> engine_ok (fe_engine env) \<and>
     (\<forall>d. outside_only (fe_wait env d)) \<and> (\<forall>j. fe_validateConfig env j \<noteq> Overflow) \<and>
     (\<forall>c ns b g v n s. fst (DoReset (fe_kube env) (fe_polls env) (fe_job_status env) c ns b g v n s) \<noteq> Ok None)"

section \<open>Configurations and releases\<close>

lemma render_entries_no_overflow: "engine_ok tpl \<Longrightarrow> render_entries tpl vals kvs \<noteq> Overflow"
  by (induction kvs) (auto simp: engine_ok_def split: result.splits)

lemma renderTpl_no_overflow: "engine_ok tpl \<Longrightarrow> renderTpl tpl m vals \<noteq> Overflow"
  using render_entries_no_overflow by (auto simp: renderTpl_def split: result.splits)

lemma rendered_any_no_overflow: "engine_ok tpl \<Longrightarrow> renderTplOfMapStringAny tpl m vals \<noteq> Overflow"
  using renderTpl_no_overflow by (auto simp: renderTplOfMapStringAny_def split: result.splits)

lemma keda_triggers_no_overflow: "engine_ok tpl \<Longrightarrow> keda_triggers tpl vals ts \<noteq> Overflow"
  by (induction ts) (auto simp: renderTpl_no_overflow split: result.splits)

lemma GetHelmValues_no_overflow: "engine_ok tpl \<Longrightarrow> Autoscaler_GetHelmValues tpl cfg a \<noteq> Overflow"
  by (auto simp: Autoscaler_GetHelmValues_def Keda_GetHelmValues_def Let_def keda_triggers_no_overflow
      split: AutoscalerSpec.splits option.splits result.splits)

lemma build_release_no_overflow:
  "engine_ok tpl \<Longrightarrow> build_release tpl d dc ko conf dl env0 env tg ms \<noteq> Overflow"
  by (auto simp: build_release_def Let_def GetHelmValues_no_overflow
      split: option.splits [where option = "fc_ChartValues conf"] option.splits [where option = "fc_Autoscaler conf"]
        result.splits)

lemma put_envs_no_overflow: "put_envs ks v m \<noteq> Overflow"
  by (induction ks arbitrary: m) (auto simp: put_env_def split: option.splits)

lemma credential_no_overflow: "credential c f k es st \<noteq> Overflow"
  using put_envs_no_overflow by (auto simp: credential_def simp del: put_envs.simps split: result.split)

lemma mount_credentials_no_overflow: "mount_credentials dc env \<noteq> Overflow"
  unfolding mount_credentials_def by (simp add: credential_no_overflow split: result.split)

lemma bindS_no_overflow:
  "fst (m s) \<noteq> Overflow \<Longrightarrow> (\<And>a t. m s = (Ok a, t) \<Longrightarrow> fst (f a t) \<noteq> Overflow) \<Longrightarrow> fst (bindS m f s) \<noteq> Overflow"
  by (auto simp: bindS_def catchS_def fail_def split: prod.splits result.splits)

lemma bindS_liftR_no_overflow:
  "r \<noteq> Overflow \<Longrightarrow> (\<And>a. r = Ok a \<Longrightarrow> fst (f a s) \<noteq> Overflow) \<Longrightarrow> fst (bindS (liftR r) f s) \<noteq> Overflow"
  by (rule bindS_no_overflow) (auto simp: liftR_def)

lemma render_outputs_no_overflow: "engine_ok tpl \<Longrightarrow> fst (render_outputs tpl vals kvs c) \<noteq> Overflow"
proof (induction kvs arbitrary: c)
  case (Cons kv kvs)
  show ?case
  proof (cases "snd kv")
    case (JObj m)
    have "fst (bindS (liftR (renderTplOfMapStringAny tpl m vals))
        (\<lambda>m' c. render_outputs tpl vals kvs (set_output (fst kv) (JObj m') c)) c) \<noteq> Overflow"
      by (intro bindS_liftR_no_overflow rendered_any_no_overflow Cons)
    then show ?thesis using JObj by (cases kv) simp
  qed (use Cons in \<open>cases kv; simp\<close>)+
qed (simp add: ret_def)

lemma telegraf_part_no_overflow: "engine_ok tpl \<Longrightarrow> fst (telegraf_part tpl merged c) \<noteq> Overflow"
  unfolding telegraf_part_def
  by (simp split: option.split)
    (intro allI impI bindS_liftR_no_overflow bindS_no_overflow renderTpl_no_overflow render_outputs_no_overflow; simp)

lemma getHelmRelease_no_overflow: "engine_ok tpl \<Longrightarrow> fst (getHelmRelease tpl d dc r ko conf) \<noteq> Overflow"
  unfolding getHelmRelease_def Let_def case_prod_beta
  by (intro bindS_liftR_no_overflow bindS_no_overflow renderTpl_no_overflow telegraf_part_no_overflow
      mount_credentials_no_overflow) (simp_all add: build_release_no_overflow)

section \<open>Reading a configuration\<close>

lemma update_triggers_no_overflow: "update_triggers cfg ts \<noteq> Overflow"
  by (induction ts) (auto simp: update_trigger_def copy_key_def split: result.splits option.splits if_splits)

lemma fh_readConfig_no_overflow:
  assumes "\<And>j. v j \<noteq> Overflow"
  shows "fh_readConfig pt sha v r c dc \<noteq> Overflow"
proof -
  have dep: "fh_deployment_id sha r cfg \<noteq> Overflow" for cfg
    by (auto simp: fh_deployment_id_def SafeName_def slice_to_def Let_def split: result.splits if_splits)
  have keda: "Keda_ReadConfig cfg dc k \<noteq> Overflow" for cfg k
    by (auto simp: Keda_ReadConfig_def updateTriggersMetadata_def Let_def update_triggers_no_overflow
        split: result.splits option.splits)
  have valid: "Autoscaler_Validate a \<noteq> Overflow" for a
    by (auto simp: Autoscaler_Validate_def Keda_Validate_def split: AutoscalerSpec.splits option.splits)
  have "on_spec (Keda_ReadConfig cfg dc) a \<noteq> Overflow" for cfg a
    using keda by (auto simp: on_spec_def split: AutoscalerSpec.splits option.splits result.splits)
  then have "fh_read_autoscaler dc cfg \<noteq> Overflow" for cfg
    using valid by (auto simp: fh_read_autoscaler_def split: option.splits result.splits)
  then show ?thesis
    using assms dep by (auto simp: fh_readConfig_def Let_def Unmarshal_no_overflow split: result.splits)
qed

section \<open>The functions of the driver\<close>

lemma helm_okD:
  assumes "helm_ok hm"
  shows "hm_ServerURL hm h t \<noteq> Overflow" "outside_only (hm_Init hm c)" "outside_only (hm_Get hm c n)"
    "outside_only (hm_Locate hm opts n)" "outside_only (hm_Load hm p)" "outside_only (hm_Install hm c i ch v)"
    "outside_only (hm_Upgrade hm c u n ch v)"
  using assms by (simp_all add: helm_ok_def)

lemma outside_getChart: "helm_ok hm \<Longrightarrow> outside_only (getChart hm cfg)"
  unfolding getChart_def Let_def case_prod_beta
  by (auto intro!: outside_bindS outside_fail outside_ret helm_okD)

lemma outside_Upsert: "helm_ok hm \<Longrightarrow> outside_only (Upsert hm cfg rc can)"
  unfolding Upsert_def getActionConfiguration_def fetchRelease_def doCreate_def doUpdate_def Let_def case_prod_beta
  by (auto intro!: outside_bindS outside_catchS outside_getChart outside_liftR helm_okD outside_fail outside_ret)

lemma outside_kubeDeploy: "helm_ok hm \<Longrightarrow> outside_only (fh_kubeDeploy hm c kc rc)"
  unfolding fh_kubeDeploy_def by (intro outside_bindS outside_Upsert outside_ret)

lemma outside_kubeGetPod: "api_ok api \<Longrightarrow> outside_only (fh_kubeGetPod api del conf ns ls)"
  unfolding fh_kubeGetPod_def by (intro outside_catchS outside_NewClient outside_GetPodDetails outside_fail)

lemma outside_GetDeployment: "api_ok api \<Longrightarrow> outside_only (GetDeploymentDetails api c ns name)"
  unfolding GetDeploymentDetails_def
  by (auto simp: api_ok_def intro!: outside_bindS outside_catchS outside_ret outside_fail)

lemma outside_kubeGetDeployment: "api_ok api \<Longrightarrow> outside_only (fh_kubeGetDeployment api conf ns name)"
  unfolding fh_kubeGetDeployment_def by (intro outside_catchS outside_NewClient outside_GetDeployment outside_fail)

lemma outside_fh_StreamLogs: "api_ok api \<Longrightarrow> outside_only (fh_StreamLogs api conf ns filt)"
  unfolding fh_StreamLogs_def by (intro outside_catchS outside_NewClient outside_StreamLogs outside_fail)

lemma outside_waitForJob: "job_interface_ok ji \<Longrightarrow> outside_only (waitForJob polls status name ji)"
  by (induction polls) (auto simp: job_interface_ok_def intro!: outside_catchS outside_ret outside_fail)

lemma outside_DoReset: "api_ok api \<Longrightarrow> outside_only (DoReset api polls status c ns b g v n)"
  unfolding DoReset_def RunJob_def Let_def
  by (auto intro!: outside_catchS outside_fail outside_ret outside_waitForJob api_okD(2,4)
      simp: api_okD(4) [unfolded job_interface_ok_def])

lemma outside_consumerReset:
  assumes "fh_env_ok env"
  shows "outside_only (consumerReset (fe_kube env) (fe_polls env) (fe_job_status env) (fe_wait env) conf out v n)"
proof -
  have api: "api_ok (fe_kube env)" and wait: "outside_only (fe_wait env d)"
    and ends: "fst (DoReset (fe_kube env) (fe_polls env) (fe_job_status env) c ns b g v n s) \<noteq> Ok None"
    for d c ns b g v n s
    using assms by (simp_all add: fh_env_ok_def)
  have ended: "ended = Some ()"
    if "DoReset (fe_kube env) (fe_polls env) (fe_job_status env) c ns b g v n s = (Ok ended, t)" for ended c ns b g v n s t
    using ends [of c ns b g v n s] that by (cases ended) auto
  show ?thesis
    unfolding consumerReset_def Let_def
    by (intro outside_bindS outside_NewClient api wait)
      (auto intro!: outside_fail outside_catch_found outside_DoReset api outside_ret dest!: ended)
qed

section \<open>The driver\<close>

text \<open>A computation that leaves the state alone.\<close>

definition stays :: "('e, 's, 'a) st \<Rightarrow> bool" where
  "stays m \<longleftrightarrow> (\<forall>s. snd (m s) = s \<and> fst (m s) \<noteq> Overflow)"

lemma stays_outside: "stays m \<Longrightarrow> outside_only m"
  unfolding stays_def outside_only_def by (metis fst_conv snd_conv)

lemma run_liftR:
  "bindS (liftR r) f s = (case r of Ok a \<Rightarrow> f a s | Err e \<Rightarrow> (Err e, s) | Panic p \<Rightarrow> (Panic p, s) | Overflow \<Rightarrow> (Overflow, s))"
  "catchS (liftR r) f h s = (case r of Ok a \<Rightarrow> f a s | Err e \<Rightarrow> h e s | Panic p \<Rightarrow> (Panic p, s) | Overflow \<Rightarrow> (Overflow, s))"
  by (auto simp: bindS_def catchS_def liftR_def fail_def split: result.split)

lemma change_autoscaler_no_overflow: "change_autoscaler f conf \<noteq> Overflow"
  by (auto simp: change_autoscaler_def on_spec_def split: option.splits AutoscalerSpec.splits)

lemma fh_decoded_no_overflow:
  "fh_readTransientData exr \<noteq> Overflow" "fh_readOutputData exr \<noteq> Overflow"
  by (auto simp: fh_readTransientData_def fh_readOutputData_def Unmarshal_no_overflow split: result.splits)

lemma mergeChartValues_no_overflow: "mergeChartValues cur new \<noteq> Overflow"
  by (auto simp: mergeChartValues_def Let_def split: option.splits)

lemma reset_config_no_overflow: "reset_config v conf \<noteq> Overflow"
  by (auto simp: reset_config_def put_env_def getNewConsumerGroupID_def on_spec_def updateTriggersMetadata_def
      update_triggers_no_overflow Let_def split: option.split result.split prod.split AutoscalerSpec.split)

lemma outside_validate:
  "engine_ok (fe_engine env) \<Longrightarrow> validateHelmReleaseConfigs (firehose_driver env dc) exr r conf \<noteq> Overflow"
  using getHelmRelease_no_overflow [of "fe_engine env" "fe_release_defaults env" dc r _ conf]
  by (auto simp: validateHelmReleaseConfigs_def decoded_no_overflow split: result.splits)

lemma changed_config_no_overflow:
  assumes "\<And>j. fe_validateConfig env j \<noteq> Overflow"
  shows "changed_config (firehose_driver env dc) exr conf act \<noteq> Overflow"
proof -
  have "plan_update (firehose_driver env dc) exr conf act \<noteq> Overflow"
    using fh_readConfig_no_overflow [OF assms]
    by (auto simp: plan_update_def Let_def mergeChartValues_no_overflow decoded_no_overflow split: result.splits)
  moreover have "plan_scale conf act \<noteq> Overflow"
    by (auto simp: plan_scale_def Unmarshal_no_overflow split: result.splits)
  moreover have "plan_start (firehose_driver env dc) conf act \<noteq> Overflow"
    by (auto simp: plan_start_def Unmarshal_no_overflow change_autoscaler_no_overflow split: result.splits)
  ultimately show ?thesis
    by (simp add: changed_config_def plan_stop_def change_autoscaler_no_overflow)
qed

lemma outside_fh_Plan:
  assumes "fh_env_ok env"
  shows "outside_only (fh_Plan (firehose_driver env dc) exr act)"
proof -
  let ?fd = "firehose_driver env dc"
  have v: "\<And>j. fe_validateConfig env j \<noteq> Overflow" and e: "engine_ok (fe_engine env)"
    using assms by (simp_all add: fh_env_ok_def)
  note [simp] = fh_readConfig_no_overflow [OF v] outside_validate [OF e] changed_config_no_overflow [OF v]
    ParseReset_no_overflow reset_config_no_overflow mergeChartValues_no_overflow decoded_no_overflow
  have "stays (fh_planCreate ?fd exr act)" "stays (planReset ?fd exr act)" "stays (planResetV2 ?fd exr act)"
    "stays (fh_planChange ?fd exr act)"
    unfolding fh_planCreate_def planReset_def planResetV2_def fh_planChange_def Let_def
    by (simp_all add: stays_def run_liftR ret_def fail_def split: result.split)
  then show ?thesis
    by (auto simp: fh_Plan_def intro: stays_outside)
qed

lemma outside_fh_driver:
  assumes "fh_env_ok env"
  shows "outside_only (releaseSync (firehose_driver env dc) r c conf ko)"
    "outside_only (fh_refreshOutput (firehose_driver env dc) r conf out ko)"
    "outside_only (fh_step (firehose_driver env dc) r conf ko v stp)"
    "outside_only (stop_if_due (firehose_driver env dc) r conf ko)"
proof -
  let ?fd = "firehose_driver env dc"
  have api: "api_ok (fe_kube env)" and hm: "helm_ok (fe_helm env)" and e: "engine_ok (fe_engine env)"
    using assms by (simp_all add: fh_env_ok_def)
  have rel: "outside_only (releaseSync ?fd r c conf ko)" for r c conf ko
    using getHelmRelease_no_overflow [OF e, of "fe_release_defaults env" dc r ko conf]
    by (auto simp: releaseSync_def split: prod.split result.split
        intro!: outside_bindS outside_as_internal outside_kubeDeploy hm outside_ret outside_fail outside_panicS)
  then show "outside_only (releaseSync ?fd r c conf ko)" .
  show "outside_only (fh_refreshOutput ?fd r conf out ko)"
    using api unfolding fh_refreshOutput_def firehose_driver_def firehoseDriver.simps
    by (intro outside_bindS outside_as_internal outside_liftR outside_ret outside_kubeGetPod outside_kubeGetDeployment
        getHelmRelease_no_overflow e)
  show "outside_only (fh_step ?fd r conf ko v stp)"
    unfolding fh_step_def
    by (auto simp: change_autoscaler_no_overflow firehose_driver_def [of env] outside_consumerReset [OF assms]
        intro!: outside_bindS outside_liftR outside_ret outside_fail rel [unfolded firehose_driver_def])
  have "outside_only (bindS (releaseSync ?fd r False (conf\<lparr>fc_Replicas := 0, fc_Stopped := True\<rparr>) ko) (\<lambda>conf'. ret (conf', None)))"
    by (intro outside_bindS rel outside_ret)
  then show "outside_only (stop_if_due ?fd r conf ko)"
    unfolding stop_if_due_def outside_only_def by (auto simp: ret_def split: option.split)
qed

lemma outside_fh_Sync:
  assumes "fh_env_ok env"
  shows "outside_only (fh_Sync (firehose_driver env dc) exr)"
proof -
  have v: "\<And>j. fe_validateConfig env j \<noteq> Overflow"
    using assms by (simp add: fh_env_ok_def)
  note read = fh_readConfig_no_overflow [OF v]
  show ?thesis
    unfolding fh_Sync_def Let_def firehose_driver_fields
    by (intro outside_bindS outside_catchS outside_as_internal outside_liftR fh_decoded_no_overflow decoded_no_overflow
        read outside_fail)
      (auto intro!: outside_bindS outside_fh_driver assms outside_state outside_ret split: list.split)
qed

lemma firehose_driver_ok:
  assumes "fh_env_ok env"
  shows "driver_ok desc (firehose_module_driver (firehose_driver env dc))"
proof (rule driver_okI)
  let ?fd = "firehose_driver env dc"
  have v: "\<And>j. fe_validateConfig env j \<noteq> Overflow" and api: "api_ok (fe_kube env)"
    using assms by (simp_all add: fh_env_ok_def)
  note read = fh_readConfig_no_overflow [OF v]
  fix res act
  show "outside_only (dr_Plan (firehose_module_driver ?fd) res act)"
    "outside_only (dr_Sync (firehose_module_driver ?fd) res)"
    by (simp_all add: firehose_module_driver_def outside_plan_only outside_fh_Plan outside_fh_Sync assms(1))
  show "outside_only (dr_Output (firehose_module_driver ?fd) res)"
    unfolding firehose_module_driver_def Driver.simps fh_Output_op_def firehose_driver_fields
    by (intro outside_bindS outside_catchS outside_as_internal outside_liftR fh_decoded_no_overflow decoded_no_overflow
        read outside_fail outside_fh_driver assms(1))
  have stream: "outside_only (fhd_StreamLogs ?fd kc ns f)" for kc ns f
    by (simp add: firehose_driver_def outside_fh_StreamLogs api)
  show "outside_only (lg res filt)" if "dr_Log (firehose_module_driver ?fd) = Some lg" for lg filt
    using that
    by (auto simp: firehose_module_driver_def fh_Log_def Let_def read decoded_no_overflow
        intro!: outside_bindS outside_catchS outside_as_internal outside_liftR outside_fail stream)
  show "same_identity (pl_Resource p) (er_Resource res)"
    if plan: "dr_Plan (firehose_module_driver ?fd) res act s = (Ok p, t)" for s p t
  proof -
    obtain q where run: "fh_Plan ?fd res act s = (Ok q, t)" and p: "pl_Resource p = q"
      using plan by (auto simp: firehose_module_driver_def plan_only_Ok)
    show ?thesis
    proof (cases "act_Name act = CreateAction")
      case True
      show ?thesis by (rule fh_Plan_create [OF run True]) (simp add: p same_identity_def with_config_def)
    next
      case False
      show ?thesis by (rule fh_Plan_Ok [OF run False]) (simp add: p same_identity_def with_config_def)
    qed
  qed
qed

lemma firehose_Module_ok:
  assumes "fh_env_ok env"
  shows "descriptor_ok (firehose_Module env validate shared)"
proof -
  have "fh_driver_conf validate shared conf \<noteq> Overflow" for conf
    by (auto simp: fh_driver_conf_def Unmarshal_no_overflow TaggedStruct_no_overflow split: result.splits)
  then show ?thesis
    using firehose_driver_ok [OF assms]
    by (auto simp: descriptor_ok_def firehose_Module_def described_action_def plain_action_def split: result.splits)
qed

end
