(* ===== verification/Dagger_Config.thy ===== *)
theory Dagger_Config
  imports Dagger_Types
begin

text \<open>
  \<open>modules/dagger/config.go\<close>: reading a configuration. Names of consumer groups end in a number; a source
  without a group gets the next one. The sink's settings are copied to the environment variables, the
  rest is completed from the configuration of the module and the output of the Flink resource.
  \<open>md5\<close> is the digest in hexadecimal, \<open>validateConfig\<close> the check of the embedded schema.
\<close>

section \<open>Names and keys\<close>

definition dg_helmReleaseNameMaxLength :: nat where "dg_helmReleaseNameMaxLength = 45"

definition keyFlinkDependency :: string where "keyFlinkDependency = ''flink''"

definition SinkTypeInflux :: string where "SinkTypeInflux = ''INFLUX''"
definition SinkTypeKafka :: string where "SinkTypeKafka = ''KAFKA''"
definition SinkTypeBigquery :: string where "SinkTypeBigquery = ''BIGQUERY''"

lemmas sink_type_defs = SinkTypeInflux_def SinkTypeKafka_def SinkTypeBigquery_def

definition keyStreams :: string where "keyStreams = ''STREAMS''"
definition keySinkType :: string where "keySinkType = ''SINK_TYPE''"
definition keyFlinkJobID :: string where "keyFlinkJobID = ''FLINK_JOB_ID''"
definition keyFlinkParallelism :: string where "keyFlinkParallelism = ''FLINK_PARALLELISM''"

definition cfgAutoCommitEnable :: string where
  "cfgAutoCommitEnable = ''SOURCE_KAFKA_CONSUMER_CONFIG_AUTO_COMMIT_ENABLE''"
definition cfgAutoOffsetReset :: string where
  "cfgAutoOffsetReset = ''SOURCE_KAFKA_CONSUMER_CONFIG_AUTO_OFFSET_RESET''"
definition cfgBootstrapServers :: string where
  "cfgBootstrapServers = ''SOURCE_KAFKA_CONSUMER_CONFIG_BOOTSTRAP_SERVERS''"

lemmas env_key_defs = keyStreams_def keySinkType_def keyFlinkJobID_def keyFlinkParallelism_def
  cfgAutoCommitEnable_def cfgAutoOffsetReset_def cfgBootstrapServers_def

section \<open>Consumer groups\<close>

definition splitNameAndNumber :: "string \<Rightarrow> string list \<times> string" where
  "splitNameAndNumber groupId = (let parts = split_on (CHR ''-'') groupId in (butlast parts, last parts))"

definition incrementGroupId :: "string \<Rightarrow> int \<Rightarrow> string" where
  "incrementGroupId groupId step =
     (let (name, number) = splitNameAndNumber groupId;
          updatedNumber = show_04d (wrap64 (Atoi_value number + step))
      in join ''-'' (name @ [updatedNumber]))"

definition is_parquet :: "Source \<Rightarrow> bool" where
  "is_parquet s \<longleftrightarrow> (case sp_FilePaths (so_Parquet s) of None \<Rightarrow> False | Some ps \<Rightarrow> ps \<noteq> [])"

text \<open>The largest suffix, as texts compare.\<close>

definition max_suffix :: "Source list \<Rightarrow> string" where
  "max_suffix source =
     fold (\<lambda>s m. let number = snd (splitNameAndNumber (sk_GroupID (so_Kafka s))) in if m < number then number else m)
       source ''0000''"

definition source_defaults :: "string gomap \<Rightarrow> SourceKafka \<Rightarrow> SourceKafka" where
  "source_defaults env k =
     k\<lparr>sk_AutoCommitEnable := or_text (sk_AutoCommitEnable k) (get_str env cfgAutoCommitEnable),
       sk_AutoOffsetReset := or_text (sk_AutoOffsetReset k) (get_str env cfgAutoOffsetReset),
       sk_BootstrapServers := or_text (sk_BootstrapServers k) (get_str env cfgBootstrapServers)\<rparr>"

text \<open>The second loop; the number is that of the groups named so far.\<close>

fun name_groups :: "string \<Rightarrow> string gomap \<Rightarrow> int \<Rightarrow> Source list \<Rightarrow> Source list" where
  "name_groups base env n [] = []"
| "name_groups base env n (s # ss) =
     (if sk_GroupID (so_Kafka s) = [] then
        s\<lparr>so_Kafka := source_defaults env ((so_Kafka s)\<lparr>sk_GroupID := incrementGroupId base (n + 1)\<rparr>)\<rparr>
          # name_groups base env (n + 1) ss
      else s\<lparr>so_Kafka := source_defaults env (so_Kafka s)\<rparr> # name_groups base env n ss)"

definition index_panic :: string where
  "index_panic = ''runtime error: index out of range [0] with length 0''"

definition read_sources :: "string gomap \<Rightarrow> string \<Rightarrow> Source list \<Rightarrow> Source list outcome" where
  "read_sources env deploymentID source =
     (case source of
        [] \<Rightarrow> Panic index_panic
      | s # _ \<Rightarrow>
          if is_parquet s then Ok source
          else Ok (name_groups (deploymentID @ ''-'' @ max_suffix source) env 0 source))"

section \<open>Sinks\<close>

text \<open>The settings of the sink, completed, and the environment variables they become.\<close>

definition complete_kafka :: "string gomap \<Rightarrow> SinkKafka \<Rightarrow> SinkKafka" where
  "complete_kafka env s =
     s\<lparr>snk_ProduceLargeMessageEnable :=
         or_text (snk_ProduceLargeMessageEnable s) (get_str env ''SINK_KAFKA_PRODUCE_LARGE_MESSAGE_ENABLE'')\<rparr>"

definition kafka_env :: "SinkKafka \<Rightarrow> (string \<times> string) list" where
  "kafka_env s =
     [(''SINK_KAFKA_STREAM'', snk_Stream s), (''SINK_KAFKA_BROKERS'', snk_Brokers s),
      (''SINK_KAFKA_PROTO_MESSAGE'', snk_ProtoMsg s), (''SINK_KAFKA_TOPIC'', snk_Topic s),
      (''SINK_KAFKA_PROTO_KEY'', snk_ProtoKey s), (''SINK_KAFKA_LINGER_MS'', snk_LingerMs s)]"

definition complete_influx :: "Influx \<Rightarrow> string gomap \<Rightarrow> SinkInflux \<Rightarrow> SinkInflux" where
  "complete_influx out env s =
     s\<lparr>sni_Password := or_text (sni_Password s) (ifx_Password out),
       sni_URL := or_text (sni_URL s) (ifx_URL out),
       sni_Username := or_text (sni_Username s) (ifx_Username out),
       sni_DBName := or_text (sni_DBName s) (ifx_DatabaseName out),
       sni_FlushDurationMs := or_text (sni_FlushDurationMs s) (get_str env ''SINK_INFLUX_FLUSH_DURATION_MS''),
       sni_RetentionPolicy := or_text (sni_RetentionPolicy s) (get_str env ''SINK_INFLUX_RETENTION_POLICY''),
       sni_BatchSize := or_text (sni_BatchSize s) (get_str env ''SINK_INFLUX_BATCH_SIZE'')\<rparr>"

definition influx_env :: "SinkInflux \<Rightarrow> (string \<times> string) list" where
  "influx_env s =
     [(''SINK_INFLUX_PASSWORD'', sni_Password s), (''SINK_INFLUX_URL'', sni_URL s),
      (''SINK_INFLUX_USERNAME'', sni_Username s), (''SINK_INFLUX_FLUSH_DURATION_MS'', sni_FlushDurationMs s),
      (''SINK_INFLUX_RETENTION_POLICY'', sni_RetentionPolicy s), (''SINK_INFLUX_BATCH_SIZE'', sni_BatchSize s),
      (''SINK_INFLUX_DB_NAME'', sni_DBName s), (''SINK_INFLUX_MEASUREMENT_NAME'', sni_MeasurementName s)]"

definition complete_bigquery :: "string gomap \<Rightarrow> SinkBigquery \<Rightarrow> SinkBigquery" where
  "complete_bigquery env s =
     s\<lparr>snb_RowInsertIDEnable :=
         or_text (snb_RowInsertIDEnable s) (get_str env ''SINK_BIGQUERY_ROW_INSERT_ID_ENABLE''),
       snb_ClientReadTimeoutMs :=
         or_text (snb_ClientReadTimeoutMs s) (get_str env ''SINK_BIGQUERY_CLIENT_READ_TIMEOUT_MS''),
       snb_ClientConnectTimeoutMs :=
         or_text (snb_ClientConnectTimeoutMs s) (get_str env ''SINK_BIGQUERY_CLIENT_CONNECT_TIMEOUT_MS''),
       snb_TablePartitionExpiryMs :=
         or_text (snb_TablePartitionExpiryMs s) (get_str env ''SINK_BIGQUERY_TABLE_PARTITION_EXPIRY_MS''),
       snb_CredentialPath :=
         or_text (snb_CredentialPath s) (get_str env ''SINK_BIGQUERY_CREDENTIAL_PATH'')\<rparr>"

definition bigquery_env :: "SinkBigquery \<Rightarrow> (string \<times> string) list" where
  "bigquery_env s =
     [(''SINK_BIGQUERY_ROW_INSERT_ID_ENABLE'', snb_RowInsertIDEnable s),
      (''SINK_BIGQUERY_CLIENT_READ_TIMEOUT_MS'', snb_ClientReadTimeoutMs s),
      (''SINK_BIGQUERY_CLIENT_CONNECT_TIMEOUT_MS'', snb_ClientConnectTimeoutMs s),
      (''SINK_BIGQUERY_TABLE_PARTITION_EXPIRY_MS'', snb_TablePartitionExpiryMs s),
      (''SINK_BIGQUERY_CREDENTIAL_PATH'', snb_CredentialPath s),
      (''SINK_BIGQUERY_GOOGLE_CLOUD_PROJECT_ID'', snb_GoogleCloudProjectID s),
      (''SINK_BIGQUERY_DATASET_NAME'', snb_DatasetName s), (''SINK_BIGQUERY_TABLE_NAME'', snb_TableName s),
      (''SINK_BIGQUERY_DATASET_LABELS'', snb_DatasetLabels s), (''SINK_BIGQUERY_TABLE_LABELS'', snb_TableLabels s),
      (''SINK_BIGQUERY_TABLE_PARTITIONING_ENABLE'', snb_TablePartitioningEnable s),
      (''SINK_BIGQUERY_TABLE_PARTITION_KEY'', snb_TablePartitionKey s),
      (''SINK_BIGQUERY_DATASET_LOCATION'', snb_DatasetLocation s), (''SINK_BIGQUERY_BATCH_SIZE'', snb_BatchSize s),
      (''SINK_BIGQUERY_TABLE_CLUSTERING_ENABLE'', snb_TableClusteringEnable s),
      (''SINK_BIGQUERY_TABLE_CLUSTERING_KEYS'', snb_TableClusteringKeys s),
      (''SINK_ERROR_TYPES_FOR_FAILURE'', snb_SinkErrorTypesForFailure s),
      (''SINK_CONNECTOR_SCHEMA_PROTO_MESSAGE_CLASS'', snb_SinkConnectorSchemaProtoMessageClass s)]"

definition complete_sink :: "string \<Rightarrow> Influx \<Rightarrow> string gomap \<Rightarrow> Sink \<Rightarrow> Sink" where
  "complete_sink sinkType out env s =
     (if sinkType = SinkTypeKafka then s\<lparr>si_Kafka := complete_kafka env (si_Kafka s)\<rparr>
      else if sinkType = SinkTypeInflux then s\<lparr>si_Influx := complete_influx out env (si_Influx s)\<rparr>
      else if sinkType = SinkTypeBigquery then s\<lparr>si_Bigquery := complete_bigquery env (si_Bigquery s)\<rparr>
      else s)"

definition sink_env :: "string \<Rightarrow> Sink \<Rightarrow> (string \<times> string) list" where
  "sink_env sinkType s =
     (keySinkType, sinkType) #
     (if sinkType = SinkTypeKafka then kafka_env (si_Kafka s)
      else if sinkType = SinkTypeInflux then influx_env (si_Influx s)
      else if sinkType = SinkTypeBigquery then bigquery_env (si_Bigquery s)
      else [])"

section \<open>Reading a configuration\<close>

definition mergeResources :: "dg_Resources \<Rightarrow> dg_Resources \<Rightarrow> dg_Resources" where
  "mergeResources old new =
     \<lparr>dgr_TaskManager = \<lparr>us_CPU = or_text (us_CPU (dgr_TaskManager new)) (us_CPU (dgr_TaskManager old)),
                         us_Memory = or_text (us_Memory (dgr_TaskManager new)) (us_Memory (dgr_TaskManager old))\<rparr>,
      dgr_JobManager = \<lparr>us_CPU = or_text (us_CPU (dgr_JobManager new)) (us_CPU (dgr_JobManager old)),
                        us_Memory = or_text (us_Memory (dgr_JobManager new)) (us_Memory (dgr_JobManager old))\<rparr>\<rparr>"

definition dg_deployment_id :: "(string \<Rightarrow> string) \<Rightarrow> Resource \<Rightarrow> string \<Rightarrow> string outcome" where
  "dg_deployment_id md5 r given =
     (if given = [] then BuildResourceName md5 ''dagger'' (res_Name r) (res_Project r) (int dg_helmReleaseNameMaxLength)
      else if length given > dg_helmReleaseNameMaxLength then
        Err (invalid ''deployment_id must not have more than 53 chars'')
      else Ok given)"

text \<open>The output of the Flink resource; a missing dependency has no output, which does not parse.\<close>

definition flink_dependency :: "ExpandedResource \<Rightarrow> flink_Output outcome" where
  "flink_dependency exr =
     Unmarshal flink_Output_fields
       (case lookup (er_Dependencies exr) keyFlinkDependency of Some d \<Rightarrow> rd_Output d | None \<Rightarrow> None)
       zero_flink_Output"

definition flink_state_error :: "gerror \<Rightarrow> gerror" where
  "flink_state_error err = EErr (WithCausef (WithMsgf ErrInternal ''invalid flink state'') (error_text err))"

definition max_int :: int where "max_int = int64_max"

definition remove_key :: "string \<Rightarrow> (string \<times> 'v) list \<Rightarrow> (string \<times> 'v) list" where
  "remove_key k kvs = filter (\<lambda>kv. fst kv \<noteq> k) kvs"

text \<open>The environment variables of a configuration whose sink is complete.\<close>

definition dg_env :: "string gomap \<Rightarrow> string \<Rightarrow> string \<Rightarrow> Sink \<Rightarrow> (string \<times> string) list \<Rightarrow> string gomap" where
  "dg_env defaults jobID sinkType sink given =
     (let merged = entries (CloneAndMergeMaps defaults (Some (put_all (sink_env sinkType sink) given)))
      in Some (remove_key cfgAutoCommitEnable (remove_key cfgAutoOffsetReset (put keyFlinkJobID jobID merged))))"

text \<open>The assignments that follow: what the module and the Flink resource determine.\<close>

definition dg_complete :: "dg_driverConf \<Rightarrow> flink_Output \<Rightarrow> dg_Config \<Rightarrow> dg_Config" where
  "dg_complete dc flinkOut cfg =
     cfg\<lparr>dc_Namespace := flo_KubeNamespace flinkOut,
         dc_Resources := mergeResources (dd_Resources dc) (dc_Resources cfg),
         dc_PrometheusURL := flo_PrometheusURL flinkOut, dc_FlinkName := flo_FlinkName flinkOut,
         dc_Replicas := (if dc_Replicas cfg \<le> 0 then 1 else dc_Replicas cfg),
         dc_DaggerCheckpointURL := dd_DaggerCheckpointURL dc, dc_DaggerK8sHAURL := dd_DaggerK8sHAURL dc,
         dc_DaggerSavepointURL := dd_DaggerSavepointURL dc, dc_FSOSSEndpoint := dd_FSOSSEndpoint dc,
         dc_CloudProvider := or_text (dd_CloudProvider dc) ''gcp''\<rparr>"

definition dg_readConfig ::
    "(string \<Rightarrow> rfc_time option) \<Rightarrow> (string \<Rightarrow> string) \<Rightarrow> (raw \<Rightarrow> unit outcome) \<Rightarrow> ExpandedResource \<Rightarrow> raw \<Rightarrow>
     dg_driverConf \<Rightarrow> dg_Config outcome" where
  "dg_readConfig pt md5 validateConfig r confJSON dc =
     (case Unmarshal (dg_Config_fields pt) confJSON zero_dg_Config of
        Err err \<Rightarrow> Err (EErr (WithCausef (WithMsgf ErrInvalid ''invalid config json'') (error_text err)))
      | Panic p \<Rightarrow> Panic p
      | Overflow \<Rightarrow> Overflow
      | Ok cfg \<Rightarrow>
          (case dg_deployment_id md5 (er_Resource r) (dc_DeploymentID cfg) of
             Err e \<Rightarrow> Err e
           | Panic p \<Rightarrow> Panic p
           | Overflow \<Rightarrow> Overflow
           | Ok deploymentID \<Rightarrow>
               (case read_sources (dd_EnvVariables dc) deploymentID (dc_Source cfg) of
                  Err e \<Rightarrow> Err e
                | Panic p \<Rightarrow> Panic p
                | Overflow \<Rightarrow> Overflow
                | Ok source \<Rightarrow>
                    (case flink_dependency r of
                       Err err \<Rightarrow> Err (flink_state_error err)
                     | Panic p \<Rightarrow> Panic p
                     | Overflow \<Rightarrow> Overflow
                     | Ok flinkOut \<Rightarrow>
                         (case dc_EnvVariables cfg of
                            None \<Rightarrow> Panic nil_map_panic
                          | Some given \<Rightarrow>
                              (case BuildResourceName md5 ''dagger'' (res_Name (er_Resource r))
                                      (res_Project (er_Resource r)) max_int of
                                 Err e \<Rightarrow> Err e
                               | Panic p \<Rightarrow> Panic p
                               | Overflow \<Rightarrow> Overflow
                               | Ok jobID \<Rightarrow>
                                   let sink = complete_sink (dc_SinkType cfg) (flo_Influx flinkOut)
                                                (dd_EnvVariables dc) (dc_Sink cfg);
                                       env = dg_env (dd_EnvVariables dc) jobID (dc_SinkType cfg) sink given
                                   in case validateConfig confJSON of
                                        Err e \<Rightarrow> Err e
                                      | Panic p \<Rightarrow> Panic p
                                      | Overflow \<Rightarrow> Overflow
                                      | Ok _ \<Rightarrow>
                                          Ok (dg_complete dc flinkOut
                                                (cfg\<lparr>dc_DeploymentID := deploymentID, dc_Source := source,
                                                     dc_Sink := sink, dc_EnvVariables := env\<rparr>))))))))"

end
