(* ===== verification/Dagger_Driver.thy ===== *)
theory Dagger_Driver
  imports Dagger_Config
begin

text \<open>
  \<open>modules/dagger\<close>: the Helm release of a dagger, planning, syncing, output and logs. The functions the
  driver calls on the cluster are the fields of \<open>daggerDriver\<close>, as in the code; \<open>dgd_ReadConfig\<close> is
  \<open>readConfig\<close> over its parameters, \<open>dgd_engine\<close> the engine of \<open>html/template\<close>, \<open>dgd_print\<close> the table of
  printable code points and \<open>dgd_FormatTime\<close> how the process prints a time (none for a year that JSON
  has no form for). The transient data has the fields, tags and messages of a firehose's.
\<close>

section \<open>The driver\<close>

definition dg_stepKafkaReset :: string where "dg_stepKafkaReset = ''kafka_reset''"
definition dg_chartRepo :: string where "dg_chartRepo = ''https://goto.github.io/charts/''"
definition dg_chartName :: string where "dg_chartName = ''dagger-deployment-chart''"
definition dg_labelsConfKey :: string where "dg_labelsConfKey = ''extra_labels''"
definition labelJobState :: string where "labelJobState = ''job_state''"
definition labelState :: string where "labelState = ''state''"
definition daggerTaintKey :: string where "daggerTaintKey = ''dagger''"

definition JobStateRunning :: string where "JobStateRunning = ''running''"
definition JobStateSuspended :: string where "JobStateSuspended = ''suspended''"
definition StateDeployed :: string where "StateDeployed = ''DEPLOYED''"
definition StateUserStopped :: string where "StateUserStopped = ''USER_STOPPED''"
definition StateSystemStopped :: string where "StateSystemStopped = ''SYSTEM_STOPPED''"

lemmas dg_state_defs = JobStateRunning_def JobStateSuspended_def StateDeployed_def StateUserStopped_def
  StateSystemStopped_def

record FlinkDeploymentStatus =
  fds_State :: string
  fds_JMDeployStatus :: string
  fds_JobStatus :: string
  fds_Reconciliation :: string

record 's daggerDriver =
  dgd_conf :: dg_driverConf
  dgd_Now :: "'s \<Rightarrow> time"
  dgd_kubeDeploy :: "bool \<Rightarrow> kube_Config \<Rightarrow> ReleaseConfig \<Rightarrow> ('s, unit) go"
  dgd_kubeGetPod :: "kube_Config \<Rightarrow> string \<Rightarrow> string gomap \<Rightarrow> ('s, kube_Pod list) go"
  dgd_kubeGetCRD :: "kube_Config \<Rightarrow> string \<Rightarrow> string \<Rightarrow> ('s, FlinkDeploymentStatus) go"
  dgd_consumerReset :: "dg_Config \<Rightarrow> string \<Rightarrow> Source list outcome"
  dgd_kubeProxyService :: "kube_Config \<Rightarrow> string \<Rightarrow> string \<Rightarrow> string \<Rightarrow> string \<Rightarrow> string \<Rightarrow> ('s, raw) go"
  dgd_StreamLogs :: "kube_Config \<Rightarrow> string \<Rightarrow> string gomap \<Rightarrow> ('s, LogChunk list) go"
  dgd_ReadConfig :: "ExpandedResource \<Rightarrow> raw \<Rightarrow> dg_driverConf \<Rightarrow> dg_Config outcome"
  dgd_md5 :: "string \<Rightarrow> string"
  dgd_engine :: engine
  dgd_print :: "nat \<Rightarrow> bool"
  dgd_ParseTime :: "string \<Rightarrow> rfc_time option"
  dgd_FormatTime :: "time \<Rightarrow> string option"
  dgd_release_defaults :: ReleaseConfig

section \<open>Output and transient data\<close>

record dg_Exception =
  dge_RootException :: string
  dge_Timestamp :: "rfc_time option"

record dg_Output =
  do_JMDeployStatus :: string
  do_JobStatus :: string
  do_State :: string
  do_Reconcilation :: string
  do_Pods :: "kube_Pod list"
  do_Namespace :: string
  do_JobID :: string
  do_Error :: string
  do_Exceptions :: dg_Exception

definition zero_dg_Exception :: dg_Exception where
  "zero_dg_Exception = \<lparr>dge_RootException = [], dge_Timestamp = None\<rparr>"

definition zero_dg_Output :: dg_Output where
  "zero_dg_Output = \<lparr>do_JMDeployStatus = [], do_JobStatus = [], do_State = [], do_Reconcilation = [], do_Pods = [],
     do_Namespace = [], do_JobID = [], do_Error = [], do_Exceptions = zero_dg_Exception\<rparr>"

definition dg_Exception_fields :: "(string \<Rightarrow> rfc_time option) \<Rightarrow> (string \<times> dg_Exception setter) list" where
  "dg_Exception_fields pt =
     [(''root_exception'', set_str dge_RootException_update), (''timestamp'', set_time pt dge_Timestamp_update)]"

definition dg_Exception_json :: "dg_Exception \<Rightarrow> json" where
  "dg_Exception_json e =
     JObj (omit_empty_str ''root_exception'' (dge_RootException e) @
           omit_nil ''timestamp'' (\<lambda>t. JStr (fst t)) (dge_Timestamp e))"

definition dg_Output_fields :: "(string \<Rightarrow> rfc_time option) \<Rightarrow> (string \<times> dg_Output setter) list" where
  "dg_Output_fields pt =
     [(''jm_deploy_status'', set_str do_JMDeployStatus_update), (''job_status'', set_str do_JobStatus_update),
      (''state'', set_str do_State_update), (''reconcilation'', set_str do_Reconcilation_update),
      (''pods'', set_objs kube_Pod_fields zero_kube_Pod do_Pods do_Pods_update),
      (''namespace'', set_str do_Namespace_update), (''job_id'', set_str do_JobID_update),
      (''error'', set_str do_Error_update),
      (''exception'', set_obj (dg_Exception_fields pt) do_Exceptions do_Exceptions_update)]"

definition dg_Output_json :: "dg_Output \<Rightarrow> json" where
  "dg_Output_json out =
     JObj (omit_empty_str ''jm_deploy_status'' (do_JMDeployStatus out) @
           omit_empty_str ''job_status'' (do_JobStatus out) @ omit_empty_str ''state'' (do_State out) @
           omit_empty_str ''reconcilation'' (do_Reconcilation out) @
           omit_empty_list ''pods'' kube_Pod_json (do_Pods out) @ omit_empty_str ''namespace'' (do_Namespace out) @
           omit_empty_str ''job_id'' (do_JobID out) @ omit_empty_str ''error'' (do_Error out) @
           [(''exception'', dg_Exception_json (do_Exceptions out))])"

definition dg_readOutputData :: "(string \<Rightarrow> rfc_time option) \<Rightarrow> ExpandedResource \<Rightarrow> dg_Output outcome" where
  "dg_readOutputData pt exr =
     (if raw_empty (st_Output (res_State (er_Resource exr))) then Ok zero_dg_Output
      else case Unmarshal (dg_Output_fields pt) (st_Output (res_State (er_Resource exr))) zero_dg_Output of
             Err err \<Rightarrow> Err (EErr (WithCausef (WithMsgf ErrInternal ''corrupted output'') (error_text err)))
           | r \<Rightarrow> r)"

definition dg_readTransientData :: "ExpandedResource \<Rightarrow> transientData outcome" where
  "dg_readTransientData exr = fh_readTransientData exr"

section \<open>The release\<close>

definition dg_entropyLabels :: "dg_Config \<Rightarrow> string gomap" where
  "dg_entropyLabels conf = Some [(labelDeployment, dc_DeploymentID conf), (labelOrchestrator, orchestratorLabelValue)]"

definition dg_otherLabels :: "Resource \<Rightarrow> dg_Config \<Rightarrow> string gomap" where
  "dg_otherLabels res conf = Some [(''urn'', res_URN res), (''name'', res_Name res), (''namespace'', dc_Namespace conf)]"

text \<open>\<open>renderTpl\<close> is the function of the firehose module, over the other template package.\<close>

definition dg_renderTpl :: "engine \<Rightarrow> string gomap \<Rightarrow> string gomap \<Rightarrow> string gomap outcome" where
  "dg_renderTpl tpl labelsTpl labelsValues = renderTpl tpl labelsTpl labelsValues"

text \<open>The arguments of the program: every variable with its value, quoted, as one list in base 64.\<close>

definition programArgs :: "(nat \<Rightarrow> bool) \<Rightarrow> (string \<times> string) list \<Rightarrow> string" where
  "programArgs print env =
     ''['' @ join '','' (concat (map (\<lambda>(key, value). [Quote print (''--'' @ key), Quote print value]) env)) @ '']''"

definition usage_value :: "UsageSpec \<Rightarrow> json" where
  "usage_value u = JObj [(''cpu'', JStr (us_CPU u)), (''memory'', JStr (us_Memory u))]"

definition dg_values ::
    "dg_driverConf \<Rightarrow> Resource \<Rightarrow> dg_Config \<Rightarrow> kube_Output \<Rightarrow> string gomap \<Rightarrow> dg_ChartValues \<Rightarrow> string \<Rightarrow> string \<Rightarrow>
     (string \<times> json) list" where
  "dg_values dc res conf kubeOut labels cv name encodedProgramArgs =
     (let tolerations = (case lookup (ko_Tolerations kubeOut) daggerTaintKey of Some ts \<Rightarrow> ts | None \<Rightarrow> []);
          affinity = lookup (ko_Affinities kubeOut) daggerTaintKey;
          required = (case dd_AffinityRequired dc of Some p \<Rightarrow> p
            | None \<Rightarrow> (case affinity of Some a \<Rightarrow> na_Required a | None \<Rightarrow> []));
          preferred = (case dd_AffinityPreferred dc of Some p \<Rightarrow> p
            | None \<Rightarrow> (case affinity of Some a \<Rightarrow> na_Preferred a | None \<Rightarrow> []))
      in [(dg_labelsConfKey, enc_strmap labels),
          (''image'', JStr (or_text (dcv_ImageRepository cv) (dcv_ImageRepository (dd_ChartValues dc)))),
          (''deployment_id'', JStr (dc_DeploymentID conf)),
          (''configuration'', JObj [(''FLINK_PARALLELISM'', JInt (dc_Replicas conf))]),
          (''projectID'', JStr (res_Project res)), (''name'', JStr name), (''team'', JStr (dc_Team conf)),
          (''flink_name'', JStr (dc_FlinkName conf)), (''prometheus_url'', JStr (dc_PrometheusURL conf)),
          (''resources'', JObj [(''jobmanager'', usage_value (dgr_JobManager (dc_Resources conf))),
                                (''taskmanager'', usage_value (dgr_TaskManager (dc_Resources conf)))]),
          (''jarURI'', JStr (dc_JarURI conf)),
          (''programArgs'', JArr [JStr ''--encodedArgs'', JStr encodedProgramArgs]),
          (''state'', JStr (dc_JobState conf)), (''namespace'', JStr (dc_Namespace conf)), (''urn'', JStr (res_URN res)),
          (''dagger_checkpoint_url'', JStr (dc_DaggerCheckpointURL conf)),
          (''dagger_savepoint_url'', JStr (dc_DaggerSavepointURL conf)),
          (''dagger_k8s_ha_url'', JStr (dc_DaggerK8sHAURL conf)), (''cloud_provider'', JStr (dc_CloudProvider conf)),
          (''fs_oss_endpoint'', JStr (dc_FSOSSEndpoint conf)),
          (''tolerations'', JArr (map Toleration_json tolerations)),
          (''nodeAffinityMatchExpressions'',
             JObj [(''requiredDuringSchedulingIgnoredDuringExecution'', PreferenceSliceToInterfaceSlice required),
                   (''preferredDuringSchedulingIgnoredDuringExecution'',
                      WeightedPreferencesToInterfaceSlice preferred)])])"

text \<open>
  The type of the sink is lowered in the map of the caller too; no caller reads it afterwards other than
  to lower it again.
\<close>

definition dg_getHelmRelease ::
    "'s daggerDriver \<Rightarrow> dg_driverConf \<Rightarrow> Resource \<Rightarrow> dg_Config \<Rightarrow> kube_Output \<Rightarrow> ReleaseConfig outcome" where
  "dg_getHelmRelease dd dc res conf kubeOut =
     (case dg_renderTpl (dgd_engine dd) (dd_Labels dc)
             (CloneAndMergeMaps (res_Labels res) (CloneAndMergeMaps (dg_entropyLabels conf) (dg_otherLabels res conf))) of
        Err e \<Rightarrow> Err e
      | Panic p \<Rightarrow> Panic p
      | Overflow \<Rightarrow> Overflow
      | Ok deploymentLabels \<Rightarrow>
          (case dc_ChartValues conf of
             None \<Rightarrow> Panic nil_deref
           | Some cv \<Rightarrow>
               (case put_env keySinkType (ToLower (get_str (dc_EnvVariables conf) keySinkType)) (dc_EnvVariables conf) of
                  Err e \<Rightarrow> Err e
                | Panic p \<Rightarrow> Panic p
                | Overflow \<Rightarrow> Overflow
                | Ok env \<Rightarrow>
                    (case BuildResourceName (dgd_md5 dd) ''dagger'' (res_Name res) (res_Project res) max_int of
                       Err e \<Rightarrow> Err e
                     | Panic p \<Rightarrow> Panic p
                     | Overflow \<Rightarrow> Overflow
                     | Ok name \<Rightarrow>
                         Ok ((dgd_release_defaults dd)
                           \<lparr>hr_Timeout := dd_KubeDeployTimeout dc, hr_Name := dc_DeploymentID conf,
                            hr_Repository := dg_chartRepo, hr_Chart := dg_chartName, hr_Namespace := dc_Namespace conf,
                            hr_ForceUpdate := True, hr_Version := dcv_ChartVersion cv,
                            hr_Values := Some (dg_values dc res conf kubeOut
                              (CloneAndMergeMaps deploymentLabels (dg_entropyLabels conf)) cv name
                              (EncodeToString (programArgs (dgd_print dd) (entries env))))\<rparr>)))))"

section \<open>Planning\<close>

text \<open>
  \<open>mergeChartValues\<close> writes into the struct of its first argument; the result is that struct.
\<close>

definition dg_mergeChartValues :: "dg_ChartValues option \<Rightarrow> dg_ChartValues option \<Rightarrow> dg_ChartValues option outcome" where
  "dg_mergeChartValues cur newVal =
     (case newVal of
        None \<Rightarrow> Ok cur
      | Some nv \<Rightarrow>
          (case cur of
             None \<Rightarrow> if nv = zero_dg_ChartValues then Ok None else Panic nil_deref
           | Some c \<Rightarrow>
               Ok (Some \<lparr>dcv_ImageRepository = or_text (dcv_ImageRepository nv) (dcv_ImageRepository c),
                         dcv_ImageTag = or_text (dcv_ImageTag nv) (dcv_ImageTag c),
                         dcv_ChartVersion = or_text (dcv_ChartVersion nv) (dcv_ChartVersion c),
                         dcv_ImagePullPolicy = or_text (dcv_ImagePullPolicy nv) (dcv_ImagePullPolicy c)\<rparr>)))"

text \<open>An assignment to a variable of a configuration that was read: its map is not nil.\<close>

definition with_env :: "string \<Rightarrow> string \<Rightarrow> dg_Config \<Rightarrow> dg_Config" where
  "with_env k v conf = conf\<lparr>dc_EnvVariables := Some (put k v (entries (dc_EnvVariables conf)))\<rparr>"

text \<open>\<open>string(mustMarshalJSON(source))\<close>; a nil slice prints as \<open>null\<close>.\<close>

definition streams_text :: "Source list \<Rightarrow> string" where
  "streams_text source = json_text (enc_list Source_json source)"

definition with_streams :: "dg_Config \<Rightarrow> dg_Config" where
  "with_streams conf = with_env keyStreams (streams_text (dc_Source conf)) conf"

definition with_parallelism :: "dg_Config \<Rightarrow> dg_Config" where
  "with_parallelism conf = with_env keyFlinkParallelism (show_int (dc_Replicas conf)) conf"

definition mergeConsumerGroupId :: "Source list \<Rightarrow> Source list \<Rightarrow> Source list" where
  "mergeConsumerGroupId currStreams newStreams =
     (if length currStreams \<noteq> length newStreams then newStreams
      else map2 (\<lambda>c n. if is_parquet c then n
                       else if sk_Name (so_Kafka c) = sk_Name (so_Kafka n)
                       then n\<lparr>so_Kafka := (so_Kafka n)\<lparr>sk_GroupID := sk_GroupID (so_Kafka c)\<rparr>\<rparr>
                       else n) currStreams newStreams)"

record StencilParams =
  stn_URLs :: string

definition StencilParams_fields :: "(string \<times> StencilParams setter) list" where
  "StencilParams_fields = [(''schema_registry_stencil_urls'', set_str stn_URLs_update)]"

definition KeySchemaRegistryStencilCacheAutoRefresh :: string where
  "KeySchemaRegistryStencilCacheAutoRefresh = ''SCHEMA_REGISTRY_STENCIL_CACHE_AUTO_REFRESH''"
definition KeySchemaRegistryStencilURLs :: string where
  "KeySchemaRegistryStencilURLs = ''SCHEMA_REGISTRY_STENCIL_URLS''"

definition updateStencilSchemaRegistryURLsParams :: "dg_Config \<Rightarrow> ActionRequest \<Rightarrow> dg_Config outcome" where
  "updateStencilSchemaRegistryURLsParams curConf act =
     (if get_str (dc_EnvVariables curConf) KeySchemaRegistryStencilCacheAutoRefresh = ''false'' then
        (case Unmarshal StencilParams_fields (act_Params act) \<lparr>stn_URLs = []\<rparr> of
           Err e \<Rightarrow> Err e
         | Panic p \<Rightarrow> Panic p
         | Overflow \<Rightarrow> Overflow
         | Ok params \<Rightarrow>
             Ok (if stn_URLs params = [] then curConf
                 else with_env KeySchemaRegistryStencilURLs (stn_URLs params) curConf))
      else Ok curConf)"

definition dg_validateHelmReleaseConfigs ::
    "'s daggerDriver \<Rightarrow> dg_driverConf \<Rightarrow> ExpandedResource \<Rightarrow> Resource \<Rightarrow> dg_Config \<Rightarrow> unit outcome" where
  "dg_validateHelmReleaseConfigs dd dc exr res config =
     (case flink_dependency exr of
        Err err \<Rightarrow> Err (kube_state_error err)
      | Panic p \<Rightarrow> Panic p
      | Overflow \<Rightarrow> Overflow
      | Ok flinkOut \<Rightarrow>
          (case dg_getHelmRelease dd dc res config (flo_KubeCluster flinkOut) of
             Ok _ \<Rightarrow> Ok ()
           | Err e \<Rightarrow> Err e | Panic p \<Rightarrow> Panic p | Overflow \<Rightarrow> Overflow))"

text \<open>The labels of the resource with the states of the configuration; a nil map panics.\<close>

definition state_labels :: "dg_Config \<Rightarrow> labels \<Rightarrow> labels outcome" where
  "state_labels conf ls =
     (case put_env labelJobState (dc_JobState conf) ls of
        Ok ls' \<Rightarrow> put_env labelState (dc_State conf) ls'
      | r \<Rightarrow> r)"

definition dg_with_config :: "Resource \<Rightarrow> labels \<Rightarrow> dg_Config \<Rightarrow> Resource" where
  "dg_with_config r ls conf =
     r\<lparr>res_Labels := ls, res_Spec := (res_Spec r)\<lparr>sp_Configs := raw_doc (dg_Config_json conf)\<rparr>\<rparr>"

text \<open>The configuration \<open>planCreate\<close> stores, from the one it read; the merged values are the module's own.\<close>

definition created_config :: "dg_driverConf \<Rightarrow> dg_ChartValues \<Rightarrow> dg_Config \<Rightarrow> dg_Config" where
  "created_config dc chartVals conf0 =
     (with_parallelism (with_streams conf0))
       \<lparr>dc_ChartValues := Some chartVals, dc_State := or_text (dc_State conf0) StateDeployed,
        dc_JobState := or_text (dc_JobState conf0) JobStateRunning, dc_JarURI := dd_JarURI dc\<rparr>"

definition dg_planCreate :: "'s daggerDriver \<Rightarrow> ExpandedResource \<Rightarrow> ActionRequest \<Rightarrow> ('s, Planned) go" where
  "dg_planCreate dd exr act =
     bindS (liftR (dgd_ReadConfig dd exr (act_Params act) (dgd_conf dd))) (\<lambda>conf0.
     bindS (liftR (dg_mergeChartValues (Some (dd_ChartValues (dgd_conf dd))) (dc_ChartValues conf0))) (\<lambda>merged s.
       (let chartVals = (case merged of Some cv \<Rightarrow> cv | None \<Rightarrow> dd_ChartValues (dgd_conf dd));
            dc = (dgd_conf dd)\<lparr>dd_ChartValues := chartVals\<rparr>;
            conf = created_config dc chartVals conf0
        in bindS (liftR (state_labels conf (res_Labels (er_Resource exr)))) (\<lambda>ls.
           let r = dg_with_config (er_Resource exr) ls conf
           in bindS (liftR (dg_validateHelmReleaseConfigs dd dc exr r conf)) (\<lambda>_.
              ret (res_labels_written ls act (r\<lparr>res_State := pending (dgd_Now dd s)
                       (raw_doc (dg_Output_json (zero_dg_Output\<lparr>do_Namespace := dc_Namespace conf\<rparr>)))
                       \<lparr>ftd_PendingSteps = [stepReleaseCreate], ftd_ResetOffsetTo = []\<rparr>\<rparr>))))) s))"

text \<open>The case of \<open>UpdateAction\<close>.\<close>

definition dg_plan_update :: "'s daggerDriver \<Rightarrow> ExpandedResource \<Rightarrow> dg_Config \<Rightarrow> ActionRequest \<Rightarrow> dg_Config outcome" where
  "dg_plan_update dd exr curConf act =
     (case dgd_ReadConfig dd exr (act_Params act) (dgd_conf dd) of
        Err e \<Rightarrow> Err e
      | Panic p \<Rightarrow> Panic p
      | Overflow \<Rightarrow> Overflow
      | Ok newConf0 \<Rightarrow>
          (case dg_mergeChartValues (dc_ChartValues curConf) (Some (dd_ChartValues (dgd_conf dd))) of
             Err e \<Rightarrow> Err e
           | Panic p \<Rightarrow> Panic p
           | Overflow \<Rightarrow> Overflow
           | Ok chartVals \<Rightarrow>
               let newConf = with_parallelism (with_streams
                     (newConf0\<lparr>dc_Source := mergeConsumerGroupId (dc_Source curConf) (dc_Source newConf0)\<rparr>))
               in Ok (newConf
                    \<lparr>dc_JarURI := dd_JarURI (dgd_conf dd), dc_DeploymentID := dc_DeploymentID curConf,
                     dc_ChartValues := chartVals, dc_State := or_text (dc_State newConf) (dc_State curConf),
                     dc_JobState := or_text (dc_JobState newConf) (dc_JobState curConf),
                     dc_Resources := mergeResources (dc_Resources curConf) (dc_Resources newConf)\<rparr>)))"

definition dg_plan_stop :: "dg_Config \<Rightarrow> dg_Config" where
  "dg_plan_stop curConf = curConf\<lparr>dc_State := StateUserStopped, dc_JobState := JobStateSuspended\<rparr>"

definition dg_plan_start :: "'s daggerDriver \<Rightarrow> dg_Config \<Rightarrow> ActionRequest \<Rightarrow> dg_Config outcome" where
  "dg_plan_start dd curConf act =
     updateStencilSchemaRegistryURLsParams
       (curConf\<lparr>dc_State := StateDeployed, dc_JobState := JobStateRunning,
                dc_ChartValues := Some (dd_ChartValues (dgd_conf dd)), dc_JarURI := dd_JarURI (dgd_conf dd)\<rparr>) act"

definition dg_changed_config ::
    "'s daggerDriver \<Rightarrow> ExpandedResource \<Rightarrow> dg_Config \<Rightarrow> ActionRequest \<Rightarrow> dg_Config outcome" where
  "dg_changed_config dd exr curConf act =
     (if act_Name act = UpdateAction then dg_plan_update dd exr curConf act
      else if act_Name act = StopAction then Ok (dg_plan_stop curConf)
      else if act_Name act = fh_StartAction then dg_plan_start dd curConf act
      else Ok curConf)"

text \<open>The labels of the request become those of the resource when it has any; the states are then written
  into that map, which is the one of the request or the one of the resource.\<close>

definition dg_planChange :: "'s daggerDriver \<Rightarrow> ExpandedResource \<Rightarrow> ActionRequest \<Rightarrow> ('s, Planned) go" where
  "dg_planChange dd exr act =
     bindS (liftR (dgd_ReadConfig dd exr (sp_Configs (res_Spec (er_Resource exr))) (dgd_conf dd))) (\<lambda>curConf0.
     bindS (liftR (dg_changed_config dd exr curConf0 act)) (\<lambda>curConf s.
       bindS (liftR (state_labels curConf
                (if act_Labels act \<noteq> None then act_Labels act else res_Labels (er_Resource exr)))) (\<lambda>ls.
         let r = dg_with_config (er_Resource exr) ls curConf
         in bindS (liftR (dg_validateHelmReleaseConfigs dd (dgd_conf dd) exr r curConf)) (\<lambda>_.
            ret ((if act_Labels act \<noteq> None then act_labels_written exr act ls else res_labels_written ls act)
                   (r\<lparr>res_State := pending (dgd_Now dd s) (st_Output (res_State (er_Resource exr)))
                     \<lparr>ftd_PendingSteps = [stepReleaseUpdate], ftd_ResetOffsetTo = []\<rparr>\<rparr>)))) s))"

definition dg_planReset :: "'s daggerDriver \<Rightarrow> ExpandedResource \<Rightarrow> ActionRequest \<Rightarrow> ('s, Planned) go" where
  "dg_planReset dd exr act =
     bindS (liftR (ParseResetV2Params (act_Params act))) (\<lambda>resetValue s.
     bindS (liftR (dgd_ReadConfig dd exr (sp_Configs (res_Spec (er_Resource exr))) (dgd_conf dd))) (\<lambda>curConf0.
     bindS (liftR (updateStencilSchemaRegistryURLsParams curConf0 act)) (\<lambda>curConf1.
     bindS (liftR (dgd_consumerReset dd (curConf1\<lparr>dc_ResetOffset := resetValue\<rparr>) resetValue)) (\<lambda>source.
       let curConf = (with_streams (curConf1\<lparr>dc_ResetOffset := resetValue, dc_Source := source\<rparr>))
             \<lparr>dc_ChartValues := Some (dd_ChartValues (dgd_conf dd)), dc_JarURI := dd_JarURI (dgd_conf dd)\<rparr>
       in ret (labels_unwritten exr act ((dg_with_config (er_Resource exr) (res_Labels (er_Resource exr)) curConf)
            \<lparr>res_State := pending (dgd_Now dd s) (st_Output (res_State (er_Resource exr)))
               \<lparr>ftd_PendingSteps = [dg_stepKafkaReset], ftd_ResetOffsetTo = resetValue\<rparr>\<rparr>))))) s)"

definition dg_Plan :: "'s daggerDriver \<Rightarrow> ExpandedResource \<Rightarrow> ActionRequest \<Rightarrow> ('s, Planned) go" where
  "dg_Plan dd exr act =
     (if act_Name act = CreateAction then dg_planCreate dd exr act
      else if act_Name act = ResetAction then dg_planReset dd exr act
      else dg_planChange dd exr act)"

end
