(* ===== verification/Dagger_Module.thy ===== *)
theory Dagger_Module
  imports Dagger_Driver "HOL-Library.Signed_Division"
begin

text \<open>
  \<open>modules/dagger\<close>: syncing, output and logs (\<open>driver_sync.go\<close>, \<open>driver_output.go\<close>, \<open>driver_log.go\<close>), the
  functions on the cluster and the descriptor (\<open>module.go\<close>).
\<close>

section \<open>Output\<close>

record JobsExceptionResponse =
  jer_RootException :: string
  jer_Timestamp :: int

definition Job_fields :: "(string \<times> string setter) list" where
  "Job_fields = [(''jid'', set_str (\<lambda>f s. f s))]"

definition JobsOverviewResponse_fields :: "(string \<times> string list setter) list" where
  "JobsOverviewResponse_fields = [(''jobs'', set_objs Job_fields [] (\<lambda>js. js) (\<lambda>f js. f js))]"

definition JobsExceptionResponse_fields :: "(string \<times> JobsExceptionResponse setter) list" where
  "JobsExceptionResponse_fields =
     [(''root-exception'', set_str jer_RootException_update), (''timestamp'', set_int jer_Timestamp_update)]"

text \<open>\<open>time.Unix(ts/1000, (ts%1000)*1e6)\<close>: Go's division truncates, the time normalises negative nanoseconds.\<close>

definition unix_millis :: "int \<Rightarrow> time" where
  "unix_millis ts = (ts sdiv 1000) * 1000000000 + (ts smod 1000) * 1000000"

text \<open>The exception of the first job: its text and time, empty when there is no job.\<close>

definition getFlinkExceptions ::
    "'s daggerDriver \<Rightarrow> kube_Config \<Rightarrow> string \<Rightarrow> string \<Rightarrow> ('s, string \<times> time option) go" where
  "getFlinkExceptions dd configs namespace name =
     bindS (dgd_kubeProxyService dd configs namespace ''http'' (name @ ''-rest'') ''8081'' ''jobs/overview'') (\<lambda>jobsRaw.
     catchS (liftR (Unmarshal JobsOverviewResponse_fields jobsRaw []))
       (\<lambda>jobs.
          case jobs of
            [] \<Rightarrow> ret ([], None)
          | jobId # _ \<Rightarrow>
              bindS (dgd_kubeProxyService dd configs namespace ''http'' (name @ ''-rest'') ''8081''
                       (''jobs/'' @ jobId @ ''/exceptions'')) (\<lambda>exceptionRaw.
              catchS (liftR (Unmarshal JobsExceptionResponse_fields exceptionRaw
                        \<lparr>jer_RootException = [], jer_Timestamp = 0\<rparr>))
                (\<lambda>resp. ret (jer_RootException resp, Some (unix_millis (jer_Timestamp resp))))
                (\<lambda>err. fail (EErr (WithCausef (WithMsgf ErrInternal
                   (''failed to unmarshal jobs exception response for job '' @ jobId)) (error_text err))))))
       (\<lambda>err. fail (EErr (WithCausef (WithMsgf ErrInternal ''failed to unmarshal jobs overview response'')
          (error_text err)))))"

definition getKubeResources ::
    "'s daggerDriver \<Rightarrow> kube_Config \<Rightarrow> string \<Rightarrow> string \<Rightarrow> string \<Rightarrow> ('s, kube_Pod list \<times> FlinkDeploymentStatus) go" where
  "getKubeResources dd configs namespace name deploymentID =
     bindS (dgd_kubeGetPod dd configs namespace (Some [(''app'', deploymentID)])) (\<lambda>pods.
     bindS (dgd_kubeGetCRD dd configs namespace name) (\<lambda>crd.
     ret (pods, crd)))"

definition job_state_of :: "string \<Rightarrow> string" where
  "job_state_of status =
     (if status = ''FINISHED'' then ''CANCELED'' else if status = ''RUNNING'' then ''RUNNING'' else ''INITIALIZING'')"

definition marshal_panic :: string where
  "marshal_panic = ''json: error calling MarshalJSON for type *time.Time''"

text \<open>
  The part of \<open>refreshOutput\<close> after the resources were found. An exception is fetched for a deployed job
  that is not suspended; \<open>MustJSON\<close> panics on a time that has no JSON form.
\<close>

definition with_exception :: "'s daggerDriver \<Rightarrow> dg_Output \<Rightarrow> string \<times> time option \<Rightarrow> ('s, raw) go" where
  "with_exception dd out exc =
     (if fst exc = [] then ret (raw_doc (dg_Output_json out))
      else case snd exc of
             None \<Rightarrow> ret (raw_doc (dg_Output_json (out\<lparr>do_Exceptions := \<lparr>dge_RootException = fst exc,
                                                                          dge_Timestamp = None\<rparr>\<rparr>)))
           | Some t \<Rightarrow>
               (case dgd_FormatTime dd t of
                  None \<Rightarrow> panicS marshal_panic
                | Some txt \<Rightarrow>
                    ret (raw_doc (dg_Output_json (out\<lparr>do_Exceptions := \<lparr>dge_RootException = fst exc,
                                                                          dge_Timestamp = Some (txt, t)\<rparr>\<rparr>)))))"

definition refreshed :: "dg_Config \<Rightarrow> dg_Output \<Rightarrow> kube_Pod list \<Rightarrow> FlinkDeploymentStatus \<Rightarrow> dg_Output" where
  "refreshed conf output pods crd =
     output\<lparr>do_Pods := pods, do_Namespace := dc_Namespace conf, do_JobID := dc_DeploymentID conf,
            do_JMDeployStatus := fds_JMDeployStatus crd, do_JobStatus := fds_JobStatus crd,
            do_Reconcilation := fds_Reconciliation crd, do_State := job_state_of (fds_JobStatus crd), do_Error := [],
            do_Exceptions := zero_dg_Exception\<rparr>"

definition dg_refreshOutput ::
    "'s daggerDriver \<Rightarrow> Resource \<Rightarrow> dg_Config \<Rightarrow> dg_Output \<Rightarrow> kube_Output \<Rightarrow> ('s, raw) go" where
  "dg_refreshOutput dd r conf output kubeOut =
     bindS (liftR (dg_getHelmRelease dd (dgd_conf dd) r conf kubeOut)) (\<lambda>rc.
     catchS (getKubeResources dd (ko_Configs kubeOut) (hr_Namespace rc) (hr_Name rc) (dc_DeploymentID conf))
       (\<lambda>(pods, crd).
          let out = refreshed conf output pods crd
          in if dc_State conf = StateDeployed \<and> dc_JobState conf \<noteq> JobStateSuspended then
               catchS (getFlinkExceptions dd (ko_Configs kubeOut) (hr_Namespace rc) (hr_Name rc))
                 (with_exception dd out)
                 (\<lambda>err. with_exception dd out (''Failed to fetch exceptions: '' @ error_text err, None))
             else ret (raw_doc (dg_Output_json out)))
       (\<lambda>err. ret (raw_doc (dg_Output_json (zero_dg_Output\<lparr>do_Error := error_text err\<rparr>)))))"

definition dg_Output_op :: "'s daggerDriver \<Rightarrow> ExpandedResource \<Rightarrow> ('s, raw) go" where
  "dg_Output_op dd exr =
     bindS (liftR (dg_readOutputData (dgd_ParseTime dd) exr)) (\<lambda>output.
     bindS (as_internal (liftR (dgd_ReadConfig dd exr (sp_Configs (res_Spec (er_Resource exr))) (dgd_conf dd)))) (\<lambda>conf.
     catchS (liftR (flink_dependency exr))
       (\<lambda>flinkOut. dg_refreshOutput dd (er_Resource exr) conf output (flo_KubeCluster flinkOut))
       (\<lambda>err. fail (kube_state_error err))))"

section \<open>Syncing\<close>

definition dg_releaseSync ::
    "'s daggerDriver \<Rightarrow> Resource \<Rightarrow> bool \<Rightarrow> dg_Config \<Rightarrow> kube_Output \<Rightarrow> ('s, unit) go" where
  "dg_releaseSync dd r isCreate conf kubeOut =
     bindS (liftR (dg_getHelmRelease dd (dgd_conf dd) r conf kubeOut)) (\<lambda>rc.
     as_internal (dgd_kubeDeploy dd isCreate (ko_Configs kubeOut) rc))"

definition dg_step :: "'s daggerDriver \<Rightarrow> Resource \<Rightarrow> dg_Config \<Rightarrow> kube_Output \<Rightarrow> string \<Rightarrow> ('s, unit) go" where
  "dg_step dd r conf kubeOut pendingStep =
     (if pendingStep \<in> {stepReleaseCreate, stepReleaseUpdate, stepReleaseStop, dg_stepKafkaReset} then
        dg_releaseSync dd r (pendingStep = stepReleaseCreate) conf kubeOut
      else fail (EErr (WithMsgf ErrInternal (''unknown step: '' @ sq pendingStep))))"

text \<open>The check of the stop time: the configuration used from here on and the time of the next sync.\<close>

definition dg_stop_if_due ::
    "'s daggerDriver \<Rightarrow> Resource \<Rightarrow> dg_Config \<Rightarrow> kube_Output \<Rightarrow> ('s, dg_Config \<times> time option) go" where
  "dg_stop_if_due dd r conf kubeOut s =
     (case dc_StopTime conf of
        None \<Rightarrow> ret (conf, None) s
      | Some stop \<Rightarrow>
          if snd stop < dgd_Now dd s then
            let conf' = conf\<lparr>dc_JobState := JobStateSuspended, dc_State := StateSystemStopped\<rparr>
            in bindS (dg_releaseSync dd r False conf' kubeOut) (\<lambda>_. ret (conf', None)) s
          else ret (conf, Some (snd stop)) s)"

definition dg_Sync :: "'s daggerDriver \<Rightarrow> ExpandedResource \<Rightarrow> ('s, State) go" where
  "dg_Sync dd exr =
     bindS (liftR (dg_readTransientData exr)) (\<lambda>modData.
     bindS (as_internal (liftR (dg_readOutputData (dgd_ParseTime dd) exr))) (\<lambda>out.
     bindS (as_internal (liftR (dgd_ReadConfig dd exr (sp_Configs (res_Spec (er_Resource exr))) (dgd_conf dd)))) (\<lambda>conf.
     catchS (liftR (flink_dependency exr))
       (\<lambda>flinkOut.
          let kubeOut = flo_KubeCluster flinkOut;
              finalState = zero_State\<lparr>st_Status := StatusPending,
                             st_Output := st_Output (res_State (er_Resource exr))\<rparr>
          in case ftd_PendingSteps modData of
               pendingStep # rest \<Rightarrow>
                 bindS (dg_step dd (er_Resource exr) conf kubeOut pendingStep) (\<lambda>_ s.
                 (Ok (finalState\<lparr>st_NextSyncAt := Some (dgd_Now dd s),
                        st_ModuleData := raw_doc (transientData_json (modData\<lparr>ftd_PendingSteps := rest\<rparr>))\<rparr>), s))
             | [] \<Rightarrow>
                 bindS (dg_stop_if_due dd (er_Resource exr) conf kubeOut) (\<lambda>(conf', nextSync).
                 bindS (dg_refreshOutput dd (er_Resource exr) conf' out kubeOut) (\<lambda>finalOut.
                 ret (finalState\<lparr>st_NextSyncAt := nextSync, st_Output := finalOut, st_Status := StatusCompleted,
                        st_ModuleData := None\<rparr>))))
       (\<lambda>err. fail (flink_state_error err)))))"

definition dg_Log :: "'s daggerDriver \<Rightarrow> ExpandedResource \<Rightarrow> string gomap \<Rightarrow> ('s, LogChunk list) go" where
  "dg_Log dd res filt =
     bindS (as_internal (liftR (dgd_ReadConfig dd res (sp_Configs (res_Spec (er_Resource res))) (dgd_conf dd)))) (\<lambda>conf.
       let filt' = Some (put ''container'' ''flink-main-container'' (put ''app'' (dc_DeploymentID conf) (entries filt)))
       in catchS (liftR (flink_dependency res))
            (\<lambda>flinkOut. dgd_StreamLogs dd (ko_Configs (flo_KubeCluster flinkOut)) (dc_Namespace conf) filt')
            (\<lambda>err. fail (flink_state_error err)))"

section \<open>The functions on the cluster\<close>

text \<open>\<open>canUpdate\<close> is that of a firehose, with the labels under another key.\<close>

definition dg_canUpdate :: "ReleaseConfig \<Rightarrow> helm_Release \<Rightarrow> bool" where
  "dg_canUpdate hc rel =
     (case lookup (hrl_Config rel) dg_labelsConfKey of
        Some (JObj curLabels) \<Rightarrow>
          (case lookup (hr_Values hc) dg_labelsConfKey of
             Some (JObj newLabels) \<Rightarrow>
               json_member curLabels labelOrchestrator = JStr orchestratorLabelValue \<and>
               json_member curLabels labelDeployment = JStr (string_member newLabels labelDeployment)
           | _ \<Rightarrow> False)
      | _ \<Rightarrow> False)"

definition dg_kubeDeploy :: "'s helm_API \<Rightarrow> bool \<Rightarrow> kube_Config \<Rightarrow> ReleaseConfig \<Rightarrow> ('s, unit) go" where
  "dg_kubeDeploy hm isCreate kubeConf hc =
     bindS (Upsert hm \<lparr>hcf_HelmDriver = [], hcf_Kubernetes = kubeConf\<rparr> hc (dg_canUpdate hc)) (\<lambda>_. ret ())"

definition dg_kubeGetPod ::
    "'s kube_API \<Rightarrow> (v1_Pod \<Rightarrow> bool) \<Rightarrow> kube_Config \<Rightarrow> string \<Rightarrow> string gomap \<Rightarrow> ('s, kube_Pod list) go" where
  "dg_kubeGetPod api deleting conf ns podLabels =
     catchS (NewClient api conf)
       (\<lambda>kubeCl. GetPodDetails api kubeCl ns podLabels (\<lambda>pod. v1p_Phase pod = ''Running'' \<and> \<not> deleting pod))
       (\<lambda>err. fail (kube_client_failed ''failed to create new kube client on firehose driver kube get pod'' err))"

definition status_member :: "(string \<times> json) list \<Rightarrow> string \<Rightarrow> string" where
  "status_member kvs k = (case map_of kvs k of Some (JObj st) \<Rightarrow> string_member st ''state'' | _ \<Rightarrow> [])"

definition parseFlinkCRDStatus :: "json \<Rightarrow> FlinkDeploymentStatus outcome" where
  "parseFlinkCRDStatus flinkDeployment =
     (case flinkDeployment of
        JObj kvs \<Rightarrow>
          (case map_of kvs ''status'' of
             Some (JObj status) \<Rightarrow>
               Ok \<lparr>fds_State = [],
                   fds_JMDeployStatus = string_member status ''jobManagerDeploymentStatus'',
                   fds_JobStatus = status_member status ''jobStatus'',
                   fds_Reconciliation = status_member status ''reconciliationStatus''\<rparr>
           | _ \<Rightarrow> Err (EErr (WithMsgf ErrInternal
                      ''failed to convert flink deployment status to map[string]interface{}'')))
      | _ \<Rightarrow> Err (EErr (WithMsgf ErrInternal
                 ''failed to convert flink deployment status to map[string]interface{}'')))"

definition dg_kubeGetCRD ::
    "'s kube_API \<Rightarrow> kube_Config \<Rightarrow> string \<Rightarrow> string \<Rightarrow> ('s, FlinkDeploymentStatus) go" where
  "dg_kubeGetCRD api conf ns name =
     catchS (NewClient api conf)
       (\<lambda>kubeCl. bindS (GetCRDDetails api kubeCl ns name) (\<lambda>crd. liftR (parseFlinkCRDStatus crd)))
       (\<lambda>err. fail (kube_client_failed ''failed to create new kube client on firehose driver kube get pod'' err))"

definition dg_kubeProxyService ::
    "'s kube_API \<Rightarrow> kube_Config \<Rightarrow> string \<Rightarrow> string \<Rightarrow> string \<Rightarrow> string \<Rightarrow> string \<Rightarrow> ('s, raw) go" where
  "dg_kubeProxyService api conf namespace scheme serviceName port path =
     catchS (NewClient api conf) (\<lambda>kubeCl. ProxyService api kubeCl namespace scheme serviceName port path)
       (\<lambda>err. fail (kube_client_failed ''failed to create new kube client on dagger driver kube proxy service'' err))"

text \<open>\<open>consumerReset\<close>: new groups after the largest one, as texts compare, for every source.\<close>

definition base_group :: "Source list \<Rightarrow> string" where
  "base_group source =
     (let groups = map (\<lambda>s. sk_GroupID (so_Kafka s)) source
      in fold (\<lambda>g m. if m < g then g else m) groups (hd groups))"

fun reset_groups :: "string \<Rightarrow> string \<Rightarrow> int \<Rightarrow> Source list \<Rightarrow> Source list" where
  "reset_groups base resetTo n [] = []"
| "reset_groups base resetTo n (s # ss) =
     s\<lparr>so_Kafka := (so_Kafka s)\<lparr>sk_GroupID := incrementGroupId base (n + 1), sk_AutoOffsetReset := resetTo\<rparr>\<rparr>
       # reset_groups base resetTo (n + 1) ss"

definition dg_consumerReset :: "dg_Config \<Rightarrow> string \<Rightarrow> Source list outcome" where
  "dg_consumerReset conf resetTo =
     (case dc_Source conf of
        [] \<Rightarrow> Panic index_panic
      | s # _ \<Rightarrow>
          if is_parquet s then Ok (dc_Source conf)
          else Ok (reset_groups (base_group (dc_Source conf)) resetTo 0 (dc_Source conf)))"

section \<open>The module\<close>

record 's dg_params =
  dgp_kube :: "'s kube_API"
  dgp_helm :: "'s helm_API"
  dgp_deleting :: "v1_Pod \<Rightarrow> bool"
  dgp_Now :: "'s \<Rightarrow> time"
  dgp_ParseTime :: "string \<Rightarrow> rfc_time option"
  dgp_FormatTime :: "time \<Rightarrow> string option"
  dgp_md5 :: "string \<Rightarrow> string"
  dgp_validateConfig :: "raw \<Rightarrow> unit outcome"
  dgp_engine :: engine
  dgp_print :: "nat \<Rightarrow> bool"
  dgp_release_defaults :: ReleaseConfig

definition dagger_driver :: "'s dg_params \<Rightarrow> dg_driverConf \<Rightarrow> 's daggerDriver" where
  "dagger_driver env conf =
     \<lparr>dgd_conf = conf, dgd_Now = dgp_Now env, dgd_kubeDeploy = dg_kubeDeploy (dgp_helm env),
      dgd_kubeGetPod = dg_kubeGetPod (dgp_kube env) (dgp_deleting env),
      dgd_kubeGetCRD = dg_kubeGetCRD (dgp_kube env), dgd_consumerReset = dg_consumerReset,
      dgd_kubeProxyService = dg_kubeProxyService (dgp_kube env), dgd_StreamLogs = fh_StreamLogs (dgp_kube env),
      dgd_ReadConfig = dg_readConfig (dgp_ParseTime env) (dgp_md5 env) (dgp_validateConfig env),
      dgd_md5 = dgp_md5 env, dgd_engine = dgp_engine env, dgd_print = dgp_print env,
      dgd_ParseTime = dgp_ParseTime env, dgd_FormatTime = dgp_FormatTime env,
      dgd_release_defaults = dgp_release_defaults env\<rparr>"

definition dagger_module_driver :: "'s daggerDriver \<Rightarrow> 's Driver" where
  "dagger_module_driver dd =
     \<lparr>dr_Plan = dg_Plan dd, dr_Sync = dg_Sync dd, dr_Output = dg_Output_op dd, dr_Log = Some (dg_Log dd)\<rparr>"

text \<open>
  The copy of the default configuration shares its map of namespaces with the package variable; the
  content of that map is the argument \<open>shared\<close>. No operation reads it.
\<close>

definition dg_defaultDriverConf :: "string gomap \<Rightarrow> dg_driverConf" where
  "dg_defaultDriverConf shared =
     \<lparr>dd_Labels = None, dd_Namespace = shared,
      dd_ChartValues = zero_dg_ChartValues\<lparr>dcv_ChartVersion := ''0.1.0''\<rparr>, dd_EnvVariables = None,
      dd_Resources = zero_dg_Resources, dd_JarURI = [], dd_DaggerCheckpointURL = [], dd_DaggerSavepointURL = [],
      dd_DaggerK8sHAURL = [], dd_CloudProvider = [], dd_FSOSSEndpoint = [], dd_KubeDeployTimeout = 0,
      dd_AffinityRequired = None, dd_AffinityPreferred = None\<rparr>"

definition dg_default_namespaces :: "string gomap" where
  "dg_default_namespaces = Some [(''default'', ''dagger'')]"

definition dg_driver_conf ::
    "(dg_driverConf \<Rightarrow> struct_error option) \<Rightarrow> string gomap \<Rightarrow> raw \<Rightarrow> dg_driverConf outcome" where
  "dg_driver_conf validate shared confJSON =
     (case Unmarshal dg_driverConf_fields confJSON (dg_defaultDriverConf shared) of
        Ok conf \<Rightarrow>
          (case TaggedStruct validate conf of
             Ok _ \<Rightarrow> Ok conf | Err e \<Rightarrow> Err e | Panic p \<Rightarrow> Panic p | Overflow \<Rightarrow> Overflow)
      | r \<Rightarrow> r)"

definition dagger_Module ::
    "'s dg_params \<Rightarrow> (dg_driverConf \<Rightarrow> struct_error option) \<Rightarrow> string gomap \<Rightarrow> 's Descriptor" where
  "dagger_Module env validate shared =
     \<lparr>desc_Kind = ''dagger'',
      desc_Actions =
        [described_action CreateAction ''Creates a new dagger'',
         described_action UpdateAction ''Updates an existing dagger'',
         described_action StopAction ''Suspends a running dagger'',
         described_action fh_StartAction ''Starts a suspended dagger'',
         described_action ResetAction ''Resets the offset of a dagger''],
      desc_Dependencies = Some [(keyFlinkDependency, ''flink'')],
      desc_DriverFactory = (\<lambda>confJSON.
        case dg_driver_conf validate shared confJSON of
          Ok conf \<Rightarrow> Ok (dagger_module_driver (dagger_driver env conf))
        | Err e \<Rightarrow> Err e
        | Panic p \<Rightarrow> Panic p
        | Overflow \<Rightarrow> Overflow)\<rparr>"

end
