(* ===== verification/Dagger_Groups.thy ===== *)
theory Dagger_Groups
  imports Dagger_Module
begin

text \<open>
  The consumer groups of a dagger. Groups are compared as texts, which agrees with the order of their
  numbers as long as these have the same number of digits.
\<close>

section \<open>Numbers as texts\<close>

lemma read_digits_zeros: "read_digits 0 (replicate n (CHR ''0'') @ s) = read_digits 0 s"
  by (induction n) (simp_all add: is_digit_def)

lemma read_zero_pad: "read_nat (zero_pad k (show_nat n)) = Some n"
  by (simp add: read_nat_def zero_pad_def read_digits_zeros read_digits_show_nat)

lemma digits_zero_pad: "list_all is_digit (zero_pad k (show_nat n))"
  using show_nat_digits [of n] by (auto simp: zero_pad_def list_all_iff is_digit_def)

lemma digits_no_hyphen: "list_all is_digit s \<Longrightarrow> CHR ''-'' \<notin> set s"
  by (auto simp: list_all_iff is_digit_def)

lemma zero_pad_nonempty [simp]: "zero_pad k (show_nat n) \<noteq> []"
  by (simp add: zero_pad_def)

lemma Atoi_of_digits:
  assumes "list_all is_digit s" "s \<noteq> []" "read_nat s = Some n" "int n \<le> int64_max"
  shows "Atoi s = Some (int n)"
proof -
  obtain c cs where s: "s = c # cs" using assms(2) by (cases s) auto
  with assms(1) have "c \<noteq> CHR ''-''" "c \<noteq> CHR ''+''"
    by (auto simp: is_digit_def)
  with s assms(3,4) show ?thesis by (simp add: Atoi_def int64_max_def)
qed

lemma Atoi_show_04d:
  assumes "0 \<le> i" "i \<le> int64_max"
  shows "Atoi_value (show_04d i) = i"
  using Atoi_of_digits [OF digits_zero_pad zero_pad_nonempty read_zero_pad, of "nat i" 4] assms
  by (simp add: show_04d_def Atoi_value_def)

lemma show_04d_digits: "0 \<le> i \<Longrightarrow> list_all is_digit (show_04d i)"
  by (simp add: show_04d_def digits_zero_pad)

text \<open>Digit texts of one length compare as their values.\<close>

definition digits_value :: "string \<Rightarrow> nat" where
  "digits_value s = foldl (\<lambda>n c. n * 10 + (code c - 48)) 0 s"

lemma foldl_digits:
  "foldl (\<lambda>n c. n * 10 + (code c - 48)) a s = a * 10 ^ length s + digits_value s"
proof (induction s arbitrary: a)
  case (Cons c s)
  have "digits_value (c # s) = (code c - 48) * 10 ^ length s + digits_value s"
    using Cons [of "code c - 48"] by (simp add: digits_value_def)
  with Cons [of "a * 10 + (code c - 48)"] show ?case by (simp add: algebra_simps)
qed (simp add: digits_value_def)

lemma digits_value_Cons: "digits_value (c # s) = (code c - 48) * 10 ^ length s + digits_value s"
  using foldl_digits [of "code c - 48" s] by (simp add: digits_value_def)

lemma digits_value_less: "list_all is_digit s \<Longrightarrow> digits_value s < 10 ^ length s"
proof (induction s)
  case (Cons c s)
  then have "code c - 48 \<le> 9" "digits_value s < 10 ^ length s" by (auto simp: is_digit_def)
  then have "(code c - 48) * 10 ^ length s + digits_value s < 9 * 10 ^ length s + 10 ^ length s"
    by (intro add_le_less_mono mult_le_mono1)
  then show ?case by (simp add: digits_value_Cons)
qed (simp add: digits_value_def)

lemma read_digits_value: "list_all is_digit s \<Longrightarrow> read_digits a s = Some (a * 10 ^ length s + digits_value s)"
proof (induction s arbitrary: a)
  case (Cons c s)
  then show ?case by (simp add: digits_value_Cons add_mult_distrib add_mult_distrib2)
qed (simp add: digits_value_def)

lemma digits_mono:
  assumes "list_all is_digit xs" "list_all is_digit ys" "length xs = length ys" "xs \<le> ys"
  shows "digits_value xs \<le> digits_value ys"
  using assms
proof (induction xs arbitrary: ys)
  case (Cons x xs)
  then obtain y zs where ys: "ys = y # zs" by (cases ys) auto
  then consider "code x < code y" | "x = y" "xs \<le> zs"
    using Cons.prems by (auto simp: Cons_le_Cons less_char_def)
  then show ?case
  proof cases
    case 1
    have "digits_value xs < 10 ^ length xs" using Cons.prems digits_value_less by simp
    moreover have "Suc (code x - 48) \<le> code y - 48" using 1 Cons.prems ys by (auto simp: is_digit_def)
    then have "Suc (code x - 48) * 10 ^ length xs \<le> (code y - 48) * 10 ^ length xs" by (rule mult_le_mono1)
    ultimately show ?thesis using Cons.prems ys by (simp add: digits_value_Cons)
  next
    case 2
    then show ?thesis using Cons ys by (simp add: digits_value_Cons)
  qed
qed simp

lemma Atoi_value_digits:
  "list_all is_digit s \<Longrightarrow> s \<noteq> [] \<Longrightarrow> int (digits_value s) \<le> int64_max \<Longrightarrow> Atoi_value s = int (digits_value s)"
  using Atoi_of_digits [of s "digits_value s"] read_digits_value [of s 0]
  by (simp add: read_nat_def Atoi_value_def)

section \<open>Groups\<close>

abbreviation group_id :: "Source \<Rightarrow> string" where
  "group_id s \<equiv> sk_GroupID (so_Kafka s)"

definition group_number :: "string \<Rightarrow> int" where
  "group_number g = Atoi_value (snd (splitNameAndNumber g))"

lemma split_parts_fresh: "\<forall>x \<in> set (split_on c s). c \<notin> set x"
  by (induction s) (auto split: list.split)

lemma join_split_group: "join ''-'' (fst (splitNameAndNumber g) @ [snd (splitNameAndNumber g)]) = g"
  using join_split_on [of "CHR ''-''" g] by (simp add: splitNameAndNumber_def Let_def)

lemma split_incremented:
  assumes "0 \<le> wrap64 (group_number g + i)"
  shows "splitNameAndNumber (incrementGroupId g i) = (fst (splitNameAndNumber g), show_04d (wrap64 (group_number g + i)))"
proof -
  let ?n = "fst (splitNameAndNumber g)" and ?d = "show_04d (wrap64 (group_number g + i))"
  have "\<forall>x \<in> set (?n @ [?d]). CHR ''-'' \<notin> set x"
    using split_parts_fresh [of "CHR ''-''" g] digits_no_hyphen [OF show_04d_digits [OF assms]]
    by (auto simp: splitNameAndNumber_def Let_def dest: in_set_butlastD)
  then have "split_on (CHR ''-'') (join ''-'' (?n @ [?d])) = ?n @ [?d]"
    by (intro split_on_join) auto
  moreover have "incrementGroupId g i = join ''-'' (?n @ [?d])"
    by (simp add: incrementGroupId_def group_number_def Let_def case_prod_beta)
  ultimately show ?thesis
    unfolding splitNameAndNumber_def [of "incrementGroupId g i"] by simp
qed

lemma wrap64_id: "- (2 ^ 63) \<le> i \<Longrightarrow> i \<le> int64_max \<Longrightarrow> wrap64 i = i"
  by (simp add: wrap64_def int64_max_def)

lemma incremented_number:
  assumes "0 \<le> group_number g" "0 \<le> i" "group_number g + i \<le> int64_max"
  shows "group_number (incrementGroupId g i) = group_number g + i"
proof -
  have w: "wrap64 (group_number g + i) = group_number g + i"
    using assms by (intro wrap64_id) auto
  then show ?thesis
    using split_incremented [of g i] Atoi_show_04d [of "group_number g + i"] assms
    by (simp add: group_number_def [of "incrementGroupId g i"])
qed

text \<open>A group of the given name with a number of four digits.\<close>

definition well_numbered :: "string list \<Rightarrow> string \<Rightarrow> bool" where
  "well_numbered name g \<longleftrightarrow>
     fst (splitNameAndNumber g) = name \<and> length (snd (splitNameAndNumber g)) = 4 \<and>
     list_all is_digit (snd (splitNameAndNumber g))"

lemma append_le_append: "p @ a \<le> p @ b \<longleftrightarrow> a \<le> (b :: string)"
  by (induction p) (auto simp: Cons_le_Cons)

lemma join_snoc: "join sep (xs @ [x]) = (if xs = [] then x else join sep xs @ sep @ x)"
  by (induction sep xs rule: join.induct) auto

lemma well_numbered_value:
  assumes "well_numbered name g"
  shows "group_number g = int (digits_value (snd (splitNameAndNumber g)))" "group_number g \<le> 9999"
proof -
  let ?d = "snd (splitNameAndNumber g)"
  have d: "list_all is_digit ?d" "length ?d = 4" using assms by (simp_all add: well_numbered_def)
  then have "digits_value ?d < 10000" "?d \<noteq> []" using digits_value_less [of ?d] by auto
  then show "group_number g = int (digits_value ?d)" "group_number g \<le> 9999"
    using Atoi_value_digits [of ?d] d by (auto simp: group_number_def int64_max_def)
qed

lemma group_le:
  assumes "well_numbered name a" "well_numbered name b" "a \<le> b"
  shows "group_number a \<le> group_number b"
proof -
  let ?d = "\<lambda>g. snd (splitNameAndNumber g)"
  have "join ''-'' (name @ [?d a]) \<le> join ''-'' (name @ [?d b])"
    using assms join_split_group [of a] join_split_group [of b] by (simp add: well_numbered_def)
  then have "?d a \<le> ?d b"
    by (simp add: join_snoc append_le_append Cons_le_Cons split: if_splits)
  then have "digits_value (?d a) \<le> digits_value (?d b)"
    using assms by (intro digits_mono) (auto simp: well_numbered_def)
  then show ?thesis using well_numbered_value assms by simp
qed


section \<open>Resetting\<close>

lemma length_reset_groups [simp]: "length (reset_groups base to n ss) = length ss"
  by (induction ss arbitrary: n) auto

lemma nth_reset_groups:
  "i < length ss \<Longrightarrow> reset_groups base to n ss ! i =
     (ss ! i)\<lparr>so_Kafka := (so_Kafka (ss ! i))\<lparr>sk_GroupID := incrementGroupId base (n + int i + 1), sk_AutoOffsetReset := to\<rparr>\<rparr>"
  by (induction ss arbitrary: n i) (auto simp: nth_Cons split: nat.split)

text \<open>The base group is one of the groups, and none is after it.\<close>

lemma fold_max:
  fixes m :: string
  shows "fold (\<lambda>g m. if m < g then g else m) gs m \<in> insert m (set gs) \<and>
    (\<forall>g \<in> insert m (set gs). g \<le> fold (\<lambda>g m. if m < g then g else m) gs m)"
proof (induction gs arbitrary: m)
  case (Cons g gs)
  show ?case using Cons.IH [of "if m < g then g else m"] by (auto split: if_splits)
qed simp

lemma base_group_max:
  assumes "source \<noteq> []"
  shows "base_group source \<in> set (map group_id source)" "\<forall>s \<in> set source. group_id s \<le> base_group source"
  using fold_max [of "map group_id source" "hd (map group_id source)"] assms
  by (auto simp: base_group_def Let_def hd_map)

text \<open>C19: What a reset does to the sources of a dagger that reads Kafka, that is, whose first source is not a
  Parquet one (otherwise it changes nothing). When the groups of the sources have one common name and
  numbers of four digits, and there are at most a million sources, every source moves to a consumer group
  of its own that was not in use: the new groups have the same name, no two are equal and none is one of
  the old; the reset point is set on every source and nothing else of the sources changes.\<close>

theorem dagger_reset_groups:
  assumes "dg_consumerReset conf resetTo = Ok new" and "\<not> is_parquet (hd (dc_Source conf))"
    and "\<forall>s \<in> set (dc_Source conf). well_numbered name (group_id s)" and "length (dc_Source conf) \<le> 1000000"
  shows "length new = length (dc_Source conf) \<and>
    (\<forall>i < length new. \<exists>g. new ! i = (dc_Source conf ! i)\<lparr>so_Kafka := (so_Kafka (dc_Source conf ! i))
        \<lparr>sk_GroupID := g, sk_AutoOffsetReset := resetTo\<rparr>\<rparr> \<and> fst (splitNameAndNumber g) = name) \<and>
    distinct (map group_id new) \<and> set (map group_id new) \<inter> set (map group_id (dc_Source conf)) = {}"
proof -
  let ?ss = "dc_Source conf"
  let ?base = "base_group ?ss"
  have ne: "?ss \<noteq> []" and new: "new = reset_groups ?base resetTo 0 ?ss"
    using assms(1,2) by (auto simp: dg_consumerReset_def split: list.splits if_splits)
  have len: "length new = length ?ss"
    by (simp add: new)
  have wb: "well_numbered name ?base"
    using base_group_max(1) [OF ne] assms(3) by auto
  have base: "0 \<le> group_number ?base" "group_number ?base \<le> 9999" "fst (splitNameAndNumber ?base) = name"
    using well_numbered_value [OF wb] wb by (auto simp: well_numbered_def)
  have small: "group_number ?base + int i + 1 \<le> int64_max" if "i < length ?ss" for i
    using that assms(4) base(2) by (simp add: int64_max_def)
  have num: "group_number (group_id (new ! i)) = group_number ?base + int i + 1" if "i < length ?ss" for i
    using incremented_number [of ?base "int i + 1"] base(1) small [OF that] that
    by (simp add: new nth_reset_groups)
  have named: "fst (splitNameAndNumber (incrementGroupId ?base (int i + 1))) = name" if "i < length ?ss" for i
    using split_incremented [of ?base "int i + 1"] wrap64_id [of "group_number ?base + int i + 1"] small [OF that] base
    by (simp add: add.assoc)
  have old: "group_number g \<le> group_number ?base" if "g \<in> set (map group_id ?ss)" for g
    using that base_group_max(2) [OF ne] assms(3) wb by (auto intro: group_le)
  have "distinct (map group_id new)"
    unfolding distinct_conv_nth
  proof (intro allI impI)
    fix i j assume ij: "i < length (map group_id new)" "j < length (map group_id new)" "i \<noteq> j"
    then have "group_number (group_id (new ! i)) \<noteq> group_number (group_id (new ! j))"
      using num [of i] num [of j] len by simp
    then show "map group_id new ! i \<noteq> map group_id new ! j" using ij by force
  qed
  moreover have "group_id (new ! i) \<notin> set (map group_id ?ss)" if "i < length ?ss" for i
    using old [of "group_id (new ! i)"] num [OF that] by force
  then have "\<forall>s \<in> set new. group_id s \<notin> set (map group_id ?ss)"
    using len by (metis in_set_conv_nth)
  then have "set (map group_id new) \<inter> set (map group_id ?ss) = {}"
    by auto
  moreover have "\<exists>g. new ! i = (?ss ! i)\<lparr>so_Kafka := (so_Kafka (?ss ! i))\<lparr>sk_GroupID := g, sk_AutoOffsetReset := resetTo\<rparr>\<rparr> \<and>
      fst (splitNameAndNumber g) = name" if "i < length ?ss" for i
    using that named by (auto simp: new nth_reset_groups)
  ultimately show ?thesis by (simp add: new)
qed

text \<open>Beyond four digits a reset can hand out a group that is in use: with the groups \<open>-9999\<close> and \<open>-10000\<close> the
  former is the largest text, so the first source is moved to the group of the second, and starts at its
  offsets.\<close>

theorem dagger_reset_reuses_group:
  assumes "dc_Source conf = [s1, s2]" and "\<not> is_parquet s1"
    and "group_id s1 = ''orders-dagger-9999''" and "group_id s2 = ''orders-dagger-10000''"
  shows "\<exists>new. dg_consumerReset conf resetTo = Ok new \<and> group_id (new ! 0) = group_id s2"
proof -
  have "base_group (dc_Source conf) = ''orders-dagger-9999''"
    using assms by (simp add: base_group_def less_char_def)
  moreover have "incrementGroupId ''orders-dagger-9999'' 1 = ''orders-dagger-10000''"
    by (simp add: incrementGroupId_def splitNameAndNumber_def Atoi_value_def Atoi_def read_nat_def is_digit_def
        int64_max_def wrap64_def show_04d_def zero_pad_def show_nat.simps digit_def char_of_def bit_0)
  ultimately show ?thesis
    using assms(1,2,4) by (simp add: dg_consumerReset_def)
qed

end
