(* ===== verification/Names_Laws.thy ===== *)
theory Names_Laws
  imports Validator
begin

text \<open>
  Laws of \<open>modules.BuildResourceName\<close>: the name it builds keeps within its limit, and what makes two
  resources get the same name.
\<close>

section \<open>Slugs\<close>

lemma set_squeeze: "set (squeeze c s) \<subseteq> (set s - {c}) \<union> {CHR ''-''}"
  by (induction c s rule: squeeze.induct) auto

lemma squeeze_fresh: "c \<notin> set s \<Longrightarrow> squeeze c s = s"
  by (induction c s rule: squeeze.induct) auto

lemma squeeze_hyphen: "c \<noteq> CHR ''-'' \<Longrightarrow> squeeze c (CHR ''-'' # s) = CHR ''-'' # squeeze c s"
  by (cases s) simp_all

lemma squeeze_join:
  "c \<noteq> CHR ''-'' \<Longrightarrow> squeeze c (a @ CHR ''-'' # b) = squeeze c a @ CHR ''-'' # squeeze c b"
  by (induction c a rule: squeeze.induct) (simp_all add: squeeze_hyphen)

lemma slug_join: "slug (a @ CHR ''-'' # b) = slug a @ CHR ''-'' # slug b"
proof -
  have "slug_char (CHR ''-'')" "lower_char (CHR ''-'') = CHR ''-''"
    by (simp_all add: slug_char_def is_name_char_def lower_char_def)
  then show ?thesis by (simp add: slug_def squeeze_join ToLower_def)
qed

text \<open>The characters of a slug, which a second pass keeps.\<close>

definition slug_fixed :: "char \<Rightarrow> bool" where
  "slug_fixed c \<longleftrightarrow> slug_char c \<and> c \<noteq> CHR ''_'' \<and> c \<noteq> CHR '' '' \<and> lower_char c = c"

lemma slug_id:
  assumes "list_all slug_fixed s"
  shows "slug s = s"
proof -
  have "CHR ''_'' \<notin> set s" "CHR '' '' \<notin> set s" "\<forall>c \<in> set s. slug_char c" "\<forall>c \<in> set s. lower_char c = c"
    using assms by (auto simp: list_all_iff slug_fixed_def)
  then show ?thesis by (simp add: slug_def ToLower_def squeeze_fresh map_idI)
qed

lemma lower_slug_fixed:
  assumes "slug_char c" "c \<noteq> CHR ''_''" "c \<noteq> CHR '' ''"
  shows "slug_fixed (lower_char c)"
proof -
  have "lower_char c \<noteq> CHR ''_''" "lower_char c \<noteq> CHR '' ''"
    using assms(2,3) by (auto simp: lower_char_def of_char_eq_iff [symmetric, where 'a = nat] simp del: of_char_eq_iff)
  moreover have "slug_char (lower_char c)"
    using assms(1) by (auto simp: slug_char_def is_name_char_def lower_char_def is_alpha_def is_digit_def)
  ultimately show ?thesis by (simp add: slug_fixed_def lower_char_idem)
qed

lemma slug_fixed_slug: "list_all slug_fixed (slug s)"
proof -
  let ?t = "squeeze (CHR '' '') (squeeze (CHR ''_'') s)"
  have "CHR ''_'' \<notin> set ?t" "CHR '' '' \<notin> set ?t"
    using set_squeeze [of "CHR '' ''" "squeeze (CHR ''_'') s"] set_squeeze [of "CHR ''_''" s] by auto
  then show ?thesis
    by (auto simp: slug_def ToLower_def list_all_iff intro!: lower_slug_fixed)
qed

lemma slug_slug [simp]: "slug (slug s) = slug s"
  by (rule slug_id) (rule slug_fixed_slug)

section \<open>Names\<close>

text \<open>The digest is printed as at least eight hexadecimal digits.\<close>

definition hex_digest :: "(string \<Rightarrow> string) \<Rightarrow> bool" where
  "hex_digest md5 \<longleftrightarrow> (\<forall>s. 8 \<le> length (md5 s) \<and> list_all (\<lambda>c. is_digit c \<or> (97 \<le> code c \<and> code c \<le> 102)) (md5 s))"

lemma hex_slug_fixed: "is_digit c \<or> (97 \<le> code c \<and> code c \<le> 102) \<Longrightarrow> slug_fixed c"
  by (auto simp: slug_fixed_def slug_char_def is_name_char_def is_digit_def is_alpha_def lower_char_def)

lemma slug_hash: "hex_digest md5 \<Longrightarrow> slug (take n (md5 s)) = take n (md5 s)"
  by (rule slug_id) (auto simp: hex_digest_def list_all_iff intro!: hex_slug_fixed dest: in_set_takeD)

lemma slug_take [simp]: "slug (take n (slug s)) = take n (slug s)"
  by (rule slug_id) (use slug_fixed_slug [of s] in \<open>auto simp: list_all_iff dest: in_set_takeD\<close>)

lemma slug_joined: "slug (join ''-'' [p, n, k]) = slug p @ CHR ''-'' # slug n @ CHR ''-'' # slug k"
  by (simp add: slug_join)

lemma BuildResourceName_fits:
  assumes "hex_digest md5" and "BuildResourceName md5 kind name project limit = Ok n" and "limit \<noteq> 0"
  shows "int (length n) \<le> limit"
proof -
  have h: "length (take (nat RESOURCE_NAME_HASH_LEN) (md5 x)) = 8" for x
    using assms(1) by (simp add: hex_digest_def RESOURCE_NAME_HASH_LEN_def)
  have "n = slug (join ''-'' [project, slug name, kind]) \<and> int (length (slug (join ''-'' [project, name, kind]))) \<le> limit \<or>
      (\<exists>m. n = slug (join ''-'' [project, take m (slug name) @ ''-'' @ take (nat RESOURCE_NAME_HASH_LEN) (md5 (slug name)), kind])
        \<and> int m = int (length (slug name)) + (limit - int (length (slug (join ''-'' [project, name, kind])))) - 9)"
    using assms(2,3)
    by (auto simp: BuildResourceName_def Let_def slice_to_def RESOURCE_NAME_HASH_LEN_def split: if_splits)
  then show ?thesis
  proof (elim disjE exE conjE)
    fix m assume n: "n = slug (join ''-'' [project, take m (slug name) @ ''-'' @ take (nat RESOURCE_NAME_HASH_LEN) (md5 (slug name)), kind])"
      and m: "int m = int (length (slug name)) + (limit - int (length (slug (join ''-'' [project, name, kind])))) - 9"
    have "slug (take m (slug name) @ ''-'' @ take (nat RESOURCE_NAME_HASH_LEN) (md5 (slug name))) =
        take m (slug name) @ ''-'' @ take (nat RESOURCE_NAME_HASH_LEN) (md5 (slug name))"
      using slug_hash [OF assms(1)] by (simp add: slug_join)
    then have "length n \<le> length (slug project) + 1 + (m + 1 + 8) + 1 + length (slug kind)"
      using h by (simp add: n slug_join)
    with m show ?thesis by (simp add: slug_join)
  qed (simp add: slug_join)
qed

lemma BuildResourceName_total:
  assumes "int (length (slug project)) + int (length (slug kind)) + 11 \<le> limit" and "limit \<noteq> 0"
  shows "\<exists>n. BuildResourceName md5 kind name project limit = Ok n"
  using assms
  by (auto simp: BuildResourceName_def Let_def slice_to_def RESOURCE_NAME_HASH_LEN_def slug_join)

lemma BuildResourceName_no_overflow: "BuildResourceName md5 kind name project limit \<noteq> Overflow"
  by (auto simp: BuildResourceName_def Let_def slice_to_def)

text \<open>Names with the same slug are not told apart.\<close>

lemma BuildResourceName_slug:
  "slug a = slug b \<Longrightarrow> BuildResourceName md5 kind a project limit = BuildResourceName md5 kind b project limit"
  by (simp add: BuildResourceName_def slug_join)

end
