(* ===== verification/Flink_Laws.thy ===== *)
theory Flink_Laws
  imports Driver_Flink
begin

text \<open>
  What the modules write and their dependents read: a cluster's output survives being printed, copied
  into the output of a Flink resource and read back from there. Decoding establishes a type
  invariant (integers in 64 bits, distinct keys, numbers and objects where the struct has them), and
  under that invariant printing loses nothing but the order of the keys.
\<close>

section \<open>The type invariant of decoded values\<close>

text \<open>What every setter of a struct preserves, decoding preserves.\<close>

definition keeps_inv :: "('r \<Rightarrow> bool) \<Rightarrow> (string \<times> 'r setter) list \<Rightarrow> bool" where
  "keeps_inv P fs \<longleftrightarrow> (\<forall>(k, f) \<in> set fs. \<forall>j r r'. P r \<longrightarrow> f j r = Some r' \<longrightarrow> P r')"

lemma keeps_inv_Cons [simp]:
  "keeps_inv P ((k, f) # fs) \<longleftrightarrow> (\<forall>j r r'. P r \<longrightarrow> f j r = Some r' \<longrightarrow> P r') \<and> keeps_inv P fs"
  by (simp add: keeps_inv_def)

lemma keeps_inv_Nil [simp]: "keeps_inv P []"
  by (simp add: keeps_inv_def)

lemma field_for_mem: "field_for fs k = Some f \<Longrightarrow> \<exists>n. (n, f) \<in> set fs"
  by (auto simp: field_for_def split: option.splits dest: map_of_SomeD find_Some_mem)

lemma set_member_inv: "keeps_inv P fs \<Longrightarrow> P (fst st) \<Longrightarrow> P (fst (set_member fs kv st))"
  unfolding set_member_def keeps_inv_def by (fastforce split: option.split dest: field_for_mem)

lemma decode_obj_inv:
  assumes "keeps_inv P fs" and "P r" and "decode_obj fs j r = Ok r'"
  shows "P r'"
proof -
  have "P (fst (fold (set_member fs) kvs st))" if "P (fst st)" for kvs st
    using that by (induction kvs arbitrary: st) (simp_all add: set_member_inv [OF assms(1)])
  from this [of "(r, False)"] show ?thesis
    using assms(2,3) by (auto simp: decode_obj_def Let_def split: json.splits prod.splits if_splits)
      (metis fst_conv)
qed

lemma decode_objs_inv:
  assumes "keeps_inv P fs" and "P zero"
  shows "decode_objs fs zero js old = Some bs \<Longrightarrow> list_all P old \<Longrightarrow> list_all P bs"
  by (induction js arbitrary: old bs)
    (use assms in \<open>auto split: result.splits list.splits dest: decode_obj_inv [OF assms(1)]\<close>)

definition int64_ok :: "int \<Rightarrow> bool" where
  "int64_ok i \<longleftrightarrow> - int64_max - 1 \<le> i \<and> i \<le> int64_max"

definition num_ok :: "json \<Rightarrow> bool" where
  "num_ok j \<longleftrightarrow> (case j of JInt _ \<Rightarrow> True | JFloat _ \<Rightarrow> True | _ \<Rightarrow> False)"

definition object_ok :: "json \<Rightarrow> bool" where
  "object_ok j \<longleftrightarrow> (case j of JObj _ \<Rightarrow> True | _ \<Rightarrow> False)"

definition kube_Config_ok :: "kube_Config \<Rightarrow> bool" where
  "kube_Config_ok c \<longleftrightarrow>
     int64_ok (kcf_Timeout c) \<and> int64_ok (hc_MaxHistory (kcf_HelmConfig c)) \<and> int64_ok (kcf_Burst c) \<and>
     num_ok (kcf_QPS c)"

definition Affinity_ok :: "NodeAffinityMatchExpressions \<Rightarrow> bool" where
  "Affinity_ok a \<longleftrightarrow> list_all (\<lambda>w. int64_ok (wp_Weight w)) (na_Preferred a)"

definition kube_Output_ok :: "kube_Output \<Rightarrow> bool" where
  "kube_Output_ok ko \<longleftrightarrow>
     kube_Config_ok (ko_Configs ko) \<and> object_ok (ko_ServerInfo ko) \<and> wf_map (ko_TolerationMode ko) \<and>
     wf_map (ko_Tolerations ko) \<and> wf_map (ko_AffinityMode ko) \<and> wf_map (ko_Affinities ko) \<and>
     (\<forall>(k, a) \<in> set (entries (ko_Affinities ko)). Affinity_ok a)"

text \<open>What a setter does to its record, by the kind of the field.\<close>

lemma set_int_Some: "set_int upd j r = Some r' \<Longrightarrow> r' = r \<or> (\<exists>i. int64_ok i \<and> r' = upd (\<lambda>_. i) r)"
  by (auto simp: set_int_def int64_ok_def split: json.splits if_splits)

lemma set_num_Some: "set_num upd j r = Some r' \<Longrightarrow> r' = r \<or> (\<exists>n. num_ok n \<and> r' = upd (\<lambda>_. n) r)"
  by (auto simp: set_num_def num_ok_def split: json.splits)

lemma set_object_Some: "set_object upd j r = Some r' \<Longrightarrow> r' = r \<or> (\<exists>n. object_ok n \<and> r' = upd (\<lambda>_. n) r)"
  by (auto simp: set_object_def object_ok_def split: json.splits)

lemma set_str_Some: "set_str upd j r = Some r' \<Longrightarrow> r' = r \<or> (\<exists>s. r' = upd (\<lambda>_. s) r)"
  by (auto simp: set_str_def split: json.splits)

lemma set_bool_Some: "set_bool upd j r = Some r' \<Longrightarrow> r' = r \<or> (\<exists>b. r' = upd (\<lambda>_. b) r)"
  by (auto simp: set_bool_def split: json.splits)

lemma set_obj_Some: "set_obj fs get upd j r = Some r' \<Longrightarrow> \<exists>b. decode_obj fs j (get r) = Ok b \<and> r' = upd (\<lambda>_. b) r"
  by (auto simp: set_obj_def split: result.splits)

lemma set_objs_Some:
  "set_objs fs zero get upd j r = Some r' \<Longrightarrow>
     \<exists>bs. r' = upd (\<lambda>_. bs) r \<and> (bs = [] \<or> (\<exists>js. decode_objs fs zero js (get r) = Some bs))"
  by (auto simp: set_objs_def split: json.splits)

lemma set_strmap_Some:
  "set_strmap upd j r = Some r' \<Longrightarrow>
     r' = upd (\<lambda>_. None) r \<or> (\<exists>m. r' = upd (\<lambda>old. Some (put_all m (entries old))) r)"
  by (auto simp: set_strmap_def split: json.splits option.splits)

lemma set_map_Some:
  "set_map dec upd j r = Some r' \<Longrightarrow>
     r' = upd (\<lambda>_. None) r \<or>
     (\<exists>kvs m. json_map dec kvs = Some m \<and> r' = upd (\<lambda>old. Some (put_all m (entries old))) r)"
  by (auto simp: set_map_def split: json.splits option.splits)

lemmas setter_Some = set_int_Some set_num_Some set_object_Some set_str_Some set_bool_Some set_obj_Some set_objs_Some
  set_strmap_Some set_map_Some

lemma keeps_HelmConfig: "keeps_inv (\<lambda>h. int64_ok (hc_MaxHistory h)) HelmConfig_fields"
  by (auto simp: HelmConfig_fields_def dest!: setter_Some)

lemma keeps_kube_Config: "keeps_inv kube_Config_ok kube_Config_fields"
  unfolding kube_Config_fields_def keeps_inv_Cons kube_Config_ok_def
  by (auto dest!: setter_Some dest: decode_obj_inv [OF keeps_HelmConfig])

lemma keeps_WeightedPreference: "keeps_inv (\<lambda>w. int64_ok (wp_Weight w)) WeightedPreference_fields"
  by (auto simp: WeightedPreference_fields_def dest!: setter_Some)

lemma int64_ok_zero [simp]: "int64_ok 0"
  by (simp add: int64_ok_def int64_max_def)

lemma keeps_Affinity: "keeps_inv Affinity_ok Affinity_fields"
  unfolding Affinity_fields_def keeps_inv_Cons Affinity_ok_def
  by (auto simp: zero_WeightedPreference_def dest!: setter_Some
      dest: decode_objs_inv [OF keeps_WeightedPreference, rotated])

lemma json_map_inv: "json_map dec kvs = Some m \<Longrightarrow> (\<And>j b. dec j = Some b \<Longrightarrow> P b) \<Longrightarrow> \<forall>(k, b) \<in> set m. P b"
  by (induction dec kvs arbitrary: m rule: json_map.induct) (fastforce split: option.splits)+

lemma set_put: "set (put k v m) \<subseteq> insert (k, v) (set m)"
  unfolding put_def by (induction m) auto

lemma set_put_all: "set (put_all kvs m) \<subseteq> set kvs \<union> set m"
proof (induction kvs arbitrary: m)
  case (Cons kv kvs)
  then show ?case using set_put [of "fst kv" "snd kv" m] by (cases kv) fastforce
qed simp

lemma wf_put_all_entries: "wf_map m \<Longrightarrow> wf_map (Some (put_all kvs (entries m)))"
  by (simp add: wf_map_def)

lemma decoded_affinities:
  assumes "json_map (dec_obj Affinity_fields zero_Affinity) kvs = Some m"
    and "\<forall>(k, a) \<in> set old. Affinity_ok a" and "(k, b) \<in> set (put_all m old)"
  shows "Affinity_ok b"
proof -
  have "Affinity_ok zero_Affinity" by (simp add: zero_Affinity_def Affinity_ok_def)
  then have "Affinity_ok b" if "dec_obj Affinity_fields zero_Affinity j = Some b" for j b
    using that by (auto simp: dec_obj_def split: result.splits dest: decode_obj_inv [OF keeps_Affinity])
  with assms(1) have "\<forall>(k, a) \<in> set m. Affinity_ok a"
    by (rule json_map_inv)
  with assms(2,3) set_put_all [of m old] show ?thesis by blast
qed

lemma keeps_kube_Output: "keeps_inv kube_Output_ok kube_Output_fields"
  unfolding kube_Output_fields_def keeps_inv_Cons kube_Output_ok_def
  by (auto simp: wf_put_all_entries dest!: setter_Some dest: decode_obj_inv [OF keeps_kube_Config])
    (auto simp: wf_map_def dest: decoded_affinities)

lemma zero_kube_Output_ok [simp]: "kube_Output_ok zero_kube_Output"
  by (simp add: kube_Output_ok_def zero_kube_Output_def kube_Config_ok_def zero_kube_Config_def num_ok_def object_ok_def
      wf_map_def)

lemma kube_dependency_ok: "kube_dependency exr = Ok ko \<Longrightarrow> kube_Output_ok ko"
  unfolding kube_dependency_def Unmarshal_def
  by (auto split: result.splits dest: decode_obj_inv [OF keeps_kube_Output zero_kube_Output_ok])


section \<open>Printing and reading back\<close>

text \<open>The map that an encoded map decodes to: the same map, with its keys in order.\<close>

definition norm_map :: "'b gomap \<Rightarrow> 'b gomap" where
  "norm_map m = map_option (\<lambda>kvs. put_all (sort_key fst kvs) []) m"

lemma norm_map_lookup: "wf_map m \<Longrightarrow> lookup (norm_map m) k = lookup m k"
proof (cases m)
  case (Some kvs)
  assume "wf_map m"
  with Some have d: "distinct (map fst kvs)" by (simp add: wf_map_def)
  then have "map_of (put_all (sort_key fst kvs) []) = map_of (sort_key fst kvs)"
    using map_of_put_all [of "sort_key fst kvs" "[]"] by (simp add: distinct_map inj_on_def)
  moreover have "map_of (sort_key fst kvs) = map_of kvs"
    using d by (intro map_of_inject_set [THEN iffD2]) (auto simp: distinct_map inj_on_def)
  ultimately show ?thesis by (simp add: Some norm_map_def lookup_def)
qed (simp add: norm_map_def)

definition kube_norm :: "kube_Output \<Rightarrow> kube_Output" where
  "kube_norm ko = ko\<lparr>ko_TolerationMode := norm_map (ko_TolerationMode ko), ko_Tolerations := norm_map (ko_Tolerations ko),
     ko_AffinityMode := norm_map (ko_AffinityMode ko), ko_Affinities := norm_map (ko_Affinities ko)\<rparr>"

lemma decode_obj_int:
  "field_for fs k = Some (set_int upd) \<Longrightarrow> int64_ok i \<Longrightarrow>
     decode_obj fs (JObj ((k, JInt i) # kvs)) r = decode_obj fs (JObj kvs) (upd (\<lambda>_. i) r)"
  by (simp add: decode_obj_def set_member_def set_int_def int64_ok_def)

lemma decode_obj_bool:
  "field_for fs k = Some (set_bool upd) \<Longrightarrow>
     decode_obj fs (JObj ((k, JBool b) # kvs)) r = decode_obj fs (JObj kvs) (upd (\<lambda>_. b) r)"
  by (simp add: decode_obj_def set_member_def set_bool_def)

lemma decode_obj_num:
  "field_for fs k = Some (set_num upd) \<Longrightarrow> num_ok n \<Longrightarrow>
     decode_obj fs (JObj ((k, n) # kvs)) r = decode_obj fs (JObj kvs) (upd (\<lambda>_. n) r)"
  by (cases n) (simp_all add: decode_obj_def set_member_def set_num_def num_ok_def)

lemma decode_obj_object:
  "field_for fs k = Some (set_object upd) \<Longrightarrow> object_ok n \<Longrightarrow>
     decode_obj fs (JObj ((k, n) # kvs)) r = decode_obj fs (JObj kvs) (upd (\<lambda>_. n) r)"
  by (cases n) (simp_all add: decode_obj_def set_member_def set_object_def object_ok_def)

lemma decode_obj_obj:
  "field_for fs k = Some (set_obj gs get upd) \<Longrightarrow> decode_obj gs j (get r) = Ok b \<Longrightarrow>
     decode_obj fs (JObj ((k, j) # kvs)) r = decode_obj fs (JObj kvs) (upd (\<lambda>_. b) r)"
  by (simp add: decode_obj_def set_member_def set_obj_def)

lemma decode_obj_strs:
  "field_for fs k = Some (set_strs upd) \<Longrightarrow>
     decode_obj fs (JObj ((k, enc_list JStr ss) # kvs)) r = decode_obj fs (JObj kvs) (upd (\<lambda>_. ss) r)"
  by (simp add: decode_obj_def set_member_def set_strs_def enc_list_def)

lemma decode_obj_objs:
  assumes "field_for fs k = Some (set_objs gs zero get upd)" and "get r = []"
    and "\<And>b. b \<in> set bs \<Longrightarrow> decode_obj gs (enc b) zero = Ok b"
  shows "decode_obj fs (JObj ((k, enc_list enc bs) # kvs)) r = decode_obj fs (JObj kvs) (upd (\<lambda>_. bs) r)"
  using assms decode_objs_fresh [of bs gs enc zero "\<lambda>b. b"]
  by (simp add: decode_obj_def set_member_def set_objs_def enc_list_def)

text \<open>A map field is replaced when it was nil before.\<close>

lemma decode_obj_strmap:
  assumes "field_for fs k = Some (set_strmap upd)"
    and "\<And>f. upd f r = upd (\<lambda>_. f None) r"
  shows "decode_obj fs (JObj ((k, enc_strmap m) # kvs)) r = decode_obj fs (JObj kvs) (upd (\<lambda>_. norm_map m) r)"
proof (cases m)
  case (Some kvs')
  then show ?thesis
    using assms(1) assms(2) [of "\<lambda>old. Some (put_all (sort_key fst kvs') (entries old))"]
    by (simp add: enc_strmap_def decode_obj_def set_member_def set_strmap_def norm_map_def)
qed (use assms(1) in \<open>simp add: enc_strmap_def decode_obj_def set_member_def set_strmap_def norm_map_def\<close>)

lemma json_map_enc: "\<forall>(k, b) \<in> set kvs. dec (enc b) = Some b \<Longrightarrow> json_map dec (map (\<lambda>(k, b). (k, enc b)) kvs) = Some kvs"
  by (induction kvs) auto

lemma decode_obj_map:
  assumes "field_for fs k = Some (set_map dec upd)"
    and "\<And>f. upd f r = upd (\<lambda>_. f None) r"
    and "\<forall>(k, b) \<in> set (entries m). dec (enc b) = Some b"
  shows "decode_obj fs (JObj ((k, enc_map enc m) # kvs)) r = decode_obj fs (JObj kvs) (upd (\<lambda>_. norm_map m) r)"
proof (cases m)
  case (Some kvs')
  then show ?thesis
    using assms(1,3) assms(2) [of "\<lambda>old. Some (put_all (sort_key fst kvs') (entries old))"]
      json_map_enc [of "sort_key fst kvs'" dec enc]
    by (simp add: enc_map_def decode_obj_def set_member_def set_map_def norm_map_def)
qed (use assms(1) in \<open>simp add: enc_map_def decode_obj_def set_member_def set_map_def norm_map_def\<close>)

lemmas decode_members = decode_obj_str decode_obj_int decode_obj_bool decode_obj_num decode_obj_object decode_obj_strs
  decode_obj_obj decode_obj_omit decode_obj_omit_strs


section \<open>The cluster's output\<close>

lemma kube_Config_field_for [simp]:
  "field_for kube_Config_fields ''host'' = Some (set_str kcf_Host_update)"
  "field_for kube_Config_fields ''timeout'' = Some (set_int kcf_Timeout_update)"
  "field_for kube_Config_fields ''token'' = Some (set_str kcf_Token_update)"
  "field_for kube_Config_fields ''insecure'' = Some (set_bool kcf_Insecure_update)"
  "field_for kube_Config_fields ''client_key'' = Some (set_str kcf_ClientKey_update)"
  "field_for kube_Config_fields ''client_certificate'' = Some (set_str kcf_ClientCertificate_update)"
  "field_for kube_Config_fields ''cluster_ca_certificate'' = Some (set_str kcf_ClusterCACertificate_update)"
  "field_for kube_Config_fields ''provider_type'' = Some (set_str kcf_ProviderType_update)"
  "field_for kube_Config_fields ''namespace'' = Some (set_str kcf_Namespace_update)"
  "field_for kube_Config_fields ''helm_config'' = Some (set_obj HelmConfig_fields kcf_HelmConfig kcf_HelmConfig_update)"
  "field_for kube_Config_fields ''burst'' = Some (set_int kcf_Burst_update)"
  "field_for kube_Config_fields ''qps'' = Some (set_num kcf_QPS_update)"
  by (simp_all add: field_for_exact kube_Config_fields_def)

lemma decode_HelmConfig:
  "int64_ok (hc_MaxHistory h) \<Longrightarrow> decode_obj HelmConfig_fields (JObj [(''max_history'', JInt (hc_MaxHistory h))]) x = Ok h"
  by (simp add: decode_obj_int [where upd = hc_MaxHistory_update] field_for_exact HelmConfig_fields_def)

lemma decode_kube_Config:
  "kube_Config_ok c \<Longrightarrow> decode_obj kube_Config_fields (kube_Config_json c) x = Ok c"
  unfolding kube_Config_json_def kube_Config_ok_def
  by (simp add: decode_members decode_obj_obj [OF _ decode_HelmConfig])

lemma decode_Toleration: "decode_obj Toleration_fields (Toleration_json t) x = Ok t"
  by (simp add: Toleration_json_def decode_members field_for_exact Toleration_fields_def)

lemma decode_Preference: "decode_obj Preference_fields (Preference_json p) x = Ok p"
  by (simp add: Preference_json_def decode_members field_for_exact Preference_fields_def)

lemma decode_WeightedPreference:
  assumes "int64_ok (wp_Weight w)"
  shows "decode_obj WeightedPreference_fields (WeightedPreference_json w) zero_WeightedPreference = Ok w"
proof -
  have f: "field_for WeightedPreference_fields ''weight'' = Some (set_int wp_Weight_update)"
    "field_for WeightedPreference_fields ''preference'' =
       Some (set_objs Preference_fields zero_Preference wp_Preference wp_Preference_update)"
    by (simp_all add: field_for_exact WeightedPreference_fields_def)
  show ?thesis
    using assms
    by (simp add: WeightedPreference_json_def decode_obj_int [OF f(1)] decode_obj_objs [OF f(2) _ decode_Preference]
        zero_WeightedPreference_def)
qed

lemma decode_Affinity:
  assumes "Affinity_ok a"
  shows "decode_obj Affinity_fields (Affinity_json a) zero_Affinity = Ok a"
proof -
  have f: "field_for Affinity_fields ''requiredDuringSchedulingIgnoredDuringExecution'' =
      Some (set_objs Preference_fields zero_Preference na_Required na_Required_update)"
    "field_for Affinity_fields ''preferredDuringSchedulingIgnoredDuringExecution'' =
      Some (set_objs WeightedPreference_fields zero_WeightedPreference na_Preferred na_Preferred_update)"
    by (simp_all add: field_for_exact Affinity_fields_def)
  have w: "decode_obj WeightedPreference_fields (WeightedPreference_json w) zero_WeightedPreference = Ok w"
    if "w \<in> set (na_Preferred a)" for w
    using assms that by (auto simp: Affinity_ok_def list_all_iff intro: decode_WeightedPreference)
  have "decode_obj Affinity_fields (JObj (omit_empty_list ''preferredDuringSchedulingIgnoredDuringExecution''
      WeightedPreference_json (na_Preferred a) @ [])) (zero_Affinity\<lparr>na_Required := na_Required a\<rparr>) = Ok a"
    by (subst decode_obj_omit_objs [OF f(2) _ w]) (simp_all add: zero_Affinity_def)
  then show ?thesis
    unfolding Affinity_json_def
    by (subst decode_obj_omit_objs [OF f(1) _ decode_Preference]) (auto simp: zero_Affinity_def)
qed

lemma decode_kube_Output:
  assumes "kube_Output_ok ko"
  shows "decode_obj kube_Output_fields (kube_Output_json ko) zero_kube_Output = Ok (kube_norm ko)"
proof -
  have f: "field_for kube_Output_fields ''configs'' = Some (set_obj kube_Config_fields ko_Configs ko_Configs_update)"
    "field_for kube_Output_fields ''server_info'' = Some (set_object ko_ServerInfo_update)"
    "field_for kube_Output_fields ''toleration_mode'' = Some (set_strmap ko_TolerationMode_update)"
    "field_for kube_Output_fields ''tolerations'' =
       Some (set_map (dec_objs Toleration_fields zero_Toleration) ko_Tolerations_update)"
    "field_for kube_Output_fields ''affinity_mode'' = Some (set_strmap ko_AffinityMode_update)"
    "field_for kube_Output_fields ''affinities'' =
       Some (set_map (dec_obj Affinity_fields zero_Affinity) ko_Affinities_update)"
    by (simp_all add: field_for_exact kube_Output_fields_def)
  have ts: "dec_objs Toleration_fields zero_Toleration (enc_list Toleration_json ts) = Some ts" for ts
    using decode_objs_fresh [of ts Toleration_fields Toleration_json zero_Toleration "\<lambda>t. t"]
    by (simp add: dec_objs_def enc_list_def decode_Toleration)
  have aff: "\<forall>(k, a) \<in> set (entries (ko_Affinities ko)). dec_obj Affinity_fields zero_Affinity (Affinity_json a) = Some a"
    using assms by (auto simp: kube_Output_ok_def dec_obj_def decode_Affinity)
  show ?thesis
    using assms unfolding kube_Output_json_def kube_Output_ok_def
    by (simp add: decode_obj_obj [OF f(1) decode_kube_Config] decode_obj_object [OF f(2)] decode_obj_strmap [OF f(3)]
        decode_obj_map [OF f(4)] ts decode_obj_strmap [OF f(5)] decode_obj_map [OF f(6)] aff zero_kube_Output_def
        kube_norm_def)
qed


section \<open>Flink\<close>

lemma decode_Influx: "decode_obj Influx_fields (Influx_json i) zero_Influx = Ok i"
proof -
  have f: "field_for Influx_fields ''url'' = Some (set_str ifx_URL_update)"
    "field_for Influx_fields ''username'' = Some (set_str ifx_Username_update)"
    "field_for Influx_fields ''password'' = Some (set_str ifx_Password_update)"
    "field_for Influx_fields ''database_name'' = Some (set_str ifx_DatabaseName_update)"
    by (simp_all add: field_for_exact Influx_fields_def)
  have "decode_obj Influx_fields (JObj (omit_empty_str ''database_name'' d @ [])) x =
      Ok (if d = [] then x else x\<lparr>ifx_DatabaseName := d\<rparr>)" for d x
    by (subst decode_obj_omit [OF f(4)]) simp
  then show ?thesis
    by (simp add: Influx_json_def decode_obj_omit [OF f(1)] decode_obj_omit [OF f(2)] decode_obj_omit [OF f(3)]
        zero_Influx_def)
qed

lemma decode_flink_Config:
  "decode_obj flink_Config_fields (flink_Config_json c) zero_flink_Config = Ok c"
proof -
  have f: "field_for flink_Config_fields ''kube_namespace'' = Some (set_str flc_KubeNamespace_update)"
    "field_for flink_Config_fields ''influx'' = Some (set_obj Influx_fields flc_Influx flc_Influx_update)"
    "field_for flink_Config_fields ''sink_kafka_stream'' = Some (set_str flc_SinkKafkaStream_update)"
    "field_for flink_Config_fields ''prometheus_url'' = Some (set_str flc_PrometheusURL_update)"
    "field_for flink_Config_fields ''flink_name'' = Some (set_str flc_FlinkName_update)"
    "field_for flink_Config_fields ''extra_streams'' = Some (set_strs flc_ExtraStreams_update)"
    by (simp_all add: field_for_exact flink_Config_fields_def)
  have last: "decode_obj flink_Config_fields (JObj (omit_empty_list ''extra_streams'' JStr ss)) x =
      Ok (if ss = [] then x else x\<lparr>flc_ExtraStreams := ss\<rparr>)" for ss x
    using decode_obj_omit_strs [OF f(6), of ss "[]"] by simp
  show ?thesis
    by (simp add: flink_Config_json_def decode_obj_omit [OF f(1)] decode_obj_obj [OF f(2)] decode_Influx
        decode_obj_omit [OF f(3)] decode_obj_omit [OF f(4)] decode_obj_omit [OF f(5)] last zero_flink_Config_def)
qed

lemma decode_flink_Output:
  assumes "kube_Output_ok (flo_KubeCluster out)"
  shows "Unmarshal flink_Output_fields (raw_doc (flink_Output_json out)) zero_flink_Output =
    Ok (out\<lparr>flo_KubeCluster := kube_norm (flo_KubeCluster out)\<rparr>)"
proof -
  have f: "field_for flink_Output_fields ''kube_cluster'' =
      Some (set_obj kube_Output_fields flo_KubeCluster flo_KubeCluster_update)"
    "field_for flink_Output_fields ''kube_namespace'' = Some (set_str flo_KubeNamespace_update)"
    "field_for flink_Output_fields ''influx'' = Some (set_obj Influx_fields flo_Influx flo_Influx_update)"
    "field_for flink_Output_fields ''sink_kafka_stream'' = Some (set_str flo_SinkKafkaStream_update)"
    "field_for flink_Output_fields ''prometheus_url'' = Some (set_str flo_PrometheusURL_update)"
    "field_for flink_Output_fields ''flink_name'' = Some (set_str flo_FlinkName_update)"
    "field_for flink_Output_fields ''extra_streams'' = Some (set_strs flo_ExtraStreams_update)"
    by (simp_all add: field_for_exact flink_Output_fields_def)
  have last: "decode_obj flink_Output_fields (JObj (omit_empty_list ''extra_streams'' JStr ss)) x =
      Ok (if ss = [] then x else x\<lparr>flo_ExtraStreams := ss\<rparr>)" for ss x
    using decode_obj_omit_strs [OF f(7), of ss "[]"] by simp
  show ?thesis
    using assms
    by (simp add: Unmarshal_def flink_Output_json_def decode_obj_obj [OF f(1)] decode_kube_Output
        decode_obj_omit [OF f(2)] decode_obj_obj [OF f(3)] decode_Influx decode_obj_omit [OF f(4)]
        decode_obj_omit [OF f(5)] decode_obj_omit [OF f(6)] last zero_flink_Output_def)
qed

text \<open>Reading the completed configuration again changes nothing.\<close>

lemma or_text_again [simp]: "or_text (or_text a d) d = or_text a d"
  by (simp add: or_text_def)

lemma flink_readConfig_again:
  assumes "flink_readConfig raw dc = Ok conf"
  shows "flink_readConfig (raw_doc (flink_Config_json conf)) dc = Ok conf"
proof -
  obtain cfg where "Unmarshal flink_Config_fields raw zero_flink_Config = Ok cfg"
    using assms by (auto simp: flink_readConfig_def split: result.splits)
  with assms show ?thesis
    by (cases cfg) (auto simp: flink_readConfig_def Unmarshal_def decode_flink_Config)
qed

text \<open>The output of a configuration on a cluster.\<close>

definition flink_output_of :: "flink_Config \<Rightarrow> kube_Output \<Rightarrow> flink_Output" where
  "flink_output_of conf kubeOut =
     \<lparr>flo_KubeCluster = kubeOut, flo_KubeNamespace = flc_KubeNamespace conf, flo_Influx = flc_Influx conf,
      flo_SinkKafkaStream = flc_SinkKafkaStream conf, flo_PrometheusURL = flc_PrometheusURL conf,
      flo_FlinkName = flc_FlinkName conf, flo_ExtraStreams = flc_ExtraStreams conf\<rparr>"

lemma all_fields_set:
  "out\<lparr>flo_KubeCluster := kubeOut, flo_Influx := flc_Influx conf, flo_KubeNamespace := flc_KubeNamespace conf,
       flo_SinkKafkaStream := flc_SinkKafkaStream conf, flo_PrometheusURL := flc_PrometheusURL conf,
       flo_FlinkName := flc_FlinkName conf, flo_ExtraStreams := flc_ExtraStreams conf\<rparr> = flink_output_of conf kubeOut"
  by (cases out) (simp add: flink_output_of_def)

lemma flink_Output_op_Ok_iff:
  "flink_Output_op fd exr s = (Ok raw, t) \<longleftrightarrow>
     t = s \<and> (\<exists>out dc conf kubeOut. flink_readOutputData exr = Ok out \<and> flink_conf fd = Ok dc \<and>
       flink_readConfig (sp_Configs (res_Spec (er_Resource exr))) dc = Ok conf \<and> kube_dependency exr = Ok kubeOut \<and>
       raw = raw_doc (flink_Output_json (flink_output_of conf kubeOut)))"
  unfolding flink_Output_op_def all_fields_set
  by (auto simp: bindS_def catchS_def liftR_def ret_def fail_def split: result.splits)

lemma flink_Plan_Ok:
  assumes "flink_Plan fd res act s = (Ok p, t)"
  obtains dc conf kubeOut where "t = s" "flink_conf fd = Ok dc" "flink_readConfig (act_Params act) dc = Ok conf"
    "kube_dependency res = Ok kubeOut"
    "p = (er_Resource res)\<lparr>res_Spec := \<lparr>sp_Configs = raw_doc (flink_Config_json conf),
            sp_Dependencies = sp_Dependencies (res_Spec (er_Resource res))\<rparr>,
          res_State := zero_State\<lparr>st_Status := StatusCompleted,
            st_Output := raw_doc (flink_Output_json (flink_output_of conf kubeOut))\<rparr>\<rparr>"
proof -
  from assms obtain dc conf raw u where
    1: "flink_conf fd = Ok dc" "flink_readConfig (act_Params act) dc = Ok conf"
    and out: "flink_Output_op fd (res\<lparr>er_Resource := (er_Resource res)\<lparr>res_Spec :=
        \<lparr>sp_Configs = raw_doc (flink_Config_json conf), sp_Dependencies = sp_Dependencies (res_Spec (er_Resource res))\<rparr>\<rparr>\<rparr>) s
        = (Ok raw, u)"
    and p: "t = u" "p = (er_Resource res)\<lparr>res_Spec := \<lparr>sp_Configs = raw_doc (flink_Config_json conf),
            sp_Dependencies = sp_Dependencies (res_Spec (er_Resource res))\<rparr>,
          res_State := zero_State\<lparr>st_Status := StatusCompleted, st_Output := raw\<rparr>\<rparr>"
    unfolding flink_Plan_def Let_def bindS_Ok_iff liftR_def ret_def by (clarsimp simp del: bindS_Ok_iff)
  from out obtain kubeOut where "u = s" "kube_dependency res = Ok kubeOut"
    "raw = raw_doc (flink_Output_json (flink_output_of conf kubeOut))"
    unfolding flink_Output_op_Ok_iff using 1 flink_readConfig_again [OF 1(2)] by (auto simp: kube_dependency_def)
  with 1 p that show ?thesis by blast
qed


section \<open>Properties\<close>

text \<open>C21: What a Flink resource promises its dependents. A plan acts on nothing outside and completes the
  resource, keeping its dependencies. Whoever decodes the stored output gets the configuration that was
  planned, and a cluster with the connection and, key by key, the scheduling rules of the cluster the
  resource depends on; and computing the output again gives the stored one.\<close>

theorem flink_plan_read_back:
  assumes "flink_Plan fd res act s = (Ok p, t)"
  shows "t = s \<and> st_Status (res_State p) = StatusCompleted \<and>
    sp_Dependencies (res_Spec p) = sp_Dependencies (res_Spec (er_Resource res)) \<and>
    (\<exists>dc conf kubeOut out. flink_conf fd = Ok dc \<and> flink_readConfig (act_Params act) dc = Ok conf \<and>
       kube_dependency res = Ok kubeOut \<and>
       Unmarshal flink_Output_fields (st_Output (res_State p)) zero_flink_Output = Ok out \<and>
       out = flink_output_of conf (flo_KubeCluster out) \<and>
       ko_Configs (flo_KubeCluster out) = ko_Configs kubeOut \<and>
       (\<forall>k. lookup (ko_Tolerations (flo_KubeCluster out)) k = lookup (ko_Tolerations kubeOut) k \<and>
            lookup (ko_Affinities (flo_KubeCluster out)) k = lookup (ko_Affinities kubeOut) k)) \<and>
    flink_Output_op fd (res\<lparr>er_Resource := p\<rparr>) s = (Ok (st_Output (res_State p)), s)"
proof -
  obtain dc conf kubeOut where ts: "t = s" and dc: "flink_conf fd = Ok dc"
    and conf: "flink_readConfig (act_Params act) dc = Ok conf" and kube: "kube_dependency res = Ok kubeOut"
    and p: "p = (er_Resource res)\<lparr>res_Spec := \<lparr>sp_Configs = raw_doc (flink_Config_json conf),
            sp_Dependencies = sp_Dependencies (res_Spec (er_Resource res))\<rparr>,
          res_State := zero_State\<lparr>st_Status := StatusCompleted,
            st_Output := raw_doc (flink_Output_json (flink_output_of conf kubeOut))\<rparr>\<rparr>"
    using flink_Plan_Ok [OF assms] by metis
  let ?out = "flink_output_of conf (kube_norm kubeOut)"
  have ok: "kube_Output_ok kubeOut" using kube by (rule kube_dependency_ok)
  have dec: "Unmarshal flink_Output_fields (st_Output (res_State p)) zero_flink_Output = Ok ?out"
    using decode_flink_Output [of "flink_output_of conf kubeOut"] ok by (simp add: p flink_output_of_def)
  have again: "flink_Output_op fd (res\<lparr>er_Resource := p\<rparr>) s = (Ok (st_Output (res_State p)), s)"
    unfolding flink_Output_op_Ok_iff
    using dc flink_readConfig_again [OF conf] kube dec
    by (simp add: p flink_readOutputData_def kube_dependency_def)
  have rules: "lookup (ko_Tolerations (kube_norm kubeOut)) k = lookup (ko_Tolerations kubeOut) k"
    "lookup (ko_Affinities (kube_norm kubeOut)) k = lookup (ko_Affinities kubeOut) k" for k
    using ok by (simp_all add: kube_norm_def kube_Output_ok_def norm_map_lookup)
  have "flo_KubeCluster ?out = kube_norm kubeOut" "ko_Configs (kube_norm kubeOut) = ko_Configs kubeOut"
    by (simp_all add: flink_output_of_def kube_norm_def)
  with ts dc conf kube dec again rules show ?thesis
    by (intro conjI exI [of _ dc] exI [of _ conf] exI [of _ kubeOut] exI [of _ ?out] allI) (simp_all add: p)
qed

text \<open>The configuration of a Flink module has no effect. Whatever object an operator stores as the
  module's configuration, the factory builds the driver of the empty one: a plan whose parameters name
  no Flink cluster, namespace or Kafka stream gets none, although the module may configure them.\<close>

theorem flink_module_config_ignored:
  "desc_DriverFactory flink_Module (raw_doc (JObj kvs)) = desc_DriverFactory flink_Module (raw_doc (JObj []))"
proof -
  have "fold (set_member flinkDriver_fields) kvs st = st" for st
    by (induction kvs) (simp_all add: set_member_def field_for_def flinkDriver_fields_def)
  then show ?thesis by (simp add: flink_Module_def Unmarshal_def decode_obj_def)
qed

end
