(* ===== verification/Dagger_Laws.thy ===== *)
theory Dagger_Laws
  imports Dagger_Groups Names_Laws Flink_Laws Firehose_Laws
begin

text \<open>
  What the dagger module guarantees: of a configuration it accepts, of the resource an action plans, of
  the release it deploys, and of the syncs that carry an action out.
\<close>

section \<open>Reading a configuration\<close>

lemma set_ptr_Some: "set_ptr fs zero get upd j r = Some r' \<Longrightarrow> \<exists>b. r' = upd (\<lambda>_. b) r"
  by (auto simp: set_ptr_def split: if_splits result.splits)

lemma set_time_Some: "set_time pt upd j r = Some r' \<Longrightarrow> \<exists>t. r' = upd (\<lambda>_. t) r"
  by (auto simp: set_time_def split: json.splits)

lemma set_any_Some: "set_any upd j r = Some r' \<Longrightarrow> \<exists>v. r' = upd (\<lambda>_. v) r"
  by (auto simp: set_any_def)

lemma keeps_dg_Config: "keeps_inv (\<lambda>c. wf_map (dc_EnvVariables c)) (dg_Config_fields pt)"
  unfolding dg_Config_fields_def keeps_inv_Cons
  by (auto simp: wf_put_all_entries dest!: setter_Some set_ptr_Some set_time_Some set_any_Some) (auto simp: wf_map_def)

lemma dg_readConfig_Ok:
  assumes "dg_readConfig pt md5 v exr raw dc = Ok conf"
  obtains cfg dep source flinkOut given jobID where
    "dg_deployment_id md5 (er_Resource exr) (dc_DeploymentID cfg) = Ok dep"
    "read_sources (dd_EnvVariables dc) dep (dc_Source cfg) = Ok source" "flink_dependency exr = Ok flinkOut"
    "dc_EnvVariables cfg = Some given" "wf_map (Some given)" "v raw = Ok ()"
    "conf = dg_complete dc flinkOut (cfg\<lparr>dc_DeploymentID := dep, dc_Source := source,
       dc_Sink := complete_sink (dc_SinkType cfg) (flo_Influx flinkOut) (dd_EnvVariables dc) (dc_Sink cfg),
       dc_EnvVariables := dg_env (dd_EnvVariables dc) jobID (dc_SinkType cfg)
         (complete_sink (dc_SinkType cfg) (flo_Influx flinkOut) (dd_EnvVariables dc) (dc_Sink cfg)) given\<rparr>)"
proof -
  obtain cfg where cfg: "Unmarshal (dg_Config_fields pt) raw zero_dg_Config = Ok cfg"
    using assms unfolding dg_readConfig_def by (auto split: result.splits)
  have zero: "wf_map (dc_EnvVariables zero_dg_Config)"
    by (simp add: zero_dg_Config_def wf_map_def)
  have "wf_map (dc_EnvVariables cfg)"
    using cfg decode_obj_inv [OF keeps_dg_Config zero] by (auto simp: Unmarshal_def split: result.splits)
  with assms cfg that show thesis
    unfolding dg_readConfig_def Let_def by (auto split: result.splits option.splits)
qed

lemma map_of_remove_key: "map_of (remove_key k kvs) x = (if x = k then None else map_of kvs x)"
  by (induction kvs) (auto simp: remove_key_def)

lemma sink_env_type: "map_of (put_all (sink_env t s) m) keySinkType = Some t"
proof -
  have fresh: "map_of (put_all kvs m) keySinkType = map_of m keySinkType" if "keySinkType \<notin> fst ` set kvs" for kvs m
    using that by (induction kvs arbitrary: m) auto
  show ?thesis
    by (simp add: sink_env_def fresh kafka_env_def influx_env_def bigquery_env_def keySinkType_def)
qed

lemma dg_env_lookup:
  assumes "wf_map defaults" and "wf_map (Some given)"
  shows "lookup (dg_env defaults jobID t s given) keySinkType = Some t"
    "lookup (dg_env defaults jobID t s given) keyFlinkJobID = Some jobID"
    "lookup (dg_env defaults jobID t s given) cfgAutoOffsetReset = None"
    "lookup (dg_env defaults jobID t s given) cfgAutoCommitEnable = None"
proof -
  have "wf_map (Some (put_all (sink_env t s) given))"
    using assms(2) by (simp add: wf_map_def)
  then have "lookup (CloneAndMergeMaps defaults (Some (put_all (sink_env t s) given))) keySinkType = Some t"
    using assms(1) by (simp add: CloneAndMergeMaps_lookup) (simp add: lookup_def sink_env_type)
  then show "lookup (dg_env defaults jobID t s given) keySinkType = Some t"
    "lookup (dg_env defaults jobID t s given) keyFlinkJobID = Some jobID"
    "lookup (dg_env defaults jobID t s given) cfgAutoOffsetReset = None"
    "lookup (dg_env defaults jobID t s given) cfgAutoCommitEnable = None"
    by (simp_all add: dg_env_def Let_def lookup_def map_of_remove_key env_key_defs)
qed

lemma show_04d_nonempty [simp]: "show_04d i \<noteq> []"
  by (simp add: show_04d_def)

lemma incrementGroupId_nonempty [simp]: "incrementGroupId g i \<noteq> []"
  by (simp add: incrementGroupId_def Let_def case_prod_beta join_snoc)

lemma source_defaults_group [simp]: "sk_GroupID (source_defaults env k) = sk_GroupID k"
  by (simp add: source_defaults_def)

lemma name_groups_named: "s \<in> set (name_groups base env n ss) \<Longrightarrow> group_id s \<noteq> []"
  by (induction base env n ss rule: name_groups.induct) (auto split: if_splits)

lemma name_groups_hd: "ss \<noteq> [] \<Longrightarrow> is_parquet (hd (name_groups base env n ss)) = is_parquet (hd ss)"
  by (cases ss) (simp_all add: is_parquet_def)

lemma read_sources_Ok:
  assumes "read_sources env dep ss = Ok source"
  shows "source \<noteq> []" "\<not> is_parquet (hd source) \<Longrightarrow> s \<in> set source \<Longrightarrow> group_id s \<noteq> []"
proof -
  obtain x xs where ss: "ss = x # xs" using assms by (cases ss) (auto simp: read_sources_def)
  show "source \<noteq> []" using assms ss by (auto simp: read_sources_def split: if_splits)
  show "group_id s \<noteq> []" if "\<not> is_parquet (hd source)" "s \<in> set source"
    using assms that name_groups_named by (auto simp: read_sources_def ss split: if_splits)
qed

lemma dg_deployment_id_fits:
  "dg_deployment_id md5 r given = Ok dep \<Longrightarrow> hex_digest md5 \<Longrightarrow> length dep \<le> dg_helmReleaseNameMaxLength"
  using BuildResourceName_fits [of md5 "''dagger''" "res_Name r" "res_Project r" "int dg_helmReleaseNameMaxLength" dep]
  by (auto simp: dg_deployment_id_def dg_helmReleaseNameMaxLength_def split: if_splits)


text \<open>A configuration without sources brings the service down before the schema, which requires them, is
  consulted: reading it panics whatever the schema says.\<close>

theorem dg_no_source_panics:
  assumes "Unmarshal (dg_Config_fields pt) raw zero_dg_Config = Ok cfg" and "dc_Source cfg = []"
    and "dg_deployment_id md5 (er_Resource exr) (dc_DeploymentID cfg) = Ok dep"
  shows "dg_readConfig pt md5 v exr raw dc = Panic index_panic"
  using assms by (simp add: dg_readConfig_def read_sources_def)

text \<open>Two daggers of a project whose names differ only in case, or in hyphens, underscores and blanks, get the
  same deployment id, that is the same Helm release, unless the id is given.\<close>

theorem dagger_names_collide:
  assumes "slug (res_Name a) = slug (res_Name b)" and "res_Project a = res_Project b"
  shows "dg_deployment_id md5 a [] = dg_deployment_id md5 b []"
  using BuildResourceName_slug [OF assms(1)] assms(2) by (simp add: dg_deployment_id_def)


section \<open>The release\<close>

lemma put_env_Ok: "put_env k v m = Ok m' \<longleftrightarrow> (\<exists>kvs. m = Some kvs \<and> m' = Some (put k v kvs))"
  by (auto simp: put_env_def split: option.splits)

lemma dg_getHelmRelease_Ok:
  assumes "dg_getHelmRelease dd dc res conf kubeOut = Ok rc"
  obtains dl cv env name where "dc_ChartValues conf = Some cv" "dc_EnvVariables conf = Some env"
    "rc = (dgd_release_defaults dd)
       \<lparr>hr_Timeout := dd_KubeDeployTimeout dc, hr_Name := dc_DeploymentID conf,
        hr_Repository := dg_chartRepo, hr_Chart := dg_chartName, hr_Namespace := dc_Namespace conf,
        hr_ForceUpdate := True, hr_Version := dcv_ChartVersion cv,
        hr_Values := Some (dg_values dc res conf kubeOut (CloneAndMergeMaps dl (dg_entropyLabels conf)) cv name
          (EncodeToString (programArgs (dgd_print dd)
             (put keySinkType (ToLower (get_str (dc_EnvVariables conf) keySinkType)) env))))\<rparr>"
  using assms unfolding dg_getHelmRelease_def
  by (auto simp: put_env_Ok split: result.splits option.splits)

section \<open>Planning\<close>

lemma state_labels_Ok:
  "state_labels conf ls = Ok ls' \<Longrightarrow> lookup ls' labelJobState = Some (dc_JobState conf) \<and> lookup ls' labelState = Some (dc_State conf)"
  by (auto simp: state_labels_def put_env_Ok lookup_def labelJobState_def labelState_def split: result.splits)

lemma dg_planCreate_Ok:
  assumes "dg_planCreate dd exr act s = (Ok p, t)"
  obtains conf0 cv ls where "t = s" "dgd_ReadConfig dd exr (act_Params act) (dgd_conf dd) = Ok conf0"
    "state_labels (created_config (dgd_conf dd) cv conf0) (res_Labels (er_Resource exr)) = Ok ls"
    "p = res_labels_written ls act ((dg_with_config (er_Resource exr) ls (created_config (dgd_conf dd) cv conf0))
       \<lparr>res_State := pending (dgd_Now dd s)
          (raw_doc (dg_Output_json (zero_dg_Output\<lparr>do_Namespace := dc_Namespace conf0\<rparr>)))
          \<lparr>ftd_PendingSteps = [stepReleaseCreate], ftd_ResetOffsetTo = []\<rparr>\<rparr>)"
proof -
  have jar: "created_config ((dgd_conf dd)\<lparr>dd_ChartValues := cv\<rparr>) cv c = created_config (dgd_conf dd) cv c"
    "dc_Namespace (created_config d cv c) = dc_Namespace c" for cv c d
    by (simp_all add: created_config_def with_parallelism_def with_streams_def with_env_def)
  show thesis
    using assms that unfolding dg_planCreate_def Let_def jar
    by (elim bindS_Ok_E) (auto simp: liftR_def ret_def)
qed

lemma dg_planChange_Ok:
  assumes "dg_planChange dd exr act s = (Ok p, t)"
  obtains conf0 conf ls where "t = s"
    "dgd_ReadConfig dd exr (sp_Configs (res_Spec (er_Resource exr))) (dgd_conf dd) = Ok conf0"
    "dg_changed_config dd exr conf0 act = Ok conf"
    "state_labels conf (if act_Labels act \<noteq> None then act_Labels act else res_Labels (er_Resource exr)) = Ok ls"
    "p = (if act_Labels act \<noteq> None then act_labels_written exr act ls else res_labels_written ls act)
       ((dg_with_config (er_Resource exr) ls conf)
       \<lparr>res_State := pending (dgd_Now dd s) (st_Output (res_State (er_Resource exr)))
          \<lparr>ftd_PendingSteps = [stepReleaseUpdate], ftd_ResetOffsetTo = []\<rparr>\<rparr>)"
  using assms that unfolding dg_planChange_def Let_def
  by (elim bindS_Ok_E) (auto simp: liftR_def ret_def)

text \<open>The configuration a reset stores.\<close>

definition reset_conf :: "dg_driverConf \<Rightarrow> string \<Rightarrow> Source list \<Rightarrow> dg_Config \<Rightarrow> dg_Config" where
  "reset_conf dc resetValue source conf =
     (with_streams (conf\<lparr>dc_ResetOffset := resetValue, dc_Source := source\<rparr>))
       \<lparr>dc_ChartValues := Some (dd_ChartValues dc), dc_JarURI := dd_JarURI dc\<rparr>"

lemma dg_planReset_Ok:
  assumes "dg_planReset dd exr act s = (Ok p, t)"
  obtains resetValue conf0 conf1 source where "t = s" "ParseResetV2Params (act_Params act) = Ok resetValue"
    "dgd_ReadConfig dd exr (sp_Configs (res_Spec (er_Resource exr))) (dgd_conf dd) = Ok conf0"
    "updateStencilSchemaRegistryURLsParams conf0 act = Ok conf1"
    "dgd_consumerReset dd (conf1\<lparr>dc_ResetOffset := resetValue\<rparr>) resetValue = Ok source"
    "p = labels_unwritten exr act ((dg_with_config (er_Resource exr) (res_Labels (er_Resource exr)) (reset_conf (dgd_conf dd) resetValue source conf1))
       \<lparr>res_State := pending (dgd_Now dd s) (st_Output (res_State (er_Resource exr)))
          \<lparr>ftd_PendingSteps = [dg_stepKafkaReset], ftd_ResetOffsetTo = resetValue\<rparr>\<rparr>)"
  using assms that unfolding dg_planReset_def Let_def reset_conf_def
  by (elim bindS_Ok_E) (auto simp: liftR_def ret_def)

lemma stencil_Ok:
  "updateStencilSchemaRegistryURLsParams conf act = Ok conf' \<Longrightarrow> dc_DeploymentID conf' = dc_DeploymentID conf \<and>
     dc_Source conf' = dc_Source conf \<and> dc_State conf' = dc_State conf \<and> dc_JobState conf' = dc_JobState conf"
  by (auto simp: updateStencilSchemaRegistryURLsParams_def with_env_def split: if_splits result.splits)


lemma with_simps [simp]:
  "dc_DeploymentID (with_env k v c) = dc_DeploymentID c" "dc_Source (with_env k v c) = dc_Source c"
  "dc_State (with_env k v c) = dc_State c" "dc_JobState (with_env k v c) = dc_JobState c"
  "dc_Namespace (with_env k v c) = dc_Namespace c" "dc_Replicas (with_env k v c) = dc_Replicas c"
  "dc_StopTime (with_env k v c) = dc_StopTime c"
  by (simp_all add: with_env_def)

lemma lookup_with_env: "lookup (dc_EnvVariables (with_env k v c)) x = (if x = k then Some v else lookup (dc_EnvVariables c) x)"
  by (simp add: with_env_def lookup_def)

lemma dg_plan_update_Ok:
  assumes "dg_plan_update dd exr conf0 act = Ok conf"
  obtains new where "dgd_ReadConfig dd exr (act_Params act) (dgd_conf dd) = Ok new"
    "dc_DeploymentID conf = dc_DeploymentID conf0"
    "dc_Source conf = mergeConsumerGroupId (dc_Source conf0) (dc_Source new)"
    "dc_State conf = or_text (dc_State new) (dc_State conf0)"
    "dc_JobState conf = or_text (dc_JobState new) (dc_JobState conf0)"
    "lookup (dc_EnvVariables conf) keyStreams = Some (streams_text (dc_Source conf))"
proof -
  obtain new chartVals where new: "dgd_ReadConfig dd exr (act_Params act) (dgd_conf dd) = Ok new"
    and conf: "conf = (with_parallelism (with_streams
          (new\<lparr>dc_Source := mergeConsumerGroupId (dc_Source conf0) (dc_Source new)\<rparr>)))
        \<lparr>dc_JarURI := dd_JarURI (dgd_conf dd), dc_DeploymentID := dc_DeploymentID conf0, dc_ChartValues := chartVals,
         dc_State := or_text (dc_State new) (dc_State conf0),
         dc_JobState := or_text (dc_JobState new) (dc_JobState conf0),
         dc_Resources := mergeResources (dc_Resources conf0) (dc_Resources (with_parallelism (with_streams
           (new\<lparr>dc_Source := mergeConsumerGroupId (dc_Source conf0) (dc_Source new)\<rparr>))))\<rparr>"
    using assms unfolding dg_plan_update_def Let_def
    by (auto simp: with_parallelism_def with_streams_def split: result.splits)
  show thesis
    by (rule that [OF new])
      (simp_all add: conf with_parallelism_def with_streams_def lookup_with_env env_key_defs)
qed

text \<open>A source of the new configuration that reads the same stream as the one in its place keeps its group.\<close>

lemma merged_group:
  assumes "length cur = length new" and "i < length cur" and "\<not> is_parquet (cur ! i)"
    and "sk_Name (so_Kafka (cur ! i)) = sk_Name (so_Kafka (new ! i))"
  shows "group_id (mergeConsumerGroupId cur new ! i) = group_id (cur ! i)"
  using assms by (simp add: mergeConsumerGroupId_def)

lemma changed_deployment: "dg_changed_config dd exr conf0 act = Ok conf \<Longrightarrow> dc_DeploymentID conf = dc_DeploymentID conf0"
  by (auto simp: dg_changed_config_def dg_plan_stop_def dg_plan_start_def split: if_splits elim: dg_plan_update_Ok dest: stencil_Ok)

text \<open>C18: No action on an existing dagger moves it to another deployment, and an update leaves its consumers where
  they are: with as many sources as before, every source that names the Kafka stream of the one in its
  place, when that is not a Parquet source, keeps the group. An update that changes the number of sources
  takes their groups as given. The dependencies of the resource stay.\<close>

theorem dg_plan_keeps_deployment:
  assumes "dg_Plan dd exr act s = (Ok p, t)" and "act_Name act \<noteq> CreateAction"
  shows "\<exists>conf0 conf. dgd_ReadConfig dd exr (sp_Configs (res_Spec (er_Resource exr))) (dgd_conf dd) = Ok conf0 \<and>
    sp_Configs (res_Spec (pl_Resource p)) = raw_doc (dg_Config_json conf) \<and>
    sp_Dependencies (res_Spec (pl_Resource p)) = sp_Dependencies (res_Spec (er_Resource exr)) \<and>
    dc_DeploymentID conf = dc_DeploymentID conf0 \<and>
    (act_Name act = UpdateAction \<longrightarrow> length (dc_Source conf) = length (dc_Source conf0) \<longrightarrow>
       (\<forall>i < length (dc_Source conf0). \<not> is_parquet (dc_Source conf0 ! i) \<longrightarrow>
          sk_Name (so_Kafka (dc_Source conf ! i)) = sk_Name (so_Kafka (dc_Source conf0 ! i)) \<longrightarrow>
          group_id (dc_Source conf ! i) = group_id (dc_Source conf0 ! i)))"
proof (cases "act_Name act = ResetAction")
  case True
  then have "dg_planReset dd exr act s = (Ok p, t)" and "act_Name act \<noteq> UpdateAction"
    using assms by (simp_all add: dg_Plan_def fh_action_defs action_defs)
  then show ?thesis
  proof (elim dg_planReset_Ok)
    fix resetValue conf0 conf1 source
    assume read: "dgd_ReadConfig dd exr (sp_Configs (res_Spec (er_Resource exr))) (dgd_conf dd) = Ok conf0"
      and st: "updateStencilSchemaRegistryURLsParams conf0 act = Ok conf1" and other: "act_Name act \<noteq> UpdateAction"
      and p: "p = labels_unwritten exr act ((dg_with_config (er_Resource exr) (res_Labels (er_Resource exr)) (reset_conf (dgd_conf dd) resetValue source conf1))
       \<lparr>res_State := pending (dgd_Now dd s) (st_Output (res_State (er_Resource exr)))
          \<lparr>ftd_PendingSteps = [dg_stepKafkaReset], ftd_ResetOffsetTo = resetValue\<rparr>\<rparr>)"
    have "dc_DeploymentID (reset_conf (dgd_conf dd) resetValue source conf1) = dc_DeploymentID conf0"
      using stencil_Ok [OF st] by (simp add: reset_conf_def with_streams_def)
    with read other show ?thesis
      by (intro exI [of _ conf0] exI [of _ "reset_conf (dgd_conf dd) resetValue source conf1"])
        (simp add: p dg_with_config_def)
  qed
next
  case False
  then have "dg_planChange dd exr act s = (Ok p, t)" using assms by (simp add: dg_Plan_def)
  then show ?thesis
  proof (rule dg_planChange_Ok)
    fix conf0 conf ls
    assume read: "dgd_ReadConfig dd exr (sp_Configs (res_Spec (er_Resource exr))) (dgd_conf dd) = Ok conf0"
      and ch: "dg_changed_config dd exr conf0 act = Ok conf"
      and p: "p = (if act_Labels act \<noteq> None then act_labels_written exr act ls else res_labels_written ls act)
       ((dg_with_config (er_Resource exr) ls conf)
       \<lparr>res_State := pending (dgd_Now dd s) (st_Output (res_State (er_Resource exr)))
          \<lparr>ftd_PendingSteps = [stepReleaseUpdate], ftd_ResetOffsetTo = []\<rparr>\<rparr>)"
    have "group_id (dc_Source conf ! i) = group_id (dc_Source conf0 ! i)"
      if upd: "act_Name act = UpdateAction" and len: "length (dc_Source conf) = length (dc_Source conf0)"
        and i: "i < length (dc_Source conf0)" "\<not> is_parquet (dc_Source conf0 ! i)"
        and same: "sk_Name (so_Kafka (dc_Source conf ! i)) = sk_Name (so_Kafka (dc_Source conf0 ! i))" for i
    proof -
      have "dg_plan_update dd exr conf0 act = Ok conf" using ch upd by (simp add: dg_changed_config_def)
      then have "\<exists>new :: dg_Config. dc_Source conf = mergeConsumerGroupId (dc_Source conf0) (dc_Source new)"
        by (rule dg_plan_update_Ok) (rule exI, assumption)
      then obtain new :: dg_Config where src: "dc_Source conf = mergeConsumerGroupId (dc_Source conf0) (dc_Source new)" ..
      with len have "length (dc_Source conf0) = length (dc_Source new)"
        by (auto simp: mergeConsumerGroupId_def split: if_splits)
      moreover from this src i(1) same have "sk_Name (so_Kafka (dc_Source conf0 ! i)) = sk_Name (so_Kafka (dc_Source new ! i))"
        by (simp add: mergeConsumerGroupId_def split: if_splits)
      ultimately show ?thesis using merged_group i src by simp
    qed
    with read p changed_deployment [OF ch] show ?thesis
      by (intro exI [of _ conf0] exI [of _ conf]) (simp add: dg_with_config_def)
  qed
qed

text \<open>The program and the stored configuration agree on the streams. After a create, an update or a reset the
  variable \<open>STREAMS\<close> of the stored configuration is the JSON text of the very sources that are stored.\<close>

theorem dg_plan_streams:
  assumes "dg_Plan dd exr act s = (Ok p, t)" and "act_Name act \<in> {CreateAction, UpdateAction, ResetAction}"
  shows "\<exists>conf. sp_Configs (res_Spec (pl_Resource p)) = raw_doc (dg_Config_json conf) \<and>
    lookup (dc_EnvVariables conf) keyStreams = Some (streams_text (dc_Source conf))"
proof -
  have names: "UpdateAction \<noteq> CreateAction" "UpdateAction \<noteq> ResetAction" "ResetAction \<noteq> CreateAction"
    by (simp_all add: fh_action_defs action_defs)
  from assms(2) consider "act_Name act = CreateAction" | "act_Name act = UpdateAction" | "act_Name act = ResetAction" by blast
  then show ?thesis
  proof cases
    case 1
    then have "dg_planCreate dd exr act s = (Ok p, t)" using assms by (simp add: dg_Plan_def)
    then show ?thesis
      by (rule dg_planCreate_Ok)
        (auto simp: dg_with_config_def created_config_def with_parallelism_def with_streams_def lookup_with_env env_key_defs)
  next
    case 2
    then have "dg_planChange dd exr act s = (Ok p, t)" using assms names by (simp add: dg_Plan_def)
    then show ?thesis
      by (rule dg_planChange_Ok) (auto simp: dg_with_config_def dg_changed_config_def 2 elim: dg_plan_update_Ok)
  next
    case 3
    then have "dg_planReset dd exr act s = (Ok p, t)" using assms names by (simp add: dg_Plan_def)
    then show ?thesis
      by (rule dg_planReset_Ok) (auto simp: dg_with_config_def reset_conf_def with_streams_def lookup_with_env)
  qed
qed


section \<open>Syncing\<close>

text \<open>A sync with no pending steps.\<close>

definition dg_completes ::
    "'s daggerDriver \<Rightarrow> Resource \<Rightarrow> dg_Config \<Rightarrow> dg_Output \<Rightarrow> kube_Output \<Rightarrow> ('s, State) go" where
  "dg_completes dd r conf out kubeOut =
     bindS (dg_stop_if_due dd r conf kubeOut) (\<lambda>(conf', nextSync).
     bindS (dg_refreshOutput dd r conf' out kubeOut) (\<lambda>finalOut.
     ret (zero_State\<lparr>st_Status := StatusCompleted, st_NextSyncAt := nextSync, st_Output := finalOut\<rparr>)))"

lemma dg_release_state [simp]: "dg_getHelmRelease dd dc (r\<lparr>res_State := x\<rparr>) = dg_getHelmRelease dd dc r"
  by (intro ext) (simp add: dg_getHelmRelease_def dg_otherLabels_def dg_values_def cong: result.case_cong option.case_cong)

lemma dg_readConfig_state [simp]:
  "dg_readConfig pt md5 v (exr\<lparr>er_Resource := r\<lparr>res_State := x\<rparr>\<rparr>) = dg_readConfig pt md5 v (exr\<lparr>er_Resource := r\<rparr>)"
  by (intro ext)
    (simp add: dg_readConfig_def dg_deployment_id_def flink_dependency_def cong: result.case_cong option.case_cong if_cong)

lemma dg_releaseSync_state [simp]: "dg_releaseSync dd (r\<lparr>res_State := x\<rparr>) = dg_releaseSync dd r"
  by (intro ext) (simp add: dg_releaseSync_def)

lemma dg_step_state [simp]: "dg_step dd (r\<lparr>res_State := x\<rparr>) = dg_step dd r"
  by (intro ext) (simp add: dg_step_def)

lemma dg_completes_state [simp]: "dg_completes dd (r\<lparr>res_State := x\<rparr>) = dg_completes dd r"
proof -
  have "dg_stop_if_due dd (r\<lparr>res_State := x\<rparr>) = dg_stop_if_due dd r"
    by (intro ext) (simp add: dg_stop_if_due_def Let_def split: option.split)
  moreover have "dg_refreshOutput dd (r\<lparr>res_State := x\<rparr>) = dg_refreshOutput dd r"
    by (intro ext) (simp add: dg_refreshOutput_def)
  ultimately show ?thesis by (intro ext) (simp add: dg_completes_def)
qed

lemma dg_Sync_ready:
  assumes "dg_readTransientData exr = Ok td" and "dg_readOutputData (dgd_ParseTime dd) exr = Ok out"
    and "dgd_ReadConfig dd exr (sp_Configs (res_Spec (er_Resource exr))) (dgd_conf dd) = Ok conf"
    and "flink_dependency exr = Ok flinkOut"
  shows "dg_Sync dd exr =
    (case ftd_PendingSteps td of
       pendingStep # rest \<Rightarrow>
         bindS (dg_step dd (er_Resource exr) conf (flo_KubeCluster flinkOut) pendingStep) (\<lambda>_ s.
           (Ok (zero_State\<lparr>st_Status := StatusPending, st_Output := st_Output (res_State (er_Resource exr)),
                  st_NextSyncAt := Some (dgd_Now dd s),
                  st_ModuleData := raw_doc (transientData_json (td\<lparr>ftd_PendingSteps := rest\<rparr>))\<rparr>), s))
     | [] \<Rightarrow> dg_completes dd (er_Resource exr) conf out (flo_KubeCluster flinkOut))"
  using assms
  by (simp add: dg_Sync_def dg_completes_def Let_def zero_State_def split: list.split)

definition dg_ready ::
    "'s dg_params \<Rightarrow> dg_driverConf \<Rightarrow> ExpandedResource \<Rightarrow> string list \<Rightarrow>
     Resource \<times> dg_Config \<times> dg_Output \<times> flink_Output \<Rightarrow> bool" where
  "dg_ready env dc exr steps c \<longleftrightarrow>
     (case c of (r, conf, out, flinkOut) \<Rightarrow>
        (\<exists>st. er_Resource exr = r\<lparr>res_State := st\<rparr>) \<and>
        dgd_ReadConfig (dagger_driver env dc) exr (sp_Configs (res_Spec r)) dc = Ok conf \<and>
        (\<exists>v. dg_readTransientData exr = Ok \<lparr>ftd_PendingSteps = steps, ftd_ResetOffsetTo = v\<rparr>) \<and>
        dg_readOutputData (dgp_ParseTime env) exr = Ok out \<and> flink_dependency exr = Ok flinkOut)"

lemma dagger_driver_fields [simp]:
  "dgd_conf (dagger_driver env dc) = dc" "dgd_ParseTime (dagger_driver env dc) = dgp_ParseTime env"
  "dgd_ReadConfig (dagger_driver env dc) = dg_readConfig (dgp_ParseTime env) (dgp_md5 env) (dgp_validateConfig env)"
  "dgd_consumerReset (dagger_driver env dc) = dg_consumerReset"
  by (simp_all add: dagger_driver_def)

lemma dg_read_pending:
  "st_ModuleData (res_State (er_Resource exr)) = raw_doc (transientData_json td) \<Longrightarrow> dg_readTransientData exr = Ok td"
  by (simp add: dg_readTransientData_def fh_read_pending)

interpretation dg_machine: step_machine "dg_Sync (dagger_driver env dc)" "dg_ready env dc"
    "\<lambda>(r, conf, out, flinkOut). dg_step (dagger_driver env dc) r conf (flo_KubeCluster flinkOut)"
    "\<lambda>(r, conf, out, flinkOut). dg_completes (dagger_driver env dc) r conf out (flo_KubeCluster flinkOut)"
  for env :: "'s dg_params" and dc :: dg_driverConf
proof (unfold_locales, goal_cases)
  case (1 exr x xs c)
  let ?dd = "dagger_driver env dc"
  obtain r conf out flinkOut where c: "c = (r, conf, out, flinkOut)" by (cases c)
  obtain st v where er: "er_Resource exr = r\<lparr>res_State := st\<rparr>"
    and td: "dg_readTransientData exr = Ok \<lparr>ftd_PendingSteps = x # xs, ftd_ResetOffsetTo = v\<rparr>"
    and out: "dg_readOutputData (dgp_ParseTime env) exr = Ok out" and flink: "flink_dependency exr = Ok flinkOut"
    and conf: "dgd_ReadConfig ?dd exr (sp_Configs (res_Spec r)) dc = Ok conf"
    using 1 by (auto simp: dg_ready_def c)
  let ?next = "\<lambda>s. zero_State\<lparr>st_Status := StatusPending, st_Output := st_Output (res_State (er_Resource exr)),
                  st_NextSyncAt := Some (dgd_Now ?dd s),
                  st_ModuleData := raw_doc (transientData_json \<lparr>ftd_PendingSteps = xs, ftd_ResetOffsetTo = v\<rparr>)\<rparr>"
  have "dg_Sync ?dd exr = bindS (dg_step ?dd r conf (flo_KubeCluster flinkOut) x) (\<lambda>_ s. (Ok (?next s), s))"
    using dg_Sync_ready [OF td, of ?dd out conf flinkOut] out conf flink er by simp
  moreover have "dg_readOutputData (dgp_ParseTime env) (with_state exr (?next s)) = Ok out" for s
    using out unfolding dg_readOutputData_def by (auto split: if_splits result.splits)
  moreover have "flink_dependency (with_state exr (?next s)) = Ok flinkOut" for s
    using flink by (simp add: flink_dependency_def)
  moreover have "dgd_ReadConfig ?dd (with_state exr (?next s)) (sp_Configs (res_Spec r)) dc = Ok conf" for s
    using conf dg_readConfig_state [where exr = exr and r = "er_Resource exr" and x = "?next s"] by simp
  ultimately show ?case
    using er dg_read_pending
    by (intro exI [of _ ?next]) (auto simp: dg_ready_def c)
next
  case (2 exr c)
  obtain r conf out flinkOut where c: "c = (r, conf, out, flinkOut)" by (cases c)
  from 2 obtain v where "dg_readTransientData exr = Ok \<lparr>ftd_PendingSteps = [], ftd_ResetOffsetTo = v\<rparr>"
    by (auto simp: dg_ready_def c)
  from dg_Sync_ready [OF this, of "dagger_driver env dc" out conf flinkOut] 2 show ?case
    by (auto simp: dg_ready_def c)
qed

text \<open>The one step an action plans.\<close>

definition dg_planned :: "ActionRequest \<Rightarrow> string" where
  "dg_planned act =
     (if act_Name act = CreateAction then stepReleaseCreate
      else if act_Name act = ResetAction then dg_stepKafkaReset else stepReleaseUpdate)"

lemma dg_planned_data:
  assumes "dg_Plan dd exr act s = (Ok p, t)"
  shows "\<exists>v. st_ModuleData (res_State (pl_Resource p)) = raw_doc (transientData_json \<lparr>ftd_PendingSteps = [dg_planned act], ftd_ResetOffsetTo = v\<rparr>)"
proof -
  consider (create) "act_Name act = CreateAction" "dg_planCreate dd exr act s = (Ok p, t)"
    | (reset) "act_Name act \<noteq> CreateAction" "act_Name act = ResetAction" "dg_planReset dd exr act s = (Ok p, t)"
    | (change) "act_Name act \<noteq> CreateAction" "act_Name act \<noteq> ResetAction" "dg_planChange dd exr act s = (Ok p, t)"
    using assms unfolding dg_Plan_def by (auto split: if_splits)
  then show ?thesis
  proof cases
    case create
    from create(2) show ?thesis by (rule dg_planCreate_Ok) (simp add: pending_def dg_planned_def create(1), blast)
  next
    case reset
    from reset(3) show ?thesis by (rule dg_planReset_Ok) (use reset(1,2) in \<open>auto simp: pending_def dg_planned_def\<close>)
  next
    case change
    from change(3) show ?thesis by (rule dg_planChange_Ok) (simp add: pending_def dg_planned_def change(1,2), blast)
  qed
qed

lemma dg_planned_known:
  "dg_step dd r conf kubeOut (dg_planned act) = dg_releaseSync dd r (act_Name act = CreateAction) conf kubeOut"
proof -
  have "dg_planned act \<in> {stepReleaseCreate, stepReleaseUpdate, stepReleaseStop, dg_stepKafkaReset}"
    by (simp add: dg_planned_def)
  moreover have "dg_planned act = stepReleaseCreate \<longleftrightarrow> act_Name act = CreateAction"
    by (simp add: dg_planned_def step_defs dg_stepKafkaReset_def)
  ultimately show ?thesis unfolding dg_step_def by simp
qed

text \<open>C16: A planned action on a dagger is carried out. When an action was planned and the configuration, the output
  and the dependency of the planned resource can be read, two syncs deploy the release of the planned
  configuration once and then check the stop time, refresh the output and complete; a deployment that
  fails ends the run with its error and stays pending.\<close>

theorem dg_action_runs:
  assumes "dg_Plan (dagger_driver env dc) exr act s = (Ok pl, t)" and "p = pl_Resource pl"
    and "dg_readConfig (dgp_ParseTime env) (dgp_md5 env) (dgp_validateConfig env) (exr\<lparr>er_Resource := p\<rparr>)
           (sp_Configs (res_Spec p)) dc = Ok conf"
    and "dg_readOutputData (dgp_ParseTime env) (exr\<lparr>er_Resource := p\<rparr>) = Ok out" and "flink_dependency exr = Ok flinkOut"
  shows "syncs 2 (dg_Sync (dagger_driver env dc)) (exr\<lparr>er_Resource := p\<rparr>) =
    bindS (dg_releaseSync (dagger_driver env dc) p (act_Name act = CreateAction) conf (flo_KubeCluster flinkOut)) (\<lambda>_.
    dg_completes (dagger_driver env dc) p conf out (flo_KubeCluster flinkOut))"
proof -
  obtain v where data: "st_ModuleData (res_State p) =
      raw_doc (transientData_json \<lparr>ftd_PendingSteps = [dg_planned act], ftd_ResetOffsetTo = v\<rparr>)"
    using dg_planned_data [OF assms(1)] unfolding assms(2) by blast
  have "\<exists>st. p = p\<lparr>res_State := st\<rparr>"
    by (intro exI [of _ "res_State p"]) simp
  then have "dg_ready env dc (exr\<lparr>er_Resource := p\<rparr>) [dg_planned act] (p, conf, out, flinkOut)"
    using dg_read_pending [of "exr\<lparr>er_Resource := p\<rparr>"] data assms(3-)
    by (simp add: dg_ready_def flink_dependency_def)
  from dg_machine.syncs_run [OF this] show ?thesis
    by (simp add: dg_planned_known bindS_assoc numeral_2_eq_2)
qed

section \<open>Output\<close>

text \<open>The time of an exception is the millisecond the Flink server reports, before the epoch too.\<close>

lemma unix_millis_exact: "unix_millis ts = ts * 1000000"
proof -
  have "ts sdiv 1000 * 1000 + ts smod 1000 = ts"
    by (rule sdiv_mult_smod_eq)
  then show ?thesis unfolding unix_millis_def by (simp add: algebra_simps)
qed

text \<open>A cluster that cannot be read does not fail a dagger. When the pods or the Flink deployment cannot be
  fetched, the output is refreshed without an error to one that holds the text of the error and nothing
  else: a sync completes the resource with it, and what the output said before is gone.\<close>

theorem dg_output_hides_failure:
  assumes "dg_getHelmRelease dd (dgd_conf dd) r conf kubeOut = Ok rc"
    and "getKubeResources dd (ko_Configs kubeOut) (hr_Namespace rc) (hr_Name rc) (dc_DeploymentID conf) s = (Err e, t)"
    and "dc_StopTime conf = None"
  shows "dg_completes dd r conf out kubeOut s =
    (Ok (zero_State\<lparr>st_Status := StatusCompleted,
           st_Output := raw_doc (dg_Output_json (zero_dg_Output\<lparr>do_Error := error_text e\<rparr>))\<rparr>), t)"
  using assms
  by (simp add: dg_completes_def dg_stop_if_due_def dg_refreshOutput_def bindS_def catchS_def liftR_def ret_def
      zero_State_def)

end
