(* ===== verification/Dagger_Ok.thy ===== *)
theory Dagger_Ok
  imports Firehose_Ok Dagger_Laws
begin

text \<open>
  The Flink and the dagger module are good modules; with them, the registry the program sets up satisfies
  the laws the service is verified against.
\<close>

section \<open>Flink\<close>

lemma flink_no_overflow:
  "flink_readConfig raw dc \<noteq> Overflow" "flink_readOutputData exr \<noteq> Overflow" "flink_conf fd \<noteq> Overflow"
  by (auto simp: flink_readConfig_def flink_readOutputData_def flink_conf_def Unmarshal_no_overflow
      split: result.splits option.splits)

lemma outside_flink_Output: "outside_only (flink_Output_op fd exr)"
  unfolding flink_Output_op_def
  by (intro outside_bindS outside_catchS outside_liftR flink_no_overflow decoded_no_overflow outside_ret outside_fail)
    (simp add: outside_fail)

lemma flink_Module_ok: "descriptor_ok flink_Module"
proof -
  have "driver_ok desc (flink_driver fd)" for desc fd
  proof (rule driver_okI)
    fix res act s p t
    show "outside_only (dr_Plan (flink_driver fd) res act)"
      unfolding flink_driver_def Driver.simps flink_Plan_def [abs_def] Let_def
      by (intro outside_plan_only outside_bindS outside_liftR flink_no_overflow outside_flink_Output outside_ret)
    show "same_identity (pl_Resource p) (er_Resource res)" if "dr_Plan (flink_driver fd) res act s = (Ok p, t)"
      using that by (auto simp: flink_driver_def plan_only_Ok same_identity_def elim: flink_Plan_Ok)
  qed (simp_all add: flink_driver_def flink_Sync_def outside_ret outside_flink_Output)
  then show ?thesis
    by (auto simp: descriptor_ok_def flink_Module_def plain_action_def Unmarshal_no_overflow split: result.splits)
qed

section \<open>Daggers\<close>

definition dg_params_ok :: "'x world dg_params \<Rightarrow> bool" where
  "dg_params_ok env \<longleftrightarrow>
     api_ok (dgp_kube env) \<and> helm_ok (dgp_helm env) \<and> engine_ok (dgp_engine env) \<and>
     (\<forall>j. dgp_validateConfig env j \<noteq> Overflow)"

lemma flink_dependency_no_overflow: "flink_dependency exr \<noteq> Overflow"
  by (simp add: flink_dependency_def Unmarshal_no_overflow)

lemma dg_readConfig_no_overflow:
  assumes "\<And>j. v j \<noteq> Overflow"
  shows "dg_readConfig pt md5 v exr raw dc \<noteq> Overflow"
proof -
  have "dg_deployment_id md5 r given \<noteq> Overflow" for r given
    by (auto simp: dg_deployment_id_def BuildResourceName_no_overflow)
  moreover have "read_sources env dep ss \<noteq> Overflow" for env dep ss
    by (auto simp: read_sources_def split: list.split)
  ultimately show ?thesis
    using assms
    by (auto simp: dg_readConfig_def Let_def Unmarshal_no_overflow flink_dependency_no_overflow
        BuildResourceName_no_overflow split: result.splits option.splits)
qed

lemma dg_release_no_overflow: "engine_ok (dgd_engine dd) \<Longrightarrow> dg_getHelmRelease dd dc r conf ko \<noteq> Overflow"
  by (auto simp: dg_getHelmRelease_def dg_renderTpl_def renderTpl_no_overflow put_env_def BuildResourceName_no_overflow
      split: result.splits option.splits)

lemma dg_decoded_no_overflow:
  "dg_readTransientData exr \<noteq> Overflow" "dg_readOutputData pt exr \<noteq> Overflow"
  by (auto simp: dg_readTransientData_def dg_readOutputData_def fh_decoded_no_overflow Unmarshal_no_overflow
      split: result.splits)

lemma dg_merge_no_overflow: "dg_mergeChartValues cur new \<noteq> Overflow"
  by (auto simp: dg_mergeChartValues_def split: option.splits)

lemma stencil_no_overflow: "updateStencilSchemaRegistryURLsParams conf act \<noteq> Overflow"
  by (auto simp: updateStencilSchemaRegistryURLsParams_def Unmarshal_no_overflow split: result.splits)

lemma state_labels_no_overflow: "state_labels conf ls \<noteq> Overflow"
  by (auto simp: state_labels_def put_env_def split: option.splits)

lemma dg_validate_no_overflow:
  "engine_ok (dgd_engine dd) \<Longrightarrow> dg_validateHelmReleaseConfigs dd dc exr r conf \<noteq> Overflow"
  by (auto simp: dg_validateHelmReleaseConfigs_def flink_dependency_no_overflow dg_release_no_overflow split: result.splits)

lemma outside_dg_Plan:
  assumes "dg_params_ok env"
  shows "outside_only (dg_Plan (dagger_driver env dc) exr act)"
proof -
  let ?dd = "dagger_driver env dc"
  have v: "\<And>j. dgp_validateConfig env j \<noteq> Overflow" and e: "engine_ok (dgd_engine ?dd)"
    using assms by (simp_all add: dg_params_ok_def dagger_driver_def)
  note [simp] = dg_readConfig_no_overflow [OF v] dg_validate_no_overflow [OF e] ParseReset_no_overflow
    dg_merge_no_overflow stencil_no_overflow state_labels_no_overflow
  have [simp]: "dg_changed_config ?dd exr conf act \<noteq> Overflow" for conf
    by (auto simp: dg_changed_config_def dg_plan_update_def dg_plan_start_def Let_def split: result.splits)
  have [simp]: "dg_consumerReset conf to \<noteq> Overflow" for conf to
    by (auto simp: dg_consumerReset_def split: list.splits)
  have "stays (dg_planCreate ?dd exr act)" "stays (dg_planReset ?dd exr act)" "stays (dg_planChange ?dd exr act)"
    unfolding dg_planCreate_def dg_planReset_def dg_planChange_def Let_def
    by (simp_all add: stays_def run_liftR ret_def fail_def split: result.split)
  then show ?thesis by (auto simp: dg_Plan_def intro: stays_outside)
qed

lemma outside_GetCRD: "api_ok api \<Longrightarrow> outside_only (GetCRDDetails api c ns name)"
  unfolding GetCRDDetails_def by (auto simp: api_ok_def intro!: outside_catchS outside_ret outside_fail)

lemma outside_ProxyService: "api_ok api \<Longrightarrow> outside_only (ProxyService api c ns sc n p path)"
  unfolding ProxyService_def by (auto simp: api_ok_def intro!: outside_bindS outside_catchS outside_ret outside_fail)

lemma parse_status_no_overflow: "parseFlinkCRDStatus j \<noteq> Overflow"
  by (auto simp: parseFlinkCRDStatus_def split: json.splits option.splits)

lemma outside_dg_driver:
  assumes "dg_params_ok env"
  shows "outside_only (dg_releaseSync (dagger_driver env dc) r c conf ko)"
    "outside_only (dg_refreshOutput (dagger_driver env dc) r conf out ko)"
    "outside_only (dg_step (dagger_driver env dc) r conf ko stp)"
    "outside_only (dg_stop_if_due (dagger_driver env dc) r conf ko)"
proof -
  let ?dd = "dagger_driver env dc"
  have api: "api_ok (dgp_kube env)" and hm: "helm_ok (dgp_helm env)" and e: "engine_ok (dgd_engine ?dd)"
    using assms by (simp_all add: dg_params_ok_def dagger_driver_def)
  have deploy: "outside_only (dgd_kubeDeploy ?dd b kc rc)" for b kc rc
    unfolding dagger_driver_def daggerDriver.simps dg_kubeDeploy_def by (intro outside_bindS outside_Upsert outside_ret hm)
  have pods: "outside_only (dgd_kubeGetPod ?dd kc ns ls)" for kc ns ls
    unfolding dagger_driver_def daggerDriver.simps dg_kubeGetPod_def
    by (intro outside_catchS outside_NewClient outside_GetPodDetails outside_fail api)
  have crd: "outside_only (dgd_kubeGetCRD ?dd kc ns n)" for kc ns n
    unfolding dagger_driver_def daggerDriver.simps dg_kubeGetCRD_def
    by (intro outside_catchS outside_bindS outside_NewClient outside_GetCRD outside_liftR outside_fail api
        parse_status_no_overflow)
  have proxy: "outside_only (dgd_kubeProxyService ?dd kc ns sc n port path)" for kc ns sc n port path
    unfolding dagger_driver_def daggerDriver.simps dg_kubeProxyService_def
    by (intro outside_catchS outside_NewClient outside_ProxyService outside_fail api)
  have rel: "outside_only (dg_releaseSync ?dd r c conf ko)" for r c conf ko
    unfolding dg_releaseSync_def
    by (intro outside_bindS outside_liftR dg_release_no_overflow e outside_as_internal deploy)
  then show "outside_only (dg_releaseSync ?dd r c conf ko)" .
  have res: "outside_only (getKubeResources ?dd kc ns n dep)" for kc ns n dep
    unfolding getKubeResources_def by (intro outside_bindS pods crd outside_ret)
  have exc: "outside_only (getFlinkExceptions ?dd kc ns n)" for kc ns n
    unfolding getFlinkExceptions_def
    by (intro outside_bindS outside_catchS outside_liftR proxy outside_fail Unmarshal_no_overflow)
      (auto intro!: outside_bindS outside_catchS outside_liftR proxy outside_fail outside_ret Unmarshal_no_overflow
        split: list.split)
  have we: "outside_only (with_exception ?dd o' x)" for o' x
    by (auto simp: with_exception_def outside_ret outside_panicS split: option.split)
  show "outside_only (dg_refreshOutput ?dd r conf out ko)"
    unfolding dg_refreshOutput_def Let_def
    by (intro outside_bindS outside_liftR dg_release_no_overflow e outside_catchS res outside_ret)
      (auto intro!: outside_catchS exc we outside_ret split: prod.split)
  show "outside_only (dg_step ?dd r conf ko stp)"
    by (simp add: dg_step_def rel outside_fail)
  have "outside_only (bindS (dg_releaseSync ?dd r False c ko) (\<lambda>_. ret (c, None)))" for c
    by (intro outside_bindS rel outside_ret)
  then show "outside_only (dg_stop_if_due ?dd r conf ko)"
    unfolding dg_stop_if_due_def outside_only_def Let_def by (auto simp: ret_def split: option.split)
qed

lemma outside_dg_Sync:
  assumes "dg_params_ok env"
  shows "outside_only (dg_Sync (dagger_driver env dc) exr)"
proof -
  have v: "\<And>j. dgp_validateConfig env j \<noteq> Overflow"
    using assms by (simp add: dg_params_ok_def)
  show ?thesis
    unfolding dg_Sync_def Let_def dagger_driver_fields
    by (intro outside_bindS outside_catchS outside_as_internal outside_liftR dg_decoded_no_overflow
        flink_dependency_no_overflow dg_readConfig_no_overflow [OF v] outside_fail)
      (auto intro!: outside_bindS outside_dg_driver assms outside_state outside_ret split: list.split)
qed

lemma dagger_driver_ok:
  assumes "dg_params_ok env"
  shows "driver_ok desc (dagger_module_driver (dagger_driver env dc))"
proof (rule driver_okI)
  let ?dd = "dagger_driver env dc"
  have v: "\<And>j. dgp_validateConfig env j \<noteq> Overflow" and api: "api_ok (dgp_kube env)"
    using assms by (simp_all add: dg_params_ok_def)
  note read = dg_readConfig_no_overflow [OF v]
  fix res act
  show "outside_only (dr_Plan (dagger_module_driver ?dd) res act)"
    "outside_only (dr_Sync (dagger_module_driver ?dd) res)"
    by (simp_all add: dagger_module_driver_def outside_dg_Plan outside_dg_Sync assms)
  show "outside_only (dr_Output (dagger_module_driver ?dd) res)"
    unfolding dagger_module_driver_def Driver.simps dg_Output_op_def dagger_driver_fields
    by (intro outside_bindS outside_catchS outside_as_internal outside_liftR dg_decoded_no_overflow
        flink_dependency_no_overflow read outside_fail outside_dg_driver assms)
  have stream: "outside_only (dgd_StreamLogs ?dd kc ns f)" for kc ns f
    by (simp add: dagger_driver_def outside_fh_StreamLogs api)
  show "outside_only (lg res filt)" if "dr_Log (dagger_module_driver ?dd) = Some lg" for lg filt
    using that
    by (auto simp: dagger_module_driver_def dg_Log_def Let_def read flink_dependency_no_overflow
        intro!: outside_bindS outside_catchS outside_as_internal outside_liftR outside_fail stream)
  show "same_identity (pl_Resource p) (er_Resource res)"
    if plan: "dr_Plan (dagger_module_driver ?dd) res act s = (Ok p, t)" for s p t
  proof -
    have "dg_planCreate ?dd res act s = (Ok p, t) \<or> dg_planReset ?dd res act s = (Ok p, t) \<or>
        dg_planChange ?dd res act s = (Ok p, t)"
      using plan by (auto simp: dagger_module_driver_def dg_Plan_def split: if_splits)
    then show ?thesis
      by (elim disjE dg_planCreate_Ok dg_planReset_Ok dg_planChange_Ok)
        (simp_all add: same_identity_def dg_with_config_def split: if_splits)
  qed
qed

lemma dagger_Module_ok:
  assumes "dg_params_ok env"
  shows "descriptor_ok (dagger_Module env validate shared)"
proof -
  have "dg_driver_conf validate shared conf \<noteq> Overflow" for conf
    by (auto simp: dg_driver_conf_def Unmarshal_no_overflow TaggedStruct_no_overflow split: result.splits)
  then show ?thesis
    using dagger_driver_ok [OF assms]
    by (auto simp: descriptor_ok_def dagger_Module_def described_action_def plain_action_def split: result.splits)
qed

section \<open>The labels of a dagger\<close>

lemma state_labels_wf:
  assumes "wf_map ls" and "state_labels conf ls = Ok ls'"
  shows "wf_map ls' \<and> get_str ls' labelJobState = dc_JobState conf \<and> get_str ls' labelState = dc_State conf"
proof -
  have "wf_map ls'"
    using assms by (auto simp: state_labels_def put_env_Ok wf_map_def intro!: distinct_put split: result.splits)
  with state_labels_Ok [OF assms(2)] show ?thesis by (simp add: get_str_def)
qed

lemma merged_states:
  assumes "wf_map ls" and "wf_map act" and "state_labels conf ls = Ok ls'"
    and "(m1, m2) \<in> {(ls', ls'), (ls', None), (act, ls')}"
  shows "get_str (mergeLabels m1 m2) labelJobState = dc_JobState conf \<and> get_str (mergeLabels m1 m2) labelState = dc_State conf"
proof -
  note st = state_labels_wf [OF assms(1,3)] state_labels_Ok [OF assms(3)]
  have wf: "wf_map m1" "wf_map m2" using assms(2,4) st by (auto simp: wf_map_def)
  have "get_str (mergeLabels m1 m2) k = v" if "get_str ls' k = v" "lookup ls' k = Some v" for k v
    using assms(4) that mergeLabels_correct [OF wf]
    by (auto simp: get_str_def Let_def lookup_def split: option.splits if_splits)
  with st show ?thesis by blast
qed

text \<open>C17: The labels that are stored for a dagger say what state its configuration has. Planning a create, an
  update, a stop or a start writes the state and the job state of the planned configuration into the label
  map of the resource or of the request, and the labels that the service then merges from these two maps
  show exactly these states, whatever the user's labels say under these two names. A stop gives
  user-stopped and suspended, a start deployed and running, and a create gives states that are not
  empty. For a create this needs the request to share its label map with the resource, as
  \<open>CreateResource\<close> makes it.\<close>

theorem dg_plan_states:
  assumes "dg_Plan dd exr act s = (Ok pl, t)" and "act_Name act \<noteq> ResetAction"
    and "wf_map (res_Labels (er_Resource exr))" and "wf_map (act_Labels act)"
    and "if act_Name act = CreateAction
         then act_LabelsShared act \<and> act_Labels act = res_Labels (er_Resource exr) else \<not> act_LabelsShared act"
  shows "t = s \<and> (\<exists>conf. sp_Configs (res_Spec (pl_Resource pl)) = raw_doc (dg_Config_json conf) \<and>
    get_str (mergeLabels (pl_ResLabels pl) (pl_ActLabels pl)) labelJobState = dc_JobState conf \<and>
    get_str (mergeLabels (pl_ResLabels pl) (pl_ActLabels pl)) labelState = dc_State conf \<and>
    (act_Name act = CreateAction \<longrightarrow> dc_State conf \<noteq> [] \<and> dc_JobState conf \<noteq> []) \<and>
    (act_Name act = StopAction \<longrightarrow> dc_State conf = StateUserStopped \<and> dc_JobState conf = JobStateSuspended) \<and>
    (act_Name act = fh_StartAction \<longrightarrow> dc_State conf = StateDeployed \<and> dc_JobState conf = JobStateRunning))"
proof (cases "act_Name act = CreateAction")
  case True
  then have plan: "dg_planCreate dd exr act s = (Ok pl, t)" using assms by (simp add: dg_Plan_def)
  have names: "act_Name act \<noteq> StopAction" "act_Name act \<noteq> fh_StartAction"
    using True by (simp_all add: fh_action_defs action_defs)
  have set: "dc_State (created_config dc cv c) \<noteq> []" "dc_JobState (created_config dc cv c) \<noteq> []" for dc cv c
    by (simp_all add: created_config_def or_text_def dg_state_defs)
  from plan show ?thesis
  proof (rule dg_planCreate_Ok)
    fix conf0 cv ls
    assume "t = s" and ls: "state_labels (created_config (dgd_conf dd) cv conf0) (res_Labels (er_Resource exr)) = Ok ls"
      and pl: "pl = res_labels_written ls act ((dg_with_config (er_Resource exr) ls (created_config (dgd_conf dd) cv conf0))
       \<lparr>res_State := pending (dgd_Now dd s)
          (raw_doc (dg_Output_json (zero_dg_Output\<lparr>do_Namespace := dc_Namespace conf0\<rparr>)))
          \<lparr>ftd_PendingSteps = [stepReleaseCreate], ftd_ResetOffsetTo = []\<rparr>\<rparr>)"
    have maps: "pl_ResLabels pl = ls" "pl_ActLabels pl = ls"
      using assms(5) True by (simp_all add: pl res_labels_written_def)
    from merged_states [OF assms(3,3) ls, of ls ls] \<open>t = s\<close> names set show ?thesis
      unfolding maps by (intro conjI exI [of _ "created_config (dgd_conf dd) cv conf0"]) (simp_all add: pl dg_with_config_def)
  qed
next
  case False
  then have plan: "dg_planChange dd exr act s = (Ok pl, t)" using assms by (simp add: dg_Plan_def)
  have names: "StopAction \<noteq> UpdateAction" "fh_StartAction \<noteq> UpdateAction" "StopAction \<noteq> fh_StartAction"
    by (simp_all add: fh_action_defs action_defs)
  from plan show ?thesis
  proof (rule dg_planChange_Ok)
    fix conf0 conf ls
    assume "t = s" and ch: "dg_changed_config dd exr conf0 act = Ok conf"
      and ls: "state_labels conf (if act_Labels act \<noteq> None then act_Labels act else res_Labels (er_Resource exr)) = Ok ls"
      and pl: "pl = (if act_Labels act \<noteq> None then act_labels_written exr act ls else res_labels_written ls act)
       ((dg_with_config (er_Resource exr) ls conf)
       \<lparr>res_State := pending (dgd_Now dd s) (st_Output (res_State (er_Resource exr)))
          \<lparr>ftd_PendingSteps = [stepReleaseUpdate], ftd_ResetOffsetTo = []\<rparr>\<rparr>)"
    have "act_Name act = StopAction \<longrightarrow> dc_State conf = StateUserStopped \<and> dc_JobState conf = JobStateSuspended"
      using ch names by (auto simp: dg_changed_config_def dg_plan_stop_def)
    moreover have "act_Name act = fh_StartAction \<longrightarrow> dc_State conf = StateDeployed \<and> dc_JobState conf = JobStateRunning"
      using ch names by (auto simp: dg_changed_config_def dg_plan_start_def dest!: stencil_Ok)
    moreover have "(pl_ResLabels pl, pl_ActLabels pl) \<in> {(ls, ls), (ls, None), (res_Labels (er_Resource exr), ls)}"
      using assms(5) False by (auto simp: pl labels_written_defs)
    then have "get_str (mergeLabels (pl_ResLabels pl) (pl_ActLabels pl)) labelJobState = dc_JobState conf \<and>
        get_str (mergeLabels (pl_ResLabels pl) (pl_ActLabels pl)) labelState = dc_State conf"
      by (intro merged_states [OF _ assms(3) ls]) (use assms(3,4) in auto)
    ultimately show ?thesis
      using \<open>t = s\<close> False by (intro conjI exI [of _ conf]) (simp_all add: pl dg_with_config_def)
  qed
qed

end
