(* ===== verification/Gateway.thy ===== *)
theory Gateway
  imports Api_Server
begin

text \<open>
  The REST side of the API: the generated gateway of \<open>proto\<close> (\<open>resource.pb.gw.go\<close>, \<open>module.pb.gw.go\<close>,
  \<open>service.pb.gw.go\<close>), the version service of \<open>pkg/common\<close> and \<open>pkg/version\<close>, and how \<open>Serve\<close> of
  \<open>internal/server\<close> registers them. The gateway calls the servers in the process, without the
  interceptors of the gRPC server, so a panic of a handler is a panic of the HTTP handler. The runtime
  of grpc-gateway is the record \<open>gateway_env\<close>: the choice of a route, the decoding of bodies and query
  parameters, the metadata of a request, and the writing of messages and errors.
\<close>

section \<open>The servers\<close>

record ('s, 'v) ResourceServiceServer =
  rss_ListResources :: "ListResourcesRequest \<Rightarrow> ('s, 'v ListResourcesResponse) rpc"
  rss_GetResource :: "string \<Rightarrow> ('s, 'v pb_Resource) rpc"
  rss_CreateResource :: "metadata \<Rightarrow> 'v CreateResourceRequest \<Rightarrow> ('s, 'v pb_Resource) rpc"
  rss_UpdateResource :: "metadata \<Rightarrow> 'v UpdateResourceRequest \<Rightarrow> ('s, 'v pb_Resource) rpc"
  rss_DeleteResource :: "string \<Rightarrow> ('s, unit) rpc"
  rss_ApplyAction :: "metadata \<Rightarrow> 'v ApplyActionRequest \<Rightarrow> ('s, 'v pb_Resource) rpc"
  rss_GetLog :: "('s \<Rightarrow> bool) \<Rightarrow> (LogChunk \<Rightarrow> ('s, unit) go) \<Rightarrow> string \<Rightarrow> string gomap \<Rightarrow> ('s, unit) rpc"
  rss_GetResourceRevisions :: "string \<Rightarrow> ('s, 'v pb_Revision list) rpc"

record ('s, 'v) ModuleServiceServer =
  mss_ListModules :: "string \<Rightarrow> ('s, 'v pb_Module list) rpc"
  mss_GetModule :: "string \<Rightarrow> ('s, 'v pb_Module) rpc"
  mss_CreateModule :: "'v pb_Module option \<Rightarrow> ('s, 'v pb_Module) rpc"
  mss_UpdateModule :: "'v UpdateModuleRequest \<Rightarrow> ('s, 'v pb_Module) rpc"
  mss_DeleteModule :: "string \<Rightarrow> ('s, unit) rpc"

definition LogWrapper ::
    "(string \<Rightarrow> rpc_error \<Rightarrow> 's \<Rightarrow> 's) \<Rightarrow> 'v structpb \<Rightarrow> 's ResourceService \<Rightarrow> ('s, 'v) ResourceServiceServer" where
  "LogWrapper logError pb rsv =
     \<lparr>rss_ListResources = lw_ListResources logError pb rsv,
      rss_GetResource = lw_GetResource logError pb rsv,
      rss_CreateResource = lw_CreateResource logError pb rsv,
      rss_UpdateResource = lw_UpdateResource logError pb rsv,
      rss_DeleteResource = lw_DeleteResource logError rsv,
      rss_ApplyAction = lw_ApplyAction logError pb rsv,
      rss_GetLog = lw_GetLog logError rsv,
      rss_GetResourceRevisions = lw_GetResourceRevisions logError pb rsv\<rparr>"

definition modules_NewAPIServer :: "'v structpb \<Rightarrow> 's ModuleAPI \<Rightarrow> ('s, 'v) ModuleServiceServer" where
  "modules_NewAPIServer pb srv =
     \<lparr>mss_ListModules = api_ListModules pb srv,
      mss_GetModule = api_GetModule pb srv,
      mss_CreateModule = api_CreateModule pb srv,
      mss_UpdateModule = api_UpdateModule pb srv,
      mss_DeleteModule = api_DeleteModule srv\<rparr>"

section \<open>The version\<close>

record pb_Version =
  ver_Version :: string
  ver_Commit :: string
  ver_BuildTime :: "time option"
  ver_LangVersion :: string
  ver_Os :: string
  ver_Architecture :: string

text \<open>The variables the linker sets, with their values in the source, and the constants of package \<open>runtime\<close>.\<close>

record build_info =
  bi_Version :: string
  bi_Commit :: string
  bi_BuildTime :: string

definition default_build :: build_info where
  "default_build = \<lparr>bi_Version = ''dev'', bi_Commit = ''dev'', bi_BuildTime = []\<rparr>"

record go_runtime =
  rt_Version :: string
  rt_GOOS :: string
  rt_GOARCH :: string

definition GetVersionAndBuildInfo :: "(string \<Rightarrow> gerror + time) \<Rightarrow> build_info \<Rightarrow> go_runtime \<Rightarrow> pb_Version" where
  "GetVersionAndBuildInfo parse bi rt =
     (let v = \<lparr>ver_Version = bi_Version bi, ver_Commit = bi_Commit bi, ver_BuildTime = None,
               ver_LangVersion = rt_Version rt, ver_Os = rt_GOOS rt, ver_Architecture = rt_GOARCH rt\<rparr>
      in case parse (bi_BuildTime bi) of Inr bt \<Rightarrow> v\<lparr>ver_BuildTime := Some bt\<rparr> | Inl err \<Rightarrow> v)"

text \<open>\<open>common.New\<close> with \<open>GetVersion\<close>: the request holds the version of the client, which is not read.\<close>

definition CommonService_GetVersion :: "pb_Version \<Rightarrow> pb_Version option \<Rightarrow> ('s, pb_Version) rpc" where
  "CommonService_GetVersion version request = ret version"

section \<open>The runtime of the gateway\<close>

text \<open>The message of a response, by the name of its type.\<close>

datatype 'v gw_message =
    MsgListResources "'v ListResourcesResponse"
  | MsgGetResource "'v pb_Resource"
  | MsgCreateResource "'v pb_Resource"
  | MsgUpdateResource "'v pb_Resource"
  | MsgDeleteResource
  | MsgApplyAction "'v pb_Resource"
  | MsgGetResourceRevisions "'v pb_Revision list"
  | MsgListModules "'v pb_Module list"
  | MsgGetModule "'v pb_Module"
  | MsgCreateModule "'v pb_Module"
  | MsgUpdateModule "'v pb_Module"
  | MsgDeleteModule
  | MsgGetVersion pb_Version

text \<open>
  What a decoder gives: a value, the end of the input before one, or another error. At the end of the
  input the target holds what the decoder left in it; a decoder may have allocated a pointer by then.
\<close>

datatype 'a decoded = Decoded 'a | AtEOF 'a | Undecodable gerror

record DoubleArray =
  da_Encoding :: "(string \<times> nat) list"
  da_Base :: "int list"
  da_Check :: "int list"

record gw_pattern =
  gp_version :: int
  gp_ops :: "int list"
  gp_pool :: "string list"
  gp_verb :: string

text \<open>
  \<open>ge_Find\<close> is the choice of \<open>ServeMux\<close> among the routes registered so far, with the path parameters,
  and \<open>ge_Unmatched\<close> what it writes without one; \<open>ge_Annotate\<close> is \<open>AnnotateIncomingContext\<close> with the
  annotator given to the mux, the name of the method and its path; the fields \<open>ge_Query\<close> are
  \<open>PopulateQueryParameters\<close> for the message they set, \<open>ge_Decode\<close> the decoder of the inbound marshaler,
  \<open>ge_Forward\<close> is \<open>ForwardResponseMessage\<close>.
\<close>

record 'v gateway_env =
  ge_Find :: "(string \<times> gw_pattern) list \<Rightarrow> http_request \<Rightarrow> (nat \<times> string gomap) option"
  ge_Unmatched :: "http_request \<Rightarrow> write_op list"
  ge_Annotate :: "(string list gomap \<Rightarrow> metadata) \<Rightarrow> http_request \<Rightarrow> string \<Rightarrow> string \<Rightarrow> rpc_error + metadata"
  ge_ParseForm :: "http_request \<Rightarrow> gerror + string list gomap"
  ge_String :: "string \<Rightarrow> gerror + string"
  ge_QueryListResources :: "ListResourcesRequest \<Rightarrow> string list gomap \<Rightarrow> DoubleArray \<Rightarrow> gerror + ListResourcesRequest"
  ge_QueryCreateResource :: "'v CreateResourceRequest \<Rightarrow> string list gomap \<Rightarrow> DoubleArray \<Rightarrow> gerror + 'v CreateResourceRequest"
  ge_QueryApplyAction :: "'v ApplyActionRequest \<Rightarrow> string list gomap \<Rightarrow> DoubleArray \<Rightarrow> gerror + 'v ApplyActionRequest"
  ge_QueryListModules :: "string \<Rightarrow> string list gomap \<Rightarrow> DoubleArray \<Rightarrow> gerror + string"
  ge_DecodeResource :: "raw \<Rightarrow> 'v pb_Resource option decoded"
  ge_DecodeUpdateResource :: "raw \<Rightarrow> 'v UpdateResourceRequest decoded"
  ge_DecodeValue :: "raw \<Rightarrow> 'v option decoded"
  ge_DecodeModule :: "raw \<Rightarrow> 'v pb_Module option decoded"
  ge_DecodeUpdateModule :: "raw \<Rightarrow> 'v UpdateModuleRequest decoded"
  ge_DecodeVersion :: "raw \<Rightarrow> pb_Version option decoded"
  ge_HTTPError :: "http_request \<Rightarrow> rpc_error \<Rightarrow> write_op list"
  ge_Forward :: "http_request \<Rightarrow> 'v gw_message \<Rightarrow> write_op list"

text \<open>\<open>if err != nil { return nil, metadata, status.Errorf(codes.InvalidArgument, "%v", err) }\<close>\<close>

definition invalidS :: "gerror + 'a \<Rightarrow> ('a \<Rightarrow> ('s, 'b) rpc) \<Rightarrow> ('s, 'b) rpc" where
  "invalidS r f =
     (case r of
        Inl err \<Rightarrow> fail (RpcStatus code_InvalidArgument (error_text err))
      | Inr a \<Rightarrow> f a)"

definition path_param :: "'v gateway_env \<Rightarrow> string gomap \<Rightarrow> string \<Rightarrow> (string \<Rightarrow> ('s, 'b) rpc) \<Rightarrow> ('s, 'b) rpc" where
  "path_param env pathParams name f =
     (case lookup pathParams name of
        None \<Rightarrow> fail (RpcStatus code_InvalidArgument (''missing parameter '' @ name))
      | Some val \<Rightarrow>
          (case ge_String env val of
             Inl err \<Rightarrow>
               fail (RpcStatus code_InvalidArgument
                 (''type mismatch, parameter: '' @ name @ '', error: '' @ error_text err))
           | Inr v \<Rightarrow> f v))"

text \<open>The body is decoded into a message; the error \<open>io.EOF\<close> of an empty body is ignored, with what the target then holds.\<close>

definition decode_body :: "(raw \<Rightarrow> 'm decoded) \<Rightarrow> http_request \<Rightarrow> ('m \<Rightarrow> ('s, 'b) rpc) \<Rightarrow> ('s, 'b) rpc" where
  "decode_body dec req f =
     invalidS (hq_Body req) (\<lambda>body.
       case dec body of
         Decoded m \<Rightarrow> f m
       | AtEOF m \<Rightarrow> f m
       | Undecodable err \<Rightarrow> fail (RpcStatus code_InvalidArgument (error_text err)))"

definition query_params ::
    "'v gateway_env \<Rightarrow> ('m \<Rightarrow> string list gomap \<Rightarrow> DoubleArray \<Rightarrow> gerror + 'm) \<Rightarrow> DoubleArray \<Rightarrow> http_request \<Rightarrow> 'm \<Rightarrow>
     ('m \<Rightarrow> ('s, 'b) rpc) \<Rightarrow> ('s, 'b) rpc" where
  "query_params env populate filt req msg f =
     invalidS (ge_ParseForm env req) (\<lambda>form. invalidS (populate msg form filt) f)"

section \<open>Requests for resources\<close>

definition filter_ResourceService_ListResources_0 :: DoubleArray where
  "filter_ResourceService_ListResources_0 = \<lparr>da_Encoding = [], da_Base = [], da_Check = []\<rparr>"

definition zero_ListResourcesRequest :: ListResourcesRequest where
  "zero_ListResourcesRequest =
     \<lparr>lrq_Project = [], lrq_Kind = [], lrq_Labels = None, lrq_PageSize = 0, lrq_PageNum = 0, lrq_WithSpecConfigs = False\<rparr>"

definition local_request_ResourceService_ListResources_0 ::
    "'v gateway_env \<Rightarrow> ('s, 'v) ResourceServiceServer \<Rightarrow> metadata \<Rightarrow> http_request \<Rightarrow> string gomap \<Rightarrow>
     ('s, 'v gw_message) rpc" where
  "local_request_ResourceService_ListResources_0 env server ctx req pathParams =
     query_params env (ge_QueryListResources env) filter_ResourceService_ListResources_0 req zero_ListResourcesRequest (\<lambda>protoReq.
     bindS (rss_ListResources server protoReq) (\<lambda>msg. ret (MsgListResources msg)))"

definition local_request_ResourceService_GetResource_0 ::
    "'v gateway_env \<Rightarrow> ('s, 'v) ResourceServiceServer \<Rightarrow> metadata \<Rightarrow> http_request \<Rightarrow> string gomap \<Rightarrow>
     ('s, 'v gw_message) rpc" where
  "local_request_ResourceService_GetResource_0 env server ctx req pathParams =
     path_param env pathParams ''urn'' (\<lambda>urn.
     bindS (rss_GetResource server urn) (\<lambda>msg. ret (MsgGetResource msg)))"

definition filter_ResourceService_CreateResource_0 :: DoubleArray where
  "filter_ResourceService_CreateResource_0 =
     \<lparr>da_Encoding = [(''resource'', 0)], da_Base = [1, 2, 0, 0], da_Check = [0, 1, 2, 2]\<rparr>"

definition local_request_ResourceService_CreateResource_0 ::
    "'v gateway_env \<Rightarrow> ('s, 'v) ResourceServiceServer \<Rightarrow> metadata \<Rightarrow> http_request \<Rightarrow> string gomap \<Rightarrow>
     ('s, 'v gw_message) rpc" where
  "local_request_ResourceService_CreateResource_0 env server ctx req pathParams =
     decode_body (ge_DecodeResource env) req (\<lambda>resource.
     query_params env (ge_QueryCreateResource env) filter_ResourceService_CreateResource_0 req
       \<lparr>crq_Resource = resource, crq_DryRun = False\<rparr> (\<lambda>protoReq.
     bindS (rss_CreateResource server ctx protoReq) (\<lambda>msg. ret (MsgCreateResource msg))))"

definition local_request_ResourceService_UpdateResource_0 ::
    "'v gateway_env \<Rightarrow> ('s, 'v) ResourceServiceServer \<Rightarrow> metadata \<Rightarrow> http_request \<Rightarrow> string gomap \<Rightarrow>
     ('s, 'v gw_message) rpc" where
  "local_request_ResourceService_UpdateResource_0 env server ctx req pathParams =
     decode_body (ge_DecodeUpdateResource env) req (\<lambda>protoReq.
     path_param env pathParams ''urn'' (\<lambda>urn.
     bindS (rss_UpdateResource server ctx (protoReq\<lparr>urq_Urn := urn\<rparr>)) (\<lambda>msg. ret (MsgUpdateResource msg))))"

definition local_request_ResourceService_DeleteResource_0 ::
    "'v gateway_env \<Rightarrow> ('s, 'v) ResourceServiceServer \<Rightarrow> metadata \<Rightarrow> http_request \<Rightarrow> string gomap \<Rightarrow>
     ('s, 'v gw_message) rpc" where
  "local_request_ResourceService_DeleteResource_0 env server ctx req pathParams =
     path_param env pathParams ''urn'' (\<lambda>urn.
     bindS (rss_DeleteResource server urn) (\<lambda>_. ret MsgDeleteResource))"

definition filter_ResourceService_ApplyAction_0 :: DoubleArray where
  "filter_ResourceService_ApplyAction_0 =
     \<lparr>da_Encoding = [(''params'', 0), (''urn'', 1), (''action'', 2)], da_Base = [1, 2, 4, 6, 0, 0, 0, 0, 0, 0],
      da_Check = [0, 1, 1, 1, 2, 2, 3, 3, 4, 4]\<rparr>"

definition local_request_ResourceService_ApplyAction_0 ::
    "'v gateway_env \<Rightarrow> ('s, 'v) ResourceServiceServer \<Rightarrow> metadata \<Rightarrow> http_request \<Rightarrow> string gomap \<Rightarrow>
     ('s, 'v gw_message) rpc" where
  "local_request_ResourceService_ApplyAction_0 env server ctx req pathParams =
     decode_body (ge_DecodeValue env) req (\<lambda>params.
     path_param env pathParams ''urn'' (\<lambda>urn.
     path_param env pathParams ''action'' (\<lambda>action.
     query_params env (ge_QueryApplyAction env) filter_ResourceService_ApplyAction_0 req
       \<lparr>arq_Urn = urn, arq_Action = action, arq_Params = params, arq_Labels = None, arq_DryRun = False\<rparr> (\<lambda>protoReq.
     bindS (rss_ApplyAction server ctx protoReq) (\<lambda>msg. ret (MsgApplyAction msg))))))"

definition local_request_ResourceService_GetResourceRevisions_0 ::
    "'v gateway_env \<Rightarrow> ('s, 'v) ResourceServiceServer \<Rightarrow> metadata \<Rightarrow> http_request \<Rightarrow> string gomap \<Rightarrow>
     ('s, 'v gw_message) rpc" where
  "local_request_ResourceService_GetResourceRevisions_0 env server ctx req pathParams =
     path_param env pathParams ''urn'' (\<lambda>urn.
     bindS (rss_GetResourceRevisions server urn) (\<lambda>msg. ret (MsgGetResourceRevisions msg)))"

section \<open>Requests for modules and the version\<close>

definition filter_ModuleService_ListModules_0 :: DoubleArray where
  "filter_ModuleService_ListModules_0 = \<lparr>da_Encoding = [], da_Base = [], da_Check = []\<rparr>"

text \<open>A list request for modules holds the project only, a create request the module.\<close>

definition local_request_ModuleService_ListModules_0 ::
    "'v gateway_env \<Rightarrow> ('s, 'v) ModuleServiceServer \<Rightarrow> metadata \<Rightarrow> http_request \<Rightarrow> string gomap \<Rightarrow>
     ('s, 'v gw_message) rpc" where
  "local_request_ModuleService_ListModules_0 env server ctx req pathParams =
     query_params env (ge_QueryListModules env) filter_ModuleService_ListModules_0 req [] (\<lambda>project.
     bindS (mss_ListModules server project) (\<lambda>msg. ret (MsgListModules msg)))"

definition local_request_ModuleService_GetModule_0 ::
    "'v gateway_env \<Rightarrow> ('s, 'v) ModuleServiceServer \<Rightarrow> metadata \<Rightarrow> http_request \<Rightarrow> string gomap \<Rightarrow>
     ('s, 'v gw_message) rpc" where
  "local_request_ModuleService_GetModule_0 env server ctx req pathParams =
     path_param env pathParams ''urn'' (\<lambda>urn.
     bindS (mss_GetModule server urn) (\<lambda>msg. ret (MsgGetModule msg)))"

definition local_request_ModuleService_CreateModule_0 ::
    "'v gateway_env \<Rightarrow> ('s, 'v) ModuleServiceServer \<Rightarrow> metadata \<Rightarrow> http_request \<Rightarrow> string gomap \<Rightarrow>
     ('s, 'v gw_message) rpc" where
  "local_request_ModuleService_CreateModule_0 env server ctx req pathParams =
     decode_body (ge_DecodeModule env) req (\<lambda>module.
     bindS (mss_CreateModule server module) (\<lambda>msg. ret (MsgCreateModule msg)))"

definition local_request_ModuleService_UpdateModule_0 ::
    "'v gateway_env \<Rightarrow> ('s, 'v) ModuleServiceServer \<Rightarrow> metadata \<Rightarrow> http_request \<Rightarrow> string gomap \<Rightarrow>
     ('s, 'v gw_message) rpc" where
  "local_request_ModuleService_UpdateModule_0 env server ctx req pathParams =
     decode_body (ge_DecodeUpdateModule env) req (\<lambda>protoReq.
     path_param env pathParams ''urn'' (\<lambda>urn.
     bindS (mss_UpdateModule server (protoReq\<lparr>umr_Urn := urn\<rparr>)) (\<lambda>msg. ret (MsgUpdateModule msg))))"

definition local_request_ModuleService_DeleteModule_0 ::
    "'v gateway_env \<Rightarrow> ('s, 'v) ModuleServiceServer \<Rightarrow> metadata \<Rightarrow> http_request \<Rightarrow> string gomap \<Rightarrow>
     ('s, 'v gw_message) rpc" where
  "local_request_ModuleService_DeleteModule_0 env server ctx req pathParams =
     path_param env pathParams ''urn'' (\<lambda>urn.
     bindS (mss_DeleteModule server urn) (\<lambda>_. ret MsgDeleteModule))"

definition local_request_CommonService_GetVersion_0 ::
    "'v gateway_env \<Rightarrow> pb_Version \<Rightarrow> metadata \<Rightarrow> http_request \<Rightarrow> string gomap \<Rightarrow> ('s, 'v gw_message) rpc" where
  "local_request_CommonService_GetVersion_0 env version ctx req pathParams =
     decode_body (ge_DecodeVersion env) req (\<lambda>protoReq.
     bindS (CommonService_GetVersion version protoReq) (\<lambda>msg. ret (MsgGetVersion msg)))"

section \<open>Routes\<close>

type_synonym 's gw_handler = "http_request \<Rightarrow> string gomap \<Rightarrow> ('s, write_op list) go"

type_synonym 's gw_route = "string \<times> gw_pattern \<times> 's gw_handler"

text \<open>
  The function registered for a unary method. The server sets no header or trailer of its own.
\<close>

definition unary_handler ::
    "'v gateway_env \<Rightarrow> string \<Rightarrow> string \<Rightarrow>
     (metadata \<Rightarrow> http_request \<Rightarrow> string gomap \<Rightarrow> ('s, 'v gw_message) rpc) \<Rightarrow> 's gw_handler" where
  "unary_handler env rpcMethod path local_request req pathParams =
     (case ge_Annotate env ExtractRequestMetadata req rpcMethod path of
        Inl err \<Rightarrow> ret (ge_HTTPError env req err)
      | Inr annotatedContext \<Rightarrow>
          catchS (local_request annotatedContext req pathParams)
            (\<lambda>resp. ret (ge_Forward env req resp))
            (\<lambda>err. ret (ge_HTTPError env req err)))"

text \<open>The function registered for a stream.\<close>

definition stream_handler :: "'v gateway_env \<Rightarrow> 's gw_handler" where
  "stream_handler env req pathParams =
     ret (ge_HTTPError env req
       (RpcStatus code_Unimplemented ''streaming calls are not yet supported in the in-process transport''))"

definition collection_pattern :: "string \<Rightarrow> string \<Rightarrow> gw_pattern" where
  "collection_pattern version name = \<lparr>gp_version = 1, gp_ops = [2, 0, 2, 1], gp_pool = [version, name], gp_verb = []\<rparr>"

definition member_pattern :: "string \<Rightarrow> gw_pattern" where
  "member_pattern name =
     \<lparr>gp_version = 1, gp_ops = [2, 0, 2, 1, 1, 0, 4, 1, 5, 2], gp_pool = [''v1beta1'', name, ''urn''], gp_verb = []\<rparr>"

definition pattern_ResourceService_ApplyAction_0 :: gw_pattern where
  "pattern_ResourceService_ApplyAction_0 =
     \<lparr>gp_version = 1, gp_ops = [2, 0, 2, 1, 1, 0, 4, 1, 5, 2, 2, 3, 1, 0, 4, 1, 5, 4],
      gp_pool = [''v1beta1'', ''resources'', ''urn'', ''actions'', ''action''], gp_verb = []\<rparr>"

definition part_pattern :: "string \<Rightarrow> gw_pattern" where
  "part_pattern part =
     \<lparr>gp_version = 1, gp_ops = [2, 0, 2, 1, 1, 0, 4, 1, 5, 2, 2, 3],
      gp_pool = [''v1beta1'', ''resources'', ''urn'', part], gp_verb = []\<rparr>"

definition resource_method :: "string \<Rightarrow> string" where
  "resource_method name = ''/gotocompany.entropy.v1beta1.ResourceService/'' @ name"

definition module_method :: "string \<Rightarrow> string" where
  "module_method name = ''/gotocompany.entropy.v1beta1.ModuleService/'' @ name"

text \<open>The mux is the list of its routes in the order of the calls of \<open>Handle\<close>.\<close>

definition RegisterResourceServiceHandlerServer ::
    "'v gateway_env \<Rightarrow> ('s, 'v) ResourceServiceServer \<Rightarrow> 's gw_route list \<Rightarrow> 's gw_route list" where
  "RegisterResourceServiceHandlerServer env server mux = mux @
     [(''GET'', collection_pattern ''v1beta1'' ''resources'',
        unary_handler env (resource_method ''ListResources'') ''/v1beta1/resources''
          (local_request_ResourceService_ListResources_0 env server)),
      (''GET'', member_pattern ''resources'',
        unary_handler env (resource_method ''GetResource'') ''/v1beta1/resources/{urn}''
          (local_request_ResourceService_GetResource_0 env server)),
      (''POST'', collection_pattern ''v1beta1'' ''resources'',
        unary_handler env (resource_method ''CreateResource'') ''/v1beta1/resources''
          (local_request_ResourceService_CreateResource_0 env server)),
      (''PATCH'', member_pattern ''resources'',
        unary_handler env (resource_method ''UpdateResource'') ''/v1beta1/resources/{urn}''
          (local_request_ResourceService_UpdateResource_0 env server)),
      (''DELETE'', member_pattern ''resources'',
        unary_handler env (resource_method ''DeleteResource'') ''/v1beta1/resources/{urn}''
          (local_request_ResourceService_DeleteResource_0 env server)),
      (''POST'', pattern_ResourceService_ApplyAction_0,
        unary_handler env (resource_method ''ApplyAction'') ''/v1beta1/resources/{urn}/actions/{action}''
          (local_request_ResourceService_ApplyAction_0 env server)),
      (''GET'', part_pattern ''logs'', stream_handler env),
      (''GET'', part_pattern ''revisions'',
        unary_handler env (resource_method ''GetResourceRevisions'') ''/v1beta1/resources/{urn}/revisions''
          (local_request_ResourceService_GetResourceRevisions_0 env server))]"

definition RegisterModuleServiceHandlerServer ::
    "'v gateway_env \<Rightarrow> ('s, 'v) ModuleServiceServer \<Rightarrow> 's gw_route list \<Rightarrow> 's gw_route list" where
  "RegisterModuleServiceHandlerServer env server mux = mux @
     [(''GET'', collection_pattern ''v1beta1'' ''modules'',
        unary_handler env (module_method ''ListModules'') ''/v1beta1/modules''
          (local_request_ModuleService_ListModules_0 env server)),
      (''GET'', member_pattern ''modules'',
        unary_handler env (module_method ''GetModule'') ''/v1beta1/modules/{urn}''
          (local_request_ModuleService_GetModule_0 env server)),
      (''POST'', collection_pattern ''v1beta1'' ''modules'',
        unary_handler env (module_method ''CreateModule'') ''/v1beta1/modules''
          (local_request_ModuleService_CreateModule_0 env server)),
      (''PATCH'', member_pattern ''modules'',
        unary_handler env (module_method ''UpdateModule'') ''/v1beta1/modules/{urn}''
          (local_request_ModuleService_UpdateModule_0 env server)),
      (''DELETE'', member_pattern ''modules'',
        unary_handler env (module_method ''DeleteModule'') ''/v1beta1/modules/{urn}''
          (local_request_ModuleService_DeleteModule_0 env server))]"

definition RegisterCommonServiceHandlerServer ::
    "'v gateway_env \<Rightarrow> pb_Version \<Rightarrow> 's gw_route list \<Rightarrow> 's gw_route list" where
  "RegisterCommonServiceHandlerServer env version mux = mux @
     [(''POST'', collection_pattern ''v1'' ''version'',
        unary_handler env ''/gotocompany.common.v1.CommonService/GetVersion'' ''/v1/version''
          (local_request_CommonService_GetVersion_0 env version))]"

definition mux_ServeHTTP :: "'v gateway_env \<Rightarrow> 's gw_route list \<Rightarrow> 's http_handler" where
  "mux_ServeHTTP env mux req =
     (case ge_Find env (map (\<lambda>(meth, pat, h). (meth, pat)) mux) req of
        Some (i, pathParams) \<Rightarrow>
          if i < length mux then snd (snd (mux ! i)) req pathParams else ret (ge_Unmatched env req)
      | None \<Rightarrow> ret (ge_Unmatched env req))"

section \<open>The HTTP side of \<open>Serve\<close>\<close>

definition rpcHTTPGateway ::
    "'v gateway_env \<Rightarrow> (string \<Rightarrow> rpc_error \<Rightarrow> 's \<Rightarrow> 's) \<Rightarrow> 'v structpb \<Rightarrow> pb_Version \<Rightarrow> 's ResourceService \<Rightarrow>
     's ModuleAPI \<Rightarrow> 's gw_route list" where
  "rpcHTTPGateway env logError pb version resourceSvc moduleSvc =
     RegisterModuleServiceHandlerServer env (modules_NewAPIServer pb moduleSvc)
       (RegisterResourceServiceHandlerServer env (LogWrapper logError pb resourceSvc)
         (RegisterCommonServiceHandlerServer env version []))"

definition Serve_http ::
    "('s \<Rightarrow> string \<times> 's) \<Rightarrow> (http_log \<Rightarrow> 's \<Rightarrow> 's) \<Rightarrow> 's http_handler \<Rightarrow> 'v gateway_env \<Rightarrow>
     (string \<Rightarrow> rpc_error \<Rightarrow> 's \<Rightarrow> 's) \<Rightarrow> 'v structpb \<Rightarrow> pb_Version \<Rightarrow> 's ResourceService \<Rightarrow> 's ModuleAPI \<Rightarrow>
     's http_handler" where
  "Serve_http newID write_log notFound env logError pb version resourceSvc moduleSvc =
     http_router newID write_log notFound
       (mux_ServeHTTP env (rpcHTTPGateway env logError pb version resourceSvc moduleSvc))"

end
