(* ===== verification/Gateway_Laws.thy ===== *)
theory Gateway_Laws
  imports Gateway Api_Props
begin

text \<open>
  What a client of the REST API can rely on: every request is at most one call of the services, a create
  request reports what is stored, and which requests the gateway cannot serve.
\<close>

section \<open>A request of the gateway is at most one service call\<close>

lemma one_call_cong:
  assumes "\<And>s. db_part (snd (k s)) = db_part (snd (m s)) \<and> (fst (k s) = Overflow) = (fst (m s) = Overflow)"
  shows "one_call run m \<Longrightarrow> one_call run k"
  using assms by (simp add: one_call_def)

lemma one_call_bind_ret: "one_call run m \<Longrightarrow> one_call run (bindS m (\<lambda>a. ret (f a)))"
  by (erule one_call_cong [rotated]) (auto simp: bindS_def catchS_def ret_def fail_def split: prod.split result.split)

lemma one_call_catch_ret: "one_call run m \<Longrightarrow> one_call run (catchS m (\<lambda>a. ret (f a)) (\<lambda>e. ret (h e)))"
  by (erule one_call_cong [rotated]) (auto simp: catchS_def ret_def split: prod.split result.split)

lemma one_call_logged:
  "\<forall>msg e s. db_part (logError msg e s) = db_part s \<Longrightarrow> one_call run m \<Longrightarrow> one_call run (logged logError msg m)"
  by (erule one_call_cong [rotated]) (auto simp: logged_def split: prod.split result.split)

lemma one_call_fail: "one_call run (fail e)" and one_call_ret: "one_call run (ret a)"
  by (simp_all add: quiet_one_call quiet_fail quiet_ret)

lemma one_call_invalidS: "(\<And>a. one_call run (f a)) \<Longrightarrow> one_call run (invalidS r f)"
  by (simp add: invalidS_def one_call_fail split: sum.split)

lemma one_call_path_param: "(\<And>v. one_call run (f v)) \<Longrightarrow> one_call run (path_param env params name f)"
  by (simp add: path_param_def one_call_fail split: option.split sum.split)

lemma one_call_decode_body: "(\<And>m. one_call run (f m)) \<Longrightarrow> one_call run (decode_body dec req f)"
  unfolding decode_body_def by (rule one_call_invalidS) (simp add: one_call_fail split: decoded.split)

lemma one_call_query_params: "(\<And>m. one_call run (f m)) \<Longrightarrow> one_call run (query_params env pop filt req msg f)"
  unfolding query_params_def by (intro one_call_invalidS)

lemmas one_call_steps = one_call_bind_ret one_call_path_param one_call_decode_body one_call_query_params

lemma one_call_unary:
  "(\<And>ctx. one_call run (local_request ctx req params)) \<Longrightarrow> one_call run (unary_handler env m p local_request req params)"
  by (simp add: unary_handler_def one_call_ret one_call_catch_ret split: sum.split)

text \<open>The servers of \<open>Serve\<close> over the service on Postgres.\<close>

lemma servers_one_call:
  fixes svc :: "'x world Service" and mr :: "'x world module_Service" and n :: nat
  assumes pb: "structpb_total pb" and log: "\<forall>msg e s. db_part (logError msg e s) = db_part s"
  defines "run \<equiv> \<lambda>s c. run_call n svc mr c s"
  defines "rs \<equiv> LogWrapper logError pb (core_ResourceService n svc)" and "ms \<equiv> modules_NewAPIServer pb (core_ModuleAPI mr)"
  shows "one_call run (rss_ListResources rs lq)" "one_call run (rss_GetResource rs urn)"
    "one_call run (rss_CreateResource rs ctx cq)" "one_call run (rss_UpdateResource rs ctx uq)"
    "one_call run (rss_DeleteResource rs urn)" "one_call run (rss_ApplyAction rs ctx aq)"
    "one_call run (rss_GetResourceRevisions rs urn)" "one_call run (mss_ListModules ms project)"
    "one_call run (mss_GetModule ms urn)" "one_call run (mss_CreateModule ms m)"
    "one_call run (mss_UpdateModule ms umq)" "one_call run (mss_DeleteModule ms urn)"
proof -
  have send: "outside_only (ret () :: ('x, unit) db)"
    by (simp add: outside_only_def ret_def)
  note req = serve_request_one_call [OF pb, of "\<lambda>_. ret ()" n svc mr "\<lambda>_. False", OF send, folded run_def]
  note defs = rs_def ms_def LogWrapper_def modules_NewAPIServer_def lw_ListResources_def lw_GetResource_def lw_CreateResource_def
    lw_UpdateResource_def lw_DeleteResource_def lw_ApplyAction_def lw_GetResourceRevisions_def
  show "one_call run (rss_ListResources rs lq)" "one_call run (rss_GetResource rs urn)"
    "one_call run (rss_CreateResource rs ctx cq)" "one_call run (rss_UpdateResource rs ctx uq)"
    "one_call run (rss_DeleteResource rs urn)" "one_call run (rss_ApplyAction rs ctx aq)"
    "one_call run (rss_GetResourceRevisions rs urn)" "one_call run (mss_ListModules ms project)"
    "one_call run (mss_GetModule ms urn)" "one_call run (mss_CreateModule ms m)"
    "one_call run (mss_UpdateModule ms umq)" "one_call run (mss_DeleteModule ms urn)"
    using req [of "ReqList lq"] req [of "ReqGet urn"] req [of "ReqCreate ctx cq"] req [of "ReqUpdate ctx uq"]
      req [of "ReqDelete urn"] req [of "ReqAction ctx aq"] req [of "ReqRevisions urn"] req [of "ReqListModules project"]
      req [of "ReqGetModule urn"] req [of "ReqCreateModule m"] req [of "ReqUpdateModule umq"] req [of "ReqDeleteModule urn"]
    by (simp_all add: defs one_call_done one_call_logged [OF log])
qed

lemmas gateway_routes = RegisterModuleServiceHandlerServer_def RegisterResourceServiceHandlerServer_def
  RegisterCommonServiceHandlerServer_def

lemmas local_requests = local_request_ResourceService_ListResources_0_def local_request_ResourceService_GetResource_0_def
  local_request_ResourceService_CreateResource_0_def local_request_ResourceService_UpdateResource_0_def
  local_request_ResourceService_DeleteResource_0_def local_request_ResourceService_ApplyAction_0_def
  local_request_ResourceService_GetResourceRevisions_0_def local_request_ModuleService_ListModules_0_def
  local_request_ModuleService_GetModule_0_def local_request_ModuleService_CreateModule_0_def
  local_request_ModuleService_UpdateModule_0_def local_request_ModuleService_DeleteModule_0_def
  local_request_CommonService_GetVersion_0_def

lemma gateway_one_call:
  fixes svc :: "'x world Service" and mr :: "'x world module_Service"
  assumes "structpb_total pb" and "\<forall>msg e s. db_part (logError msg e s) = db_part s"
  shows "one_call (\<lambda>s c. run_call n svc mr c s)
    (mux_ServeHTTP env (rpcHTTPGateway env logError pb version (core_ResourceService n svc) (core_ModuleAPI mr)) req)"
proof -
  let ?mux = "rpcHTTPGateway env logError pb version (core_ResourceService n svc) (core_ModuleAPI mr)"
  let ?run = "\<lambda>s c. run_call n svc mr c s"
  note srv = servers_one_call [OF assms, where n = n and svc = svc and mr = mr]
  have "one_call ?run (h req params)" if "(meth, pat, h) \<in> set ?mux" for meth pat h params
    using that
    by (auto simp: rpcHTTPGateway_def gateway_routes local_requests stream_handler_def CommonService_GetVersion_def one_call_ret
        intro!: one_call_unary one_call_steps srv)
  then have "one_call ?run (snd (snd (?mux ! i)) req params)" if "i < length ?mux" for i params
    using nth_mem [OF that] by (metis prod.collapse)
  then show ?thesis
    by (simp add: mux_ServeHTTP_def one_call_ret split: option.split)
qed

lemma map_result_Overflow: "map_result f g r = Overflow \<longleftrightarrow> r = Overflow"
  by (cases r) auto

section \<open>Routing\<close>

text \<open>The request is routed to the method and the pattern, with the path parameters.\<close>

definition routed :: "'v gateway_env \<Rightarrow> 's gw_route list \<Rightarrow> http_request \<Rightarrow> string \<Rightarrow> gw_pattern \<Rightarrow> string gomap \<Rightarrow> bool" where
  "routed env mux req meth pat params \<longleftrightarrow>
     (case ge_Find env (map (\<lambda>(m, p, h). (m, p)) mux) req of
        Some (i, ps) \<Rightarrow> i < length mux \<and> map (\<lambda>(m, p, h). (m, p)) mux ! i = (meth, pat) \<and> ps = params
      | None \<Rightarrow> False)"

text \<open>No two routes of \<open>Serve\<close> have the same method and pattern, so what a request is routed to decides its handler.\<close>

lemma routes_distinct: "distinct (map (\<lambda>(m, p, h). (m, p)) (rpcHTTPGateway env logError pb version rsv srv))"
  by (simp add: rpcHTTPGateway_def gateway_routes collection_pattern_def member_pattern_def part_pattern_def
      pattern_ResourceService_ApplyAction_0_def)

lemma routed_handler:
  assumes "routed env (rpcHTTPGateway env logError pb version rsv srv) req meth pat params"
    and "(meth, pat, h) \<in> set (rpcHTTPGateway env logError pb version rsv srv)"
  shows "mux_ServeHTTP env (rpcHTTPGateway env logError pb version rsv srv) req = h req params"
proof -
  let ?mux = "rpcHTTPGateway env logError pb version rsv srv" and ?key = "\<lambda>(m, p, h). (m, p)"
  from assms(1) obtain i where i: "ge_Find env (map ?key ?mux) req = Some (i, params)" "i < length ?mux"
      "map ?key ?mux ! i = (meth, pat)"
    by (auto simp: routed_def split: option.splits)
  from assms(2) obtain k where k: "k < length ?mux" "?mux ! k = (meth, pat, h)"
    by (auto simp: in_set_conv_nth)
  have "map ?key ?mux ! k = map ?key ?mux ! i"
    using k i(3) by simp
  then have "k = i"
    using routes_distinct [of env logError pb version rsv srv] k(1) i(2) by (metis length_map nth_eq_iff_index_eq)
  then show ?thesis using i k by (simp add: mux_ServeHTTP_def)
qed

section \<open>Through the middleware\<close>

text \<open>The middleware runs the handler once, in a state that differs at most outside of the database.\<close>

lemma requestLogger_outside:
  assumes "\<forall>l s. db_part (write_log l s) = db_part s"
  shows "db_part (snd (requestLogger write_log next req s)) = db_part s \<and> fst (requestLogger write_log next req s) = Ok [] \<or>
    db_part (snd (requestLogger write_log next req s)) = db_part (snd (next req s)) \<and>
    fst (requestLogger write_log next req s) = fst (next req s)"
proof (cases "hq_Body req")
  case (Inl err)
  then show ?thesis using assms by (simp add: requestLogger_def)
next
  case (Inr body)
  then show ?thesis
    using assms json_parse_returns [of body]
    by (auto simp: requestLogger_def Let_def bindS_def catchS_def fail_def split: prod.split result.split)
qed

lemma bindS_snd: "snd (bindS m (\<lambda>a. ret (f a)) s) = snd (m s)"
  by (auto simp: bindS_def catchS_def ret_def fail_def split: prod.split result.split)

lemma middleware_runs:
  fixes s :: "'x world"
  assumes "\<forall>s. db_part (snd (newID s)) = db_part s" and "\<forall>l s. db_part (write_log l s) = db_part s"
  shows "\<exists>rid u req'. db_part u = db_part s \<and>
    (db_part (snd (requestID newID (requestLogger write_log next) req s)) = db_part s \<and>
       fst (requestID newID (requestLogger write_log next) req s) \<noteq> Overflow \<or>
     db_part (snd (requestID newID (requestLogger write_log next) req s)) = db_part (snd (next req' u)) \<and>
       fst (requestID newID (requestLogger write_log next) req s) =
         map_result id (\<lambda>ops. SetHeader headerRequestID rid # ops) (fst (next req' u)))"
proof -
  let ?given = "TrimSpace (header_Get (hq_Header req) headerRequestID)"
  obtain rid u where id: "(rid, u) = (if ?given = [] then newID s else (?given, s))"
    by (cases "if ?given = [] then newID s else (?given, s)") simp
  then have u: "db_part u = db_part s"
    using assms(1) by (metis snd_conv)
  let ?req = "req\<lparr>hq_Header := Some (put headerRequestID [rid] (entries (hq_Header req)))\<rparr>"
  have run: "requestID newID (requestLogger write_log next) req s =
      bindS (requestLogger write_log next ?req) (\<lambda>ops. ret (SetHeader headerRequestID rid # ops)) u"
    by (simp add: requestID_def id [symmetric])
  show ?thesis
    using requestLogger_outside [OF assms(2), of "next" ?req u] u
    by (intro exI [of _ rid] exI [of _ u] exI [of _ ?req]) (auto simp: run bindS_fst bindS_snd)
qed

text \<open>Behind middleware, gateway and log wrapper a request to the HTTP server is at most one call of the services.\<close>

lemma http_request_reachable:
  fixes s :: "'x world"
  assumes "registry_ok reg" and "\<forall>service c. int64Counter service c \<noteq> Overflow"
    and "\<forall>ts. pg_scanTags st ts \<noteq> Overflow" and "structpb_total pb"
    and "\<forall>msg e s. db_part (logError msg e s) = db_part s" and "\<forall>l s. db_part (write_log l s) = db_part s"
    and "\<forall>s. db_part (snd (newID s)) = db_part s"
    and "\<forall>req s. db_part (snd (notFound req s)) = db_part s \<and> fst (notFound req s) \<noteq> Overflow"
    and "reachable (entropy st reg backoff maxRetries name int64Counter add) (pg_module_Service reg) n s"
    and "w_res_seq s \<le> n"
    and "Serve_http newID write_log notFound env logError pb version
      (core_ResourceService n (entropy st reg backoff maxRetries name int64Counter add))
      (core_ModuleAPI (pg_module_Service reg)) req s = (r, t)"
  shows "reachable (entropy st reg backoff maxRetries name int64Counter add) (pg_module_Service reg) n t \<and> r \<noteq> Overflow"
proof -
  let ?svc = "entropy st reg backoff maxRetries name int64Counter add" and ?mr = "pg_module_Service reg"
  let ?gw = "mux_ServeHTTP env (rpcHTTPGateway env logError pb version (core_ResourceService n ?svc) (core_ModuleAPI ?mr))"
  let ?safe = "\<lambda>next. \<forall>q u. db_part u = db_part s \<longrightarrow> reachable ?svc ?mr n (snd (next q u)) \<and> fst (next q u) \<noteq> Overflow"
  have start: "reachable ?svc ?mr n u" if "db_part u = db_part s" for u
    using reachable.outside [OF assms(9)] that by blast
  have gw: "?safe ?gw"
    using one_call_reachable [OF assms(1-3) start _ prod.collapse [symmetric] gateway_one_call [OF assms(4,5)]] assms(10)
    by (metis prod.inject)
  have middle: "reachable ?svc ?mr n t \<and> r \<noteq> Overflow"
    if "?safe next" and "(r, t) = requestID newID (requestLogger write_log next) req s" for "next"
    using middleware_runs [OF assms(7,6), of s "next" req] that start
    by (metis fst_conv snd_conv map_result_Overflow reachable.outside)
  from assms(11) have "(r, t) = requestID newID (requestLogger write_log (strip_prefix ?gw)) req s \<or>
      (r, t) = requestID newID (requestLogger write_log ping) req s \<or> (r, t) = notFound req s"
    by (auto simp: Serve_http_def http_router_def split: if_splits)
  moreover have "?safe (strip_prefix ?gw)" using gw by (simp add: strip_prefix_def)
  moreover have "?safe ping" using start by (simp add: ping_def ret_def)
  moreover have "reachable ?svc ?mr n t \<and> r \<noteq> Overflow" if "(r, t) = notFound req s"
    using assms(8) start that by (metis fst_conv snd_conv)
  ultimately show ?thesis using middle by blast
qed

section \<open>Properties\<close>


lemma decode_body_left:
  "hq_Body req = Inr body \<Longrightarrow> dec body \<in> {Decoded m, AtEOF m} \<Longrightarrow> decode_body dec req f = f m"
  by (auto simp: decode_body_def invalidS_def)

text \<open>C38: What the gateway does not serve, and what it does not catch. Every request routed to the logs of a
  resource is answered with the status Unimplemented and reaches no server. A panic of the create handler,
  whatever the decoder left as the message and whatever servers are behind it, is a panic of the HTTP
  handler: the gateway calls the server in the process, outside of the recovery interceptor.\<close>

theorem http_unserved:
  "(routed env (rpcHTTPGateway env logError pb version rsv srv) req ''GET'' (part_pattern ''logs'') params \<longrightarrow>
      mux_ServeHTTP env (rpcHTTPGateway env logError pb version rsv srv) req s =
        (Ok (ge_HTTPError env req
          (RpcStatus code_Unimplemented ''streaming calls are not yet supported in the in-process transport'')), s)) \<and>
   (routed env (rpcHTTPGateway env logError pb version rsv srv) req ''POST'' (collection_pattern ''v1beta1'' ''resources'') params \<and>
    ge_Annotate env ExtractRequestMetadata req (resource_method ''CreateResource'') ''/v1beta1/resources'' = Inr ctx \<and>
    hq_Body req = Inr body \<and> ge_DecodeResource env body \<in> {Decoded m, AtEOF m} \<and> ge_ParseForm env req = Inr form \<and>
    ge_QueryCreateResource env \<lparr>crq_Resource = m, crq_DryRun = False\<rparr> form filter_ResourceService_CreateResource_0 = Inr q \<and>
    api_CreateResource pb rsv ctx q s = (Panic p, t) \<longrightarrow>
      mux_ServeHTTP env (rpcHTTPGateway env logError pb version rsv srv) req s = (Panic p, t))"
proof (intro conjI impI; (elim conjE)?)
  assume "routed env (rpcHTTPGateway env logError pb version rsv srv) req ''GET'' (part_pattern ''logs'') params"
  then have "mux_ServeHTTP env (rpcHTTPGateway env logError pb version rsv srv) req = stream_handler env req params"
    by (rule routed_handler) (simp add: rpcHTTPGateway_def gateway_routes)
  then show "mux_ServeHTTP env (rpcHTTPGateway env logError pb version rsv srv) req s =
        (Ok (ge_HTTPError env req
          (RpcStatus code_Unimplemented ''streaming calls are not yet supported in the in-process transport'')), s)"
    by (simp add: stream_handler_def ret_def)
next
  assume r: "routed env (rpcHTTPGateway env logError pb version rsv srv) req ''POST'' (collection_pattern ''v1beta1'' ''resources'') params"
    and dec: "ge_Annotate env ExtractRequestMetadata req (resource_method ''CreateResource'') ''/v1beta1/resources'' = Inr ctx"
      "hq_Body req = Inr body" "ge_ParseForm env req = Inr form"
      "ge_QueryCreateResource env \<lparr>crq_Resource = m, crq_DryRun = False\<rparr> form filter_ResourceService_CreateResource_0 = Inr q"
    and m: "ge_DecodeResource env body \<in> {Decoded m, AtEOF m}" and panic: "api_CreateResource pb rsv ctx q s = (Panic p, t)"
  have "mux_ServeHTTP env (rpcHTTPGateway env logError pb version rsv srv) req =
      unary_handler env (resource_method ''CreateResource'') ''/v1beta1/resources''
        (local_request_ResourceService_CreateResource_0 env (LogWrapper logError pb rsv)) req params"
    by (rule routed_handler [OF r]) (simp add: rpcHTTPGateway_def gateway_routes)
  then show "mux_ServeHTTP env (rpcHTTPGateway env logError pb version rsv srv) req s = (Panic p, t)"
    by (simp add: unary_handler_def dec local_request_ResourceService_CreateResource_0_def query_params_def
        decode_body_left [of req body "ge_DecodeResource env" m, OF dec(2) m]
        invalidS_def LogWrapper_def lw_CreateResource_def logged_def panic catchS_def bindS_def)
qed

end
