(* ===== verification/Whole_Program.thy ===== *)
theory Whole_Program
  imports Dagger_Ok Pg_Reach Gateway_Laws
begin

text \<open>
  The program as \<open>cli/serve.go\<close> assembles it: the registry with the six modules of the repository, over the
  libraries they call, behind the service and the PostgreSQL store; and the same program as a running
  server, with the gRPC server, the REST gateway and the HTTP middleware in front and the ticks of its
  syncers in between.
\<close>

section \<open>The supported modules\<close>

text \<open>What the modules need of the world, and the maps their default configurations share.\<close>

record 's libraries =
  lib_kube :: "'s kube_API"
  lib_kube_defaults :: kube_Config
  lib_firehose :: "'s fh_env"
  lib_firehose_struct :: "fh_driverConf \<Rightarrow> struct_error option"
  lib_firehose_shared :: fh_shared
  lib_sha256 :: "string \<Rightarrow> string"
  lib_job_schema :: "raw \<Rightarrow> unit outcome"
  lib_job_struct :: "job_DriverConf \<Rightarrow> struct_error option"
  lib_job_clock :: "'s \<Rightarrow> time"
  lib_job_shared :: "RequestsAndLimits gomap"
  lib_kafka_schema :: "raw \<Rightarrow> unit outcome"
  lib_dagger :: "'s dg_params"
  lib_dagger_struct :: "dg_driverConf \<Rightarrow> struct_error option"
  lib_dagger_shared :: "string gomap"

definition supported :: "'s libraries \<Rightarrow> 's Descriptor list" where
  "supported lib =
     [kubernetes_Module (lib_kube lib) (lib_kube_defaults lib),
      firehose_Module (lib_firehose lib) (lib_firehose_struct lib) (lib_firehose_shared lib),
      job_Module (lib_kube lib) (lib_sha256 lib) (lib_job_schema lib) (lib_job_struct lib) (lib_job_clock lib)
        (lib_job_shared lib),
      kafka_Module (lib_kafka_schema lib), flink_Module,
      dagger_Module (lib_dagger lib) (lib_dagger_struct lib) (lib_dagger_shared lib)]"

definition libraries_ok :: "'x world libraries \<Rightarrow> bool" where
  "libraries_ok lib \<longleftrightarrow>
     api_ok (lib_kube lib) \<and> fh_env_ok (lib_firehose lib) \<and> (\<forall>j. lib_job_schema lib j \<noteq> Overflow) \<and>
     (\<forall>j. lib_kafka_schema lib j \<noteq> Overflow) \<and> dg_params_ok (lib_dagger lib)"

lemma supported_ok: "libraries_ok lib \<Longrightarrow> list_all descriptor_ok (supported lib)"
  by (simp add: libraries_ok_def supported_def kubernetes_Module_ok firehose_Module_ok job_Module_ok kafka_Module_ok
      flink_Module_ok dagger_Module_ok)

text \<open>Descriptors of different kinds, none with a parameter schema, register.\<close>

lemma sanitise_plain: "\<forall>ad \<in> set ads. ad_ParamSchema ad = [] \<Longrightarrow> sanitise_actions newSchema ads = Ok ads"
  by (induction ads) (simp_all add: Sanitise_def)

lemma register_all_plain:
  assumes "\<forall>d \<in> set ds. \<forall>ad \<in> set (desc_Actions d). ad_ParamSchema ad = []"
    and "distinct (map desc_Kind ds)" and "\<forall>d \<in> set ds. desc_Kind d \<notin> fst ` set (entries (reg_modules reg))"
  shows "\<exists>reg'. register_all newSchema ds reg = (Ok (), reg') \<and>
    (\<forall>k. lookup (reg_modules reg') k = (case find (\<lambda>d. desc_Kind d = k) ds of Some d \<Rightarrow> Some d | None \<Rightarrow> lookup (reg_modules reg) k))"
  using assms
proof (induction ds arbitrary: reg)
  case (Cons d ds)
  let ?reg = "reg\<lparr>reg_modules := Some (put (desc_Kind d) d (entries (reg_modules reg)))\<rparr>"
  have "map_of (entries (reg_modules reg)) (desc_Kind d) = None"
    using Cons.prems(3) by (simp add: map_of_eq_None_iff)
  moreover have "sanitise_actions newSchema (desc_Actions d) = Ok (desc_Actions d)"
    using Cons.prems(1) by (intro sanitise_plain) simp
  ultimately have reg: "Register newSchema d reg = (Ok (), ?reg)"
    by (simp add: Register_def Let_def)
  have "fst ` set (entries (reg_modules ?reg)) = insert (desc_Kind d) (fst ` set (entries (reg_modules reg)))"
    by (simp add: put_def dom_update)
  moreover have other: "\<forall>e \<in> set ds. desc_Kind e \<noteq> desc_Kind d" and "distinct (map desc_Kind ds)"
    using Cons.prems(2) by (simp_all, metis imageI)
  ultimately have "\<forall>e \<in> set ds. desc_Kind e \<notin> fst ` set (entries (reg_modules ?reg))"
    using Cons.prems(3) by simp
  with Cons.IH [of ?reg] Cons.prems(1) \<open>distinct (map desc_Kind ds)\<close> obtain reg' where
    IH: "register_all newSchema ds ?reg = (Ok (), reg')"
    "\<forall>k. lookup (reg_modules reg') k = (case find (\<lambda>d. desc_Kind d = k) ds of Some d \<Rightarrow> Some d | None \<Rightarrow> lookup (reg_modules ?reg) k)"
    by (meson list.set_intros(2))
  have "find (\<lambda>e. desc_Kind e = desc_Kind d) ds = None"
    using other by (simp add: find_None_iff)
  then show ?case
    using reg IH by (intro exI [of _ reg']) (auto simp: catchS_def lookup_def split: option.split)
qed (simp add: ret_def)

text \<open>The program starts: the six modules register, each under its own kind, and satisfy the laws of the service.\<close>

lemma setup_registry_ok:
  assumes "libraries_ok lib"
  shows "\<exists>reg. setupRegistry newSchema (supported lib) = Ok reg \<and>
    (\<forall>k. lookup (reg_modules reg) k = find (\<lambda>d. desc_Kind d = k) (supported lib)) \<and> registry_ok reg"
proof -
  have schemas: "\<forall>d \<in> set (supported lib). \<forall>ad \<in> set (desc_Actions d). ad_ParamSchema ad = []"
    by (auto simp: supported_def kubernetes_Module_def firehose_Module_def job_Module_def kafka_Module_def flink_Module_def
        dagger_Module_def described_action_def plain_action_def)
  have kinds: "map desc_Kind (supported lib) = [''kubernetes'', ''firehose'', ''job'', ''kafka'', ''flink'', ''dagger'']"
    by (simp add: supported_def kubernetes_Module_def firehose_Module_def job_Module_def kafka_Module_def flink_Module_def
        dagger_Module_def)
  obtain reg where run: "register_all newSchema (supported lib) empty_Registry = (Ok (), reg)"
    and look: "\<And>k. lookup (reg_modules reg) k = (case find (\<lambda>d. desc_Kind d = k) (supported lib) of Some d \<Rightarrow> Some d | None \<Rightarrow> None)"
    using register_all_plain [OF schemas, of empty_Registry newSchema] kinds
    by (auto simp: empty_Registry_def lookup_def)
  have started: "setupRegistry newSchema (supported lib) = Ok reg"
    by (simp add: setupRegistry_def run)
  have "descriptor_ok d" if "d \<in> set (supported lib)" for d
    using supported_ok [OF assms] that by (simp add: list_all_iff)
  then have "registry_ok reg"
    unfolding registry_ok_def descriptor_ok_def look by (fastforce split: option.splits dest: find_Some_mem)
  moreover have "\<forall>k. lookup (reg_modules reg) k = find (\<lambda>d. desc_Kind d = k) (supported lib)"
    by (simp add: look split: option.split)
  ultimately show ?thesis using started by blast
qed

section \<open>Calls of the services\<close>

text \<open>Entropy with all of its modules. Over libraries that act on the outside only and return from every call, the
  program starts: the six modules register, each under its own kind. And then, whatever calls are made
  on an empty database and whatever connections fail, resources have distinct identities and
  dependencies that exist and precede them, and the next call, of whatever service, returns.\<close>

theorem entropy_with_all_modules:
  assumes "libraries_ok lib" and "\<forall>service c. int64Counter service c \<noteq> Overflow" and "\<forall>ts. pg_scanTags st ts \<noteq> Overflow"
  shows "\<exists>reg. setupRegistry newSchema (supported lib) = Ok reg \<and>
    (\<forall>k. lookup (reg_modules reg) k = find (\<lambda>d. desc_Kind d = k) (supported lib)) \<and>
    (\<forall>n s. reachable (entropy st reg syncBackoff maxRetries name int64Counter add) (pg_module_Service reg) n s \<longrightarrow>
       distinct (map rm_URN (t_resources (w_tables s))) \<and> distinct (map rm_ID (t_resources (w_tables s))) \<and>
       (\<forall>d \<in> set (t_deps (w_tables s)).
          dep_depends_on d \<in> rm_ID ` set (t_resources (w_tables s)) \<and> dep_depends_on d < dep_resource_id d) \<and>
       (w_res_seq s \<le> n \<longrightarrow>
          (\<forall>c. fst (run_call n (entropy st reg syncBackoff maxRetries name int64Counter add) (pg_module_Service reg) c s) \<noteq> Overflow)))"
proof -
  obtain reg where started: "setupRegistry newSchema (supported lib) = Ok reg" and ok: "registry_ok reg"
    and look: "\<forall>k. lookup (reg_modules reg) k = find (\<lambda>d. desc_Kind d = k) (supported lib)"
    using setup_registry_ok [OF assms(1)] by blast
  then have svc: "pg_service reg int64Counter"
    using assms(2) by (intro pg_service.intro) auto
  have inv: "db_inv s" if "reachable (entropy st reg syncBackoff maxRetries name int64Counter add) (pg_module_Service reg) n s" for n s
    using pg_service.reachable_inv [OF svc that] assms(3) by blast
  have calls: "fst (run_call n (entropy st reg syncBackoff maxRetries name int64Counter add) (pg_module_Service reg) c s) \<noteq> Overflow"
    if "reachable (entropy st reg syncBackoff maxRetries name int64Counter add) (pg_module_Service reg) n s" "w_res_seq s \<le> n" for n s c
    using pg_service.run_call_inv [OF svc inv [OF that(1)] that(2)] assms(3) by blast
  show ?thesis
    using started look inv calls by (intro exI [of _ reg]) (auto simp: db_inv_def tables_ok_def dep_rows_ok_def)
qed

section \<open>The running server\<close>

text \<open>What the servers of \<open>Serve\<close> use beside the services: the ids and the log of requests, the answer to an
  unknown path, the gateway's runtime, the log of the wrapper, the conversions of messages, the version,
  and the stream of a log request.\<close>

record ('s, 'v) server_env =
  sv_newID :: "'s \<Rightarrow> string \<times> 's"
  sv_write_log :: "http_log \<Rightarrow> 's \<Rightarrow> 's"
  sv_notFound :: "'s http_handler"
  sv_gateway :: "'v gateway_env"
  sv_logError :: "string \<Rightarrow> rpc_error \<Rightarrow> 's \<Rightarrow> 's"
  sv_pb :: "'v structpb"
  sv_version :: pb_Version
  sv_cancelled :: "'s \<Rightarrow> bool"
  sv_send :: "LogChunk \<Rightarrow> ('s, unit) go"

definition http_server :: "('s, 'v) server_env \<Rightarrow> nat \<Rightarrow> 's Service \<Rightarrow> 's module_Service \<Rightarrow> 's http_handler" where
  "http_server env n svc mr =
     Serve_http (sv_newID env) (sv_write_log env) (sv_notFound env) (sv_gateway env) (sv_logError env) (sv_pb env)
       (sv_version env) (core_ResourceService n svc) (core_ModuleAPI mr)"

definition rpc_server :: "('s, 'v) server_env \<Rightarrow> nat \<Rightarrow> 's Service \<Rightarrow> 's module_Service \<Rightarrow> 'v request \<Rightarrow> ('s, unit) rpc" where
  "rpc_server env n svc mr q =
     serve_request (sv_pb env) (core_ResourceService n svc) (core_ModuleAPI mr) (sv_cancelled env) (sv_send env) q"

inductive served :: "('x world, 'v) server_env \<Rightarrow> 'x world Service \<Rightarrow> 'x world module_Service \<Rightarrow> nat \<Rightarrow> 'x world \<Rightarrow> bool"
  for env svc mr n where
  start: "served env svc mr n (migrated faults now ext)"
| http: "served env svc mr n s \<Longrightarrow> w_res_seq s \<le> n \<Longrightarrow> served env svc mr n (snd (http_server env n svc mr req s))"
| rpc: "served env svc mr n s \<Longrightarrow> w_res_seq s \<le> n \<Longrightarrow> served env svc mr n (snd (rpc_server env n svc mr q s))"
| tick: "served env svc mr n s \<Longrightarrow> w_res_seq s \<le> n \<Longrightarrow> served env svc mr n (snd (run_call n svc mr (CallTick scope) s))"
| outside: "served env svc mr n s \<Longrightarrow> db_part t = db_part s \<Longrightarrow> served env svc mr n t"

text \<open>The parts of the server act on the outside only, and its libraries return.\<close>

definition server_env_ok :: "('x world, 'v) server_env \<Rightarrow> bool" where
  "server_env_ok env \<longleftrightarrow>
     structpb_total (sv_pb env) \<and> (\<forall>msg e s. db_part (sv_logError env msg e s) = db_part s) \<and>
     (\<forall>l s. db_part (sv_write_log env l s) = db_part s) \<and> (\<forall>s. db_part (snd (sv_newID env s)) = db_part s) \<and>
     (\<forall>req s. db_part (snd (sv_notFound env req s)) = db_part s \<and> fst (sv_notFound env req s) \<noteq> Overflow) \<and>
     (\<forall>chunk. outside_only (sv_send env chunk))"

lemma requests_reachable:
  assumes "registry_ok reg" and "\<forall>service c. int64Counter service c \<noteq> Overflow" and "\<forall>ts. pg_scanTags st ts \<noteq> Overflow"
    and "server_env_ok env"
    and "reachable (entropy st reg syncBackoff maxRetries name int64Counter add) (pg_module_Service reg) n s" and "w_res_seq s \<le> n"
  shows "reachable (entropy st reg syncBackoff maxRetries name int64Counter add) (pg_module_Service reg) n
      (snd (http_server env n (entropy st reg syncBackoff maxRetries name int64Counter add) (pg_module_Service reg) req s))"
    "fst (http_server env n (entropy st reg syncBackoff maxRetries name int64Counter add) (pg_module_Service reg) req s) \<noteq> Overflow"
    "reachable (entropy st reg syncBackoff maxRetries name int64Counter add) (pg_module_Service reg) n
      (snd (rpc_server env n (entropy st reg syncBackoff maxRetries name int64Counter add) (pg_module_Service reg) q s))"
    "fst (rpc_server env n (entropy st reg syncBackoff maxRetries name int64Counter add) (pg_module_Service reg) q s) \<noteq> Overflow"
proof -
  let ?svc = "entropy st reg syncBackoff maxRetries name int64Counter add" and ?mr = "pg_module_Service reg"
  have env: "structpb_total (sv_pb env)" "\<forall>msg e s. db_part (sv_logError env msg e s) = db_part s"
      "\<forall>l s. db_part (sv_write_log env l s) = db_part s" "\<forall>s. db_part (snd (sv_newID env s)) = db_part s"
      "\<forall>req s. db_part (snd (sv_notFound env req s)) = db_part s \<and> fst (sv_notFound env req s) \<noteq> Overflow"
      "\<And>chunk. outside_only (sv_send env chunk)"
    using assms(4) unfolding server_env_ok_def by blast+
  have "reachable ?svc ?mr n t \<and> r \<noteq> Overflow" if "http_server env n ?svc ?mr req s = (r, t)" for r t
    using http_request_reachable [OF assms(1-3) env(1-5) assms(5,6)] that unfolding http_server_def by blast
  then show "reachable ?svc ?mr n (snd (http_server env n ?svc ?mr req s))" "fst (http_server env n ?svc ?mr req s) \<noteq> Overflow"
    by (metis prod.collapse)+
  have "reachable ?svc ?mr n t \<and> r \<noteq> Overflow" if "rpc_server env n ?svc ?mr q s = (r, t)" for r t
    by (rule one_call_reachable [OF assms(1-3,5,6) _ serve_request_one_call [OF env(1)]], rule that [unfolded rpc_server_def])
      (rule env(6))
  then show "reachable ?svc ?mr n (snd (rpc_server env n ?svc ?mr q s))" "fst (rpc_server env n ?svc ?mr q s) \<noteq> Overflow"
    by (metis prod.collapse)+
qed

lemma served_reachable:
  assumes "registry_ok reg" and "\<forall>service c. int64Counter service c \<noteq> Overflow" and "\<forall>ts. pg_scanTags st ts \<noteq> Overflow"
    and "server_env_ok env"
  shows "served env (entropy st reg syncBackoff maxRetries name int64Counter add) (pg_module_Service reg) n s \<Longrightarrow>
    reachable (entropy st reg syncBackoff maxRetries name int64Counter add) (pg_module_Service reg) n s"
proof (induction rule: served.induct)
  case (outside s t)
  then show ?case by (blast intro: reachable.outside)
qed (blast intro: reachable.start reachable.step requests_reachable [OF assms])+

section \<open>Properties\<close>

text \<open>C3: Entropy with all of its modules, as a running server. Over libraries that act on the outside only and return from
  every call, the program starts; and then, whatever HTTP and gRPC requests and ticks of its syncers it
  handles in whatever order, from an empty database and with whatever connections failing, resources keep
  distinct identities and dependencies that exist and precede them, and the next request, of whatever
  method, path, header and body, is answered or panics but never exhausts the stack.\<close>

theorem entropy_serves:
  assumes "libraries_ok lib" and "\<forall>service c. int64Counter service c \<noteq> Overflow" and "\<forall>ts. pg_scanTags st ts \<noteq> Overflow"
    and "server_env_ok env"
  shows "\<exists>reg. setupRegistry newSchema (supported lib) = Ok reg \<and>
    (\<forall>n s. served env (entropy st reg syncBackoff maxRetries name int64Counter add) (pg_module_Service reg) n s \<longrightarrow>
       distinct (map rm_URN (t_resources (w_tables s))) \<and> distinct (map rm_ID (t_resources (w_tables s))) \<and>
       (\<forall>d \<in> set (t_deps (w_tables s)).
          dep_depends_on d \<in> rm_ID ` set (t_resources (w_tables s)) \<and> dep_depends_on d < dep_resource_id d) \<and>
       (w_res_seq s \<le> n \<longrightarrow>
          (\<forall>req. fst (http_server env n (entropy st reg syncBackoff maxRetries name int64Counter add) (pg_module_Service reg) req s) \<noteq> Overflow) \<and>
          (\<forall>q. fst (rpc_server env n (entropy st reg syncBackoff maxRetries name int64Counter add) (pg_module_Service reg) q s) \<noteq> Overflow)))"
proof -
  obtain reg where started: "setupRegistry newSchema (supported lib) = Ok reg" and ok: "registry_ok reg"
    using setup_registry_ok [OF assms(1)] by blast
  have svc: "pg_service reg int64Counter"
    using ok assms(2) by (intro pg_service.intro) auto
  let ?svc = "entropy st reg syncBackoff maxRetries name int64Counter add" and ?mr = "pg_module_Service reg"
  have reach: "reachable ?svc ?mr n s" if "served env ?svc ?mr n s" for n s
    using served_reachable [OF ok assms(2-4) that] .
  have inv: "db_inv s" if "served env ?svc ?mr n s" for n s
    using pg_service.reachable_inv [OF svc reach [OF that]] assms(3) by blast
  show ?thesis
    using started inv requests_reachable(2,4) [OF ok assms(2-4) reach]
    by (intro exI [of _ reg]) (auto simp: db_inv_def tables_ok_def dep_rows_ok_def)
qed

end
