(* ===== verification/Witnesses_Dagger.thy ===== *)
theory Witnesses_Dagger
  imports Whole_Program Witnesses_Firehose
begin

text \<open>
  The properties of the Flink and the dagger module, applied to the dagger \<open>orders\<close> with two Kafka
  sources, on the Flink resource of a small cluster; and the whole program over libraries that answer
  every call.
\<close>

section \<open>The Flink resource\<close>

definition flow_cluster :: json where
  "flow_cluster = JObj
     [(''configs'', JObj [(''host'', JStr ''k8s''), (''timeout'', JInt 5)]),
      (''tolerations'', JObj [(''job'', JArr []), (''dagger'', JArr [JObj [(''key'', JStr ''pool''), (''value'', JStr ''flink'')]])])]"

definition flow_exr :: ExpandedResource where
  "flow_exr = \<lparr>er_Resource = zero_Resource\<lparr>res_Name := ''flow'', res_Project := ''proj'', res_Kind := ''flink''\<rparr>,
     er_Dependencies = Some [(KeyKubeDependency, \<lparr>rd_Kind = ''kubernetes'', rd_Output = raw_doc flow_cluster\<rparr>)]\<rparr>"

definition flow_create :: ActionRequest where
  "flow_create = \<lparr>act_Name = CreateAction,
     act_Params = raw_doc (JObj [(''kube_namespace'', JStr ''flow''), (''influx'', JObj [(''url'', JStr ''influx:8086'')])]),
     act_Labels = None, act_UserID = [],
     act_LabelsShared = False\<rparr>"

definition flow_driver :: "flinkDriver option" where
  "flow_driver = Some \<lparr>fkd_conf = zero_flink_driverConf\<lparr>fld_SinkKafkaStream := ''main''\<rparr>\<rparr>"

definition flow_kube :: kube_Output where
  "flow_kube = (case kube_dependency flow_exr of Ok ko \<Rightarrow> ko | _ \<Rightarrow> zero_kube_Output)"

lemma flow_dependency: "kube_dependency flow_exr = Ok flow_kube"
  unfolding flow_kube_def by code_simp

definition flow_planned :: Resource where
  "flow_planned = (case fst (flink_Plan flow_driver flow_exr flow_create ()) of Ok p \<Rightarrow> p | _ \<Rightarrow> zero_Resource)"

lemma flow_plan: "flink_Plan flow_driver flow_exr flow_create () = (Ok flow_planned, ())"
  unfolding flow_planned_def by code_simp

theorem flink_plan_read_back_witness:
  "\<exists>out. Unmarshal flink_Output_fields (st_Output (res_State flow_planned)) zero_flink_Output = Ok out \<and>
     ko_Configs (flo_KubeCluster out) = ko_Configs flow_kube"
  using flink_plan_read_back [OF flow_plan] flow_dependency by auto

section \<open>Resets\<close>

definition kafka_source :: "string \<Rightarrow> string \<Rightarrow> Source" where
  "kafka_source name grp = zero_Source\<lparr>so_Kafka := (so_Kafka zero_Source)\<lparr>sk_Name := name, sk_GroupID := grp\<rparr>\<rparr>"

definition two_sources :: "string \<Rightarrow> string \<Rightarrow> dg_Config" where
  "two_sources a b = zero_dg_Config\<lparr>dc_Source := [kafka_source ''main'' a, kafka_source ''side'' b]\<rparr>"

definition reset_sources :: "Source list" where
  "reset_sources = (case dg_consumerReset (two_sources ''orders-dagger-0001'' ''orders-dagger-0002'') ''latest'' of
     Ok ss \<Rightarrow> ss | _ \<Rightarrow> [])"

lemma reset_runs: "dg_consumerReset (two_sources ''orders-dagger-0001'' ''orders-dagger-0002'') ''latest'' = Ok reset_sources"
  unfolding reset_sources_def by code_simp

theorem dagger_reset_groups_witness:
  "distinct (map group_id reset_sources) \<and> set (map group_id reset_sources) \<inter> {''orders-dagger-0001'', ''orders-dagger-0002''} = {}"
proof -
  let ?conf = "two_sources ''orders-dagger-0001'' ''orders-dagger-0002''"
  have p: "\<not> is_parquet (hd (dc_Source ?conf))"
    by code_simp
  have w: "\<forall>s \<in> set (dc_Source ?conf). well_numbered [''orders'', ''dagger''] (group_id s)"
    by code_simp
  have l: "length (dc_Source ?conf) \<le> 1000000"
    by (simp add: two_sources_def)
  have "map group_id (dc_Source ?conf) = [''orders-dagger-0001'', ''orders-dagger-0002'']"
    by (simp add: two_sources_def kafka_source_def)
  with dagger_reset_groups [OF reset_runs p w l] show ?thesis by simp
qed

theorem dagger_reset_reuses_group_witness:
  "\<exists>new. dg_consumerReset (two_sources ''orders-dagger-9999'' ''orders-dagger-10000'') ''latest'' = Ok new \<and>
     group_id (new ! 0) = ''orders-dagger-10000''"
proof -
  let ?s = "kafka_source ''main'' ''orders-dagger-9999''" and ?t = "kafka_source ''side'' ''orders-dagger-10000''"
  have s: "dc_Source (two_sources ''orders-dagger-9999'' ''orders-dagger-10000'') = [?s, ?t]"
    by (simp add: two_sources_def)
  have p: "\<not> is_parquet ?s"
    by code_simp
  have g: "group_id ?s = ''orders-dagger-9999''" "group_id ?t = ''orders-dagger-10000''"
    by (simp_all add: kafka_source_def)
  show ?thesis
    using dagger_reset_reuses_group [OF s p g, of "''latest''"] unfolding g .
qed

section \<open>The dagger\<close>

definition lab_md5 :: "string \<Rightarrow> string" where "lab_md5 s = ''0123456789abcdef''"

lemma lab_md5_hex: "hex_digest lab_md5"
proof -
  have "list_all (\<lambda>c. is_digit c \<or> (97 \<le> code c \<and> code c \<le> 102)) ''0123456789abcdef''" by code_simp
  then show ?thesis by (simp add: hex_digest_def lab_md5_def)
qed

definition orders_doc :: json where
  "orders_doc = JObj
     [(''source'', JArr [JObj [(''SOURCE_KAFKA_NAME'', JStr ''main''),
         (''SOURCE_DETAILS'', JArr [JObj [(''SOURCE_NAME'', JStr ''KAFKA_CONSUMER''), (''SOURCE_TYPE'', JStr ''UNBOUNDED'')]])]]),
      (''env_variables'', JObj [(''FLINK_SQL_QUERY'', JStr ''SELECT 1'')]), (''replicas'', JInt 2), (''team'', JStr ''core''),
      (''sink_type'', JStr ''KAFKA''), (''sink'', JObj [(''SINK_KAFKA_TOPIC'', JStr ''enriched'')]),
      (''chart_values'', JObj [(''image_repository'', JStr ''r''), (''chart_version'', JStr ''0.1.0'')])]"

definition orders_resource :: Resource where
  "orders_resource = zero_Resource\<lparr>res_Name := ''orders'', res_Project := ''proj'', res_Kind := ''dagger'',
     res_Labels := Some [(''owner'', ''core'')]\<rparr>"

definition orders_exr :: "raw \<Rightarrow> ExpandedResource" where
  "orders_exr configs = \<lparr>er_Resource = orders_resource\<lparr>res_Spec := \<lparr>sp_Configs = configs, sp_Dependencies = None\<rparr>\<rparr>,
     er_Dependencies = Some [(keyFlinkDependency,
       \<lparr>rd_Kind = ''flink'', rd_Output = raw_doc (JObj [(''kube_cluster'', flow_cluster), (''kube_namespace'', JStr ''flow'')])\<rparr>)]\<rparr>"

definition lab_params :: "string list dg_params" where
  "lab_params =
     \<lparr>dgp_kube = lab_kube, dgp_helm = lab_helm, dgp_deleting = (\<lambda>p. False), dgp_Now = (\<lambda>l. 1000), dgp_ParseTime = lab_time,
      dgp_FormatTime = (\<lambda>t. None), dgp_md5 = lab_md5, dgp_validateConfig = lab_valid, dgp_engine = lab_engine,
      dgp_print = (\<lambda>n. False), dgp_release_defaults = lab_defaults\<rparr>"

lemma lab_params_fields [simp]:
  "dgp_ParseTime lab_params = lab_time" "dgp_md5 lab_params = lab_md5" "dgp_validateConfig lab_params = lab_valid"
  by (simp_all add: lab_params_def)

definition orders_dc :: dg_driverConf where
  "orders_dc = (dg_defaultDriverConf None)
     \<lparr>dd_EnvVariables := Some [(''SINK_KAFKA_STREAM'', ''main''), (cfgAutoOffsetReset, ''latest'')], dd_JarURI := ''dagger.jar''\<rparr>"

definition orders_conf :: dg_Config where
  "orders_conf = zero_dg_Config
     \<lparr>dc_Source :=
        [zero_Source\<lparr>so_SourceDetails := Some [\<lparr>sd_SourceName = ''KAFKA_CONSUMER'', sd_SourceType = ''UNBOUNDED''\<rparr>],
           so_Kafka := (so_Kafka zero_Source)
             \<lparr>sk_AutoOffsetReset := ''latest'', sk_Name := ''main'', sk_GroupID := ''proj-orders-dagger-0001''\<rparr>\<rparr>],
      dc_Sink := (dc_Sink zero_dg_Config)\<lparr>si_Kafka := (si_Kafka (dc_Sink zero_dg_Config))\<lparr>snk_Topic := ''enriched''\<rparr>\<rparr>,
      dc_EnvVariables := Some
        [(''SINK_KAFKA_STREAM'', []), (''FLINK_SQL_QUERY'', ''SELECT 1''), (''SINK_TYPE'', ''KAFKA''),
         (''SINK_KAFKA_BROKERS'', []), (''SINK_KAFKA_PROTO_MESSAGE'', []), (''SINK_KAFKA_TOPIC'', ''enriched''),
         (''SINK_KAFKA_PROTO_KEY'', []), (''SINK_KAFKA_LINGER_MS'', []), (''FLINK_JOB_ID'', ''proj-orders-dagger'')],
      dc_Replicas := 2, dc_SinkType := ''KAFKA'', dc_Team := ''core'', dc_DeploymentID := ''proj-orders-dagger'',
      dc_ChartValues := Some (zero_dg_ChartValues\<lparr>dcv_ImageRepository := ''r'', dcv_ChartVersion := ''0.1.0''\<rparr>),
      dc_Namespace := ''flow'', dc_CloudProvider := ''gcp''\<rparr>"

lemma orders_read: "dg_readConfig lab_time lab_md5 lab_valid (orders_exr configs) (raw_doc orders_doc) orders_dc = Ok orders_conf"
  by code_simp


theorem dg_no_source_panics_witness:
  "dg_readConfig lab_time lab_md5 lab_valid (orders_exr None) (raw_doc (JObj [(''sink_type'', JStr ''KAFKA'')])) orders_dc =
     Panic index_panic"
proof -
  let ?raw = "raw_doc (JObj [(''sink_type'', JStr ''KAFKA'')])" and ?cfg = "zero_dg_Config\<lparr>dc_SinkType := ''KAFKA''\<rparr>"
  have u: "Unmarshal (dg_Config_fields lab_time) ?raw zero_dg_Config = Ok ?cfg"
    by code_simp
  have s: "dc_Source ?cfg = []"
    by (simp add: zero_dg_Config_def)
  have d: "dg_deployment_id lab_md5 (er_Resource (orders_exr None)) (dc_DeploymentID ?cfg) = Ok ''proj-orders-dagger''"
    by code_simp
  show ?thesis by (rule dg_no_source_panics [OF u s d])
qed

theorem dagger_names_collide_witness:
  "dg_deployment_id lab_md5 (orders_resource\<lparr>res_Name := ''My_Orders''\<rparr>) [] =
   dg_deployment_id lab_md5 (orders_resource\<lparr>res_Name := ''my orders''\<rparr>) []"
proof (rule dagger_names_collide)
  show "slug (res_Name (orders_resource\<lparr>res_Name := ''My_Orders''\<rparr>)) = slug (res_Name (orders_resource\<lparr>res_Name := ''my orders''\<rparr>))"
    by code_simp
qed simp

definition orders_dd :: "string list daggerDriver" where
  "orders_dd = dagger_driver lab_params orders_dc"

definition orders_action :: "string \<Rightarrow> json \<Rightarrow> ActionRequest" where
  "orders_action name params = \<lparr>act_Name = name, act_Params = raw_doc params, act_Labels = None, act_UserID = [],
     act_LabelsShared = False\<rparr>"

text \<open>Without templates for labels, a release can be rendered for every complete configuration.\<close>

lemma orders_release:
  assumes "dc_ChartValues conf \<noteq> None" and "dc_EnvVariables conf \<noteq> None" and "res_Name r = ''orders''" and "res_Project r = ''proj''"
  shows "\<exists>rc. dg_getHelmRelease orders_dd orders_dc r conf kubeOut = Ok rc"
proof -
  have "BuildResourceName lab_md5 ''dagger'' ''orders'' ''proj'' max_int = Ok ''proj-orders-dagger''"
    by code_simp
  moreover have "dd_Labels orders_dc = None" by (simp add: orders_dc_def dg_defaultDriverConf_def)
  ultimately show ?thesis
    using assms
    by (auto simp: dg_getHelmRelease_def orders_dd_def dagger_driver_def lab_params_def dg_renderTpl_def renderTpl_def put_env_def)
qed

definition orders_stored :: ExpandedResource where
  "orders_stored = orders_exr (raw_doc orders_doc)"

definition orders_stop_labels :: "(string \<times> string) list" where
  "orders_stop_labels = put labelState StateUserStopped (put labelJobState JobStateSuspended [(''owner'', ''core'')])"

definition orders_stopped :: Resource where
  "orders_stopped = (dg_with_config (er_Resource orders_stored) (Some orders_stop_labels) (dg_plan_stop orders_conf))
     \<lparr>res_State := pending 1000 (st_Output (res_State (er_Resource orders_stored)))
        \<lparr>ftd_PendingSteps = [stepReleaseUpdate], ftd_ResetOffsetTo = []\<rparr>\<rparr>"

abbreviation orders_stop :: ActionRequest where
  "orders_stop \<equiv> orders_action StopAction (JObj [])"

lemma orders_conf_complete: "dc_ChartValues orders_conf \<noteq> None" "dc_EnvVariables orders_conf \<noteq> None" "dc_StopTime orders_conf = None"
  by (simp_all add: orders_conf_def zero_dg_Config_def)

definition orders_flink :: flink_Output where
  "orders_flink = (case flink_dependency orders_stored of Ok f \<Rightarrow> f | _ \<Rightarrow> zero_flink_Output)"

lemma orders_flink_read: "flink_dependency orders_stored = Ok orders_flink"
  unfolding orders_flink_def by code_simp

lemma orders_read_stored: "dg_readConfig lab_time lab_md5 lab_valid orders_stored (raw_doc orders_doc) orders_dc = Ok orders_conf"
  unfolding orders_stored_def by (rule orders_read)

lemma orders_dd_fields [simp]:
  "dgd_ReadConfig orders_dd = dg_readConfig lab_time lab_md5 lab_valid" "dgd_conf orders_dd = orders_dc"
  "dgd_Now orders_dd l = 1000" "dgd_consumerReset orders_dd = dg_consumerReset"
  by (simp_all add: orders_dd_def) (simp_all add: dagger_driver_def lab_params_def)

lemma orders_stored_fields [simp]:
  "sp_Configs (res_Spec (er_Resource orders_stored)) = raw_doc orders_doc"
  "res_Labels (er_Resource orders_stored) = Some [(''owner'', ''core'')]" "res_Name (er_Resource orders_stored) = ''orders''"
  "res_Project (er_Resource orders_stored) = ''proj''"
  by (simp_all add: orders_stored_def orders_exr_def orders_resource_def)

text \<open>The stop names no labels, so the states are written into the labels of the resource.\<close>

definition orders_stop_plan :: Planned where
  "orders_stop_plan = \<lparr>pl_Resource = orders_stopped, pl_ResLabels = Some orders_stop_labels, pl_ActLabels = None\<rparr>"

lemma orders_stop_plan_fields [simp]:
  "pl_Resource orders_stop_plan = orders_stopped" "pl_ResLabels orders_stop_plan = Some orders_stop_labels"
  "pl_ActLabels orders_stop_plan = None"
  by (simp_all add: orders_stop_plan_def)

lemma orders_plan_stop: "dg_Plan orders_dd orders_stored orders_stop [] = (Ok orders_stop_plan, [])"
proof -
  have names: "StopAction \<noteq> CreateAction" "StopAction \<noteq> ResetAction" "StopAction \<noteq> UpdateAction"
    by (simp_all add: fh_action_defs action_defs)
  have "\<exists>rc. dg_getHelmRelease orders_dd orders_dc (dg_with_config (er_Resource orders_stored) ls (dg_plan_stop orders_conf))
      (dg_plan_stop orders_conf) kubeOut = Ok rc" for ls kubeOut
    using orders_conf_complete by (intro orders_release) (simp_all add: dg_plan_stop_def dg_with_config_def)
  then have v: "dg_validateHelmReleaseConfigs orders_dd orders_dc orders_stored
      (dg_with_config (er_Resource orders_stored) ls (dg_plan_stop orders_conf)) (dg_plan_stop orders_conf) = Ok ()" for ls
    by (simp add: dg_validateHelmReleaseConfigs_def orders_flink_read) (metis result.simps)
  have l: "state_labels (dg_plan_stop orders_conf) (Some ls) =
      Ok (Some (put labelState StateUserStopped (put labelJobState JobStateSuspended ls)))" for ls
    by (simp add: state_labels_def put_env_def dg_plan_stop_def)
  show ?thesis
    by (simp add: dg_Plan_def dg_planChange_def dg_changed_config_def orders_action_def names orders_read_stored liftR_def bindS_def
        ret_def l v orders_stopped_def orders_stop_plan_def orders_stop_labels_def res_labels_written_def)
qed

lemma stop_is_no_create: "act_Name orders_stop \<noteq> CreateAction" "act_Name orders_stop \<noteq> ResetAction"
  by (simp_all add: orders_action_def fh_action_defs action_defs)

theorem dg_plan_keeps_deployment_witness:
  "\<exists>conf. sp_Configs (res_Spec orders_stopped) = raw_doc (dg_Config_json conf) \<and> dc_DeploymentID conf = dc_DeploymentID orders_conf"
  using dg_plan_keeps_deployment [OF orders_plan_stop stop_is_no_create(1)] by (auto simp: orders_read_stored)

theorem dg_plan_states_witness:
  "get_str (mergeLabels (pl_ResLabels orders_stop_plan) (pl_ActLabels orders_stop_plan)) labelState = StateUserStopped"
proof -
  have stop: "act_Name orders_stop = StopAction" "act_Labels orders_stop = None" "\<not> act_LabelsShared orders_stop"
    by (simp_all add: orders_action_def)
  have wf: "wf_map (res_Labels (er_Resource orders_stored))" "wf_map (act_Labels orders_stop)"
    by (simp_all add: wf_map_def stop)
  from dg_plan_states [OF orders_plan_stop stop_is_no_create(2) wf] stop stop_is_no_create(1) show ?thesis by auto
qed

definition orders_reset :: ActionRequest where
  "orders_reset = orders_action ResetAction (JObj [(''to'', JStr ''latest'')])"

theorem dg_plan_streams_witness:
  "\<exists>p conf. dg_Plan orders_dd orders_stored orders_reset [] = (Ok p, []) \<and> sp_Configs (res_Spec (pl_Resource p)) = raw_doc (dg_Config_json conf) \<and>
     lookup (dc_EnvVariables conf) keyStreams = Some (streams_text (dc_Source conf))"
proof -
  have read: "ParseResetV2Params (act_Params orders_reset) = Ok ''latest''"
    and fixed: "updateStencilSchemaRegistryURLsParams orders_conf orders_reset = Ok orders_conf"
    by code_simp+
  have "dc_Source orders_conf \<noteq> []"
    by (simp add: orders_conf_def)
  then have "\<exists>source. dg_consumerReset (orders_conf\<lparr>dc_ResetOffset := ''latest''\<rparr>) ''latest'' = Ok source"
    by (cases "is_parquet (hd (dc_Source orders_conf))") (auto simp: dg_consumerReset_def neq_Nil_conv)
  then obtain source where "dg_consumerReset (orders_conf\<lparr>dc_ResetOffset := ''latest''\<rparr>) ''latest'' = Ok source" ..
  moreover have r: "act_Name orders_reset = ResetAction" "ResetAction \<noteq> CreateAction"
    by (simp_all add: orders_reset_def orders_action_def fh_action_defs action_defs)
  ultimately obtain p where p: "dg_Plan orders_dd orders_stored orders_reset [] = (Ok p, [])"
    using read fixed
    by (simp add: dg_Plan_def dg_planReset_def orders_read_stored liftR_def bindS_def ret_def Let_def)
  have "act_Name orders_reset \<in> {CreateAction, UpdateAction, ResetAction}"
    by (simp add: r)
  from dg_plan_streams [OF p this] p show ?thesis by blast
qed

definition stopped_conf :: dg_Config where
  "stopped_conf = (case dg_readConfig lab_time lab_md5 lab_valid (orders_stored\<lparr>er_Resource := orders_stopped\<rparr>)
     (sp_Configs (res_Spec orders_stopped)) orders_dc of Ok c \<Rightarrow> c | _ \<Rightarrow> zero_dg_Config)"

lemma stopped_read:
  "dg_readConfig lab_time lab_md5 lab_valid (orders_stored\<lparr>er_Resource := orders_stopped\<rparr>)
     (sp_Configs (res_Spec orders_stopped)) orders_dc = Ok stopped_conf"
  unfolding stopped_conf_def by code_simp

theorem dg_action_runs_witness:
  "syncs 2 (dg_Sync orders_dd) (orders_stored\<lparr>er_Resource := orders_stopped\<rparr>) =
     bindS (dg_releaseSync orders_dd orders_stopped False stopped_conf (flo_KubeCluster orders_flink)) (\<lambda>_.
     dg_completes orders_dd orders_stopped stopped_conf zero_dg_Output (flo_KubeCluster orders_flink))"
proof -
  have r: "dg_readConfig (dgp_ParseTime lab_params) (dgp_md5 lab_params) (dgp_validateConfig lab_params)
      (orders_stored\<lparr>er_Resource := orders_stopped\<rparr>) (sp_Configs (res_Spec orders_stopped)) orders_dc = Ok stopped_conf"
    using stopped_read by simp
  have out: "dg_readOutputData (dgp_ParseTime lab_params) (orders_stored\<lparr>er_Resource := orders_stopped\<rparr>) = Ok zero_dg_Output"
    by (simp add: dg_readOutputData_def orders_stopped_def pending_def orders_stored_def orders_exr_def orders_resource_def
        zero_Resource_def zero_State_def raw_empty_def)
  from dg_action_runs [OF orders_plan_stop [unfolded orders_dd_def] orders_stop_plan_fields(1) [symmetric] r out orders_flink_read] stop_is_no_create(1)
  show ?thesis unfolding orders_dd_def by simp
qed

theorem dg_output_hides_failure_witness:
  "\<exists>e. dg_completes orders_dd (er_Resource orders_stored) orders_conf zero_dg_Output zero_kube_Output [] =
     (Ok (zero_State\<lparr>st_Status := StatusCompleted,
            st_Output := raw_doc (dg_Output_json (zero_dg_Output\<lparr>do_Error := error_text e\<rparr>))\<rparr>), [])"
proof -
  obtain rc where rc: "dg_getHelmRelease orders_dd (dgd_conf orders_dd) (er_Resource orders_stored) orders_conf zero_kube_Output = Ok rc"
    using orders_release [of orders_conf "er_Resource orders_stored" zero_kube_Output] orders_conf_complete by auto
  have "getKubeResources orders_dd (ko_Configs zero_kube_Output) ns name dep [] =
      (Err (EErr (WithMsgf ErrInternal ''failed to convert flink deployment status to map[string]interface{}'')), [])" for ns name dep
    by code_simp
  from dg_output_hides_failure [OF rc this orders_conf_complete(3), of zero_dg_Output] show ?thesis by blast
qed

end
