(* ===== verification/Log_Stream.thy ===== *)
theory Log_Stream
  imports Kube_Client "HOL-Library.Sublist"
begin

text \<open>
  The goroutines behind a log request. \<open>streamFromPods\<close> of \<open>pkg/kube\<close> starts one \<open>streamContainerLogs\<close> per
  container, which reads the log of the container and sends each chunk on one channel, and one goroutine
  that closes the channel when all have ended; the \<open>Log\<close> of a driver starts one more that relays the
  chunks to a second channel, from which the handler of the API receives. The channels have no buffer, so
  a chunk is handed over in one step. The steps of the goroutines interleave freely. The last section is
  the watch of a job, the other channel of \<open>pkg/kube\<close>.
\<close>

section \<open>The goroutines\<close>

text \<open>The results of reading a container's log, in order. A read of an \<open>io.Reader\<close> gives bytes and an error or
  none: its end, a cancelled request or another one; it may give bytes together with an error.\<close>

datatype read_error = EOF | Canceled | ReadFailed gerror

datatype read_result = Read (read_bytes: string) (read_err: "read_error option")

text \<open>Where a goroutine of \<open>streamContainerLogs\<close> is; \<open>Ended (Some err)\<close> is the error that is logged.\<close>

datatype copier_at = Reading "read_result list" | Sending LogChunk "read_result list" | Ended "gerror option"

record copier =
  cp_Pod :: string
  cp_Container :: string
  cp_At :: copier_at

definition chunk_labels :: "string \<Rightarrow> string \<Rightarrow> labels" where
  "chunk_labels podName container = Some [(''pod'', podName), (''container'', container)]"

definition logChunk :: "string \<Rightarrow> string \<Rightarrow> string \<Rightarrow> LogChunk" where
  "logChunk podName container bytes = \<lparr>lc_Data = bytes, lc_Labels = chunk_labels podName container\<rparr>"

text \<open>One turn of the loop up to the send. The error is looked at first, and with one the bytes are not used; a
  read of no bytes and no error sleeps and goes on.\<close>

definition read_once :: "string \<Rightarrow> string \<Rightarrow> read_result \<Rightarrow> read_result list \<Rightarrow> copier_at" where
  "read_once podName container r rs =
     (case read_err r of
        Some EOF \<Rightarrow> Ended None
      | Some Canceled \<Rightarrow> Ended None
      | Some (ReadFailed err) \<Rightarrow> Ended (Some err)
      | None \<Rightarrow>
          if read_bytes r = [] then Reading rs else Sending (logChunk podName container (read_bytes r)) rs)"

datatype relay_at = Waiting | Holding LogChunk | Stopped

text \<open>
  \<open>lp_Done\<close>: the context is cancelled; \<open>lp_Closed\<close>: the first channel is closed; the second is closed when
  the relay has stopped; \<open>lp_Gone\<close>: the handler has returned; \<open>lp_Received\<close>: the chunks it has received.
\<close>

record pipeline =
  lp_Copiers :: "copier list"
  lp_Closed :: bool
  lp_Relay :: relay_at
  lp_Received :: "LogChunk list"
  lp_Done :: bool
  lp_Gone :: bool

text \<open>The logs of the wanted containers: what opening and reading each gives.\<close>

type_synonym container_log = "(string \<times> string) \<times> (gerror + read_result list)"

definition start_copier :: "container_log \<Rightarrow> copier" where
  "start_copier l =
     \<lparr>cp_Pod = fst (fst l), cp_Container = snd (fst l),
      cp_At = (case snd l of Inl err \<Rightarrow> Ended (Some err) | Inr reads \<Rightarrow> Reading reads)\<rparr>"

definition start_pipeline :: "container_log list \<Rightarrow> pipeline" where
  "start_pipeline ls =
     \<lparr>lp_Copiers = map start_copier ls, lp_Closed = False, lp_Relay = Waiting, lp_Received = [], lp_Done = False,
      lp_Gone = False\<rparr>"

definition set_copier :: "pipeline \<Rightarrow> nat \<Rightarrow> copier_at \<Rightarrow> pipeline" where
  "set_copier p i at = p\<lparr>lp_Copiers := (lp_Copiers p)[i := (lp_Copiers p ! i)\<lparr>cp_At := at\<rparr>]\<rparr>"

definition exited :: "copier \<Rightarrow> bool" where
  "exited c \<longleftrightarrow> (case cp_At c of Ended e \<Rightarrow> True | _ \<Rightarrow> False)"

section \<open>Steps\<close>

text \<open>
  A cancelled context makes a pending read fail as cancelled and a pending send of a copier give up. The
  relay looks at the context only while it waits for a chunk. The handler leaves because the context is
  cancelled or because it cannot send to its client, which cancels the context.
\<close>

inductive log_step :: "pipeline \<Rightarrow> pipeline \<Rightarrow> bool" where
  reads: "i < length (lp_Copiers p) \<Longrightarrow> cp_At (lp_Copiers p ! i) = Reading (r # rs) \<Longrightarrow>
    log_step p (set_copier p i (read_once (cp_Pod (lp_Copiers p ! i)) (cp_Container (lp_Copiers p ! i)) r rs))"
| read_cancelled: "i < length (lp_Copiers p) \<Longrightarrow> cp_At (lp_Copiers p ! i) = Reading rs \<Longrightarrow> lp_Done p \<Longrightarrow>
    log_step p (set_copier p i (Ended None))"
| sends: "i < length (lp_Copiers p) \<Longrightarrow> cp_At (lp_Copiers p ! i) = Sending ch rs \<Longrightarrow> lp_Relay p = Waiting \<Longrightarrow>
    log_step p ((set_copier p i (Reading rs))\<lparr>lp_Relay := Holding ch\<rparr>)"
| send_cancelled: "i < length (lp_Copiers p) \<Longrightarrow> cp_At (lp_Copiers p ! i) = Sending ch rs \<Longrightarrow> lp_Done p \<Longrightarrow>
    log_step p (set_copier p i (Ended None))"
| closes: "list_all exited (lp_Copiers p) \<Longrightarrow> \<not> lp_Closed p \<Longrightarrow> log_step p (p\<lparr>lp_Closed := True\<rparr>)"
| relay_ends: "lp_Relay p = Waiting \<Longrightarrow> lp_Closed p \<or> lp_Done p \<Longrightarrow> log_step p (p\<lparr>lp_Relay := Stopped\<rparr>)"
| delivers: "lp_Relay p = Holding ch \<Longrightarrow> \<not> lp_Gone p \<Longrightarrow>
    log_step p (p\<lparr>lp_Relay := Waiting, lp_Received := lp_Received p @ [ch]\<rparr>)"
| cancels: "\<not> lp_Done p \<Longrightarrow> log_step p (p\<lparr>lp_Done := True\<rparr>)"
| leaves: "\<not> lp_Gone p \<Longrightarrow> log_step p (p\<lparr>lp_Done := True, lp_Gone := True\<rparr>)"

section \<open>Every run ends\<close>

fun copier_weight :: "copier_at \<Rightarrow> nat" where
  "copier_weight (Reading rs) = 3 * length rs + 3"
| "copier_weight (Sending ch rs) = 3 * length rs + 5"
| "copier_weight (Ended e) = 0"

definition relay_weight :: "relay_at \<Rightarrow> nat" where
  "relay_weight r = (case r of Waiting \<Rightarrow> 1 | Holding ch \<Rightarrow> 2 | Stopped \<Rightarrow> 0)"

definition log_weight :: "pipeline \<Rightarrow> nat" where
  "log_weight p = sum_list (map (copier_weight \<circ> cp_At) (lp_Copiers p)) + relay_weight (lp_Relay p) +
     (if lp_Closed p then 0 else 1) + (if lp_Done p then 0 else 1) + (if lp_Gone p then 0 else 1)"

lemma sum_list_update_less:
  "i < length xs \<Longrightarrow> f y + k < f (xs ! i) + j \<Longrightarrow> sum_list (map f (xs[i := y])) + k < sum_list (map f xs) + (j :: nat)"
proof (induction xs arbitrary: i)
  case (Cons x xs)
  then show ?case by (cases i) (auto simp: algebra_simps)
qed simp

lemma read_once_weight: "copier_weight (read_once pod c r rs) < copier_weight (Reading (r # rs))"
  by (auto simp: read_once_def split: option.split read_error.split)

lemma set_copier_weight:
  assumes "i < length (lp_Copiers p)" and "copier_weight at + k < copier_weight (cp_At (lp_Copiers p ! i)) + j"
  shows "sum_list (map (copier_weight \<circ> cp_At) (lp_Copiers (set_copier p i at))) + k <
    sum_list (map (copier_weight \<circ> cp_At) (lp_Copiers p)) + j"
  unfolding set_copier_def using assms by (simp add: sum_list_update_less)

lemma log_step_decreases: "log_step p q \<Longrightarrow> log_weight q < log_weight p"
proof (induction rule: log_step.induct)
  case (reads i p r rs)
  then show ?case
    using set_copier_weight [OF reads(1), of _ 0 0] read_once_weight
    by (simp add: log_weight_def) (simp add: set_copier_def)
next
  case (sends i p ch rs)
  then show ?case
    using set_copier_weight [OF sends(1), of "Reading rs" 2 1]
    by (simp add: log_weight_def relay_weight_def) (simp add: set_copier_def)
qed (use set_copier_weight [of _ _ _ 0 0] in \<open>auto simp: log_weight_def relay_weight_def set_copier_def split: relay_at.split\<close>)

section \<open>What is delivered\<close>

text \<open>The bytes of the reads of a log before the first one with an error, those the read with the error gives,
  and all of them; and the data of a container among chunks.\<close>

fun log_bytes :: "read_result list \<Rightarrow> string" where
  "log_bytes [] = []"
| "log_bytes (r # rs) = (if read_err r = None then read_bytes r @ log_bytes rs else [])"

fun dropped_bytes :: "read_result list \<Rightarrow> string" where
  "dropped_bytes [] = []"
| "dropped_bytes (r # rs) = (if read_err r = None then dropped_bytes rs else read_bytes r)"

fun sent_bytes :: "read_result list \<Rightarrow> string" where
  "sent_bytes [] = []"
| "sent_bytes (r # rs) = read_bytes r @ (if read_err r = None then sent_bytes rs else [])"

lemma sent_bytes_split: "sent_bytes rs = log_bytes rs @ dropped_bytes rs"
  by (induction rs) auto

definition bytes_of :: "(read_result list \<Rightarrow> string) \<Rightarrow> container_log \<Rightarrow> string" where
  "bytes_of f l = (case snd l of Inl err \<Rightarrow> [] | Inr reads \<Rightarrow> f reads)"

abbreviation log_of :: "container_log \<Rightarrow> string" where
  "log_of \<equiv> bytes_of log_bytes"

lemma sent_split: "bytes_of sent_bytes l = log_of l @ bytes_of dropped_bytes l"
  by (simp add: bytes_of_def sent_bytes_split split: sum.split)

definition data_of :: "string \<times> string \<Rightarrow> LogChunk list \<Rightarrow> string" where
  "data_of k chs = concat (map lc_Data (filter (\<lambda>ch. lc_Labels ch = chunk_labels (fst k) (snd k)) chs))"

definition handed_over :: "pipeline \<Rightarrow> LogChunk list" where
  "handed_over p = lp_Received p @ (case lp_Relay p of Holding ch \<Rightarrow> [ch] | _ \<Rightarrow> [])"

definition copier_inv :: "bool \<Rightarrow> LogChunk list \<Rightarrow> container_log \<Rightarrow> copier \<Rightarrow> bool" where
  "copier_inv cancelled chs l c \<longleftrightarrow>
     fst l = (cp_Pod c, cp_Container c) \<and>
     (case cp_At c of
        Reading rs \<Rightarrow> data_of (fst l) chs @ log_bytes rs = log_of l
      | Sending ch rs \<Rightarrow>
          lc_Labels ch = chunk_labels (fst (fst l)) (snd (fst l)) \<and> data_of (fst l) chs @ lc_Data ch @ log_bytes rs = log_of l
      | Ended e \<Rightarrow> prefix (data_of (fst l) chs) (log_of l) \<and> (cancelled \<or> data_of (fst l) chs = log_of l))"

definition pipeline_inv :: "container_log list \<Rightarrow> pipeline \<Rightarrow> bool" where
  "pipeline_inv ls p \<longleftrightarrow>
     list_all2 (copier_inv (lp_Done p) (handed_over p)) ls (lp_Copiers p) \<and>
     (lp_Closed p \<longrightarrow> list_all exited (lp_Copiers p)) \<and>
     (lp_Relay p = Stopped \<longrightarrow> lp_Closed p \<or> lp_Done p) \<and> (lp_Gone p \<longrightarrow> lp_Done p)"

lemma data_of_append: "data_of k (xs @ ys) = data_of k xs @ data_of k ys"
  and data_of_Nil [simp]: "data_of k [] = []"
  and data_of_own: "lc_Labels ch = chunk_labels (fst k) (snd k) \<Longrightarrow> data_of k [ch] = lc_Data ch"
  and data_of_other: "lc_Labels ch = chunk_labels (fst j) (snd j) \<Longrightarrow> j \<noteq> k \<Longrightarrow> data_of k [ch] = []"
  by (auto simp: data_of_def chunk_labels_def prod_eq_iff)

lemma copier_inv_start: "copier_inv False [] l (start_copier l)"
  by (cases l) (auto simp: copier_inv_def start_copier_def bytes_of_def split: sum.split)

lemma copier_inv_cancel: "copier_inv b chs l c \<Longrightarrow> copier_inv True chs l c"
  by (auto simp: copier_inv_def split: copier_at.splits)

lemma copier_inv_reads:
  "copier_inv b chs l c \<Longrightarrow> cp_At c = Reading (r # rs) \<Longrightarrow>
     copier_inv b chs l (c\<lparr>cp_At := read_once (cp_Pod c) (cp_Container c) r rs\<rparr>)"
  by (auto simp: copier_inv_def logChunk_def read_once_def split: option.splits read_error.splits)

lemma copier_inv_gives_up: "copier_inv b chs l c \<Longrightarrow> \<not> exited c \<Longrightarrow> copier_inv True chs l (c\<lparr>cp_At := Ended None\<rparr>)"
  by (auto simp: copier_inv_def exited_def intro: prefixI [OF sym] split: copier_at.splits)

lemma copier_inv_sends:
  "copier_inv b chs l c \<Longrightarrow> cp_At c = Sending ch rs \<Longrightarrow> copier_inv b (chs @ [ch]) l (c\<lparr>cp_At := Reading rs\<rparr>)"
  by (auto simp: copier_inv_def data_of_append data_of_own)

lemma copier_inv_other:
  "copier_inv b chs l c \<Longrightarrow> lc_Labels ch = chunk_labels (fst k) (snd k) \<Longrightarrow> k \<noteq> fst l \<Longrightarrow> copier_inv b (chs @ [ch]) l c"
  by (auto simp: copier_inv_def data_of_append data_of_other split: copier_at.splits)

lemma exited_update: "list_all exited cs \<Longrightarrow> i < length cs \<Longrightarrow> exited (cs ! i)"
  by (simp add: list_all_length)

lemma set_copier_inv:
  assumes "pipeline_inv ls p" and "i < length (lp_Copiers p)" and "\<not> exited (lp_Copiers p ! i)"
    and "copier_inv (lp_Done p) (handed_over p) (ls ! i) ((lp_Copiers p ! i)\<lparr>cp_At := at\<rparr>)"
  shows "pipeline_inv ls (set_copier p i at)"
proof -
  have "\<not> lp_Closed p"
    using assms(1-3) exited_update by (auto simp: pipeline_inv_def)
  moreover have "list_all2 (copier_inv (lp_Done p) (handed_over p)) (ls[i := ls ! i]) ((lp_Copiers p)[i := (lp_Copiers p ! i)\<lparr>cp_At := at\<rparr>])"
    using assms(1,4) by (intro list_all2_update_cong) (auto simp: pipeline_inv_def)
  ultimately show ?thesis
    using assms(1) by (simp add: pipeline_inv_def set_copier_def handed_over_def)
qed

lemma pipeline_inv_step:
  assumes "distinct (map fst ls)"
  shows "log_step p q \<Longrightarrow> pipeline_inv ls p \<Longrightarrow> pipeline_inv ls q"
proof (induction rule: log_step.induct)
  case (reads i p r rs)
  then show ?case
    by (intro set_copier_inv copier_inv_reads)
      (auto simp: exited_def pipeline_inv_def list_all2_conv_all_nth)
next
  case (read_cancelled i p rs)
  then have "copier_inv True (handed_over p) (ls ! i) (lp_Copiers p ! i)" "\<not> exited (lp_Copiers p ! i)"
    by (auto simp: pipeline_inv_def list_all2_conv_all_nth exited_def)
  from copier_inv_gives_up [OF this] read_cancelled show ?case
    by (intro set_copier_inv) (auto simp: exited_def)
next
  case (send_cancelled i p ch rs)
  then have "copier_inv True (handed_over p) (ls ! i) (lp_Copiers p ! i)" "\<not> exited (lp_Copiers p ! i)"
    by (auto simp: pipeline_inv_def list_all2_conv_all_nth exited_def)
  from copier_inv_gives_up [OF this] send_cancelled show ?case
    by (intro set_copier_inv) (auto simp: exited_def)
next
  case (sends i p ch rs)
  let ?b = "lp_Done p" and ?cs = "lp_Copiers p" and ?chs = "handed_over p"
  have inv: "length ls = length ?cs" "\<And>j. j < length ?cs \<Longrightarrow> copier_inv ?b ?chs (ls ! j) (?cs ! j)"
    using sends.prems by (auto simp: pipeline_inv_def list_all2_conv_all_nth)
  have open_: "\<not> lp_Closed p"
    using sends exited_update by (fastforce simp: pipeline_inv_def exited_def)
  have lab: "lc_Labels ch = chunk_labels (fst (fst (ls ! i))) (snd (fst (ls ! i)))"
    using inv(2) [OF sends(1)] sends(2) by (simp add: copier_inv_def)
  have "copier_inv ?b (?chs @ [ch]) (ls ! j) (?cs[i := (?cs ! i)\<lparr>cp_At := Reading rs\<rparr>] ! j)" if j: "j < length ?cs" for j
  proof (cases "j = i")
    case True
    then show ?thesis using copier_inv_sends [OF inv(2) [OF sends(1)] sends(2)] j by simp
  next
    case False
    then have "fst (ls ! i) \<noteq> fst (ls ! j)"
      using assms inv(1) sends(1) j by (metis length_map nth_eq_iff_index_eq nth_map)
    then show ?thesis using copier_inv_other [OF inv(2) [OF j] lab] False by simp
  qed
  then show ?case
    using sends inv(1) open_ by (simp add: pipeline_inv_def set_copier_def handed_over_def list_all2_conv_all_nth)
next
  case (cancels p)
  then show ?case
    by (auto simp: pipeline_inv_def handed_over_def intro: list_all2_mono copier_inv_cancel)
next
  case (leaves p)
  then show ?case
    by (auto simp: pipeline_inv_def handed_over_def intro: list_all2_mono copier_inv_cancel)
qed (auto simp: pipeline_inv_def handed_over_def)

lemma pipeline_inv_start: "pipeline_inv ls (start_pipeline ls)"
  by (simp add: pipeline_inv_def start_pipeline_def handed_over_def list_all2_conv_all_nth copier_inv_start)

lemma pipeline_inv_reachable:
  "distinct (map fst ls) \<Longrightarrow> log_step\<^sup>*\<^sup>* (start_pipeline ls) p \<Longrightarrow> pipeline_inv ls p"
  by (erule rtranclp_induct) (auto intro: pipeline_inv_start pipeline_inv_step)

section \<open>Logs that end\<close>

definition ends :: "read_result list \<Rightarrow> bool" where
  "ends rs \<longleftrightarrow> (\<exists>r \<in> set rs. read_err r \<noteq> None)"

definition log_ends :: "container_log \<Rightarrow> bool" where
  "log_ends l \<longleftrightarrow> (case snd l of Inl err \<Rightarrow> True | Inr reads \<Rightarrow> ends reads)"

definition copier_ends :: "copier_at \<Rightarrow> bool" where
  "copier_ends at \<longleftrightarrow> (case at of Reading rs \<Rightarrow> ends rs | Sending ch rs \<Rightarrow> ends rs | Ended e \<Rightarrow> True)"

lemma copier_ends_reads: "ends (r # rs) \<Longrightarrow> copier_ends (read_once pod c r rs)"
  by (auto simp: ends_def copier_ends_def read_once_def split: option.split read_error.split)

lemma copiers_end_set:
  "list_all (copier_ends \<circ> cp_At) (lp_Copiers p) \<Longrightarrow> copier_ends at \<Longrightarrow>
     list_all (copier_ends \<circ> cp_At) (lp_Copiers (set_copier p i at))"
  by (auto simp: set_copier_def list_all_iff dest!: set_update_subset_insert [THEN subsetD])

lemma copiers_end_step:
  "log_step p q \<Longrightarrow> list_all (copier_ends \<circ> cp_At) (lp_Copiers p) \<Longrightarrow> list_all (copier_ends \<circ> cp_At) (lp_Copiers q)"
proof (induction rule: log_step.induct)
  case (reads i p r rs)
  then have "ends (r # rs)"
    by (auto simp: list_all_length copier_ends_def)
  with reads show ?case by (intro copiers_end_set copier_ends_reads)
next
  case (sends i p ch rs)
  then have "copier_ends (Reading rs)"
    by (auto simp: list_all_length copier_ends_def)
  from copiers_end_set [OF sends.prems this, of i] show ?case by (simp add: comp_def)
qed (auto intro: copiers_end_set simp: copier_ends_def)

lemma copiers_end_reachable:
  "log_step\<^sup>*\<^sup>* (start_pipeline ls) p \<Longrightarrow> list_all log_ends ls \<Longrightarrow> list_all (copier_ends \<circ> cp_At) (lp_Copiers p)"
proof (induction rule: rtranclp_induct)
  case base
  then show ?case
    by (auto simp: start_pipeline_def start_copier_def log_ends_def copier_ends_def list_all_iff split: sum.splits)
qed (auto intro: copiers_end_step)

lemma copier_progress:
  assumes "i < length (lp_Copiers p)" and "\<not> exited (lp_Copiers p ! i)" and "copier_ends (cp_At (lp_Copiers p ! i))"
    and "lp_Relay p = Waiting"
  shows "\<exists>q. log_step p q \<and> lp_Done q = lp_Done p"
proof (cases "cp_At (lp_Copiers p ! i)")
  case (Reading rs)
  with assms(3) obtain r rs' where "rs = r # rs'"
    by (cases rs) (auto simp: copier_ends_def ends_def)
  with Reading log_step.reads [OF assms(1)] show ?thesis by (fastforce simp: set_copier_def)
next
  case (Sending ch rs)
  from log_step.sends [OF assms(1) Sending assms(4)] show ?thesis
    by (intro exI conjI) (assumption, simp add: set_copier_def)
next
  case (Ended e)
  with assms(2) show ?thesis by (simp add: exited_def)
qed

section \<open>Properties\<close>

text \<open>C39: What the handler gets of the logs, and what it does not. However the goroutines interleave, what the
  handler has received of a container, in order, is a beginning of the bytes its reads gave; when the
  relay has stopped without a cancellation it is all bytes of the reads before the first one with an
  error, so of all the bytes the reads gave exactly those that came together with the end of the log, or
  with an error, are missing. When the channel of the copiers is closed, no copier is left that could send
  on it.\<close>

theorem logs_delivered:
  assumes "distinct (map fst ls)" and "log_step\<^sup>*\<^sup>* (start_pipeline ls) p"
  shows "(\<forall>l \<in> set ls. prefix (data_of (fst l) (lp_Received p)) (log_of l)) \<and>
    (lp_Relay p = Stopped \<and> \<not> lp_Done p \<longrightarrow> (\<forall>l \<in> set ls. data_of (fst l) (lp_Received p) = log_of l \<and>
       bytes_of sent_bytes l = data_of (fst l) (lp_Received p) @ bytes_of dropped_bytes l)) \<and>
    (lp_Closed p \<longrightarrow> (\<forall>c \<in> set (lp_Copiers p). exited c))"
proof -
  note inv = pipeline_inv_reachable [OF assms]
  have each: "prefix (data_of (fst l) (handed_over p)) (log_of l) \<and>
      (lp_Closed p \<and> \<not> lp_Done p \<longrightarrow> data_of (fst l) (handed_over p) = log_of l)" if l: "l \<in> set ls" for l
  proof -
    obtain i where i: "i < length ls" "ls ! i = l" using l by (auto simp: in_set_conv_nth)
    with inv have c: "copier_inv (lp_Done p) (handed_over p) l (lp_Copiers p ! i)" "i < length (lp_Copiers p)"
      by (auto simp: pipeline_inv_def list_all2_conv_all_nth)
    have "lp_Closed p \<longrightarrow> exited (lp_Copiers p ! i)"
      using inv c(2) by (simp add: pipeline_inv_def list_all_length)
    with c(1) show ?thesis
      by (auto simp: copier_inv_def exited_def intro: prefixI [OF sym] split: copier_at.splits)
  qed
  have part: "prefix (data_of k (lp_Received p)) (data_of k (handed_over p))" for k
    by (simp add: handed_over_def data_of_append)
  have whole: "lp_Closed p" "handed_over p = lp_Received p" if "lp_Relay p = Stopped \<and> \<not> lp_Done p"
    using inv that by (auto simp: pipeline_inv_def handed_over_def)
  show ?thesis
  proof (intro conjI ballI impI)
    show "prefix (data_of (fst l) (lp_Received p)) (log_of l)" if "l \<in> set ls" for l
      using part each [OF that] by (blast intro: prefix_order.trans)
    show "data_of (fst l) (lp_Received p) = log_of l" if "lp_Relay p = Stopped \<and> \<not> lp_Done p" "l \<in> set ls" for l
      using each [OF that(2)] whole [OF that(1)] that(1) by simp
    then show "bytes_of sent_bytes l = data_of (fst l) (lp_Received p) @ bytes_of dropped_bytes l"
      if "lp_Relay p = Stopped \<and> \<not> lp_Done p" "l \<in> set ls" for l
      using that by (simp add: sent_split)
    show "exited c" if "lp_Closed p" "c \<in> set (lp_Copiers p)" for c
      using inv that by (simp add: pipeline_inv_def list_all_iff)
  qed
qed

text \<open>C40: A log request ends. The number of steps of a run is bounded; and when every log ends, a pipeline that was not
  cancelled either has a step that does not cancel it or has stopped, so it runs until the handler has
  received all chunks of all logs.\<close>

theorem logs_end:
  assumes "distinct (map fst ls)" and "list_all log_ends ls" and "(log_step ^^ n) (start_pipeline ls) p"
  shows "n \<le> log_weight (start_pipeline ls) \<and>
    (\<not> lp_Done p \<longrightarrow> lp_Relay p = Stopped \<or> (\<exists>q. log_step p q \<and> \<not> lp_Done q))"
proof -
  have "n + log_weight p \<le> log_weight (start_pipeline ls)"
    using assms(3)
  proof (induction n arbitrary: p)
    case (Suc n)
    then obtain q where "(log_step ^^ n) (start_pipeline ls) q" "log_step q p" by auto
    with Suc.IH [of q] log_step_decreases [of q p] show ?case by simp
  qed simp
  moreover have steps: "log_step\<^sup>*\<^sup>* (start_pipeline ls) p"
    using assms(3) by (rule relpowp_imp_rtranclp)
  have "lp_Relay p = Stopped \<or> (\<exists>q. log_step p q \<and> \<not> lp_Done q)" if "\<not> lp_Done p"
  proof (cases "lp_Relay p")
    case Waiting
    show ?thesis
    proof (cases "list_all exited (lp_Copiers p)")
      case True
      then have "\<exists>q. log_step p q \<and> lp_Done q = lp_Done p"
        using log_step.closes [of p] log_step.relay_ends [of p] Waiting by (cases "lp_Closed p") fastforce+
      with that show ?thesis by blast
    next
      case False
      then obtain i where "i < length (lp_Copiers p)" "\<not> exited (lp_Copiers p ! i)"
        by (auto simp: list_all_length)
      with copier_progress [OF this _ Waiting] copiers_end_reachable [OF steps assms(2)] that show ?thesis
        by (auto simp: list_all_length)
    qed
  next
    case (Holding ch)
    have "\<not> lp_Gone p"
      using pipeline_inv_reachable [OF assms(1) steps] that by (auto simp: pipeline_inv_def)
    with log_step.delivers [OF Holding] that show ?thesis by fastforce
  qed simp
  ultimately show ?thesis by simp
qed

text \<open>A relay that holds a chunk when the handler has left is blocked for good: it looks at the context only
  while it waits.\<close>

lemma relay_blocked:
  "log_step\<^sup>*\<^sup>* p q \<Longrightarrow> lp_Gone p \<Longrightarrow> lp_Relay p = Holding ch \<Longrightarrow> lp_Gone q \<and> lp_Relay q = Holding ch"
proof (induction rule: rtranclp_induct)
  case (step q r)
  then have "lp_Gone q" "lp_Relay q = Holding ch" by simp_all
  with step(2) show ?case by cases (auto simp: set_copier_def)
qed simp

section \<open>The watch of a job\<close>

text \<open>
  \<open>Processor\<close> with its watch, whose channel gives events until it is closed. \<open>jobs_Watch\<close> is the call of the
  library: a watch, or none with an error. \<open>WatchCompletion\<close> sends one status when the channel is closed.
\<close>

record ('s, 'w) watching = "'s Processor" +
  pr_watch :: "'w list option"

definition CreateWatch ::
    "(int \<times> string \<Rightarrow> 'w list option \<times> gerror option) \<Rightarrow> ('s, 'w) watching \<Rightarrow> gerror option \<times> ('s, 'w) watching" where
  "CreateWatch jobs_Watch jp =
     (let (w, err) = jobs_Watch (WatchOptions (pr_Job jp)) in (err, jp\<lparr>pr_watch := w\<rparr>))"

fun drain :: "'w list \<Rightarrow> job_Status" where
  "drain [] = \<lparr>js_Status = Finished, js_Err = None\<rparr>"
| "drain (event # events) = drain events"

definition WatchCompletion :: "('s, 'w) watching \<Rightarrow> job_Status" where
  "WatchCompletion jp =
     (case pr_watch jp of
        None \<Rightarrow> \<lparr>js_Status = InvalidStatus, js_Err = Some (PlainErr ''watcher Object is not initialized'')\<rparr>
      | Some events \<Rightarrow> drain events)"

text \<open>A watch reports the end of the watch, not of the job: whatever the events are, the status is the same.\<close>

lemma watch_status:
  "js_Status (WatchCompletion jp) = (if pr_watch jp = None then InvalidStatus else Finished)"
proof -
  have "js_Status (drain events) = Finished" for events :: "'b list"
    by (induction events) simp_all
  then show ?thesis by (auto simp: WatchCompletion_def split: option.split)
qed

end
