(* ===== verification/Witnesses_Whole.thy ===== *)
theory Witnesses_Whole
  imports Whole_Program Witnesses_Firehose Scenario Log_Stream Witnesses_Api
begin

text \<open>
  The whole program, over libraries that answer every call and a cluster without jobs; its REST API on the
  installation of \<open>Scenario\<close>, behind a gateway whose patterns match segment by segment; and the logs of a
  pod with two containers.
\<close>

section \<open>The libraries\<close>

definition quiet_helm :: "unit world helm_API" where
  "quiet_helm =
     \<lparr>hm_ServerURL = (\<lambda>h t. Ok (''https://'' @ h)), hm_Init = (\<lambda>c. ret ()), hm_Get = (\<lambda>c n. fail (PlainErr ''release: not found'')),
      hm_Locate = (\<lambda>opts n. ret n), hm_Load = (\<lambda>p. ret \<lparr>hch_Path = p, hch_Type = ''application''\<rparr>),
      hm_Install = (\<lambda>c i ch v. ret lab_release), hm_Upgrade = (\<lambda>c u n ch v. ret lab_release), hm_Uninstall = (\<lambda>c n. ret ()),
      hm_IsRequestURI = (\<lambda>s. True)\<rparr>"

definition quiet_env :: "unit world fh_env" where
  "quiet_env =
     \<lparr>fe_kube = lab_kube, fe_helm = quiet_helm, fe_polls = 3, fe_job_status = (\<lambda>j. []), fe_wait = (\<lambda>d. ret False),
      fe_deleting = (\<lambda>p. False), fe_Now = w_now, fe_ParseTime = lab_time, fe_sha256 = lab_sha,
      fe_validateConfig = lab_valid, fe_engine = lab_engine, fe_release_defaults = lab_defaults\<rparr>"

definition quiet_params :: "unit world dg_params" where
  "quiet_params =
     \<lparr>dgp_kube = lab_kube, dgp_helm = quiet_helm, dgp_deleting = (\<lambda>p. False), dgp_Now = w_now, dgp_ParseTime = lab_time,
      dgp_FormatTime = (\<lambda>t. None), dgp_md5 = lab_sha, dgp_validateConfig = lab_valid, dgp_engine = lab_engine,
      dgp_print = (\<lambda>n. False), dgp_release_defaults = lab_defaults\<rparr>"

definition quiet_libraries :: "unit world libraries" where
  "quiet_libraries =
     \<lparr>lib_kube = lab_kube, lib_kube_defaults = zero_kube_Config, lib_firehose = quiet_env, lib_firehose_struct = (\<lambda>c. None),
      lib_firehose_shared = fh_default_maps, lib_sha256 = lab_sha, lib_job_schema = lab_valid, lib_job_struct = (\<lambda>c. None),
      lib_job_clock = w_now, lib_job_shared = job_default_resources, lib_kafka_schema = lab_valid, lib_dagger = quiet_params,
      lib_dagger_struct = (\<lambda>c. None), lib_dagger_shared = None\<rparr>"

lemma lab_kube_ok: "api_ok lab_kube"
  by (simp add: api_ok_def lab_kube_def google_ok_def job_interface_ok_def outside_ret outside_fail)

lemma quiet_helm_ok: "helm_ok quiet_helm"
  by (simp add: helm_ok_def quiet_helm_def outside_ret outside_fail)

lemma lab_engine_ok: "engine_ok lab_engine"
  by (simp add: engine_ok_def lab_engine_def)

lemma quiet_reset: "fst (DoReset lab_kube 3 (\<lambda>j. []) c ns b g v n s) \<noteq> Ok None"
  by (simp add: DoReset_def RunJob_def lab_kube_def catchS_def ret_def fail_def numeral_3_eq_3 Let_def)

lemma quiet_libraries_ok: "libraries_ok quiet_libraries"
  by (simp add: libraries_ok_def quiet_libraries_def fh_env_ok_def quiet_env_def dg_params_ok_def quiet_params_def lab_kube_ok
      quiet_helm_ok lab_engine_ok outside_ret lab_valid_def quiet_reset)

theorem entropy_with_all_modules_witness:
  "\<exists>reg. setupRegistry any_schema (supported quiet_libraries) = Ok reg \<and>
     lookup (reg_modules reg) ''flink'' = Some flink_Module \<and>
     fst (run_call 5 (entropy demo_store reg 5000000000 3 ''entropy'' demo_counter (\<lambda>_ _ x. x)) (pg_module_Service reg)
       (CallGet demo_urn) world0) \<noteq> Overflow"
proof -
  have seq: "w_res_seq world0 \<le> 5"
    by (simp add: world0_def migrated_def)
  have flink: "find (\<lambda>d. desc_Kind d = ''flink'') (supported quiet_libraries) = Some flink_Module"
    by (simp add: supported_def kubernetes_Module_def firehose_Module_def job_Module_def kafka_Module_def flink_Module_def)
  have start: "reachable svc mr 5 world0" for svc :: "unit world Service" and mr
    unfolding world0_def by (rule reachable.start)
  from entropy_with_all_modules [OF quiet_libraries_ok demo_meter demo_scan, of any_schema 5000000000 3 "''entropy''" "\<lambda>_ _ x. x"]
  obtain reg where "setupRegistry any_schema (supported quiet_libraries) = Ok reg"
    and "\<forall>k. lookup (reg_modules reg) k = find (\<lambda>d. desc_Kind d = k) (supported quiet_libraries)"
    and "\<forall>n s. reachable (entropy demo_store reg 5000000000 3 ''entropy'' demo_counter (\<lambda>_ _ x. x)) (pg_module_Service reg) n s \<longrightarrow>
       w_res_seq s \<le> n \<longrightarrow> (\<forall>c. fst (run_call n (entropy demo_store reg 5000000000 3 ''entropy'' demo_counter (\<lambda>_ _ x. x))
         (pg_module_Service reg) c s) \<noteq> Overflow)"
    by blast
  then show ?thesis
    using flink start seq by (intro exI [of _ reg] conjI) (simp_all del: run_call.simps)
qed

section \<open>A gateway\<close>

fun match_ops :: "int list \<Rightarrow> string list \<Rightarrow> string list \<Rightarrow> string \<Rightarrow> (string \<times> string) list \<Rightarrow> (string \<times> string) list option" where
  "match_ops (op # k # ops) pool segs seen params =
     (if op = 5 then match_ops ops pool segs seen (params @ [(pool ! nat k, seen)])
      else if op = 4 then match_ops ops pool segs seen params
      else case segs of
          [] \<Rightarrow> None
        | seg # rest \<Rightarrow>
            if op = 1 then match_ops ops pool rest seg params
            else if seg = pool ! nat k then match_ops ops pool rest seen params
            else None)"
| "match_ops ops pool segs seen params = (if segs = [] then Some params else None)"

fun first_route :: "nat \<Rightarrow> (string \<times> gw_pattern) list \<Rightarrow> http_request \<Rightarrow> (nat \<times> string gomap) option" where
  "first_route i [] req = None"
| "first_route i ((meth, pat) # routes) req =
     (case match_ops (gp_ops pat) (gp_pool pat) (tl (split_on (CHR ''/'') (hq_Path req))) [] [] of
        Some params \<Rightarrow> if meth = hq_Method req then Some (i, Some params) else first_route (Suc i) routes req
      | None \<Rightarrow> first_route (Suc i) routes req)"

text \<open>The message the decoder has allocated when it finds the body empty.\<close>

definition empty_message :: "json pb_Resource" where
  "empty_message =
     \<lparr>pbr_Urn = [], pbr_Kind = [], pbr_Name = [], pbr_Project = [], pbr_Labels = None, pbr_CreatedAt = None, pbr_UpdatedAt = None,
      pbr_Spec = None, pbr_State = None, pbr_CreatedBy = [], pbr_UpdatedBy = []\<rparr>"

definition rest_env :: "json gateway_env" where
  "rest_env =
     \<lparr>ge_Find = first_route 0, ge_Unmatched = (\<lambda>req. [WriteHeader 404]),
      ge_Annotate = (\<lambda>annotator req m p. Inr (annotator (hq_Header req))),
      ge_ParseForm = (\<lambda>req. Inr None), ge_String = Inr,
      ge_QueryListResources = (\<lambda>m f d. Inr m), ge_QueryCreateResource = (\<lambda>m f d. Inr m),
      ge_QueryApplyAction = (\<lambda>m f d. Inr m), ge_QueryListModules = (\<lambda>m f d. Inr m),
      ge_DecodeResource = (\<lambda>r. if raw_empty r then AtEOF (Some empty_message) else Decoded (crq_Resource demo_create_request)),
      ge_DecodeUpdateResource = (\<lambda>r. Undecodable (PlainErr ''unused'')), ge_DecodeValue = (\<lambda>r. Undecodable (PlainErr ''unused'')),
      ge_DecodeModule = (\<lambda>r. Undecodable (PlainErr ''unused'')), ge_DecodeUpdateModule = (\<lambda>r. Undecodable (PlainErr ''unused'')),
      ge_DecodeVersion = (\<lambda>r. AtEOF None),
      ge_HTTPError = (\<lambda>req err. [WriteHeader (case err of RpcStatus code_Unimplemented m \<Rightarrow> 501 | _ \<Rightarrow> 500)]),
      ge_Forward = (\<lambda>req msg. [Write (case msg of MsgCreateResource r \<Rightarrow> pbr_Urn r | _ \<Rightarrow> [])])\<rparr>"

definition post_create :: "raw \<Rightarrow> http_request" where
  "post_create body =
     \<lparr>hq_Method = ''POST'', hq_Path = ''/v1beta1/resources'', hq_RawQuery = [], hq_Header = Some [(''User-Id'', [''alice''])],
      hq_Body = Inr body\<rparr>"

definition demo_version :: pb_Version where
  "demo_version = GetVersionAndBuildInfo (\<lambda>s. Inl (PlainErr s)) default_build
     \<lparr>rt_Version = ''go1.20'', rt_GOOS = ''linux'', rt_GOARCH = ''amd64''\<rparr>"

definition demo_routes :: "unit world gw_route list" where
  "demo_routes = rpcHTTPGateway rest_env (\<lambda>msg e s. s) doc_values demo_version (core_ResourceService 5 demo)
     (core_ModuleAPI (pg_module_Service kafka_registry))"

lemma create_routed:
  "routed rest_env demo_routes (post_create body) ''POST'' (collection_pattern ''v1beta1'' ''resources'') (Some [])"
  by (simp add: routed_def demo_routes_def rpcHTTPGateway_def gateway_routes rest_env_def post_create_def collection_pattern_def
      member_pattern_def part_pattern_def pattern_ResourceService_ApplyAction_0_def)

definition get_logs :: http_request where
  "get_logs =
     \<lparr>hq_Method = ''GET'', hq_Path = ''/v1beta1/resources/orn:entropy:kafka:proj:events/logs'', hq_RawQuery = [],
      hq_Header = None, hq_Body = Inr None\<rparr>"

section \<open>Witnesses\<close>

definition demo_server :: "(unit world, json) server_env" where
  "demo_server =
     \<lparr>sv_newID = Pair ''id'', sv_write_log = (\<lambda>l s. s), sv_notFound = (\<lambda>req. ret [WriteHeader 404]), sv_gateway = rest_env,
      sv_logError = (\<lambda>msg e s. s), sv_pb = doc_values, sv_version = demo_version, sv_cancelled = (\<lambda>s. False),
      sv_send = (\<lambda>chunk. ret ())\<rparr>"

lemma demo_server_ok: "server_env_ok demo_server"
  by (simp add: server_env_ok_def demo_server_def doc_values_total outside_ret) (simp add: ret_def)

theorem entropy_serves_witness:
  "\<exists>reg. setupRegistry any_schema (supported quiet_libraries) = Ok reg \<and>
     fst (http_server demo_server 5 (entropy demo_store reg 5000000000 3 ''entropy'' demo_counter (\<lambda>_ _ x. x))
       (pg_module_Service reg) (post_create None) world0) \<noteq> Overflow"
proof -
  have seq: "w_res_seq world0 \<le> 5"
    by (simp add: world0_def migrated_def)
  have start: "served demo_server svc mr 5 world0" for svc :: "unit world Service" and mr
    unfolding world0_def by (rule served.start)
  from entropy_serves [OF quiet_libraries_ok demo_meter demo_scan demo_server_ok] start seq show ?thesis
    by blast
qed


text \<open>A service whose planner assigns to the nil map of a resource without labels, as that of daggers does.\<close>

definition panicking_rsv :: "unit world ResourceService" where
  "panicking_rsv = (core_ResourceService 5 demo)\<lparr>rsv_CreateResource := (\<lambda>res opts. panicS nil_map_panic)\<rparr>"

abbreviation panicking_routes :: "unit world gw_route list" where
  "panicking_routes \<equiv> rpcHTTPGateway rest_env (\<lambda>msg e s. s) doc_values demo_version panicking_rsv
     (core_ModuleAPI (pg_module_Service kafka_registry))"

theorem http_unserved_witness:
  "mux_ServeHTTP rest_env panicking_routes get_logs world1 = (Ok [WriteHeader 501], world1) \<and>
   mux_ServeHTTP rest_env panicking_routes (post_create (raw_doc JNull)) world1 = (Panic nil_map_panic, world1)"
proof
  have routed: "routed rest_env panicking_routes get_logs ''GET'' (part_pattern ''logs'') (Some [(''urn'', ''orn:entropy:kafka:proj:events'')])"
    by (simp add: routed_def rpcHTTPGateway_def gateway_routes rest_env_def get_logs_def collection_pattern_def
        member_pattern_def part_pattern_def pattern_ResourceService_ApplyAction_0_def)
  have "ge_HTTPError rest_env get_logs (RpcStatus code_Unimplemented m) = [WriteHeader 501]" for m
    by (simp add: rest_env_def)
  then show "mux_ServeHTTP rest_env panicking_routes get_logs world1 = (Ok [WriteHeader 501], world1)"
    using http_unserved [THEN conjunct1, rule_format, OF routed] by simp
next
  let ?req = "post_create (raw_doc JNull)"
  have routed: "routed rest_env panicking_routes ?req ''POST'' (collection_pattern ''v1beta1'' ''resources'') (Some [])"
    by (simp add: routed_def rpcHTTPGateway_def gateway_routes rest_env_def post_create_def collection_pattern_def
        member_pattern_def part_pattern_def pattern_ResourceService_ApplyAction_0_def)
  have req: "ge_Annotate rest_env ExtractRequestMetadata ?req (resource_method ''CreateResource'') ''/v1beta1/resources'' = Inr alice"
    "hq_Body ?req = Inr (raw_doc JNull)"
    "ge_DecodeResource rest_env (raw_doc JNull) \<in> {Decoded (crq_Resource demo_create_request), AtEOF (crq_Resource demo_create_request)}"
    "ge_ParseForm rest_env ?req = Inr None"
    "ge_QueryCreateResource rest_env \<lparr>crq_Resource = crq_Resource demo_create_request, crq_DryRun = False\<rparr> None
       filter_ResourceService_CreateResource_0 = Inr demo_create_request"
    by (simp_all add: rest_env_def post_create_def alice_def raw_empty_def raw_doc_def demo_create_request_def)
  obtain res where res: "resourceFromProto doc_values (crq_Resource demo_create_request) False = Ok res"
    by (simp add: resourceFromProto_def demo_create_request_def resourceSpecFromProto_def bindR_def map_err_def
        doc_values_def demo_spec_def Let_def)
  have user: "GetUserIdentifier alice = Ok ''alice''"
    by code_simp
  have panic: "api_CreateResource doc_values panicking_rsv alice demo_create_request world1 = (Panic nil_map_panic, world1)"
    by (simp add: api_CreateResource_def res user panicking_rsv_def rpcS_def bindS_def catchS_def liftR_def ret_def panicS_def)
  show "mux_ServeHTTP rest_env panicking_routes ?req world1 = (Panic nil_map_panic, world1)"
    by (rule http_unserved [THEN conjunct2, rule_format]) (rule conjI routed req panic)+
qed

section \<open>A log request\<close>

definition pod_logs :: "container_log list" where
  "pod_logs =
     [((''web-0'', ''app''), Inr [Read ''a'' None, Read [] None, Read ''z'' (Some EOF)]), ((''web-0'', ''side''), Inl (PlainErr ''not started''))]"

definition one_received :: pipeline where
  "one_received =
     \<lparr>lp_Copiers = [\<lparr>cp_Pod = ''web-0'', cp_Container = ''app'', cp_At = Reading [Read [] None, Read ''z'' (Some EOF)]\<rparr>,
        \<lparr>cp_Pod = ''web-0'', cp_Container = ''side'', cp_At = Ended (Some (PlainErr ''not started''))\<rparr>],
      lp_Closed = False, lp_Relay = Waiting, lp_Received = [logChunk ''web-0'' ''app'' ''a''], lp_Done = False, lp_Gone = False\<rparr>"

lemma pod_run: "(log_step ^^ 3) (start_pipeline pod_logs) one_received"
proof -
  let ?p0 = "start_pipeline pod_logs"
  let ?p1 = "set_copier ?p0 0 (Sending (logChunk ''web-0'' ''app'' ''a'') [Read [] None, Read ''z'' (Some EOF)])"
  let ?p2 = "(set_copier ?p1 0 (Reading [Read [] None, Read ''z'' (Some EOF)]))\<lparr>lp_Relay := Holding (logChunk ''web-0'' ''app'' ''a'')\<rparr>"
  have "log_step ?p0 ?p1"
    using log_step.reads [of 0 ?p0 "Read ''a'' None" "[Read [] None, Read ''z'' (Some EOF)]"]
    by (simp add: start_pipeline_def pod_logs_def start_copier_def read_once_def)
  moreover have "log_step ?p1 ?p2"
    by (rule log_step.sends) (simp_all add: start_pipeline_def pod_logs_def set_copier_def)
  moreover have "log_step ?p2 one_received"
    using log_step.delivers [of ?p2 "logChunk ''web-0'' ''app'' ''a''"]
    by (simp add: start_pipeline_def pod_logs_def start_copier_def set_copier_def one_received_def)
  ultimately show ?thesis by (auto simp: numeral_3_eq_3)
qed

theorem logs_delivered_witness:
  "prefix (data_of (''web-0'', ''app'') (lp_Received one_received)) ''a'' \<and> data_of (''web-0'', ''app'') (lp_Received one_received) = ''a''"
proof -
  have d: "distinct (map fst pod_logs)" by (simp add: pod_logs_def)
  have "log_step\<^sup>*\<^sup>* (start_pipeline pod_logs) one_received"
    using pod_run by (rule relpowp_imp_rtranclp)
  from logs_delivered [OF d this] show ?thesis
    by (simp add: pod_logs_def bytes_of_def one_received_def data_of_def logChunk_def)
qed

theorem logs_end_witness: "3 \<le> log_weight (start_pipeline pod_logs) \<and> (\<exists>q. log_step one_received q \<and> \<not> lp_Done q)"
proof -
  have d: "distinct (map fst pod_logs)" and e: "list_all log_ends pod_logs"
    by (simp_all add: pod_logs_def log_ends_def ends_def)
  from logs_end [OF d e pod_run] show ?thesis by (simp add: one_received_def)
qed

end
