(* ===== verification/Spec2Isabelle.thy ===== *)
theory Spec2Isabelle
  imports Witnesses_Core Witnesses_Pg Witnesses_Queue Witnesses_Job Witnesses_Api Witnesses_Firehose Witnesses_Dagger
    Witnesses_Whole
begin

text \<open>
  Entropy is a server that manages resources (Kafka topics, jobs, deployments) through modules. This
  library models its core and states what makes it correct.

  \<^bold>\<open>Parts and theories.\<close>
  \<^item> \<open>Prelude\<close>: results of Go calls (\<open>Ok\<close>, \<open>Err\<close>, \<open>Panic\<close>, and \<open>Overflow\<close> for an exhausted stack), the
    state-passing computations \<open>go\<close> with their sequencing, Go maps as association lists with a nil map,
    and a small Hoare logic over them. \<open>Go_Strings\<close>: the functions of package \<open>strings\<close> and \<open>strconv\<close> the
    code uses, on byte strings. \<open>Json\<close>: JSON values, the text/document view of raw messages, and
    decoding into structs field by field; \<open>Json_More\<close>: the remaining field types. \<open>Go_Text\<close>: runes, the
    printed form of JSON, \<open>%q\<close>, \<open>%04d\<close>, \<open>Atoi\<close> and base 64 with its round trip. \<open>Errors\<close>:
    \<open>pkg/errors\<close> and wrapping of errors.
  \<^item> \<open>Resource\<close>: \<open>core/resource\<close>. \<open>Module_Types\<close>, \<open>Module_Service\<close>: \<open>core/module\<close>. \<open>Registry\<close>:
    \<open>modules/registry.go\<close>. \<open>Core_Service\<close>: the resource service of \<open>core\<close>, over a store and a module
    service given as records of operations; \<open>Core_Laws\<close> proves what it does whatever these are.
  \<^item> \<open>Pg_Base\<close>, \<open>Pg_Resource\<close>, \<open>Pg_Store\<close>: \<open>internal/store/postgres\<close>. The state \<open>world\<close> holds the tables,
    the clock, a script of connection faults consumed one entry per statement, and whatever drivers act
    on. \<open>Pg_Rules\<close>, \<open>Pg_Inv\<close>: transaction rules and the invariant of the tables. \<open>Pg_Service\<close>: the
    service over this store (\<open>entropy\<close>) and the interface \<open>pg_service\<close> with the laws of its modules.
    \<open>Pg_Effects\<close>, \<open>Pg_Roundtrip\<close>, \<open>Pg_Props\<close>: effects of each operation, round trips, paging, sync.
    \<open>Pg_Reach\<close>, \<open>Entropy_Props\<close>: sequences of service calls and the properties of the whole.
  \<^item> \<open>Validator\<close>: \<open>pkg/validator\<close> and \<open>modules/utils.go\<close>; \<open>Names_Laws\<close>: built names fit their limit.
    \<open>Driver_Kafka\<close>: \<open>modules/kafka\<close>.
  \<^item> \<open>Kube_Types\<close>, \<open>Kube_Client\<close>: \<open>pkg/kube\<close> over the record \<open>kube_API\<close> of the calls it makes of the
    Kubernetes client library. \<open>Driver_Kubernetes\<close>: \<open>modules/kubernetes\<close>. \<open>Driver_Job\<close>, \<open>Job_Module\<close>:
    \<open>modules/job\<close>, its configuration, pending-step machine and descriptor; \<open>Job_Laws\<close> proves what they
    do. \<open>Step_Machine\<close> is the interface of drivers that sync one pending step at a time: the syncs after a
    plan run the steps in order and then complete; jobs, firehoses and daggers provide it.
    \<open>Log_Stream\<close>: the goroutines behind a log request as a step relation, from the containers to the
    handler; nothing of a log is lost or reordered, and a request ends when the logs do.
    \<open>Modules_Ok\<close> shows that these modules satisfy the laws of \<open>pg_service\<close>.
  \<^item> \<open>Helm_Client\<close>: \<open>pkg/helm\<close> over the record \<open>helm_API\<close> of the calls it makes of Helm; \<open>Kafka_Reset\<close>:
    \<open>pkg/kafka\<close>. \<open>Firehose_Types\<close>, \<open>Firehose_Config\<close>, \<open>Firehose_Helm\<close>, \<open>Firehose_Driver\<close>,
    \<open>Firehose_Module\<close>: \<open>modules/firehose\<close>, its autoscaler, its configuration, the Helm release it
    renders, planning and syncing, and its descriptor. \<open>Firehose_Laws\<close> proves what they do and
    \<open>Firehose_Ok\<close> that the module satisfies the laws of \<open>pg_service\<close>.
  \<^item> \<open>Driver_Flink\<close>: \<open>modules/flink\<close>; \<open>Flink_Laws\<close>: the type invariant of a cluster's output and that what
    is planned is read back. \<open>Dagger_Types\<close>, \<open>Dagger_Config\<close>, \<open>Dagger_Driver\<close>, \<open>Dagger_Module\<close>:
    \<open>modules/dagger\<close>, its structs, its configuration and consumer groups, the release and planning, and
    syncing, output, logs and descriptor. \<open>Dagger_Groups\<close> proves what a reset does to the groups,
    \<open>Dagger_Laws\<close> what configurations, plans, releases and syncs are, \<open>Dagger_Ok\<close> that both modules satisfy
    the laws of \<open>pg_service\<close>.
  \<^item> \<open>Api\<close>, \<open>Api_Resources\<close>, \<open>Api_Modules\<close>: the handlers of \<open>internal/server/v1\<close> with the translation
    of messages and errors; \<open>Api_Reach\<close>, \<open>Api_Props\<close>: every request is at most one call of a service.
    \<open>Api_Server\<close>: the log wrapper of the handlers, the HTTP middleware and the routes; what the middleware
    does to a request and to its response. \<open>Gateway\<close>: the generated REST gateway of \<open>proto\<close>, the version
    service, and what \<open>Serve\<close> registers, over the record \<open>gateway_env\<close> of the gateway's runtime;
    \<open>Gateway_Laws\<close>: a request over HTTP is at most one call of a service, what a create request answers,
    and what the gateway does not serve.
  \<^item> \<open>Cli\<close>: the client commands of \<open>cli\<close> on resources and modules over the record \<open>cli_env\<close> of what they call
    (the gRPC client, files, encoders, the terminal), with the generated validators they run. \<open>Start\<close>: the
    loading of the configuration and the serve, worker and migrate commands, with \<open>pkg/logger\<close> and
    \<open>pkg/telemetry\<close>, which they set up. \<open>Cli_Laws\<close>: the commands
    connected to the handlers of the server.
  \<^item> \<open>Worker\<close>: \<open>pkg/worker\<close> with the interface \<open>job_queue\<close>; \<open>Pgq\<close>: \<open>pkg/worker/pgq\<close>, which provides it
    (\<open>Pgq_Laws\<close>); \<open>Lease\<close>: several workers on one queue as a step relation.
  \<^item> \<open>Serve\<close>: how \<open>cli/serve.go\<close> puts the parts together; \<open>Whole_Program\<close>: the program with the six modules
    it registers, also as a running server under any sequence of HTTP and gRPC requests and syncer ticks.
    \<open>Scenario\<close> is one concrete installation, \<open>Witnesses_Core\<close>, \<open>Witnesses_Pg\<close>, \<open>Witnesses_Queue\<close> and
    \<open>Witnesses_Api\<close> apply the properties to it; \<open>Witnesses_Job\<close>, \<open>Witnesses_Firehose\<close> and
    \<open>Witnesses_Dagger\<close> do so for a job, a firehose and a dagger on a Flink resource, \<open>Witnesses_Whole\<close> for
    the whole program, the REST API and a log request.

  \<^bold>\<open>Conventions.\<close> Times are integers in nanoseconds, 0 is the zero time; the database keeps
  microseconds (\<open>pg_time\<close>). The page fields are 32-bit words. A pointer receiver that is changed is
  returned. A Go map is iterated in the order of its association list; the properties hold for every
  order. Code outside the repository is a parameter: the telemetry meter, the JSON-schema compiler, the
  struct validator, hashes, the template engines, the parser and the printer of times, the
  table of printable code points, the Kubernetes and Helm libraries, the gRPC transport, the YAML
  and configuration readers,
  the array scanner of the SQL driver, the order of rows without an \<open>ORDER BY\<close>, and the number of
  heartbeat ticks that fire during a call.

  \<^bold>\<open>Fuel.\<close> \<open>GetResource\<close> follows dependencies recursively without a bound; the model takes fuel and
  gives \<open>Overflow\<close> when it runs out. \<open>Pg_Reach\<close> shows that as many units as resource ids were
  handed out are enough in every reachable state, because dependencies are acyclic there. \<open>waitForJob\<close>
  polls a job until it ends and takes the number of polls as fuel; \<open>fh_env_ok\<close> assumes that the job of a
  reset, whose retries are limited, ends within them.

  \<^bold>\<open>Not modelled.\<close> The interceptors of the gRPC server, listening and shutdown, the tracing middleware, the
  registration of commands and flags, the config commands: calls into libraries that hand over values
  and keep no state of the program. Of the generated protocol code the messages, the status enum, the
  in-process gateway and the validators the client runs are modelled; the reflection, the wire format,
  the client stubs, the gateway to a remote server and the other validators, which nothing calls, are
  not. NOT NULL constraints and dropped connections inside \<open>sql.Rows\<close> are not modelled.
\<close>

end
